(* ===== verification/Prelude.thy ===== *)
theory Prelude
  imports Complex_Main "HOL-Library.Code_Target_Nat"
begin

text \<open>
  The shared vocabulary of the development: the fragment of the JavaScript standard
  library that the modelled code uses (string operations on code units, the
  \<open>BigInt\<close> constructor, JSON values), the \<open>null\<close>/\<open>undefined\<close> conventions, and
  the generic lemmas on lists, options and digit strings that the components share.

  Conventions.
  \<^item> A TypeScript \<open>string\<close> is a HOL \<open>string\<close>: a list of code units below 256.
    Every string the modelled code inspects character by character (decimal amounts,
    cron fields, role clauses, addresses) is ASCII.
  \<^item> A field of type \<open>T | null\<close> or an optional field is an \<open>option\<close>; where the code
    tells \<open>null\<close> and \<open>undefined\<close> apart the field is a \<open>nullish\<close>.
  \<^item> A function that may throw returns a sum or an \<open>option\<close>; \<open>None\<close> is the
    exception of a JavaScript builtin (a \<open>SyntaxError\<close> of \<open>BigInt\<close>).
  \<^item> A JavaScript number that is only compared (a confidence) is a \<open>rat\<close>, an
    integer counter is an \<open>int\<close> or a \<open>nat\<close>.
\<close>

named_theorems js_simps \<open>characteristic equations of the JavaScript string operations\<close>

section \<open>null, undefined and JSON\<close>

datatype 'a nullish = Undefined | Null | Value 'a

datatype json =
    JNull
  | JBool bool
  | JNum rat
  | JStr string
  | JArr "json list"
  | JObj "(string \<times> json) list"

text \<open>\<open>x ?? d\<close>, with \<open>null\<close> and \<open>undefined\<close> both read as \<open>None\<close>.\<close>

definition or_else :: "'a option \<Rightarrow> 'a \<Rightarrow> 'a" where
  "or_else x d = (case x of None \<Rightarrow> d | Some y \<Rightarrow> y)"

lemma or_else_simps [simp]:
  "or_else None d = d"
  "or_else (Some y) d = y"
  by (simp_all add: or_else_def)

definition json_opt :: "string option \<Rightarrow> json" where
  "json_opt x = (case x of None \<Rightarrow> JNull | Some s \<Rightarrow> JStr s)"

section \<open>Characters and strings\<close>

abbreviation code_unit :: "char \<Rightarrow> nat" where
  "code_unit c \<equiv> of_char c"

definition is_digit :: "char \<Rightarrow> bool" where
  "is_digit c \<longleftrightarrow> 48 \<le> code_unit c \<and> code_unit c \<le> 57"

definition digit_val :: "char \<Rightarrow> nat" where
  "digit_val c = code_unit c - 48"

text \<open>\<open>String.prototype.trim\<close>: the white space and line terminators below 256.\<close>

definition is_space :: "char \<Rightarrow> bool" where
  "is_space c \<longleftrightarrow> code_unit c \<in> {9, 10, 11, 12, 13, 32, 160}"

definition js_trim :: "string \<Rightarrow> string" where
  "js_trim s = rev (dropWhile is_space (rev (dropWhile is_space s)))"

text \<open>\<open>s.split(c)\<close> for a one-character separator: never empty.\<close>

fun js_split :: "char \<Rightarrow> string \<Rightarrow> string list" where
  "js_split c [] = [[]]"
| "js_split c (x # xs) =
     (if x = c then [] # js_split c xs
      else (case js_split c xs of [] \<Rightarrow> [[x]] | y # ys \<Rightarrow> (x # y) # ys))"

text \<open>\<open>s.padEnd(n, c)\<close> and \<open>s.padStart(n, c)\<close>.\<close>

definition pad_end :: "nat \<Rightarrow> char \<Rightarrow> string \<Rightarrow> string" where
  "pad_end n c s = s @ replicate (n - length s) c"

definition pad_start :: "nat \<Rightarrow> char \<Rightarrow> string \<Rightarrow> string" where
  "pad_start n c s = replicate (n - length s) c @ s"

text \<open>\<open>s.replace(/^0+/, "")\<close> and \<open>s.replace(/0+$/, "")\<close>.\<close>

definition strip_leading_zeros :: "string \<Rightarrow> string" where
  "strip_leading_zeros s = dropWhile (\<lambda>c. c = CHR ''0'') s"

definition strip_trailing_zeros :: "string \<Rightarrow> string" where
  "strip_trailing_zeros s = rev (dropWhile (\<lambda>c. c = CHR ''0'') (rev s))"

text \<open>\<open>s || d\<close>: the empty string is falsy.\<close>

definition nonempty_or :: "string \<Rightarrow> string \<Rightarrow> string" where
  "nonempty_or s d = (if s = [] then d else s)"

text \<open>\<open>a < b\<close> on strings: lexicographic on code units.\<close>

fun str_lt :: "string \<Rightarrow> string \<Rightarrow> bool" where
  "str_lt _ [] = False"
| "str_lt [] (_ # _) = True"
| "str_lt (x # xs) (y # ys) =
     (code_unit x < code_unit y \<or> (x = y \<and> str_lt xs ys))"

definition to_lower_char :: "char \<Rightarrow> char" where
  "to_lower_char c =
     (if 65 \<le> code_unit c \<and> code_unit c \<le> 90 then char_of (code_unit c + 32) else c)"

text \<open>\<open>toLowerCase\<close> on ASCII strings.\<close>

definition to_lower :: "string \<Rightarrow> string" where
  "to_lower s = map to_lower_char s"

definition starts_with :: "string \<Rightarrow> string \<Rightarrow> bool" where
  "starts_with s p \<longleftrightarrow> take (length p) s = p"

definition ends_with :: "string \<Rightarrow> string \<Rightarrow> bool" where
  "ends_with s p \<longleftrightarrow> length p \<le> length s \<and> drop (length s - length p) s = p"

text \<open>\<open>s.includes(p)\<close> for strings.\<close>

fun str_includes :: "string \<Rightarrow> string \<Rightarrow> bool" where
  "str_includes [] p = (p = [])"
| "str_includes (x # xs) p = (starts_with (x # xs) p \<or> str_includes xs p)"

text \<open>\<open>xs.join(sep)\<close>.\<close>

fun js_join :: "string \<Rightarrow> string list \<Rightarrow> string" where
  "js_join sep [] = []"
| "js_join sep [x] = x"
| "js_join sep (x # y # zs) = x @ sep @ js_join sep (y # zs)"

section \<open>Numbers and digit strings\<close>

definition digits_val :: "string \<Rightarrow> nat" where
  "digits_val s = foldl (\<lambda>n c. 10 * n + digit_val c) 0 s"

definition digit_char :: "nat \<Rightarrow> char" where
  "digit_char d = char_of (48 + d)"

lemma digit_char_numerals [simp]:
  "digit_char 0 = CHR ''0''" "digit_char 1 = CHR ''1''" "digit_char (Suc 0) = CHR ''1''"
  "digit_char 2 = CHR ''2''" "digit_char 3 = CHR ''3''" "digit_char 4 = CHR ''4''"
  "digit_char 5 = CHR ''5''" "digit_char 6 = CHR ''6''" "digit_char 7 = CHR ''7''"
  "digit_char 8 = CHR ''8''" "digit_char 9 = CHR ''9''"
  by code_simp+

text \<open>\<open>toString\<close> of a non-negative integer.\<close>

fun show_nat :: "nat \<Rightarrow> string" where
  "show_nat n = (if n < 10 then [digit_char n] else show_nat (n div 10) @ [digit_char (n mod 10)])"

declare show_nat.simps [simp del]

definition show_int :: "int \<Rightarrow> string" where
  "show_int i = (if i < 0 then ''-'' @ show_nat (nat (- i)) else show_nat (nat i))"

lemmas print_eval = show_int_def show_nat.simps

definition hex_digit_val :: "char \<Rightarrow> nat option" where
  "hex_digit_val c =
     (if is_digit c then Some (digit_val c)
      else if 97 \<le> code_unit c \<and> code_unit c \<le> 102 then Some (code_unit c - 87)
      else if 65 \<le> code_unit c \<and> code_unit c \<le> 70 then Some (code_unit c - 55)
      else None)"

text \<open>The digits of a radix; \<open>None\<close> on an empty string or a foreign character.\<close>

fun radix_val :: "nat \<Rightarrow> nat \<Rightarrow> string \<Rightarrow> nat option" where
  "radix_val r acc [] = Some acc"
| "radix_val r acc (c # cs) =
     (case hex_digit_val c of
        None \<Rightarrow> None
      | Some d \<Rightarrow> if d < r then radix_val r (r * acc + d) cs else None)"

definition radix_literal :: "nat \<Rightarrow> string \<Rightarrow> int option" where
  "radix_literal r s = (if s = [] then None else map_option int (radix_val r 0 s))"

text \<open>
  \<open>BigInt(s)\<close>: white space is trimmed, the empty string is 0, a sign is allowed before
  a decimal literal only, \<open>0x\<close>/\<open>0o\<close>/\<open>0b\<close> introduce other radices; anything else is a
  \<open>SyntaxError\<close> (\<open>None\<close>).
\<close>

definition js_BigInt :: "string \<Rightarrow> int option" where
  "js_BigInt s0 =
     (let s = js_trim s0 in
      if s = [] then Some 0
      else if list_all is_digit s then Some (int (digits_val s))
      else if hd s = CHR ''-'' then map_option uminus (radix_literal 10 (tl s))
      else if hd s = CHR ''+'' then radix_literal 10 (tl s)
      else if starts_with s ''0x'' \<or> starts_with s ''0X'' then radix_literal 16 (drop 2 s)
      else if starts_with s ''0o'' \<or> starts_with s ''0O'' then radix_literal 8 (drop 2 s)
      else if starts_with s ''0b'' \<or> starts_with s ''0B'' then radix_literal 2 (drop 2 s)
      else None)"


section \<open>Lemmas on digit strings\<close>

lemma code_unit_less [simp]: "code_unit c < 256"
  using of_char_mod_256 [of c] by (metis mod_less_divisor zero_less_numeral)

lemma digit_val_less: "is_digit c \<Longrightarrow> digit_val c < 10"
  by (auto simp: is_digit_def digit_val_def)

lemma is_digit_zero [simp]: "is_digit CHR ''0''"
  by (simp add: is_digit_def)

lemma digit_val_zero [simp]: "digit_val CHR ''0'' = 0"
  by (simp add: digit_val_def)

lemma digits_val_Nil [simp]: "digits_val [] = 0"
  by (simp add: digits_val_def)

lemma digits_val_snoc [simp]: "digits_val (xs @ [c]) = 10 * digits_val xs + digit_val c"
  by (simp add: digits_val_def)

lemma digits_val_append:
  "digits_val (xs @ ys) = digits_val xs * 10 ^ length ys + digits_val ys"
  by (induction ys rule: rev_induct) (simp_all flip: append_assoc add: algebra_simps)

lemma digits_val_Cons: "digits_val (c # cs) = digit_val c * 10 ^ length cs + digits_val cs"
  using digits_val_append [of "[c]" cs] by (simp add: digits_val_def)

lemma digits_val_replicate_zero [simp]: "digits_val (replicate n CHR ''0'') = 0"
  by (induction n) (simp_all add: digits_val_Cons)

lemma digits_val_bound: "list_all is_digit s \<Longrightarrow> digits_val s < 10 ^ length s"
proof (induction s)
  case (Cons c cs)
  then have IH: "digits_val cs < 10 ^ length cs" and d: "digit_val c \<le> 9"
    using digit_val_less [of c] by auto
  from d have "digit_val c * 10 ^ length cs \<le> 9 * 10 ^ length cs" by (rule mult_le_mono1)
  with IH show ?case unfolding digits_val_Cons length_Cons power_Suc by linarith
qed simp

lemma digits_val_strip [simp]: "digits_val (strip_leading_zeros s) = digits_val s"
  by (induction s) (simp_all add: strip_leading_zeros_def digits_val_Cons)

lemma all_digits_strip [simp]:
  "list_all is_digit s \<Longrightarrow> list_all is_digit (strip_leading_zeros s)"
  by (auto simp: strip_leading_zeros_def list_all_iff dest: set_dropWhileD)

lemma strip_leading_zeros_hd:
  "strip_leading_zeros s \<noteq> [] \<Longrightarrow> hd (strip_leading_zeros s) \<noteq> CHR ''0''"
  using hd_dropWhile [of "\<lambda>c. c = CHR ''0''" s] unfolding strip_leading_zeros_def by blast

lemma digit_val_inject:
  "is_digit x \<Longrightarrow> is_digit y \<Longrightarrow> digit_val x = digit_val y \<longleftrightarrow> x = y"
proof -
  assume "is_digit x" "is_digit y"
  then have "digit_val x = digit_val y \<longleftrightarrow> code_unit x = code_unit y"
    unfolding is_digit_def digit_val_def by arith
  then show ?thesis by simp
qed

lemma digit_val_mono:
  "is_digit x \<Longrightarrow> is_digit y \<Longrightarrow> code_unit x < code_unit y \<longleftrightarrow> digit_val x < digit_val y"
  unfolding is_digit_def digit_val_def by arith

text \<open>A leading digit outweighs the rest of a digit string.\<close>

lemma lead_digit_less:
  assumes "x < (y::nat)" and "m < 10 ^ k"
  shows "x * 10 ^ k + m < y * 10 ^ k + n"
proof -
  have "x * 10 ^ k + m < Suc x * 10 ^ k" using assms(2) by simp
  also have "\<dots> \<le> y * 10 ^ k" using assms(1) by (intro mult_le_mono1) simp
  finally show ?thesis by simp
qed

text \<open>On equal lengths the string order is the numeric order.\<close>

lemma str_lt_digits:
  "length a = length b \<Longrightarrow> list_all is_digit a \<Longrightarrow> list_all is_digit b \<Longrightarrow>
   str_lt a b \<longleftrightarrow> digits_val a < digits_val b"
proof (induction a b rule: str_lt.induct)
  case (3 x xs y ys)
  then have dx: "is_digit x" and dy: "is_digit y" and len: "length xs = length ys"
    and dxs: "list_all is_digit xs" and dys: "list_all is_digit ys" by auto
  note bx = digits_val_bound [OF dxs] and by' = digits_val_bound [OF dys]
  consider "digit_val x < digit_val y" | "x = y" | "digit_val y < digit_val x"
    using digit_val_inject [OF dx dy] by force
  then show ?case
  proof cases
    case 1
    then show ?thesis
      using lead_digit_less [OF 1 bx, of "digits_val ys"] len digit_val_mono [OF dx dy]
      by (simp add: digits_val_Cons)
  next
    case 2
    then show ?thesis using "3.IH" len dxs dys by (cases "x = y") (auto simp: digits_val_Cons)
  next
    case 3
    then show ?thesis
      using lead_digit_less [OF 3, of "digits_val ys" "length ys" "digits_val xs"] len by'
        digit_val_mono [OF dx dy] by (auto simp: digits_val_Cons)
  qed
qed simp_all

lemma digits_val_inject:
  "length a = length b \<Longrightarrow> list_all is_digit a \<Longrightarrow> list_all is_digit b \<Longrightarrow>
   digits_val a = digits_val b \<longleftrightarrow> a = b"
proof (induction a b rule: list_induct2')
  case (4 x xs y ys)
  then have dx: "is_digit x" and dy: "is_digit y" and len: "length xs = length ys"
    and dxs: "list_all is_digit xs" and dys: "list_all is_digit ys" by auto
  note bx = digits_val_bound [OF dxs] and by' = digits_val_bound [OF dys]
  consider "digit_val x < digit_val y" | "x = y" | "digit_val y < digit_val x"
    using digit_val_inject [OF dx dy] by force
  then show ?case
  proof cases
    case 1
    then show ?thesis
      using lead_digit_less [OF 1 bx, of "digits_val ys"] len by (auto simp: digits_val_Cons)
  next
    case 2
    then show ?thesis using "4.IH" len dxs dys by (simp add: digits_val_Cons)
  next
    case 3
    then show ?thesis
      using lead_digit_less [OF 3, of "digits_val ys" "length ys" "digits_val xs"] len by'
      by (auto simp: digits_val_Cons)
  qed
qed auto

text \<open>A digit string without leading zeros that is longer is bigger.\<close>

lemma digits_val_lower:
  assumes "s \<noteq> []" "hd s \<noteq> CHR ''0''" "list_all is_digit s"
  shows "10 ^ (length s - 1) \<le> digits_val s"
proof (cases s)
  case (Cons c cs)
  with assms have "is_digit c" "c \<noteq> CHR ''0''" by auto
  then have "1 \<le> digit_val c"
    using digit_val_inject [of c "CHR ''0''"] by (auto simp: Suc_le_eq)
  then have "1 * 10 ^ length cs \<le> digit_val c * 10 ^ length cs" by (rule mult_le_mono1)
  with Cons show ?thesis by (simp add: digits_val_Cons trans_le_add1)
qed (use assms in simp)

end
