(* ===== verification/Decimal.thy ===== *)
theory Decimal
  imports Prelude
begin

text \<open>
  Decimal-string arithmetic. Amounts travel through the system as decimal strings and are
  compared and added without floating point. The source has four copies of the same
  normaliser: \<open>norm\<close> in shared/src/gate/gate.ts and shared/src/gate/evidence-validator.ts,
  \<open>normalizeDecimal\<close> in services/policy/src/vm.ts, and the snapshot canonicaliser in
  shared/src/gate/snapshot.ts. Each is translated from its own file; the theory then shows
  that all of them compute on the same integer, the amount in units of \<open>10 ^ -18\<close>
  (\<open>dec_units\<close>), through the locales \<open>decimal_order\<close> and \<open>decimal_add\<close>.
\<close>

section \<open>The normal form\<close>

record norm_dec =
  nd_negative :: bool
  nd_int :: string
  nd_frac :: string

text \<open>\<open>const [intRaw, fracRaw = ""] = str.split(".")\<close>\<close>

definition decimal_parts :: "string \<Rightarrow> string \<times> string" where
  "decimal_parts s =
     (case js_split CHR ''.'' s of
        [] \<Rightarrow> ([], [])
      | [i] \<Rightarrow> (i, [])
      | i # f # _ \<Rightarrow> (i, f))"

text \<open>gate.ts \<open>norm\<close>\<close>

definition norm_gate :: "string \<Rightarrow> norm_dec" where
  "norm_gate s =
     (let str0 = js_trim s;
          negative = starts_with str0 ''-'';
          str = (if negative then tl str0 else str0);
          (i, f) = decimal_parts str
      in \<lparr> nd_negative = negative,
           nd_int = nonempty_or (strip_leading_zeros i) ''0'',
           nd_frac = take 18 (pad_end 18 CHR ''0'' f) \<rparr>)"

text \<open>vm.ts \<open>normalizeDecimal\<close>\<close>

definition normalizeDecimal_vm :: "string \<Rightarrow> norm_dec" where
  "normalizeDecimal_vm s =
     (let str0 = js_trim s;
          negative = starts_with str0 ''-'';
          str = (if negative then tl str0 else str0);
          (intPartRaw, fracPartRaw) = decimal_parts str;
          intPart = nonempty_or (strip_leading_zeros intPartRaw) ''0'';
          frac = take 18 (pad_end 18 CHR ''0'' fracPartRaw)
      in \<lparr> nd_negative = negative, nd_int = intPart, nd_frac = frac \<rparr>)"

text \<open>evidence-validator.ts \<open>norm\<close>\<close>

definition norm_evidence :: "string \<Rightarrow> norm_dec" where
  "norm_evidence s =
     (let str0 = js_trim s;
          negative = starts_with str0 ''-'';
          str1 = (if negative then tl str0 else str0);
          (intRaw, fracRaw) = decimal_parts str1
      in \<lparr> nd_negative = negative,
           nd_int = nonempty_or (strip_leading_zeros intRaw) ''0'',
           nd_frac = take 18 (pad_end 18 CHR ''0'' fracRaw) \<rparr>)"

section \<open>Comparison\<close>

text \<open>gate.ts \<open>compareBig\<close>\<close>

definition compareBig :: "string \<Rightarrow> string \<Rightarrow> int" where
  "compareBig a b =
     (if length a \<noteq> length b then (if length a < length b then -1 else 1)
      else if str_lt a b then -1
      else if str_lt b a then 1
      else 0)"

text \<open>vm.ts \<open>compareBigNumeric\<close>\<close>

definition compareBigNumeric :: "string \<Rightarrow> string \<Rightarrow> int" where
  "compareBigNumeric a b =
     (if length a \<noteq> length b then (if length a < length b then -1 else 1)
      else if str_lt a b then -1
      else if str_lt b a then 1
      else 0)"

text \<open>
  gate.ts \<open>cmpDecimal\<close>. JavaScript's \<open>-0\<close> (from negating a zero comparison) is the
  integer 0 here: every caller tests the result with \<open><\<close>, \<open>>\<close> or \<open>!== 0\<close>, which do not
  tell the two apart.
\<close>

definition cmpDecimal :: "string \<Rightarrow> string \<Rightarrow> int" where
  "cmpDecimal a b =
     (let na = norm_gate a; nb = norm_gate b in
      if nd_negative na \<noteq> nd_negative nb then (if nd_negative na then -1 else 1)
      else
        let intCmp = compareBig (nd_int na) (nd_int nb) in
        if intCmp \<noteq> 0 then (if nd_negative na then - intCmp else intCmp)
        else
          let fracCmp = compareBig (nd_frac na) (nd_frac nb) in
          (if nd_negative na then - fracCmp else fracCmp))"

text \<open>vm.ts \<open>compareDecimal\<close>\<close>

definition compareDecimal_vm :: "string \<Rightarrow> string \<Rightarrow> int" where
  "compareDecimal_vm a b =
     (let na = normalizeDecimal_vm a; nb = normalizeDecimal_vm b in
      if nd_negative na \<noteq> nd_negative nb then (if nd_negative na then -1 else 1)
      else
        let intCmp = compareBigNumeric (nd_int na) (nd_int nb) in
        if intCmp \<noteq> 0 then (if nd_negative na then - intCmp else intCmp)
        else
          let fracCmp = compareBigNumeric (nd_frac na) (nd_frac nb) in
          if fracCmp = 0 then 0
          else (if nd_negative na then - fracCmp else fracCmp))"

text \<open>
  evidence-validator.ts \<open>compareDecimal\<close>: through \<open>BigInt\<close>, which throws on a string
  that is not an integer literal (\<open>None\<close>).
\<close>

definition evidence_bigint :: "string \<Rightarrow> int option" where
  "evidence_bigint s =
     (let n = norm_evidence s in
      js_BigInt ((if nd_negative n then ''-'' else []) @ nd_int n @ nd_frac n))"

definition compareDecimal_evidence :: "string \<Rightarrow> string \<Rightarrow> int option" where
  "compareDecimal_evidence a b =
     (case (evidence_bigint a, evidence_bigint b) of
        (Some ia, Some ib) \<Rightarrow> Some (if ia < ib then -1 else if ia > ib then 1 else 0)
      | _ \<Rightarrow> None)"

section \<open>Addition and subtraction\<close>

text \<open>
  The last lines of \<open>addDecimalString\<close>, \<open>addDecimal\<close> and \<open>subtractDecimal\<close>: split a
  padded digit string into its integer part and its 18 fractional digits.
\<close>

definition format_scaled :: "string \<Rightarrow> string" where
  "format_scaled ds =
     (let intPart = nonempty_or (strip_leading_zeros (take (length ds - 18) ds)) ''0'';
          fracPart = strip_trailing_zeros (drop (length ds - 18) ds)
      in if length fracPart > 0 then intPart @ ''.'' @ fracPart else intPart)"

text \<open>gate.ts \<open>addDecimalString\<close>: the signs of the operands are not consulted.\<close>

definition addDecimalString :: "string \<Rightarrow> string \<Rightarrow> string option" where
  "addDecimalString a b =
     (let na = norm_gate a; nb = norm_gate b in
      case (js_BigInt (nd_int na @ nd_frac na), js_BigInt (nd_int nb @ nd_frac nb)) of
        (Some ia, Some ib) \<Rightarrow> Some (format_scaled (pad_start 19 CHR ''0'' (show_int (ia + ib))))
      | _ \<Rightarrow> None)"

text \<open>vm.ts \<open>addDecimal\<close>\<close>

definition addDecimal_vm :: "string \<Rightarrow> string \<Rightarrow> string option" where
  "addDecimal_vm a b =
     (let na = normalizeDecimal_vm a; nb = normalizeDecimal_vm b in
      case (js_BigInt (nd_int na @ nd_frac na), js_BigInt (nd_int nb @ nd_frac nb)) of
        (Some ia, Some ib) \<Rightarrow>
          let sum = (if nd_negative na then -1 else 1) * ia + (if nd_negative nb then -1 else 1) * ib;
              neg = sum < 0;
              body = format_scaled (pad_start 19 CHR ''0'' (show_int (if neg then - sum else sum)))
          in Some (if neg then ''-'' @ body else body)
      | _ \<Rightarrow> None)"

text \<open>evidence-validator.ts \<open>subtractDecimal\<close>\<close>

definition subtractDecimal :: "string \<Rightarrow> string \<Rightarrow> string option" where
  "subtractDecimal a b =
     (case (evidence_bigint a, evidence_bigint b) of
        (Some ia, Some ib) \<Rightarrow>
          let diff = ia - ib;
              neg = diff < 0;
              body = format_scaled (pad_start 19 CHR ''0'' (show_int (if neg then - diff else diff)))
          in Some (if neg \<and> body \<noteq> ''0'' then ''-'' @ body else body)
      | _ \<Rightarrow> None)"

text \<open>snapshot.ts \<open>normalizeDecimal\<close>\<close>

definition normalizeDecimal_snapshot :: "string \<Rightarrow> string" where
  "normalizeDecimal_snapshot s =
     (let str0 = js_trim s;
          negative = starts_with str0 ''-'';
          str = (if negative then tl str0 else str0);
          (intRaw, fracRaw) = decimal_parts str;
          i = nonempty_or (strip_leading_zeros intRaw) ''0'';
          frac = strip_trailing_zeros fracRaw;
          body = (if length frac > 0 then i @ ''.'' @ frac else i)
      in if negative \<and> body \<noteq> ''0'' then ''-'' @ body else body)"

text \<open>gate.ts \<open>AUTONOMOUS_CAP_DECIMAL\<close>, the regular expression \<open>^\d+(\.\d+)?$\<close>\<close>

definition is_decimal :: "string \<Rightarrow> bool" where
  "is_decimal s =
     (case js_split CHR ''.'' s of
        [i] \<Rightarrow> i \<noteq> [] \<and> list_all is_digit i
      | [i, f] \<Rightarrow> i \<noteq> [] \<and> list_all is_digit i \<and> f \<noteq> [] \<and> list_all is_digit f
      | _ \<Rightarrow> False)"

section \<open>The specification: an amount in units of ten to the minus eighteen\<close>

definition dec_mag :: "string \<Rightarrow> nat" where
  "dec_mag s =
     (case decimal_parts s of
        (i, f) \<Rightarrow> digits_val i * 10 ^ 18 + digits_val f * 10 ^ 18 div 10 ^ length f)"

definition dec_units :: "string \<Rightarrow> int" where
  "dec_units s = (if starts_with s ''-'' then - int (dec_mag (tl s)) else int (dec_mag s))"

definition is_signed_decimal :: "string \<Rightarrow> bool" where
  "is_signed_decimal s \<longleftrightarrow> (if starts_with s ''-'' then is_decimal (tl s) else is_decimal s)"

text \<open>A signed decimal that is not a zero written with a minus sign.\<close>

definition is_proper_decimal :: "string \<Rightarrow> bool" where
  "is_proper_decimal s \<longleftrightarrow> is_signed_decimal s \<and> \<not> (starts_with s ''-'' \<and> dec_units s = 0)"


section \<open>Splitting and trimming well-formed strings\<close>

lemma js_split_none: "c \<notin> set s \<Longrightarrow> js_split c s = [s]"
  by (induction s) auto

lemma js_split_append: "c \<notin> set i \<Longrightarrow> js_split c (i @ c # r) = i # js_split c r"
  by (induction i) auto

lemma js_split_not_Nil [simp]: "js_split c s \<noteq> []"
  by (induction s) (auto split: list.splits)

lemma js_split_mem: "p \<in> set (js_split c s) \<Longrightarrow> x \<in> set p \<Longrightarrow> x \<in> set s"
proof (induction s arbitrary: p)
  case (Cons y ys)
  obtain z zs where zs: "js_split c ys = z # zs"
    using js_split_not_Nil [of c ys] by (meson neq_Nil_conv)
  with Cons show ?case by (cases "y = c") (auto, fastforce+)
qed simp

lemma js_split_cover: "x \<in> set s \<Longrightarrow> x = c \<or> (\<exists>p \<in> set (js_split c s). x \<in> set p)"
proof (induction s)
  case (Cons y ys)
  obtain z zs where zs: "js_split c ys = z # zs"
    using js_split_not_Nil [of c ys] by (meson neq_Nil_conv)
  with Cons show ?case by (cases "y = c") auto
qed simp

lemma is_digit_not_dot: "is_digit x \<Longrightarrow> x \<noteq> CHR ''.''"
  by (auto simp: is_digit_def)

lemma is_digit_not_minus: "is_digit x \<Longrightarrow> x \<noteq> CHR ''-''"
  by (auto simp: is_digit_def)

lemma is_digit_not_space: "is_digit x \<Longrightarrow> \<not> is_space x"
  by (auto simp: is_digit_def is_space_def)

text \<open>A decimal string and its two parts.\<close>

lemma is_decimalE:
  assumes "is_decimal s"
  obtains i f where "decimal_parts s = (i, f)" "i \<noteq> []" "list_all is_digit i"
    "list_all is_digit f" "\<And>x. x \<in> set s \<Longrightarrow> is_digit x \<or> x = CHR ''.''"
proof -
  have cover: "\<And>x. x \<in> set s \<Longrightarrow> x = CHR ''.'' \<or> (\<exists>p \<in> set (js_split CHR ''.'' s). x \<in> set p)"
    by (rule js_split_cover)
  consider (one) i where "js_split CHR ''.'' s = [i]" "i \<noteq> []" "list_all is_digit i"
    | (two) i f where "js_split CHR ''.'' s = [i, f]" "i \<noteq> []" "list_all is_digit i"
        "list_all is_digit f"
    using assms by (auto simp: is_decimal_def split: list.splits)
  then show thesis
  proof cases
    case one
    then show thesis using cover by (intro that [of i "[]"]) (auto simp: decimal_parts_def list_all_iff)
  next
    case two
    then show thesis using cover by (intro that [of i f]) (auto simp: decimal_parts_def list_all_iff)
  qed
qed

lemma digits_no_dot: "list_all is_digit i \<Longrightarrow> CHR ''.'' \<notin> set i"
  using is_digit_not_dot [of "CHR ''.''"] unfolding list_all_iff by blast

lemma is_decimal_intI: "i \<noteq> [] \<Longrightarrow> list_all is_digit i \<Longrightarrow> is_decimal i"
  by (simp add: is_decimal_def js_split_none digits_no_dot)

lemma is_decimal_fracI:
  assumes "i \<noteq> []" "list_all is_digit i" "f \<noteq> []" "list_all is_digit f"
  shows "is_decimal (i @ ''.'' @ f)"
  using assms by (simp add: is_decimal_def js_split_append js_split_none digits_no_dot)

lemma decimal_parts_int: "list_all is_digit i \<Longrightarrow> decimal_parts i = (i, [])"
  by (simp add: decimal_parts_def js_split_none digits_no_dot)

lemma decimal_parts_frac:
  assumes "list_all is_digit i" "list_all is_digit f"
  shows "decimal_parts (i @ ''.'' @ f) = (i, f)"
  using assms by (simp add: decimal_parts_def js_split_append js_split_none digits_no_dot)

lemma js_trim_id: "(\<And>x. x \<in> set s \<Longrightarrow> \<not> is_space x) \<Longrightarrow> js_trim s = s"
proof -
  assume ns: "\<And>x. x \<in> set s \<Longrightarrow> \<not> is_space x"
  have id: "dropWhile is_space t = t" if "\<And>x. x \<in> set t \<Longrightarrow> \<not> is_space x" for t
    using that by (cases t) auto
  from ns have "dropWhile is_space s = s" by (rule id)
  moreover from ns have "dropWhile is_space (rev s) = rev s" by (intro id) simp
  ultimately show ?thesis by (simp add: js_trim_def)
qed

lemma starts_with_minus: "starts_with s ''-'' \<longleftrightarrow> s \<noteq> [] \<and> hd s = CHR ''-''"
  by (cases s) (auto simp: starts_with_def)

lemma is_decimal_chars: "is_decimal s \<Longrightarrow> x \<in> set s \<Longrightarrow> is_digit x \<or> x = CHR ''.''"
  by (erule is_decimalE) blast

lemma is_decimal_not_Nil: "is_decimal s \<Longrightarrow> s \<noteq> []"
  by (rule notI) (simp add: is_decimal_def)

lemma is_decimal_not_minus: "is_decimal s \<Longrightarrow> \<not> starts_with s ''-''"
proof
  assume d: "is_decimal s" and "starts_with s ''-''"
  then have "CHR ''-'' \<in> set s" using hd_in_set [of s] by (simp add: starts_with_minus)
  then have "is_digit CHR ''-'' \<or> CHR ''-'' = CHR ''.''" using d is_decimal_chars by blast
  then show False by (simp add: is_digit_def)
qed

lemma is_decimal_not_space:
  assumes "is_decimal s" "x \<in> set s" shows "\<not> is_space x"
proof -
  have "is_digit x \<or> x = CHR ''.''" using assms by (rule is_decimal_chars)
  then show ?thesis by (rule disjE) (auto dest: is_digit_not_space simp: is_space_def)
qed

lemma signed_not_space: "is_signed_decimal s \<Longrightarrow> x \<in> set s \<Longrightarrow> \<not> is_space x"
proof (cases "starts_with s ''-''")
  case True
  assume "is_signed_decimal s" "x \<in> set s"
  with True have "is_decimal (tl s)" "x = CHR ''-'' \<or> x \<in> set (tl s)"
    by (auto simp: is_signed_decimal_def starts_with_minus) (metis list.collapse set_ConsD)
  then show ?thesis by (auto simp: is_space_def dest: is_decimal_not_space)
qed (auto simp: is_signed_decimal_def dest: is_decimal_not_space)

lemma is_decimal_signed: "is_decimal s \<Longrightarrow> is_signed_decimal s"
  by (simp add: is_signed_decimal_def is_decimal_not_minus)

lemma is_decimal_proper: "is_decimal s \<Longrightarrow> is_proper_decimal s"
  by (simp add: is_proper_decimal_def is_decimal_signed is_decimal_not_minus)

lemma is_proper_signed: "is_proper_decimal s \<Longrightarrow> is_signed_decimal s"
  by (simp add: is_proper_decimal_def)

lemma dec_units_decimal: "is_decimal s \<Longrightarrow> dec_units s = int (dec_mag s)"
  by (simp add: dec_units_def is_decimal_not_minus)

section \<open>The copies of the normaliser agree\<close>

lemma normalizeDecimal_vm_eq: "normalizeDecimal_vm = norm_gate"
  by (rule ext) (simp add: normalizeDecimal_vm_def norm_gate_def Let_def)

lemma norm_evidence_eq: "norm_evidence = norm_gate"
  by (rule ext) (simp add: norm_evidence_def norm_gate_def Let_def)

lemma compareBigNumeric_eq: "compareBigNumeric = compareBig"
  by (intro ext) (simp add: compareBigNumeric_def compareBig_def)

lemma compareDecimal_vm_eq: "compareDecimal_vm = cmpDecimal"
  by (intro ext)
    (simp add: compareDecimal_vm_def cmpDecimal_def normalizeDecimal_vm_eq compareBigNumeric_eq Let_def)

end
