(* ===== verification/Decimal_Order.thy ===== *)
theory Decimal_Order
  imports Decimal
begin

text \<open>
  The contract of decimal arithmetic as two locales, \<open>decimal_order\<close> (a comparison that is
  the order of an integer measure) and \<open>decimal_add\<close> (an addition that is exact in that
  measure), and their interpretations on the comparison and addition routines of gate.ts,
  vm.ts and evidence-validator.ts.
\<close>

section \<open>Interfaces\<close>

locale decimal_order =
  fixes valid :: "string \<Rightarrow> bool"
    and cmp :: "string \<Rightarrow> string \<Rightarrow> int"
    and units :: "string \<Rightarrow> int"
  assumes cmp_units: "valid a \<Longrightarrow> valid b \<Longrightarrow> cmp a b = sgn (units a - units b)"
begin

lemma cmp_le_iff: "valid a \<Longrightarrow> valid b \<Longrightarrow> cmp a b \<le> 0 \<longleftrightarrow> units a \<le> units b"
  by (simp add: cmp_units sgn_if)

lemma cmp_gt_iff: "valid a \<Longrightarrow> valid b \<Longrightarrow> 0 < cmp a b \<longleftrightarrow> units b < units a"
  by (simp add: cmp_units sgn_if)

lemma cmp_lt_iff: "valid a \<Longrightarrow> valid b \<Longrightarrow> cmp a b < 0 \<longleftrightarrow> units a < units b"
  by (simp add: cmp_units sgn_if)

lemma cmp_eq_iff: "valid a \<Longrightarrow> valid b \<Longrightarrow> cmp a b = 0 \<longleftrightarrow> units a = units b"
  by (simp add: cmp_units sgn_if)

lemma cmp_antisym: "valid a \<Longrightarrow> valid b \<Longrightarrow> cmp b a = - cmp a b"
  by (simp add: cmp_units sgn_if)

lemma cmp_trans:
  assumes "valid a" "valid b" "valid c" "cmp a b \<le> 0" "cmp b c \<le> 0"
  shows "cmp a c \<le> 0"
  using assms by (simp add: cmp_le_iff)

end

locale decimal_add = decimal_order valid cmp units
  for valid :: "string \<Rightarrow> bool"
    and cmp :: "string \<Rightarrow> string \<Rightarrow> int"
    and units :: "string \<Rightarrow> int" +
  fixes add :: "string \<Rightarrow> string \<Rightarrow> string option"
  assumes add_exact:
    "valid a \<Longrightarrow> valid b \<Longrightarrow> \<exists>c. add a b = Some c \<and> valid c \<and> units c = units a + units b"
begin

lemma add_returns: "valid a \<Longrightarrow> valid b \<Longrightarrow> add a b \<noteq> None"
  using add_exact by fastforce

lemma add_valid: "valid a \<Longrightarrow> valid b \<Longrightarrow> add a b = Some c \<Longrightarrow> valid c"
  using add_exact by fastforce

lemma add_units: "valid a \<Longrightarrow> valid b \<Longrightarrow> add a b = Some c \<Longrightarrow> units c = units a + units b"
  using add_exact by fastforce

text \<open>The shape of every cap check: \<open>cmp (a + b) cap \<le> 0\<close>.\<close>

lemma cap_check_iff:
  assumes "valid a" "valid b" "valid cap" "add a b = Some c"
  shows "cmp c cap \<le> 0 \<longleftrightarrow> units a + units b \<le> units cap"
  using add_units [OF assms(1,2,4)] cmp_le_iff [OF add_valid [OF assms(1,2,4)] assms(3)] by simp

lemma add_comm_units:
  assumes "valid a" "valid b" "add a b = Some c" "add b a = Some d"
  shows "cmp c d = 0"
  using add_units [OF assms(1,2,3)] add_units [OF assms(2,1,4)]
    cmp_eq_iff [OF add_valid [OF assms(1,2,3)] add_valid [OF assms(2,1,4)]] by simp

end

section \<open>The normal form of a well-formed decimal\<close>

definition canonical_int :: "string \<Rightarrow> bool" where
  "canonical_int i \<longleftrightarrow> list_all is_digit i \<and> (i = ''0'' \<or> i \<noteq> [] \<and> hd i \<noteq> CHR ''0'')"

lemma canonical_strip:
  assumes "list_all is_digit i"
  shows "canonical_int (nonempty_or (strip_leading_zeros i) ''0'')"
  using assms strip_leading_zeros_hd [of i] by (simp add: canonical_int_def nonempty_or_def)

lemma digits_val_nonempty_or [simp]: "digits_val (nonempty_or s ''0'') = digits_val s"
  by (simp add: nonempty_or_def digits_val_def)

lemma all_digits_pad_end:
  "list_all is_digit f \<Longrightarrow> list_all is_digit (take n (pad_end n CHR ''0'' f))"
  by (auto simp: list_all_iff pad_end_def dest: in_set_takeD)

lemma length_pad_end: "length (take n (pad_end n c f)) = n"
  by (simp add: pad_end_def)

lemma digits_val_frac:
  assumes "list_all is_digit f"
  shows "digits_val (take n (pad_end n CHR ''0'' f)) = digits_val f * 10 ^ n div 10 ^ length f"
proof (cases "length f \<le> n")
  case True
  then have "(10::nat) ^ n = 10 ^ (n - length f) * 10 ^ length f" by (simp flip: power_add)
  then have "digits_val f * 10 ^ n div 10 ^ length f = digits_val f * 10 ^ (n - length f)"
    by (simp add: mult.assoc [symmetric])
  with True show ?thesis by (simp add: pad_end_def digits_val_append)
next
  case False
  let ?k = "length f - n"
  have len: "(10::nat) ^ length f = 10 ^ ?k * 10 ^ n" using False by (simp flip: power_add)
  have "digits_val f = digits_val (take n f) * 10 ^ ?k + digits_val (drop n f)"
    using digits_val_append [of "take n f" "drop n f"] by simp
  moreover have "digits_val (drop n f) < 10 ^ ?k"
    using digits_val_bound [of "drop n f"] assms by (auto simp: list_all_iff dest: in_set_dropD)
  ultimately have "digits_val f div 10 ^ ?k = digits_val (take n f)" by simp
  then show ?thesis using False unfolding len by (simp add: pad_end_def)
qed


text \<open>What \<open>norm\<close> returns on a signed decimal.\<close>

definition norm_ok :: "norm_dec \<Rightarrow> bool" where
  "norm_ok n \<longleftrightarrow> canonical_int (nd_int n) \<and> list_all is_digit (nd_frac n) \<and> length (nd_frac n) = 18"

definition nd_mag :: "norm_dec \<Rightarrow> nat" where
  "nd_mag n = digits_val (nd_int n @ nd_frac n)"

definition nd_units :: "norm_dec \<Rightarrow> int" where
  "nd_units n = (if nd_negative n then - int (nd_mag n) else int (nd_mag n))"

lemma norm_gate_parts:
  assumes "list_all is_digit i" "list_all is_digit f"
  shows "norm_ok \<lparr>nd_negative = b, nd_int = nonempty_or (strip_leading_zeros i) ''0'',
                    nd_frac = take 18 (pad_end 18 CHR ''0'' f)\<rparr>"
    and "nd_mag \<lparr>nd_negative = b, nd_int = nonempty_or (strip_leading_zeros i) ''0'',
                    nd_frac = take 18 (pad_end 18 CHR ''0'' f)\<rparr>
         = digits_val i * 10 ^ 18 + digits_val f * 10 ^ 18 div 10 ^ length f"
  using canonical_strip [OF assms(1)] all_digits_pad_end [OF assms(2), of 18]
    length_pad_end [of 18 "CHR ''0''" f] digits_val_frac [OF assms(2), of 18]
  by (simp_all only: norm_ok_def nd_mag_def norm_dec.simps digits_val_append
      digits_val_nonempty_or digits_val_strip)

lemma norm_gate_signed:
  assumes "is_signed_decimal s"
  shows "norm_ok (norm_gate s) \<and> nd_units (norm_gate s) = dec_units s
    \<and> nd_negative (norm_gate s) = starts_with s ''-''"
proof -
  have trim: "js_trim s = s" by (rule js_trim_id) (rule signed_not_space [OF assms])
  let ?t = "if starts_with s ''-'' then tl s else s"
  have "is_decimal ?t" using assms by (simp add: is_signed_decimal_def)
  then obtain i f where if': "decimal_parts ?t = (i, f)" and
    d: "list_all is_digit i" "list_all is_digit f" by (rule is_decimalE)
  have n: "norm_gate s = \<lparr>nd_negative = starts_with s ''-'',
      nd_int = nonempty_or (strip_leading_zeros i) ''0'', nd_frac = take 18 (pad_end 18 CHR ''0'' f)\<rparr>"
    unfolding norm_gate_def trim Let_def if' by simp
  have "dec_mag ?t = digits_val i * 10 ^ 18 + digits_val f * 10 ^ 18 div 10 ^ length f"
    unfolding dec_mag_def if' by simp
  then have "nd_mag (norm_gate s) = dec_mag ?t" unfolding n norm_gate_parts(2) [OF d] by simp
  moreover have neg: "nd_negative (norm_gate s) = starts_with s ''-''" by (simp add: n)
  ultimately have "nd_units (norm_gate s) = dec_units s"
    by (simp add: nd_units_def dec_units_def split: if_splits)
  moreover have "norm_ok (norm_gate s)" unfolding n by (rule norm_gate_parts(1) [OF d])
  ultimately show ?thesis using neg by blast
qed

lemma nd_mag_split:
  "norm_ok n \<Longrightarrow> nd_mag n = digits_val (nd_int n) * 10 ^ 18 + digits_val (nd_frac n)"
  by (simp add: nd_mag_def norm_ok_def digits_val_append)

section \<open>Comparison is the order of the units\<close>

lemma compareBig_same_length:
  assumes "length a = length b" "list_all is_digit a" "list_all is_digit b"
  shows "compareBig a b = sgn (int (digits_val a) - int (digits_val b))"
  using str_lt_digits [OF assms] str_lt_digits [of b a] assms
  by (auto simp: compareBig_def sgn_if)

lemma canonical_shorter_less:
  assumes "canonical_int a" "canonical_int b" "length a < length b"
  shows "digits_val a < digits_val b"
proof -
  from assms have b: "b \<noteq> []" "hd b \<noteq> CHR ''0''" "list_all is_digit b" and a: "list_all is_digit a"
    by (auto simp: canonical_int_def)
  have "digits_val a < 10 ^ length a" using a by (rule digits_val_bound)
  also have "\<dots> \<le> 10 ^ (length b - 1)" using assms(3) by (intro power_increasing) auto
  also have "\<dots> \<le> digits_val b" using b by (rule digits_val_lower)
  finally show ?thesis .
qed

lemma compareBig_canonical:
  assumes "canonical_int a" "canonical_int b"
  shows "compareBig a b = sgn (int (digits_val a) - int (digits_val b))"
proof (cases "length a" "length b" rule: linorder_cases)
  case less
  then show ?thesis using canonical_shorter_less [OF assms less] by (simp add: compareBig_def)
next
  case equal
  then show ?thesis using assms by (intro compareBig_same_length) (auto simp: canonical_int_def)
next
  case greater
  then show ?thesis using canonical_shorter_less [OF assms(2,1) greater] by (simp add: compareBig_def)
qed

lemma sgn_lexicographic:
  fixes i j :: int
  assumes "0 \<le> f" "f < m" "0 \<le> g" "g < m"
  shows "sgn ((i * m + f) - (j * m + g)) = (if sgn (i - j) \<noteq> 0 then sgn (i - j) else sgn (f - g))"
proof (cases i j rule: linorder_cases)
  case less
  then have "(i + 1) * m \<le> j * m" using assms by (intro mult_right_mono) auto
  then have "i * m + f < j * m + g" using assms by (simp add: algebra_simps)
  with less show ?thesis by simp
next
  case greater
  then have "(j + 1) * m \<le> i * m" using assms by (intro mult_right_mono) auto
  then have "j * m + g < i * m + f" using assms by (simp add: algebra_simps)
  with greater show ?thesis by simp
qed simp

lemma cmp_norm_units:
  assumes "norm_ok m" "norm_ok n"
  shows "(let intCmp = compareBig (nd_int m) (nd_int n) in
          if intCmp \<noteq> 0 then intCmp else compareBig (nd_frac m) (nd_frac n))
       = sgn (int (nd_mag m) - int (nd_mag n))"
proof -
  have fr: "list_all is_digit (nd_frac m)" "list_all is_digit (nd_frac n)"
    "length (nd_frac m) = 18" "length (nd_frac n) = 18"
    and ca: "canonical_int (nd_int m)" "canonical_int (nd_int n)"
    using assms by (auto simp: norm_ok_def)
  have b: "int (digits_val (nd_frac m)) < 10 ^ 18" "int (digits_val (nd_frac n)) < 10 ^ 18"
    using digits_val_bound [OF fr(1)] digits_val_bound [OF fr(2)] fr(3,4) by simp_all
  have mag: "int (nd_mag m) = int (digits_val (nd_int m)) * 10 ^ 18 + int (digits_val (nd_frac m))"
    "int (nd_mag n) = int (digits_val (nd_int n)) * 10 ^ 18 + int (digits_val (nd_frac n))"
    by (simp_all add: nd_mag_split [OF assms(1)] nd_mag_split [OF assms(2)])
  show ?thesis
    unfolding mag sgn_lexicographic [OF of_nat_0_le_iff b(1) of_nat_0_le_iff b(2)]
      compareBig_canonical [OF ca] compareBig_same_length [OF trans [OF fr(3) fr(4) [symmetric]] fr(1,2)]
      Let_def ..
qed

lemma cmpDecimal_units:
  assumes "is_proper_decimal a" "is_proper_decimal b"
  shows "cmpDecimal a b = sgn (dec_units a - dec_units b)"
proof -
  let ?m = "norm_gate a" and ?n = "norm_gate b"
  note A = norm_gate_signed [OF is_proper_signed [OF assms(1)]]
    and B = norm_gate_signed [OF is_proper_signed [OF assms(2)]]
  have neg: "nd_negative ?m \<Longrightarrow> dec_units a \<noteq> 0" "nd_negative ?n \<Longrightarrow> dec_units b \<noteq> 0"
    using A B assms by (auto simp: is_proper_decimal_def)
  have u: "dec_units a = nd_units ?m" "dec_units b = nd_units ?n" using A B by simp_all
  define c where "c = (let intCmp = compareBig (nd_int ?m) (nd_int ?n) in
          if intCmp \<noteq> 0 then intCmp else compareBig (nd_frac ?m) (nd_frac ?n))"
  have c: "c = sgn (int (nd_mag ?m) - int (nd_mag ?n))"
    unfolding c_def by (rule cmp_norm_units) (use A B in simp_all)
  have "cmpDecimal a b = (if nd_negative ?m \<noteq> nd_negative ?n
      then (if nd_negative ?m then -1 else 1) else (if nd_negative ?m then - c else c))"
    by (simp add: cmpDecimal_def c_def Let_def)
  then show ?thesis
    using neg unfolding u c nd_units_def by (auto simp: sgn_if)
qed

section \<open>Printing a scaled integer\<close>

lemma is_digit_digit_char: "d < 10 \<Longrightarrow> is_digit (digit_char d)"
  by (simp add: is_digit_def digit_char_def)

lemma digit_val_digit_char: "d < 10 \<Longrightarrow> digit_val (digit_char d) = d"
  by (simp add: digit_val_def digit_char_def)

lemma show_nat_spec: "list_all is_digit (show_nat n) \<and> show_nat n \<noteq> [] \<and> digits_val (show_nat n) = n"
proof (induction n rule: show_nat.induct)
  case (1 n)
  show ?case
  proof (cases "n < 10")
    case True
    then show ?thesis
      by (subst (1 2 3) show_nat.simps)
        (simp add: is_digit_digit_char digit_val_digit_char digits_val_def)
  next
    case False
    with "1.IH" show ?thesis
      by (subst (1 2 3) show_nat.simps) (simp add: is_digit_digit_char digit_val_digit_char)
  qed
qed

lemma show_int_nat: "0 \<le> i \<Longrightarrow> show_int i = show_nat (nat i)"
  by (simp add: show_int_def)

lemma pad_start_spec:
  assumes "list_all is_digit s"
  shows "list_all is_digit (pad_start k CHR ''0'' s)" "k \<le> length (pad_start k CHR ''0'' s)"
    "digits_val (pad_start k CHR ''0'' s) = digits_val s"
  using assms by (auto simp: pad_start_def digits_val_append list_all_iff)

lemma strip_trailing_split: "\<exists>k. d = strip_trailing_zeros d @ replicate k CHR ''0''"
proof -
  have "\<exists>k. xs = replicate k CHR ''0'' @ dropWhile (\<lambda>c. c = CHR ''0'') xs" for xs
  proof (induction xs)
    case (Cons x xs)
    then obtain k where k: "xs = replicate k CHR ''0'' @ dropWhile (\<lambda>c. c = CHR ''0'') xs" ..
    then show ?case
      by (cases "x = CHR ''0''") (auto intro: exI [of _ "Suc k"] exI [of _ 0])
  qed simp
  then obtain k where "rev d = replicate k CHR ''0'' @ dropWhile (\<lambda>c. c = CHR ''0'') (rev d)" by blast
  then have "rev (rev d) = rev (replicate k CHR ''0'' @ dropWhile (\<lambda>c. c = CHR ''0'') (rev d))" by (rule arg_cong)
  then have "d = strip_trailing_zeros d @ replicate k CHR ''0''"
    by (simp add: strip_trailing_zeros_def)
  then show ?thesis ..
qed

lemma strip_trailing_units:
  assumes "list_all is_digit d" "length d = 18"
  shows "list_all is_digit (strip_trailing_zeros d)"
    "digits_val (strip_trailing_zeros d) * 10 ^ 18 div 10 ^ length (strip_trailing_zeros d) = digits_val d"
proof -
  let ?f = "strip_trailing_zeros d"
  obtain k where k: "d = ?f @ replicate k CHR ''0''" using strip_trailing_split by blast
  have len: "length ?f + k = 18" using arg_cong [OF k, of length] assms(2) by simp
  have "list_all is_digit (?f @ replicate k CHR ''0'')" using assms(1) k by metis
  then show "list_all is_digit ?f" by simp
  have "digits_val d = digits_val (?f @ replicate k CHR ''0'')" using k by (rule arg_cong)
  then have "digits_val d = digits_val ?f * 10 ^ k" by (simp add: digits_val_append)
  have "(10::nat) ^ 18 = 10 ^ k * 10 ^ length ?f"
    unfolding len [symmetric] by (simp add: power_add mult.commute)
  then have "digits_val ?f * 10 ^ 18 = (digits_val ?f * 10 ^ k) * 10 ^ length ?f"
    by (simp only: mult.assoc)
  then have "digits_val ?f * 10 ^ 18 div 10 ^ length ?f = digits_val ?f * 10 ^ k * 10 ^ length ?f div 10 ^ length ?f"
    by (rule arg_cong)
  also have "\<dots> = digits_val ?f * 10 ^ k" by (rule nonzero_mult_div_cancel_right) simp
  finally have "digits_val ?f * 10 ^ 18 div 10 ^ length ?f = digits_val ?f * 10 ^ k" .
  with \<open>digits_val d = digits_val ?f * 10 ^ k\<close>
  show "digits_val ?f * 10 ^ 18 div 10 ^ length ?f = digits_val d" by simp
qed

lemma nonempty_or_digits:
  assumes "list_all is_digit s"
  shows "list_all is_digit (nonempty_or (strip_leading_zeros s) ''0'')"
    "nonempty_or (strip_leading_zeros s) ''0'' \<noteq> []"
  using canonical_strip [OF assms] by (auto simp: canonical_int_def)

text \<open>Printing a scaled integer and reading it back gives the integer.\<close>

lemma format_scaled_spec:
  assumes "list_all is_digit ds" "19 \<le> length ds"
  shows "is_decimal (format_scaled ds)" "dec_units (format_scaled ds) = int (digits_val ds)"
proof -
  let ?i = "take (length ds - 18) ds" and ?d = "drop (length ds - 18) ds"
  have di: "list_all is_digit ?i" and dd: "list_all is_digit ?d"
    using assms(1) by (auto simp: list_all_iff dest: in_set_takeD in_set_dropD)
  have len: "length ?d = 18" using assms(2) by simp
  have ds: "digits_val ds = digits_val ?i * 10 ^ 18 + digits_val ?d"
    using digits_val_append [of ?i ?d] len by simp
  note f = strip_trailing_units [OF dd len] and i = nonempty_or_digits [OF di]
  have fs: "format_scaled ds = (if length (strip_trailing_zeros ?d) > 0
      then nonempty_or (strip_leading_zeros ?i) ''0'' @ ''.'' @ strip_trailing_zeros ?d
      else nonempty_or (strip_leading_zeros ?i) ''0'')" by (simp add: format_scaled_def Let_def)
  have parts: "is_decimal (format_scaled ds) \<and> decimal_parts (format_scaled ds) =
      (nonempty_or (strip_leading_zeros ?i) ''0'', strip_trailing_zeros ?d)"
  proof (cases "strip_trailing_zeros ?d = []")
    case True
    then show ?thesis unfolding fs using is_decimal_intI [OF i(2,1)] decimal_parts_int [OF i(1)]
      by simp
  next
    case False
    then show ?thesis unfolding fs
      using is_decimal_fracI [OF i(2,1) False f(1)] decimal_parts_frac [OF i(1) f(1)] by simp
  qed
  then show "is_decimal (format_scaled ds)" ..
  then have "dec_units (format_scaled ds) = int (dec_mag (format_scaled ds))"
    by (rule dec_units_decimal)
  also have "dec_mag (format_scaled ds) = digits_val ds"
    unfolding dec_mag_def conjunct2 [OF parts] prod.case f(2) ds
    by (simp only: digits_val_nonempty_or digits_val_strip)
  finally show "dec_units (format_scaled ds) = int (digits_val ds)" .
qed

lemma format_int_spec:
  assumes "0 \<le> i"
  shows "is_decimal (format_scaled (pad_start 19 CHR ''0'' (show_int i)))"
    "dec_units (format_scaled (pad_start 19 CHR ''0'' (show_int i))) = i"
proof -
  have d: "list_all is_digit (show_int i)" "digits_val (show_int i) = nat i"
    using show_nat_spec [of "nat i"] by (simp_all add: show_int_nat assms)
  note p = pad_start_spec [OF d(1), of 19]
  show "is_decimal (format_scaled (pad_start 19 CHR ''0'' (show_int i)))"
    by (rule format_scaled_spec(1) [OF p(1,2)])
  show "dec_units (format_scaled (pad_start 19 CHR ''0'' (show_int i))) = i"
    unfolding format_scaled_spec(2) [OF p(1,2)] p(3) d(2) using assms by simp
qed

section \<open>Addition is exact\<close>

lemma js_BigInt_digits:
  assumes "list_all is_digit s" "s \<noteq> []"
  shows "js_BigInt s = Some (int (digits_val s))"
proof -
  have "js_trim s = s"
    by (rule js_trim_id) (use assms(1) is_digit_not_space in \<open>auto simp: list_all_iff\<close>)
  then show ?thesis using assms by (simp add: js_BigInt_def Let_def)
qed

lemma js_BigInt_minus_digits:
  assumes "list_all is_digit s" "s \<noteq> []"
  shows "js_BigInt (''-'' @ s) = Some (- int (digits_val s))"
proof -
  have "js_trim (''-'' @ s) = ''-'' @ s"
    by (rule js_trim_id) (use assms(1) is_digit_not_space in \<open>auto simp: list_all_iff is_space_def\<close>)
  moreover have "radix_val 10 n t = Some (foldl (\<lambda>n c. 10 * n + digit_val c) n t)"
    if "list_all is_digit t" for n t
    using that by (induction t arbitrary: n) (auto simp: hex_digit_val_def digit_val_less)
  then have "radix_literal 10 s = Some (int (digits_val s))"
    using assms by (simp add: radix_literal_def digits_val_def)
  moreover have "\<not> is_digit CHR ''-''" by (simp add: is_digit_def)
  ultimately show ?thesis by (simp add: js_BigInt_def Let_def)
qed

lemma norm_ok_digits:
  "norm_ok n \<Longrightarrow> list_all is_digit (nd_int n @ nd_frac n) \<and> nd_int n @ nd_frac n \<noteq> []"
  by (auto simp: norm_ok_def canonical_int_def)

lemma norm_ok_BigInt: "norm_ok n \<Longrightarrow> js_BigInt (nd_int n @ nd_frac n) = Some (int (nd_mag n))"
  using norm_ok_digits [of n] js_BigInt_digits [of "nd_int n @ nd_frac n"] by (simp add: nd_mag_def)

lemma addDecimalString_exact:
  assumes "is_decimal a" "is_decimal b"
  shows "\<exists>c. addDecimalString a b = Some c \<and> is_decimal c \<and> dec_units c = dec_units a + dec_units b"
proof -
  note A = norm_gate_signed [OF is_decimal_signed [OF assms(1)]]
    and B = norm_gate_signed [OF is_decimal_signed [OF assms(2)]]
  let ?sum = "int (nd_mag (norm_gate a)) + int (nd_mag (norm_gate b))"
  have "addDecimalString a b = Some (format_scaled (pad_start 19 CHR ''0'' (show_int ?sum)))"
    using A B by (simp add: addDecimalString_def norm_ok_BigInt Let_def)
  moreover have "dec_units a + dec_units b = ?sum"
    using A B is_decimal_not_minus [OF assms(1)] is_decimal_not_minus [OF assms(2)]
    by (metis nd_units_def)
  ultimately show ?thesis using format_int_spec [of ?sum] by simp
qed

text \<open>A scaled magnitude with its sign in front, as \<open>addDecimal\<close> and \<open>subtractDecimal\<close> print it.\<close>

lemma minus_body:
  assumes "is_decimal body" "dec_units body \<noteq> 0"
  shows "is_proper_decimal (''-'' @ body) \<and> dec_units (''-'' @ body) = - dec_units body"
proof -
  have "starts_with (''-'' @ body) ''-''" "tl (''-'' @ body) = body" by (simp_all add: starts_with_def)
  moreover from this have "dec_units (''-'' @ body) = - int (dec_mag body)" by (simp add: dec_units_def)
  ultimately show ?thesis
    using assms by (simp add: is_proper_decimal_def is_signed_decimal_def dec_units_decimal)
qed

definition print_body :: "int \<Rightarrow> string" where
  "print_body d = format_scaled (pad_start 19 CHR ''0'' (show_int (if d < 0 then - d else d)))"

definition print_units :: "int \<Rightarrow> string" where
  "print_units d = (if d < 0 then ''-'' @ print_body d else print_body d)"

lemma print_units_spec:
  fixes d :: int
  shows "is_proper_decimal (print_units d)" "dec_units (print_units d) = d"
    "d < 0 \<Longrightarrow> print_body d \<noteq> ''0''"
proof -
  define body where "body = print_body d"
  define r where "r = print_units d"
  have r_def: "r = (if d < 0 then ''-'' @ body else body)" by (simp add: r_def body_def print_units_def)
  have b: "is_decimal body" "dec_units body = (if d < 0 then - d else d)"
    unfolding body_def print_body_def by (rule format_int_spec; simp)+
  have "is_proper_decimal r \<and> dec_units r = d"
    using b minus_body [OF b(1)] is_decimal_proper [OF b(1)] by (auto simp: r_def)
  then show "is_proper_decimal (print_units d)" "dec_units (print_units d) = d"
    by (simp_all add: \<open>r = print_units d\<close>)
  show "d < 0 \<Longrightarrow> print_body d \<noteq> ''0''" unfolding body_def [symmetric]
  proof
    assume "d < 0" "body = ''0''"
    then have "dec_units ''0'' = - d" using b by simp
    moreover have "dec_units ''0'' = 0"
      by (simp add: dec_units_def dec_mag_def decimal_parts_def starts_with_def digits_val_def)
    ultimately show False using \<open>d < 0\<close> by simp
  qed
qed

lemma addDecimal_vm_exact:
  assumes "is_proper_decimal a" "is_proper_decimal b"
  shows "\<exists>c. addDecimal_vm a b = Some c \<and> is_proper_decimal c \<and> dec_units c = dec_units a + dec_units b"
proof -
  note A = norm_gate_signed [OF is_proper_signed [OF assms(1)]]
    and B = norm_gate_signed [OF is_proper_signed [OF assms(2)]]
  let ?d = "dec_units a + dec_units b"
  have sg: "(if nd_negative n then -1 else 1) * int (nd_mag n) = nd_units n" for n
    by (simp add: nd_units_def)
  have "addDecimal_vm a b = Some (print_units ?d)"
    unfolding addDecimal_vm_def normalizeDecimal_vm_eq Let_def prod.case option.case sg
      norm_ok_BigInt [OF conjunct1 [OF A]] norm_ok_BigInt [OF conjunct1 [OF B]]
      conjunct1 [OF conjunct2 [OF A]] conjunct1 [OF conjunct2 [OF B]]
      print_units_def print_body_def ..
  then show ?thesis using print_units_spec [of ?d] by simp
qed

lemma evidence_bigint_units: "is_signed_decimal s \<Longrightarrow> evidence_bigint s = Some (dec_units s)"
proof -
  assume "is_signed_decimal s"
  note A = norm_gate_signed [OF this]
  let ?n = "norm_gate s"
  have d: "list_all is_digit (nd_int ?n @ nd_frac ?n)" "nd_int ?n @ nd_frac ?n \<noteq> []"
    using norm_ok_digits A by blast+
  show ?thesis
    using A js_BigInt_digits [OF d] js_BigInt_minus_digits [OF d]
    by (auto simp: evidence_bigint_def norm_evidence_eq Let_def nd_units_def nd_mag_def)
qed

lemma compareDecimal_evidence_units:
  "is_signed_decimal a \<Longrightarrow> is_signed_decimal b \<Longrightarrow>
   compareDecimal_evidence a b = Some (sgn (dec_units a - dec_units b))"
  by (simp add: compareDecimal_evidence_def evidence_bigint_units sgn_if)

lemma subtractDecimal_exact:
  assumes "is_signed_decimal a" "is_signed_decimal b"
  shows "\<exists>c. subtractDecimal a b = Some c \<and> is_proper_decimal c \<and> dec_units c = dec_units a - dec_units b"
proof -
  let ?d = "dec_units a - dec_units b"
  have "subtractDecimal a b = Some (print_units ?d)"
    unfolding subtractDecimal_def evidence_bigint_units [OF assms(1)] evidence_bigint_units [OF assms(2)]
      Let_def prod.case option.case print_body_def [symmetric] print_units_def
    using print_units_spec(3) [of ?d] by simp
  then show ?thesis using print_units_spec(1,2) [of ?d] by simp
qed

section \<open>The code meets the interfaces\<close>

interpretation gate_decimal: decimal_add is_decimal cmpDecimal dec_units addDecimalString
  by unfold_locales (auto intro: cmpDecimal_units is_decimal_proper addDecimalString_exact)

interpretation vm_decimal: decimal_add is_proper_decimal compareDecimal_vm dec_units addDecimal_vm
  by unfold_locales (simp_all add: compareDecimal_vm_eq cmpDecimal_units addDecimal_vm_exact)

interpretation evidence_decimal: decimal_order is_signed_decimal
  "\<lambda>a b. the (compareDecimal_evidence a b)" dec_units
  by unfold_locales (simp add: compareDecimal_evidence_units)

text \<open>The equations that evaluate the specification on concrete strings.\<close>

lemmas decimal_eval =
  starts_with_def js_trim_def is_space_def decimal_parts_def strip_leading_zeros_def
  nonempty_or_def is_digit_def dec_units_def dec_mag_def digits_val_def digit_val_def
  is_decimal_def

end
