(* ===== verification/Evidence.thy ===== *)
theory Evidence
  imports Decimal_Order
begin

text \<open>
  Evidence semantic validation, gate check 9.5 (shared/src/gate/evidence-validator.ts): the
  evidence attached to a payment must support its amount, counterparty, currency, freshness
  and source trust, and an automatic execution must not rest on low-trust evidence only.
  \<open>None\<close> is the exception \<open>BigInt\<close> throws on a malformed amount. Times are milliseconds
  since the epoch; the reference time is an argument.
\<close>

section \<open>Types\<close>

datatype trust_level = Trust_high | Trust_medium | Trust_low

datatype risk_level = Risk_low | Risk_medium | Risk_high | Risk_critical

record resolved_evidence =
  re_id :: string
  re_kind :: string
  re_extracted :: "string \<rightharpoonup> json"
  re_sourceArtifactId :: string
  re_capturedAt :: int
  re_trustLevel :: trust_level

record evidence_intent =
  ei_counterpartyId :: string
  ei_amount :: string
  ei_currency :: string
  ei_invoiceId :: "string option"
  ei_obligationId :: "string option"

record evidence_input =
  ev_actionType :: string
  ev_paymentIntent :: evidence_intent
  ev_evidence :: "resolved_evidence list"
  ev_maxRiskLevel :: "risk_level option"
  ev_now :: int
  ev_freshnessWindowDays :: "int option"

record evidence_failure =
  ef_rule :: string
  ef_detail :: string

record evidence_result =
  er_passed :: bool
  er_failures :: "evidence_failure list"

abbreviation evidence_ok :: evidence_result where
  "evidence_ok \<equiv> \<lparr>er_passed = True, er_failures = []\<rparr>"

definition failure :: "string \<Rightarrow> string \<Rightarrow> evidence_failure" where
  "failure r d = \<lparr>ef_rule = r, ef_detail = d\<rparr>"

text \<open>\<open>str(v)\<close>, and how an optional string prints inside a template.\<close>

definition str_field :: "resolved_evidence \<Rightarrow> string \<Rightarrow> string option" where
  "str_field e k = (case re_extracted e k of Some (JStr s) \<Rightarrow> Some s | _ \<Rightarrow> None)"

definition print_opt :: "string option \<Rightarrow> string" where
  "print_opt x = or_else x ''undefined''"

definition in_quotes :: "string \<Rightarrow> string" where
  "in_quotes s = [CHR 0x27] @ s @ [CHR 0x27]"

definition trust_name :: "trust_level \<Rightarrow> string" where
  "trust_name t = (case t of Trust_high \<Rightarrow> ''high'' | Trust_medium \<Rightarrow> ''medium'' | Trust_low \<Rightarrow> ''low'')"

definition risk_name :: "risk_level \<Rightarrow> string" where
  "risk_name r = (case r of Risk_low \<Rightarrow> ''low'' | Risk_medium \<Rightarrow> ''medium''
     | Risk_high \<Rightarrow> ''high'' | Risk_critical \<Rightarrow> ''critical'')"

definition DEFAULT_FRESHNESS_DAYS :: int where
  "DEFAULT_FRESHNESS_DAYS = 90"

definition EVIDENCE_VALIDATED_ACTION_TYPES :: "string list" where
  "EVIDENCE_VALIDATED_ACTION_TYPES =
     [''ach_outbound'', ''wire'', ''onchain_transfer'', ''card_payment'']"

section \<open>The rules\<close>

definition age_days :: "evidence_input \<Rightarrow> resolved_evidence \<Rightarrow> rat" where
  "age_days i e = of_int (ev_now i - re_capturedAt e) / 86400000"

definition pushFreshness :: "resolved_evidence \<Rightarrow> evidence_input \<Rightarrow> evidence_failure list" where
  "pushFreshness e i =
     (let windowDays = or_else (ev_freshnessWindowDays i) DEFAULT_FRESHNESS_DAYS;
          ageDays = age_days i e
      in if ageDays > of_int windowDays
         then [failure ''freshness''
                (''evidence captured '' @ show_int \<lfloor>ageDays + 1 / 2\<rfloor> @ ''d ago, window is ''
                 @ show_int windowDays @ ''d'')]
         else [])"

definition pushTrust :: "resolved_evidence \<Rightarrow> evidence_input \<Rightarrow> evidence_failure list" where
  "pushTrust e i =
     (let lowRisk = (ev_maxRiskLevel i = Some Risk_low \<or> ev_maxRiskLevel i = Some Risk_medium)
      in if re_trustLevel e \<noteq> Trust_high \<and> \<not> lowRisk
         then [failure ''source_trust''
                (''source trust '' @ in_quotes (trust_name (re_trustLevel e))
                 @ '' insufficient for max_risk_level ''
                 @ in_quotes (or_else (map_option risk_name (ev_maxRiskLevel i)) ''high''))]
         else [])"

text \<open>The comparisons of an invoice or obligation row with the intent.\<close>

definition invoice_id_failures :: "resolved_evidence \<Rightarrow> evidence_intent \<Rightarrow> evidence_failure list" where
  "invoice_id_failures e pay =
     (case (ei_invoiceId pay, str_field e ''id'') of
        (Some wanted, Some i) \<Rightarrow>
          if i \<noteq> wanted
          then [failure ''invoice_id_match''
                 (''evidence invoice id '' @ i @ '' != intent invoiceId '' @ wanted)]
          else []
      | _ \<Rightarrow> [])"

definition counterparty_failures ::
  "string \<Rightarrow> resolved_evidence \<Rightarrow> evidence_intent \<Rightarrow> evidence_failure list" where
  "counterparty_failures what e pay =
     (if str_field e ''counterparty_id'' \<noteq> Some (ei_counterpartyId pay)
      then [failure ''counterparty_match''
             (what @ '' counterparty '' @ print_opt (str_field e ''counterparty_id'')
              @ '' != intent '' @ ei_counterpartyId pay)]
      else [])"

definition currency_failures :: "resolved_evidence \<Rightarrow> evidence_intent \<Rightarrow> evidence_failure list" where
  "currency_failures e pay =
     (if str_field e ''currency'' \<noteq> Some (ei_currency pay)
      then [failure ''currency_match''
             (''invoice currency '' @ print_opt (str_field e ''currency'')
              @ '' != intent '' @ ei_currency pay)]
      else [])"

text \<open>The amount due less the amount already paid must be the intent amount.\<close>

definition invoice_amount_failures ::
  "resolved_evidence \<Rightarrow> evidence_intent \<Rightarrow> evidence_failure list option" where
  "invoice_amount_failures e pay =
     (case str_field e ''amount_due'' of
        None \<Rightarrow> Some [failure ''amount_match'' ''invoice has no amount_due'']
      | Some amountDue \<Rightarrow>
          (case subtractDecimal amountDue (or_else (str_field e ''amount_paid'') ''0'') of
             None \<Rightarrow> None
           | Some remaining \<Rightarrow>
               map_option
                 (\<lambda>c. if c \<noteq> 0
                      then [failure ''amount_match''
                             (''invoice remaining '' @ remaining @ '' != intent amount ''
                              @ ei_amount pay)]
                      else [])
                 (compareDecimal_evidence remaining (ei_amount pay))))"

definition validatePayInvoice :: "evidence_input \<Rightarrow> evidence_failure list option" where
  "validatePayInvoice i =
     (let pay = ev_paymentIntent i in
      case find (\<lambda>e. re_kind e = ''invoice'') (ev_evidence i) of
        None \<Rightarrow> Some [failure ''invoice_present''
                       (''no evidence of kind '' @ in_quotes ''invoice'' @ '' attached'')]
      | Some invoice \<Rightarrow>
          map_option
            (\<lambda>amount. invoice_id_failures invoice pay
                    @ counterparty_failures ''invoice'' invoice pay
                    @ currency_failures invoice pay
                    @ amount
                    @ pushFreshness invoice i
                    @ pushTrust invoice i)
            (invoice_amount_failures invoice pay))"

definition obligation_amount_failures ::
  "resolved_evidence \<Rightarrow> evidence_intent \<Rightarrow> evidence_failure list option" where
  "obligation_amount_failures e pay =
     (case str_field e ''amount_due'' of
        None \<Rightarrow> Some [failure ''amount_match''
                  (''obligation amount_due (missing) != intent amount '' @ ei_amount pay)]
      | Some amountDue \<Rightarrow>
          map_option
            (\<lambda>c. if c \<noteq> 0
                 then [failure ''amount_match''
                        (''obligation amount_due '' @ amountDue @ '' != intent amount ''
                         @ ei_amount pay)]
                 else [])
            (compareDecimal_evidence amountDue (ei_amount pay)))"

definition obligation_status_failures :: "resolved_evidence \<Rightarrow> evidence_failure list" where
  "obligation_status_failures e =
     (let status = str_field e ''status'' in
      if status \<noteq> Some ''upcoming'' \<and> status \<noteq> Some ''due'' \<and> status \<noteq> Some ''overdue''
      then [failure ''obligation_status''
             (''obligation status is '' @ in_quotes (or_else status ''(missing)'')
              @ '', expected upcoming|due|overdue'')]
      else [])"

definition validatePayObligation :: "evidence_input \<Rightarrow> evidence_failure list option" where
  "validatePayObligation i =
     (let pay = ev_paymentIntent i in
      case find (\<lambda>e. re_kind e = ''obligation_reference'' \<or> re_kind e = ''invoice'') (ev_evidence i) of
        None \<Rightarrow> Some [failure ''obligation_reference_present''
                       ''no obligation_reference or invoice evidence attached'']
      | Some ref \<Rightarrow>
          map_option
            (\<lambda>amount. counterparty_failures ''obligation'' ref pay
                    @ amount
                    @ obligation_status_failures ref
                    @ pushTrust ref i)
            (obligation_amount_failures ref pay))"

definition evidence_result_of :: "evidence_failure list \<Rightarrow> evidence_result" where
  "evidence_result_of fs = \<lparr>er_passed = (length fs = 0), er_failures = fs\<rparr>"

definition validateEvidence :: "evidence_input \<Rightarrow> evidence_result option" where
  "validateEvidence i =
     (if ev_actionType i \<notin> set EVIDENCE_VALIDATED_ACTION_TYPES then Some evidence_ok
      else if ei_invoiceId (ev_paymentIntent i) \<noteq> None
        then map_option evidence_result_of (validatePayInvoice i)
      else if ei_obligationId (ev_paymentIntent i) \<noteq> None
        then map_option evidence_result_of (validatePayObligation i)
      else Some evidence_ok)"

section \<open>Low-trust automatic execution\<close>

definition CORROBORATED_PROVENANCE :: "string list" where
  "CORROBORATED_PROVENANCE = [''extracted'', ''human_confirmed'']"

definition low_trust_failure :: evidence_failure where
  "low_trust_failure = failure ''low_trust_auto_execution''
     (''auto-execution refused: all supporting evidence is low-trust ''
      @ ''(customer_asserted / uncorroborated agent_contributed) and the linked ''
      @ ''obligation is not corroborated; require approval (confirm) or corroborate ''
      @ ''the obligation against an independent source'')"

definition validateLowTrustAutoExecution ::
  "string \<Rightarrow> resolved_evidence list \<Rightarrow> string option \<Rightarrow> evidence_result" where
  "validateLowTrustAutoExecution outcome evidence obligationProvenance =
     (if outcome \<noteq> ''allow'' \<or> length evidence = 0 then evidence_ok
      else if \<not> list_all (\<lambda>e. re_trustLevel e = Trust_low) evidence then evidence_ok
      else if (case obligationProvenance of None \<Rightarrow> False
               | Some p \<Rightarrow> p \<in> set CORROBORATED_PROVENANCE) then evidence_ok
      else \<lparr>er_passed = False, er_failures = [low_trust_failure]\<rparr>)"

section \<open>What passing evidence guarantees\<close>

lemma pushTrust_Nil: "pushTrust e i = [] \<longleftrightarrow>
  re_trustLevel e = Trust_high \<or> ev_maxRiskLevel i = Some Risk_low \<or> ev_maxRiskLevel i = Some Risk_medium"
  by (simp add: pushTrust_def Let_def)

lemma pushFreshness_Nil: "pushFreshness e i = [] \<longleftrightarrow>
  age_days i e \<le> of_int (or_else (ev_freshnessWindowDays i) DEFAULT_FRESHNESS_DAYS)"
  by (simp add: pushFreshness_def Let_def not_less)

lemma counterparty_failures_Nil:
  "counterparty_failures what e pay = [] \<longleftrightarrow> str_field e ''counterparty_id'' = Some (ei_counterpartyId pay)"
  by (simp add: counterparty_failures_def)

lemma currency_failures_Nil:
  "currency_failures e pay = [] \<longleftrightarrow> str_field e ''currency'' = Some (ei_currency pay)"
  by (simp add: currency_failures_def)

lemma find_SomeD: "find P xs = Some x \<Longrightarrow> x \<in> set xs \<and> P x"
  by (induction xs) (auto split: if_splits)

text \<open>The amount rule in exact units.\<close>

lemma invoice_amount_NilD:
  assumes "invoice_amount_failures e pay = Some []" "str_field e ''amount_due'' = Some due"
    and "is_signed_decimal due" "is_signed_decimal (or_else (str_field e ''amount_paid'') ''0'')"
    and "is_signed_decimal (ei_amount pay)"
  shows "dec_units due - dec_units (or_else (str_field e ''amount_paid'') ''0'') = dec_units (ei_amount pay)"
proof -
  obtain r where r: "subtractDecimal due (or_else (str_field e ''amount_paid'') ''0'') = Some r"
    "is_proper_decimal r"
    "dec_units r = dec_units due - dec_units (or_else (str_field e ''amount_paid'') ''0'')"
    using subtractDecimal_exact [OF assms(3,4)] by blast
  with compareDecimal_evidence_units [OF is_proper_signed [OF r(2)] assms(5)] assms(1,2)
  show ?thesis by (auto simp: invoice_amount_failures_def sgn_if split: if_splits)
qed

lemma invoice_amount_due:
  "invoice_amount_failures e pay = Some [] \<Longrightarrow> \<exists>due. str_field e ''amount_due'' = Some due"
  by (auto simp: invoice_amount_failures_def split: option.splits)

lemma obligation_amount_NilD:
  assumes "obligation_amount_failures e pay = Some []"
  shows "\<exists>due. str_field e ''amount_due'' = Some due \<and>
    (is_signed_decimal due \<longrightarrow> is_signed_decimal (ei_amount pay) \<longrightarrow> dec_units due = dec_units (ei_amount pay))"
  using assms
  by (auto simp: obligation_amount_failures_def compareDecimal_evidence_units sgn_if
      split: option.splits if_splits)

lemma validatePayInvoice_passed:
  assumes "validatePayInvoice i = Some []"
  obtains e where "e \<in> set (ev_evidence i)" "re_kind e = ''invoice''"
    "invoice_id_failures e (ev_paymentIntent i) = []"
    "str_field e ''counterparty_id'' = Some (ei_counterpartyId (ev_paymentIntent i))"
    "str_field e ''currency'' = Some (ei_currency (ev_paymentIntent i))"
    "invoice_amount_failures e (ev_paymentIntent i) = Some []"
    "pushFreshness e i = []" "pushTrust e i = []"
proof -
  from assms obtain e where e: "find (\<lambda>e. re_kind e = ''invoice'') (ev_evidence i) = Some e"
    by (auto simp: validatePayInvoice_def Let_def split: option.splits)
  with assms show thesis
    by (intro that [of e])
      (auto simp: validatePayInvoice_def Let_def counterparty_failures_Nil currency_failures_Nil
        dest: find_SomeD)
qed

end
