(* ===== verification/Approver_Roles.thy ===== *)
theory Approver_Roles
  imports Prelude
begin

text \<open>
  The approval quorum shared by gate check 11 and the approval service
  (shared/src/gate/approverRoles.ts). A named role is matched by the identically named
  signed role and consumed; a \<open>signer\<close> entry is a generic slot for any role left over. The
  loop is greedy; the theory shows that it decides the existence of a matching.
\<close>

definition APPROVER_ROLE_TOKENS :: "string list" where
  "APPROVER_ROLE_TOKENS = [''admin'', ''approver'', ''signer'']"

text \<open>The loop over the required roles: \<open>available\<close> is a JavaScript \<open>Set\<close>, a list without duplicates.\<close>

fun quorum_loop :: "string list \<Rightarrow> nat \<Rightarrow> string list \<Rightarrow> bool" where
  "quorum_loop available signerSlots [] = (length available \<ge> signerSlots)"
| "quorum_loop available signerSlots (requiredRole # rest) =
     (if requiredRole = ''signer'' then quorum_loop available (signerSlots + 1) rest
      else if requiredRole \<in> set available
        then quorum_loop (removeAll requiredRole available) signerSlots rest
      else False)"

definition hasRequiredRoleQuorum :: "string list \<Rightarrow> string list \<Rightarrow> bool" where
  "hasRequiredRoleQuorum requiredRoles signedRoles =
     quorum_loop (remdups signedRoles) 0 requiredRoles"

section \<open>The greedy loop in closed form\<close>

abbreviation named :: "string list \<Rightarrow> string list" where
  "named req \<equiv> filter (\<lambda>r. r \<noteq> ''signer'') req"

lemma length_removeAll_distinct:
  "distinct xs \<Longrightarrow> x \<in> set xs \<Longrightarrow> Suc (length (removeAll x xs)) = length xs"
  by (induction xs) auto

lemma quorum_loop_iff:
  "distinct avail \<Longrightarrow>
   quorum_loop avail k req \<longleftrightarrow>
     distinct (named req) \<and> set (named req) \<subseteq> set avail \<and> k + length req \<le> length avail"
proof (induction avail k req rule: quorum_loop.induct)
  case (2 avail k r rest)
  show ?case
  proof (cases "r = ''signer''")
    case True
    with 2 show ?thesis by simp
  next
    case False
    show ?thesis
    proof (cases "r \<in> set avail")
      case True
      then have "Suc (length (removeAll r avail)) = length avail"
        using "2.prems" by (intro length_removeAll_distinct)
      with 2 False True show ?thesis by (auto simp: distinct_removeAll)
    next
      case False
      with \<open>r \<noteq> ''signer''\<close> show ?thesis by simp
    qed
  qed
qed simp

section \<open>Matchings\<close>

text \<open>An assignment of a distinct signed role to every required entry, named entries to themselves.\<close>

definition is_matching :: "string list \<Rightarrow> string list \<Rightarrow> string list \<Rightarrow> bool" where
  "is_matching req signed asg \<longleftrightarrow>
     length asg = length req \<and> distinct asg \<and> set asg \<subseteq> set signed \<and>
     list_all2 (\<lambda>r s. r = ''signer'' \<or> s = r) req asg"

text \<open>Fill the generic slots from a list of spare roles.\<close>

fun fill_slots :: "string list \<Rightarrow> string list \<Rightarrow> string list" where
  "fill_slots spare [] = []"
| "fill_slots spare (r # rs) =
     (if r = ''signer'' then (case spare of [] \<Rightarrow> [] | s # ss \<Rightarrow> s # fill_slots ss rs)
      else r # fill_slots spare rs)"

lemma fill_slots_matching:
  "\<lbrakk>distinct spare; distinct (named req); set spare \<inter> set (named req) = {};
    length (filter (\<lambda>r. r = ''signer'') req) \<le> length spare\<rbrakk> \<Longrightarrow>
   list_all2 (\<lambda>r s. r = ''signer'' \<or> s = r) req (fill_slots spare req) \<and>
   distinct (fill_slots spare req) \<and>
   set (fill_slots spare req) \<subseteq> set spare \<union> set (named req)"
proof (induction spare req rule: fill_slots.induct)
  case (2 spare r rs)
  show ?case
  proof (cases "r = ''signer''")
    case True
    with "2.prems" obtain s ss where s: "spare = s # ss" by (cases spare) auto
    with 2 True have IH: "list_all2 (\<lambda>r s. r = ''signer'' \<or> s = r) rs (fill_slots ss rs) \<and>
        distinct (fill_slots ss rs) \<and> set (fill_slots ss rs) \<subseteq> set ss \<union> set (named rs)" by auto
    with "2.prems" True s show ?thesis by auto
  next
    case False
    with 2 have "list_all2 (\<lambda>r s. r = ''signer'' \<or> s = r) rs (fill_slots spare rs) \<and>
        distinct (fill_slots spare rs) \<and> set (fill_slots spare rs) \<subseteq> set spare \<union> set (named rs)"
      by auto
    with "2.prems" False show ?thesis by auto
  qed
qed simp

lemma matching_named:
  "list_all2 (\<lambda>r s. r = ''signer'' \<or> s = r) req asg \<Longrightarrow> distinct asg \<Longrightarrow>
   distinct (named req) \<and> set (named req) \<subseteq> set asg"
proof (induction req asg rule: list_all2_induct)
  case (Cons r rs s ss)
  then show ?case by auto
qed simp

lemma quorum_matching_iff:
  "hasRequiredRoleQuorum req signed \<longleftrightarrow> (\<exists>asg. is_matching req signed asg)"
proof
  assume "hasRequiredRoleQuorum req signed"
  then have q: "distinct (named req)" "set (named req) \<subseteq> set signed"
    "length req \<le> length (remdups signed)"
    by (simp_all add: hasRequiredRoleQuorum_def quorum_loop_iff)
  let ?spare = "filter (\<lambda>r. r \<notin> set (named req)) (remdups signed)"
  have "length (remdups signed) = length ?spare + length (filter (\<lambda>r. r \<in> set (named req)) (remdups signed))"
    using sum_length_filter_compl [of "\<lambda>r. r \<in> set (named req)" "remdups signed"] by simp
  moreover have "length (filter (\<lambda>r. r \<in> set (named req)) (remdups signed)) = length (named req)"
  proof -
    have "set (filter (\<lambda>r. r \<in> set (named req)) (remdups signed)) = set (named req)"
      using q(2) by auto
    then show ?thesis using q(1) by (metis distinct_card distinct_filter distinct_remdups)
  qed
  moreover have "length req = length (filter (\<lambda>r. r = ''signer'') req) + length (named req)"
    using sum_length_filter_compl [of "\<lambda>r. r = ''signer''" req] by simp
  ultimately have "length (filter (\<lambda>r. r = ''signer'') req) \<le> length ?spare"
    using q(3) by linarith
  with q(1) have m: "list_all2 (\<lambda>r s. r = ''signer'' \<or> s = r) req (fill_slots ?spare req)"
    "distinct (fill_slots ?spare req)"
    "set (fill_slots ?spare req) \<subseteq> set ?spare \<union> set (named req)"
    using fill_slots_matching [of ?spare req] by auto
  with q(2) have "set (fill_slots ?spare req) \<subseteq> set signed" by auto
  with m have "is_matching req signed (fill_slots ?spare req)"
    by (simp add: is_matching_def list_all2_lengthD [symmetric])
  then show "\<exists>asg. is_matching req signed asg" ..
next
  assume "\<exists>asg. is_matching req signed asg"
  then obtain asg where a: "length asg = length req" "distinct asg" "set asg \<subseteq> set signed"
    "list_all2 (\<lambda>r s. r = ''signer'' \<or> s = r) req asg" by (auto simp: is_matching_def)
  have "length asg = card (set asg)" using a(2) by (simp add: distinct_card)
  also have "\<dots> \<le> card (set signed)" using a(3) by (simp add: card_mono)
  finally have "length req \<le> length (remdups signed)" using a(1) by (simp add: length_remdups_card_conv)
  with matching_named [OF a(4,2)] a(3) show "hasRequiredRoleQuorum req signed"
    by (auto simp: hasRequiredRoleQuorum_def quorum_loop_iff)
qed

section \<open>Properties\<close>

text \<open>
  C32 (equivalence). The greedy quorum loop decides the declarative requirement: it succeeds
  exactly when every required entry can be given its own signed role, a named entry the role
  of that name and a \<open>signer\<close> slot any role at all; no signature is counted twice.
\<close>

theorem quorum_iff_matching:
  "hasRequiredRoleQuorum req signed =
     (\<exists>asg. length asg = length req \<and> distinct asg \<and> set asg \<subseteq> set signed \<and>
        list_all2 (\<lambda>r s. r = ''signer'' \<or> s = r) req asg)"
  using quorum_matching_iff [of req signed] by (simp add: is_matching_def)

text \<open>
  More signatures never break a quorum, and a quorum needs at least as many
  distinct signed roles as the clause has entries.
\<close>

theorem quorum_monotone:
  assumes "hasRequiredRoleQuorum req signed" "set signed \<subseteq> set signed'"
  shows "hasRequiredRoleQuorum req signed' \<and> length req \<le> card (set signed)"
proof -
  from assms(1) obtain asg where a: "is_matching req signed asg"
    unfolding quorum_matching_iff ..
  then have "is_matching req signed' asg" using assms(2) by (auto simp: is_matching_def)
  moreover have "length req = card (set asg)" "set asg \<subseteq> set signed"
    using a by (auto simp: is_matching_def distinct_card)
  then have "length req \<le> card (set signed)" by (simp add: card_mono)
  ultimately show ?thesis unfolding quorum_matching_iff by blast
qed

theorem quorum_monotone_witness:
  "hasRequiredRoleQuorum [''signer'', ''admin''] [''admin'', ''approver'', ''admin''] \<and>
   2 \<le> card (set [''admin'', ''approver''])"
proof -
  have q: "hasRequiredRoleQuorum [''signer'', ''admin''] [''admin'', ''approver'']"
    by (simp add: hasRequiredRoleQuorum_def)
  from quorum_monotone [OF q, of "[''admin'', ''approver'', ''admin'']"] show ?thesis by simp
qed

end
