(* ===== verification/Json_Text.thy ===== *)
theory Json_Text
  imports Prelude
begin

text \<open>
  JSON text with sorted keys: \<open>JSON.stringify\<close> of strings and the recursively key-sorted printer of
  shared/src/gate/snapshot.ts. The second half proves that the text determines the value up to the
  order of keys, which is what a hash of the text stands for.
\<close>

section \<open>Printing\<close>

definition hex_char :: "nat \<Rightarrow> char" where
  "hex_char n = (if n < 10 then char_of (48 + n) else char_of (87 + n))"

text \<open>One code unit inside \<open>JSON.stringify\<close> of a string.\<close>

definition json_escape :: "char \<Rightarrow> string" where
  "json_escape c =
     (let n = code_unit c in
      if n = 34 then [CHR 0x5C, CHR 0x22]
      else if n = 92 then [CHR 0x5C, CHR 0x5C]
      else if n = 8 then [CHR 0x5C, CHR ''b'']
      else if n = 12 then [CHR 0x5C, CHR ''f'']
      else if n = 10 then [CHR 0x5C, CHR ''n'']
      else if n = 13 then [CHR 0x5C, CHR ''r'']
      else if n = 9 then [CHR 0x5C, CHR ''t'']
      else if n < 32 then [CHR 0x5C, CHR ''u'', CHR ''0'', CHR ''0'', hex_char (n div 16), hex_char (n mod 16)]
      else [c])"

definition json_quote :: "string \<Rightarrow> string" where
  "json_quote s = [CHR 0x22] @ concat (map json_escape s) @ [CHR 0x22]"

text \<open>\<open>Object.keys(obj).sort()\<close>\<close>

fun insert_key :: "string \<times> 'a \<Rightarrow> (string \<times> 'a) list \<Rightarrow> (string \<times> 'a) list" where
  "insert_key x [] = [x]"
| "insert_key x (y # ys) = (if str_lt (fst y) (fst x) then y # insert_key x ys else x # y # ys)"

definition sort_keys :: "(string \<times> 'a) list \<Rightarrow> (string \<times> 'a) list" where
  "sort_keys kvs = foldr insert_key kvs []"

text \<open>
  \<open>canonicalize\<close>: recursively key-sorted JSON. \<open>show_number\<close> is \<open>JSON.stringify\<close> of a
  number; the snapshot holds none.
\<close>

fun canonicalize :: "(rat \<Rightarrow> string) \<Rightarrow> json \<Rightarrow> string" where
  "canonicalize show_number JNull = ''null''"
| "canonicalize show_number (JBool b) = (if b then ''true'' else ''false'')"
| "canonicalize show_number (JNum n) = show_number n"
| "canonicalize show_number (JStr s) = json_quote s"
| "canonicalize show_number (JArr vs) =
     ''['' @ js_join '','' (map (canonicalize show_number) vs) @ '']''"
| "canonicalize show_number (JObj kvs) =
     [CHR 0x7B] @ js_join '',''
       (map (\<lambda>(k, t). json_quote k @ '':'' @ t)
         (sort_keys (map (\<lambda>(k, v). (k, canonicalize show_number v)) kvs))) @ [CHR 0x7D]"

section \<open>Sorting keys\<close>

lemma map_sort_keys:
  "sort_keys (map (\<lambda>(k, v). (k, f v)) kvs) = map (\<lambda>(k, v). (k, f v)) (sort_keys kvs)"
proof -
  have ins: "insert_key (k, f v) (map (\<lambda>(k, v). (k, f v)) xs)
    = map (\<lambda>(k, v). (k, f v)) (insert_key (k, v) xs)" for k v xs
    by (induction xs) auto
  show ?thesis by (induction kvs) (auto simp: sort_keys_def ins)
qed

lemma set_insert_key [simp]: "set (insert_key x xs) = insert x (set xs)"
  by (induction xs) auto

lemma set_sort_keys [simp]: "set (sort_keys xs) = set xs"
  by (induction xs) (auto simp: sort_keys_def)

lemma length_sort_keys [simp]: "length (sort_keys xs) = length xs"
proof -
  have "length (insert_key x ys) = Suc (length ys)" for x :: "string \<times> 'a" and ys
    by (induction ys) auto
  then show ?thesis by (induction xs) (auto simp: sort_keys_def)
qed

lemma str_lt_trans: "str_lt a b \<Longrightarrow> str_lt b c \<Longrightarrow> str_lt a c"
proof (induction a b arbitrary: c rule: str_lt.induct)
  case (2 y ys) then show ?case by (cases c) auto
next
  case (3 x xs y ys) then show ?case by (cases c) auto
qed simp

lemma str_lt_irrefl [simp]: "\<not> str_lt a a"
  by (induction a) auto

lemma str_lt_linear: "str_lt a b \<or> a = b \<or> str_lt b a"
  by (induction a b rule: list_induct2') (auto simp: neq_iff)

text \<open>Two ways to list the same entries under distinct keys are sorted to the same list.\<close>

abbreviation keys_sorted :: "(string \<times> 'a) list \<Rightarrow> bool" where
  "keys_sorted \<equiv> sorted_wrt (\<lambda>x y. str_lt (fst x) (fst y))"

lemma insert_key_sorted:
  "keys_sorted xs \<Longrightarrow> fst x \<notin> fst ` set xs \<Longrightarrow> keys_sorted (insert_key x xs)"
proof (induction xs)
  case (Cons y ys)
  then show ?case using str_lt_linear [of "fst x" "fst y"] by (auto dest: str_lt_trans)
qed simp

lemma sort_keys_sorted: "distinct (map fst xs) \<Longrightarrow> keys_sorted (sort_keys xs)"
proof (induction xs)
  case (Cons x xs)
  then have "fst x \<notin> fst ` set (sort_keys xs)" by simp
  with Cons show ?case by (simp add: sort_keys_def insert_key_sorted)
qed (simp add: sort_keys_def)

lemma keys_sorted_unique:
  "keys_sorted xs \<Longrightarrow> keys_sorted ys \<Longrightarrow> set xs = set ys \<Longrightarrow> xs = ys"
proof (induction xs arbitrary: ys)
  case (Cons x xs)
  then obtain y ys' where ys: "ys = y # ys'" by (cases ys) auto
  have "x = y"
  proof (rule ccontr)
    assume "x \<noteq> y"
    then have "x \<in> set ys'" "y \<in> set xs" using Cons.prems(3) ys by (metis insert_iff list.simps(15))+
    then have "str_lt (fst x) (fst y)" "str_lt (fst y) (fst x)" using Cons.prems ys by auto
    then show False using str_lt_trans by fastforce
  qed
  moreover have "x \<notin> set xs" "y \<notin> set ys'" using Cons.prems ys by auto
  with Cons.prems(3) ys calculation have "set xs = set ys'" by (simp add: insert_ident)
  ultimately show ?case using Cons ys by auto
qed simp

lemma sort_keys_perm:
  assumes "distinct (map fst xs)" "distinct (map fst ys)" "set xs = set ys"
  shows "sort_keys xs = sort_keys ys"
  using assms by (intro keys_sorted_unique sort_keys_sorted) simp_all

section \<open>The text determines the value\<close>

text \<open>
  \<open>JSON.stringify\<close> of a number, as far as the text of a document depends on it: a nonempty string of
  the characters of a number literal that tells numbers apart.
\<close>

definition number_char :: "char \<Rightarrow> bool" where
  "number_char c \<longleftrightarrow> is_digit c \<or> c \<in> {CHR ''-'', CHR ''+'', CHR ''.'', CHR ''e''}"

definition number_text :: "(rat \<Rightarrow> string) \<Rightarrow> bool" where
  "number_text sn \<longleftrightarrow> inj sn \<and> (\<forall>n. sn n \<noteq> [] \<and> list_all number_char (sn n))"

text \<open>A value with the keys of every object in order.\<close>

fun jsort :: "json \<Rightarrow> json" where
  "jsort (JArr vs) = JArr (map jsort vs)"
| "jsort (JObj kvs) = JObj (sort_keys (map (\<lambda>(k, v). (k, jsort v)) kvs))"
| "jsort v = v"

text \<open>What follows a value inside a document.\<close>

definition closes :: "string \<Rightarrow> bool" where
  "closes r \<longleftrightarrow> r = [] \<or> hd r \<in> {CHR '','', CHR '']'', CHR 0x7D}"

lemma closes_simps [simp]:
  "closes []" "closes (CHR '','' # r)" "closes (CHR '']'' # r)" "closes (CHR 0x7D # r)"
  by (simp_all add: closes_def)

lemma js_join_Cons: "js_join sep (x # xs) = x @ (if xs = [] then [] else sep @ js_join sep xs)"
  by (cases xs) auto

text \<open>A printer whose output can be read off the front of a text that closes after it.\<close>

definition readable :: "('a \<Rightarrow> string) \<Rightarrow> 'a \<Rightarrow> bool" where
  "readable f v \<longleftrightarrow> (\<forall>w r s. closes r \<longrightarrow> closes s \<longrightarrow> f v @ r = f w @ s \<longrightarrow> v = w \<and> r = s)"

lemma readableD: "readable f v \<Longrightarrow> f v @ r = f w @ s \<Longrightarrow> closes r \<Longrightarrow> closes s \<Longrightarrow> v = w \<and> r = s"
  unfolding readable_def by blast

lemma readable_list:
  assumes "\<And>v. v \<in> set vs \<Longrightarrow> readable f v" "\<And>v. f v \<noteq> [] \<and> hd (f v) \<noteq> c" "c \<in> {CHR '']'', CHR 0x7D}"
    and "js_join '','' (map f vs) @ c # r = js_join '','' (map f ws) @ c # s"
  shows "vs = ws \<and> r = s"
  using assms(1,4)
proof (induction vs arbitrary: ws)
  case Nil
  then show ?case
  proof (cases ws)
    case (Cons w ws')
    then have "hd (f w) = c"
      using Nil.prems(2) assms(2) [of w] by (cases "f w") (simp_all add: js_join_Cons)
    then show ?thesis using assms(2) by blast
  qed simp
next
  case (Cons v vs)
  show ?case
  proof (cases ws)
    case Nil
    then have "hd (f v) = c"
      using Cons.prems(2) assms(2) [of v] by (cases "f v") (simp_all add: js_join_Cons)
    then show ?thesis using assms(2) by blast
  next
    case (Cons w ws')
    let ?t = "\<lambda>xs q. (if xs = [] then [] else '','' @ js_join '','' (map f xs)) @ c # q"
    have "f v @ ?t vs r = f w @ ?t ws' s"
      using Cons.prems(2) Cons by (simp add: js_join_Cons)
    then have vw: "v = w" and rest: "?t vs r = ?t ws' s"
      using readableD [of f v "?t vs r" w "?t ws' s"] Cons.prems(1) assms(3) by (auto split: if_splits)
    then have "js_join '','' (map f vs) @ c # r = js_join '','' (map f ws') @ c # s"
      using assms(3) by (auto split: if_splits)
    then have "vs = ws' \<and> r = s" using Cons.IH Cons.prems(1) by simp
    with vw Cons show ?thesis by simp
  qed
qed

lemma code_unit_hex_char:
  assumes "n < 16"
  shows "code_unit (hex_char n) = (if n < 10 then 48 + n else 87 + n)"
proof -
  have "(48 + n) mod 256 = 48 + n" "(87 + n) mod 256 = 87 + n" using assms by simp_all
  then show ?thesis unfolding hex_char_def by (simp only: of_char_of if_distrib [of code_unit] split: if_split)
qed

lemma hex_char_inject:
  assumes "m < 16" "n < 16"
  shows "hex_char m = hex_char n \<longleftrightarrow> m = n"
proof
  assume "hex_char m = hex_char n"
  then have "(if m < 10 then 48 + m else 87 + m) = (if n < 10 then 48 + n else 87 + n)"
    using code_unit_hex_char [OF assms(1)] code_unit_hex_char [OF assms(2)] by simp
  then show "m = n" by presburger
qed simp

text \<open>Reading back one code unit of a printed string.\<close>

definition hex_val :: "char \<Rightarrow> nat" where
  "hex_val c = (if code_unit c < 58 then code_unit c - 48 else code_unit c - 87)"

lemma hex_val_hex_char: "n < 16 \<Longrightarrow> hex_val (hex_char n) = n"
  unfolding hex_val_def by (simp add: code_unit_hex_char)

definition short_escape :: "char \<Rightarrow> nat" where
  "short_escape k =
     (if k = CHR ''b'' then 8 else if k = CHR ''f'' then 12 else if k = CHR ''n'' then 10
      else if k = CHR ''r'' then 13 else if k = CHR ''t'' then 9 else code_unit k)"

fun read_unit :: "string \<Rightarrow> nat \<times> string" where
  "read_unit (b # k # r) =
     (if b \<noteq> CHR 0x5C then (code_unit b, k # r)
      else if k = CHR ''u'' then (16 * hex_val (r ! 2) + hex_val (r ! 3), drop 4 r)
      else (short_escape k, r))"
| "read_unit [b] = (code_unit b, [])"
| "read_unit [] = (0, [])"

lemma read_unit_plain: "b \<noteq> CHR 0x5C \<Longrightarrow> read_unit (b # r) = (code_unit b, r)"
  by (cases r) auto

lemma read_unit_escape: "read_unit (json_escape c @ r) = (code_unit c, r)"
proof -
  let ?n = "code_unit c"
  have plain: "c \<noteq> CHR 0x5C" if "?n \<noteq> 92" using that by auto
  have hex: "16 * hex_val (hex_char (?n div 16)) + hex_val (hex_char (?n mod 16)) = ?n" if "?n < 32"
  proof -
    have "?n div 16 < 16" using that by linarith
    then show ?thesis by (simp add: hex_val_hex_char)
  qed
  consider "?n \<in> {34, 92, 8, 12, 10, 13, 9}"
    | "?n < 32" "?n \<notin> {34, 92, 8, 12, 10, 13, 9}"
    | "\<not> ?n < 32" "?n \<notin> {34, 92, 8, 12, 10, 13, 9}" by blast
  then show ?thesis
  proof cases
    case 1
    then show ?thesis by (auto simp: json_escape_def short_escape_def)
  next
    case 2
    then have "json_escape c = [CHR 0x5C, CHR ''u'', CHR ''0'', CHR ''0'', hex_char (?n div 16), hex_char (?n mod 16)]"
      by (simp add: json_escape_def Let_def)
    then show ?thesis using hex [OF 2(1)] by simp
  next
    case 3
    then have "json_escape c = [c]" by (simp add: json_escape_def)
    with plain 3 show ?thesis by (simp add: read_unit_plain)
  qed
qed

lemma json_escape_inject: "json_escape c @ r = json_escape d @ s \<Longrightarrow> c = d \<and> r = s"
proof -
  assume "json_escape c @ r = json_escape d @ s"
  then have "(code_unit c, r) = (code_unit d, s)" by (simp flip: read_unit_escape)
  then show ?thesis by simp
qed

lemma json_escape_hd: "json_escape c \<noteq> [] \<and> hd (json_escape c) \<noteq> CHR 0x22"
  by (auto simp: json_escape_def Let_def)

lemma json_quote_inject: "json_quote s @ r = json_quote t @ q \<Longrightarrow> s = t \<and> r = q"
proof -
  assume "json_quote s @ r = json_quote t @ q"
  then have "concat (map json_escape s) @ CHR 0x22 # r = concat (map json_escape t) @ CHR 0x22 # q"
    by (simp add: json_quote_def)
  then show ?thesis
  proof (induction s arbitrary: t)
    case Nil
    then show ?case
    proof (cases t)
      case (Cons d t')
      then show ?thesis using Nil json_escape_hd [of d] by (cases "json_escape d") auto
    qed simp
  next
    case (Cons c s)
    show ?case
    proof (cases t)
      case Nil
      then show ?thesis using Cons.prems json_escape_hd [of c] by (cases "json_escape c") auto
    next
      case (Cons d t')
      then show ?thesis using Cons.prems Cons.IH [of t']
        json_escape_inject [of c "concat (map json_escape s) @ CHR 0x22 # r" d
          "concat (map json_escape t') @ CHR 0x22 # q"] by simp
    qed
  qed
qed

lemma json_quote_hd [simp]: "json_quote s \<noteq> []" "hd (json_quote s) = CHR 0x22"
  by (simp_all add: json_quote_def)

text \<open>The printer without the sort.\<close>

fun jprint :: "(rat \<Rightarrow> string) \<Rightarrow> json \<Rightarrow> string" where
  "jprint sn JNull = ''null''"
| "jprint sn (JBool b) = (if b then ''true'' else ''false'')"
| "jprint sn (JNum n) = sn n"
| "jprint sn (JStr s) = json_quote s"
| "jprint sn (JArr vs) = ''['' @ js_join '','' (map (jprint sn) vs) @ '']''"
| "jprint sn (JObj kvs) =
     [CHR 0x7B] @ js_join '','' (map (\<lambda>(k, v). json_quote k @ '':'' @ jprint sn v) kvs) @ [CHR 0x7D]"

lemma canonicalize_jprint: "canonicalize sn v = jprint sn (jsort v)"
proof (induction sn v rule: canonicalize.induct)
  case (6 sn kvs)
  have fields: "map (\<lambda>(k, v). json_quote k @ '':'' @ canonicalize sn v) (sort_keys kvs)
    = map (\<lambda>(k, v). json_quote k @ '':'' @ jprint sn (jsort v)) (sort_keys kvs)"
    using "6.IH" by (intro map_cong) auto
  have "canonicalize sn (JObj kvs) = [CHR 0x7B] @ js_join '',''
      (map (\<lambda>(k, v). json_quote k @ '':'' @ canonicalize sn v) (sort_keys kvs)) @ [CHR 0x7D]"
    by (simp add: map_sort_keys) (simp add: comp_def case_prod_unfold)
  also have "\<dots> = jprint sn (jsort (JObj kvs))"
    unfolding fields by (simp add: map_sort_keys) (simp add: comp_def case_prod_unfold)
  finally show ?case .
qed (simp_all add: comp_def cong: map_cong)

text \<open>The first character tells the form of a value.\<close>

fun form :: "json \<Rightarrow> nat" where
  "form JNull = 0" | "form (JBool b) = (if b then 1 else 2)" | "form (JNum n) = 3"
| "form (JStr s) = 4" | "form (JArr vs) = 5" | "form (JObj kvs) = 6"

definition char_form :: "char \<Rightarrow> nat" where
  "char_form c =
     (if number_char c then 3 else if c = CHR ''n'' then 0 else if c = CHR ''t'' then 1
      else if c = CHR ''f'' then 2 else if c = CHR 0x22 then 4 else if c = CHR ''['' then 5 else 6)"

lemma not_number_char [simp]:
  "\<not> number_char CHR ''n''" "\<not> number_char CHR ''t''" "\<not> number_char CHR ''f''" "\<not> number_char CHR 0x22"
  "\<not> number_char CHR ''[''" "\<not> number_char CHR '']''" "\<not> number_char CHR 0x7B"
  "\<not> number_char CHR 0x7D" "\<not> number_char CHR '',''"
  by (simp_all add: number_char_def is_digit_def)

lemma number_readable:
  assumes "number_text sn" "sn m @ r = sn n @ s" "closes r" "closes s"
  shows "m = n \<and> r = s"
proof -
  have stop: "takeWhile number_char (sn k @ q) = sn k" if "closes q" for k q
  proof -
    have "\<forall>c \<in> set (sn k). number_char c" using assms(1) by (auto simp: number_text_def list_all_iff)
    moreover have "takeWhile number_char q = []"
      using that by (cases q) (auto simp: closes_def)
    ultimately show ?thesis by (simp add: takeWhile_append2)
  qed
  have "sn m = sn n" using stop [OF assms(3)] stop [OF assms(4)] assms(2) by metis
  with assms(1,2) show ?thesis by (auto simp: number_text_def inj_def)
qed

lemma jprint_form:
  assumes "number_text sn"
  shows "jprint sn v \<noteq> [] \<and> char_form (hd (jprint sn v)) = form v"
proof (cases v)
  case (JNum n)
  from assms have "sn n \<noteq> []" "list_all number_char (sn n)" by (auto simp: number_text_def)
  with JNum show ?thesis by (cases "sn n") (auto simp: char_form_def)
qed (simp_all add: char_form_def)

lemma same_form:
  assumes "number_text sn" "jprint sn v @ r = jprint sn w @ s"
  shows "form v = form w"
  using jprint_form [OF assms(1), of v] jprint_form [OF assms(1), of w] assms(2) by (metis hd_append2)

lemma jprint_not_close:
  assumes "number_text sn" "c \<in> {CHR '']'', CHR 0x7D}"
  shows "jprint sn v \<noteq> [] \<and> hd (jprint sn v) \<noteq> c"
proof (cases v)
  case (JNum n)
  from assms(1) have "sn n \<noteq> []" "list_all number_char (sn n)" by (auto simp: number_text_def)
  with JNum assms(2) show ?thesis by (cases "sn n") auto
qed (use assms(2) in auto)

lemma readableI:
  assumes "number_text sn"
    and "\<And>w r s. form v = form w \<Longrightarrow> closes r \<Longrightarrow> closes s \<Longrightarrow> jprint sn v @ r = jprint sn w @ s \<Longrightarrow> v = w \<and> r = s"
  shows "readable (jprint sn) v"
  unfolding readable_def using assms(2) same_form [OF assms(1)] by blast

lemma entry_readable:
  assumes "readable (jprint sn) v"
  shows "readable (\<lambda>(k, v). json_quote k @ '':'' @ jprint sn v) (k, v)"
  unfolding readable_def
proof (intro allI impI)
  fix kw :: "string \<times> json" and r s
  assume c: "closes r" "closes s"
    and eq: "(case (k, v) of (k, v) \<Rightarrow> json_quote k @ '':'' @ jprint sn v) @ r
      = (case kw of (k, v) \<Rightarrow> json_quote k @ '':'' @ jprint sn v) @ s"
  obtain l w where kw: "kw = (l, w)" by (cases kw)
  then have "k = l \<and> CHR '':'' # jprint sn v @ r = CHR '':'' # jprint sn w @ s"
    using json_quote_inject [of k "CHR '':'' # jprint sn v @ r" l "CHR '':'' # jprint sn w @ s"] eq by simp
  then show "(k, v) = kw \<and> r = s" using readableD [OF assms _ c, of w] kw by simp
qed

lemma jprint_readable:
  assumes sn: "number_text sn"
  shows "readable (jprint sn) v"
proof (induction v)
  case (JNum n)
  show ?case
  proof (rule readableI [OF sn])
    fix w r s assume "form (JNum n) = form w" "closes r" "closes s" "jprint sn (JNum n) @ r = jprint sn w @ s"
    then show "JNum n = w \<and> r = s" using number_readable [OF sn, of n r _ s]
      by (cases w) (simp_all split: if_splits)
  qed
next
  case (JStr t)
  show ?case
  proof (rule readableI [OF sn])
    fix w r s assume "form (JStr t) = form w" "jprint sn (JStr t) @ r = jprint sn w @ s"
    then show "JStr t = w \<and> r = s" using json_quote_inject [of t r _ s]
      by (cases w) (simp_all split: if_splits)
  qed
next
  case (JArr vs)
  show ?case
  proof (rule readableI [OF sn])
    fix w r s assume "form (JArr vs) = form w" and eq: "jprint sn (JArr vs) @ r = jprint sn w @ s"
    then obtain ws where w: "w = JArr ws" by (cases w) (simp_all split: if_splits)
    then have "js_join '','' (map (jprint sn) vs) @ CHR '']'' # r = js_join '','' (map (jprint sn) ws) @ CHR '']'' # s"
      using eq by simp
    then have "vs = ws \<and> r = s"
      by (rule readable_list [rotated 3]) (use JArr jprint_not_close [OF sn, of "CHR '']''"] in simp_all)
    with w show "JArr vs = w \<and> r = s" by simp
  qed
next
  case (JObj kvs)
  let ?f = "\<lambda>(k, v). json_quote k @ '':'' @ jprint sn v"
  have entry: "readable ?f kv" if "kv \<in> set kvs" for kv
    using entry_readable [of sn "snd kv" "fst kv"] JObj [of kv "snd kv"] that by (cases kv) simp
  show ?case
  proof (rule readableI [OF sn])
    fix w r s assume "form (JObj kvs) = form w" and eq: "jprint sn (JObj kvs) @ r = jprint sn w @ s"
    then obtain ws where w: "w = JObj ws" by (cases w) (simp_all split: if_splits)
    then have "js_join '','' (map ?f kvs) @ CHR 0x7D # r = js_join '','' (map ?f ws) @ CHR 0x7D # s"
      using eq by simp
    then have "kvs = ws \<and> r = s"
      by (rule readable_list [rotated 3]) (use entry in auto)
    with w show "JObj kvs = w \<and> r = s" by simp
  qed
qed (rule readableI [OF sn]; case_tac w; simp split: if_splits)+

text \<open>Two values have the same text exactly if they agree up to the order of keys.\<close>

lemma canonicalize_inject:
  assumes "number_text sn"
  shows "canonicalize sn v = canonicalize sn w \<longleftrightarrow> jsort v = jsort w"
proof
  assume "canonicalize sn v = canonicalize sn w"
  then have "jprint sn (jsort v) @ [] = jprint sn (jsort w) @ []" by (simp add: canonicalize_jprint)
  then show "jsort v = jsort w" using readableD [OF jprint_readable [OF assms]] closes_simps(1) by blast
qed (simp add: canonicalize_jprint)

end
