(* ===== verification/Gate_Types.thy ===== *)
theory Gate_Types
  imports Evidence Approver_Roles Json_Text
begin

text \<open>
  The types of the pre-execution gate (shared/src/gate/gate.ts, types.ts,
  agent-attestation.ts, escrow-binding.ts, duplicate.ts) and its ledger snapshot
  (snapshot.ts). The loaders the caller injects are functions of the dependency record; a
  rejected promise is \<open>Inl\<close>, and an optional loader that is not wired is \<open>None\<close>. The
  policy outcome stays a string, because check 3 tests it against values outside the union.
\<close>

section \<open>Inputs\<close>

record settlement =
  st_asset :: string
  st_network :: string
  st_amount :: string
  st_pay_to :: string

record escrow_ref =
  es_escrowId :: string
  es_jobTermsHash :: string

record gate_intent =
  gi_id :: string
  gi_owner_id :: string
  gi_created_by_agent_id :: "string option"
  gi_action_type :: string
  gi_source_account_id :: string
  gi_destination_counterparty_id :: string
  gi_amount :: string
  gi_currency :: string
  gi_status :: string
  gi_policy_decision_id :: "string option"
  gi_evidence_ids :: "string list"
  gi_confidence :: "rat option"
  gi_evidence_score :: "rat option"
  gi_risk_level :: "string option"
  gi_counterparty_trust_status :: "string option"
  gi_invoice_id :: "string option"
  gi_obligation_id :: "string option"
  gi_settlement :: "settlement option"
  gi_escrow :: "escrow_ref option"

record gate_amount =
  ga_currency :: string
  ga_value :: string

record window_cap =
  wc_currency :: string
  wc_value :: string
  wc_window_seconds :: int

record gate_decision =
  gd_id :: string
  gd_outcome :: string
  gd_matched_rule_id :: "string option"
  gd_required_approvers :: "string list"
  gd_ledger_snapshot_hash :: string
  gd_trace :: "json list"
  gd_required_evidence_kinds :: "string list option"
  gd_counterparty_verification_threshold :: "gate_amount option"
  gd_amount_upper_bound :: "gate_amount option"
  gd_policy_version :: "int option"
  gd_onchain_settlement_permitted :: "bool option"
  gd_micropayment_window_cap :: "window_cap option"
  gd_x402_autonomous_max_amount :: "json option"
  gd_ach_autonomous_max_amount :: "json option"
  gd_card_autonomous_max_amount :: "json option"

datatype principal_type = User | Agent_principal | Api_partner

record gate_principal =
  gp_id :: string
  gp_type :: principal_type
  gp_scopes :: "string list"

record gate_account =
  gc_id :: string
  gc_status :: string
  gc_currency :: string
  gc_available_balance :: "string option"

record gate_counterparty =
  cp_id :: string
  cp_type :: string
  cp_risk_level :: "string option"
  cp_verified_status :: "string option"
  cp_trust_status :: "string option"
  cp_agent_id :: "string option"
  cp_onchain_address :: "string option"

record gate_agent =
  gt_id :: string
  gt_state :: string
  gt_canExecutePayments :: bool
  gt_behaviorHash :: "string option"
  gt_max_risk_level :: "risk_level option"

record attestation =
  at_attested :: bool
  at_registered :: "bool option"
  at_revoked :: "bool option"
  at_reason :: "string option"

datatype escrow_state = Escrow_none | Locked | Settled

record resolved_escrow =
  rs_state :: escrow_state
  rs_payer :: string
  rs_payee :: string
  rs_token :: string
  rs_assetMatchesSettlement :: bool
  rs_amount :: string
  rs_released :: string
  rs_refunded :: string
  rs_remaining :: string
  rs_jobTermsHash :: string

record duplicate_input =
  di_tenantId :: string
  di_intent_id :: string
  di_counterpartyId :: string
  di_amount :: string
  di_currency :: string
  di_invoiceId :: "string option"
  di_obligationId :: "string option"
  di_evidenceArtifactIds :: "string list"

record duplicate_collision =
  dc_rule :: string
  dc_detail :: string
  dc_conflicting_payment_intent_id :: "string option"

record duplicate_result =
  dr_passed :: bool
  dr_collisions :: "duplicate_collision list"

section \<open>Checks and results\<close>

datatype check_name =
    Agent_identity_verified | Agent_behavior_pinned | Agent_authorized | Action_allowed
  | Onchain_settlement_permitted | Source_account_allowed | Counterparty_allowed
  | Counterparty_trust_allowed | Agent_counterparty_attested | Counterparty_verified
  | X402_payment_context_valid | Escrow_state_bound | Obligation_direction_matches_flow
  | Amount_within_limit | Ledger_state_bound | Available_balance_sufficient
  | Micropayment_cap_within_window | Required_evidence_present | Evidence_supports_action
  | Approval_requirement_determined | Approval_granted_when_required | No_duplicate_payment
  | Policy_decision_recorded | Audit_before_emitted

type_synonym detail = "(string \<times> json) list"

record gate_check =
  gk_index :: rat
  gk_name :: check_name
  gk_passed :: bool
  gk_detail :: "detail option"

record gate_success =
  gs_dryRun :: bool
  gs_outcome :: string
  gs_requiredApprovers :: "string list"
  gs_policyDecisionId :: string
  gs_auditBeforeEventId :: string
  gs_ledgerStateHash :: string
  gs_trace :: "json list"
  gs_checks :: "gate_check list"

record gate_failure =
  gf_dryRun :: bool
  gf_outcome :: "string option"
  gf_requiredApprovers :: "string list"
  gf_failedCheck :: gate_check
  gf_checks :: "gate_check list"
  gf_trace :: "json list"

datatype gate_result = Gate_ok gate_success | Gate_failed gate_failure

section \<open>Effects and dependencies\<close>

type_synonym 'a loaded = "string + 'a"

record audit_event =
  au_tenantId :: string
  au_layer :: string
  au_actor :: string
  au_action :: string
  au_policyDecisionId :: "string option"
  au_policyCheckId :: "string option"
  au_outcome :: "string option"
  au_inputs :: detail
  au_outputs :: detail
  au_gate_checks :: "gate_check list"

record gate_deps =
  dp_resolveAgent :: "string \<Rightarrow> gate_agent option loaded"
  dp_resolveAccount :: "string \<Rightarrow> gate_account option loaded"
  dp_resolveCounterparty :: "string \<Rightarrow> gate_counterparty option loaded"
  dp_evaluatePolicy :: "gate_intent \<Rightarrow> bool \<Rightarrow> gate_decision loaded"
  dp_resolveApprovals :: "string \<Rightarrow> int option \<Rightarrow> string list loaded"
  dp_audit_emit :: "audit_event \<Rightarrow> string loaded"
  dp_traceCache :: "(string \<Rightarrow> json list \<Rightarrow> nat \<Rightarrow> unit loaded) option"
  dp_sumActiveReservations :: "(string \<Rightarrow> string loaded) option"
  dp_resolveEvidence :: "(gate_intent \<Rightarrow> resolved_evidence list loaded) option"
  dp_detectDuplicates :: "(duplicate_input \<Rightarrow> duplicate_result loaded) option"
  dp_resolveTenantFlags :: "(string \<Rightarrow> bool loaded) option"
  dp_attestCounterpartyAgent :: "(string \<Rightarrow> string \<Rightarrow> string option \<Rightarrow> attestation loaded) option"
  dp_sumAgentWindowSpend :: "(string \<Rightarrow> int \<Rightarrow> string loaded) option"
  dp_resolveEscrowState :: "(string \<Rightarrow> string \<Rightarrow> resolved_escrow option loaded) option"
  dp_resolveObligationDirection :: "(gate_intent \<Rightarrow> string option loaded) option"
  dp_resolveObligationProvenance :: "(gate_intent \<Rightarrow> string option loaded) option"
  dp_fiatHumanApprovalFloorEnabled :: "bool option"
  dp_trustGateEnabled :: "bool option"
  dp_now :: int
  dp_sha256_hex :: "string \<Rightarrow> string"

record run_gate_input =
  in_tenantId :: string
  in_actor :: string
  in_principal :: gate_principal
  in_intent :: gate_intent
  in_dryRun :: "bool option"
  in_runtimeBehaviorHash :: "string option"

text \<open>What the gate writes: the audit-before event, or the dry-run trace cache entry.\<close>

datatype gate_effect =
    Audit_emitted audit_event
  | Trace_cached string "json list" nat

section \<open>The ledger snapshot (snapshot.ts)\<close>

definition ledger_state_json :: "gate_account \<Rightarrow> gate_counterparty \<Rightarrow> json" where
  "ledger_state_json account counterparty = JObj
     [ (''account'', JObj
         [ (''id'', JStr (gc_id account)), (''status'', JStr (gc_status account)),
           (''currency'', JStr (gc_currency account)),
           (''available_balance'',
             (case gc_available_balance account of None \<Rightarrow> JNull
              | Some b \<Rightarrow> JStr (normalizeDecimal_snapshot b))) ]),
       (''counterparty'', JObj
         [ (''id'', JStr (cp_id counterparty)), (''type'', JStr (cp_type counterparty)),
           (''risk_level'', json_opt (cp_risk_level counterparty)),
           (''verified_status'', json_opt (cp_verified_status counterparty)) ]) ]"

definition computeLedgerSnapshot ::
  "(string \<Rightarrow> string) \<Rightarrow> gate_account \<Rightarrow> gate_counterparty \<Rightarrow> string" where
  "computeLedgerSnapshot sha256_hex account counterparty =
     sha256_hex (canonicalize (\<lambda>_. []) (ledger_state_json account counterparty))"

section \<open>The approval floor (gate.ts)\<close>

text \<open>\<open>isAmountCap\<close>: an object with string fields \<open>currency\<close> and \<open>value\<close>.\<close>

definition amount_cap :: "json option \<Rightarrow> gate_amount option" where
  "amount_cap v =
     (case v of
        Some (JObj kvs) \<Rightarrow>
          (case (map_of kvs ''currency'', map_of kvs ''value'') of
             (Some (JStr c), Some (JStr x)) \<Rightarrow> Some \<lparr>ga_currency = c, ga_value = x\<rparr>
           | _ \<Rightarrow> None)
      | _ \<Rightarrow> None)"

definition isAmountCap :: "json option \<Rightarrow> bool" where
  "isAmountCap v \<longleftrightarrow> amount_cap v \<noteq> None"

text \<open>The tail both autonomy predicates share: a well-formed cap in the intent's currency.\<close>

definition within_cap :: "gate_intent \<Rightarrow> json option \<Rightarrow> bool" where
  "within_cap intent capv =
     (case amount_cap capv of
        None \<Rightarrow> False
      | Some cap \<Rightarrow>
          if ga_currency cap \<noteq> gi_currency intent then False
          else if \<not> is_decimal (ga_value cap) \<or> \<not> is_decimal (gi_amount intent) then False
          else cmpDecimal (gi_amount intent) (ga_value cap) \<le> 0)"

definition isX402AutonomousAllowed :: "gate_intent \<Rightarrow> gate_decision \<Rightarrow> bool" where
  "isX402AutonomousAllowed intent decision =
     (if gi_action_type intent \<noteq> ''x402_settle'' then False
      else if gi_settlement intent = None then False
      else if gd_outcome decision \<noteq> ''allow'' then False
      else if gd_onchain_settlement_permitted decision \<noteq> Some True then False
      else within_cap intent (gd_x402_autonomous_max_amount decision))"

definition isFiatAutonomousAllowed :: "gate_intent \<Rightarrow> gate_decision \<Rightarrow> bool" where
  "isFiatAutonomousAllowed intent decision =
     (if gd_outcome decision \<noteq> ''allow'' then False
      else
        let cap = (if gi_action_type intent = ''ach_outbound'' \<or> gi_action_type intent = ''ach_inbound''
                   then gd_ach_autonomous_max_amount decision
                   else if gi_action_type intent = ''card_payment''
                   then gd_card_autonomous_max_amount decision
                   else None)
        in within_cap intent cap)"

definition requiresHardHumanApprovalFloor :: "gate_intent \<Rightarrow> gate_decision \<Rightarrow> bool option \<Rightarrow> bool" where
  "requiresHardHumanApprovalFloor intent decision fiatFloorEnabled =
     (let act = gi_action_type intent in
      if gd_outcome decision \<noteq> ''allow'' then False
      else if act = ''onchain_transfer'' \<or> act = ''escrow_release'' then True
      else if act = ''x402_settle'' then \<not> isX402AutonomousAllowed intent decision
      else if fiatFloorEnabled = Some False then False
      else if act = ''wire'' then True
      else if act = ''ach_outbound'' \<or> act = ''ach_inbound''
        then \<not> isFiatAutonomousAllowed intent decision
      else if act = ''card_payment'' then \<not> isFiatAutonomousAllowed intent decision
      else False)"

end
