(* ===== verification/Gate.thy ===== *)
theory Gate
  imports Gate_Types
begin

text \<open>
  The pre-execution gate \<open>runPreExecutionGate\<close> (shared/src/gate/gate.ts): an ordered
  sequence of checks over the injected loaders. Each check is one definition, a step of the
  gate monad: it appends its passing row to the list of checks and goes on, stops the gate
  with a failing row, or propagates the exception of a loader or of \<open>BigInt\<close>. Metrics
  emission is not modelled: it writes to a sink inside a \<open>try\<close> whose \<open>catch\<close> is empty and
  nothing reads it back.
\<close>

section \<open>The gate monad\<close>

datatype 'a gate_step = Go 'a | Stop gate_check | Throw string

type_synonym 'a gm = "gate_check list \<Rightarrow> 'a gate_step \<times> gate_check list"

definition gret :: "'a \<Rightarrow> 'a gm" where
  "gret x cs = (Go x, cs)"

definition gbind :: "'a gm \<Rightarrow> ('a \<Rightarrow> 'b gm) \<Rightarrow> 'b gm" where
  "gbind m f cs =
     (case m cs of
        (Go x, cs') \<Rightarrow> f x cs'
      | (Stop c, cs') \<Rightarrow> (Stop c, cs')
      | (Throw e, cs') \<Rightarrow> (Throw e, cs'))"

definition gseq :: "unit gm \<Rightarrow> 'b gm \<Rightarrow> 'b gm" where
  "gseq m n = gbind m (\<lambda>_. n)"

text \<open>\<open>pass(checks, index, name, detail)\<close> and \<open>return failGate(index, name, detail)\<close>.\<close>

definition pass :: "rat \<Rightarrow> check_name \<Rightarrow> detail option \<Rightarrow> unit gm" where
  "pass i n d cs = (Go (), cs @ [\<lparr>gk_index = i, gk_name = n, gk_passed = True, gk_detail = d\<rparr>])"

definition failGate :: "rat \<Rightarrow> check_name \<Rightarrow> detail \<Rightarrow> 'a gm" where
  "failGate i n d cs = (Stop \<lparr>gk_index = i, gk_name = n, gk_passed = False, gk_detail = Some d\<rparr>, cs)"

text \<open>\<open>await loader(...)\<close>: a rejected promise leaves the gate.\<close>

definition await :: "'a loaded \<Rightarrow> 'a gm" where
  "await r cs = (case r of Inl e \<Rightarrow> (Throw e, cs) | Inr x \<Rightarrow> (Go x, cs))"

text \<open>A value whose computation may throw a \<open>SyntaxError\<close>.\<close>

definition compute :: "'a option \<Rightarrow> 'a gm" where
  "compute r cs = (case r of None \<Rightarrow> (Throw ''SyntaxError'', cs) | Some x \<Rightarrow> (Go x, cs))"

definition not_applicable :: "detail option" where
  "not_applicable = Some [(''not_applicable'', JBool True)]"

definition principal_type_name :: "principal_type \<Rightarrow> string" where
  "principal_type_name t = (case t of User \<Rightarrow> ''user'' | Agent_principal \<Rightarrow> ''agent''
     | Api_partner \<Rightarrow> ''api_partner'')"

definition amount_json :: "gate_amount \<Rightarrow> json" where
  "amount_json a = JObj [(''currency'', JStr (ga_currency a)), (''value'', JStr (ga_value a))]"

definition failures_json :: "string list \<Rightarrow> json" where
  "failures_json fs = JArr (map JStr fs)"

definition evidence_failures_json :: "evidence_failure list \<Rightarrow> json" where
  "evidence_failures_json fs =
     JArr (map (\<lambda>f. JObj [(''rule'', JStr (ef_rule f)), (''detail'', JStr (ef_detail f))]) fs)"

definition collisions_json :: "duplicate_collision list \<Rightarrow> json" where
  "collisions_json cs = JArr (map (\<lambda>c. JObj
     ([(''rule'', JStr (dc_rule c)), (''detail'', JStr (dc_detail c))]
      @ (case dc_conflicting_payment_intent_id c of None \<Rightarrow> []
         | Some i \<Rightarrow> [(''conflicting_payment_intent_id'', JStr i)]))) cs)"

section \<open>Checks before the policy: 1, 1.5, 2 and the trust gate\<close>

definition intent_agent_id :: "run_gate_input \<Rightarrow> string" where
  "intent_agent_id inp = or_else (gi_created_by_agent_id (in_intent inp)) (gp_id (in_principal inp))"

definition check_1_agent_identity :: "gate_deps \<Rightarrow> run_gate_input \<Rightarrow> gate_agent gm" where
  "check_1_agent_identity deps inp =
     (if gp_type (in_principal inp) \<noteq> Agent_principal
      then failGate 1 Agent_identity_verified
             [(''type'', JStr (principal_type_name (gp_type (in_principal inp))))]
      else if gi_created_by_agent_id (in_intent inp) \<noteq> None
            \<and> gi_created_by_agent_id (in_intent inp) \<noteq> Some (gp_id (in_principal inp))
      then failGate 1 Agent_identity_verified
             [(''reason'', JStr ''principal does not own this PaymentIntent'')]
      else gbind (await (dp_resolveAgent deps (intent_agent_id inp))) (\<lambda>agent.
        case agent of
          None \<Rightarrow> failGate 1 Agent_identity_verified
                    [(''agent_id'', JStr (intent_agent_id inp)), (''state'', JStr ''missing'')]
        | Some ag \<Rightarrow>
            if gt_state ag \<noteq> ''active''
            then failGate 1 Agent_identity_verified
                   [(''agent_id'', JStr (intent_agent_id inp)), (''state'', JStr (gt_state ag))]
            else gseq (pass 1 Agent_identity_verified None) (gret ag)))"

definition check_1_5_behavior_pinned :: "gate_deps \<Rightarrow> run_gate_input \<Rightarrow> gate_agent \<Rightarrow> unit gm" where
  "check_1_5_behavior_pinned deps inp agent =
     (let runtime = in_runtimeBehaviorHash inp;
          registered = gt_behaviorHash agent;
          haveRuntimeHash = (runtime \<noteq> None);
          haveRegisteredHash = (registered \<noteq> None)
      in gbind (case dp_resolveTenantFlags deps of
                  None \<Rightarrow> gret False
                | Some resolve \<Rightarrow> await (resolve (in_tenantId inp))) (\<lambda>requireBehaviorHash.
         if requireBehaviorHash \<and> (\<not> haveRuntimeHash \<or> \<not> haveRegisteredHash)
         then failGate 1.5 Agent_behavior_pinned
                [(''reason'', JStr ''tenant requires behavior-hash pinning but it is unverifiable''),
                 (''require_behavior_hash'', JBool True),
                 (''runtime_hash_present'', JBool haveRuntimeHash),
                 (''registered_hash_present'', JBool haveRegisteredHash)]
         else if haveRuntimeHash \<and> haveRegisteredHash
         then (if registered \<noteq> runtime
               then failGate 1.5 Agent_behavior_pinned
                      [(''registered'', json_opt registered), (''runtime'', json_opt runtime)]
               else pass 1.5 Agent_behavior_pinned None)
         else if dp_resolveTenantFlags deps \<noteq> None
         then pass 1.5 Agent_behavior_pinned not_applicable
         else gret ()))"

definition check_2_authorized :: "run_gate_input \<Rightarrow> gate_agent \<Rightarrow> unit gm" where
  "check_2_authorized inp agent =
     (if ''payment_intent:execute'' \<notin> set (gp_scopes (in_principal inp))
         \<and> \<not> gt_canExecutePayments agent
      then failGate 2 Agent_authorized [(''missing_scope'', JStr ''payment_intent:execute'')]
      else pass 2 Agent_authorized None)"

definition isCounterpartyTrustStatus :: "string option \<Rightarrow> bool" where
  "isCounterpartyTrustStatus v \<longleftrightarrow>
     v = Some ''unreviewed'' \<or> v = Some ''trusted'' \<or> v = Some ''paused'' \<or> v = Some ''acknowledged''"

text \<open>
  The flag-on block: checks 5 and 5.25 before the policy. A throwing counterparty loader is
  caught here and denies.
\<close>

definition check_5_25_trust :: "gate_counterparty \<Rightarrow> unit gm" where
  "check_5_25_trust cp =
     (if \<not> isCounterpartyTrustStatus (cp_trust_status cp)
      then failGate 5.25 Counterparty_trust_allowed
             [(''reason'', JStr ''counterparty_trust_unknown''),
              (''trust_status'', JStr (or_else (cp_trust_status cp) ''unknown''))]
      else if cp_trust_status cp = Some ''paused''
      then failGate 5.25 Counterparty_trust_allowed
             [(''reason'', JStr ''counterparty_trust_paused''),
              (''trust_status'', json_opt (cp_trust_status cp))]
      else pass 5.25 Counterparty_trust_allowed
             (Some [(''trust_status'', json_opt (cp_trust_status cp))]))"

definition preload_counterparty :: "gate_deps \<Rightarrow> run_gate_input \<Rightarrow> gate_counterparty gm" where
  "preload_counterparty deps inp =
     (case dp_resolveCounterparty deps (gi_destination_counterparty_id (in_intent inp)) of
        Inl _ \<Rightarrow> failGate 5.25 Counterparty_trust_allowed
                   [(''reason'', JStr ''counterparty_trust_unknown''),
                    (''trust_status'', JStr ''unknown''), (''loader_failure'', JBool True)]
      | Inr None \<Rightarrow> failGate 5 Counterparty_allowed [(''reason'', JStr ''counterparty not found'')]
      | Inr (Some cp) \<Rightarrow>
          if cp_risk_level cp = Some ''sanctioned''
          then failGate 5 Counterparty_allowed [(''reason'', JStr ''counterparty sanctioned'')]
          else gseq (pass 5 Counterparty_allowed None)
                 (gseq (check_5_25_trust cp) (gret cp)))"

definition trustGateEnabled :: "gate_deps \<Rightarrow> bool" where
  "trustGateEnabled deps \<longleftrightarrow> dp_trustGateEnabled deps = Some True"

text \<open>Everything up to the policy evaluation: the agent and, flag on, the preloaded payee.\<close>

definition pre_policy_checks ::
  "gate_deps \<Rightarrow> run_gate_input \<Rightarrow> (gate_agent \<times> gate_counterparty option) gm" where
  "pre_policy_checks deps inp =
     gbind (check_1_agent_identity deps inp) (\<lambda>agent.
     gseq (check_1_5_behavior_pinned deps inp agent)
    (gseq (check_2_authorized inp agent)
    (if trustGateEnabled deps
     then gbind (preload_counterparty deps inp) (\<lambda>cp. gret (agent, Some cp))
     else gret (agent, None))))"

definition policy_intent :: "gate_intent \<Rightarrow> gate_counterparty option \<Rightarrow> gate_intent" where
  "policy_intent intent preloaded =
     (case preloaded of
        None \<Rightarrow> intent
      | Some cp \<Rightarrow> intent\<lparr>gi_counterparty_trust_status := cp_trust_status cp\<rparr>)"

section \<open>Checks 3 to 6.7\<close>

definition check_3_action_allowed :: "gate_decision \<Rightarrow> unit gm" where
  "check_3_action_allowed decision =
     (case gd_matched_rule_id decision of
        None \<Rightarrow> failGate 3 Action_allowed [(''reason'', JStr ''no rule matched'')]
      | Some rule \<Rightarrow>
          if gd_outcome decision = ''reject''
          then failGate 3 Action_allowed
                 [(''reason'', JStr ''policy explicitly rejected''), (''matched_rule_id'', JStr rule)]
          else if gd_outcome decision \<noteq> ''allow'' \<and> gd_outcome decision \<noteq> ''confirm''
          then failGate 3 Action_allowed
                 [(''reason'', JStr ''non_canonical_policy_outcome''),
                  (''outcome'', JStr (gd_outcome decision)), (''matched_rule_id'', JStr rule)]
          else pass 3 Action_allowed (Some [(''matched_rule_id'', JStr rule)]))"

definition check_3_5_onchain_permitted :: "gate_intent \<Rightarrow> gate_decision \<Rightarrow> unit gm" where
  "check_3_5_onchain_permitted intent decision =
     (if gi_action_type intent = ''x402_settle'' \<or> gi_settlement intent \<noteq> None
      then (case gd_onchain_settlement_permitted decision of
              Some False \<Rightarrow> failGate 3.5 Onchain_settlement_permitted
                 [(''reason'', JStr ''tenant policy does not permit on-chain settlement for this payment class'')]
            | Some True \<Rightarrow> pass 3.5 Onchain_settlement_permitted None
            | None \<Rightarrow> pass 3.5 Onchain_settlement_permitted not_applicable)
      else gret ())"

definition check_4_source_account :: "gate_deps \<Rightarrow> gate_intent \<Rightarrow> gate_account gm" where
  "check_4_source_account deps intent =
     gbind (await (dp_resolveAccount deps (gi_source_account_id intent))) (\<lambda>account.
       case account of
         None \<Rightarrow> failGate 4 Source_account_allowed [(''reason'', JStr ''account not found'')]
       | Some a \<Rightarrow>
           if gc_status a \<noteq> ''active''
           then failGate 4 Source_account_allowed [(''status'', JStr (gc_status a))]
           else gseq (pass 4 Source_account_allowed None) (gret a))"

definition check_5_counterparty ::
  "gate_deps \<Rightarrow> gate_intent \<Rightarrow> gate_counterparty option \<Rightarrow> gate_counterparty gm" where
  "check_5_counterparty deps intent preloaded =
     (if trustGateEnabled deps
      then (case preloaded of
              None \<Rightarrow> failGate 5 Counterparty_allowed [(''reason'', JStr ''counterparty not found'')]
            | Some cp \<Rightarrow> gret cp)
      else gbind (await (dp_resolveCounterparty deps (gi_destination_counterparty_id intent))) (\<lambda>counterparty.
        case counterparty of
          None \<Rightarrow> failGate 5 Counterparty_allowed [(''reason'', JStr ''counterparty not found'')]
        | Some cp \<Rightarrow>
            if cp_risk_level cp = Some ''sanctioned''
            then failGate 5 Counterparty_allowed [(''reason'', JStr ''counterparty sanctioned'')]
            else gseq (pass 5 Counterparty_allowed None) (gret cp)))"

definition check_5_5_attested :: "gate_deps \<Rightarrow> run_gate_input \<Rightarrow> gate_counterparty \<Rightarrow> unit gm" where
  "check_5_5_attested deps inp cp =
     (case dp_attestCounterpartyAgent deps of
        None \<Rightarrow> gret ()
      | Some attest \<Rightarrow>
          if cp_type cp = ''agent''
          then gbind (await (attest (in_tenantId inp) (cp_id cp) (cp_agent_id cp))) (\<lambda>att.
            if \<not> at_attested att
            then failGate 5.5 Agent_counterparty_attested
                   [(''counterparty_id'', JStr (cp_id cp)),
                    (''agent_id'', json_opt (cp_agent_id cp)),
                    (''registered'', JBool (or_else (at_registered att) False)),
                    (''revoked'', JBool (or_else (at_revoked att) False)),
                    (''reason'', JStr (or_else (at_reason att) ''agent payee is not attested''))]
            else pass 5.5 Agent_counterparty_attested None)
          else pass 5.5 Agent_counterparty_attested not_applicable)"

definition check_6_verified :: "gate_intent \<Rightarrow> gate_decision \<Rightarrow> gate_counterparty \<Rightarrow> unit gm" where
  "check_6_verified intent decision cp =
     (let pass6 = pass 6 Counterparty_verified None in
      case gd_counterparty_verification_threshold decision of
        None \<Rightarrow> pass6
      | Some threshold \<Rightarrow>
          if cmpDecimal (gi_amount intent) (ga_value threshold) > 0
             \<and> gi_currency intent = ga_currency threshold
             \<and> \<not> (cp_verified_status cp = Some ''document_verified''
                  \<or> cp_verified_status cp = Some ''sanctions_cleared'')
          then failGate 6 Counterparty_verified
                 [(''required_above'', amount_json threshold),
                  (''actual_status'', JStr (or_else (cp_verified_status cp) ''unverified''))]
          else pass6)"

definition X402_ASSET :: string where "X402_ASSET = ''USDC''"
definition X402_NETWORK :: string where "X402_NETWORK = ''base''"

text \<open>\<open>ONCHAIN_ADDRESS\<close>: \<open>/^0x[0-9a-fA-F]{40}$/\<close>\<close>

definition is_hex_char :: "char \<Rightarrow> bool" where
  "is_hex_char c \<longleftrightarrow> is_digit c \<or> (97 \<le> code_unit c \<and> code_unit c \<le> 102)
     \<or> (65 \<le> code_unit c \<and> code_unit c \<le> 70)"

definition is_onchain_address :: "string \<Rightarrow> bool" where
  "is_onchain_address s \<longleftrightarrow> length s = 42 \<and> take 2 s = ''0x'' \<and> list_all is_hex_char (drop 2 s)"

definition same_address :: "string option \<Rightarrow> string \<Rightarrow> bool" where
  "same_address onchain_address other =
     (case onchain_address of None \<Rightarrow> False | Some a \<Rightarrow> to_lower a = to_lower other)"

definition x402_failures :: "gate_intent \<Rightarrow> settlement \<Rightarrow> gate_counterparty \<Rightarrow> string list" where
  "x402_failures intent s cp =
     (if st_asset s \<noteq> X402_ASSET then [''asset must be '' @ X402_ASSET] else [])
   @ (if st_network s \<noteq> X402_NETWORK then [''network must be '' @ X402_NETWORK] else [])
   @ (if gi_currency intent \<noteq> st_asset s
      then [''intent currency does not match settled asset''] else [])
   @ (if \<not> is_decimal (st_amount s) then [''settlement amount is not a decimal string'']
      else if cmpDecimal (st_amount s) (gi_amount intent) \<noteq> 0
      then [''settlement amount does not match intent amount''] else [])
   @ (if \<not> is_onchain_address (st_pay_to s) then [''settlement pay_to is not a 0x address'']
      else if \<not> same_address (cp_onchain_address cp) (st_pay_to s)
      then [''settlement recipient does not match counterparty on-chain address''] else [])"

definition check_6_5_x402_context :: "gate_intent \<Rightarrow> gate_counterparty \<Rightarrow> unit gm" where
  "check_6_5_x402_context intent cp =
     (if gi_action_type intent = ''x402_settle'' \<and> gi_settlement intent = None
      then failGate 6.5 X402_payment_context_valid
             [(''failures'', failures_json [''x402_settle requires settlement context''])]
      else case gi_settlement intent of
             None \<Rightarrow> gret ()
           | Some s \<Rightarrow>
               let failures = x402_failures intent s cp in
               if length failures > 0
               then failGate 6.5 X402_payment_context_valid [(''failures'', failures_json failures)]
               else pass 6.5 X402_payment_context_valid None)"

definition escrow_state_name :: "escrow_state \<Rightarrow> string" where
  "escrow_state_name s = (case s of Escrow_none \<Rightarrow> ''None'' | Locked \<Rightarrow> ''Locked'' | Settled \<Rightarrow> ''Settled'')"

definition escrow_failures ::
  "gate_intent \<Rightarrow> escrow_ref \<Rightarrow> gate_counterparty \<Rightarrow> resolved_escrow option \<Rightarrow> string list" where
  "escrow_failures intent es cp onchain =
     (case onchain of
        None \<Rightarrow> [''on-chain escrow not found'']
      | Some o_c \<Rightarrow>
          (if rs_state o_c \<noteq> Locked
           then [''escrow is not Locked (state='' @ escrow_state_name (rs_state o_c) @ '')''] else [])
        @ (if \<not> rs_assetMatchesSettlement o_c
           then [''escrow token is not the configured settlement asset'']
           else if cmpDecimal (rs_remaining o_c) (gi_amount intent) < 0
           then [''release amount exceeds escrow remaining balance''] else [])
        @ (if rs_jobTermsHash o_c \<noteq> es_jobTermsHash es
           then [''job-terms commitment does not match the on-chain escrow''] else [])
        @ (if \<not> same_address (cp_onchain_address cp) (rs_payee o_c)
           then [''escrow payee does not match the counterparty on-chain address''] else []))"

definition check_6_6_escrow_bound ::
  "gate_deps \<Rightarrow> run_gate_input \<Rightarrow> gate_counterparty \<Rightarrow> unit gm" where
  "check_6_6_escrow_bound deps inp cp =
     (let intent = in_intent inp in
      if gi_action_type intent = ''escrow_release'' \<and> gi_escrow intent = None
      then failGate 6.6 Escrow_state_bound
             [(''failures'', failures_json [''escrow_release requires escrow context''])]
      else case (gi_escrow intent, dp_resolveEscrowState deps) of
             (Some es, Some resolve) \<Rightarrow>
               gbind (await (resolve (in_tenantId inp) (es_escrowId es))) (\<lambda>onchain.
                 let failures = escrow_failures intent es cp onchain in
                 if length failures > 0
                 then failGate 6.6 Escrow_state_bound [(''failures'', failures_json failures)]
                 else pass 6.6 Escrow_state_bound None)
           | _ \<Rightarrow> gret ())"

definition check_6_7_direction :: "gate_deps \<Rightarrow> gate_intent \<Rightarrow> unit gm" where
  "check_6_7_direction deps intent =
     (case (gi_obligation_id intent, dp_resolveObligationDirection deps) of
        (Some oblig, Some resolve) \<Rightarrow>
          gbind (await (resolve intent)) (\<lambda>direction.
            if direction = Some ''receivable''
            then failGate 6.7 Obligation_direction_matches_flow
                   [(''obligation_id'', JStr oblig), (''direction'', json_opt direction),
                    (''reason'', JStr ''outflow targets a receivable (money owed to us); refusing'')]
            else pass 6.7 Obligation_direction_matches_flow
                   (Some [(''obligation_id'', JStr oblig), (''direction'', json_opt direction)]))
      | _ \<Rightarrow> gret ())"

section \<open>Checks 7 to 9.5: amounts, balance, caps and evidence\<close>

definition check_7_amount_limit :: "gate_intent \<Rightarrow> gate_decision \<Rightarrow> unit gm" where
  "check_7_amount_limit intent decision =
     (case gd_amount_upper_bound decision of
        None \<Rightarrow> pass 7 Amount_within_limit None
      | Some upper \<Rightarrow>
          if gi_currency intent \<noteq> ga_currency upper
          then failGate 7 Amount_within_limit
                 [(''reason'', JStr ''currency mismatch''), (''expected'', JStr (ga_currency upper)),
                  (''actual'', JStr (gi_currency intent))]
          else if cmpDecimal (gi_amount intent) (ga_value upper) > 0
          then failGate 7 Amount_within_limit
                 [(''amount'', JStr (gi_amount intent)), (''upper'', JStr (ga_value upper))]
          else pass 7 Amount_within_limit None)"

definition check_7_5_ledger_bound ::
  "gate_deps \<Rightarrow> gate_account \<Rightarrow> gate_counterparty \<Rightarrow> string gm" where
  "check_7_5_ledger_bound deps account cp =
     (let ledgerStateHash = computeLedgerSnapshot (dp_sha256_hex deps) account cp in
      gseq (pass 7.5 Ledger_state_bound (Some [(''ledger_state_hash'', JStr ledgerStateHash)]))
        (gret ledgerStateHash))"

definition active_reservations :: "gate_deps \<Rightarrow> gate_intent \<Rightarrow> string gm" where
  "active_reservations deps intent =
     (case dp_sumActiveReservations deps of
        None \<Rightarrow> gret ''0''
      | Some reserve_sum \<Rightarrow> await (reserve_sum (gi_source_account_id intent)))"

definition check_8_balance :: "gate_deps \<Rightarrow> gate_intent \<Rightarrow> gate_account \<Rightarrow> unit gm" where
  "check_8_balance deps intent account =
     (if gi_action_type intent = ''x402_settle'' \<or> gi_action_type intent = ''escrow_release''
      then pass 8 Available_balance_sufficient not_applicable
      else case gc_available_balance account of
        None \<Rightarrow> pass 8 Available_balance_sufficient None
      | Some available \<Rightarrow>
          if gc_currency account \<noteq> gi_currency intent
          then failGate 8 Available_balance_sufficient
                 [(''reason'', JStr ''currency mismatch between account and intent'')]
          else gbind (active_reservations deps intent) (\<lambda>reserved.
               gbind (compute (addDecimalString (gi_amount intent) reserved)) (\<lambda>required.
                 if cmpDecimal available required < 0
                 then failGate 8 Available_balance_sufficient
                        [(''available'', JStr available), (''requested'', JStr (gi_amount intent)),
                         (''reserved'', JStr reserved)]
                 else pass 8 Available_balance_sufficient None)))"

definition check_8_5_window_cap ::
  "gate_deps \<Rightarrow> run_gate_input \<Rightarrow> gate_decision \<Rightarrow> unit gm" where
  "check_8_5_window_cap deps inp decision =
     (let intent = in_intent inp in
      case (gd_micropayment_window_cap decision, dp_sumAgentWindowSpend deps) of
        (Some windowCap, Some sumSpend) \<Rightarrow>
          if gi_currency intent \<noteq> wc_currency windowCap
          then failGate 8.5 Micropayment_cap_within_window
                 [(''reason'', JStr ''currency mismatch between intent and window cap''),
                  (''expected'', JStr (wc_currency windowCap)), (''actual'', JStr (gi_currency intent))]
          else gbind (await (sumSpend (intent_agent_id inp) (wc_window_seconds windowCap))) (\<lambda>windowSpend.
               gbind (compute (addDecimalString (gi_amount intent) windowSpend)) (\<lambda>projected.
                 if cmpDecimal projected (wc_value windowCap) > 0
                 then failGate 8.5 Micropayment_cap_within_window
                        [(''window_seconds'', JNum (of_int (wc_window_seconds windowCap))),
                         (''window_spend'', JStr windowSpend), (''amount'', JStr (gi_amount intent)),
                         (''cap'', JStr (wc_value windowCap))]
                 else pass 8.5 Micropayment_cap_within_window None))
      | _ \<Rightarrow> gret ())"

definition check_9_evidence_present :: "gate_intent \<Rightarrow> gate_decision \<Rightarrow> unit gm" where
  "check_9_evidence_present intent decision =
     (let requiredEvidence = or_else (gd_required_evidence_kinds decision) [] in
      if length requiredEvidence > 0 \<and> length (gi_evidence_ids intent) = 0
      then failGate 9 Required_evidence_present
             [(''required'', failures_json requiredEvidence),
              (''provided'', failures_json (gi_evidence_ids intent))]
      else pass 9 Required_evidence_present None)"

definition gate_evidence_input ::
  "gate_deps \<Rightarrow> gate_intent \<Rightarrow> gate_agent \<Rightarrow> resolved_evidence list \<Rightarrow> evidence_input" where
  "gate_evidence_input deps intent agent resolvedEvidence =
     \<lparr>ev_actionType = gi_action_type intent,
      ev_paymentIntent =
        \<lparr>ei_counterpartyId = gi_destination_counterparty_id intent,
         ei_amount = gi_amount intent, ei_currency = gi_currency intent,
         ei_invoiceId = gi_invoice_id intent, ei_obligationId = gi_obligation_id intent\<rparr>,
      ev_evidence = resolvedEvidence,
      ev_maxRiskLevel = gt_max_risk_level agent,
      ev_now = dp_now deps,
      ev_freshnessWindowDays = None\<rparr>"

definition obligation_provenance :: "gate_deps \<Rightarrow> gate_intent \<Rightarrow> string option gm" where
  "obligation_provenance deps intent =
     (case (dp_resolveObligationProvenance deps, gi_obligation_id intent) of
        (Some resolve, Some _) \<Rightarrow> await (resolve intent)
      | _ \<Rightarrow> gret None)"

definition check_9_5_evidence_supports ::
  "gate_deps \<Rightarrow> gate_intent \<Rightarrow> gate_agent \<Rightarrow> gate_decision \<Rightarrow> unit gm" where
  "check_9_5_evidence_supports deps intent agent decision =
     (case dp_resolveEvidence deps of
        None \<Rightarrow> pass 9.5 Evidence_supports_action not_applicable
      | Some resolve \<Rightarrow>
          gbind (await (resolve intent)) (\<lambda>resolvedEvidence.
          gbind (compute (validateEvidence (gate_evidence_input deps intent agent resolvedEvidence)))
           (\<lambda>evidenceResult.
            if \<not> er_passed evidenceResult
            then failGate 9.5 Evidence_supports_action
                   [(''failures'', evidence_failures_json (er_failures evidenceResult))]
            else gbind (obligation_provenance deps intent) (\<lambda>provenance.
              let lowTrustResult =
                    validateLowTrustAutoExecution (gd_outcome decision) resolvedEvidence provenance
              in if \<not> er_passed lowTrustResult
                 then failGate 9.5 Evidence_supports_action
                        [(''failures'', evidence_failures_json (er_failures lowTrustResult))]
                 else pass 9.5 Evidence_supports_action None))))"

section \<open>Checks 10 to 13: approvals, duplicates, decision and audit\<close>

definition check_10_determined :: "gate_decision \<Rightarrow> unit gm" where
  "check_10_determined decision =
     pass 10 Approval_requirement_determined (Some [(''outcome'', JStr (gd_outcome decision))])"

definition check_11_approval ::
  "gate_deps \<Rightarrow> gate_intent \<Rightarrow> gate_decision \<Rightarrow> unit gm" where
  "check_11_approval deps intent decision =
     (let hardFloor = requiresHardHumanApprovalFloor intent decision (dp_fiatHumanApprovalFloorEnabled deps);
          required = gd_required_approvers decision
      in if gd_outcome decision = ''confirm'' \<or> hardFloor
         then gbind (await (dp_resolveApprovals deps (gi_id intent) (gd_policy_version decision)))
           (\<lambda>signedRoles.
             if gd_outcome decision = ''confirm'' \<and> \<not> hasRequiredRoleQuorum required signedRoles
             then failGate 11 Approval_granted_when_required
                    [(''required'', failures_json required), (''signed'', failures_json signedRoles),
                     (''missing'', failures_json (filter (\<lambda>r. r \<notin> set signedRoles) required))]
             else if hardFloor \<and> length signedRoles = 0
             then failGate 11 Approval_granted_when_required
                    [(''reason'', JStr ''hard_human_approval_floor_required''),
                     (''action_type'', JStr (gi_action_type intent)),
                     (''signed'', failures_json signedRoles)]
             else pass 11 Approval_granted_when_required None)
         else pass 11 Approval_granted_when_required None)"

definition duplicate_query :: "run_gate_input \<Rightarrow> duplicate_input" where
  "duplicate_query inp =
     (let intent = in_intent inp in
      \<lparr>di_tenantId = in_tenantId inp, di_intent_id = gi_id intent,
       di_counterpartyId = gi_destination_counterparty_id intent,
       di_amount = gi_amount intent, di_currency = gi_currency intent,
       di_invoiceId = gi_invoice_id intent, di_obligationId = gi_obligation_id intent,
       di_evidenceArtifactIds = gi_evidence_ids intent\<rparr>)"

definition check_11_5_duplicates :: "gate_deps \<Rightarrow> run_gate_input \<Rightarrow> unit gm" where
  "check_11_5_duplicates deps inp =
     (case dp_detectDuplicates deps of
        None \<Rightarrow> pass 11.5 No_duplicate_payment not_applicable
      | Some detect \<Rightarrow>
          gbind (await (detect (duplicate_query inp))) (\<lambda>dupResult.
            if \<not> dr_passed dupResult
            then failGate 11.5 No_duplicate_payment
                   [(''collisions'', collisions_json (dr_collisions dupResult))]
            else pass 11.5 No_duplicate_payment None))"

definition check_12_recorded :: "gate_decision \<Rightarrow> unit gm" where
  "check_12_recorded decision =
     pass 12 Policy_decision_recorded (Some [(''policy_decision_id'', JStr (gd_id decision))])"

text \<open>Everything between the policy evaluation and check 13; the value is the ledger state hash.\<close>

definition post_policy_checks ::
  "gate_deps \<Rightarrow> run_gate_input \<Rightarrow> gate_agent \<Rightarrow> gate_counterparty option \<Rightarrow> gate_decision \<Rightarrow> string gm" where
  "post_policy_checks deps inp agent preloaded decision =
     (let intent = in_intent inp in
      gseq (check_3_action_allowed decision)
     (gseq (check_3_5_onchain_permitted intent decision)
     (gbind (check_4_source_account deps intent) (\<lambda>account.
      gbind (check_5_counterparty deps intent preloaded) (\<lambda>cp.
      gseq (check_5_5_attested deps inp cp)
     (gseq (check_6_verified intent decision cp)
     (gseq (check_6_5_x402_context intent cp)
     (gseq (check_6_6_escrow_bound deps inp cp)
     (gseq (check_6_7_direction deps intent)
     (gseq (check_7_amount_limit intent decision)
     (gbind (check_7_5_ledger_bound deps account cp) (\<lambda>ledgerStateHash.
      gseq (check_8_balance deps intent account)
     (gseq (check_8_5_window_cap deps inp decision)
     (gseq (check_9_evidence_present intent decision)
     (gseq (check_9_5_evidence_supports deps intent agent decision)
     (gseq (check_10_determined decision)
     (gseq (check_11_approval deps intent decision)
     (gseq (check_11_5_duplicates deps inp)
     (gseq (check_12_recorded decision)
     (gret ledgerStateHash))))))))))))))))))))"

section \<open>The gate\<close>

fun insert_str :: "string \<Rightarrow> string list \<Rightarrow> string list" where
  "insert_str x [] = [x]"
| "insert_str x (y # ys) = (if str_lt y x then y # insert_str x ys else x # y # ys)"

definition sort_strings :: "string list \<Rightarrow> string list" where
  "sort_strings xs = foldr insert_str xs []"

text \<open>\<open>JSON.stringify\<close> of an object, keys in insertion order (no number occurs in it).\<close>

fun stringify :: "json \<Rightarrow> string" where
  "stringify JNull = ''null''"
| "stringify (JBool b) = (if b then ''true'' else ''false'')"
| "stringify (JNum n) = []"
| "stringify (JStr s) = json_quote s"
| "stringify (JArr vs) = ''['' @ js_join '','' (map stringify vs) @ '']''"
| "stringify (JObj kvs) =
     [CHR 0x7B] @ js_join '','' (map (\<lambda>(k, v). json_quote k @ '':'' @ stringify v) kvs) @ [CHR 0x7D]"

definition gateTraceCacheKey :: "(string \<Rightarrow> string) \<Rightarrow> gate_intent \<Rightarrow> string" where
  "gateTraceCacheKey sha256_hex intent =
     ''gate:dryrun:'' @ sha256_hex (stringify (JObj
       [ (''owner'', JStr (gi_owner_id intent)),
         (''agent'', json_opt (gi_created_by_agent_id intent)),
         (''action'', JStr (gi_action_type intent)),
         (''src'', JStr (gi_source_account_id intent)),
         (''dst'', JStr (gi_destination_counterparty_id intent)),
         (''amount'', JStr (gi_amount intent)),
         (''currency'', JStr (gi_currency intent)),
         (''evidence'', JArr (map JStr (sort_strings (gi_evidence_ids intent)))) ]))"

definition DRY_RUN_TRACE_TTL_SECONDS :: nat where "DRY_RUN_TRACE_TTL_SECONDS = 60"

definition audit_before_event ::
  "run_gate_input \<Rightarrow> gate_decision \<Rightarrow> string \<Rightarrow> gate_check list \<Rightarrow> audit_event" where
  "audit_before_event inp decision ledgerStateHash checks =
     (let intent = in_intent inp in
      \<lparr>au_tenantId = in_tenantId inp, au_layer = ''agent'', au_actor = in_actor inp,
       au_action = ''payment_intent.execute.before'',
       au_policyDecisionId = Some (gd_id decision),
       au_policyCheckId = gd_matched_rule_id decision,
       au_outcome = Some (gd_outcome decision),
       au_inputs =
         [(''payment_intent_id'', JStr (gi_id intent)),
          (''action_type'', JStr (gi_action_type intent)),
          (''source_account_id'', JStr (gi_source_account_id intent)),
          (''destination_counterparty_id'', JStr (gi_destination_counterparty_id intent)),
          (''amount'', JStr (gi_amount intent)), (''currency'', JStr (gi_currency intent)),
          (''policy_decision_id'', JStr (gd_id decision)),
          (''ledger_state_hash'', JStr ledgerStateHash)],
       au_outputs = [(''gate_passed'', JBool True)],
       au_gate_checks = checks\<rparr>)"

definition is_dry_run :: "run_gate_input \<Rightarrow> bool" where
  "is_dry_run inp = or_else (in_dryRun inp) False"

definition gate_success_result ::
  "run_gate_input \<Rightarrow> gate_decision \<Rightarrow> string \<Rightarrow> string \<Rightarrow> gate_check list \<Rightarrow> gate_result" where
  "gate_success_result inp decision auditBeforeEventId ledgerStateHash checks =
     Gate_ok \<lparr>gs_dryRun = is_dry_run inp, gs_outcome = gd_outcome decision,
       gs_requiredApprovers = gd_required_approvers decision,
       gs_policyDecisionId = (if is_dry_run inp then [] else gd_id decision),
       gs_auditBeforeEventId = auditBeforeEventId, gs_ledgerStateHash = ledgerStateHash,
       gs_trace = gd_trace decision, gs_checks = checks\<rparr>"

definition gate_failure_result ::
  "run_gate_input \<Rightarrow> gate_decision option \<Rightarrow> gate_check \<Rightarrow> gate_check list \<Rightarrow> gate_result" where
  "gate_failure_result inp decision failed checks =
     Gate_failed \<lparr>gf_dryRun = is_dry_run inp, gf_outcome = map_option gd_outcome decision,
       gf_requiredApprovers = (case decision of None \<Rightarrow> [] | Some d \<Rightarrow> gd_required_approvers d),
       gf_failedCheck = failed, gf_checks = checks @ [failed],
       gf_trace = (case decision of None \<Rightarrow> [] | Some d \<Rightarrow> gd_trace d)\<rparr>"

definition passed_row :: "rat \<Rightarrow> check_name \<Rightarrow> detail \<Rightarrow> gate_check" where
  "passed_row i n d = \<lparr>gk_index = i, gk_name = n, gk_passed = True, gk_detail = Some d\<rparr>"

text \<open>
  Check 13: the live gate writes the audit-before event, the dry run only the trace cache.
  The list of effects holds the completed writes.
\<close>

definition finish_gate ::
  "gate_deps \<Rightarrow> run_gate_input \<Rightarrow> gate_decision \<Rightarrow> string \<Rightarrow> gate_check list
     \<Rightarrow> gate_effect list \<times> (string + gate_result)" where
  "finish_gate deps inp decision ledgerStateHash checks =
     (if is_dry_run inp
      then let row = passed_row 13 Audit_before_emitted [(''dry_run'', JBool True)];
               result = gate_success_result inp decision [] ledgerStateHash (checks @ [row]);
               key = gateTraceCacheKey (dp_sha256_hex deps) (in_intent inp)
           in (case dp_traceCache deps of
                 None \<Rightarrow> ([], Inr result)
               | Some store \<Rightarrow>
                   (case store key (gd_trace decision) DRY_RUN_TRACE_TTL_SECONDS of
                      Inl e \<Rightarrow> ([], Inl e)
                    | Inr _ \<Rightarrow> ([Trace_cached key (gd_trace decision) DRY_RUN_TRACE_TTL_SECONDS],
                                Inr result)))
      else let event = audit_before_event inp decision ledgerStateHash checks
           in (case dp_audit_emit deps event of
                 Inl e \<Rightarrow> ([], Inl e)
               | Inr event_id \<Rightarrow>
                   ([Audit_emitted event],
                    Inr (gate_success_result inp decision event_id ledgerStateHash
                      (checks @ [passed_row 13 Audit_before_emitted
                                   [(''audit_event_id'', JStr event_id)]])))))"

definition runPreExecutionGate ::
  "gate_deps \<Rightarrow> run_gate_input \<Rightarrow> gate_effect list \<times> (string + gate_result)" where
  "runPreExecutionGate deps inp =
     (case pre_policy_checks deps inp [] of
        (Throw e, _) \<Rightarrow> ([], Inl e)
      | (Stop failed, checks) \<Rightarrow> ([], Inr (gate_failure_result inp None failed checks))
      | (Go (agent, preloaded), checks) \<Rightarrow>
          (case dp_evaluatePolicy deps (policy_intent (in_intent inp) preloaded) (is_dry_run inp) of
             Inl e \<Rightarrow> ([], Inl e)
           | Inr decision \<Rightarrow>
               (case post_policy_checks deps inp agent preloaded decision checks of
                  (Throw e, _) \<Rightarrow> ([], Inl e)
                | (Stop failed, checks') \<Rightarrow>
                    ([], Inr (gate_failure_result inp (Some decision) failed checks'))
                | (Go ledgerStateHash, checks') \<Rightarrow>
                    finish_gate deps inp decision ledgerStateHash checks')))"

end
