(* ===== verification/Gate_Trace.thy ===== *)
theory Gate_Trace
  imports Gate
begin

text \<open>
  The trace discipline of the gate. \<open>gate_plan\<close> lists the checks in the order they run, with
  their index and name and whether a passing gate always records them; \<open>trace_spec\<close> says
  that a step of the gate monad follows such a plan. Every check meets its own line of the
  plan, \<open>trace_spec\<close> composes along \<open>gbind\<close>, and so the whole gate follows the plan.
\<close>

section \<open>Plans\<close>

record plan_row =
  pl_always :: bool
  pl_index :: rat
  pl_name :: check_name

abbreviation mandatory :: "rat \<Rightarrow> check_name \<Rightarrow> plan_row" where
  "mandatory i n \<equiv> \<lparr>pl_always = True, pl_index = i, pl_name = n\<rparr>"

abbreviation optional :: "rat \<Rightarrow> check_name \<Rightarrow> plan_row" where
  "optional i n \<equiv> \<lparr>pl_always = False, pl_index = i, pl_name = n\<rparr>"

text \<open>The row \<open>c\<close> is an outcome \<open>b\<close> of the check of plan row \<open>p\<close>.\<close>

definition is_row :: "bool \<Rightarrow> plan_row \<Rightarrow> gate_check \<Rightarrow> bool" where
  "is_row b p c \<longleftrightarrow> gk_index c = pl_index p \<and> gk_name c = pl_name p \<and> gk_passed c = b"

text \<open>The rows are the passing rows of the plan, in order, with optional ones possibly left out.\<close>

fun rows_match :: "plan_row list \<Rightarrow> gate_check list \<Rightarrow> bool" where
  "rows_match [] rows = (rows = [])"
| "rows_match (p # ps) rows =
     ((case rows of [] \<Rightarrow> False | c # rest \<Rightarrow> is_row True p c \<and> rows_match ps rest)
      \<or> (\<not> pl_always p \<and> rows_match ps rows))"

text \<open>
  A failing gate may skip the row of check 5: with the trust gate on, a throwing counterparty
  loader is reported by check 5.25 before check 5 has a row.
\<close>

definition relax :: "plan_row list \<Rightarrow> plan_row list" where
  "relax ps = map (\<lambda>p. p\<lparr>pl_always := pl_always p \<and> pl_name p \<noteq> Counterparty_allowed\<rparr>) ps"

definition stops_at :: "plan_row list \<Rightarrow> gate_check list \<Rightarrow> gate_check \<Rightarrow> bool" where
  "stops_at ps rows c \<longleftrightarrow>
     (\<exists>k < length ps. rows_match (relax (take k ps)) rows \<and> is_row False (ps ! k) c)"

definition trace_spec :: "plan_row list \<Rightarrow> 'a gm \<Rightarrow> bool" where
  "trace_spec ps m \<longleftrightarrow> (\<forall>cs.
     case m cs of
       (Go x, cs') \<Rightarrow> \<exists>rows. cs' = cs @ rows \<and> rows_match ps rows
     | (Stop c, cs') \<Rightarrow> \<exists>rows. cs' = cs @ rows \<and> stops_at ps rows c
     | (Throw e, cs') \<Rightarrow> True)"

named_theorems traces \<open>the trace of each step of the gate monad\<close>

lemma is_row_relaxed [simp]: "is_row b (p\<lparr>pl_always := a\<rparr>) c = is_row b p c"
  by (simp add: is_row_def)

lemma relax_simps [simp]:
  "relax [] = []" "relax (ps @ qs) = relax ps @ relax qs"
  by (simp_all add: relax_def)

lemma relax_Cons [simp]: "relax (p # ps) =
  p\<lparr>pl_always := pl_always p \<and> pl_name p \<noteq> Counterparty_allowed\<rparr> # relax ps"
  by (simp add: relax_def)

lemma rows_match_append:
  "rows_match ps rows \<Longrightarrow> rows_match qs rows' \<Longrightarrow> rows_match (ps @ qs) (rows @ rows')"
  by (induction ps rows rule: rows_match.induct) (auto split: list.splits)

lemma rows_match_relax: "rows_match ps rows \<Longrightarrow> rows_match (relax ps) rows"
  by (induction ps rows rule: rows_match.induct) (auto split: list.splits)

section \<open>Composition\<close>

lemma trace_specD:
  assumes "trace_spec ps m"
  shows "m cs = (Go x, cs') \<Longrightarrow> \<exists>rows. cs' = cs @ rows \<and> rows_match ps rows"
    "m cs = (Stop c, cs') \<Longrightarrow> \<exists>rows. cs' = cs @ rows \<and> stops_at ps rows c"
  using assms by (auto simp: trace_spec_def dest!: spec [of _ cs])

lemma stops_at_append1: "stops_at ps rows c \<Longrightarrow> stops_at (ps @ qs) rows c"
proof -
  assume "stops_at ps rows c"
  then obtain k where k: "k < length ps" "rows_match (relax (take k ps)) rows" "is_row False (ps ! k) c"
    by (auto simp: stops_at_def)
  then show ?thesis unfolding stops_at_def by (intro exI [of _ k]) (simp add: nth_append)
qed

lemma stops_at_append2:
  assumes "rows_match ps rows" "stops_at qs rows' c"
  shows "stops_at (ps @ qs) (rows @ rows') c"
proof -
  from assms(2) obtain k where k: "k < length qs" "rows_match (relax (take k qs)) rows'"
    "is_row False (qs ! k) c" by (auto simp: stops_at_def)
  have "rows_match (relax (take (length ps + k) (ps @ qs))) (rows @ rows')"
    using rows_match_append [OF rows_match_relax [OF assms(1)] k(2)] by simp
  with k show ?thesis unfolding stops_at_def by (intro exI [of _ "length ps + k"]) simp
qed

lemma trace_gbind:
  assumes m: "trace_spec ps m" and f: "\<And>x. trace_spec qs (f x)"
  shows "trace_spec (ps @ qs) (gbind m f)"
  unfolding trace_spec_def
proof
  fix cs
  obtain r cs1 where m1: "m cs = (r, cs1)" by (cases "m cs")
  show "case gbind m f cs of
       (Go x, cs') \<Rightarrow> \<exists>rows. cs' = cs @ rows \<and> rows_match (ps @ qs) rows
     | (Stop c, cs') \<Rightarrow> \<exists>rows. cs' = cs @ rows \<and> stops_at (ps @ qs) rows c
     | (Throw e, cs') \<Rightarrow> True"
  proof (cases r)
    case (Go x)
    then obtain rows where rows: "cs1 = cs @ rows" "rows_match ps rows"
      using trace_specD(1) [OF m] m1 by blast
    obtain r2 cs2 where f2: "f x cs1 = (r2, cs2)" by (cases "f x cs1")
    show ?thesis
    proof (cases r2)
      case g2: (Go y)
      obtain rows2 where "cs2 = cs1 @ rows2" "rows_match qs rows2"
        using trace_specD(1) [OF f f2 [unfolded g2]] by blast
      with rows rows_match_append [of ps rows qs rows2] show ?thesis
        using f2 unfolding gbind_def m1 Go g2 by simp
    next
      case s2: (Stop c)
      obtain rows2 where "cs2 = cs1 @ rows2" "stops_at qs rows2 c"
        using trace_specD(2) [OF f f2 [unfolded s2]] by blast
      with rows stops_at_append2 [of ps rows qs rows2 c] show ?thesis
        using f2 unfolding gbind_def m1 Go s2 by simp
    qed (simp add: gbind_def m1 Go f2)
  next
    case (Stop c)
    then obtain rows where "cs1 = cs @ rows" "stops_at ps rows c"
      using trace_specD(2) [OF m] m1 by blast
    then show ?thesis by (simp add: gbind_def m1 Stop stops_at_append1)
  qed (simp add: gbind_def m1)
qed

lemma trace_gseq: "trace_spec ps m \<Longrightarrow> trace_spec qs n \<Longrightarrow> trace_spec (ps @ qs) (gseq m n)"
  unfolding gseq_def by (rule trace_gbind)

lemma trace_gret [traces]: "trace_spec [] (gret x)"
  by (simp add: trace_spec_def gret_def)

lemma trace_silent:
  "trace_spec [] m \<Longrightarrow> (\<And>x. trace_spec ps (f x)) \<Longrightarrow> trace_spec ps (gbind m f)"
  using trace_gbind [of "[]" m ps f] by simp

lemma trace_last: "trace_spec ps m \<Longrightarrow> trace_spec ps (gseq m (gret x))"
  using trace_gseq [of ps m "[]" "gret x"] trace_gret [of x] by simp

lemma trace_last_bind: "trace_spec ps m \<Longrightarrow> (\<And>x. trace_spec [] (f x)) \<Longrightarrow> trace_spec ps (gbind m f)"
  using trace_gbind [of ps m "[]" f] by simp

lemma trace_await [traces]: "trace_spec [] (await r)"
  by (simp add: trace_spec_def await_def split: sum.splits)

lemma trace_compute [traces]: "trace_spec [] (compute r)"
  by (simp add: trace_spec_def compute_def split: option.splits)

lemma trace_pass [traces]: "pl_index p = i \<Longrightarrow> pl_name p = n \<Longrightarrow> trace_spec [p] (pass i n d)"
  by (simp add: trace_spec_def pass_def is_row_def)

lemma trace_failGate [traces]: "pl_index p = i \<Longrightarrow> pl_name p = n \<Longrightarrow> trace_spec [p] (failGate i n d)"
  by (simp add: trace_spec_def failGate_def stops_at_def is_row_def)

text \<open>An optional check that adds no row.\<close>

lemma trace_no_row [traces]: "trace_spec [optional i n] (gret x)"
  by (simp add: trace_spec_def gret_def)

lemmas trace_steps = trace_gret trace_await trace_compute trace_pass trace_failGate trace_no_row
  trace_silent trace_last

section \<open>Every check follows its own line of the plan\<close>

lemma trace_check_1: "trace_spec [mandatory 1 Agent_identity_verified] (check_1_agent_identity deps inp)"
  unfolding check_1_agent_identity_def
  by (auto intro!: trace_steps split: option.splits)

lemma trace_check_1_5:
  "trace_spec [optional 1.5 Agent_behavior_pinned] (check_1_5_behavior_pinned deps inp agent)"
  unfolding check_1_5_behavior_pinned_def Let_def
  by (intro trace_silent) (auto intro!: trace_steps split: option.splits)

lemma trace_check_2: "trace_spec [mandatory 2 Agent_authorized] (check_2_authorized inp agent)"
  unfolding check_2_authorized_def by (auto intro!: trace_steps)

lemma trace_check_5_25:
  "trace_spec [mandatory 5.25 Counterparty_trust_allowed] (check_5_25_trust cp)"
  unfolding check_5_25_trust_def by (auto intro!: trace_steps)

lemma trace_check_3: "trace_spec [mandatory 3 Action_allowed] (check_3_action_allowed decision)"
  unfolding check_3_action_allowed_def by (auto intro!: trace_steps split: option.splits)

lemma trace_check_3_5:
  "trace_spec [optional 3.5 Onchain_settlement_permitted] (check_3_5_onchain_permitted intent decision)"
  unfolding check_3_5_onchain_permitted_def
  by (auto intro!: trace_steps split: option.splits bool.splits)

lemma trace_check_4: "trace_spec [mandatory 4 Source_account_allowed] (check_4_source_account deps intent)"
  unfolding check_4_source_account_def
  by (intro trace_silent) (auto intro!: trace_steps split: option.splits)

lemma trace_check_5_5:
  "trace_spec [optional 5.5 Agent_counterparty_attested] (check_5_5_attested deps inp cp)"
  unfolding check_5_5_attested_def by (auto intro!: trace_steps split: option.splits)

lemma trace_check_6: "trace_spec [mandatory 6 Counterparty_verified] (check_6_verified intent decision cp)"
  unfolding check_6_verified_def Let_def by (auto intro!: trace_steps split: option.splits)

lemma trace_check_6_5:
  "trace_spec [optional 6.5 X402_payment_context_valid] (check_6_5_x402_context intent cp)"
  unfolding check_6_5_x402_context_def Let_def by (auto intro!: trace_steps split: option.splits)

lemma trace_check_6_6:
  "trace_spec [optional 6.6 Escrow_state_bound] (check_6_6_escrow_bound deps inp cp)"
  unfolding check_6_6_escrow_bound_def Let_def by (auto intro!: trace_steps split: option.splits)

lemma trace_check_6_7:
  "trace_spec [optional 6.7 Obligation_direction_matches_flow] (check_6_7_direction deps intent)"
  unfolding check_6_7_direction_def by (auto intro!: trace_steps split: option.splits)

lemma trace_check_7: "trace_spec [mandatory 7 Amount_within_limit] (check_7_amount_limit intent decision)"
  unfolding check_7_amount_limit_def by (auto intro!: trace_steps split: option.splits)

lemma trace_check_7_5:
  "trace_spec [mandatory 7.5 Ledger_state_bound] (check_7_5_ledger_bound deps account cp)"
  unfolding check_7_5_ledger_bound_def Let_def by (auto intro!: trace_steps)

lemma trace_reservations: "trace_spec [] (active_reservations deps intent)"
  unfolding active_reservations_def by (auto intro!: trace_steps split: option.splits)

lemma trace_check_8:
  "trace_spec [mandatory 8 Available_balance_sufficient] (check_8_balance deps intent account)"
  unfolding check_8_balance_def
  by (auto intro!: trace_steps trace_reservations split: option.splits)

lemma trace_check_8_5:
  "trace_spec [optional 8.5 Micropayment_cap_within_window] (check_8_5_window_cap deps inp decision)"
  unfolding check_8_5_window_cap_def Let_def by (auto intro!: trace_steps split: option.splits)

lemma trace_check_9:
  "trace_spec [mandatory 9 Required_evidence_present] (check_9_evidence_present intent decision)"
  unfolding check_9_evidence_present_def Let_def by (auto intro!: trace_steps)

lemma trace_provenance: "trace_spec [] (obligation_provenance deps intent)"
  unfolding obligation_provenance_def by (auto intro!: trace_steps split: option.splits)

lemma trace_check_9_5:
  "trace_spec [mandatory 9.5 Evidence_supports_action] (check_9_5_evidence_supports deps intent agent decision)"
  unfolding check_9_5_evidence_supports_def Let_def
  by (auto intro!: trace_steps trace_provenance split: option.splits)

lemma trace_check_10:
  "trace_spec [mandatory 10 Approval_requirement_determined] (check_10_determined decision)"
  unfolding check_10_determined_def by (auto intro!: trace_steps)

lemma trace_check_11:
  "trace_spec [mandatory 11 Approval_granted_when_required] (check_11_approval deps intent decision)"
  unfolding check_11_approval_def Let_def by (auto intro!: trace_steps)

lemma trace_check_11_5:
  "trace_spec [mandatory 11.5 No_duplicate_payment] (check_11_5_duplicates deps inp)"
  unfolding check_11_5_duplicates_def by (auto intro!: trace_steps split: option.splits)

lemma trace_check_12: "trace_spec [mandatory 12 Policy_decision_recorded] (check_12_recorded decision)"
  unfolding check_12_recorded_def by (auto intro!: trace_steps)

section \<open>The plan of the gate\<close>

definition pre_policy_plan :: "bool \<Rightarrow> plan_row list" where
  "pre_policy_plan trust_on =
     [mandatory 1 Agent_identity_verified, optional 1.5 Agent_behavior_pinned,
      mandatory 2 Agent_authorized]
   @ (if trust_on then [mandatory 5 Counterparty_allowed, mandatory 5.25 Counterparty_trust_allowed]
      else [])"

definition post_policy_plan :: "bool \<Rightarrow> plan_row list" where
  "post_policy_plan trust_on =
     [mandatory 3 Action_allowed, optional 3.5 Onchain_settlement_permitted,
      mandatory 4 Source_account_allowed,
      \<lparr>pl_always = \<not> trust_on, pl_index = 5, pl_name = Counterparty_allowed\<rparr>,
      optional 5.5 Agent_counterparty_attested, mandatory 6 Counterparty_verified,
      optional 6.5 X402_payment_context_valid, optional 6.6 Escrow_state_bound,
      optional 6.7 Obligation_direction_matches_flow, mandatory 7 Amount_within_limit,
      mandatory 7.5 Ledger_state_bound, mandatory 8 Available_balance_sufficient,
      optional 8.5 Micropayment_cap_within_window, mandatory 9 Required_evidence_present,
      mandatory 9.5 Evidence_supports_action, mandatory 10 Approval_requirement_determined,
      mandatory 11 Approval_granted_when_required, mandatory 11.5 No_duplicate_payment,
      mandatory 12 Policy_decision_recorded]"

definition gate_plan :: "bool \<Rightarrow> plan_row list" where
  "gate_plan trust_on = pre_policy_plan trust_on @ post_policy_plan trust_on"

text \<open>The plan of a sequence is that of its first step followed by the rest.\<close>

lemma trace_seq1: "trace_spec [p] m \<Longrightarrow> trace_spec ps n \<Longrightarrow> trace_spec (p # ps) (gseq m n)"
  using trace_gseq [of "[p]" m ps n] by simp

lemma trace_bind1:
  "trace_spec [p] m \<Longrightarrow> (\<And>x. trace_spec ps (f x)) \<Longrightarrow> trace_spec (p # ps) (gbind m f)"
  using trace_gbind [of "[p]" m ps f] by simp

lemma trace_loader_failure:
  "trace_spec [mandatory 5 Counterparty_allowed, mandatory 5.25 Counterparty_trust_allowed]
     (failGate 5.25 Counterparty_trust_allowed d)"
  by (simp add: trace_spec_def failGate_def stops_at_def is_row_def exI [of _ 1])

lemma trace_fail_first: "pl_index p = i \<Longrightarrow> pl_name p = n \<Longrightarrow> trace_spec (p # ps) (failGate i n d)"
  using stops_at_append1 [of "[p]" "[]" _ ps]
  by (fastforce simp: trace_spec_def failGate_def stops_at_def is_row_def)

lemma trace_preload:
  "trace_spec [mandatory 5 Counterparty_allowed, mandatory 5.25 Counterparty_trust_allowed]
     (preload_counterparty deps inp)"
proof -
  have ok: "trace_spec [mandatory 5 Counterparty_allowed, mandatory 5.25 Counterparty_trust_allowed]
      (gseq (pass 5 Counterparty_allowed None) (gseq (check_5_25_trust cp) (gret cp)))" for cp
    by (intro trace_seq1 trace_last trace_check_5_25 trace_pass) simp_all
  have stop: "trace_spec [mandatory 5 Counterparty_allowed, mandatory 5.25 Counterparty_trust_allowed]
      (failGate 5 Counterparty_allowed d :: gate_counterparty gm)" for d
    by (rule trace_fail_first) simp_all
  show ?thesis unfolding preload_counterparty_def
    using ok stop trace_loader_failure by (auto split: sum.split option.split)
qed

lemma trace_pre_policy: "trace_spec (pre_policy_plan (trustGateEnabled deps)) (pre_policy_checks deps inp)"
proof -
  have tail: "trace_spec (if trustGateEnabled deps
        then [mandatory 5 Counterparty_allowed, mandatory 5.25 Counterparty_trust_allowed] else [])
      (if trustGateEnabled deps
       then gbind (preload_counterparty deps inp) (\<lambda>cp. gret (agent, Some cp))
       else gret (agent, None))" for agent
  proof (cases "trustGateEnabled deps")
    case True
    show ?thesis unfolding if_P [OF True] by (rule trace_last_bind [OF trace_preload trace_gret])
  qed (simp add: trace_gret)
  show ?thesis unfolding pre_policy_checks_def pre_policy_plan_def append_Cons append_Nil
    by (intro trace_bind1 trace_seq1 trace_check_1 trace_check_1_5 trace_check_2 tail)
qed

lemma trace_check_5:
  "trace_spec [\<lparr>pl_always = \<not> trustGateEnabled deps, pl_index = 5, pl_name = Counterparty_allowed\<rparr>]
     (check_5_counterparty deps intent preloaded)"
  unfolding check_5_counterparty_def by (auto intro!: trace_steps split: option.splits)

lemma trace_post_policy:
  "trace_spec (post_policy_plan (trustGateEnabled deps)) (post_policy_checks deps inp agent preloaded decision)"
  unfolding post_policy_checks_def post_policy_plan_def Let_def
  by (intro trace_bind1 trace_seq1 trace_last trace_check_3 trace_check_3_5 trace_check_4 trace_check_5
      trace_check_5_5 trace_check_6 trace_check_6_5 trace_check_6_6 trace_check_6_7 trace_check_7
      trace_check_7_5 trace_check_8 trace_check_8_5 trace_check_9 trace_check_9_5 trace_check_10
      trace_check_11 trace_check_11_5 trace_check_12)

section \<open>The whole gate follows the plan\<close>

lemma rows_match_passed: "rows_match ps rows \<Longrightarrow> list_all gk_passed rows"
  by (induction ps rows rule: rows_match.induct) (auto simp: is_row_def split: list.splits)

lemma stops_at_rows: "stops_at ps rows c \<Longrightarrow> list_all gk_passed rows \<and> \<not> gk_passed c"
  by (auto simp: stops_at_def is_row_def dest: rows_match_passed)

lemma finish_gate_checks:
  assumes "rows_match ps rows" "finish_gate deps inp decision h rows = (eff, Inr r)"
  obtains s where "r = Gate_ok s" "rows_match (ps @ [mandatory 13 Audit_before_emitted]) (gs_checks s)"
proof -
  have "rows_match (ps @ [mandatory 13 Audit_before_emitted])
      (rows @ [passed_row 13 Audit_before_emitted d])" for d
    using rows_match_append [OF assms(1), of "[mandatory 13 Audit_before_emitted]"
        "[passed_row 13 Audit_before_emitted d]"] by (simp add: is_row_def passed_row_def)
  then show thesis using assms(2)
    by (intro that [of "case r of Gate_ok s \<Rightarrow> s"])
      (auto simp: finish_gate_def gate_success_result_def Let_def split: if_splits option.splits sum.splits)
qed

text \<open>C3 (safety). Whatever the loaders answer, the gate's trace follows its plan: a passing gate
  shows every mandatory check of the plan in order, all passed, and ends with the audit check;
  a failing gate shows only passing rows in plan order up to the check that failed, which is
  the last row, and the failed check is a check of the plan.\<close>

theorem gate_follows_plan:
  "case snd (runPreExecutionGate deps inp) of
     Inl e \<Rightarrow> True
   | Inr (Gate_ok s) \<Rightarrow>
       rows_match (gate_plan (trustGateEnabled deps) @ [mandatory 13 Audit_before_emitted]) (gs_checks s)
       \<and> list_all gk_passed (gs_checks s)
   | Inr (Gate_failed f) \<Rightarrow>
       (\<exists>rows. gf_checks f = rows @ [gf_failedCheck f]
          \<and> stops_at (gate_plan (trustGateEnabled deps)) rows (gf_failedCheck f)
          \<and> list_all gk_passed rows \<and> \<not> gk_passed (gf_failedCheck f))"
proof -
  let ?t = "trustGateEnabled deps"
  obtain r1 cs1 where pre: "pre_policy_checks deps inp [] = (r1, cs1)"
    by (cases "pre_policy_checks deps inp []")
  note pre1 = trace_specD [OF trace_pre_policy [of deps inp], of "[]"]
  show ?thesis
  proof (cases r1)
    case (Stop c)
    then have s: "stops_at (pre_policy_plan ?t) cs1 c" using pre1(2) pre by force
    from stops_at_append1 [OF s, of "post_policy_plan ?t"] stops_at_rows [OF s] show ?thesis
      by (simp add: runPreExecutionGate_def pre Stop gate_failure_result_def gate_plan_def)
  next
    case (Throw e)
    then show ?thesis by (simp add: runPreExecutionGate_def pre)
  next
    case (Go ap)
    then have go: "rows_match (pre_policy_plan ?t) cs1" using pre1(1) pre by force
    obtain agent preloaded where ap: "ap = (agent, preloaded)" by (cases ap)
    show ?thesis
    proof (cases "dp_evaluatePolicy deps (policy_intent (in_intent inp) preloaded) (is_dry_run inp)")
      case (Inl e)
      then show ?thesis by (simp add: runPreExecutionGate_def pre Go ap)
    next
      case (Inr d)
      obtain r2 cs2 where post: "post_policy_checks deps inp agent preloaded d cs1 = (r2, cs2)"
        by (cases "post_policy_checks deps inp agent preloaded d cs1")
      note run = runPreExecutionGate_def pre Go ap Inr post
      note post1 = trace_specD [OF trace_post_policy [of deps inp agent preloaded d], of cs1]
      show ?thesis
      proof (cases r2)
        case (Stop c)
        with post post1(2) obtain rows where rows: "cs2 = cs1 @ rows" "stops_at (post_policy_plan ?t) rows c"
          by blast
        note s = stops_at_append2 [OF go rows(2)]
        from s stops_at_rows [OF s] show ?thesis
          by (simp add: run Stop gate_failure_result_def gate_plan_def rows(1))
      next
        case (Throw e)
        then show ?thesis by (simp add: run)
      next
        case g: (Go h)
        with post post1(1) obtain rows where rows: "cs2 = cs1 @ rows" "rows_match (post_policy_plan ?t) rows"
          by blast
        note m = rows_match_append [OF go rows(2)]
        obtain eff res where fin: "finish_gate deps inp d h cs2 = (eff, res)"
          by (cases "finish_gate deps inp d h cs2")
        show ?thesis
        proof (cases res)
          case (Inr r)
          with fin m rows(1) obtain s where "r = Gate_ok s"
            "rows_match ((pre_policy_plan ?t @ post_policy_plan ?t) @ [mandatory 13 Audit_before_emitted]) (gs_checks s)"
            using finish_gate_checks by metis
          with rows_match_passed show ?thesis by (simp add: run g fin Inr gate_plan_def)
        qed (simp add: run g fin)
      qed
    qed
  qed
qed

end
