(* ===== verification/Gate_Facts.thy ===== *)
theory Gate_Facts
  imports Gate_Trace
begin

text \<open>
  What a passing gate guarantees. \<open>goes m x\<close> says that a step of the gate monad can go on
  with the value \<open>x\<close>; it decomposes along \<open>gbind\<close>, every check has a lemma reading off what
  its passing means, and \<open>gate_ok_cases\<close> collects them for a passing run. Each property then
  states one guarantee over the loaders' answers, in exact units of 10^-18 where amounts are
  compared.
\<close>

section \<open>Steps that go on\<close>

definition goes :: "'a gm \<Rightarrow> 'a \<Rightarrow> bool" where
  "goes m x \<longleftrightarrow> (\<exists>cs cs'. m cs = (Go x, cs'))"

named_theorems goes_simps \<open>when a step of the gate monad goes on\<close>

lemma goes_gret [goes_simps]: "goes (gret x) y \<longleftrightarrow> x = y"
  by (simp add: goes_def gret_def)

lemma goes_pass [goes_simps]: "goes (pass i n d) u"
  by (simp add: goes_def pass_def)

lemma goes_failGate [goes_simps]: "\<not> goes (failGate i n d) x"
  by (simp add: goes_def failGate_def)

lemma goes_await [goes_simps]: "goes (await r) x \<longleftrightarrow> r = Inr x"
  by (cases r) (auto simp: goes_def await_def)

lemma goes_compute [goes_simps]: "goes (compute r) x \<longleftrightarrow> r = Some x"
  by (cases r) (auto simp: goes_def compute_def)

lemma goes_gbind: "goes (gbind m f) y \<Longrightarrow> \<exists>x. goes m x \<and> goes (f x) y"
  unfolding goes_def gbind_def by (force split: prod.split_asm gate_step.split_asm)

lemma goes_gseq: "goes (gseq m n) y \<Longrightarrow> goes m () \<and> goes n y"
  unfolding gseq_def by (drule goes_gbind) auto

lemma goes_bind_await [goes_simps]: "goes (gbind (await r) f) y \<longleftrightarrow> (\<exists>x. r = Inr x \<and> goes (f x) y)"
  by (cases r) (auto simp: goes_def gbind_def await_def)

lemma goes_bind_compute [goes_simps]: "goes (gbind (compute r) f) y \<longleftrightarrow> (\<exists>x. r = Some x \<and> goes (f x) y)"
  by (cases r) (auto simp: goes_def gbind_def compute_def)

lemma goes_pass_then [goes_simps]: "goes (gseq (pass i n d) (gret x)) y \<longleftrightarrow> x = y"
  by (auto simp: goes_def gseq_def gbind_def pass_def gret_def)

section \<open>What each check means\<close>

definition acting_agent_ok :: "gate_deps \<Rightarrow> run_gate_input \<Rightarrow> gate_agent \<Rightarrow> bool" where
  "acting_agent_ok deps inp agent \<longleftrightarrow>
     gp_type (in_principal inp) = Agent_principal
     \<and> gi_created_by_agent_id (in_intent inp) \<in> {None, Some (gp_id (in_principal inp))}
     \<and> dp_resolveAgent deps (gp_id (in_principal inp)) = Inr (Some agent)
     \<and> gt_state agent = ''active''
     \<and> (''payment_intent:execute'' \<in> set (gp_scopes (in_principal inp)) \<or> gt_canExecutePayments agent)"

lemma check_1_goes: "goes (check_1_agent_identity deps inp) agent \<Longrightarrow>
  gp_type (in_principal inp) = Agent_principal \<and>
  gi_created_by_agent_id (in_intent inp) \<in> {None, Some (gp_id (in_principal inp))} \<and>
  dp_resolveAgent deps (gp_id (in_principal inp)) = Inr (Some agent) \<and> gt_state agent = ''active''"
  by (cases "gi_created_by_agent_id (in_intent inp)")
    (simp_all add: check_1_agent_identity_def goes_simps intent_agent_id_def
      split: if_split_asm option.split_asm, auto simp: goes_simps split: if_split_asm option.split_asm)

lemma check_1_5_goes: "goes (check_1_5_behavior_pinned deps inp agent) u \<Longrightarrow>
  (case (gt_behaviorHash agent, in_runtimeBehaviorHash inp) of
     (Some registered, Some runtime) \<Rightarrow> registered = runtime
   | _ \<Rightarrow> (case dp_resolveTenantFlags deps of None \<Rightarrow> True
           | Some flags \<Rightarrow> flags (in_tenantId inp) = Inr False))"
  by (auto simp: check_1_5_behavior_pinned_def goes_simps Let_def
      dest!: goes_gbind split: if_splits option.splits)

lemma check_2_goes: "goes (check_2_authorized inp agent) u \<Longrightarrow>
  ''payment_intent:execute'' \<in> set (gp_scopes (in_principal inp)) \<or> gt_canExecutePayments agent"
  by (auto simp: check_2_authorized_def goes_simps split: if_splits)

definition trust_admits :: "gate_counterparty \<Rightarrow> bool" where
  "trust_admits cp \<longleftrightarrow>
     cp_trust_status cp \<in> {Some ''unreviewed'', Some ''trusted'', Some ''acknowledged''}"

lemma preload_goes: "goes (preload_counterparty deps inp) cp \<Longrightarrow>
  dp_resolveCounterparty deps (gi_destination_counterparty_id (in_intent inp)) = Inr (Some cp) \<and>
  cp_risk_level cp \<noteq> Some ''sanctioned'' \<and> trust_admits cp"
  by (auto simp: preload_counterparty_def check_5_25_trust_def isCounterpartyTrustStatus_def
      trust_admits_def goes_simps dest!: goes_gseq split: sum.splits option.splits if_splits)

lemma pre_policy_goes:
  assumes "goes (pre_policy_checks deps inp) (agent, preloaded)"
  shows "acting_agent_ok deps inp agent"
    and "goes (check_1_5_behavior_pinned deps inp agent) ()"
    and "if trustGateEnabled deps then \<exists>cp. preloaded = Some cp \<and> goes (preload_counterparty deps inp) cp
         else preloaded = None"
  using assms check_1_goes check_2_goes unfolding acting_agent_ok_def
  by (fastforce simp: pre_policy_checks_def goes_simps dest!: goes_gbind goes_gseq split: if_splits)+

lemma check_3_goes: "goes (check_3_action_allowed d) u \<Longrightarrow>
  gd_matched_rule_id d \<noteq> None \<and> gd_outcome d \<in> {''allow'', ''confirm''}"
  by (auto simp: check_3_action_allowed_def goes_simps split: if_splits option.splits)

lemma check_3_5_goes: "goes (check_3_5_onchain_permitted intent d) u \<Longrightarrow>
  gi_action_type intent = ''x402_settle'' \<or> gi_settlement intent \<noteq> None \<Longrightarrow>
  gd_onchain_settlement_permitted d \<noteq> Some False"
  by (auto simp: check_3_5_onchain_permitted_def goes_simps split: if_splits option.splits bool.splits)

lemma check_4_goes: "goes (check_4_source_account deps intent) a \<Longrightarrow>
  dp_resolveAccount deps (gi_source_account_id intent) = Inr (Some a) \<and> gc_status a = ''active''"
  by (auto simp: check_4_source_account_def goes_simps split: if_splits option.splits)

text \<open>The payee the gate works on: the loaded row, not sanctioned and, flag on, admitted by trust.\<close>

definition payee_ok :: "gate_deps \<Rightarrow> gate_intent \<Rightarrow> gate_counterparty \<Rightarrow> bool" where
  "payee_ok deps intent cp \<longleftrightarrow>
     dp_resolveCounterparty deps (gi_destination_counterparty_id intent) = Inr (Some cp)
     \<and> cp_risk_level cp \<noteq> Some ''sanctioned''
     \<and> (trustGateEnabled deps \<longrightarrow> trust_admits cp)"

lemma check_5_goes:
  assumes "goes (check_5_counterparty deps (in_intent inp) preloaded) cp"
    and "if trustGateEnabled deps then \<exists>cp. preloaded = Some cp \<and> goes (preload_counterparty deps inp) cp
         else preloaded = None"
  shows "payee_ok deps (in_intent inp) cp"
  using assms by (auto simp: check_5_counterparty_def payee_ok_def goes_simps
      split: if_splits option.splits dest!: preload_goes)

lemma check_5_5_goes: "goes (check_5_5_attested deps inp cp) u \<Longrightarrow>
  dp_attestCounterpartyAgent deps = Some attest \<Longrightarrow> cp_type cp = ''agent'' \<Longrightarrow>
  \<exists>a. attest (in_tenantId inp) (cp_id cp) (cp_agent_id cp) = Inr a \<and> at_attested a"
  by (auto simp: check_5_5_attested_def goes_simps split: if_splits)

lemma check_6_goes: "goes (check_6_verified intent d cp) u \<Longrightarrow>
  gd_counterparty_verification_threshold d = Some t \<Longrightarrow> gi_currency intent = ga_currency t \<Longrightarrow>
  cmpDecimal (gi_amount intent) (ga_value t) > 0 \<Longrightarrow>
  cp_verified_status cp \<in> {Some ''document_verified'', Some ''sanctions_cleared''}"
  by (auto simp: check_6_verified_def goes_simps Let_def split: if_splits)

lemma x402_failures_Nil: "x402_failures intent s cp = [] \<longleftrightarrow>
  st_asset s = X402_ASSET \<and> st_network s = X402_NETWORK \<and> gi_currency intent = st_asset s \<and>
  is_decimal (st_amount s) \<and> cmpDecimal (st_amount s) (gi_amount intent) = 0 \<and>
  is_onchain_address (st_pay_to s) \<and> same_address (cp_onchain_address cp) (st_pay_to s)"
  by (simp add: x402_failures_def)

lemma check_6_5_goes: "goes (check_6_5_x402_context intent cp) u \<Longrightarrow>
  case gi_settlement intent of None \<Rightarrow> gi_action_type intent \<noteq> ''x402_settle''
  | Some s \<Rightarrow> x402_failures intent s cp = []"
  by (auto simp: check_6_5_x402_context_def goes_simps Let_def split: if_splits option.splits)

lemma escrow_failures_Nil: "escrow_failures intent es cp onchain = [] \<longleftrightarrow>
  (\<exists>e. onchain = Some e \<and> rs_state e = Locked \<and> rs_assetMatchesSettlement e \<and>
     cmpDecimal (rs_remaining e) (gi_amount intent) \<ge> 0 \<and> rs_jobTermsHash e = es_jobTermsHash es \<and>
     same_address (cp_onchain_address cp) (rs_payee e))"
  by (auto simp: escrow_failures_def split: option.splits)

lemma check_6_6_goes: "goes (check_6_6_escrow_bound deps inp cp) u \<Longrightarrow>
  gi_action_type (in_intent inp) = ''escrow_release'' \<Longrightarrow> dp_resolveEscrowState deps = Some resolve \<Longrightarrow>
  \<exists>es onchain. gi_escrow (in_intent inp) = Some es \<and>
    resolve (in_tenantId inp) (es_escrowId es) = Inr onchain \<and> escrow_failures (in_intent inp) es cp onchain = []"
  by (auto simp: check_6_6_escrow_bound_def goes_simps Let_def split: if_splits option.splits)

lemma check_6_7_goes: "goes (check_6_7_direction deps intent) u \<Longrightarrow>
  gi_obligation_id intent = Some i \<Longrightarrow> dp_resolveObligationDirection deps = Some resolve \<Longrightarrow>
  \<exists>dir. resolve intent = Inr dir \<and> dir \<noteq> Some ''receivable''"
  by (auto simp: check_6_7_direction_def goes_simps split: if_splits option.splits)

lemma check_7_goes: "goes (check_7_amount_limit intent d) u \<Longrightarrow> gd_amount_upper_bound d = Some b \<Longrightarrow>
  gi_currency intent = ga_currency b \<and> cmpDecimal (gi_amount intent) (ga_value b) \<le> 0"
  by (auto simp: check_7_amount_limit_def goes_simps split: if_splits)

lemma check_7_5_goes: "goes (check_7_5_ledger_bound deps a cp) h \<longleftrightarrow>
  h = computeLedgerSnapshot (dp_sha256_hex deps) a cp"
  by (auto simp: check_7_5_ledger_bound_def Let_def goes_simps)

text \<open>The active reservations of the source account, when the loader is wired.\<close>

definition reserved_of :: "gate_deps \<Rightarrow> gate_intent \<Rightarrow> string loaded" where
  "reserved_of deps intent =
     (case dp_sumActiveReservations deps of None \<Rightarrow> Inr ''0''
      | Some total_of \<Rightarrow> total_of (gi_source_account_id intent))"

lemma reservations_goes: "goes (active_reservations deps intent) r \<longleftrightarrow> reserved_of deps intent = Inr r"
  by (auto simp: active_reservations_def reserved_of_def goes_simps split: option.splits)

lemma check_8_goes: "goes (check_8_balance deps intent a) u \<Longrightarrow>
  gi_action_type intent \<notin> {''x402_settle'', ''escrow_release''} \<Longrightarrow> gc_available_balance a = Some b \<Longrightarrow>
  gc_currency a = gi_currency intent \<and>
  (\<exists>r q. reserved_of deps intent = Inr r \<and> addDecimalString (gi_amount intent) r = Some q \<and> cmpDecimal b q \<ge> 0)"
  by (auto simp: check_8_balance_def goes_simps reservations_goes not_less
      dest!: goes_gbind split: if_splits)

lemma check_8_5_goes: "goes (check_8_5_window_cap deps inp d) u \<Longrightarrow>
  gd_micropayment_window_cap d = Some w \<Longrightarrow> dp_sumAgentWindowSpend deps = Some spend \<Longrightarrow>
  gi_currency (in_intent inp) = wc_currency w \<and>
  (\<exists>s q. spend (intent_agent_id inp) (wc_window_seconds w) = Inr s \<and>
     addDecimalString (gi_amount (in_intent inp)) s = Some q \<and> cmpDecimal q (wc_value w) \<le> 0)"
  by (auto simp: check_8_5_window_cap_def goes_simps Let_def not_less split: if_splits)

lemma check_9_goes: "goes (check_9_evidence_present intent d) u \<Longrightarrow>
  or_else (gd_required_evidence_kinds d) [] \<noteq> [] \<Longrightarrow> gi_evidence_ids intent \<noteq> []"
  by (auto simp: check_9_evidence_present_def goes_simps Let_def split: if_splits)

lemma check_9_5_goes: "goes (check_9_5_evidence_supports deps intent agent d) u \<Longrightarrow>
  dp_resolveEvidence deps = Some resolve \<Longrightarrow>
  \<exists>ev res prov. resolve intent = Inr ev \<and>
    validateEvidence (gate_evidence_input deps intent agent ev) = Some res \<and> er_passed res \<and>
    goes (obligation_provenance deps intent) prov \<and>
    er_passed (validateLowTrustAutoExecution (gd_outcome d) ev prov)"
  by (auto simp: check_9_5_evidence_supports_def goes_simps Let_def dest!: goes_gbind split: if_splits)

definition approval_ok :: "gate_deps \<Rightarrow> gate_intent \<Rightarrow> gate_decision \<Rightarrow> bool" where
  "approval_ok deps intent d \<longleftrightarrow>
     (gd_outcome d = ''confirm'' \<longrightarrow>
        (\<exists>signed. dp_resolveApprovals deps (gi_id intent) (gd_policy_version d) = Inr signed
           \<and> hasRequiredRoleQuorum (gd_required_approvers d) signed))
     \<and> (requiresHardHumanApprovalFloor intent d (dp_fiatHumanApprovalFloorEnabled deps) \<longrightarrow>
        (\<exists>signed. dp_resolveApprovals deps (gi_id intent) (gd_policy_version d) = Inr signed
           \<and> signed \<noteq> []))"

lemma check_11_goes: "goes (check_11_approval deps intent d) u \<Longrightarrow> approval_ok deps intent d"
  by (auto simp: check_11_approval_def approval_ok_def goes_simps Let_def split: if_splits)

lemma check_11_5_goes: "goes (check_11_5_duplicates deps inp) u \<Longrightarrow>
  dp_detectDuplicates deps = Some detect \<Longrightarrow> \<exists>r. detect (duplicate_query inp) = Inr r \<and> dr_passed r"
  by (auto simp: check_11_5_duplicates_def goes_simps split: if_splits)

section \<open>A passing run\<close>

lemma finish_gate_ok:
  assumes "finish_gate deps inp d h cs = (eff, Inr (Gate_ok s))"
  shows "gs_outcome s = gd_outcome d" "gs_requiredApprovers s = gd_required_approvers d"
    "gs_ledgerStateHash s = h" "gs_dryRun s = is_dry_run inp"
  using assms
  by (auto simp: finish_gate_def gate_success_result_def Let_def split: if_splits option.splits sum.splits)

definition post_policy_ok ::
  "gate_deps \<Rightarrow> run_gate_input \<Rightarrow> gate_agent \<Rightarrow> gate_decision \<Rightarrow> gate_account \<Rightarrow> gate_counterparty \<Rightarrow> bool" where
  "post_policy_ok deps inp agent d a cp \<longleftrightarrow>
     goes (check_3_action_allowed d) () \<and> goes (check_3_5_onchain_permitted (in_intent inp) d) ()
     \<and> goes (check_4_source_account deps (in_intent inp)) a
     \<and> payee_ok deps (in_intent inp) cp
     \<and> goes (check_5_5_attested deps inp cp) () \<and> goes (check_6_verified (in_intent inp) d cp) ()
     \<and> goes (check_6_5_x402_context (in_intent inp) cp) () \<and> goes (check_6_6_escrow_bound deps inp cp) ()
     \<and> goes (check_6_7_direction deps (in_intent inp)) () \<and> goes (check_7_amount_limit (in_intent inp) d) ()
     \<and> goes (check_8_balance deps (in_intent inp) a) () \<and> goes (check_8_5_window_cap deps inp d) ()
     \<and> goes (check_9_evidence_present (in_intent inp) d) ()
     \<and> goes (check_9_5_evidence_supports deps (in_intent inp) agent d) ()
     \<and> goes (check_11_approval deps (in_intent inp) d) () \<and> goes (check_11_5_duplicates deps inp) ()"

lemma post_policy_goes:
  assumes "goes (post_policy_checks deps inp agent preloaded d) h"
    and "if trustGateEnabled deps then \<exists>cp. preloaded = Some cp \<and> goes (preload_counterparty deps inp) cp
         else preloaded = None"
  shows "\<exists>a cp. post_policy_ok deps inp agent d a cp \<and> h = computeLedgerSnapshot (dp_sha256_hex deps) a cp"
  using assms(1) check_5_goes [OF _ assms(2)] unfolding post_policy_checks_def Let_def post_policy_ok_def
  by (elim goes_gseq [THEN conjE] goes_gbind [THEN exE] conjE) (auto simp: goes_simps check_7_5_goes)

lemma gate_ok_cases:
  assumes "runPreExecutionGate deps inp = (eff, Inr (Gate_ok s))"
  obtains agent preloaded d a cp cs where
    "acting_agent_ok deps inp agent" "goes (check_1_5_behavior_pinned deps inp agent) ()"
    "preloaded = (if trustGateEnabled deps then Some cp else None)"
    "dp_evaluatePolicy deps (policy_intent (in_intent inp) preloaded) (is_dry_run inp) = Inr d"
    "post_policy_ok deps inp agent d a cp"
    "gs_outcome s = gd_outcome d" "gs_requiredApprovers s = gd_required_approvers d"
    "gs_ledgerStateHash s = computeLedgerSnapshot (dp_sha256_hex deps) a cp"
    "finish_gate deps inp d (gs_ledgerStateHash s) cs = (eff, Inr (Gate_ok s))"
proof -
  from assms obtain agent preloaded cs1 where pre: "pre_policy_checks deps inp [] = (Go (agent, preloaded), cs1)"
    by (auto simp: runPreExecutionGate_def gate_failure_result_def split: prod.splits gate_step.splits)
  with assms obtain d where d: "dp_evaluatePolicy deps (policy_intent (in_intent inp) preloaded) (is_dry_run inp) = Inr d"
    by (auto simp: runPreExecutionGate_def split: sum.splits)
  from assms pre d obtain h cs2 where
    post: "post_policy_checks deps inp agent preloaded d cs1 = (Go h, cs2)"
    and fin: "finish_gate deps inp d h cs2 = (eff, Inr (Gate_ok s))"
    by (auto simp: runPreExecutionGate_def gate_failure_result_def split: prod.splits gate_step.splits)
  from pre have "goes (pre_policy_checks deps inp) (agent, preloaded)" by (auto simp: goes_def)
  note p = pre_policy_goes [OF this]
  from post have "goes (post_policy_checks deps inp agent preloaded d) h" by (auto simp: goes_def)
  from post_policy_goes [OF this p(3)] obtain a cp where
    ok: "post_policy_ok deps inp agent d a cp" "h = computeLedgerSnapshot (dp_sha256_hex deps) a cp" by blast
  have "preloaded = (if trustGateEnabled deps then Some cp else None)"
  proof (cases "trustGateEnabled deps")
    case True
    with p(3) obtain cp' where cp': "preloaded = Some cp'" "goes (preload_counterparty deps inp) cp'" by auto
    from preload_goes [OF cp'(2)] ok(1) have "cp' = cp" by (auto simp: post_policy_ok_def payee_ok_def)
    with cp' True show ?thesis by simp
  qed (use p(3) in simp)
  then show thesis using that [OF p(1,2) _ d ok(1) finish_gate_ok(1,2) [OF fin]] finish_gate_ok(3) [OF fin]
      ok(2) fin by simp
qed

end
