(* ===== verification/Gate_Sample.thy ===== *)
theory Gate_Sample
  imports Gate_Facts
begin

text \<open>
  Concrete worlds in which the gate passes, evaluated check by check: the witnesses of the
  gate's properties apply them here, so their hypotheses hold together.
\<close>

section \<open>A concrete world\<close>

text \<open>
  An agent payee with every optional loader wired: a confirmed wire of 100, carrying a settlement and an escrow
  context, against a
  balance of 500 with 50 reserved, under a cap of 1000 and a window cap of 400.
\<close>

definition sample_address :: string where
  "sample_address = ''0x00000000000000000000000000000000000000aB''"

definition sample_intent :: gate_intent where
  "sample_intent =
     \<lparr>gi_id = ''pi_1'', gi_owner_id = ''own_1'', gi_created_by_agent_id = Some ''agent_1'',
      gi_action_type = ''wire'', gi_source_account_id = ''acc_1'',
      gi_destination_counterparty_id = ''cp_1'', gi_amount = ''100'', gi_currency = ''USDC'',
      gi_status = ''approved'', gi_policy_decision_id = None, gi_evidence_ids = [''ev_1''],
      gi_confidence = None, gi_evidence_score = None, gi_risk_level = None,
      gi_counterparty_trust_status = None, gi_invoice_id = Some ''inv_1'',
      gi_obligation_id = Some ''ob_1'', gi_settlement = Some \<lparr>st_asset = ''USDC'', st_network = ''base'', st_amount = ''100.0'',
        st_pay_to = sample_address\<rparr>,
      gi_escrow = Some \<lparr>es_escrowId = ''esc_1'', es_jobTermsHash = ''terms''\<rparr>\<rparr>"

definition sample_payee :: gate_counterparty where
  "sample_payee =
     \<lparr>cp_id = ''cp_1'', cp_type = ''agent'', cp_risk_level = Some ''low'',
      cp_verified_status = Some ''document_verified'', cp_trust_status = Some ''trusted'',
      cp_agent_id = Some ''agent_2'', cp_onchain_address = Some sample_address\<rparr>"

definition sample_decision :: gate_decision where
  "sample_decision =
     \<lparr>gd_id = ''pd_1'', gd_outcome = ''confirm'', gd_matched_rule_id = Some ''rule_1'',
      gd_required_approvers = [''admin'', ''signer''], gd_ledger_snapshot_hash = [], gd_trace = [],
      gd_required_evidence_kinds = Some [''invoice''],
      gd_counterparty_verification_threshold = Some \<lparr>ga_currency = ''USDC'', ga_value = ''10''\<rparr>,
      gd_amount_upper_bound = Some \<lparr>ga_currency = ''USDC'', ga_value = ''1000''\<rparr>,
      gd_policy_version = Some 1, gd_onchain_settlement_permitted = Some True,
      gd_micropayment_window_cap =
        Some \<lparr>wc_currency = ''USDC'', wc_value = ''400'', wc_window_seconds = 3600\<rparr>,
      gd_x402_autonomous_max_amount =
        Some (JObj [(''currency'', JStr ''USDC''), (''value'', JStr ''250'')]),
      gd_ach_autonomous_max_amount = None, gd_card_autonomous_max_amount = None\<rparr>"

definition sample_invoice :: resolved_evidence where
  "sample_invoice =
     \<lparr>re_id = ''ev_1'', re_kind = ''invoice'',
      re_extracted = map_of [(''id'', JStr ''inv_1''), (''counterparty_id'', JStr ''cp_1''),
        (''currency'', JStr ''USDC''), (''amount_due'', JStr ''120.50''),
        (''amount_paid'', JStr ''20.5'')],
      re_sourceArtifactId = ''art_1'', re_capturedAt = 0, re_trustLevel = Trust_high\<rparr>"

definition sample_escrow :: resolved_escrow where
  "sample_escrow =
     \<lparr>rs_state = Locked, rs_payer = ''0x1'', rs_payee = sample_address, rs_token = ''0x2'',
      rs_assetMatchesSettlement = True, rs_amount = ''300'', rs_released = ''150'',
      rs_refunded = ''0'', rs_remaining = ''150'', rs_jobTermsHash = ''terms''\<rparr>"

definition sample_agent :: gate_agent where
  "sample_agent = \<lparr>gt_id = ''agent_1'', gt_state = ''active'', gt_canExecutePayments = True,
     gt_behaviorHash = Some ''bh'', gt_max_risk_level = Some Risk_medium\<rparr>"

definition sample_account :: gate_account where
  "sample_account = \<lparr>gc_id = ''acc_1'', gc_status = ''active'', gc_currency = ''USDC'',
     gc_available_balance = Some ''500.00''\<rparr>"

definition sample_deps :: gate_deps where
  "sample_deps =
     \<lparr>dp_resolveAgent = (\<lambda>_. Inr (Some sample_agent)),
      dp_resolveAccount = (\<lambda>_. Inr (Some sample_account)),
      dp_resolveCounterparty = (\<lambda>_. Inr (Some sample_payee)),
      dp_evaluatePolicy = (\<lambda>i dry. Inr sample_decision),
      dp_resolveApprovals = (\<lambda>_ _. Inr [''approver'', ''admin'']),
      dp_audit_emit = (\<lambda>_. Inr ''evt_1''),
      dp_traceCache = Some (\<lambda>_ _ _. Inr ()),
      dp_sumActiveReservations = Some (\<lambda>_. Inr ''50''),
      dp_resolveEvidence = Some (\<lambda>_. Inr [sample_invoice]),
      dp_detectDuplicates = Some (\<lambda>_. Inr \<lparr>dr_passed = True, dr_collisions = []\<rparr>),
      dp_resolveTenantFlags = Some (\<lambda>_. Inr True),
      dp_attestCounterpartyAgent = Some (\<lambda>_ _ _. Inr
        \<lparr>at_attested = True, at_registered = Some True, at_revoked = None, at_reason = None\<rparr>),
      dp_sumAgentWindowSpend = Some (\<lambda>_ _. Inr ''299.5''),
      dp_resolveEscrowState = Some (\<lambda>_ _. Inr (Some sample_escrow)),
      dp_resolveObligationDirection = Some (\<lambda>_. Inr (Some ''payable'')),
      dp_resolveObligationProvenance = Some (\<lambda>_. Inr (Some ''extracted'')),
      dp_fiatHumanApprovalFloorEnabled = None, dp_trustGateEnabled = Some True,
      dp_now = 86400000, dp_sha256_hex = (\<lambda>s. ''hash'')\<rparr>"

definition sample_input :: run_gate_input where
  "sample_input =
     \<lparr>in_tenantId = ''t_1'', in_actor = ''agent_1'',
      in_principal = \<lparr>gp_id = ''agent_1'', gp_type = Agent_principal,
        gp_scopes = [''payment_intent:execute'']\<rparr>,
      in_intent = sample_intent, in_dryRun = None, in_runtimeBehaviorHash = Some ''bh''\<rparr>"

definition gate_passes :: "gate_deps \<Rightarrow> run_gate_input \<Rightarrow> bool" where
  "gate_passes deps inp \<longleftrightarrow>
     (case runPreExecutionGate deps inp of (_, Inr (Gate_ok _)) \<Rightarrow> True | _ \<Rightarrow> False)"

lemma gate_passesE:
  assumes "gate_passes deps inp"
  obtains eff s where "runPreExecutionGate deps inp = (eff, Inr (Gate_ok s))"
  using assms by (auto simp: gate_passes_def split: prod.splits sum.splits gate_result.splits)

text \<open>Evaluation step by step: a step that goes on whatever the rows recorded before it.\<close>

definition always_goes :: "'a gm \<Rightarrow> 'a \<Rightarrow> bool" where
  "always_goes m x \<longleftrightarrow> (\<forall>cs. fst (m cs) = Go x)"

lemma always_goesI: "(\<And>cs. fst (m cs) = Go x) \<Longrightarrow> always_goes m x"
  by (simp add: always_goes_def)

lemma always_goes_bind: "always_goes m x \<Longrightarrow> always_goes (f x) y \<Longrightarrow> always_goes (gbind m f) y"
  unfolding always_goes_def gbind_def by (auto split: prod.split) (metis fst_conv gate_step.simps(10))

lemma always_goes_seq: "always_goes m () \<Longrightarrow> always_goes n y \<Longrightarrow> always_goes (gseq m n) y"
  unfolding gseq_def by (rule always_goes_bind)

lemma always_goes_gret: "always_goes (gret x) x"
  by (simp add: always_goes_def gret_def)

lemma post_policy_intro:
  assumes "always_goes (check_3_action_allowed d) ()"
    "always_goes (check_3_5_onchain_permitted (in_intent inp) d) ()"
    "always_goes (check_4_source_account deps (in_intent inp)) account"
    "always_goes (check_5_counterparty deps (in_intent inp) preloaded) cp"
    "always_goes (check_5_5_attested deps inp cp) ()" "always_goes (check_6_verified (in_intent inp) d cp) ()"
    "always_goes (check_6_5_x402_context (in_intent inp) cp) ()"
    "always_goes (check_6_6_escrow_bound deps inp cp) ()"
    "always_goes (check_6_7_direction deps (in_intent inp)) ()"
    "always_goes (check_7_amount_limit (in_intent inp) d) ()"
    "always_goes (check_7_5_ledger_bound deps account cp) h"
    "always_goes (check_8_balance deps (in_intent inp) account) ()"
    "always_goes (check_8_5_window_cap deps inp d) ()"
    "always_goes (check_9_evidence_present (in_intent inp) d) ()"
    "always_goes (check_9_5_evidence_supports deps (in_intent inp) agent d) ()"
    "always_goes (check_10_determined d) ()" "always_goes (check_11_approval deps (in_intent inp) d) ()"
    "always_goes (check_11_5_duplicates deps inp) ()" "always_goes (check_12_recorded d) ()"
  shows "always_goes (post_policy_checks deps inp agent preloaded d) h"
  unfolding post_policy_checks_def Let_def
  by (rule always_goes_seq always_goes_bind always_goes_gret assms)+

lemma gate_passesI:
  assumes "always_goes (pre_policy_checks deps inp) (agent, preloaded)"
    and "dp_evaluatePolicy deps (policy_intent (in_intent inp) preloaded) (is_dry_run inp) = Inr d"
    and "always_goes (post_policy_checks deps inp agent preloaded d) h"
    and "\<And>e. \<exists>i. dp_audit_emit deps e = Inr i" and "\<not> is_dry_run inp"
  shows "gate_passes deps inp"
proof -
  obtain cs1 where 1: "pre_policy_checks deps inp [] = (Go (agent, preloaded), cs1)"
    using assms(1) by (cases "pre_policy_checks deps inp []") (auto simp: always_goes_def dest!: spec [of _ "[]"])
  obtain cs2 where 2: "post_policy_checks deps inp agent preloaded d cs1 = (Go h, cs2)"
    using assms(3) by (cases "post_policy_checks deps inp agent preloaded d cs1")
      (auto simp: always_goes_def dest!: spec [of _ cs1])
  obtain i where "dp_audit_emit deps (audit_before_event inp d h cs2) = Inr i" using assms(4) by blast
  with 1 2 assms(2,5) show ?thesis
    by (simp add: gate_passes_def runPreExecutionGate_def finish_gate_def gate_success_result_def)
qed

text \<open>The decimal facts of the sample, by evaluation.\<close>

lemma sample_compare:
  "cmpDecimal ''100'' ''10'' = 1 \<and> cmpDecimal ''100.0'' ''100'' = 0 \<and> cmpDecimal ''150'' ''100'' = 1 \<and>
   cmpDecimal ''100'' ''1000'' = - 1 \<and> cmpDecimal ''500.00'' ''150'' = 1 \<and>
   cmpDecimal ''399.5'' ''400'' = - 1 \<and> cmpDecimal ''100'' ''250'' = - 1"
  by code_simp

lemma sample_is_decimal: "is_decimal ''100.0'' \<and> is_decimal ''100'' \<and> is_decimal ''250''"
  by code_simp

lemmas number_eval = digits_val_def digit_val_def is_digit_def print_eval

lemma sample_add_reserved: "addDecimalString ''100'' ''50'' = Some ''150''"
proof -
  have n: "norm_gate ''100'' = \<lparr>nd_negative = False, nd_int = ''100'', nd_frac = ''000000000000000000''\<rparr>"
    "norm_gate ''50'' = \<lparr>nd_negative = False, nd_int = ''50'', nd_frac = ''000000000000000000''\<rparr>"
    by code_simp+
  have b: "js_BigInt ''100000000000000000000'' = Some 100000000000000000000"
    "js_BigInt ''50000000000000000000'' = Some 50000000000000000000"
    by (subst js_BigInt_digits; simp add: number_eval)+
  have s: "show_int 150000000000000000000 = ''150000000000000000000''" by (simp add: print_eval)
  have f: "format_scaled (pad_start 19 CHR ''0'' ''150000000000000000000'') = ''150''" by code_simp
  show ?thesis by (simp add: addDecimalString_def n b s f)
qed

lemma sample_add_window: "addDecimalString ''100'' ''299.5'' = Some ''399.5''"
proof -
  have n: "norm_gate ''100'' = \<lparr>nd_negative = False, nd_int = ''100'', nd_frac = ''000000000000000000''\<rparr>"
    "norm_gate ''299.5'' = \<lparr>nd_negative = False, nd_int = ''299'', nd_frac = ''500000000000000000''\<rparr>"
    by code_simp+
  have b: "js_BigInt ''100000000000000000000'' = Some 100000000000000000000"
    "js_BigInt ''299500000000000000000'' = Some 299500000000000000000"
    by (subst js_BigInt_digits; simp add: number_eval)+
  have s: "show_int 399500000000000000000 = ''399500000000000000000''" by (simp add: print_eval)
  have f: "format_scaled (pad_start 19 CHR ''0'' ''399500000000000000000'') = ''399.5''" by code_simp
  show ?thesis by (simp add: addDecimalString_def n b s f)
qed

lemma sample_subtract: "subtractDecimal ''120.50'' ''20.5'' = Some ''100''"
proof -
  have n: "norm_evidence ''120.50'' = \<lparr>nd_negative = False, nd_int = ''120'', nd_frac = ''500000000000000000''\<rparr>"
    "norm_evidence ''20.5'' = \<lparr>nd_negative = False, nd_int = ''20'', nd_frac = ''500000000000000000''\<rparr>"
    by code_simp+
  have b: "js_BigInt ''120500000000000000000'' = Some 120500000000000000000"
    "js_BigInt ''20500000000000000000'' = Some 20500000000000000000"
    by (subst js_BigInt_digits; simp add: number_eval)+
  have s: "show_int 100000000000000000000 = ''100000000000000000000''" by (simp add: print_eval)
  have f: "format_scaled (pad_start 19 CHR ''0'' ''100000000000000000000'') = ''100''" by code_simp
  show ?thesis by (simp add: subtractDecimal_def evidence_bigint_def n b s f)
qed

lemma sample_evidence_compare: "compareDecimal_evidence ''100'' ''100'' = Some 0"
proof -
  have "is_signed_decimal ''100''" by code_simp
  then show ?thesis by (simp add: compareDecimal_evidence_units)
qed

lemma sample_evidence_ok:
  "validateEvidence (gate_evidence_input sample_deps sample_intent sample_agent [sample_invoice]) = Some evidence_ok"
  by (simp add: validateEvidence_def gate_evidence_input_def sample_deps_def sample_intent_def sample_agent_def
      sample_invoice_def EVIDENCE_VALIDATED_ACTION_TYPES_def validatePayInvoice_def
      invoice_amount_failures_def invoice_id_failures_def counterparty_failures_def currency_failures_def
      pushFreshness_def pushTrust_def str_field_def sample_subtract sample_evidence_compare
      age_days_def DEFAULT_FRESHNESS_DAYS_def evidence_result_of_def)

lemma sample_address_ok: "is_onchain_address sample_address"
  by code_simp

lemmas sample_world =
  sample_deps_def sample_input_def sample_intent_def sample_payee_def sample_decision_def
  sample_agent_def sample_account_def sample_escrow_def sample_compare sample_is_decimal sample_add_reserved sample_add_window
  sample_address_ok

lemmas gate_steps = pass_def gbind_def gseq_def gret_def await_def compute_def

lemma sample_pre_policy:
  "always_goes (pre_policy_checks sample_deps sample_input) (sample_agent, Some sample_payee)"
proof -
  have "always_goes (check_1_agent_identity sample_deps sample_input) sample_agent"
    by (rule always_goesI, simp add: check_1_agent_identity_def gate_steps sample_world)
  moreover have "always_goes (check_1_5_behavior_pinned sample_deps sample_input sample_agent) ()"
    by (rule always_goesI, simp add: check_1_5_behavior_pinned_def gate_steps sample_world)
  moreover have "always_goes (check_2_authorized sample_input sample_agent) ()"
    by (rule always_goesI, simp add: check_2_authorized_def gate_steps sample_world)
  moreover have "always_goes (preload_counterparty sample_deps sample_input) sample_payee"
    by (rule always_goesI, simp add: preload_counterparty_def check_5_25_trust_def
        isCounterpartyTrustStatus_def gate_steps sample_world)
  moreover have "trustGateEnabled sample_deps" by (simp add: trustGateEnabled_def sample_deps_def)
  ultimately show ?thesis unfolding pre_policy_checks_def
    by (auto intro!: always_goes_bind always_goes_seq always_goes_gret)
qed


text \<open>
  The checks after the policy, for a decision and a pair of dependencies that agree with the
  sample but for the outcome, the approvals and the trust flag.
\<close>

lemma sample_low_trust_ok:
  "validateLowTrustAutoExecution o_c [sample_invoice] prov = evidence_ok"
  by (simp add: validateLowTrustAutoExecution_def sample_invoice_def)

lemma sample_neutral_checks:
  assumes deps: "deps = sample_deps\<lparr>dp_evaluatePolicy := ev, dp_resolveApprovals := ap, dp_trustGateEnabled := tr\<rparr>"
    and d: "d = sample_decision\<lparr>gd_outcome := o_c, gd_required_approvers := req\<rparr>"
    and o_c: "o_c = ''allow'' \<or> o_c = ''confirm''"
  shows "always_goes (check_3_action_allowed d) ()"
    "always_goes (check_3_5_onchain_permitted i d) ()"
    "always_goes (check_5_5_attested deps inp sample_payee) ()"
    "gi_amount i = ''100'' \<Longrightarrow> always_goes (check_6_verified i d sample_payee) ()"
    "always_goes (check_10_determined d) ()"
    "always_goes (check_11_5_duplicates deps inp) ()"
    "always_goes (check_12_recorded d) ()"
    "always_goes (check_6_7_direction deps i) ()"
  using o_c unfolding deps d
  by (auto intro!: always_goesI split: option.split
      simp: sample_world gate_steps check_3_action_allowed_def check_3_5_onchain_permitted_def
        check_5_5_attested_def check_6_verified_def check_10_determined_def check_11_5_duplicates_def
        check_12_recorded_def check_6_7_direction_def)

lemma sample_context_checks:
  assumes "i = sample_intent\<lparr>gi_action_type := act\<rparr>"
  shows "always_goes (check_6_5_x402_context i sample_payee) ()"
    "deps = sample_deps\<lparr>dp_evaluatePolicy := ev, dp_resolveApprovals := ap, dp_trustGateEnabled := tr\<rparr> \<Longrightarrow>
     in_intent inp = i \<Longrightarrow> always_goes (check_6_6_escrow_bound deps inp sample_payee) ()"
  using assms
  by (auto intro!: always_goesI simp: sample_world gate_steps check_6_5_x402_context_def x402_failures_Nil
      X402_ASSET_def X402_NETWORK_def same_address_def check_6_6_escrow_bound_def escrow_failures_Nil)

lemma sample_amount_checks:
  assumes deps: "deps = sample_deps\<lparr>dp_evaluatePolicy := ev, dp_resolveApprovals := ap, dp_trustGateEnabled := tr\<rparr>"
    and d: "d = sample_decision\<lparr>gd_outcome := o_c, gd_required_approvers := req\<rparr>"
    and i: "i = sample_intent\<lparr>gi_action_type := act\<rparr>" "in_intent inp = i"
  shows "always_goes (check_4_source_account deps i) sample_account"
    "always_goes (check_7_amount_limit i d) ()"
    "always_goes (check_7_5_ledger_bound deps sample_account sample_payee) ''hash''"
    "always_goes (check_8_balance deps i sample_account) ()"
    "always_goes (check_8_5_window_cap deps inp d) ()"
    "always_goes (check_9_evidence_present i d) ()"
  using i unfolding deps d
  by (auto intro!: always_goesI
      simp: sample_world gate_steps check_4_source_account_def check_7_amount_limit_def
        check_7_5_ledger_bound_def computeLedgerSnapshot_def check_8_balance_def active_reservations_def
        check_8_5_window_cap_def check_9_evidence_present_def Let_def)

lemma sample_evidence_check:
  assumes deps: "deps = sample_deps\<lparr>dp_evaluatePolicy := ev, dp_resolveApprovals := ap, dp_trustGateEnabled := tr\<rparr>"
    and i: "i = sample_intent\<lparr>gi_action_type := act\<rparr>" and act: "act = ''wire'' \<or> act = ''x402_settle''"
  shows "always_goes (check_9_5_evidence_supports deps i sample_agent d) ()"
proof -
  have v: "validateEvidence (gate_evidence_input deps i sample_agent [sample_invoice]) = Some evidence_ok"
    using act
  proof
    assume "act = ''wire''"
    then have "gate_evidence_input deps i sample_agent [sample_invoice]
        = gate_evidence_input sample_deps sample_intent sample_agent [sample_invoice]"
      by (simp add: gate_evidence_input_def deps i sample_intent_def sample_deps_def)
    with sample_evidence_ok show ?thesis by simp
  next
    assume "act = ''x402_settle''"
    then show ?thesis by (simp add: validateEvidence_def gate_evidence_input_def i EVIDENCE_VALIDATED_ACTION_TYPES_def)
  qed
  have "dp_resolveEvidence deps = Some (\<lambda>_. Inr [sample_invoice])"
    "obligation_provenance deps i cs = (Go (Some ''extracted''), cs)" for cs
    by (simp_all add: deps i sample_deps_def sample_intent_def obligation_provenance_def await_def)
  with v show ?thesis
    by (intro always_goesI) (simp add: check_9_5_evidence_supports_def gate_steps sample_low_trust_ok)
qed

lemmas sample_checks = sample_neutral_checks sample_context_checks sample_amount_checks sample_evidence_check

lemma sample_passes: "gate_passes sample_deps sample_input"
proof -
  let ?i = "in_intent sample_input"
  have deps: "sample_deps = sample_deps\<lparr>dp_evaluatePolicy := dp_evaluatePolicy sample_deps,
      dp_resolveApprovals := dp_resolveApprovals sample_deps, dp_trustGateEnabled := Some True\<rparr>"
    by (simp add: sample_deps_def)
  have d: "sample_decision = sample_decision\<lparr>gd_outcome := ''confirm'', gd_required_approvers := [''admin'', ''signer'']\<rparr>"
    by (simp add: sample_decision_def)
  have i: "?i = sample_intent\<lparr>gi_action_type := ''wire''\<rparr>"
    by (simp add: sample_input_def sample_intent_def)
  have a: "gi_amount ?i = ''100''" by (simp add: sample_input_def sample_intent_def)
  note n = sample_neutral_checks [OF deps d] and c = sample_context_checks [OF i]
    and m = sample_amount_checks [OF deps d i refl] and e = sample_evidence_check [OF deps i]
  have five: "always_goes (check_5_counterparty sample_deps ?i (Some sample_payee)) sample_payee"
    by (rule always_goesI) (simp add: check_5_counterparty_def trustGateEnabled_def sample_deps_def gret_def)
  have eleven: "always_goes (check_11_approval sample_deps ?i sample_decision) ()"
    by (rule always_goesI) (simp add: check_11_approval_def requiresHardHumanApprovalFloor_def
        hasRequiredRoleQuorum_def Let_def gate_steps sample_world)
  have post: "always_goes (post_policy_checks sample_deps sample_input sample_agent (Some sample_payee)
      sample_decision) ''hash''"
    by (rule post_policy_intro [OF n(1,2) m(1) five n(3) n(4) [OF _ a] c(1) c(2) [OF deps refl] n(8) m(2-6)
          e n(5) eleven n(6,7)]) simp_all
  show ?thesis
    by (rule gate_passesI [OF sample_pre_policy _ post]) (simp_all add: sample_deps_def sample_input_def is_dry_run_def)
qed

text \<open>
  An x402 settlement of 100 under an \<open>allow\<close> decision with a cap of 250 and nobody having
  signed, the trust gate off.
\<close>

definition x402_decision :: gate_decision where
  "x402_decision = sample_decision\<lparr>gd_outcome := ''allow'', gd_required_approvers := []\<rparr>"

definition x402_deps :: gate_deps where
  "x402_deps = sample_deps\<lparr>dp_evaluatePolicy := (\<lambda>i dry. Inr x402_decision),
      dp_resolveApprovals := (\<lambda>_ _. Inr []), dp_trustGateEnabled := None\<rparr>"

definition x402_input :: run_gate_input where
  "x402_input = sample_input\<lparr>in_intent := sample_intent\<lparr>gi_action_type := ''x402_settle''\<rparr>\<rparr>"

lemma x402_passes: "gate_passes x402_deps x402_input"
proof -
  let ?i = "in_intent x402_input"
  have i: "?i = sample_intent\<lparr>gi_action_type := ''x402_settle''\<rparr>" by (simp add: x402_input_def)
  have a: "gi_amount ?i = ''100''" by (simp add: i sample_intent_def)
  note n = sample_neutral_checks [OF x402_deps_def x402_decision_def] and c = sample_context_checks [OF i]
    and m = sample_amount_checks [OF x402_deps_def x402_decision_def i refl]
    and e = sample_evidence_check [OF x402_deps_def i]
  have off: "\<not> trustGateEnabled x402_deps" by (simp add: trustGateEnabled_def x402_deps_def)
  have five: "always_goes (check_5_counterparty x402_deps ?i None) sample_payee"
    unfolding check_5_counterparty_def if_not_P [OF off]
    by (rule always_goesI) (simp add: x402_deps_def sample_deps_def gate_steps, simp add: sample_payee_def)
  have eleven: "always_goes (check_11_approval x402_deps ?i x402_decision) ()"
    by (rule always_goesI) (simp add: check_11_approval_def requiresHardHumanApprovalFloor_def
        isX402AutonomousAllowed_def within_cap_def amount_cap_def x402_decision_def gate_steps i sample_world)
  have post: "always_goes (post_policy_checks x402_deps x402_input sample_agent None x402_decision) ''hash''"
    by (rule post_policy_intro [OF n(1,2) m(1) five n(3) n(4) [OF _ a] c(1) c(2) [OF x402_deps_def refl] n(8) m(2-6)
          e n(5) eleven n(6,7)]) simp_all
  have one: "always_goes (check_1_agent_identity x402_deps x402_input) sample_agent"
    by (rule always_goesI, simp add: check_1_agent_identity_def gate_steps x402_deps_def x402_input_def
        intent_agent_id_def sample_world)
  have pin: "always_goes (check_1_5_behavior_pinned x402_deps x402_input sample_agent) ()"
    by (rule always_goesI, simp add: check_1_5_behavior_pinned_def gate_steps x402_deps_def x402_input_def sample_world)
  have two: "always_goes (check_2_authorized x402_input sample_agent) ()"
    by (rule always_goesI, simp add: check_2_authorized_def gate_steps x402_input_def sample_world)
  have pre: "always_goes (pre_policy_checks x402_deps x402_input) (sample_agent, None)"
    unfolding pre_policy_checks_def if_not_P [OF off]
    by (rule always_goes_bind [OF one]) (intro always_goes_seq pin two always_goes_gret)
  show ?thesis
    by (rule gate_passesI [OF pre _ post])
      (simp_all add: x402_deps_def x402_input_def sample_input_def is_dry_run_def sample_deps_def)
qed

end
