(* ===== verification/Gate_Properties.thy ===== *)
theory Gate_Properties
  imports Gate_Sample
begin

text \<open>
  The properties of the pre-execution gate, each a few steps over \<open>gate_ok_cases\<close> and the
  lemma of the check it rests on, with a witness in the sample worlds.
\<close>

text \<open>The policy decision the gate works with: flag on, the payee's trust status is attached first.\<close>

definition gate_decision_of :: "gate_deps \<Rightarrow> run_gate_input \<Rightarrow> gate_decision loaded" where
  "gate_decision_of deps inp =
     (if trustGateEnabled deps
      then (case dp_resolveCounterparty deps (gi_destination_counterparty_id (in_intent inp)) of
              Inr (Some cp) \<Rightarrow> dp_evaluatePolicy deps (policy_intent (in_intent inp) (Some cp)) (is_dry_run inp)
            | _ \<Rightarrow> Inl ''counterparty'')
      else dp_evaluatePolicy deps (in_intent inp) (is_dry_run inp))"

lemma gate_passes_cases:
  assumes "gate_passes deps inp"
  obtains agent d a cp eff s cs where
    "acting_agent_ok deps inp agent" "goes (check_1_5_behavior_pinned deps inp agent) ()"
    "gate_decision_of deps inp = Inr d" "post_policy_ok deps inp agent d a cp"
    "runPreExecutionGate deps inp = (eff, Inr (Gate_ok s))"
    "gs_ledgerStateHash s = computeLedgerSnapshot (dp_sha256_hex deps) a cp"
    "finish_gate deps inp d (gs_ledgerStateHash s) cs = (eff, Inr (Gate_ok s))"
proof -
  from assms obtain eff s where run: "runPreExecutionGate deps inp = (eff, Inr (Gate_ok s))"
    by (rule gate_passesE)
  from gate_ok_cases [OF run] obtain agent preloaded d a cp cs where
    g: "acting_agent_ok deps inp agent" "goes (check_1_5_behavior_pinned deps inp agent) ()"
    "preloaded = (if trustGateEnabled deps then Some cp else None)"
    "dp_evaluatePolicy deps (policy_intent (in_intent inp) preloaded) (is_dry_run inp) = Inr d"
    "post_policy_ok deps inp agent d a cp"
    "gs_ledgerStateHash s = computeLedgerSnapshot (dp_sha256_hex deps) a cp"
    "finish_gate deps inp d (gs_ledgerStateHash s) cs = (eff, Inr (Gate_ok s))" .
  have "gate_decision_of deps inp = Inr d"
    using g(3,4,5) by (auto simp: gate_decision_of_def post_policy_ok_def payee_ok_def policy_intent_def
        split: if_splits)
  with that [OF g(1,2) _ g(5) run g(6,7)] show thesis by blast
qed

section \<open>Who acts and who is paid\<close>

text \<open>The gate passes only for an agent principal acting on its own intent, whose agent row
  exists and is active, which holds the execute scope or capability; and a runtime behaviour
  hash that is present must equal the registered one, while a tenant that requires pinning
  admits no unverifiable run.\<close>

theorem gate_ok_agent:
  assumes "gate_passes deps inp"
  shows "\<exists>agent. gp_type (in_principal inp) = Agent_principal
    \<and> gi_created_by_agent_id (in_intent inp) \<in> {None, Some (gp_id (in_principal inp))}
    \<and> dp_resolveAgent deps (gp_id (in_principal inp)) = Inr (Some agent) \<and> gt_state agent = ''active''
    \<and> (''payment_intent:execute'' \<in> set (gp_scopes (in_principal inp)) \<or> gt_canExecutePayments agent)
    \<and> (case (gt_behaviorHash agent, in_runtimeBehaviorHash inp) of
         (Some registered, Some runtime) \<Rightarrow> registered = runtime
       | _ \<Rightarrow> (case dp_resolveTenantFlags deps of None \<Rightarrow> True
               | Some requireHash \<Rightarrow> requireHash (in_tenantId inp) = Inr False))"
  using assms
proof (rule gate_passes_cases)
  fix agent
  assume "acting_agent_ok deps inp agent" "goes (check_1_5_behavior_pinned deps inp agent) ()"
  from this(1) check_1_5_goes [OF this(2)] show ?thesis unfolding acting_agent_ok_def by blast
qed

theorem gate_ok_agent_witness:
  "gate_passes sample_deps sample_input \<and> gp_type (in_principal sample_input) = Agent_principal"
  using gate_ok_agent [OF sample_passes] sample_passes by blast

text \<open>C12 (safety). The gate never passes a sanctioned payee; with the trust gate on it passes only a payee whose
  trust status is unreviewed, trusted or acknowledged; an agent payee must be attested when the
  reader is wired; and above the policy's verification threshold the payee must be verified.\<close>

theorem gate_ok_payee:
  assumes "gate_passes deps inp" and "gate_decision_of deps inp = Inr d"
    and "dp_resolveCounterparty deps (gi_destination_counterparty_id (in_intent inp)) = Inr (Some cp)"
  shows "cp_risk_level cp \<noteq> Some ''sanctioned''
    \<and> (trustGateEnabled deps \<longrightarrow>
         cp_trust_status cp \<in> {Some ''unreviewed'', Some ''trusted'', Some ''acknowledged''})
    \<and> (cp_type cp = ''agent'' \<longrightarrow> (case dp_attestCounterpartyAgent deps of None \<Rightarrow> True
         | Some attest \<Rightarrow> \<exists>a. attest (in_tenantId inp) (cp_id cp) (cp_agent_id cp) = Inr a \<and> at_attested a))
    \<and> (case gd_counterparty_verification_threshold d of None \<Rightarrow> True
       | Some t \<Rightarrow> gi_currency (in_intent inp) = ga_currency t \<longrightarrow> is_decimal (gi_amount (in_intent inp)) \<longrightarrow>
           is_decimal (ga_value t) \<longrightarrow> dec_units (gi_amount (in_intent inp)) > dec_units (ga_value t) \<longrightarrow>
           cp_verified_status cp \<in> {Some ''document_verified'', Some ''sanctions_cleared''})"
  using assms(1)
proof (rule gate_passes_cases)
  fix agent d' a cp'
  assume d': "gate_decision_of deps inp = Inr d'" and ok: "post_policy_ok deps inp agent d' a cp'"
  have [simp]: "d' = d" "cp' = cp"
    using d' ok assms(2,3) by (auto simp: post_policy_ok_def payee_ok_def)
  from ok have "payee_ok deps (in_intent inp) cp" "goes (check_5_5_attested deps inp cp) ()"
    "goes (check_6_verified (in_intent inp) d cp) ()" by (simp_all add: post_policy_ok_def)
  then show ?thesis
    using check_5_5_goes [of deps inp cp "()"] check_6_goes [of "in_intent inp" d cp "()"]
    by (auto simp: payee_ok_def trust_admits_def cmpDecimal_units is_decimal_proper split: option.split)
qed

theorem gate_ok_payee_witness:
  "cp_risk_level sample_payee \<noteq> Some ''sanctioned'' \<and> gate_passes sample_deps sample_input"
proof -
  have d: "gate_decision_of sample_deps sample_input = Inr sample_decision"
    by (simp add: gate_decision_of_def sample_deps_def trustGateEnabled_def)
  have cp: "dp_resolveCounterparty sample_deps (gi_destination_counterparty_id (in_intent sample_input))
      = Inr (Some sample_payee)" by (simp add: sample_deps_def)
  show ?thesis using gate_ok_payee [OF sample_passes d cp] sample_passes by blast
qed

section \<open>Amounts\<close>

lemma cmpDecimal_le: "is_proper_decimal x \<Longrightarrow> is_proper_decimal y \<Longrightarrow> cmpDecimal x y \<le> 0 \<longleftrightarrow> dec_units x \<le> dec_units y"
  by (auto simp: cmpDecimal_units sgn_if)

lemma cmpDecimal_ge: "is_proper_decimal x \<Longrightarrow> is_proper_decimal y \<Longrightarrow> cmpDecimal x y \<ge> 0 \<longleftrightarrow> dec_units y \<le> dec_units x"
  by (auto simp: cmpDecimal_units sgn_if)

text \<open>C4 (bounds). No overdraft: when the gate passes a payment from a ledger account whose balance is known, the
  account is active and in the payment's currency, and the balance covers the amount together
  with everything already reserved on it, exactly, in units of 10^-18.\<close>

theorem gate_ok_funds:
  assumes "gate_passes deps inp"
    and "gi_action_type (in_intent inp) \<noteq> ''x402_settle''" "gi_action_type (in_intent inp) \<noteq> ''escrow_release''"
    and "dp_resolveAccount deps (gi_source_account_id (in_intent inp)) = Inr (Some a)"
    and "gc_available_balance a = Some b" and "reserved_of deps (in_intent inp) = Inr r"
    and "is_proper_decimal b" "is_decimal (gi_amount (in_intent inp))" "is_decimal r"
  shows "gc_status a = ''active'' \<and> gc_currency a = gi_currency (in_intent inp)
    \<and> dec_units (gi_amount (in_intent inp)) + dec_units r \<le> dec_units b"
  using assms(1)
proof (rule gate_passes_cases)
  fix agent d a' cp
  assume ok: "post_policy_ok deps inp agent d a' cp"
  then have four: "goes (check_4_source_account deps (in_intent inp)) a'"
    and eight: "goes (check_8_balance deps (in_intent inp) a') ()" by (simp_all add: post_policy_ok_def)
  from check_4_goes [OF four] assms(4) have [simp]: "a' = a" "gc_status a = ''active''" by auto
  from check_8_goes [OF eight] assms(2,3,5,6) obtain q where
    q: "gc_currency a = gi_currency (in_intent inp)"
    "addDecimalString (gi_amount (in_intent inp)) r = Some q" "cmpDecimal b q \<ge> 0" by auto
  from addDecimalString_exact [OF assms(8,9)] q(2) have
    "is_decimal q" "dec_units q = dec_units (gi_amount (in_intent inp)) + dec_units r" by auto
  with q cmpDecimal_ge [OF assms(7) is_decimal_proper] show ?thesis by simp
qed

lemma sample_balance_decimals: "is_decimal ''500.00'' \<and> is_decimal ''50''"
  by code_simp

theorem gate_ok_funds_witness:
  "gate_passes sample_deps sample_input \<and> dec_units ''100'' + dec_units ''50'' \<le> dec_units ''500.00''"
proof -
  have "dec_units (gi_amount (in_intent sample_input)) + dec_units ''50'' \<le> dec_units ''500.00''"
    using gate_ok_funds [OF sample_passes, of sample_account "''500.00''" "''50''"]
    by (simp add: sample_input_def sample_intent_def sample_deps_def sample_account_def reserved_of_def
        is_decimal_proper sample_is_decimal sample_balance_decimals)
  then show ?thesis using sample_passes by (simp add: sample_input_def sample_intent_def)
qed

text \<open>A passing payment stays within the policy's limits: it is in the currency of the amount bound and
  at most that bound, and in the currency of the window cap with the agent's spend in the
  current window plus the amount at most the cap.\<close>

theorem gate_ok_limits:
  assumes "gate_passes deps inp" and "gate_decision_of deps inp = Inr d"
    and "is_decimal (gi_amount (in_intent inp))"
  shows "(case gd_amount_upper_bound d of None \<Rightarrow> True
       | Some b \<Rightarrow> gi_currency (in_intent inp) = ga_currency b
           \<and> (is_decimal (ga_value b) \<longrightarrow> dec_units (gi_amount (in_intent inp)) \<le> dec_units (ga_value b)))
    \<and> (case (gd_micropayment_window_cap d, dp_sumAgentWindowSpend deps) of
         (Some w, Some spend) \<Rightarrow> gi_currency (in_intent inp) = wc_currency w
           \<and> (\<exists>s. spend (intent_agent_id inp) (wc_window_seconds w) = Inr s
                \<and> (is_decimal s \<longrightarrow> is_decimal (wc_value w) \<longrightarrow>
                     dec_units s + dec_units (gi_amount (in_intent inp)) \<le> dec_units (wc_value w)))
       | _ \<Rightarrow> True)"
  using assms(1)
proof (rule gate_passes_cases)
  fix agent d' a cp
  assume "gate_decision_of deps inp = Inr d'" "post_policy_ok deps inp agent d' a cp"
  with assms(2) have seven: "goes (check_7_amount_limit (in_intent inp) d) ()"
    and eight: "goes (check_8_5_window_cap deps inp d) ()" by (simp_all add: post_policy_ok_def)
  have window: "dec_units s + dec_units (gi_amount (in_intent inp)) \<le> dec_units v"
    if "addDecimalString (gi_amount (in_intent inp)) s = Some q" "cmpDecimal q v \<le> 0" "is_decimal s" "is_decimal v"
    for s q v
    using addDecimalString_exact [OF assms(3) that(3)] that cmpDecimal_le is_decimal_proper by fastforce
  have cap: "gi_currency (in_intent inp) = wc_currency w \<and>
      (\<exists>s. spend (intent_agent_id inp) (wc_window_seconds w) = Inr s \<and>
         (is_decimal s \<longrightarrow> is_decimal (wc_value w) \<longrightarrow>
            dec_units s + dec_units (gi_amount (in_intent inp)) \<le> dec_units (wc_value w)))"
    if "gd_micropayment_window_cap d = Some w" "dp_sumAgentWindowSpend deps = Some spend" for w spend
    using check_8_5_goes [OF eight that] window by blast
  show ?thesis
    using check_7_goes [OF seven] cap cmpDecimal_le is_decimal_proper assms(3)
    by (auto split: option.split)
qed

theorem gate_ok_limits_witness:
  "gate_passes sample_deps sample_input \<and> gate_decision_of sample_deps sample_input = Inr sample_decision
   \<and> dec_units (gi_amount (in_intent sample_input)) \<le> dec_units ''1000''"
proof -
  have d: "gate_decision_of sample_deps sample_input = Inr sample_decision"
    by (simp add: gate_decision_of_def sample_deps_def trustGateEnabled_def)
  have a: "is_decimal (gi_amount (in_intent sample_input))" "is_decimal ''1000''"
    by (simp add: sample_input_def sample_intent_def sample_is_decimal) code_simp
  show ?thesis using gate_ok_limits [OF sample_passes d a(1)] sample_passes d a(2)
    by (simp add: sample_decision_def)
qed

section \<open>Human approval\<close>

text \<open>C7 (safety). No payment passes unapproved: under a \<open>confirm\<close> decision the signed roles the approval loader
  returns for this intent and this policy version admit an assignment of a distinct signed role
  to every required entry; under \<open>allow\<close> a transfer on chain or an escrow release, and a wire
  while the fiat floor is on, needs at least one signed role. No other outcome passes.\<close>

theorem gate_ok_approval:
  assumes "gate_passes deps inp" and "gate_decision_of deps inp = Inr d"
  shows "gd_matched_rule_id d \<noteq> None \<and> gd_outcome d \<in> {''allow'', ''confirm''}
    \<and> (gd_outcome d = ''confirm'' \<longrightarrow>
        (\<exists>signed asg. dp_resolveApprovals deps (gi_id (in_intent inp)) (gd_policy_version d) = Inr signed
           \<and> is_matching (gd_required_approvers d) signed asg))
    \<and> (gd_outcome d = ''allow'' \<longrightarrow>
        gi_action_type (in_intent inp) \<in> {''onchain_transfer'', ''escrow_release''}
        \<or> gi_action_type (in_intent inp) = ''wire'' \<and> dp_fiatHumanApprovalFloorEnabled deps \<noteq> Some False \<longrightarrow>
        (\<exists>signed. dp_resolveApprovals deps (gi_id (in_intent inp)) (gd_policy_version d) = Inr signed
           \<and> signed \<noteq> []))"
  using assms(1)
proof (rule gate_passes_cases)
  fix agent d' a cp
  assume "gate_decision_of deps inp = Inr d'" "post_policy_ok deps inp agent d' a cp"
  with assms(2) have three: "goes (check_3_action_allowed d) ()"
    and eleven: "goes (check_11_approval deps (in_intent inp) d) ()" by (simp_all add: post_policy_ok_def)
  show ?thesis using check_3_goes [OF three] check_11_goes [OF eleven]
    by (auto simp: approval_ok_def requiresHardHumanApprovalFloor_def quorum_matching_iff)
qed

theorem gate_ok_approval_witness:
  "gate_passes sample_deps sample_input
   \<and> (\<exists>signed asg. dp_resolveApprovals sample_deps ''pi_1'' (Some 1) = Inr signed
        \<and> is_matching [''admin'', ''signer''] signed asg)"
proof -
  have d: "gate_decision_of sample_deps sample_input = Inr sample_decision"
    by (simp add: gate_decision_of_def sample_deps_def trustGateEnabled_def)
  show ?thesis using gate_ok_approval [OF sample_passes d] sample_passes
    by (simp add: sample_decision_def sample_input_def sample_intent_def)
qed

text \<open>Autonomous x402 spending is capped: an x402 settlement that passes under \<open>allow\<close> with nobody having
  signed carries a settlement, is explicitly permitted on chain, and its amount is at most a
  well-formed cap of the policy in the same currency.\<close>

theorem gate_ok_x402_autonomy:
  assumes "gate_passes deps inp" and "gate_decision_of deps inp = Inr d"
    and "gi_action_type (in_intent inp) = ''x402_settle''" "gd_outcome d = ''allow''"
    and "dp_resolveApprovals deps (gi_id (in_intent inp)) (gd_policy_version d) = Inr []"
  shows "gi_settlement (in_intent inp) \<noteq> None \<and> gd_onchain_settlement_permitted d = Some True
    \<and> (\<exists>cap. amount_cap (gd_x402_autonomous_max_amount d) = Some cap
         \<and> ga_currency cap = gi_currency (in_intent inp)
         \<and> dec_units (gi_amount (in_intent inp)) \<le> dec_units (ga_value cap))"
  using assms(1)
proof (rule gate_passes_cases)
  fix agent d' a cp
  assume "gate_decision_of deps inp = Inr d'" "post_policy_ok deps inp agent d' a cp"
  with assms(2) have eleven: "goes (check_11_approval deps (in_intent inp) d) ()"
    by (simp add: post_policy_ok_def)
  from check_11_goes [OF this] assms(3-5) have "isX402AutonomousAllowed (in_intent inp) d"
    by (auto simp: approval_ok_def requiresHardHumanApprovalFloor_def)
  then show ?thesis using cmpDecimal_le is_decimal_proper
    by (auto simp: isX402AutonomousAllowed_def within_cap_def split: if_splits option.splits)
qed

theorem gate_ok_x402_autonomy_witness:
  "gate_passes x402_deps x402_input
   \<and> (\<exists>cap. amount_cap (gd_x402_autonomous_max_amount x402_decision) = Some cap
        \<and> dec_units (gi_amount (in_intent x402_input)) \<le> dec_units (ga_value cap))"
proof -
  have d: "gate_decision_of x402_deps x402_input = Inr x402_decision"
    by (simp add: gate_decision_of_def x402_deps_def trustGateEnabled_def)
  have "gi_action_type (in_intent x402_input) = ''x402_settle''" "gd_outcome x402_decision = ''allow''"
    "dp_resolveApprovals x402_deps (gi_id (in_intent x402_input)) (gd_policy_version x402_decision) = Inr []"
    by (simp_all add: x402_input_def x402_decision_def x402_deps_def)
  from gate_ok_x402_autonomy [OF x402_passes d this] show ?thesis using x402_passes by blast
qed

section \<open>On-chain settlement, evidence, duplicates\<close>

text \<open>C28 (safety). On-chain money goes to the payee's own address: a settlement that passes is USDC on Base in the
  intent's currency, its amount equals the intent's, and it pays the counterparty's address; an
  escrow release that passes with the chain reader wired names a locked escrow in the settlement
  asset whose payee is that address, whose job terms are the intent's and whose remaining
  balance covers the amount.\<close>

theorem gate_ok_onchain_binding:
  assumes "gate_passes deps inp"
    and "dp_resolveCounterparty deps (gi_destination_counterparty_id (in_intent inp)) = Inr (Some cp)"
    and "is_decimal (gi_amount (in_intent inp))"
  shows "(case gi_settlement (in_intent inp) of
        None \<Rightarrow> gi_action_type (in_intent inp) \<noteq> ''x402_settle''
      | Some s \<Rightarrow> st_asset s = ''USDC'' \<and> st_network s = ''base'' \<and> gi_currency (in_intent inp) = ''USDC''
          \<and> dec_units (st_amount s) = dec_units (gi_amount (in_intent inp))
          \<and> same_address (cp_onchain_address cp) (st_pay_to s))
    \<and> (case (gi_action_type (in_intent inp) = ''escrow_release'', dp_resolveEscrowState deps) of
         (True, Some resolve) \<Rightarrow> \<exists>es e. gi_escrow (in_intent inp) = Some es
           \<and> resolve (in_tenantId inp) (es_escrowId es) = Inr (Some e)
           \<and> rs_state e = Locked \<and> rs_assetMatchesSettlement e
           \<and> rs_jobTermsHash e = es_jobTermsHash es \<and> same_address (cp_onchain_address cp) (rs_payee e)
           \<and> (is_decimal (rs_remaining e) \<longrightarrow>
                dec_units (gi_amount (in_intent inp)) \<le> dec_units (rs_remaining e))
       | _ \<Rightarrow> True)"
  using assms(1)
proof (rule gate_passes_cases)
  fix agent d a cp'
  assume ok: "post_policy_ok deps inp agent d a cp'"
  with assms(2) have [simp]: "cp' = cp" by (auto simp: post_policy_ok_def payee_ok_def)
  from ok have s: "goes (check_6_5_x402_context (in_intent inp) cp) ()"
    and e: "goes (check_6_6_escrow_bound deps inp cp) ()" by (simp_all add: post_policy_ok_def)
  have zero: "cmpDecimal x (gi_amount (in_intent inp)) = 0 \<Longrightarrow> is_decimal x \<Longrightarrow>
      dec_units x = dec_units (gi_amount (in_intent inp))" for x
    using assms(3) by (auto simp: cmpDecimal_units is_decimal_proper sgn_if split: if_splits)
  have 1: "case gi_settlement (in_intent inp) of
        None \<Rightarrow> gi_action_type (in_intent inp) \<noteq> ''x402_settle''
      | Some s \<Rightarrow> st_asset s = ''USDC'' \<and> st_network s = ''base'' \<and> gi_currency (in_intent inp) = ''USDC''
          \<and> dec_units (st_amount s) = dec_units (gi_amount (in_intent inp))
          \<and> same_address (cp_onchain_address cp) (st_pay_to s)"
    using check_6_5_goes [OF s] zero
    by (auto simp: x402_failures_Nil X402_ASSET_def X402_NETWORK_def split: option.splits)
  have 2: "\<exists>es e. gi_escrow (in_intent inp) = Some es
       \<and> resolve (in_tenantId inp) (es_escrowId es) = Inr (Some e)
       \<and> rs_state e = Locked \<and> rs_assetMatchesSettlement e
       \<and> rs_jobTermsHash e = es_jobTermsHash es \<and> same_address (cp_onchain_address cp) (rs_payee e)
       \<and> (is_decimal (rs_remaining e) \<longrightarrow> dec_units (gi_amount (in_intent inp)) \<le> dec_units (rs_remaining e))"
    if "gi_action_type (in_intent inp) = ''escrow_release''" "dp_resolveEscrowState deps = Some resolve" for resolve
    using check_6_6_goes [OF e that] cmpDecimal_ge [OF is_decimal_proper is_decimal_proper [OF assms(3)]]
    by (auto simp: escrow_failures_Nil)
  show ?thesis using 1 2 by (auto split: option.split bool.split)
qed

theorem gate_ok_onchain_binding_witness:
  "gate_passes x402_deps x402_input \<and> dec_units ''100.0'' = dec_units (gi_amount (in_intent x402_input))"
proof -
  have cp: "dp_resolveCounterparty x402_deps (gi_destination_counterparty_id (in_intent x402_input))
      = Inr (Some sample_payee)" by (simp add: x402_deps_def sample_deps_def)
  have a: "is_decimal (gi_amount (in_intent x402_input))"
    by (simp add: x402_input_def sample_intent_def sample_is_decimal)
  from gate_ok_onchain_binding [OF x402_passes cp a] show ?thesis
    using x402_passes by (simp add: x402_input_def sample_intent_def)
qed

text \<open>Evidence gates the payment: when the evidence loader is wired, a payment that passes has
  evidence ids whenever the policy requires evidence kinds, the attached evidence validates for
  it, and an \<open>allow\<close> never rests on evidence that is all low-trust unless the linked obligation
  is corroborated. When the duplicate detector is wired it reported no collision, and an intent
  with an obligation never settles a receivable.\<close>

theorem gate_ok_evidence:
  assumes "gate_passes deps inp" and "gate_decision_of deps inp = Inr d"
    and "dp_resolveEvidence deps = Some resolve" and "resolve (in_intent inp) = Inr ev"
  shows "(or_else (gd_required_evidence_kinds d) [] \<noteq> [] \<longrightarrow> gi_evidence_ids (in_intent inp) \<noteq> [])
    \<and> (\<exists>agent r. dp_resolveAgent deps (gp_id (in_principal inp)) = Inr (Some agent)
         \<and> validateEvidence (gate_evidence_input deps (in_intent inp) agent ev) = Some r \<and> er_failures r = [])
    \<and> (gd_outcome d = ''allow'' \<longrightarrow> ev \<noteq> [] \<longrightarrow> list_all (\<lambda>e. re_trustLevel e = Trust_low) ev \<longrightarrow>
         (\<exists>load p. dp_resolveObligationProvenance deps = Some load
            \<and> load (in_intent inp) = Inr (Some p) \<and> p \<in> {''extracted'', ''human_confirmed''}))
    \<and> (case dp_detectDuplicates deps of None \<Rightarrow> True
       | Some detect \<Rightarrow> \<exists>r. detect (duplicate_query inp) = Inr r \<and> dr_passed r)
    \<and> (case (gi_obligation_id (in_intent inp), dp_resolveObligationDirection deps) of
         (Some _, Some direction) \<Rightarrow> direction (in_intent inp) \<noteq> Inr (Some ''receivable'')
       | _ \<Rightarrow> True)"
  using assms(1)
proof (rule gate_passes_cases)
  fix agent d' a cp
  assume agent: "acting_agent_ok deps inp agent"
    and d': "gate_decision_of deps inp = Inr d'" and ok: "post_policy_ok deps inp agent d' a cp"
  with assms(2) have nine: "goes (check_9_evidence_present (in_intent inp) d) ()"
    and sup: "goes (check_9_5_evidence_supports deps (in_intent inp) agent d) ()"
    and dup: "goes (check_11_5_duplicates deps inp) ()"
    and dir: "goes (check_6_7_direction deps (in_intent inp)) ()"
    by (simp_all add: post_policy_ok_def)
  from check_9_5_goes [OF sup assms(3)] assms(4) obtain r prov where
    r: "validateEvidence (gate_evidence_input deps (in_intent inp) agent ev) = Some r" "er_passed r"
    and prov: "goes (obligation_provenance deps (in_intent inp)) prov"
    and low: "er_passed (validateLowTrustAutoExecution (gd_outcome d) ev prov)" by auto
  have 1: "er_failures r = []"
    using r by (auto simp: validateEvidence_def evidence_result_of_def split: if_splits)
  have 2: "\<exists>load p. dp_resolveObligationProvenance deps = Some load
      \<and> load (in_intent inp) = Inr (Some p) \<and> p \<in> {''extracted'', ''human_confirmed''}"
    if "gd_outcome d = ''allow''" "ev \<noteq> []" "list_all (\<lambda>e. re_trustLevel e = Trust_low) ev"
    using low that prov by (auto simp: validateLowTrustAutoExecution_def obligation_provenance_def
        CORROBORATED_PROVENANCE_def goes_simps split: if_splits option.splits)
  have "dp_resolveAgent deps (gp_id (in_principal inp)) = Inr (Some agent)"
    using agent by (simp add: acting_agent_ok_def)
  moreover have "direction (in_intent inp) \<noteq> Inr (Some ''receivable'')"
    if "gi_obligation_id (in_intent inp) = Some i" "dp_resolveObligationDirection deps = Some direction"
    for i direction
    using check_6_7_goes [OF dir that] by auto
  ultimately show ?thesis
    using 1 2 r check_9_goes [OF nine] check_11_5_goes [OF dup]
    by (intro conjI) (auto split: option.split)
qed

theorem gate_ok_evidence_witness:
  "gate_passes sample_deps sample_input \<and> gi_evidence_ids (in_intent sample_input) \<noteq> []"
proof -
  have d: "gate_decision_of sample_deps sample_input = Inr sample_decision"
    by (simp add: gate_decision_of_def sample_deps_def trustGateEnabled_def)
  have ev: "dp_resolveEvidence sample_deps = Some (\<lambda>_. Inr [sample_invoice])" by (simp add: sample_deps_def)
  have k: "or_else (gd_required_evidence_kinds sample_decision) [] \<noteq> []" by (simp add: sample_decision_def)
  from gate_ok_evidence [OF sample_passes d ev refl] k show ?thesis using sample_passes by blast
qed

section \<open>What the gate writes\<close>

text \<open>The gate writes at most one thing. A failing gate writes nothing. A dry run never emits
  an audit event: at most it caches its trace. A live pass emits exactly one audit-before event,
  for this intent, whose id is the result's, and which carries the ledger state hash of the
  result and every check row of the result but the last.\<close>

theorem gate_effects:
  "case runPreExecutionGate deps inp of
     (eff, Inr (Gate_ok s)) \<Rightarrow>
       if is_dry_run inp then gs_policyDecisionId s = [] \<and> gs_auditBeforeEventId s = []
         \<and> (eff = [] \<or> (\<exists>k. eff = [Trace_cached k (gs_trace s) 60]))
       else \<exists>e. eff = [Audit_emitted e] \<and> dp_audit_emit deps e = Inr (gs_auditBeforeEventId s)
         \<and> au_action e = ''payment_intent.execute.before''
         \<and> (''payment_intent_id'', JStr (gi_id (in_intent inp))) \<in> set (au_inputs e)
         \<and> (''ledger_state_hash'', JStr (gs_ledgerStateHash s)) \<in> set (au_inputs e)
         \<and> au_policyDecisionId e = Some (gs_policyDecisionId s)
         \<and> au_gate_checks e = butlast (gs_checks s)
   | (eff, _) \<Rightarrow> eff = []"
proof -
  define writes_ok where "writes_ok x \<longleftrightarrow> (case x of
     (eff, Inr (Gate_ok s)) \<Rightarrow>
       if is_dry_run inp then gs_policyDecisionId s = [] \<and> gs_auditBeforeEventId s = []
         \<and> (eff = [] \<or> (\<exists>k. eff = [Trace_cached k (gs_trace s) 60]))
       else \<exists>e. eff = [Audit_emitted e] \<and> dp_audit_emit deps e = Inr (gs_auditBeforeEventId s)
         \<and> au_action e = ''payment_intent.execute.before''
         \<and> (''payment_intent_id'', JStr (gi_id (in_intent inp))) \<in> set (au_inputs e)
         \<and> (''ledger_state_hash'', JStr (gs_ledgerStateHash s)) \<in> set (au_inputs e)
         \<and> au_policyDecisionId e = Some (gs_policyDecisionId s)
         \<and> au_gate_checks e = butlast (gs_checks s)
   | (eff, _) \<Rightarrow> eff = [])" for x :: "gate_effect list \<times> (string + gate_result)"
  have "writes_ok (finish_gate deps inp d h cs)" for d h cs
    unfolding writes_ok_def
    by (auto simp: finish_gate_def gate_success_result_def DRY_RUN_TRACE_TTL_SECONDS_def
        audit_before_event_def Let_def split: option.split sum.split)
  moreover have "writes_ok ([], Inl e)" "writes_ok ([], Inr (gate_failure_result inp dec f cs))" for e dec f cs
    by (simp_all add: writes_ok_def gate_failure_result_def)
  ultimately have "writes_ok (runPreExecutionGate deps inp)"
    unfolding runPreExecutionGate_def by (simp split: prod.split gate_step.split sum.split)
  then show ?thesis unfolding writes_ok_def .
qed

end
