(* ===== verification/Policy_DSL.thy ===== *)
theory Policy_DSL
  imports Decimal_Order
begin

text \<open>
  The data of the policy layer: the rule language of services/policy/src/dsl.ts (rules,
  their \<open>when\<close> primitives, the signed document) and the action, decision and trace types of
  services/policy/src/vm.ts. Field names follow the source with dots and camel case written
  as underscores; a field that is optional in the source is an \<open>option\<close>.
\<close>

section \<open>Rules and documents (dsl.ts)\<close>

datatype apply_to =
  Outbound_payment | Inbound_payment | Ledger_write | Onchain_tx | Agent_action | Any

text \<open>
  \<open>ExecuteMode\<close>; \<open>Execute_other\<close> is a value outside the union, which
  \<open>mapExecute\<close> still handles at run time.
\<close>

datatype execute_mode = Execute_auto | Execute_confirm | Execute_reject | Execute_other string

datatype tenant_category = Business | Consumer

record amount_literal =
  am_currency :: string
  am_value :: string

record spend_window =
  sw_window :: string
  sw_lte :: amount_literal

record tx_count_window =
  tw_window :: string
  tw_lte :: rat

record rule_when =
  counterparty_in :: "string option"
  counterparty_not_in :: "string option"
  amount_lte :: "amount_literal option"
  amount_gt :: "amount_literal option"
  agent_role_is :: "string option"
  time_window :: "string option"
  agent_id_is :: "string option"
  tenant_category_is :: "tenant_category option"
  action_in :: "string list option"
  action_not_in :: "string list option"
  agent_behaviorHash :: "string option"
  agent_spend_in_window :: "spend_window option"
  agent_tx_count_in_window :: "tx_count_window option"
  agent_confidence_gte :: "rat option"
  agent_evidence_score_gte :: "rat option"
  agent_risk_level_lte :: "string option"

record policy_rule =
  rl_id :: string
  rl_applies_to :: "apply_to list"
  rl_when :: rule_when
  rl_require :: "string option"
  rl_execute :: execute_mode
  rl_approval_required_above :: "amount_literal option"
  rl_onchain_settlement_permitted :: "bool option"
  rl_x402_autonomous_max_amount :: "amount_literal option"
  rl_ach_autonomous_max_amount :: "amount_literal option"
  rl_card_autonomous_max_amount :: "amount_literal option"
  rl_required_evidence_kinds :: "string list option"

record message_template =
  mt_id :: string
  mt_subject :: string
  mt_body :: string
  mt_allowed_variables :: "string list"
  mt_approver_signatures :: "string list option"

record policy_document =
  pd_version :: int
  pd_rules :: "policy_rule list"
  pd_lists :: "(string \<rightharpoonup> string list) option"
  pd_message_templates :: "message_template list option"
  pd_agent_actions :: "(string \<rightharpoonup> string list) option"

text \<open>\<open>doc.agent_actions?.[agentKey] ?? []\<close>: an agent without an entry is allowed nothing.\<close>

definition allowedActionsFor :: "policy_document \<Rightarrow> string \<Rightarrow> string list" where
  "allowedActionsFor doc agentKey =
     or_else (Option.bind (pd_agent_actions doc) (\<lambda>m. m agentKey)) []"

text \<open>A \<open>when\<close> clause with no primitive.\<close>

definition when_empty :: rule_when where
  "when_empty = \<lparr>
     counterparty_in = None, counterparty_not_in = None, amount_lte = None, amount_gt = None,
     agent_role_is = None, time_window = None, agent_id_is = None, tenant_category_is = None,
     action_in = None, action_not_in = None, agent_behaviorHash = None,
     agent_spend_in_window = None, agent_tx_count_in_window = None,
     agent_confidence_gte = None, agent_evidence_score_gte = None, agent_risk_level_lte = None \<rparr>"

section \<open>Actions, decisions and traces (vm.ts)\<close>

text \<open>The UTC fields of a \<open>Date\<close> that the VM reads; months count from 0 as in JavaScript.\<close>

record utc_time =
  utc_minutes :: int
  utc_hours :: int
  utc_date :: int
  utc_month :: int
  utc_day :: int

record action =
  ac_kind :: apply_to
  ac_counterparty_id :: "string option"
  ac_amount :: "amount_literal option"
  ac_agent_role :: "string option"
  ac_timestamp :: utc_time
  ac_agent_id :: "string option"
  ac_tenant_category :: "tenant_category option"
  ac_action_id :: "string nullish"
  ac_behavior_hash :: "string option"
  ac_spend_in_window :: "(string \<rightharpoonup> amount_literal) option"
  ac_tx_count_in_window :: "(string \<rightharpoonup> rat) option"
  ac_confidence :: "rat option"
  ac_evidence_score :: "rat option"
  ac_risk_level :: "string option"
  ac_counterparty_trust_status :: "string option"

datatype outcome = Allow | Confirm | Reject

text \<open>The key of a \<open>when\<close> primitive, as recorded in the trace.\<close>

datatype when_key =
    K_counterparty_in | K_counterparty_not_in | K_amount_lte | K_amount_gt | K_agent_role
  | K_time_window | K_agent_id | K_tenant_category | K_action_in | K_action_not_in
  | K_behaviorHash | K_spend_in_window | K_tx_count_in_window | K_confidence_gte
  | K_evidence_score_gte | K_risk_level_lte

text \<open>
  The \<open>detail\<close> string of a check. A number the source prints with \<open>String(n)\<close> is kept as
  the number.
\<close>

datatype check_detail = Text string | Number rat | Window_number string rat

record rule_check =
  rc_key :: when_key
  rc_passed :: bool
  rc_detail :: check_detail

record decision_trace =
  dt_rule_id :: string
  dt_matched :: bool
  dt_checks :: "rule_check list"

record decision =
  de_outcome :: outcome
  de_matched_rule_id :: "string option"
  de_required_approvers :: "string list"
  de_trace :: "decision_trace list"

end
