(* ===== verification/Policy_VM.thy ===== *)
theory Policy_VM
  imports Policy_Cron
begin

text \<open>
  The policy virtual machine (services/policy/src/vm.ts): \<open>evaluate\<close> tries the rules of a
  document in order, \<open>matchRule\<close> checks the primitives of one rule in order and stops at
  the first that fails. \<open>None\<close> is a thrown exception: the only builtin that can throw is
  \<open>BigInt\<close> inside \<open>addDecimal\<close>.
\<close>

section \<open>One primitive at a time\<close>

text \<open>
  Each \<open>if (w[key] !== undefined)\<close> block is one definition. Its value is \<open>Some None\<close> when
  the key is absent, \<open>Some (Some c)\<close> with the check it pushes, and \<open>None\<close> when it throws.
\<close>

type_synonym primitive = "rule_check option option"

abbreviation rule_check_of :: "when_key \<Rightarrow> bool \<Rightarrow> check_detail \<Rightarrow> rule_check" where
  "rule_check_of k p d \<equiv> \<lparr>rc_key = k, rc_passed = p, rc_detail = d\<rparr>"

definition policy_list :: "policy_document \<Rightarrow> string \<Rightarrow> string list" where
  "policy_list policy name = or_else (Option.bind (pd_lists policy) (\<lambda>m. m name)) []"

definition amount_detail :: "amount_literal \<Rightarrow> check_detail" where
  "amount_detail b = Text (am_currency b @ '' '' @ am_value b)"

definition prim_counterparty_in :: "policy_document \<Rightarrow> rule_when \<Rightarrow> action \<Rightarrow> primitive" where
  "prim_counterparty_in policy w a = Some (case counterparty_in w of None \<Rightarrow> None
    | Some name \<Rightarrow>
        let passed = (case ac_counterparty_id a of None \<Rightarrow> False
                      | Some c \<Rightarrow> c \<in> set (policy_list policy name))
        in Some (rule_check_of K_counterparty_in passed (Text name)))"

definition prim_counterparty_not_in :: "policy_document \<Rightarrow> rule_when \<Rightarrow> action \<Rightarrow> primitive" where
  "prim_counterparty_not_in policy w a = Some (case counterparty_not_in w of None \<Rightarrow> None
    | Some name \<Rightarrow>
        let passed = (case ac_counterparty_id a of None \<Rightarrow> True
                      | Some c \<Rightarrow> c \<notin> set (policy_list policy name))
        in Some (rule_check_of K_counterparty_not_in passed (Text name)))"

definition prim_amount_lte :: "rule_when \<Rightarrow> action \<Rightarrow> primitive" where
  "prim_amount_lte w a = Some (case amount_lte w of None \<Rightarrow> None
    | Some bound \<Rightarrow>
        let passed = (case ac_amount a of None \<Rightarrow> False
                      | Some m \<Rightarrow> am_currency m = am_currency bound \<and>
                                  compareDecimal_vm (am_value m) (am_value bound) \<le> 0)
        in Some (rule_check_of K_amount_lte passed (amount_detail bound)))"

definition prim_amount_gt :: "rule_when \<Rightarrow> action \<Rightarrow> primitive" where
  "prim_amount_gt w a = Some (case amount_gt w of None \<Rightarrow> None
    | Some bound \<Rightarrow>
        let passed = (case ac_amount a of None \<Rightarrow> False
                      | Some m \<Rightarrow> am_currency m = am_currency bound \<and>
                                  compareDecimal_vm (am_value m) (am_value bound) > 0)
        in Some (rule_check_of K_amount_gt passed (amount_detail bound)))"

definition prim_agent_role :: "rule_when \<Rightarrow> action \<Rightarrow> primitive" where
  "prim_agent_role w a = Some (case agent_role_is w of None \<Rightarrow> None
    | Some r \<Rightarrow> Some (rule_check_of K_agent_role (ac_agent_role a = Some r) (Text r)))"

definition prim_time_window :: "rule_when \<Rightarrow> action \<Rightarrow> primitive" where
  "prim_time_window w a = Some (case time_window w of None \<Rightarrow> None
    | Some e \<Rightarrow> Some (rule_check_of K_time_window (matchesCron e (ac_timestamp a)) (Text e)))"

definition prim_agent_id :: "rule_when \<Rightarrow> action \<Rightarrow> primitive" where
  "prim_agent_id w a = Some (case agent_id_is w of None \<Rightarrow> None
    | Some i \<Rightarrow> Some (rule_check_of K_agent_id (ac_agent_id a = Some i) (Text i)))"

definition category_name :: "tenant_category \<Rightarrow> string" where
  "category_name c = (case c of Business \<Rightarrow> ''business'' | Consumer \<Rightarrow> ''consumer'')"

definition prim_tenant_category :: "rule_when \<Rightarrow> action \<Rightarrow> primitive" where
  "prim_tenant_category w a = Some (case tenant_category_is w of None \<Rightarrow> None
    | Some c \<Rightarrow> Some (rule_check_of K_tenant_category (ac_tenant_category a = Some c)
                      (Text (category_name c))))"

text \<open>
  \<open>action.action_id !== null && list.includes(action.action_id ?? "")\<close>: an undefined id is
  looked up as the empty string.
\<close>

definition prim_action_in :: "rule_when \<Rightarrow> action \<Rightarrow> primitive" where
  "prim_action_in w a = Some (case action_in w of None \<Rightarrow> None
    | Some ids \<Rightarrow>
        let passed = (case ac_action_id a of Null \<Rightarrow> False
                      | Undefined \<Rightarrow> [] \<in> set ids
                      | Value i \<Rightarrow> i \<in> set ids)
        in Some (rule_check_of K_action_in passed (Text (js_join '','' ids))))"

definition prim_action_not_in :: "rule_when \<Rightarrow> action \<Rightarrow> primitive" where
  "prim_action_not_in w a = Some (case action_not_in w of None \<Rightarrow> None
    | Some ids \<Rightarrow>
        let passed = (case ac_action_id a of Null \<Rightarrow> True
                      | Undefined \<Rightarrow> True
                      | Value i \<Rightarrow> i \<notin> set ids)
        in Some (rule_check_of K_action_not_in passed (Text (js_join '','' ids))))"

definition prim_behaviorHash :: "rule_when \<Rightarrow> action \<Rightarrow> primitive" where
  "prim_behaviorHash w a = Some (case agent_behaviorHash w of None \<Rightarrow> None
    | Some h \<Rightarrow> Some (rule_check_of K_behaviorHash (ac_behavior_hash a = Some h) (Text h)))"

text \<open>
  The spend envelope: the prior spend of the window (in the envelope's currency, else zero)
  plus this action's amount; an action in another currency fails closed.
\<close>

definition prior_spend :: "spend_window \<Rightarrow> action \<Rightarrow> string" where
  "prior_spend c a =
     (case Option.bind (ac_spend_in_window a) (\<lambda>m. m (sw_window c)) of
        None \<Rightarrow> ''0''
      | Some prior \<Rightarrow> if am_currency prior = am_currency (sw_lte c) then am_value prior else ''0'')"

definition prim_spend_in_window :: "rule_when \<Rightarrow> action \<Rightarrow> primitive" where
  "prim_spend_in_window w a = (case agent_spend_in_window w of None \<Rightarrow> Some None
    | Some c \<Rightarrow>
        let priorValue = prior_spend c a;
            detail = Text (sw_window c @ ''<='' @ am_currency (sw_lte c) @ '' '' @ am_value (sw_lte c));
            projected = (case ac_amount a of
                None \<Rightarrow> Some (False, priorValue)
              | Some m \<Rightarrow>
                  if am_currency m = am_currency (sw_lte c)
                  then map_option (Pair True) (addDecimal_vm priorValue (am_value m))
                  else Some (False, priorValue))
        in (case projected of
              None \<Rightarrow> None
            | Some (sameCurrency, p) \<Rightarrow>
                Some (Some (rule_check_of K_spend_in_window
                  (sameCurrency \<and> compareDecimal_vm p (am_value (sw_lte c)) \<le> 0) detail))))"

definition prim_tx_count_in_window :: "rule_when \<Rightarrow> action \<Rightarrow> primitive" where
  "prim_tx_count_in_window w a = Some (case agent_tx_count_in_window w of None \<Rightarrow> None
    | Some c \<Rightarrow>
        let prior = or_else (Option.bind (ac_tx_count_in_window a) (\<lambda>m. m (tw_window c))) 0
        in Some (rule_check_of K_tx_count_in_window (prior + 1 \<le> tw_lte c)
                   (Window_number (tw_window c) (tw_lte c))))"

definition prim_confidence_gte :: "rule_when \<Rightarrow> action \<Rightarrow> primitive" where
  "prim_confidence_gte w a = Some (case agent_confidence_gte w of None \<Rightarrow> None
    | Some bound \<Rightarrow>
        let passed = (case ac_confidence a of None \<Rightarrow> False | Some x \<Rightarrow> bound \<le> x)
        in Some (rule_check_of K_confidence_gte passed (Number bound)))"

definition prim_evidence_score_gte :: "rule_when \<Rightarrow> action \<Rightarrow> primitive" where
  "prim_evidence_score_gte w a = Some (case agent_evidence_score_gte w of None \<Rightarrow> None
    | Some bound \<Rightarrow>
        let passed = (case ac_evidence_score a of None \<Rightarrow> False | Some x \<Rightarrow> bound \<le> x)
        in Some (rule_check_of K_evidence_score_gte passed (Number bound)))"

definition RISK_RANK :: "string \<Rightarrow> nat option" where
  "RISK_RANK r =
     (if r = ''low'' then Some 0 else if r = ''medium'' then Some 1
      else if r = ''high'' then Some 2 else if r = ''critical'' then Some 3 else None)"

definition prim_risk_level_lte :: "rule_when \<Rightarrow> action \<Rightarrow> primitive" where
  "prim_risk_level_lte w a = Some (case agent_risk_level_lte w of None \<Rightarrow> None
    | Some bound \<Rightarrow>
        let passed = (case ac_risk_level a of None \<Rightarrow> False
                      | Some actual \<Rightarrow> or_else (RISK_RANK actual) 99 \<le> or_else (RISK_RANK bound) 0)
        in Some (rule_check_of K_risk_level_lte passed (Text bound)))"

section \<open>matchRule\<close>

text \<open>The sequence of blocks: push the check, return on the first failure.\<close>

fun run_checks :: "rule_check list \<Rightarrow> primitive list \<Rightarrow> (bool \<times> rule_check list) option" where
  "run_checks acc [] = Some (True, acc)"
| "run_checks acc (p # ps) =
     (case p of
        None \<Rightarrow> None
      | Some None \<Rightarrow> run_checks acc ps
      | Some (Some c) \<Rightarrow>
          if rc_passed c then run_checks (acc @ [c]) ps else Some (False, acc @ [c]))"

definition rule_primitives :: "policy_document \<Rightarrow> rule_when \<Rightarrow> action \<Rightarrow> primitive list" where
  "rule_primitives policy w a =
     [ prim_counterparty_in policy w a, prim_counterparty_not_in policy w a,
       prim_amount_lte w a, prim_amount_gt w a, prim_agent_role w a, prim_time_window w a,
       prim_agent_id w a, prim_tenant_category w a, prim_action_in w a, prim_action_not_in w a,
       prim_behaviorHash w a, prim_spend_in_window w a, prim_tx_count_in_window w a,
       prim_confidence_gte w a, prim_evidence_score_gte w a, prim_risk_level_lte w a ]"

definition matchRule ::
  "policy_document \<Rightarrow> policy_rule \<Rightarrow> action \<Rightarrow> (bool \<times> rule_check list) option" where
  "matchRule policy rule a =
     (if Any \<notin> set (rl_applies_to rule) \<and> ac_kind a \<notin> set (rl_applies_to rule)
      then Some (False, [])
      else run_checks [] (rule_primitives policy (rl_when rule) a))"

section \<open>parseRequire, mapExecute, evaluate\<close>

text \<open>\<open>expr.split("_and_")\<close>, for the separators of a \<open>require\<close> clause.\<close>

function split_on :: "string \<Rightarrow> string \<Rightarrow> string \<Rightarrow> string list" where
  "split_on sep acc [] = [rev acc]"
| "split_on sep acc (x # xs) =
     (if sep \<noteq> [] \<and> starts_with (x # xs) sep
      then rev acc # split_on sep [] (drop (length sep) (x # xs))
      else split_on sep (x # acc) xs)"
  by pat_completeness auto
termination
  by (relation "measure (\<lambda>(sep, acc, s). length s)") (auto simp: length_Cons)

definition parseRequire :: "string \<Rightarrow> string list" where
  "parseRequire expr =
     (if expr = ''single_signer'' then [''signer'']
      else if ends_with expr ''_approval'' then [take (length expr - length ''_approval'') expr]
      else if str_includes expr ''_and_''
        then filter (\<lambda>s. length s > 0) (split_on ''_and_'' [] expr)
      else [expr])"

definition mapExecute :: "execute_mode \<Rightarrow> bool \<Rightarrow> outcome" where
  "mapExecute mode hasApprovers =
     (case mode of
        Execute_reject \<Rightarrow> Reject
      | Execute_auto \<Rightarrow> if hasApprovers then Confirm else Allow
      | Execute_confirm \<Rightarrow> Confirm
      | Execute_other _ \<Rightarrow> Reject)"

text \<open>The decision a matching rule yields: the body of \<open>if (matched)\<close>.\<close>

definition exceeds_threshold :: "policy_rule \<Rightarrow> action \<Rightarrow> bool" where
  "exceeds_threshold rule a =
     (case (rl_approval_required_above rule, ac_amount a) of
        (Some t, Some m) \<Rightarrow>
          am_currency m = am_currency t \<and> compareDecimal_vm (am_value m) (am_value t) > 0
      | _ \<Rightarrow> False)"

definition rule_decision :: "policy_rule \<Rightarrow> action \<Rightarrow> decision_trace list \<Rightarrow> decision" where
  "rule_decision rule a trace =
     (let approvers = (case rl_require rule of None \<Rightarrow> [] | Some e \<Rightarrow> parseRequire e);
          outcome = mapExecute (rl_execute rule) (length approvers > 0);
          forced = (outcome = Allow \<and> exceeds_threshold rule a)
      in \<lparr> de_outcome = (if forced then Confirm else outcome),
           de_matched_rule_id = Some (rl_id rule),
           de_required_approvers =
             (if forced \<and> length approvers = 0 then [''signer''] else approvers),
           de_trace = trace \<rparr>)"

fun evaluate_rules ::
  "policy_document \<Rightarrow> action \<Rightarrow> decision_trace list \<Rightarrow> policy_rule list \<Rightarrow> decision option" where
  "evaluate_rules policy a trace [] =
     Some \<lparr> de_outcome = Reject, de_matched_rule_id = None, de_required_approvers = [],
            de_trace = trace \<rparr>"
| "evaluate_rules policy a trace (rule # rules) =
     (case matchRule policy rule a of
        None \<Rightarrow> None
      | Some (matched, checks) \<Rightarrow>
          let trace' = trace @ [\<lparr>dt_rule_id = rl_id rule, dt_matched = matched, dt_checks = checks\<rparr>]
          in if matched then Some (rule_decision rule a trace')
             else evaluate_rules policy a trace' rules)"

definition evaluate :: "policy_document \<Rightarrow> action \<Rightarrow> decision option" where
  "evaluate policy a = evaluate_rules policy a [] (pd_rules policy)"

end
