(* ===== verification/Policy_Facts.thy ===== *)
theory Policy_Facts
  imports Policy_VM
begin

text \<open>
  The properties of the policy VM: first-match semantics with default deny, what an \<open>allow\<close>
  outcome implies, the fail-closed reading of every threshold primitive, totality on
  well-formed amounts, and the meaning of a validated \<open>time_window\<close>.
\<close>

section \<open>Running the checks of a rule\<close>

definition prim_passes :: "primitive \<Rightarrow> bool" where
  "prim_passes p \<longleftrightarrow> (\<exists>q. p = Some q \<and> (\<forall>c. q = Some c \<longrightarrow> rc_passed c))"

lemma prim_passes_simps [simp]:
  "prim_passes None \<longleftrightarrow> False"
  "prim_passes (Some None) \<longleftrightarrow> True"
  "prim_passes (Some (Some c)) \<longleftrightarrow> rc_passed c"
  by (auto simp: prim_passes_def)

lemma run_checks_True:
  "run_checks acc ps = Some (True, cs) \<longleftrightarrow>
     (\<forall>p \<in> set ps. prim_passes p) \<and> cs = acc @ List.map_filter (\<lambda>p. Option.bind p id) ps"
proof (induction acc ps rule: run_checks.induct)
  case (2 acc p ps)
  then show ?case
    by (cases p rule: option.exhaust; cases "the p")
      (auto simp: List.map_filter_simps split: option.splits if_splits)
qed (auto simp: List.map_filter_simps)

lemma run_checks_total: "(\<forall>p \<in> set ps. p \<noteq> None) \<Longrightarrow> run_checks acc ps \<noteq> None"
  by (induction acc ps rule: run_checks.induct) (auto split: option.splits)

lemma matchRule_TrueE:
  assumes "matchRule policy rule a = Some (True, cs)"
  shows "Any \<in> set (rl_applies_to rule) \<or> ac_kind a \<in> set (rl_applies_to rule)"
    and "\<And>p. p \<in> set (rule_primitives policy (rl_when rule) a) \<Longrightarrow> prim_passes p"
  using assms by (auto simp: matchRule_def run_checks_True split: if_splits)

text \<open>The primitives a matching rule has passed, by name.\<close>

lemma matched_primitives:
  assumes "matchRule policy rule a = Some (True, cs)"
  shows "prim_passes (prim_counterparty_in policy (rl_when rule) a)"
    and "prim_passes (prim_counterparty_not_in policy (rl_when rule) a)"
    and "prim_passes (prim_amount_lte (rl_when rule) a)"
    and "prim_passes (prim_amount_gt (rl_when rule) a)"
    and "prim_passes (prim_spend_in_window (rl_when rule) a)"
    and "prim_passes (prim_tx_count_in_window (rl_when rule) a)"
    and "prim_passes (prim_confidence_gte (rl_when rule) a)"
    and "prim_passes (prim_evidence_score_gte (rl_when rule) a)"
    and "prim_passes (prim_risk_level_lte (rl_when rule) a)"
    and "prim_passes (prim_time_window (rl_when rule) a)"
    and "prim_passes (prim_behaviorHash (rl_when rule) a)"
  by (rule matchRule_TrueE(2) [OF assms]; simp add: rule_primitives_def)+

section \<open>First match\<close>

definition rule_matches :: "policy_document \<Rightarrow> action \<Rightarrow> policy_rule \<Rightarrow> bool" where
  "rule_matches policy a rule \<longleftrightarrow> (\<exists>cs. matchRule policy rule a = Some (True, cs))"

definition rule_fails :: "policy_document \<Rightarrow> action \<Rightarrow> policy_rule \<Rightarrow> bool" where
  "rule_fails policy a rule \<longleftrightarrow> (\<exists>cs. matchRule policy rule a = Some (False, cs))"

lemma evaluate_rules_cases:
  "evaluate_rules policy a trace rules = Some d \<Longrightarrow>
     (list_all (rule_fails policy a) rules \<and> de_outcome d = Reject \<and> de_matched_rule_id d = None
        \<and> de_required_approvers d = []
        \<and> map dt_rule_id (de_trace d) = map dt_rule_id trace @ map rl_id rules)
   \<or> (\<exists>pre rule post.
        rules = pre @ rule # post \<and> list_all (rule_fails policy a) pre \<and> rule_matches policy a rule
        \<and> d = rule_decision rule a (de_trace d)
        \<and> map dt_rule_id (de_trace d) = map dt_rule_id trace @ map rl_id (pre @ [rule]))"
proof (induction rules arbitrary: trace)
  case Nil
  then show ?case by auto
next
  case (Cons r rs)
  from Cons.prems obtain b cs where m: "matchRule policy r a = Some (b, cs)"
    by (auto split: option.splits)
  let ?t = "trace @ [\<lparr>dt_rule_id = rl_id r, dt_matched = b, dt_checks = cs\<rparr>]"
  show ?case
  proof (cases b)
    case True
    with Cons.prems m have "d = rule_decision r a ?t" by simp
    then have "d = rule_decision r a (de_trace d)
        \<and> map dt_rule_id (de_trace d) = map dt_rule_id trace @ map rl_id ([] @ [r])"
      by (simp add: rule_decision_def Let_def)
    with True m show ?thesis
      by (intro disjI2 exI [of _ "[]"] exI [of _ r] exI [of _ rs]) (simp add: rule_matches_def)
  next
    case False
    with m have f: "rule_fails policy a r" by (simp add: rule_fails_def)
    from Cons.prems m False have "evaluate_rules policy a ?t rs = Some d" by simp
    from Cons.IH [OF this] show ?thesis
    proof (elim disjE exE conjE, goal_cases)
      case 1
      with f show ?case by simp
    next
      case (2 pre rule post)
      with f show ?case
        by (intro disjI2 exI [of _ "r # pre"] exI [of _ rule] exI [of _ post]) simp
    qed
  qed
qed

lemma evaluate_cases:
  assumes "evaluate policy a = Some d"
  obtains (deny) "list_all (rule_fails policy a) (pd_rules policy)" "de_outcome d = Reject"
      "de_matched_rule_id d = None" "de_required_approvers d = []"
      "map dt_rule_id (de_trace d) = map rl_id (pd_rules policy)"
    | (matched) pre rule post where "pd_rules policy = pre @ rule # post"
      "list_all (rule_fails policy a) pre" "rule_matches policy a rule"
      "d = rule_decision rule a (de_trace d)"
      "map dt_rule_id (de_trace d) = map rl_id (pre @ [rule])"
  using evaluate_rules_cases [of policy a "[]" "pd_rules policy" d] assms
  by (auto simp: evaluate_def)

lemma rule_decision_Allow:
  "de_outcome (rule_decision rule a t) = Allow \<longleftrightarrow>
     rl_execute rule = Execute_auto \<and>
     (rl_require rule = None \<or> (\<exists>e. rl_require rule = Some e \<and> parseRequire e = [])) \<and>
     \<not> exceeds_threshold rule a"
  by (auto simp: rule_decision_def Let_def mapExecute_def
      split: execute_mode.splits option.splits if_splits)

lemma rule_decision_id [simp]: "de_matched_rule_id (rule_decision rule a t) = Some (rl_id rule)"
  by (simp add: rule_decision_def Let_def)

section \<open>Thresholds fail closed\<close>

lemma prim_amount_lteD:
  "prim_passes (prim_amount_lte w a) \<Longrightarrow> amount_lte w = Some bound \<Longrightarrow>
   \<exists>m. ac_amount a = Some m \<and> am_currency m = am_currency bound
     \<and> compareDecimal_vm (am_value m) (am_value bound) \<le> 0"
  by (auto simp: prim_amount_lte_def Let_def split: option.splits)

lemma prim_confidence_gteD:
  "prim_passes (prim_confidence_gte w a) \<Longrightarrow> agent_confidence_gte w = Some bound \<Longrightarrow>
   \<exists>x. ac_confidence a = Some x \<and> bound \<le> x"
  by (auto simp: prim_confidence_gte_def Let_def split: option.splits)

lemma prim_evidence_score_gteD:
  "prim_passes (prim_evidence_score_gte w a) \<Longrightarrow> agent_evidence_score_gte w = Some bound \<Longrightarrow>
   \<exists>x. ac_evidence_score a = Some x \<and> bound \<le> x"
  by (auto simp: prim_evidence_score_gte_def Let_def split: option.splits)

lemma RISK_RANK_bound: "or_else (RISK_RANK b) 0 \<le> 3"
  by (simp add: RISK_RANK_def)

lemma prim_risk_level_lteD:
  assumes "prim_passes (prim_risk_level_lte w a)" "agent_risk_level_lte w = Some bound"
  shows "\<exists>r n. ac_risk_level a = Some r \<and> RISK_RANK r = Some n \<and> n \<le> or_else (RISK_RANK bound) 0"
proof -
  from assms obtain r where r: "ac_risk_level a = Some r"
    and le: "or_else (RISK_RANK r) 99 \<le> or_else (RISK_RANK bound) 0"
    by (cases "ac_risk_level a") (auto simp: prim_risk_level_lte_def)
  from le RISK_RANK_bound [of bound] have "RISK_RANK r \<noteq> None" by (intro notI) simp
  with r le show ?thesis by auto
qed

lemma prim_spend_in_windowD:
  "prim_passes (prim_spend_in_window w a) \<Longrightarrow> agent_spend_in_window w = Some c \<Longrightarrow>
   \<exists>m p. ac_amount a = Some m \<and> am_currency m = am_currency (sw_lte c)
     \<and> addDecimal_vm (prior_spend c a) (am_value m) = Some p
     \<and> compareDecimal_vm p (am_value (sw_lte c)) \<le> 0"
  by (auto simp: prim_spend_in_window_def Let_def split: option.splits if_splits)

section \<open>Totality on well-formed amounts\<close>

definition action_wf :: "action \<Rightarrow> bool" where
  "action_wf a \<longleftrightarrow>
     (\<forall>m. ac_amount a = Some m \<longrightarrow> is_proper_decimal (am_value m)) \<and>
     (\<forall>f k v. ac_spend_in_window a = Some f \<and> f k = Some v \<longrightarrow> is_proper_decimal (am_value v))"

lemma is_proper_zero: "is_proper_decimal ''0''"
  by (rule is_decimal_proper, rule is_decimal_intI) simp_all

lemma prior_spend_proper: "action_wf a \<Longrightarrow> is_proper_decimal (prior_spend c a)"
  by (auto simp: prior_spend_def action_wf_def is_proper_zero
      split: option.splits Option.bind_splits)

lemma prim_spend_total: "action_wf a \<Longrightarrow> prim_spend_in_window w a \<noteq> None"
proof (cases "agent_spend_in_window w")
  case (Some c)
  assume wf: "action_wf a"
  show ?thesis
  proof (cases "ac_amount a")
    case (Some m)
    with wf have "is_proper_decimal (am_value m)" by (simp add: action_wf_def)
    then obtain p where "addDecimal_vm (prior_spend c a) (am_value m) = Some p"
      using vm_decimal.add_returns [OF prior_spend_proper [OF wf]] by blast
    with Some \<open>agent_spend_in_window w = Some c\<close> show ?thesis
      by (simp add: prim_spend_in_window_def Let_def)
  qed (simp add: Let_def prim_spend_in_window_def Some)
qed (simp add: prim_spend_in_window_def)

lemma matchRule_total: "action_wf a \<Longrightarrow> matchRule policy rule a \<noteq> None"
  using prim_spend_total [of a "rl_when rule"] run_checks_total [of "rule_primitives policy (rl_when rule) a" "[]"]
  by (auto simp: matchRule_def rule_primitives_def prim_counterparty_in_def
      prim_counterparty_not_in_def prim_amount_lte_def prim_amount_gt_def prim_agent_role_def
      prim_time_window_def prim_agent_id_def prim_tenant_category_def prim_action_in_def
      prim_action_not_in_def prim_behaviorHash_def prim_tx_count_in_window_def
      prim_confidence_gte_def prim_evidence_score_gte_def prim_risk_level_lte_def)

lemma evaluate_rules_total: "action_wf a \<Longrightarrow> evaluate_rules policy a t rules \<noteq> None"
  by (induction rules arbitrary: t) (auto simp: matchRule_total Let_def split: option.splits)

section \<open>Properties\<close>

text \<open>
  C17 (functional). First-match semantics: \<open>evaluate\<close> either finds that every rule of the
  document fails and denies by default, with no matched rule and no approvers, or returns
  the decision of the first rule that matches, every earlier rule having failed; the trace
  lists exactly the rules that were tried, in order.
\<close>

theorem evaluate_first_match:
  assumes "evaluate policy a = Some d"
  shows "(list_all (rule_fails policy a) (pd_rules policy) \<and> de_outcome d = Reject \<and>
           de_matched_rule_id d = None \<and> de_required_approvers d = [] \<and>
           map dt_rule_id (de_trace d) = map rl_id (pd_rules policy))
       \<or> (\<exists>pre rule post. pd_rules policy = pre @ rule # post \<and>
            list_all (rule_fails policy a) pre \<and> rule_matches policy a rule \<and>
            d = rule_decision rule a (de_trace d) \<and>
            map dt_rule_id (de_trace d) = map rl_id (pre @ [rule]))"
  by (rule evaluate_cases [OF assms]) blast+

text \<open>A concrete document: small payments to trusted vendors are automatic under a daily cap.\<close>

definition usd :: "string \<Rightarrow> amount_literal" where
  "usd v = \<lparr>am_currency = ''USD'', am_value = v\<rparr>"

definition sample_rule :: policy_rule where
  "sample_rule = \<lparr>
     rl_id = ''r1'', rl_applies_to = [Outbound_payment],
     rl_when = when_empty\<lparr>
        amount_lte := Some (usd ''100.00''),
        agent_spend_in_window := Some \<lparr>sw_window = ''24h'', sw_lte = usd ''250''\<rparr>,
        agent_confidence_gte := Some (1 / 2)\<rparr>,
     rl_require = None, rl_execute = Execute_auto,
     rl_approval_required_above = Some (usd ''90''), rl_onchain_settlement_permitted = None,
     rl_x402_autonomous_max_amount = None, rl_ach_autonomous_max_amount = Some (usd ''100''),
     rl_card_autonomous_max_amount = None, rl_required_evidence_kinds = None\<rparr>"

definition sample_policy :: policy_document where
  "sample_policy = \<lparr>pd_version = 3, pd_rules = [sample_rule], pd_lists = None,
     pd_message_templates = None, pd_agent_actions = None\<rparr>"

definition sample_action :: action where
  "sample_action = \<lparr>
     ac_kind = Outbound_payment, ac_counterparty_id = Some ''cp_1'',
     ac_amount = Some (usd ''40.50''), ac_agent_role = None,
     ac_timestamp = \<lparr>utc_minutes = 0, utc_hours = 9, utc_date = 1, utc_month = 0, utc_day = 0\<rparr>,
     ac_agent_id = Some ''agent_1'', ac_tenant_category = None, ac_action_id = Undefined,
     ac_behavior_hash = None, ac_spend_in_window = Some [''24h'' \<mapsto> usd ''200.25''],
     ac_tx_count_in_window = None, ac_confidence = Some (9 / 10), ac_evidence_score = None,
     ac_risk_level = None, ac_counterparty_trust_status = None\<rparr>"

lemmas primitive_defs =
  prim_counterparty_in_def prim_counterparty_not_in_def prim_amount_lte_def prim_amount_gt_def
  prim_agent_role_def prim_time_window_def prim_agent_id_def prim_tenant_category_def
  prim_action_in_def prim_action_not_in_def prim_behaviorHash_def prim_tx_count_in_window_def
  prim_confidence_gte_def prim_evidence_score_gte_def prim_risk_level_lte_def

lemmas sample_defs = sample_rule_def sample_action_def when_empty_def usd_def

lemma sample_units:
  "dec_units ''40.50'' = 40500000000000000000" "dec_units ''200.25'' = 200250000000000000000"
  "dec_units ''250'' = 250000000000000000000"
  by (simp_all add: decimal_eval)

lemma sample_decimals: "is_decimal ''40.50''" "is_decimal ''200.25''" "is_decimal ''250''" "is_decimal ''100.00''"
  by (simp_all add: decimal_eval)

lemma sample_policy_compare: "compareDecimal_vm ''40.50'' ''100.00'' \<le> 0" "\<not> 0 < compareDecimal_vm ''40.50'' ''90''"
  by (simp_all add: compareDecimal_vm_eq gate_decimal.cmp_le_iff gate_decimal.cmp_gt_iff decimal_eval)

lemma sample_spend: "prim_passes (prim_spend_in_window (rl_when sample_rule) sample_action)"
proof -
  note d = sample_decimals(1-3) [THEN is_decimal_proper]
  obtain c where c: "addDecimal_vm ''200.25'' ''40.50'' = Some c"
    using vm_decimal.add_returns [OF d(2,1)] by blast
  have "compareDecimal_vm c ''250'' \<le> 0"
    unfolding vm_decimal.cap_check_iff [OF d(2,1,3) c] sample_units by simp
  with c show ?thesis
    by (simp add: prim_spend_in_window_def sample_defs prior_spend_def Let_def)
qed

lemma sample_matches: "rule_matches sample_policy sample_action sample_rule"
proof -
  have "\<forall>p \<in> set (rule_primitives sample_policy (rl_when sample_rule) sample_action). prim_passes p"
    using sample_spend sample_policy_compare unfolding rule_primitives_def
    by (simp add: sample_defs primitive_defs)
  then show ?thesis
    by (simp add: rule_matches_def matchRule_def run_checks_True)
      (simp add: sample_rule_def sample_action_def)
qed

lemma sample_policy_decision:
  "\<exists>d. evaluate sample_policy sample_action = Some d \<and> de_outcome d = Allow
     \<and> de_matched_rule_id d = Some ''r1''"
proof -
  obtain cs where m: "matchRule sample_policy sample_rule sample_action = Some (True, cs)"
    using sample_matches by (auto simp: rule_matches_def)
  have "de_outcome (rule_decision sample_rule sample_action t) = Allow" for t
    unfolding rule_decision_Allow
    using sample_policy_compare by (simp add: exceeds_threshold_def sample_defs)
  with m show ?thesis
    by (simp add: evaluate_def sample_policy_def Let_def) (simp add: sample_rule_def)
qed

theorem evaluate_first_match_witness:
  "\<exists>d. evaluate sample_policy sample_action = Some d \<and>
     (\<exists>pre rule post. pd_rules sample_policy = pre @ rule # post \<and>
        rule_matches sample_policy sample_action rule)"
proof -
  obtain d where d: "evaluate sample_policy sample_action = Some d" "de_outcome d = Allow"
    using sample_policy_decision by blast
  from evaluate_first_match [OF d(1)] d show ?thesis by fastforce
qed

text \<open>
  C18 (safety). An \<open>allow\<close> outcome is always authored: some rule of the document matched, it
  says \<open>execute: auto\<close>, its \<open>require\<close> clause names nobody, and the amount does not exceed
  its \<open>approval_required_above\<close> threshold; no approver is left outstanding.
\<close>

theorem evaluate_allow_authored:
  assumes "evaluate policy a = Some d" "de_outcome d = Allow"
  shows "\<exists>rule \<in> set (pd_rules policy).
     rule_matches policy a rule \<and> de_matched_rule_id d = Some (rl_id rule) \<and>
     rl_execute rule = Execute_auto \<and>
     (rl_require rule = None \<or> (\<exists>e. rl_require rule = Some e \<and> parseRequire e = [])) \<and>
     \<not> exceeds_threshold rule a \<and> de_required_approvers d = []"
proof (cases rule: evaluate_cases [OF assms(1)])
  case 1
  with assms(2) show ?thesis by simp
next
  case (2 pre rule post)
  from 2(4) assms(2) have "de_outcome (rule_decision rule a (de_trace d)) = Allow" by simp
  then have A: "rl_execute rule = Execute_auto"
    "rl_require rule = None \<or> (\<exists>e. rl_require rule = Some e \<and> parseRequire e = [])"
    "\<not> exceeds_threshold rule a" unfolding rule_decision_Allow by blast+
  then have "de_required_approvers (rule_decision rule a (de_trace d)) = []"
    by (auto simp: rule_decision_def Let_def)
  with 2 A show ?thesis using rule_decision_id [of rule a "de_trace d"] by (intro bexI [of _ rule]) auto
qed

theorem evaluate_allow_authored_witness:
  "\<exists>rule \<in> set (pd_rules sample_policy). rl_execute rule = Execute_auto
     \<and> \<not> exceeds_threshold rule sample_action"
  using sample_policy_decision evaluate_allow_authored [of sample_policy sample_action] by blast

text \<open>
  Every threshold of a matching rule fails closed. If the amounts are decimal
  strings, a match means: the amount is present, in the bound's currency and at most the
  \<open>amount.lte\<close> bound; the prior spend of the window plus the amount stays within the
  \<open>agent.spend_in_window\<close> cap in exact arithmetic; and a missing confidence, evidence score
  or risk level never satisfies its primitive.
\<close>

theorem matched_rule_within_limits:
  assumes "rule_matches policy a rule" "action_wf a"
    and "\<And>b. amount_lte (rl_when rule) = Some b \<Longrightarrow> is_proper_decimal (am_value b)"
    and "\<And>c. agent_spend_in_window (rl_when rule) = Some c \<Longrightarrow> is_proper_decimal (am_value (sw_lte c))"
  shows "(\<forall>b. amount_lte (rl_when rule) = Some b \<longrightarrow>
            (\<exists>m. ac_amount a = Some m \<and> am_currency m = am_currency b \<and>
                 dec_units (am_value m) \<le> dec_units (am_value b)))
       \<and> (\<forall>c. agent_spend_in_window (rl_when rule) = Some c \<longrightarrow>
            (\<exists>m. ac_amount a = Some m \<and> am_currency m = am_currency (sw_lte c) \<and>
                 dec_units (prior_spend c a) + dec_units (am_value m) \<le> dec_units (am_value (sw_lte c))))
       \<and> (\<forall>b. agent_confidence_gte (rl_when rule) = Some b \<longrightarrow>
            (\<exists>x. ac_confidence a = Some x \<and> b \<le> x))
       \<and> (\<forall>b. agent_evidence_score_gte (rl_when rule) = Some b \<longrightarrow>
            (\<exists>x. ac_evidence_score a = Some x \<and> b \<le> x))
       \<and> (\<forall>b. agent_risk_level_lte (rl_when rule) = Some b \<longrightarrow>
            (\<exists>r n. ac_risk_level a = Some r \<and> RISK_RANK r = Some n \<and> n \<le> or_else (RISK_RANK b) 0))"
proof -
  from assms(1) obtain cs where m: "matchRule policy rule a = Some (True, cs)"
    by (auto simp: rule_matches_def)
  note P = matched_primitives [OF m]
  have amt: "is_proper_decimal (am_value x)" if "ac_amount a = Some x" for x
    using assms(2) that by (simp add: action_wf_def)
  have spend: "\<exists>x. ac_amount a = Some x \<and> am_currency x = am_currency (sw_lte c) \<and>
      dec_units (prior_spend c a) + dec_units (am_value x) \<le> dec_units (am_value (sw_lte c))"
    if c: "agent_spend_in_window (rl_when rule) = Some c" for c
  proof -
    obtain x p where x: "ac_amount a = Some x" "am_currency x = am_currency (sw_lte c)"
      "addDecimal_vm (prior_spend c a) (am_value x) = Some p"
      "compareDecimal_vm p (am_value (sw_lte c)) \<le> 0"
      using prim_spend_in_windowD [OF P(5) c] by blast
    then show ?thesis
      using vm_decimal.cap_check_iff [OF prior_spend_proper [OF assms(2)] amt [OF x(1)] assms(4) [OF c] x(3)]
      by blast
  qed
  show ?thesis
    using prim_amount_lteD [OF P(3)] vm_decimal.cmp_le_iff amt assms(3) spend
      prim_confidence_gteD [OF P(7)] prim_evidence_score_gteD [OF P(8)] prim_risk_level_lteD [OF P(9)]
    by blast
qed

lemma sample_action_wf: "action_wf sample_action"
  using sample_decimals(1,2) [THEN is_decimal_proper]
  by (auto simp: action_wf_def sample_action_def usd_def split: if_splits)

theorem matched_rule_within_limits_witness:
  "rule_matches sample_policy sample_action sample_rule \<and>
   dec_units ''200.25'' + dec_units ''40.50'' \<le> dec_units ''250''"
proof -
  have "prior_spend \<lparr>sw_window = ''24h'', sw_lte = usd ''250''\<rparr> sample_action = ''200.25''"
    by (simp add: prior_spend_def sample_defs)
  then show ?thesis
    using matched_rule_within_limits [OF sample_matches sample_action_wf] sample_matches
      sample_decimals(3,4) [THEN is_decimal_proper]
    by (simp add: sample_defs)
qed

text \<open>
  The VM never throws on well-formed input: if the amounts of the action
  are decimal strings, every document evaluates to a decision.
\<close>

theorem evaluate_returns:
  assumes "action_wf a"
  shows "\<exists>d. evaluate policy a = Some d"
  using evaluate_rules_total [OF assms, of policy "[]" "pd_rules policy"]
  by (auto simp: evaluate_def)

theorem evaluate_returns_witness: "\<exists>d. evaluate sample_policy sample_action = Some d"
  using evaluate_returns [OF sample_action_wf] .

text \<open>
  C34 (equivalence). A \<open>time_window\<close> that \<open>validateCronExpression\<close> accepts means what it
  says: it has five fields, and \<open>matchesCron\<close> holds at a time exactly when each field is a
  star or lists the value (Sunday being 0 or 7). No range, step or name can reach the
  matcher and be half-parsed by \<open>parseInt\<close>.
\<close>

theorem validated_cron_means_schedule:
  assumes "validateCronExpression expr = None"
  shows "\<exists>mn hr dm mon dow. split_spaces False (js_trim expr) = [mn, hr, dm, mon, dow] \<and>
     (matchesCron expr t \<longleftrightarrow>
        field_denotes mn False (utc_minutes t) \<and> field_denotes hr False (utc_hours t) \<and>
        field_denotes dm False (utc_date t) \<and> field_denotes mon False (utc_month t + 1) \<and>
        field_denotes dow True (utc_day t))"
  by (rule validateCronExpression_None [OF assms]) (simp add: matchesCron_def matchField_denotes)

theorem validated_cron_means_schedule_witness:
  "validateCronExpression ''0 9,17 * * 1,7'' = None \<and>
   (\<exists>mn hr dm mon dow. split_spaces False (js_trim ''0 9,17 * * 1,7'') = [mn, hr, dm, mon, dow])"
proof -
  have v: "validateCronExpression ''0 9,17 * * 1,7'' = None"
    by (simp add: validateCronExpression_def FIELD_NAMES_def FIELD_RANGES_def validate_field_def
        has_unsupported_def decimal_eval Let_def)
  with validated_cron_means_schedule [OF v, of "ac_timestamp sample_action"] show ?thesis by blast
qed

end
