(* ===== verification/Lifecycle.thy ===== *)
theory Lifecycle
  imports Prelude
begin

text \<open>
  The state machines of the execution service: proposals, executions and agents
  (services/execution/src/state-machines.ts) and payment intents
  (services/execution/src/payment-intents/state-machine.ts). Every state change of the code
  goes through the guard of its machine; the theory states what the guards leave reachable.
  A locale gives the theory of a machine whose states have a stage no transition decreases;
  it is interpreted on all four machines, and its acyclic extension on the two without a
  pause.
\<close>

section \<open>The guards\<close>

datatype proposal_state =
    Prop_pending | Prop_approved | Prop_acknowledged | Prop_reconciling | Prop_rejected
  | Prop_executed | Prop_failed | Prop_undone | Prop_superseded | Prop_unknown

fun isValidProposalTransition :: "proposal_state \<Rightarrow> proposal_state \<Rightarrow> bool" where
  "isValidProposalTransition Prop_pending t =
     (t = Prop_approved \<or> t = Prop_rejected \<or> t = Prop_acknowledged \<or> t = Prop_superseded)"
| "isValidProposalTransition Prop_approved t =
     (t = Prop_executed \<or> t = Prop_rejected \<or> t = Prop_undone \<or> t = Prop_reconciling)"
| "isValidProposalTransition Prop_reconciling t = (t = Prop_executed \<or> t = Prop_failed)"
| "isValidProposalTransition Prop_executed t = (t = Prop_failed)"
| "isValidProposalTransition _ t = False"

datatype execution_state = Exec_dispatched | Exec_in_flight | Exec_completed | Exec_failed

fun isValidExecutionTransition :: "execution_state \<Rightarrow> execution_state \<Rightarrow> bool" where
  "isValidExecutionTransition Exec_dispatched t = (t = Exec_in_flight \<or> t = Exec_failed)"
| "isValidExecutionTransition Exec_in_flight t = (t = Exec_completed \<or> t = Exec_failed)"
| "isValidExecutionTransition _ t = False"

datatype agent_state =
    Agent_pending_onchain | Agent_active | Agent_revoked | Agent_failed | Agent_quarantined

fun isValidAgentTransition :: "agent_state \<Rightarrow> agent_state \<Rightarrow> bool" where
  "isValidAgentTransition Agent_pending_onchain t = (t = Agent_active \<or> t = Agent_failed)"
| "isValidAgentTransition Agent_active t = (t = Agent_revoked \<or> t = Agent_quarantined)"
| "isValidAgentTransition Agent_quarantined t = (t = Agent_active \<or> t = Agent_revoked)"
| "isValidAgentTransition _ t = False"

datatype intent_state =
    Proposed | Pending_approval | Awaiting_second_approval | Approved | Paused | Dispatching
  | Rejected | Executed | Failed | Cancelled

fun isValidPaymentIntentTransition :: "intent_state \<Rightarrow> intent_state \<Rightarrow> bool" where
  "isValidPaymentIntentTransition Proposed t =
     (t = Pending_approval \<or> t = Approved \<or> t = Rejected \<or> t = Cancelled)"
| "isValidPaymentIntentTransition Pending_approval t =
     (t = Awaiting_second_approval \<or> t = Approved \<or> t = Rejected \<or> t = Cancelled)"
| "isValidPaymentIntentTransition Awaiting_second_approval t = (t = Approved \<or> t = Rejected)"
| "isValidPaymentIntentTransition Approved t =
     (t = Dispatching \<or> t = Rejected \<or> t = Failed \<or> t = Paused)"
| "isValidPaymentIntentTransition Dispatching t = (t = Executed \<or> t = Failed)"
| "isValidPaymentIntentTransition Paused t = (t = Approved \<or> t = Cancelled)"
| "isValidPaymentIntentTransition Executed t = (t = Failed)"
| "isValidPaymentIntentTransition _ t = False"

text \<open>The \<open>assert\<close> helpers throw the error code of their machine, or return.\<close>

definition assertProposalTransition :: "proposal_state \<Rightarrow> proposal_state \<Rightarrow> string + unit" where
  "assertProposalTransition f t =
     (if isValidProposalTransition f t then Inr () else Inl ''execution_proposal_invalid_state'')"

definition assertExecutionTransition :: "execution_state \<Rightarrow> execution_state \<Rightarrow> string + unit" where
  "assertExecutionTransition f t =
     (if isValidExecutionTransition f t then Inr () else Inl ''execution_proposal_invalid_state'')"

definition assertAgentTransition :: "agent_state \<Rightarrow> agent_state \<Rightarrow> string + unit" where
  "assertAgentTransition f t =
     (if isValidAgentTransition f t then Inr () else Inl ''execution_agent_not_registered'')"

definition assertPaymentIntentTransition :: "intent_state \<Rightarrow> intent_state \<Rightarrow> string + unit" where
  "assertPaymentIntentTransition f t =
     (if isValidPaymentIntentTransition f t then Inr () else Inl ''payment_intent_invalid_state'')"

section \<open>Histories\<close>

text \<open>A history: the states a row has had, each reached from the one before by a guarded transition.\<close>

fun history :: "('s \<Rightarrow> 's \<Rightarrow> bool) \<Rightarrow> 's list \<Rightarrow> bool" where
  "history valid [] = True"
| "history valid [s] = True"
| "history valid (s # t # rest) = (valid s t \<and> history valid (t # rest))"

lemma history_append:
  "history valid (xs @ ys) \<longleftrightarrow> history valid xs \<and> history valid ys
     \<and> (xs = [] \<or> ys = [] \<or> valid (last xs) (hd ys))"
  by (induction valid xs rule: history.induct; cases ys) auto

lemma history_step: "history valid (xs @ [s, t] @ ys) \<Longrightarrow> valid s t"
  by (simp add: history_append)

locale staged_machine =
  fixes valid :: "'s \<Rightarrow> 's \<Rightarrow> bool" and stage :: "'s \<Rightarrow> nat" and final :: "'s \<Rightarrow> bool"
  assumes stage_mono: "valid s t \<Longrightarrow> stage s \<le> stage t"
    and final_stuck: "final s \<Longrightarrow> \<not> valid s t"
    and final_iff: "(\<And>t. \<not> valid s t) \<Longrightarrow> final s"
begin

lemma history_stages: "history valid (s # rest) \<Longrightarrow> t \<in> set rest \<Longrightarrow> stage s \<le> stage t"
proof (induction rest arbitrary: s)
  case (Cons u rest)
  then have "stage s \<le> stage u" by (auto intro: stage_mono)
  with Cons show ?case by force
qed simp

lemma final_last: "history valid (xs @ [s] @ ys) \<Longrightarrow> final s \<Longrightarrow> ys = []"
  using final_stuck by (cases ys) (auto simp: history_append)

text \<open>A history that can go no further ends in a final state.\<close>

lemma stuck_is_final: "(\<And>t. \<not> history valid (xs @ [s, t])) \<Longrightarrow> history valid (xs @ [s]) \<Longrightarrow> final s"
  by (rule final_iff) (auto simp: history_append)

end

locale acyclic_machine = staged_machine +
  assumes stage_strict: "valid s t \<Longrightarrow> stage s < stage t"
begin

lemma no_return: "history valid (s # rest) \<Longrightarrow> t \<in> set rest \<Longrightarrow> stage s < stage t"
proof (cases rest)
  case (Cons u more)
  assume h: "history valid (s # rest)" and t: "t \<in> set rest"
  from h Cons have "stage s < stage u" "history valid (u # more)" by (auto intro: stage_strict)
  with history_stages [of u more t] t Cons show ?thesis by auto
qed simp

lemma history_distinct: "history valid xs \<Longrightarrow> distinct (map stage xs)"
proof (induction xs)
  case (Cons s rest)
  then have "history valid rest" by (cases rest) auto
  with Cons show ?case using no_return [of s rest] by (auto simp: less_le)
qed simp

lemma history_length:
  assumes "history valid xs" and "\<And>s. stage s \<le> n"
  shows "length xs \<le> Suc n"
proof -
  have "set (map stage xs) \<subseteq> {0..n}" using assms(2) by auto
  then have "card (set (map stage xs)) \<le> Suc n" using card_mono [of "{0..n}"] by simp
  then show ?thesis using distinct_card [OF history_distinct [OF assms(1)]] by simp
qed

end

section \<open>The machines meet the interfaces\<close>

fun proposal_stage :: "proposal_state \<Rightarrow> nat" where
  "proposal_stage Prop_pending = 0"
| "proposal_stage Prop_approved = 1"
| "proposal_stage Prop_reconciling = 2"
| "proposal_stage Prop_executed = 3"
| "proposal_stage _ = 4"

definition proposal_final :: "proposal_state \<Rightarrow> bool" where
  "proposal_final s \<longleftrightarrow> proposal_stage s = 4"

fun execution_stage :: "execution_state \<Rightarrow> nat" where
  "execution_stage Exec_dispatched = 0"
| "execution_stage Exec_in_flight = 1"
| "execution_stage _ = 2"

definition execution_final :: "execution_state \<Rightarrow> bool" where
  "execution_final s \<longleftrightarrow> execution_stage s = 2"

fun agent_stage :: "agent_state \<Rightarrow> nat" where
  "agent_stage Agent_pending_onchain = 0"
| "agent_stage Agent_active = 1"
| "agent_stage Agent_quarantined = 1"
| "agent_stage _ = 2"

definition agent_final :: "agent_state \<Rightarrow> bool" where
  "agent_final s \<longleftrightarrow> agent_stage s = 2"

fun intent_stage :: "intent_state \<Rightarrow> nat" where
  "intent_stage Proposed = 0"
| "intent_stage Pending_approval = 1"
| "intent_stage Awaiting_second_approval = 2"
| "intent_stage Approved = 3"
| "intent_stage Paused = 3"
| "intent_stage Dispatching = 4"
| "intent_stage Executed = 5"
| "intent_stage _ = 6"

definition intent_final :: "intent_state \<Rightarrow> bool" where
  "intent_final s \<longleftrightarrow> intent_stage s = 6"

lemma proposal_stages: "isValidProposalTransition s t \<Longrightarrow> proposal_stage s < proposal_stage t"
  by (cases s; auto)

lemma execution_stages: "isValidExecutionTransition s t \<Longrightarrow> execution_stage s < execution_stage t"
  by (cases s; auto)

interpretation proposal: acyclic_machine isValidProposalTransition proposal_stage proposal_final
proof
  fix s t
  show "isValidProposalTransition s t \<Longrightarrow> proposal_stage s \<le> proposal_stage t"
    using proposal_stages by (rule less_imp_le)
  show "proposal_final s \<Longrightarrow> \<not> isValidProposalTransition s t"
    by (cases s) (simp_all add: proposal_final_def)
  show "(\<And>t. \<not> isValidProposalTransition s t) \<Longrightarrow> proposal_final s"
    by (cases s) (simp_all add: proposal_final_def, blast+)
qed (rule proposal_stages)

interpretation execution: acyclic_machine isValidExecutionTransition execution_stage execution_final
proof
  fix s t
  show "isValidExecutionTransition s t \<Longrightarrow> execution_stage s \<le> execution_stage t"
    using execution_stages by (rule less_imp_le)
  show "execution_final s \<Longrightarrow> \<not> isValidExecutionTransition s t"
    by (cases s) (simp_all add: execution_final_def)
  show "(\<And>t. \<not> isValidExecutionTransition s t) \<Longrightarrow> execution_final s"
    by (cases s) (simp_all add: execution_final_def, blast+)
qed (rule execution_stages)

interpretation agent: staged_machine isValidAgentTransition agent_stage agent_final
proof
  fix s t
  show "isValidAgentTransition s t \<Longrightarrow> agent_stage s \<le> agent_stage t" by (cases s; auto)
  show "agent_final s \<Longrightarrow> \<not> isValidAgentTransition s t" by (cases s) (simp_all add: agent_final_def)
  show "(\<And>t. \<not> isValidAgentTransition s t) \<Longrightarrow> agent_final s"
    by (cases s) (simp_all add: agent_final_def, blast+)
qed

interpretation intent: staged_machine isValidPaymentIntentTransition intent_stage intent_final
proof
  fix s t
  show "isValidPaymentIntentTransition s t \<Longrightarrow> intent_stage s \<le> intent_stage t" by (cases s; auto)
  show "intent_final s \<Longrightarrow> \<not> isValidPaymentIntentTransition s t" by (cases s) (simp_all add: intent_final_def)
  show "(\<And>t. \<not> isValidPaymentIntentTransition s t) \<Longrightarrow> intent_final s"
    by (cases s) (simp_all add: intent_final_def, blast+)
qed

section \<open>Properties\<close>

lemma into_executed: "isValidPaymentIntentTransition s Executed \<Longrightarrow> s = Dispatching"
  by (cases s) simp_all

lemma into_dispatching: "isValidPaymentIntentTransition s Dispatching \<Longrightarrow> s = Approved"
  by (cases s) simp_all

lemma not_into_proposed: "\<not> isValidPaymentIntentTransition s Proposed"
  by (cases s) simp_all

lemma history_not_proposed:
  "history isValidPaymentIntentTransition (s # h) \<Longrightarrow> Proposed \<notin> set h"
proof (induction h arbitrary: s)
  case (Cons t h)
  then show ?case using not_into_proposed [of s] by auto
qed simp

lemma history_prefix_stage:
  assumes "history isValidPaymentIntentTransition (xs @ [s] @ ys)" "t \<in> set xs"
  shows "intent_stage t \<le> intent_stage s"
proof -
  from split_list [OF assms(2)] obtain as bs where "xs = as @ t # bs" by blast
  with assms(1) have "history isValidPaymentIntentTransition (t # (bs @ [s] @ ys))"
    by (simp add: history_append)
  then show ?thesis by (rule intent.history_stages) simp
qed

text \<open>C35 (safety). An intent is executed only through the gate's hand-off and at most once: in every guarded
  history of a proposed intent that reaches \<open>executed\<close>, the state just before is \<open>dispatching\<close>
  and the one before that \<open>approved\<close>; all earlier states are pre-dispatch states, so there is one
  dispatch and no rejection or cancellation; afterwards only a failure can follow.\<close>

theorem executed_only_through_dispatch:
  assumes "history isValidPaymentIntentTransition (Proposed # h)" and "Executed \<in> set h"
  shows "\<exists>before after. Proposed # h = before @ [Approved, Dispatching, Executed] @ after
    \<and> set before \<subseteq> {Proposed, Pending_approval, Awaiting_second_approval, Approved, Paused}
    \<and> (after = [] \<or> after = [Failed])"
proof -
  let ?v = isValidPaymentIntentTransition
  from assms(2) have "Executed \<in> set (Proposed # h)" by simp
  then obtain xs after where x: "Proposed # h = xs @ Executed # after" by (meson split_list)
  then have xs: "xs \<noteq> []" by (cases xs) auto
  from assms(1) x xs have "?v (last xs) Executed" by (simp add: history_append)
  then have "xs = butlast xs @ [Dispatching]" using xs into_executed append_butlast_last_id by metis
  then obtain ys where ys: "xs = ys @ [Dispatching]" by blast
  with x have y: "ys \<noteq> []" by (cases ys) auto
  from assms(1) x ys y have "?v (last ys) Dispatching" by (simp add: history_append)
  then obtain before where b: "ys = before @ [Approved]"
    using y into_dispatching append_butlast_last_id by metis
  have h: "Proposed # h = before @ [Approved, Dispatching, Executed] @ after" using x ys b by simp
  have "intent_stage t \<le> 3" if "t \<in> set before" for t
    using history_prefix_stage [of before Approved "[Dispatching, Executed] @ after"] assms(1) h that by simp
  moreover have "t \<in> {Proposed, Pending_approval, Awaiting_second_approval, Approved, Paused}"
    if "intent_stage t \<le> 3" for t
    using that by (cases t) simp_all
  ultimately have pre: "set before \<subseteq> {Proposed, Pending_approval, Awaiting_second_approval, Approved, Paused}"
    by blast
  have hist: "history ?v (Executed # after)" using assms(1) unfolding x by (simp add: history_append)
  have "after = [] \<or> after = [Failed]"
  proof (cases after)
    case (Cons t more)
    with hist have "t = Failed" "history ?v ([] @ [Failed] @ more)" by auto
    with intent.final_last [OF this(2)] Cons show ?thesis by (simp add: intent_final_def)
  qed simp
  with h pre show ?thesis by blast
qed

theorem executed_only_through_dispatch_witness:
  "\<exists>before after. [Proposed, Pending_approval, Approved, Paused, Approved, Dispatching, Executed]
      = before @ [Approved, Dispatching, Executed] @ after"
  using executed_only_through_dispatch
    [of "[Pending_approval, Approved, Paused, Approved, Dispatching, Executed]"] by auto

text \<open>Every life ends: a guarded history of a proposal visits no state twice and has at most five
  states, one of an execution at most three; and for all four machines the states no transition
  leaves are exactly the final ones.\<close>

theorem lifecycles_end:
  "(history isValidProposalTransition ps \<longrightarrow> distinct ps \<and> length ps \<le> 5)
   \<and> (history isValidExecutionTransition es \<longrightarrow> distinct es \<and> length es \<le> 3)
   \<and> ((\<forall>t. \<not> isValidProposalTransition p t) = (p \<in> {Prop_acknowledged, Prop_rejected, Prop_failed,
        Prop_undone, Prop_superseded, Prop_unknown}))
   \<and> ((\<forall>t. \<not> isValidExecutionTransition e t) = (e \<in> {Exec_completed, Exec_failed}))
   \<and> ((\<forall>t. \<not> isValidAgentTransition a t) = (a \<in> {Agent_revoked, Agent_failed}))
   \<and> ((\<forall>t. \<not> isValidPaymentIntentTransition i t) = (i \<in> {Rejected, Failed, Cancelled}))"
proof -
  have "proposal_stage s \<le> 4" "execution_stage u \<le> 2" for s u by (cases s; simp) (cases u; simp)
  then have "history isValidProposalTransition ps \<longrightarrow> distinct ps \<and> length ps \<le> 5"
    "history isValidExecutionTransition es \<longrightarrow> distinct es \<and> length es \<le> 3"
    using proposal.history_length [of ps 4] proposal.history_distinct [of ps]
      execution.history_length [of es 2] execution.history_distinct [of es] by (auto simp: distinct_map)
  moreover have "(\<forall>t. \<not> isValidProposalTransition p t) = proposal_final p"
    "(\<forall>t. \<not> isValidExecutionTransition e t) = execution_final e"
    "(\<forall>t. \<not> isValidAgentTransition a t) = agent_final a"
    "(\<forall>t. \<not> isValidPaymentIntentTransition i t) = intent_final i"
    using proposal.final_iff proposal.final_stuck execution.final_iff execution.final_stuck
      agent.final_iff agent.final_stuck intent.final_iff intent.final_stuck by blast+
  moreover have "proposal_final p = (p \<in> {Prop_acknowledged, Prop_rejected, Prop_failed,
        Prop_undone, Prop_superseded, Prop_unknown})" by (cases p) (simp_all add: proposal_final_def)
  moreover have "execution_final e = (e \<in> {Exec_completed, Exec_failed})"
    by (cases e) (simp_all add: execution_final_def)
  moreover have "agent_final a = (a \<in> {Agent_revoked, Agent_failed})"
    by (cases a) (simp_all add: agent_final_def)
  moreover have "intent_final i = (i \<in> {Rejected, Failed, Cancelled})"
    by (cases i) (simp_all add: intent_final_def)
  ultimately show ?thesis by blast
qed

theorem lifecycles_end_witness:
  "length [Prop_pending, Prop_approved, Prop_reconciling, Prop_executed, Prop_failed] \<le> 5
   \<and> history isValidProposalTransition [Prop_pending, Prop_approved, Prop_reconciling, Prop_executed, Prop_failed]"
  using lifecycles_end [of "[Prop_pending, Prop_approved, Prop_reconciling, Prop_executed, Prop_failed]"] by auto

end
