(* ===== verification/Exec_Store.thy ===== *)
theory Exec_Store
  imports Lifecycle Gate
begin

text \<open>
  The store the execution service works on, and the repository functions over it:
  services/ledger/src/repository/payment_intents.ts and reservations.ts,
  services/execution/src/approvals/repository.ts and the executions part of
  services/execution/src/repository.ts. A table is a list of rows in insertion order; a
  tenant-scoped client sees and writes the rows of its tenant only (row-level security); a
  transaction that throws leaves the store as it was. Time is in milliseconds. What Postgres
  computes on \<open>NUMERIC\<close> columns is a parameter (\<open>db_env\<close>): the text a decimal string is stored
  as, the text of a \<open>SUM\<close>, and the table constraints of payment intents.
\<close>

section \<open>Rows\<close>

record intent_row =
  pi_id :: string
  pi_owner_id :: string
  pi_created_by_agent_id :: "string option"
  pi_action_type :: string
  pi_source_account_id :: string
  pi_destination_counterparty_id :: string
  pi_amount :: string
  pi_currency :: string
  pi_obligation_id :: "string option"
  pi_invoice_id :: "string option"
  pi_status :: intent_state
  pi_policy_decision_id :: "string option"
  pi_approval_ids :: "string list"
  pi_execution_receipt_ids :: "string list"
  pi_evidence_ids :: "string list"
  pi_confidence :: rat
  pi_evidence_score :: "rat option"
  pi_risk_level :: "string option"
  pi_proposal_dedup_key :: "string option"
  pi_decision :: "string option"
  pi_decision_audit_id :: "string option"
  pi_decided_at :: "int option"
  pi_settlement_pay_to :: "string option"
  pi_escrow_id :: "string option"
  pi_job_terms_hash :: "string option"
  pi_created_at :: int
  pi_updated_at :: int

datatype approval_status = Ap_valid | Ap_stale | Ap_revoked

record approval_row =
  ap_id :: string
  ap_tenant_id :: string
  ap_subject_type :: string
  ap_subject_id :: string
  ap_approver_principal_id :: string
  ap_approver_role :: "string option"
  ap_signed_at :: int
  ap_signature :: "string option"
  ap_policy_version :: "int option"
  ap_revoked_at :: "int option"
  ap_signer_tenant_id :: "string option"
  ap_status :: approval_status

datatype reservation_status = Res_active | Res_consumed | Res_released | Res_expired

record reservation_row =
  rv_id :: string
  rv_owner_id :: string
  rv_account_id :: string
  rv_amount :: string
  rv_currency :: string
  rv_payment_intent_id :: string
  rv_policy_decision_id :: string
  rv_reserving_agent_id :: string
  rv_reserved_until :: int
  rv_status :: reservation_status
  rv_created_at :: int

record account_row =
  la_id :: string
  la_owner_id :: string
  la_status :: string
  la_currency :: string
  la_available_balance :: "string option"

record balance_row =
  lb_account_id :: string
  lb_owner_id :: string
  lb_currency :: string
  lb_available_balance :: "string option"
  lb_as_of :: int

record execution_row =
  ex_id :: string
  ex_tenant_id :: string
  ex_proposal_id :: string
  ex_rail :: string
  ex_status :: execution_state
  ex_idempotency_key :: "string option"
  ex_rail_receipt :: "json option"
  ex_completed_at :: "int option"

datatype outbox_status = Ob_pending | Ob_dispatching | Ob_dispatched | Ob_settled | Ob_failed | Ob_reconciling

record outbox_row =
  ob_id :: string
  ob_tenant_id :: string
  ob_payment_intent_id :: string
  ob_execution_id :: "string option"
  ob_rail :: string
  ob_idempotency_key :: string
  ob_payload :: "(string \<times> json) list"
  ob_payload_hash :: string
  ob_status :: outbox_status
  ob_attempt_count :: nat
  ob_last_error :: "string option"
  ob_last_attempt_at :: "int option"
  ob_rail_receipt :: "json option"
  ob_audit_before_id :: string
  ob_audit_after_id :: "string option"
  ob_reservation_id :: "string option"
  ob_locked_at :: "int option"
  ob_locked_by :: "string option"
  ob_created_at :: int
  ob_dispatched_at :: "int option"
  ob_completed_at :: "int option"

section \<open>The world and the service monad\<close>

datatype effect =
    Audited audit_event
  | Rail_dispatched string string string
  | Domain_event string

record world =
  w_now :: int
  w_next :: nat
  w_intents :: "intent_row list"
  w_approvals :: "approval_row list"
  w_reservations :: "reservation_row list"
  w_accounts :: "account_row list"
  w_balances :: "balance_row list"
  w_executions :: "execution_row list"
  w_outbox :: "outbox_row list"
  w_log :: "effect list"

text \<open>A brain error with its code and the \<open>reason\<close> of its details, or another exception.\<close>

datatype svc_error = Brain_error string "string option" | Thrown string

type_synonym 'a svc = "world \<Rightarrow> (svc_error + 'a) \<times> world"

definition sret :: "'a \<Rightarrow> 'a svc" where
  "sret x w = (Inr x, w)"

definition sthrow :: "svc_error \<Rightarrow> 'a svc" where
  "sthrow e w = (Inl e, w)"

definition sbind :: "'a svc \<Rightarrow> ('a \<Rightarrow> 'b svc) \<Rightarrow> 'b svc" where
  "sbind m f w = (case m w of (Inl e, w') \<Rightarrow> (Inl e, w') | (Inr x, w') \<Rightarrow> f x w')"

definition sthen :: "'a svc \<Rightarrow> 'b svc \<Rightarrow> 'b svc" where
  "sthen m n = sbind m (\<lambda>_. n)"

definition sget :: "(world \<Rightarrow> 'a) \<Rightarrow> 'a svc" where
  "sget f w = (Inr (f w), w)"

definition smodify :: "(world \<Rightarrow> world) \<Rightarrow> unit svc" where
  "smodify f w = (Inr (), f w)"

text \<open>An awaited dependency: a rejection leaves the method.\<close>

definition slift :: "'a loaded \<Rightarrow> 'a svc" where
  "slift r = (case r of Inl e \<Rightarrow> sthrow (Thrown e) | Inr x \<Rightarrow> sret x)"

definition swhen :: "bool \<Rightarrow> unit svc \<Rightarrow> unit svc" where
  "swhen b m = (if b then m else sret ())"

text \<open>\<open>withTenantScope(pool, tenantId, fn)\<close>: one transaction, rolled back when \<open>fn\<close> throws.\<close>

definition in_tx :: "'a svc \<Rightarrow> 'a svc" where
  "in_tx m w = (case m w of (Inl e, _) \<Rightarrow> (Inl e, w) | (Inr x, w') \<Rightarrow> (Inr x, w'))"

text \<open>\<open>try { m } catch (err) { h(err) }\<close>\<close>

definition scatch :: "'a svc \<Rightarrow> (svc_error \<Rightarrow> 'a svc) \<Rightarrow> 'a svc" where
  "scatch m h w = (case m w of (Inl e, w') \<Rightarrow> h e w' | (Inr x, w') \<Rightarrow> (Inr x, w'))"

text \<open>Identifiers are minted from a counter: never reused.\<close>

definition fresh_id :: "string \<Rightarrow> string svc" where
  "fresh_id prefix w = (Inr (prefix @ show_nat (w_next w)), w\<lparr>w_next := Suc (w_next w)\<rparr>)"

text \<open>\<open>audit.emit\<close>: the emitter may reject; an accepted event is appended to the log.\<close>

type_synonym audit_emitter = "audit_event \<Rightarrow> string loaded"

definition audit_emit :: "audit_emitter \<Rightarrow> audit_event \<Rightarrow> string svc" where
  "audit_emit emit ev w =
     (case emit ev of
        Inl e \<Rightarrow> (Inl (Thrown e), w)
      | Inr i \<Rightarrow> (Inr i, w\<lparr>w_log := w_log w @ [Audited ev]\<rparr>))"

text \<open>\<open>void emitDomainEvent(...).catch(() => undefined)\<close>: advisory, never fails the caller.\<close>

definition log_event :: "string \<Rightarrow> unit svc" where
  "log_event name = smodify (\<lambda>w. w\<lparr>w_log := w_log w @ [Domain_event name]\<rparr>)"

record call_ctx =
  cx_tenantId :: string
  cx_actor :: string
  cx_principalType :: "principal_type option"

definition plain_event :: "string \<Rightarrow> string \<Rightarrow> string \<Rightarrow> string \<Rightarrow> detail \<Rightarrow> detail \<Rightarrow> audit_event" where
  "plain_event tenant layer actor act inputs outputs =
     \<lparr>au_tenantId = tenant, au_layer = layer, au_actor = actor, au_action = act,
      au_policyDecisionId = None, au_policyCheckId = None, au_outcome = None,
      au_inputs = inputs, au_outputs = outputs, au_gate_checks = []\<rparr>"

record db_env =
  db_numeric :: "string \<Rightarrow> string option"
  db_sum :: "string list \<Rightarrow> string"
  db_intent_check :: "intent_row \<Rightarrow> bool"

section \<open>Payment intents (payment_intents.ts)\<close>

definition own_intent :: "string \<Rightarrow> string \<Rightarrow> intent_row \<Rightarrow> bool" where
  "own_intent t i r \<longleftrightarrow> pi_owner_id r = t \<and> pi_id r = i"

definition findPaymentIntentById :: "string \<Rightarrow> string \<Rightarrow> intent_row option svc" where
  "findPaymentIntentById t i = sget (\<lambda>w. find (own_intent t i) (w_intents w))"

definition findPaymentIntentByDedupKey :: "string \<Rightarrow> string \<Rightarrow> intent_row option svc" where
  "findPaymentIntentByDedupKey t k =
     sget (\<lambda>w. find (\<lambda>r. pi_owner_id r = t \<and> pi_proposal_dedup_key r = Some k) (w_intents w))"

text \<open>Stable insertion by \<open>created_at DESC\<close>.\<close>

fun insert_newest :: "intent_row \<Rightarrow> intent_row list \<Rightarrow> intent_row list" where
  "insert_newest r [] = [r]"
| "insert_newest r (x # xs) = (if pi_created_at x < pi_created_at r then r # x # xs else x # insert_newest r xs)"

definition listPaymentIntents ::
  "string \<Rightarrow> intent_state option \<Rightarrow> string option \<Rightarrow> nat \<Rightarrow> intent_row list svc" where
  "listPaymentIntents t status agent limit = sget (\<lambda>w. take limit (foldl (\<lambda>acc r. insert_newest r acc) []
     (filter (\<lambda>r. pi_owner_id r = t
        \<and> (case status of None \<Rightarrow> True | Some s \<Rightarrow> pi_status r = s)
        \<and> (case agent of None \<Rightarrow> True | Some a \<Rightarrow> pi_created_by_agent_id r = Some a)) (w_intents w))))"

definition update_intents :: "(intent_row \<Rightarrow> bool) \<Rightarrow> (intent_row \<Rightarrow> intent_row) \<Rightarrow> world \<Rightarrow> world" where
  "update_intents p f w = w\<lparr>w_intents := map (\<lambda>r. if p r then f r else r) (w_intents w)\<rparr>"

definition pauseApprovedPaymentIntentsByAgent :: "string \<Rightarrow> string \<Rightarrow> string list svc" where
  "pauseApprovedPaymentIntentsByAgent t agent w =
     (let hit = (\<lambda>r. pi_owner_id r = t \<and> pi_created_by_agent_id r = Some agent \<and> pi_status r = Approved)
      in (Inr (map pi_id (filter hit (w_intents w))),
          update_intents hit (\<lambda>r. r\<lparr>pi_status := Paused, pi_updated_at := w_now w\<rparr>) w))"

text \<open>
  \<open>INSERT ... RETURNING *\<close>: the amount is stored as \<open>NUMERIC\<close>; a taken id or a taken
  (owner, dedup key) is a unique violation.
\<close>

definition unique_violation :: svc_error where
  "unique_violation = Thrown ''unique_violation''"

definition insertPaymentIntent :: "db_env \<Rightarrow> intent_row \<Rightarrow> intent_row svc" where
  "insertPaymentIntent db r w =
     (case db_numeric db (pi_amount r) of
        None \<Rightarrow> (Inl (Thrown ''check_violation''), w)
      | Some amount \<Rightarrow>
          let row = r\<lparr>pi_amount := amount, pi_approval_ids := [], pi_execution_receipt_ids := [],
                      pi_created_at := w_now w, pi_updated_at := w_now w\<rparr>
          in if \<not> db_intent_check db row then (Inl (Thrown ''check_violation''), w)
             else if list_ex (\<lambda>x. pi_id x = pi_id row \<or> (pi_proposal_dedup_key row \<noteq> None
                       \<and> pi_owner_id x = pi_owner_id row
                       \<and> pi_proposal_dedup_key x = pi_proposal_dedup_key row)) (w_intents w)
             then (Inl unique_violation, w)
             else (Inr row, w\<lparr>w_intents := w_intents w @ [row]\<rparr>))"

record decision_stamp =
  dn_value :: string
  dn_auditId :: string
  dn_decidedAt :: int

definition stamp_decision :: "decision_stamp option \<Rightarrow> intent_row \<Rightarrow> intent_row" where
  "stamp_decision d r =
     (case d of None \<Rightarrow> r
      | Some s \<Rightarrow> r\<lparr>pi_decision := Some (dn_value s), pi_decision_audit_id := Some (dn_auditId s),
                    pi_decided_at := Some (dn_decidedAt s)\<rparr>)"

definition transitionPaymentIntent ::
  "string \<Rightarrow> string \<Rightarrow> intent_state \<Rightarrow> intent_state \<Rightarrow> decision_stamp option \<Rightarrow> intent_row option svc" where
  "transitionPaymentIntent t i f to d w =
     (let hit = (\<lambda>r. own_intent t i r \<and> pi_status r = f);
          w' = update_intents hit (\<lambda>r. stamp_decision d (r\<lparr>pi_status := to, pi_updated_at := w_now w\<rparr>)) w
      in (Inr (map_option (\<lambda>r. stamp_decision d (r\<lparr>pi_status := to, pi_updated_at := w_now w\<rparr>))
                 (find hit (w_intents w))), w'))"

definition appendApprovalId :: "string \<Rightarrow> string \<Rightarrow> string \<Rightarrow> unit svc" where
  "appendApprovalId t i a w = (Inr (), update_intents
     (\<lambda>r. own_intent t i r \<and> a \<notin> set (pi_approval_ids r))
     (\<lambda>r. r\<lparr>pi_approval_ids := pi_approval_ids r @ [a], pi_updated_at := w_now w\<rparr>) w)"

definition appendExecutionReceiptId :: "string \<Rightarrow> string \<Rightarrow> string \<Rightarrow> unit svc" where
  "appendExecutionReceiptId t i e w = (Inr (), update_intents (own_intent t i)
     (\<lambda>r. r\<lparr>pi_execution_receipt_ids := pi_execution_receipt_ids r @ [e], pi_updated_at := w_now w\<rparr>) w)"

section \<open>Approvals (approvals/repository.ts)\<close>

definition on_subject :: "string \<Rightarrow> string \<Rightarrow> string \<Rightarrow> approval_row \<Rightarrow> bool" where
  "on_subject t kind i r \<longleftrightarrow> ap_tenant_id r = t \<and> ap_subject_type r = kind \<and> ap_subject_id r = i"

definition findApprovalForSigner :: "string \<Rightarrow> string \<Rightarrow> string \<Rightarrow> string \<Rightarrow> approval_row option svc" where
  "findApprovalForSigner t kind i signer =
     sget (\<lambda>w. find (\<lambda>r. on_subject t kind i r \<and> ap_approver_principal_id r = signer) (w_approvals w))"

definition insertApproval :: "approval_row \<Rightarrow> approval_row svc" where
  "insertApproval r w =
     (let row = r\<lparr>ap_signed_at := w_now w, ap_revoked_at := None, ap_status := Ap_valid\<rparr>
      in if list_ex (\<lambda>x. ap_id x = ap_id row
              \<or> on_subject (ap_tenant_id row) (ap_subject_type row) (ap_subject_id row) x
                \<and> ap_approver_principal_id x = ap_approver_principal_id row) (w_approvals w)
         then (Inl unique_violation, w)
         else (Inr row, w\<lparr>w_approvals := w_approvals w @ [row]\<rparr>))"

text \<open>\<open>ORDER BY signed_at ASC\<close>, stable.\<close>

fun insert_signed :: "approval_row \<Rightarrow> approval_row list \<Rightarrow> approval_row list" where
  "insert_signed r [] = [r]"
| "insert_signed r (x # xs) = (if ap_signed_at r < ap_signed_at x then r # x # xs else x # insert_signed r xs)"

definition by_signed_at :: "approval_row list \<Rightarrow> approval_row list" where
  "by_signed_at rs = foldl (\<lambda>acc r. insert_signed r acc) [] rs"

definition listApprovals :: "string \<Rightarrow> string \<Rightarrow> string \<Rightarrow> approval_row list svc" where
  "listApprovals t kind i = sget (\<lambda>w. by_signed_at (filter (on_subject t kind i) (w_approvals w)))"

definition superseded :: "int \<Rightarrow> approval_row \<Rightarrow> bool" where
  "superseded v r \<longleftrightarrow> ap_status r = Ap_valid \<and> ap_policy_version r \<noteq> None \<and> ap_policy_version r \<noteq> Some v"

definition markStaleForSupersededVersion :: "string \<Rightarrow> string \<Rightarrow> string \<Rightarrow> int \<Rightarrow> unit svc" where
  "markStaleForSupersededVersion t kind i v = smodify (\<lambda>w. w\<lparr>w_approvals :=
     map (\<lambda>r. if on_subject t kind i r \<and> superseded v r then r\<lparr>ap_status := Ap_stale\<rparr> else r) (w_approvals w)\<rparr>)"

definition counts_for :: "int option \<Rightarrow> approval_row \<Rightarrow> bool" where
  "counts_for v r \<longleftrightarrow> ap_status r = Ap_valid \<and> ap_revoked_at r = None
     \<and> (v = None \<or> ap_policy_version r = None \<or> ap_policy_version r = v)"

definition listValidApprovals :: "string \<Rightarrow> string \<Rightarrow> string \<Rightarrow> int option \<Rightarrow> approval_row list svc" where
  "listValidApprovals t kind i v =
     sget (\<lambda>w. by_signed_at (filter (\<lambda>r. on_subject t kind i r \<and> counts_for v r) (w_approvals w)))"

section \<open>Executions (repository.ts)\<close>

text \<open>The rails the table admits: the CHECK of migrations/0002_executions.sql.\<close>

definition EXECUTION_RAILS :: "string list" where
  "EXECUTION_RAILS = [''bank_ach'', ''erp_writeback'', ''onchain_base'', ''notification'']"

definition insertExecution :: "execution_row \<Rightarrow> unit svc" where
  "insertExecution r w =
     (if ex_rail r \<notin> set EXECUTION_RAILS then (Inl (Thrown ''check_violation''), w)
      else if list_ex (\<lambda>x. ex_id x = ex_id r \<or> (ex_idempotency_key r \<noteq> None
                \<and> ex_tenant_id x = ex_tenant_id r \<and> ex_idempotency_key x = ex_idempotency_key r)) (w_executions w)
      then (Inl unique_violation, w)
      else (Inr (), w\<lparr>w_executions := w_executions w @ [r]\<rparr>))"

definition findExecution :: "string \<Rightarrow> string \<Rightarrow> execution_row option svc" where
  "findExecution t i = sget (\<lambda>w. find (\<lambda>r. ex_tenant_id r = t \<and> ex_id r = i) (w_executions w))"

definition setExecutionReceipt :: "string \<Rightarrow> string \<Rightarrow> json \<Rightarrow> unit svc" where
  "setExecutionReceipt t i receipt = smodify (\<lambda>w. w\<lparr>w_executions := map (\<lambda>r.
     if ex_tenant_id r = t \<and> ex_id r = i then r\<lparr>ex_rail_receipt := Some receipt\<rparr> else r) (w_executions w)\<rparr>)"

definition transitionExecution :: "string \<Rightarrow> string \<Rightarrow> execution_state \<Rightarrow> execution_state \<Rightarrow> unit svc" where
  "transitionExecution t i f to w =
     (case assertExecutionTransition f to of
        Inl code \<Rightarrow> (Inl (Brain_error code None), w)
      | Inr _ \<Rightarrow>
          let hit = (\<lambda>r. ex_tenant_id r = t \<and> ex_id r = i \<and> ex_status r = f)
          in if find hit (w_executions w) = None then (Inl (Thrown ''execution not in state''), w)
             else (Inr (), w\<lparr>w_executions := map (\<lambda>r. if hit r
                     then r\<lparr>ex_status := to,
                            ex_completed_at := (if to = Exec_completed \<or> to = Exec_failed
                                                then Some (w_now w) else ex_completed_at r)\<rparr>
                     else r) (w_executions w)\<rparr>))"

section \<open>Reservations (reservations.ts)\<close>

definition toScaled8 :: "string \<Rightarrow> int option" where
  "toScaled8 s =
     (let trimmed = js_trim s in
      if starts_with trimmed ''-'' then None
      else let (intPart, fracPart) = decimal_parts trimmed;
               frac = take 8 (fracPart @ ''00000000'')
           in js_BigInt ((if intPart = [] then ''0'' else nonempty_or (strip_leading_zeros intPart) ''0'') @ frac))"

definition cmpDecimal8 :: "string \<Rightarrow> string \<Rightarrow> int option" where
  "cmpDecimal8 a b =
     (case (toScaled8 a, toScaled8 b) of
        (Some sa, Some sb) \<Rightarrow> Some (if sa < sb then -1 else if sa > sb then 1 else 0)
      | _ \<Rightarrow> None)"

definition addDecimalString8 :: "string \<Rightarrow> string \<Rightarrow> string option" where
  "addDecimalString8 a b =
     (case (toScaled8 a, toScaled8 b) of
        (Some sa, Some sb) \<Rightarrow>
          let raw = pad_start 9 CHR ''0'' (show_int (sa + sb));
              intPart = nonempty_or (strip_leading_zeros (take (length raw - 8) raw)) ''0'';
              fracPart = strip_trailing_zeros (drop (length raw - 8) raw)
          in Some (if length fracPart > 0 then intPart @ ''.'' @ fracPart else intPart)
      | _ \<Rightarrow> None)"

definition active_on :: "string \<Rightarrow> string \<Rightarrow> reservation_row \<Rightarrow> bool" where
  "active_on t account r \<longleftrightarrow> rv_owner_id r = t \<and> rv_account_id r = account \<and> rv_status r = Res_active"

definition sumActiveReservations :: "db_env \<Rightarrow> string \<Rightarrow> string \<Rightarrow> string svc" where
  "sumActiveReservations db t account =
     sget (\<lambda>w. db_sum db (map rv_amount (filter (active_on t account) (w_reservations w))))"

definition insertReservation :: "db_env \<Rightarrow> reservation_row \<Rightarrow> reservation_row svc" where
  "insertReservation db r w =
     (case db_numeric db (rv_amount r) of
        None \<Rightarrow> (Inl (Thrown ''check_violation''), w)
      | Some amount \<Rightarrow>
          let row = r\<lparr>rv_amount := amount, rv_status := Res_active, rv_created_at := w_now w\<rparr>
          in if list_ex (\<lambda>x. rv_id x = rv_id row) (w_reservations w) then (Inl unique_violation, w)
             else (Inr row, w\<lparr>w_reservations := w_reservations w @ [row]\<rparr>))"

datatype reserve_failure =
    Account_not_found | Account_inactive | Currency_mismatch | Available_balance_missing | Insufficient_balance

definition latest_balance :: "string \<Rightarrow> string \<Rightarrow> world \<Rightarrow> balance_row option" where
  "latest_balance t account w =
     foldl (\<lambda>best r. case best of None \<Rightarrow> Some r
              | Some b \<Rightarrow> if lb_as_of r > lb_as_of b then Some r else Some b) None
       (filter (\<lambda>r. lb_owner_id r = t \<and> lb_account_id r = account) (w_balances w))"

definition reserveIfAvailable ::
  "db_env \<Rightarrow> string \<Rightarrow> reservation_row \<Rightarrow> (reserve_failure + reservation_row) svc" where
  "reserveIfAvailable db t r =
     sbind (sget (\<lambda>w. find (\<lambda>a. la_owner_id a = t \<and> la_id a = rv_account_id r) (w_accounts w))) (\<lambda>account.
     case account of
       None \<Rightarrow> sret (Inl Account_not_found)
     | Some a \<Rightarrow>
         if la_status a \<noteq> ''active'' then sret (Inl Account_inactive)
         else sbind (sget (latest_balance t (rv_account_id r))) (\<lambda>latestBalance.
           let accountCurrency = (case latestBalance of None \<Rightarrow> la_currency a | Some b \<Rightarrow> lb_currency b);
               availableBalance =
                 (case latestBalance of None \<Rightarrow> la_available_balance a
                  | Some b \<Rightarrow> (case lb_available_balance b of None \<Rightarrow> la_available_balance a | Some x \<Rightarrow> Some x))
           in if accountCurrency \<noteq> rv_currency r then sret (Inl Currency_mismatch)
              else case availableBalance of
                None \<Rightarrow> sret (Inl Available_balance_missing)
              | Some available \<Rightarrow>
                  sbind (sumActiveReservations db t (rv_account_id r)) (\<lambda>reserved.
                  case addDecimalString8 (rv_amount r) reserved of
                    None \<Rightarrow> sthrow (Thrown ''reservation decimal'')
                  | Some required \<Rightarrow>
                      (case cmpDecimal8 available required of
                         None \<Rightarrow> sthrow (Thrown ''reservation decimal'')
                       | Some c \<Rightarrow> if c < 0 then sret (Inl Insufficient_balance)
                                   else sbind (insertReservation db r) (\<lambda>row. sret (Inr row))))))"

definition reservation_transition :: "string \<Rightarrow> string \<Rightarrow> reservation_status \<Rightarrow> unit svc" where
  "reservation_transition t i to = smodify (\<lambda>w. w\<lparr>w_reservations := map (\<lambda>r.
     if rv_owner_id r = t \<and> rv_id r = i \<and> rv_status r = Res_active then r\<lparr>rv_status := to\<rparr> else r)
     (w_reservations w)\<rparr>)"

definition consumeReservation :: "string \<Rightarrow> string \<Rightarrow> unit svc" where
  "consumeReservation t i = reservation_transition t i Res_consumed"

definition releaseReservation :: "string \<Rightarrow> string \<Rightarrow> unit svc" where
  "releaseReservation t i = reservation_transition t i Res_released"

definition expireDueReservations :: "string \<Rightarrow> nat svc" where
  "expireDueReservations t w =
     (let due = (\<lambda>r. rv_owner_id r = t \<and> rv_status r = Res_active \<and> rv_reserved_until r \<le> w_now w)
      in (Inr (length (filter due (w_reservations w))),
          w\<lparr>w_reservations := map (\<lambda>r. if due r then r\<lparr>rv_status := Res_expired\<rparr> else r) (w_reservations w)\<rparr>))"

section \<open>What an operation leaves related\<close>

text \<open>
  \<open>evolves R m\<close>: the world after \<open>m\<close> is related to the world before, whether \<open>m\<close> returns or
  throws. For a preorder that audit and domain events and the id counter respect it composes along
  the monad.
\<close>

fun is_dispatch :: "effect \<Rightarrow> bool" where
  "is_dispatch (Rail_dispatched t k x) = True"
| "is_dispatch (Audited ev) = False"
| "is_dispatch (Domain_event s) = False"

definition evolves :: "(world \<Rightarrow> world \<Rightarrow> bool) \<Rightarrow> 'a svc \<Rightarrow> bool" where
  "evolves R m \<longleftrightarrow> (\<forall>w. R w (snd (m w)))"

lemma evolvesI: "(\<And>w. R w (snd (m w))) \<Longrightarrow> evolves R m"
  by (simp add: evolves_def)

lemma evolvesD: "evolves R m \<Longrightarrow> m w = (r, w') \<Longrightarrow> R w w'"
  unfolding evolves_def by (metis snd_conv)

lemma evolves_world: "evolves R m \<Longrightarrow> R w (snd (m w))"
  by (simp add: evolves_def)

locale store_relation =
  fixes R :: "world \<Rightarrow> world \<Rightarrow> bool"
  assumes R_refl: "R w w"
    and R_trans: "R w v \<Longrightarrow> R v u \<Longrightarrow> R w u"
    and R_log: "\<not> is_dispatch e \<Longrightarrow> R w (w\<lparr>w_log := w_log w @ [e]\<rparr>)"
    and R_next: "R w (w\<lparr>w_next := n\<rparr>)"
begin

lemma evolves_sret: "evolves R (sret x)"
  by (simp add: evolves_def sret_def R_refl)

lemma evolves_sthrow: "evolves R (sthrow e)"
  by (simp add: evolves_def sthrow_def R_refl)

lemma evolves_sget: "evolves R (sget f)"
  by (simp add: evolves_def sget_def R_refl)

lemma evolves_slift: "evolves R (slift r)"
  by (simp add: slift_def evolves_sret evolves_sthrow split: sum.split)

lemma evolves_sbind: "evolves R m \<Longrightarrow> (\<And>x. evolves R (f x)) \<Longrightarrow> evolves R (sbind m f)"
  by (rule evolvesI) (auto simp: sbind_def split: prod.split sum.split dest: evolvesD
      intro: R_trans [OF evolvesD evolves_world])

lemma evolves_sthen: "evolves R m \<Longrightarrow> evolves R n \<Longrightarrow> evolves R (sthen m n)"
  unfolding sthen_def by (rule evolves_sbind)

lemma evolves_swhen: "evolves R m \<Longrightarrow> evolves R (swhen b m)"
  by (simp add: swhen_def evolves_sret)

lemma evolves_in_tx: "evolves R m \<Longrightarrow> evolves R (in_tx m)"
  by (rule evolvesI) (auto simp: in_tx_def R_refl split: prod.split sum.split dest: evolvesD)

lemma evolves_scatch: "evolves R m \<Longrightarrow> (\<And>e. evolves R (h e)) \<Longrightarrow> evolves R (scatch m h)"
  by (rule evolvesI) (auto simp: scatch_def split: prod.split sum.split dest: evolvesD
      intro: R_trans [OF evolvesD evolves_world])

lemma evolves_fresh: "evolves R (fresh_id p)"
  by (simp add: evolves_def fresh_id_def R_next)

lemma evolves_emit: "evolves R (audit_emit emit ev)"
  by (rule evolvesI) (auto simp: audit_emit_def R_refl R_log split: sum.split)

lemma evolves_log_event: "evolves R (log_event name)"
  by (simp add: evolves_def log_event_def smodify_def R_log)

lemmas evolves_intros = evolves_log_event evolves_sret evolves_sthrow evolves_sget evolves_slift evolves_sbind
  evolves_sthen evolves_swhen evolves_in_tx evolves_scatch evolves_fresh evolves_emit

end

text \<open>An invariant is the relation of being preserved.\<close>

definition preserved :: "(world \<Rightarrow> bool) \<Rightarrow> world \<Rightarrow> world \<Rightarrow> bool" where
  "preserved I w w' \<longleftrightarrow> (I w \<longrightarrow> I w')"

locale store_invariant =
  fixes I :: "world \<Rightarrow> bool"
  assumes I_log: "I (w\<lparr>w_log := l\<rparr>) = I w" and I_next: "I (w\<lparr>w_next := n\<rparr>) = I w"

sublocale store_invariant \<subseteq> store_relation "preserved I"
  by unfold_locales (auto simp: preserved_def I_log I_next)

end
