(* ===== verification/Approvals.thy ===== *)
theory Approvals
  imports Exec_Store
begin

text \<open>
  The approval service (services/execution/src/approvals/ApprovalService.ts): signing with its
  guards, the quorum check under the subject's lock, and the roles that currently count for
  gate check 11. The dependencies are functions of the call context; an unwired one is \<open>None\<close>.
\<close>

record approval_deps =
  ad_audit :: audit_emitter
  ad_resolveRole :: "call_ctx \<Rightarrow> string \<Rightarrow> string option loaded"
  ad_isApproverActive :: "(call_ctx \<Rightarrow> string \<Rightarrow> bool loaded) option"
  ad_resolveSubjectOwnerTenant :: "(call_ctx \<Rightarrow> string \<Rightarrow> string \<Rightarrow> string option loaded) option"
  ad_resolveActivePolicyVersion :: "(call_ctx \<Rightarrow> int option loaded) option"

text \<open>The guards both signing methods start with: an active signer of the owning tenant.\<close>

definition signer_guards :: "approval_deps \<Rightarrow> call_ctx \<Rightarrow> string \<Rightarrow> string \<Rightarrow> unit svc" where
  "signer_guards deps ctx kind i =
     sthen (case ad_isApproverActive deps of
              None \<Rightarrow> sret ()
            | Some is_active \<Rightarrow> sbind (slift (is_active ctx (cx_actor ctx))) (\<lambda>active.
                if \<not> active then sthrow (Brain_error ''approval_signer_revoked'' None) else sret ()))
    (case ad_resolveSubjectOwnerTenant deps of
       None \<Rightarrow> sret ()
     | Some owner_of \<Rightarrow> sbind (slift (owner_of ctx kind i)) (\<lambda>ownerTenant.
         if ownerTenant \<noteq> None \<and> ownerTenant \<noteq> Some (cx_tenantId ctx)
         then sthrow (Brain_error ''approval_cross_tenant'' None) else sret ()))"

definition active_policy_version :: "approval_deps \<Rightarrow> call_ctx \<Rightarrow> int option svc" where
  "active_policy_version deps ctx =
     (case ad_resolveActivePolicyVersion deps of None \<Rightarrow> sret None | Some r \<Rightarrow> slift (r ctx))"

definition resolved_role :: "approval_deps \<Rightarrow> call_ctx \<Rightarrow> string option \<Rightarrow> string option svc" where
  "resolved_role deps ctx role =
     (case role of Some r \<Rightarrow> sret (Some r) | None \<Rightarrow> slift (ad_resolveRole deps ctx (cx_actor ctx)))"

definition new_approval ::
  "call_ctx \<Rightarrow> string \<Rightarrow> string \<Rightarrow> string option \<Rightarrow> string option \<Rightarrow> int option \<Rightarrow> string \<Rightarrow> approval_row" where
  "new_approval ctx kind i role signature version approval_id =
     \<lparr>ap_id = approval_id, ap_tenant_id = cx_tenantId ctx, ap_subject_type = kind, ap_subject_id = i,
      ap_approver_principal_id = cx_actor ctx, ap_approver_role = role, ap_signed_at = 0,
      ap_signature = signature, ap_policy_version = version, ap_revoked_at = None,
      ap_signer_tenant_id = Some (cx_tenantId ctx), ap_status = Ap_valid\<rparr>"

definition json_version :: "int option \<Rightarrow> json" where
  "json_version v = (case v of None \<Rightarrow> JNull | Some n \<Rightarrow> JNum (of_int n))"

definition signed_event ::
  "call_ctx \<Rightarrow> string \<Rightarrow> string \<Rightarrow> string option \<Rightarrow> int option \<Rightarrow> approval_row \<Rightarrow> audit_event" where
  "signed_event ctx kind i role version row =
     plain_event (cx_tenantId ctx) ''agent'' (cx_actor ctx) (''approval.'' @ kind @ ''.signed'')
       [(''subject_type'', JStr kind), (''subject_id'', JStr i), (''approver_role'', json_opt role),
        (''policy_version'', json_version version)]
       [(''approval_id'', JStr (ap_id row))]"

definition sign ::
  "approval_deps \<Rightarrow> call_ctx \<Rightarrow> string \<Rightarrow> string \<Rightarrow> string option \<Rightarrow> string option \<Rightarrow> approval_row svc" where
  "sign deps ctx kind i role signature =
     sthen (signer_guards deps ctx kind i)
    (sbind (active_policy_version deps ctx) (\<lambda>policyVersion.
     sbind (resolved_role deps ctx role) (\<lambda>resolvedRole.
     sbind (in_tx (sbind (findApprovalForSigner (cx_tenantId ctx) kind i (cx_actor ctx)) (\<lambda>existing.
              if existing \<noteq> None then sthrow (Brain_error ''approval_duplicate_signer'' None)
              else sbind (fresh_id ''appr_'') (\<lambda>new_id.
                insertApproval (new_approval ctx kind i resolvedRole signature policyVersion new_id)))))
       (\<lambda>row.
     sthen (sbind (audit_emit (ad_audit deps) (signed_event ctx kind i resolvedRole policyVersion row))
              (\<lambda>_. sret ()))
       (sret row)))))"

definition signed_roles_of :: "approval_row list \<Rightarrow> string list" where
  "signed_roles_of rows = List.map_filter ap_approver_role rows"

text \<open>Find or insert under the advisory lock, stale superseded signatures, count the rest.\<close>

definition sign_in_lock ::
  "call_ctx \<Rightarrow> string \<Rightarrow> string \<Rightarrow> string list \<Rightarrow> string option \<Rightarrow> string option \<Rightarrow> int option
     \<Rightarrow> (approval_row \<times> bool \<times> bool) svc" where
  "sign_in_lock ctx kind i requiredRoles role signature version =
     (let t = cx_tenantId ctx in
      in_tx (sbind (findApprovalForSigner t kind i (cx_actor ctx)) (\<lambda>existing.
      sbind (case existing of
               Some r \<Rightarrow> sret r
             | None \<Rightarrow> sbind (fresh_id ''appr_'') (\<lambda>new_id.
                 insertApproval (new_approval ctx kind i role signature version new_id))) (\<lambda>row.
      sthen (case version of None \<Rightarrow> sret () | Some v \<Rightarrow> markStaleForSupersededVersion t kind i v)
     (sbind (listValidApprovals t kind i version) (\<lambda>rows.
      sret (row, existing = None, hasRequiredRoleQuorum requiredRoles (signed_roles_of rows))))))))"

definition signAndCheckRequiredApprovals ::
  "approval_deps \<Rightarrow> call_ctx \<Rightarrow> string \<Rightarrow> string \<Rightarrow> string list \<Rightarrow> string option \<Rightarrow> string option
     \<Rightarrow> (approval_row \<times> bool) svc" where
  "signAndCheckRequiredApprovals deps ctx kind i requiredRoles role signature =
     sthen (signer_guards deps ctx kind i)
    (sbind (active_policy_version deps ctx) (\<lambda>policyVersion.
     sbind (resolved_role deps ctx role) (\<lambda>resolvedRole.
     sbind (sign_in_lock ctx kind i requiredRoles resolvedRole signature policyVersion)
       (\<lambda>(row, inserted, quorumMet).
     sthen (swhen inserted
              (sbind (audit_emit (ad_audit deps) (signed_event ctx kind i resolvedRole policyVersion row))
                (\<lambda>_. sret ())))
       (sret (row, quorumMet))))))"

definition list_approvals :: "call_ctx \<Rightarrow> string \<Rightarrow> string \<Rightarrow> approval_row list svc" where
  "list_approvals ctx kind i = in_tx (listApprovals (cx_tenantId ctx) kind i)"

definition signedValidRoles :: "call_ctx \<Rightarrow> string \<Rightarrow> string \<Rightarrow> int option \<Rightarrow> string list svc" where
  "signedValidRoles ctx kind i version =
     (let t = cx_tenantId ctx in
      in_tx (sthen (case version of None \<Rightarrow> sret () | Some v \<Rightarrow> markStaleForSupersededVersion t kind i v)
        (sbind (listValidApprovals t kind i version) (\<lambda>rows. sret (signed_roles_of rows)))))"

definition hasRequiredApprovals :: "call_ctx \<Rightarrow> string \<Rightarrow> string \<Rightarrow> string list \<Rightarrow> bool svc" where
  "hasRequiredApprovals ctx kind i requiredRoles =
     (if length requiredRoles = 0 then sret True
      else sbind (signedValidRoles ctx kind i None) (\<lambda>roles. sret (hasRequiredRoleQuorum requiredRoles roles)))"

definition signedRoles :: "call_ctx \<Rightarrow> string \<Rightarrow> string \<Rightarrow> string list svc" where
  "signedRoles ctx kind i = signedValidRoles ctx kind i None"

section \<open>One signature per signer\<close>

text \<open>The invariant of the table: no two rows share an id, or a tenant, subject and signer.\<close>

definition signer_key :: "approval_row \<Rightarrow> string \<times> string \<times> string \<times> string" where
  "signer_key r = (ap_tenant_id r, ap_subject_type r, ap_subject_id r, ap_approver_principal_id r)"

definition approvals_ok :: "approval_row list \<Rightarrow> bool" where
  "approvals_ok rs \<longleftrightarrow> distinct (map ap_id rs) \<and> distinct (map signer_key rs)"

lemma on_subject_key: "on_subject (ap_tenant_id r) (ap_subject_type r) (ap_subject_id r) x
    \<and> ap_approver_principal_id x = ap_approver_principal_id r \<longleftrightarrow> signer_key x = signer_key r"
  by (auto simp: on_subject_def signer_key_def)

lemma approvals_ok_map:
  assumes "\<And>r. ap_id (f r) = ap_id r" "\<And>r. signer_key (f r) = signer_key r"
  shows "approvals_ok (map f rs) = approvals_ok rs"
  using assms by (simp add: approvals_ok_def comp_def)

lemma insertApproval_ok:
  "approvals_ok (w_approvals w) \<Longrightarrow> approvals_ok (w_approvals (snd (insertApproval r w)))"
proof -
  assume ok: "approvals_ok (w_approvals w)"
  define row where "row = r\<lparr>ap_signed_at := w_now w, ap_revoked_at := None, ap_status := Ap_valid\<rparr>"
  show ?thesis
    using ok unfolding insertApproval_def Let_def row_def [symmetric] on_subject_key
    by (auto simp: approvals_ok_def list_ex_iff)
qed

definition approvals_inv :: "world \<Rightarrow> bool" where
  "approvals_inv w \<longleftrightarrow> approvals_ok (w_approvals w)"

interpretation approvals_table: store_invariant approvals_inv
  by unfold_locales (simp_all add: approvals_inv_def)

lemma keeps_insertApproval: "evolves (preserved approvals_inv) (insertApproval r)"
  using insertApproval_ok by (auto simp: evolves_def preserved_def approvals_inv_def)

lemma keeps_markStale: "evolves (preserved approvals_inv) (markStaleForSupersededVersion t kind i v)"
proof -
  have "approvals_ok (map (\<lambda>r. if on_subject t kind i r \<and> superseded v r then r\<lparr>ap_status := Ap_stale\<rparr> else r) rs)
      = approvals_ok rs" for rs
    by (rule approvals_ok_map) (simp_all add: signer_key_def)
  then show ?thesis
    by (simp add: evolves_def preserved_def approvals_inv_def markStaleForSupersededVersion_def smodify_def)
qed

lemmas approvals_intros = approvals_table.evolves_intros keeps_insertApproval keeps_markStale

lemma keeps_guards: "evolves (preserved approvals_inv) (signer_guards deps ctx kind i)"
  unfolding signer_guards_def by (auto intro!: approvals_intros split: option.split)

lemma keeps_version: "evolves (preserved approvals_inv) (active_policy_version deps ctx)"
  unfolding active_policy_version_def by (auto intro!: approvals_intros split: option.split)

lemma keeps_role: "evolves (preserved approvals_inv) (resolved_role deps ctx role)"
  unfolding resolved_role_def by (auto intro!: approvals_intros split: option.split)

lemma keeps_sign_in_lock:
  "evolves (preserved approvals_inv) (sign_in_lock ctx kind i req role signature version)"
  unfolding sign_in_lock_def Let_def findApprovalForSigner_def listValidApprovals_def
  by (auto intro!: approvals_intros split: option.split)

lemma keeps_sign: "evolves (preserved approvals_inv) (sign deps ctx kind i role signature)"
  unfolding sign_def findApprovalForSigner_def
  by (auto intro!: approvals_intros keeps_guards keeps_version keeps_role)

lemma keeps_signAndCheck:
  "evolves (preserved approvals_inv) (signAndCheckRequiredApprovals deps ctx kind i req role signature)"
  unfolding signAndCheckRequiredApprovals_def
  by (auto intro!: approvals_intros keeps_guards keeps_version keeps_role keeps_sign_in_lock split: prod.split)

lemma keeps_signedValidRoles: "evolves (preserved approvals_inv) (signedValidRoles ctx kind i version)"
  unfolding signedValidRoles_def Let_def listValidApprovals_def
  by (auto intro!: approvals_intros split: option.split)

lemma one_signature_per_signer_lemma:
  "approvals_ok (w_approvals w) \<Longrightarrow>
   approvals_ok (w_approvals (snd (signAndCheckRequiredApprovals deps ctx kind i req role signature w)))"
  using evolves_world [OF keeps_signAndCheck [of deps ctx kind i req role signature], of w]
  by (simp add: preserved_def approvals_inv_def)

text \<open>The unique keys of the table, over the service operations: none leaves two approvals of the same tenant,
  subject and signer, or two with the same id. This is the table constraint, which \<open>insertApproval\<close>
  models; the quorum below rests on it.\<close>

theorem one_signature_per_signer:
  assumes "approvals_ok (w_approvals w)"
  shows "approvals_ok (w_approvals (snd (sign deps ctx kind i role signature w)))
    \<and> approvals_ok (w_approvals (snd (signAndCheckRequiredApprovals deps ctx kind i req role signature w)))
    \<and> approvals_ok (w_approvals (snd (signedValidRoles ctx kind i version w)))"
  using assms evolves_world [OF keeps_sign [of deps ctx kind i role signature], of w]
    evolves_world [OF keeps_signAndCheck [of deps ctx kind i req role signature], of w]
    evolves_world [OF keeps_signedValidRoles [of ctx kind i version], of w]
  by (simp add: preserved_def approvals_inv_def)

definition sample_approval_deps :: approval_deps where
  "sample_approval_deps =
     \<lparr>ad_audit = (\<lambda>_. Inr ''evt''), ad_resolveRole = (\<lambda>_ _. Inr (Some ''approver'')),
      ad_isApproverActive = Some (\<lambda>_ _. Inr True),
      ad_resolveSubjectOwnerTenant = Some (\<lambda>_ _ _. Inr (Some ''t_1'')),
      ad_resolveActivePolicyVersion = Some (\<lambda>_. Inr (Some 2))\<rparr>"

definition sample_ctx :: call_ctx where
  "sample_ctx = \<lparr>cx_tenantId = ''t_1'', cx_actor = ''m_1'', cx_principalType = Some User\<rparr>"

text \<open>Another member signed under version 1, superseded by now, and a third one under version 2.\<close>

definition sample_signed :: "string \<Rightarrow> string \<Rightarrow> string \<Rightarrow> int \<Rightarrow> approval_row" where
  "sample_signed a who role v =
     \<lparr>ap_id = a, ap_tenant_id = ''t_1'', ap_subject_type = ''payment_intent'', ap_subject_id = ''pi_1'',
      ap_approver_principal_id = who, ap_approver_role = Some role, ap_signed_at = 1, ap_signature = None,
      ap_policy_version = Some v, ap_revoked_at = None, ap_signer_tenant_id = Some ''t_1'', ap_status = Ap_valid\<rparr>"

definition sample_world :: world where
  "sample_world =
     \<lparr>w_now = 5, w_next = 7, w_intents = [],
      w_approvals = [sample_signed ''appr_1'' ''m_2'' ''admin'' 1, sample_signed ''appr_2'' ''m_3'' ''admin'' 2],
      w_reservations = [], w_accounts = [], w_balances = [], w_executions = [], w_outbox = [], w_log = []\<rparr>"

lemma sample_world_ok: "approvals_ok (w_approvals sample_world)"
  by code_simp

theorem one_signature_per_signer_witness:
  "approvals_ok (w_approvals (snd (sign sample_approval_deps sample_ctx ''payment_intent'' ''pi_1'' None None sample_world)))
   \<and> length (w_approvals (snd (sign sample_approval_deps sample_ctx ''payment_intent'' ''pi_1'' None None sample_world))) = 3"
proof -
  have "length (w_approvals (snd (sign sample_approval_deps sample_ctx ''payment_intent'' ''pi_1'' None None sample_world))) = 3"
    by code_simp
  with one_signature_per_signer [OF sample_world_ok] show ?thesis by blast
qed

section \<open>A quorum is as many people\<close>

lemma set_by_signed_at: "set (by_signed_at rs) = set rs"
proof -
  have ins: "set (insert_signed r xs) = insert r (set xs)" for r xs
    by (induction r xs rule: insert_signed.induct) auto
  have "set (foldl (\<lambda>acc r. insert_signed r acc) acc rs) = set acc \<union> set rs" for acc
    by (induction rs arbitrary: acc) (auto simp: ins)
  then show ?thesis by (simp add: by_signed_at_def)
qed

lemma set_signed_roles: "set (signed_roles_of rows) = {s. \<exists>r \<in> set rows. ap_approver_role r = Some s}"
  unfolding signed_roles_of_def by (induction rows) (auto simp: List.map_filter_simps split: option.splits)

text \<open>The approval \<open>r\<close> fills the required entry \<open>role\<close>: a named role by its name, a signer slot by any role.\<close>

definition fills :: "string \<Rightarrow> approval_row \<Rightarrow> bool" where
  "fills role r \<longleftrightarrow> ap_approver_role r \<noteq> None \<and> (role = ''signer'' \<or> ap_approver_role r = Some role)"

lemma quorum_signers:
  assumes ok: "approvals_ok rs" and q: "hasRequiredRoleQuorum req (signed_roles_of rows)"
    and rows: "set rows = {r \<in> set rs. on_subject t kind i r \<and> P r}"
  shows "\<exists>ps. length ps = length req \<and> distinct ps \<and>
    list_all2 (\<lambda>role p. \<exists>r \<in> set rs. on_subject t kind i r \<and> P r \<and> ap_approver_principal_id r = p \<and> fills role r) req ps"
proof -
  from q obtain asg where asg: "is_matching req (signed_roles_of rows) asg"
    using quorum_matching_iff by blast
  define pick where "pick s = (SOME r. r \<in> set rows \<and> ap_approver_role r = Some s)" for s
  have pick: "pick s \<in> set rows" "ap_approver_role (pick s) = Some s" if "s \<in> set asg" for s
  proof -
    from asg that have "s \<in> set (signed_roles_of rows)" by (auto simp: is_matching_def)
    then have "\<exists>r. r \<in> set rows \<and> ap_approver_role r = Some s" by (auto simp: set_signed_roles)
    then show "pick s \<in> set rows" "ap_approver_role (pick s) = Some s"
      unfolding pick_def by (metis (mono_tags, lifting) someI_ex)+
  qed
  define ps where "ps = map (\<lambda>s. ap_approver_principal_id (pick s)) asg"
  have "inj_on (\<lambda>s. ap_approver_principal_id (pick s)) (set asg)"
  proof (rule inj_onI)
    fix s s' assume s: "s \<in> set asg" "s' \<in> set asg"
      and eq: "ap_approver_principal_id (pick s) = ap_approver_principal_id (pick s')"
    have in_rs: "pick s \<in> set rs" "pick s' \<in> set rs" "on_subject t kind i (pick s)" "on_subject t kind i (pick s')"
      using pick(1) [OF s(1)] pick(1) [OF s(2)] rows by auto
    with eq have "signer_key (pick s) = signer_key (pick s')" by (simp add: signer_key_def on_subject_def)
    with in_rs ok have "pick s = pick s'" by (auto simp: approvals_ok_def distinct_map dest: inj_onD)
    with pick(2) s show "s = s'" by (metis option.inject)
  qed
  with asg have "distinct ps" by (simp add: ps_def distinct_map is_matching_def)
  moreover have "length ps = length req" using asg by (simp add: ps_def is_matching_def)
  moreover have "list_all2 (\<lambda>role p. \<exists>r \<in> set rs. on_subject t kind i r \<and> P r
      \<and> ap_approver_principal_id r = p \<and> fills role r) req ps"
    unfolding list_all2_conv_all_nth
  proof (intro conjI allI impI)
    show "length req = length ps" using \<open>length ps = length req\<close> ..
    fix n assume n: "n < length req"
    then have s: "asg ! n \<in> set asg" using asg by (simp add: is_matching_def)
    have "req ! n = ''signer'' \<or> asg ! n = req ! n"
      using list_all2_nthD [OF conjunct2 [OF conjunct2 [OF conjunct2 [OF asg [unfolded is_matching_def]]]] n] .
    then have "fills (req ! n) (pick (asg ! n))" using pick(2) [OF s] by (auto simp: fills_def)
    moreover have "ps ! n = ap_approver_principal_id (pick (asg ! n))"
      using n asg by (simp add: ps_def is_matching_def)
    moreover have "pick (asg ! n) \<in> set rs" "on_subject t kind i (pick (asg ! n))" "P (pick (asg ! n))"
      using pick(1) [OF s] rows by auto
    ultimately show "\<exists>r \<in> set rs. on_subject t kind i r \<and> P r
        \<and> ap_approver_principal_id r = ps ! n \<and> fills (req ! n) r" by metis
  qed
  ultimately show ?thesis by blast
qed

section \<open>Quorum properties\<close>

text \<open>The version a signature is made against and judged by.\<close>

definition current_version :: "approval_deps \<Rightarrow> call_ctx \<Rightarrow> int option loaded" where
  "current_version deps ctx =
     (case ad_resolveActivePolicyVersion deps of None \<Rightarrow> Inr None | Some r \<Rightarrow> r ctx)"

lemma active_policy_version_run: "active_policy_version deps ctx w =
  (case current_version deps ctx of Inl e \<Rightarrow> (Inl (Thrown e), w) | Inr v \<Rightarrow> (Inr v, w))"
  by (auto simp: active_policy_version_def current_version_def slift_def sret_def sthrow_def
      split: option.split sum.split)

lemma sbind_InrD: "sbind m f w = (Inr y, w') \<Longrightarrow> \<exists>x v. m w = (Inr x, v) \<and> f x v = (Inr y, w')"
  by (auto simp: sbind_def split: prod.splits sum.splits)

lemma sthen_InrD: "sthen m n w = (Inr y, w') \<Longrightarrow> \<exists>x v. m w = (Inr x, v) \<and> n v = (Inr y, w')"
  unfolding sthen_def by (rule sbind_InrD)

lemma in_tx_InrD: "in_tx m w = (Inr x, w') \<Longrightarrow> m w = (Inr x, w')"
  by (auto simp: in_tx_def split: prod.splits sum.splits)

lemma listValid_rows: "listValidApprovals t kind i v w = (Inr rows, w') \<Longrightarrow>
  w' = w \<and> set rows = {r \<in> set (w_approvals w). on_subject t kind i r \<and> counts_for v r}"
  by (auto simp: listValidApprovals_def sget_def set_by_signed_at)

lemma audit_emit_approvals: "w_approvals (snd (audit_emit emit ev w)) = w_approvals w"
  by (simp add: audit_emit_def split: sum.split)

lemma sign_in_lock_quorum:
  assumes "sign_in_lock ctx kind i req role signature v w = (Inr (row, ins, q), w')"
  shows "\<exists>rows. q = hasRequiredRoleQuorum req (signed_roles_of rows)
    \<and> set rows = {r \<in> set (w_approvals w'). on_subject (cx_tenantId ctx) kind i r \<and> counts_for v r}"
  using assms unfolding sign_in_lock_def Let_def
  by (auto simp: sret_def dest!: in_tx_InrD sbind_InrD sthen_InrD listValid_rows split: option.splits)

text \<open>C33 (safety). The approval quorum is as many people: when signing, on a table that keeps its unique keys, reports the quorum met, there is a list of
  distinct principals, one for each required entry, each of whom has a valid, unrevoked
  signature on this subject in this tenant, made under the policy version now active (or with
  none recorded), whose role fills the entry.\<close>

theorem quorum_met_means_distinct_signers:
  assumes "approvals_ok (w_approvals w)"
    and "signAndCheckRequiredApprovals deps ctx kind i req role signature w = (Inr (row, True), w')"
  shows "\<exists>v ps. current_version deps ctx = Inr v \<and> length ps = length req \<and> distinct ps \<and>
    list_all2 (\<lambda>entry p. \<exists>r \<in> set (w_approvals w'). on_subject (cx_tenantId ctx) kind i r \<and> counts_for v r
        \<and> ap_approver_principal_id r = p \<and> fills entry r) req ps"
proof -
  from assms(2) obtain v w1 rl w2 ins w3 w4 u where
    v: "active_policy_version deps ctx w1 = (Inr v, w2)" and
    lock: "sign_in_lock ctx kind i req rl signature v w3 = (Inr (row, ins, True), w4)" and
    emit: "swhen ins (sbind (audit_emit (ad_audit deps) (signed_event ctx kind i rl v row)) (\<lambda>_. sret ())) w4 = (Inr u, w')"
    unfolding signAndCheckRequiredApprovals_def
    by (auto simp: sret_def dest!: sbind_InrD sthen_InrD)
  have same: "w_approvals w' = w_approvals w4"
    using emit audit_emit_approvals [of "ad_audit deps" "signed_event ctx kind i rl v row" w4]
    by (auto simp: swhen_def sret_def split: if_splits dest!: sbind_InrD)
  have ok: "approvals_ok (w_approvals w')"
    using one_signature_per_signer_lemma [OF assms(1)] assms(2) by (metis snd_conv)
  have version: "current_version deps ctx = Inr v"
    using v by (auto simp: active_policy_version_run split: sum.splits)
  from sign_in_lock_quorum [OF lock] obtain rows where
    "hasRequiredRoleQuorum req (signed_roles_of rows)"
    "set rows = {r \<in> set (w_approvals w'). on_subject (cx_tenantId ctx) kind i r \<and> counts_for v r}"
    unfolding same by blast
  from quorum_signers [OF ok this] version show ?thesis by blast
qed

theorem quorum_met_means_distinct_signers_witness:
  "\<exists>row w'. signAndCheckRequiredApprovals sample_approval_deps sample_ctx ''payment_intent'' ''pi_1''
      [''admin'', ''signer''] None None sample_world = (Inr (row, True), w')
    \<and> (\<exists>v ps. current_version sample_approval_deps sample_ctx = Inr v \<and> distinct ps \<and>
      list_all2 (\<lambda>entry p. \<exists>r \<in> set (w_approvals w'). on_subject ''t_1'' ''payment_intent'' ''pi_1'' r
        \<and> counts_for v r \<and> ap_approver_principal_id r = p \<and> fills entry r) [''admin'', ''signer''] ps)"
proof -
  let ?run = "signAndCheckRequiredApprovals sample_approval_deps sample_ctx ''payment_intent'' ''pi_1''
      [''admin'', ''signer''] None None sample_world"
  have "(case fst ?run of Inr (_, q) \<Rightarrow> q | _ \<Rightarrow> False)" by code_simp
  then obtain row w' where run: "?run = (Inr (row, True), w')"
    by (cases ?run) (auto split: sum.splits prod.splits)
  have t: "cx_tenantId sample_ctx = ''t_1''" by (simp add: sample_ctx_def)
  from quorum_met_means_distinct_signers [OF sample_world_ok run] run show ?thesis unfolding t by blast
qed

text \<open>The roles the gate counts are those of valid signatures under the version it asks for.\<close>

lemma signedValidRoles_rows:
  assumes "signedValidRoles ctx kind i v w = (Inr roles, w')"
  shows "\<exists>rows. roles = signed_roles_of rows
    \<and> set rows = {r \<in> set (w_approvals w'). on_subject (cx_tenantId ctx) kind i r \<and> counts_for v r}"
  using assms unfolding signedValidRoles_def Let_def
  by (auto simp: sret_def dest!: in_tx_InrD sbind_InrD sthen_InrD listValid_rows split: option.splits)

end
