(* ===== verification/Approval_Authority.thy ===== *)
theory Approval_Authority
  imports Approver_Roles Decimal_Order
begin

text \<open>
  Who may approve a payment: services/execution/src/members/authorizeApproval.ts with the member
  types of members/types.ts. Amounts are compared in whole cents; an amount the code cannot
  parse becomes a sentinel above every storable limit, and a fraction of a cent rounds up, so
  that a limit is never passed by an amount above it.
\<close>

section \<open>Types\<close>

datatype member_role = Role_admin | Role_approver | Role_viewer

datatype approval_domain = Dom_ap | Dom_ar | Dom_treasury | Dom_payroll | Dom_reconciliation

datatype actor_verification =
    Ver_session | Ver_idp_verified | Ver_surface_linked | Ver_signed_token | Ver_tenant_asserted

record member_authority =
  mb_id :: string
  mb_tenantId :: string
  mb_email :: string
  mb_role :: member_role
  mb_active :: bool
  mb_approvalDomains :: "approval_domain list"
  mb_perItemLimitCents :: int
  mb_requiresSecondApproverAboveCents :: "int option"

record actor_context =
  ac_memberId :: string
  ac_email :: string
  ac_role :: member_role
  ac_active :: bool
  ac_verification :: actor_verification
  ac_assertedBy :: "string option"

datatype rejection_reason =
    Actor_unresolved | Actor_inactive | Domain_not_authorized | Actor_limit_exceeded
  | Second_approval_required | Self_approval_blocked | Last_admin_protected

datatype payee_kind = Vendor | Employee

record domain_source =
  ds_domain :: approval_domain
  ds_amountCents :: int
  ds_payeeKind :: payee_kind
  ds_payeeEmail :: "string option"

record authorize_input =
  az_actor :: actor_context
  az_member :: "member_authority option"
  az_proposal :: domain_source
  az_existingApproverMemberIds :: "string list"
  az_requiredDistinctApprovals :: int

datatype authorization =
    Authorized bool member_role
  | Refused rejection_reason

section \<open>Emails and amounts\<close>

text \<open>\<open>s.indexOf(c)\<close>; -1 when absent.\<close>

fun index_of :: "char \<Rightarrow> string \<Rightarrow> int" where
  "index_of c [] = -1"
| "index_of c (x # xs) = (if x = c then 0 else (let i = index_of c xs in if i < 0 then -1 else i + 1))"

definition normalizeApprovalEmail :: "string option \<Rightarrow> string option" where
  "normalizeApprovalEmail email =
     (case email of
        None \<Rightarrow> None
      | Some e \<Rightarrow>
          let trimmed = to_lower (js_trim e);
              i = index_of CHR 0x40 trimmed
          in if i \<le> 0 \<or> i = int (length trimmed) - 1 then None
             else let loc = take (nat i) trimmed;
                      host = drop (nat i + 1) trimmed;
                      plus = index_of CHR ''+'' loc
                  in Some ((if plus \<ge> 0 then take (nat plus) loc else loc) @ [CHR 0x40] @ host))"

definition UNPARSEABLE_AMOUNT_CENTS :: int where
  "UNPARSEABLE_AMOUNT_CENTS = 9223372036854775808"

text \<open>
  \<open>/^([0-9]+)(?:\.([0-9]+))?$/\<close>, the grammar of \<open>is_decimal\<close>, captures the whole and the
  fraction digits; \<open>/[1-9]/\<close> on the digits past the cents asks for a non-zero one.
\<close>

definition decimalAmountToCents :: "string \<Rightarrow> int" where
  "decimalAmountToCents v =
     (let trimmed = js_trim v in
      if \<not> is_decimal trimmed then UNPARSEABLE_AMOUNT_CENTS
      else let (wholeDigits, fractionDigits) = decimal_parts trimmed;
               whole = int (digits_val wholeDigits) * 100;
               cents = int (digits_val (pad_end 2 CHR ''0'' (take 2 fractionDigits)));
               roundUp = (if list_ex (\<lambda>c. 49 \<le> code_unit c \<and> code_unit c \<le> 57) (drop 2 fractionDigits)
                          then 1 else 0)
           in whole + cents + roundUp)"

section \<open>The decision\<close>

definition isApprovalCapableRole :: "member_role \<Rightarrow> bool" where
  "isApprovalCapableRole r \<longleftrightarrow> r = Role_admin \<or> r = Role_approver"

definition paymentIntentApprovalDomain :: "string \<Rightarrow> payee_kind \<Rightarrow> approval_domain" where
  "paymentIntentApprovalDomain actionType payeeKind =
     (if payeeKind = Employee \<or> str_includes actionType ''payroll'' then Dom_payroll
      else if actionType = ''ach_inbound'' then Dom_ar
      else if actionType = ''erp_writeback'' then Dom_reconciliation
      else Dom_ap)"

definition paymentIntentPayeeKind :: "string \<Rightarrow> string option \<Rightarrow> payee_kind" where
  "paymentIntentPayeeKind actionType counterpartyType =
     (if counterpartyType = Some ''employee'' \<or> str_includes actionType ''payroll'' then Employee else Vendor)"

definition required_distinct :: "authorize_input \<Rightarrow> member_authority \<Rightarrow> int" where
  "required_distinct i m =
     (let base = max 1 (az_requiredDistinctApprovals i) in
      case mb_requiresSecondApproverAboveCents m of
        None \<Rightarrow> base
      | Some threshold \<Rightarrow> if ds_amountCents (az_proposal i) > threshold then max base 2 else base)"

definition authorizeApproval :: "authorize_input \<Rightarrow> authorization" where
  "authorizeApproval i =
     (case az_member i of
        None \<Rightarrow> Refused Actor_unresolved
      | Some m \<Rightarrow>
          let p = az_proposal i;
              payee = normalizeApprovalEmail (ds_payeeEmail p);
              memberEmail = normalizeApprovalEmail (Some (mb_email m));
              required = required_distinct i m;
              existing = remdups (az_existingApproverMemberIds i)
          in if \<not> mb_active m then Refused Actor_inactive
             else if \<not> isApprovalCapableRole (mb_role m) then Refused Domain_not_authorized
             else if ds_domain p \<notin> set (mb_approvalDomains m) then Refused Domain_not_authorized
             else if ds_amountCents p > mb_perItemLimitCents m then Refused Actor_limit_exceeded
             else if payee = None \<and> ds_payeeKind p = Employee then Refused Self_approval_blocked
             else if payee \<noteq> None \<and> payee = memberEmail then Refused Self_approval_blocked
             else if required > 1 \<and> mb_id m \<in> set existing then Refused Second_approval_required
             else Authorized (required > 1 \<and> int (length existing) + 1 < required) (mb_role m))"

section \<open>Cents never understate an amount\<close>

text \<open>The exact value of a decimal string, at any precision.\<close>

definition dec_value :: "string \<Rightarrow> rat" where
  "dec_value s = (case decimal_parts s of (i, f) \<Rightarrow>
     of_nat (digits_val i) + of_nat (digits_val f) / 10 ^ length f)"

lemma digits_val_zero_iff:
  "list_all is_digit d \<Longrightarrow> digits_val d = 0 \<longleftrightarrow> \<not> list_ex (\<lambda>c. 49 \<le> code_unit c \<and> code_unit c \<le> 57) d"
proof (induction d)
  case (Cons c cs)
  then have "is_digit c" by simp
  then have "digit_val c = 0 \<longleftrightarrow> \<not> (49 \<le> code_unit c \<and> code_unit c \<le> 57)"
    unfolding is_digit_def digit_val_def by arith
  with Cons show ?case by (simp add: digits_val_Cons)
qed simp

text \<open>The fraction digits in cents, rounded up.\<close>

lemma fraction_cents:
  assumes f: "list_all is_digit f"
  shows "int (digits_val (pad_end 2 CHR ''0'' (take 2 f)))
      + (if list_ex (\<lambda>c. 49 \<le> code_unit c \<and> code_unit c \<le> 57) (drop 2 f) then 1 else 0)
    = \<lceil>100 * (of_nat (digits_val f) / 10 ^ length f :: rat)\<rceil>"
proof (cases "length f \<le> 2")
  case True
  have "digits_val (pad_end 2 CHR ''0'' f) = digits_val f * 10 ^ (2 - length f)"
    by (simp add: pad_end_def digits_val_append)
  moreover have "100 * (of_nat (digits_val f) / 10 ^ length f :: rat)
      = of_int (int (digits_val f * 10 ^ (2 - length f)))"
    using True by (cases "length f" rule: nat.exhaust; cases "length f - 1" rule: nat.exhaust)
      (auto simp: field_simps numeral_2_eq_2 le_Suc_eq)
  ultimately show ?thesis using True by (simp only: ceiling_of_int) simp
next
  case False
  let ?t = "take 2 f" and ?d = "drop 2 f"
  define n where "n = length ?d"
  have len: "length f = n + 2" "length ?t = 2" using False by (auto simp: n_def)
  have d: "list_all is_digit ?d" using f by (auto simp: list_all_iff dest: in_set_dropD)
  have v: "digits_val f = digits_val ?t * 10 ^ n + digits_val ?d"
    using digits_val_append [of ?t ?d] by (simp add: n_def)
  have bound: "digits_val ?d < 10 ^ n" using digits_val_bound [OF d] by (simp add: n_def)
  have eq: "100 * (of_nat (digits_val f) / 10 ^ length f :: rat)
      = of_int (int (digits_val ?t)) + of_nat (digits_val ?d) / 10 ^ n"
    unfolding v len by (simp add: field_simps power_add)
  have "(of_nat (digits_val ?d) :: rat) < 10 ^ n"
    using bound by (metis of_nat_less_iff of_nat_numeral of_nat_power)
  then have frac: "(of_nat (digits_val ?d) / 10 ^ n :: rat) < 1" "0 \<le> (of_nat (digits_val ?d) / 10 ^ n :: rat)"
    by simp_all
  have "\<lceil>of_nat (digits_val ?d) / 10 ^ n :: rat\<rceil> = (if digits_val ?d = 0 then 0 else 1)"
  proof (cases "digits_val ?d = 0")
    case True
    then show ?thesis by simp
  next
    case False
    then have "0 < (of_nat (digits_val ?d) / 10 ^ n :: rat)" by simp
    with frac(1) False show ?thesis by (auto simp: ceiling_eq_iff)
  qed
  moreover have "\<lceil>100 * (of_nat (digits_val f) / 10 ^ length f :: rat)\<rceil>
      = \<lceil>of_nat (digits_val ?d) / 10 ^ n :: rat\<rceil> + int (digits_val ?t)"
    unfolding eq using ceiling_add_of_int [of "of_nat (digits_val ?d) / 10 ^ n :: rat" "int (digits_val ?t)"]
    by (simp only: add.commute)
  ultimately show ?thesis using digits_val_zero_iff [OF d] by (simp add: pad_end_def len)
qed

lemma is_decimal_parts_digits:
  assumes "is_decimal s"
  shows "list_all is_digit (fst (decimal_parts s)) \<and> list_all is_digit (snd (decimal_parts s))"
  using assms by (auto simp: is_decimal_def decimal_parts_def split: list.splits)

lemma cents_exact:
  assumes "is_decimal (js_trim v)"
  shows "decimalAmountToCents v = \<lceil>100 * dec_value (js_trim v)\<rceil>"
proof -
  obtain i f where p: "decimal_parts (js_trim v) = (i, f)" by (cases "decimal_parts (js_trim v)")
  with is_decimal_parts_digits [OF assms] have f: "list_all is_digit f" by simp
  have "\<lceil>100 * dec_value (js_trim v)\<rceil>
      = int (digits_val i) * 100 + \<lceil>100 * (of_nat (digits_val f) / 10 ^ length f :: rat)\<rceil>"
    using ceiling_add_of_int [of "100 * (of_nat (digits_val f) / 10 ^ length f :: rat)" "int (digits_val i) * 100"]
    by (simp add: dec_value_def p distrib_left ac_simps)
  then show ?thesis using fraction_cents [OF f] assms
    by (simp add: decimalAmountToCents_def Let_def p)
qed

section \<open>Properties\<close>

text \<open>C31 (bounds). The amount checked against a member's limit is the exact amount rounded up to the cent, at any
  precision: so an amount within the limit in cents is within the limit exactly; and an amount
  that is no decimal string exceeds every limit below 2^63.\<close>

theorem cents_never_understate:
  "(is_decimal (js_trim v) \<longrightarrow> decimalAmountToCents v = \<lceil>100 * dec_value (js_trim v)\<rceil>
      \<and> (decimalAmountToCents v \<le> limit \<longleftrightarrow> 100 * dec_value (js_trim v) \<le> of_int limit))
   \<and> (\<not> is_decimal (js_trim v) \<longrightarrow> limit < 2 ^ 63 \<longrightarrow> \<not> decimalAmountToCents v \<le> limit)"
  using cents_exact [of v]
  by (auto simp: ceiling_le_iff decimalAmountToCents_def Let_def UNPARSEABLE_AMOUNT_CENTS_def)

theorem cents_never_understate_witness:
  "decimalAmountToCents ''10.001'' = \<lceil>100 * dec_value ''10.001''\<rceil> \<and> decimalAmountToCents ''10.001'' = 1001
   \<and> \<not> decimalAmountToCents ''1e9'' \<le> 5"
proof -
  have t: "js_trim ''10.001'' = ''10.001''" "is_decimal ''10.001''" "\<not> is_decimal (js_trim ''1e9'')"
    "decimalAmountToCents ''10.001'' = 1001" by code_simp+
  show ?thesis using cents_never_understate [of "''10.001''" 0] cents_never_understate [of "''1e9''" 5] t by simp
qed

text \<open>C30 (safety). An approval is authorised only within the member's authority: the member exists and is
  active, has an approving role and the payment's domain, and the amount is within the member's
  limit; an employee payee must have a resolvable email and the member is never the payee. Where
  more than one distinct approval is required the member has not approved before, and no further
  approval is asked for only when the distinct approvers with this one reach the number.\<close>

theorem authorized_within_authority:
  assumes "authorizeApproval i = Authorized additional role"
  shows "\<exists>m. az_member i = Some m \<and> mb_active m \<and> role = mb_role m \<and> role \<in> {Role_admin, Role_approver}
    \<and> ds_domain (az_proposal i) \<in> set (mb_approvalDomains m)
    \<and> ds_amountCents (az_proposal i) \<le> mb_perItemLimitCents m
    \<and> (case normalizeApprovalEmail (ds_payeeEmail (az_proposal i)) of
         None \<Rightarrow> ds_payeeKind (az_proposal i) = Vendor
       | Some e \<Rightarrow> normalizeApprovalEmail (Some (mb_email m)) \<noteq> Some e)
    \<and> (required_distinct i m > 1 \<longrightarrow> mb_id m \<notin> set (az_existingApproverMemberIds i)
         \<and> (\<not> additional \<longleftrightarrow>
              int (card (set (az_existingApproverMemberIds i) \<union> {mb_id m})) \<ge> required_distinct i m))"
proof -
  from assms obtain m where m: "az_member i = Some m" by (auto simp: authorizeApproval_def split: option.splits)
  have card: "length (remdups xs) + 1 = card (set xs \<union> {x})" if "x \<notin> set xs" for xs and x :: string
    using that by (simp add: length_remdups_card_conv)
  have role: "mb_role m \<in> {Role_admin, Role_approver}" if "isApprovalCapableRole (mb_role m)"
    using that by (simp add: isApprovalCapableRole_def)
  show ?thesis
    using assms m role card [of "mb_id m" "az_existingApproverMemberIds i"]
    by (cases "ds_payeeKind (az_proposal i)")
      (auto simp: authorizeApproval_def Let_def split: if_splits option.splits)
qed

definition sample_member :: member_authority where
  "sample_member = \<lparr>mb_id = ''m_1'', mb_tenantId = ''t_1'', mb_email = ''cfo@acme.com'', mb_role = Role_approver,
     mb_active = True, mb_approvalDomains = [Dom_ap], mb_perItemLimitCents = 100000,
     mb_requiresSecondApproverAboveCents = Some 5000\<rparr>"

definition sample_authorize :: authorize_input where
  "sample_authorize =
     \<lparr>az_actor = \<lparr>ac_memberId = ''m_1'', ac_email = ''cfo@acme.com'', ac_role = Role_approver,
        ac_active = True, ac_verification = Ver_session, ac_assertedBy = None\<rparr>,
      az_member = Some sample_member,
      az_proposal = \<lparr>ds_domain = Dom_ap, ds_amountCents = 10000, ds_payeeKind = Vendor,
        ds_payeeEmail = Some ''billing+x@vendor.com''\<rparr>,
      az_existingApproverMemberIds = [''m_2''], az_requiredDistinctApprovals = 1\<rparr>"

theorem authorized_within_authority_witness:
  "authorizeApproval sample_authorize = Authorized False Role_approver
   \<and> (\<exists>m. az_member sample_authorize = Some m \<and> ds_amountCents (az_proposal sample_authorize) \<le> mb_perItemLimitCents m)"
proof -
  have a: "authorizeApproval sample_authorize = Authorized False Role_approver" by code_simp
  from authorized_within_authority [OF a] a show ?thesis by blast
qed

end
