(* ===== verification/Redaction.thy ===== *)
theory Redaction
  imports Prelude
begin

text \<open>
  Field-level redaction of stored payloads (services/execution/src/redaction.ts): the policy
  document, \<open>redact\<close>, and the assertion the outbox uses to keep credentials out of durable
  rows. The digests are parameters. A property set to \<open>undefined\<close> is left out, as it is
  in the JSON text that is stored.
\<close>

section \<open>Policies\<close>

datatype redaction_transform = Mask_last4 | Hash_recoverable | Preserve | Drop_field | Forbid

record redaction_rule =
  rr_match :: "string list"
  rr_transform :: redaction_transform
  rr_retain :: "string list option"

record redaction_policy =
  rp_rules :: "redaction_rule list"
  rp_unmatched_drop :: bool

definition DEFAULT_AGENT_TRACE_POLICY :: redaction_policy where
  "DEFAULT_AGENT_TRACE_POLICY = \<lparr>
     rp_rules =
       [ \<lparr>rr_match = [''counterparty_name'', ''payee'', ''payer'', ''vendor_name'', ''merchant_name''],
          rr_transform = Hash_recoverable, rr_retain = None\<rparr>,
         \<lparr>rr_match = [''amount'', ''amount_due'', ''value'', ''balance'', ''currency''],
          rr_transform = Preserve, rr_retain = None\<rparr>,
         \<lparr>rr_match = [''email_body'', ''body'', ''message_body'', ''html_body'', ''text_body''],
          rr_transform = Drop_field, rr_retain = Some [''subject'', ''hash'']\<rparr>,
         \<lparr>rr_match = [''password'', ''secret'', ''access_token'', ''plaid_access_token'', ''api_key'',
                      ''private_key'', ''account_number'', ''account_no'', ''acct'', ''iban'',
                      ''routing_number'', ''card_number'', ''cvv'', ''pin''],
          rr_transform = Forbid, rr_retain = None\<rparr> ],
     rp_unmatched_drop = False\<rparr>"

definition ruleFor :: "redaction_policy \<Rightarrow> string \<Rightarrow> redaction_rule option" where
  "ruleFor policy key =
     (let lower = to_lower key in
      find (\<lambda>r. list_ex (\<lambda>m. to_lower m = lower) (rr_match r)) (rp_rules policy))"

section \<open>redact\<close>

record digests =
  dg_hmac_hex :: "string \<Rightarrow> string \<Rightarrow> string"
  dg_sha256_hex :: "string \<Rightarrow> string"

definition maskLast4 :: "string \<Rightarrow> string" where
  "maskLast4 v = (if length v \<le> 4 then ''****'' else ''****'' @ drop (length v - 4) v)"

definition hashRecoverable :: "digests \<Rightarrow> string \<Rightarrow> string \<Rightarrow> string" where
  "hashRecoverable dg v key = ''h:'' @ dg_hmac_hex dg key v"

text \<open>\<open>out[k] = v\<close>: an existing key keeps its place.\<close>

fun js_set :: "(string \<times> json) list \<Rightarrow> string \<Rightarrow> json \<Rightarrow> (string \<times> json) list" where
  "js_set [] k v = [(k, v)]"
| "js_set ((k', v') # rest) k v = (if k' = k then (k, v) # rest else (k', v') # js_set rest k v)"

definition on_string :: "(string \<Rightarrow> string) \<Rightarrow> json \<Rightarrow> json" where
  "on_string f v = (case v of JStr s \<Rightarrow> JStr (f s) | _ \<Rightarrow> v)"

definition forbidden_error :: "string \<Rightarrow> string" where
  "forbidden_error key = ''redaction: forbidden field '' @ [CHR 0x22] @ key @ [CHR 0x22] @ '' must not be present in a trace''"

fun redact :: "digests \<Rightarrow> redaction_policy \<Rightarrow> string \<Rightarrow> json \<Rightarrow> string + json"
  and redact_all :: "digests \<Rightarrow> redaction_policy \<Rightarrow> string \<Rightarrow> json list \<Rightarrow> string + json list"
  and redact_entries :: "digests \<Rightarrow> redaction_policy \<Rightarrow> string \<Rightarrow> (string \<times> json) list
         \<Rightarrow> (string \<times> json) list \<Rightarrow> string + json"
where
  "redact dg p hk (JArr vs) =
     (case redact_all dg p hk vs of Inl e \<Rightarrow> Inl e | Inr vs' \<Rightarrow> Inr (JArr vs'))"
| "redact dg p hk (JObj kvs) = redact_entries dg p hk kvs []"
| "redact dg p hk v = Inr v"
| "redact_all dg p hk [] = Inr []"
| "redact_all dg p hk (v # vs) =
     (case redact dg p hk v of
        Inl e \<Rightarrow> Inl e
      | Inr v' \<Rightarrow> (case redact_all dg p hk vs of Inl e \<Rightarrow> Inl e | Inr vs' \<Rightarrow> Inr (v' # vs')))"
| "redact_entries dg p hk [] out = Inr (JObj out)"
| "redact_entries dg p hk ((k, v) # rest) out =
     (case ruleFor p k of
        None \<Rightarrow>
          if rp_unmatched_drop p then redact_entries dg p hk rest out
          else (case redact dg p hk v of
                  Inl e \<Rightarrow> Inl e
                | Inr v' \<Rightarrow> redact_entries dg p hk rest (js_set out k v'))
      | Some rule \<Rightarrow>
          (case rr_transform rule of
             Forbid \<Rightarrow> Inl (forbidden_error k)
           | Preserve \<Rightarrow>
               (case redact dg p hk v of
                  Inl e \<Rightarrow> Inl e
                | Inr v' \<Rightarrow> redact_entries dg p hk rest (js_set out k v'))
           | Mask_last4 \<Rightarrow> redact_entries dg p hk rest (js_set out k (on_string maskLast4 v))
           | Hash_recoverable \<Rightarrow>
               redact_entries dg p hk rest (js_set out k (on_string (\<lambda>s. hashRecoverable dg s hk) v))
           | Drop_field \<Rightarrow>
               (case (rr_retain rule, v) of
                  (Some kept, JStr s) \<Rightarrow>
                    if ''hash'' \<in> set kept
                    then redact_entries dg p hk rest (js_set out (k @ ''_sha256'') (JStr (dg_sha256_hex dg s)))
                    else redact_entries dg p hk rest out
                | _ \<Rightarrow> redact_entries dg p hk rest out)))"

definition assertNoForbiddenFields :: "digests \<Rightarrow> redaction_policy \<Rightarrow> json \<Rightarrow> string + unit" where
  "assertNoForbiddenFields dg p payload =
     (case redact dg p [] payload of Inl e \<Rightarrow> Inl e | Inr _ \<Rightarrow> Inr ())"

section \<open>What the assertion examines\<close>

text \<open>Every key of a value, at any depth.\<close>

fun all_keys :: "json \<Rightarrow> string list"
  and entry_keys :: "(string \<times> json) list \<Rightarrow> string list" where
  "all_keys (JArr vs) = concat (map all_keys vs)"
| "all_keys (JObj kvs) = entry_keys kvs"
| "all_keys _ = []"
| "entry_keys [] = []"
| "entry_keys ((k, v) # rest) = k # all_keys v @ entry_keys rest"

definition forbidden_key :: "redaction_policy \<Rightarrow> string \<Rightarrow> bool" where
  "forbidden_key p k \<longleftrightarrow> (case ruleFor p k of None \<Rightarrow> False | Some r \<Rightarrow> rr_transform r = Forbid)"

definition opaque_key :: "redaction_policy \<Rightarrow> string \<Rightarrow> bool" where
  "opaque_key p k \<longleftrightarrow> (case ruleFor p k of None \<Rightarrow> rp_unmatched_drop p
     | Some r \<Rightarrow> rr_transform r \<in> {Mask_last4, Hash_recoverable, Drop_field})"

text \<open>The keys met when the values under masked, hashed and dropped fields are not entered.\<close>

fun visible_keys :: "redaction_policy \<Rightarrow> json \<Rightarrow> string list"
  and visible_entries :: "redaction_policy \<Rightarrow> (string \<times> json) list \<Rightarrow> string list" where
  "visible_keys p (JArr vs) = concat (map (visible_keys p) vs)"
| "visible_keys p (JObj kvs) = visible_entries p kvs"
| "visible_keys p _ = []"
| "visible_entries p [] = []"
| "visible_entries p ((k, v) # rest) =
     k # (if opaque_key p k then [] else visible_keys p v) @ visible_entries p rest"

text \<open>No object or array stands under a masked, hashed or dropped field.\<close>

fun flat_value :: "json \<Rightarrow> bool" where
  "flat_value (JArr _) = False"
| "flat_value (JObj _) = False"
| "flat_value _ = True"

fun opaque_flat :: "redaction_policy \<Rightarrow> json \<Rightarrow> bool"
  and opaque_entries :: "redaction_policy \<Rightarrow> (string \<times> json) list \<Rightarrow> bool" where
  "opaque_flat p (JArr vs) = list_all (opaque_flat p) vs"
| "opaque_flat p (JObj kvs) = opaque_entries p kvs"
| "opaque_flat p _ = True"
| "opaque_entries p [] = True"
| "opaque_entries p ((k, v) # rest) =
     ((if opaque_key p k then flat_value v else opaque_flat p v) \<and> opaque_entries p rest)"

lemma isr_simps [simp]: "isl (Inl a)" "\<not> isl (Inr b)"
  by simp_all

lemma redact_fails_iff:
  "isl (redact dg p hk v) \<longleftrightarrow> list_ex (forbidden_key p) (visible_keys p v)"
  and "isl (redact_all dg p hk vs) \<longleftrightarrow> list_ex (forbidden_key p) (concat (map (visible_keys p) vs))"
  and "isl (redact_entries dg p hk kvs out) \<longleftrightarrow> list_ex (forbidden_key p) (visible_entries p kvs)"
proof (induction dg p hk v and dg p hk vs and dg p hk kvs out
    rule: redact_redact_all_redact_entries.induct)
  case (7 dg p hk k v rest out)
  then show ?case
    by (auto simp: forbidden_key_def opaque_key_def
        split: option.splits sum.splits redaction_transform.splits json.splits if_splits)
qed (auto split: sum.splits)

lemma visible_flat:
  "opaque_flat p v \<Longrightarrow> set (visible_keys p v) = set (all_keys v)"
  and "opaque_entries p kvs \<Longrightarrow> set (visible_entries p kvs) = set (entry_keys kvs)"
proof (induction v and kvs rule: all_keys_entry_keys.induct)
  case (5 k v rest)
  then show ?case by (cases v) (auto split: if_splits)
qed (auto simp: list_all_iff)

lemma assertNoForbiddenFields_iff:
  "assertNoForbiddenFields dg p v = Inr () \<longleftrightarrow> \<not> list_ex (forbidden_key p) (visible_keys p v)"
  using redact_fails_iff(1) [of dg p "[]" v]
  by (auto simp: assertNoForbiddenFields_def split: sum.splits)

text \<open>C40 (error). Where no object or array hides under a masked, hashed or dropped field, the assertion is complete:
  it succeeds exactly when no key at any depth, in any letter case, is one the policy forbids.\<close>

theorem assertion_catches_every_key:
  assumes "opaque_flat p v"
  shows "assertNoForbiddenFields dg p v = Inr () \<longleftrightarrow> (\<forall>k \<in> set (all_keys v). \<not> forbidden_key p k)"
  using visible_flat(1) [OF assms] by (auto simp: assertNoForbiddenFields_iff list_ex_iff)

theorem assertion_catches_every_key_witness:
  "opaque_flat DEFAULT_AGENT_TRACE_POLICY (JObj [(''dest'', JArr [JObj [(''Access_Token'', JStr ''t'')]])])
   \<and> assertNoForbiddenFields \<lparr>dg_hmac_hex = \<lambda>k v. v, dg_sha256_hex = \<lambda>v. v\<rparr> DEFAULT_AGENT_TRACE_POLICY
       (JObj [(''dest'', JArr [JObj [(''Access_Token'', JStr ''t'')]])]) \<noteq> Inr ()"
proof -
  let ?v = "JObj [(''dest'', JArr [JObj [(''Access_Token'', JStr ''t'')]])]"
  have flat: "opaque_flat DEFAULT_AGENT_TRACE_POLICY ?v" by code_simp
  have "forbidden_key DEFAULT_AGENT_TRACE_POLICY ''Access_Token''" by code_simp
  then show ?thesis using assertion_catches_every_key [OF flat, of "\<lparr>dg_hmac_hex = \<lambda>k v. v, dg_sha256_hex = \<lambda>v. v\<rparr>"] flat by simp
qed

text \<open>The gap of the assertion: a credential nested in an object under a field the default policy hashes or
  drops passes it, so such a payload can reach a durable row.\<close>

theorem assertion_misses_nested_credentials:
  "assertNoForbiddenFields dg DEFAULT_AGENT_TRACE_POLICY
     (JObj [(''payee'', JObj [(''account_number'', x)]), (''body'', JArr [JObj [(''access_token'', y)]])]) = Inr ()"
proof -
  have "\<not> list_ex (forbidden_key DEFAULT_AGENT_TRACE_POLICY) (visible_keys DEFAULT_AGENT_TRACE_POLICY
     (JObj [(''payee'', JObj [(''account_number'', JNull)]), (''body'', JArr [JObj [(''access_token'', JNull)]])]))"
    by code_simp
  moreover have "opaque_key DEFAULT_AGENT_TRACE_POLICY ''payee''" "opaque_key DEFAULT_AGENT_TRACE_POLICY ''body''"
    by code_simp+
  ultimately show ?thesis by (simp add: assertNoForbiddenFields_iff)
qed

end
