(* ===== verification/Outbox.thy ===== *)
theory Outbox
  imports Exec_Store Redaction
begin

text \<open>
  The durable execution outbox (services/execution/src/outbox/OutboxService.ts): enqueue inside
  the tenant's transaction, the cross-tenant claim with its backoff window and attempt ceiling,
  the marks a worker leaves on a claimed row, and the reclaim of stale locks. Rows another
  transaction holds locked (\<open>FOR UPDATE SKIP LOCKED\<close>) are a parameter of the claims. Postgres
  returns updated rows in no promised order; the model returns them in table order.
\<close>

section \<open>Constants and the payload hash\<close>

definition MAX_DISPATCH_ATTEMPTS :: nat where
  "MAX_DISPATCH_ATTEMPTS = 3"

definition MAX_TOTAL_DISPATCH_ATTEMPTS :: nat where
  "MAX_TOTAL_DISPATCH_ATTEMPTS = 12"

definition RETRY_BACKOFF_BASE_SECONDS :: int where
  "RETRY_BACKOFF_BASE_SECONDS = 30"

definition RETRY_BACKOFF_CAP_SECONDS :: int where
  "RETRY_BACKOFF_CAP_SECONDS = 480"

text \<open>
  \<open>LEAST(30 * power(2, attempt_count - 1), 480)\<close> seconds, in milliseconds; the power is a
  half when the count is zero.
\<close>

definition backoff_ms :: "nat \<Rightarrow> int" where
  "backoff_ms n =
     (case n of
        0 \<Rightarrow> RETRY_BACKOFF_BASE_SECONDS * 500
      | Suc k \<Rightarrow> min (RETRY_BACKOFF_BASE_SECONDS * 2 ^ k) RETRY_BACKOFF_CAP_SECONDS * 1000)"

definition backoff_elapsed :: "int \<Rightarrow> outbox_row \<Rightarrow> bool" where
  "backoff_elapsed now r \<longleftrightarrow>
     (case ob_last_attempt_at r of None \<Rightarrow> True | Some t \<Rightarrow> t + backoff_ms (ob_attempt_count r) \<le> now)"

definition canonicalJson :: "(rat \<Rightarrow> string) \<Rightarrow> json \<Rightarrow> string" where
  "canonicalJson show_number v = canonicalize show_number v"

record outbox_env =
  oe_digests :: digests
  oe_show_number :: "rat \<Rightarrow> string"

definition payloadHash :: "outbox_env \<Rightarrow> (string \<times> json) list \<Rightarrow> string" where
  "payloadHash env payload = dg_sha256_hex (oe_digests env) (canonicalJson (oe_show_number env) (JObj payload))"

section \<open>enqueue\<close>

record enqueue_input =
  en_paymentIntentId :: string
  en_rail :: string
  en_idempotencyKey :: string
  en_payload :: "(string \<times> json) list"
  en_auditBeforeId :: string
  en_reservationId :: "string option"

record enqueue_result =
  er_id :: string
  er_created :: bool

definition own_key :: "string \<Rightarrow> string \<Rightarrow> outbox_row \<Rightarrow> bool" where
  "own_key t k r \<longleftrightarrow> ob_tenant_id r = t \<and> ob_idempotency_key r = k"

definition new_outbox_row :: "outbox_env \<Rightarrow> string \<Rightarrow> enqueue_input \<Rightarrow> string \<Rightarrow> int \<Rightarrow> outbox_row" where
  "new_outbox_row env t input i now =
     \<lparr>ob_id = i, ob_tenant_id = t, ob_payment_intent_id = en_paymentIntentId input,
      ob_execution_id = None, ob_rail = en_rail input, ob_idempotency_key = en_idempotencyKey input,
      ob_payload = en_payload input, ob_payload_hash = payloadHash env (en_payload input),
      ob_status = Ob_pending, ob_attempt_count = 0, ob_last_error = None, ob_last_attempt_at = None,
      ob_rail_receipt = None, ob_audit_before_id = en_auditBeforeId input, ob_audit_after_id = None,
      ob_reservation_id = en_reservationId input, ob_locked_at = None, ob_locked_by = None,
      ob_created_at = now, ob_dispatched_at = None, ob_completed_at = None\<rparr>"

text \<open>\<open>INSERT ... ON CONFLICT (tenant_id, idempotency_key) DO NOTHING RETURNING id\<close>\<close>

definition insert_outbox_row :: "outbox_row \<Rightarrow> string option svc" where
  "insert_outbox_row r w =
     (if list_ex (own_key (ob_tenant_id r) (ob_idempotency_key r)) (w_outbox w) then (Inr None, w)
      else if list_ex (\<lambda>x. ob_id x = ob_id r) (w_outbox w) then (Inl unique_violation, w)
      else (Inr (Some (ob_id r)), w\<lparr>w_outbox := w_outbox w @ [r]\<rparr>))"

definition enqueue :: "outbox_env \<Rightarrow> string \<Rightarrow> enqueue_input \<Rightarrow> enqueue_result svc" where
  "enqueue env t input =
     sthen (slift (assertNoForbiddenFields (oe_digests env) DEFAULT_AGENT_TRACE_POLICY (JObj (en_payload input))))
    (sbind (fresh_id ''exo_'') (\<lambda>i.
     sbind (sget w_now) (\<lambda>now.
     sbind (insert_outbox_row (new_outbox_row env t input i now)) (\<lambda>inserted.
     case inserted of
       Some j \<Rightarrow> sret \<lparr>er_id = j, er_created = True\<rparr>
     | None \<Rightarrow>
         sbind (sget (\<lambda>w. find (own_key t (en_idempotencyKey input)) (w_outbox w))) (\<lambda>existing.
         case existing of
           None \<Rightarrow> sthrow (Thrown ''execution_outbox enqueue: conflict but no existing row found'')
         | Some row \<Rightarrow> sret \<lparr>er_id = ob_id row, er_created = False\<rparr>)))))"

section \<open>Claiming\<close>

definition claimable :: "int \<Rightarrow> outbox_row \<Rightarrow> bool" where
  "claimable now r \<longleftrightarrow> ob_status r \<in> {Ob_pending, Ob_reconciling}
     \<and> ob_attempt_count r < MAX_TOTAL_DISPATCH_ATTEMPTS \<and> backoff_elapsed now r"

text \<open>\<open>ORDER BY created_at\<close>, stable.\<close>

fun insert_oldest :: "outbox_row \<Rightarrow> outbox_row list \<Rightarrow> outbox_row list" where
  "insert_oldest r [] = [r]"
| "insert_oldest r (x # xs) =
     (if ob_created_at r < ob_created_at x then r # x # xs else x # insert_oldest r xs)"

definition by_created_at :: "outbox_row list \<Rightarrow> outbox_row list" where
  "by_created_at rs = foldl (\<lambda>acc r. insert_oldest r acc) [] rs"

definition claim_ids :: "(string \<Rightarrow> bool) \<Rightarrow> nat \<Rightarrow> world \<Rightarrow> string list" where
  "claim_ids locked limit w = map ob_id (take limit
     (by_created_at (filter (\<lambda>r. claimable (w_now w) r \<and> \<not> locked (ob_id r)) (w_outbox w))))"

definition update_outbox :: "(outbox_row \<Rightarrow> bool) \<Rightarrow> (outbox_row \<Rightarrow> outbox_row) \<Rightarrow> world \<Rightarrow> world" where
  "update_outbox p f w = w\<lparr>w_outbox := map (\<lambda>r. if p r then f r else r) (w_outbox w)\<rparr>"

definition claim_row :: "int \<Rightarrow> string \<Rightarrow> outbox_row \<Rightarrow> outbox_row" where
  "claim_row now workerId r = r\<lparr>ob_status := Ob_dispatching, ob_locked_at := Some now, ob_locked_by := Some workerId\<rparr>"

definition claimNext :: "(string \<Rightarrow> bool) \<Rightarrow> string \<Rightarrow> nat \<Rightarrow> outbox_row list svc" where
  "claimNext locked workerId limit w =
     (let chosen = claim_ids locked limit w;
          hit = (\<lambda>r. ob_id r \<in> set chosen)
      in (Inr (map (claim_row (w_now w) workerId) (filter hit (w_outbox w))),
          update_outbox hit (claim_row (w_now w) workerId) w))"

section \<open>Marks on a claimed row\<close>

definition with_id :: "string \<Rightarrow> outbox_row \<Rightarrow> bool" where
  "with_id i r \<longleftrightarrow> ob_id r = i"

definition markDispatched :: "string \<Rightarrow> json \<Rightarrow> string \<Rightarrow> string \<Rightarrow> unit svc" where
  "markDispatched i railReceipt auditAfterId executionId w = (Inr (), update_outbox (with_id i)
     (\<lambda>r. r\<lparr>ob_status := Ob_dispatched, ob_rail_receipt := Some railReceipt,
           ob_audit_after_id := Some auditAfterId, ob_execution_id := Some executionId,
           ob_dispatched_at := Some (w_now w)\<rparr>) w)"

definition markSettled :: "string \<Rightarrow> unit svc" where
  "markSettled i w = (Inr (), update_outbox (with_id i)
     (\<lambda>r. r\<lparr>ob_status := Ob_settled, ob_completed_at := Some (w_now w)\<rparr>) w)"

text \<open>\<open>UPDATE ... WHERE id = $1 RETURNING attempt_count\<close>, with the code's error for no row.\<close>

definition update_counted :: "string \<Rightarrow> string \<Rightarrow> (outbox_row \<Rightarrow> outbox_row) \<Rightarrow> nat svc" where
  "update_counted what i f w =
     (case find (with_id i) (w_outbox w) of
        None \<Rightarrow> (Inl (Thrown (''execution_outbox '' @ what @ '': no row '' @ i)), w)
      | Some r \<Rightarrow> (Inr (ob_attempt_count (f r)), update_outbox (with_id i) f w))"

definition failed_attempt :: "int \<Rightarrow> string \<Rightarrow> outbox_status \<Rightarrow> outbox_row \<Rightarrow> outbox_row" where
  "failed_attempt now err status r =
     r\<lparr>ob_status := status, ob_attempt_count := ob_attempt_count r + 1, ob_last_error := Some err,
       ob_last_attempt_at := Some now, ob_locked_at := None, ob_locked_by := None\<rparr>"

definition markFailed :: "string \<Rightarrow> string \<Rightarrow> nat svc" where
  "markFailed i err w = update_counted ''markFailed'' i
     (\<lambda>r. failed_attempt (w_now w) err
        (if ob_attempt_count r + 1 \<ge> MAX_DISPATCH_ATTEMPTS then Ob_reconciling else Ob_pending) r) w"

definition markReconciling :: "string \<Rightarrow> string \<Rightarrow> nat svc" where
  "markReconciling i err w = update_counted ''markReconciling'' i
     (failed_attempt (w_now w) err Ob_reconciling) w"

definition markPermanentlyFailed :: "string \<Rightarrow> string \<Rightarrow> string \<Rightarrow> unit svc" where
  "markPermanentlyFailed i err auditAfterId w = (Inr (), update_outbox (with_id i)
     (\<lambda>r. (failed_attempt (w_now w) err Ob_failed r)
        \<lparr>ob_audit_after_id := Some auditAfterId, ob_completed_at := Some (w_now w)\<rparr>) w)"

section \<open>Crash recovery\<close>

definition is_stale :: "int \<Rightarrow> int \<Rightarrow> outbox_row \<Rightarrow> bool" where
  "is_stale now staleSeconds r \<longleftrightarrow> ob_status r \<in> {Ob_dispatching, Ob_dispatched}
     \<and> (case ob_locked_at r of None \<Rightarrow> False | Some t \<Rightarrow> t < now - staleSeconds * 1000)"

definition reclaim_row :: "outbox_row \<Rightarrow> outbox_row" where
  "reclaim_row r = r\<lparr>ob_status := Ob_pending, ob_locked_at := None, ob_locked_by := None\<rparr>"

definition reclaimStale :: "(string \<Rightarrow> bool) \<Rightarrow> int \<Rightarrow> (outbox_row \<times> outbox_status) list svc" where
  "reclaimStale locked staleSeconds w =
     (let hit = (\<lambda>r. is_stale (w_now w) staleSeconds r \<and> \<not> locked (ob_id r))
      in (Inr (map (\<lambda>r. (reclaim_row r, ob_status r)) (filter hit (w_outbox w))),
          update_outbox hit reclaim_row w))"

end
