(* ===== verification/Rails.thy ===== *)
theory Rails
  imports Prelude
begin

text \<open>
  What the outbox worker knows of a rail: typed receipts (services/execution/src/rails/receipts.ts)
  and the classification of permanent failures (rails/permanent-failure.ts). The rails themselves
  call banks and chains and are parameters of the worker.
\<close>

section \<open>Receipts (receipts.ts)\<close>

datatype rail_receipt_key = Rk_ach | Rk_wire | Rk_erp | Rk_onchain

fun REQUIRED_FIELDS :: "rail_receipt_key \<Rightarrow> string list" where
  "REQUIRED_FIELDS Rk_ach = [''ach_trace'']"
| "REQUIRED_FIELDS Rk_wire = [''omad'', ''imad'']"
| "REQUIRED_FIELDS Rk_erp = [''erp_record_id'']"
| "REQUIRED_FIELDS Rk_onchain = [''tx_hash'', ''block_number'']"

definition railKeyForActionType :: "string \<Rightarrow> rail_receipt_key option" where
  "railKeyForActionType actionType =
     (if starts_with actionType ''ach'' then Some Rk_ach
      else if actionType = ''wire'' then Some Rk_wire
      else if actionType = ''erp_writeback'' then Some Rk_erp
      else if actionType = ''onchain_transfer'' then Some Rk_onchain
      else None)"

record receipt_validation =
  vr_ok :: bool
  vr_missing :: "string list"

definition field_missing :: "(string \<times> json) list \<Rightarrow> string \<Rightarrow> bool" where
  "field_missing receipt f \<longleftrightarrow> map_of receipt f \<in> {None, Some JNull, Some (JStr [])}"

definition is_number :: "json \<Rightarrow> bool" where
  "is_number v = (case v of JNum _ \<Rightarrow> True | _ \<Rightarrow> False)"

definition validateRailReceipt :: "rail_receipt_key option \<Rightarrow> (string \<times> json) list \<Rightarrow> receipt_validation" where
  "validateRailReceipt railKey receipt =
     (case railKey of
        None \<Rightarrow> \<lparr>vr_ok = True, vr_missing = []\<rparr>
      | Some k \<Rightarrow>
          let missing = filter (field_missing receipt) (REQUIRED_FIELDS k)
          in if k = Rk_onchain \<and> (case map_of receipt ''block_number'' of None \<Rightarrow> False | Some v \<Rightarrow> \<not> is_number v)
             then \<lparr>vr_ok = False, vr_missing = missing @ [''block_number(number)'']\<rparr>
             else \<lparr>vr_ok = (missing = []), vr_missing = missing\<rparr>)"

section \<open>Thrown values\<close>

text \<open>A thrown value: a string, an error with its cause, a Brain error with its details, anything else.\<close>

datatype js_error =
    Js_string string
  | Js_error string "js_error option"
  | Js_brain string "(string \<times> json) list option" "js_error option"
  | Js_other string

text \<open>\<open>err instanceof Error ? err.message : String(err)\<close>\<close>

fun error_text :: "js_error \<Rightarrow> string" where
  "error_text (Js_string s) = s"
| "error_text (Js_error m _) = m"
| "error_text (Js_brain m _ _) = m"
| "error_text (Js_other s) = s"

section \<open>Permanent failures (permanent-failure.ts)\<close>

record deterministic_revert =
  dr_selector :: string
  dr_signature :: string

definition DETERMINISTIC_SMART_ACCOUNT_REVERTS :: "deterministic_revert list" where
  "DETERMINISTIC_SMART_ACCOUNT_REVERTS =
     [ \<lparr>dr_selector = ''0x49aeece1'', dr_signature = ''ExceedsPerTxCap()''\<rparr>,
       \<lparr>dr_selector = ''0xe356c1d3'', dr_signature = ''TargetNotAllowed(address)''\<rparr>,
       \<lparr>dr_selector = ''0x3b06e146'', dr_signature = ''SelectorNotAllowed(bytes4)''\<rparr>,
       \<lparr>dr_selector = ''0x8d3f1013'', dr_signature = ''PolicyVersionMismatch()''\<rparr>,
       \<lparr>dr_selector = ''0x2572e3a9'', dr_signature = ''KeyExpired()''\<rparr>,
       \<lparr>dr_selector = ''0xd92e233d'', dr_signature = ''ZeroAddress()''\<rparr>,
       \<lparr>dr_selector = ''0x0f03f0a0'', dr_signature = ''ValueNotAllowedInErc20Mode()''\<rparr>,
       \<lparr>dr_selector = ''0xc3f949eb'', dr_signature = ''NonDecodableSelectorInErc20Mode(bytes4)''\<rparr>,
       \<lparr>dr_selector = ''0x88df9154'', dr_signature = ''TargetMustEqualCapTokenInErc20Mode()''\<rparr> ]"

definition revert_name :: "deterministic_revert \<Rightarrow> string" where
  "revert_name r = takeWhile (\<lambda>c. c \<noteq> CHR ''('') (dr_signature r)"

text \<open>\<open>\w\<close>\<close>

definition is_word_char :: "char \<Rightarrow> bool" where
  "is_word_char c \<longleftrightarrow> is_digit c \<or> (65 \<le> code_unit c \<and> code_unit c \<le> 90)
     \<or> (97 \<le> code_unit c \<and> code_unit c \<le> 122) \<or> c = CHR ''_''"

definition word_ends :: "string \<Rightarrow> bool" where
  "word_ends rest \<longleftrightarrow> rest = [] \<or> \<not> is_word_char (hd rest)"

text \<open>\<open>NAME_PATTERN.exec(text)\<close>: the leftmost whole word that names a known revert.\<close>

fun name_hit :: "bool \<Rightarrow> string \<Rightarrow> deterministic_revert option" where
  "name_hit after_word [] = None"
| "name_hit after_word (c # cs) =
     (case (if after_word then None
            else find (\<lambda>r. starts_with (c # cs) (revert_name r)
                           \<and> word_ends (drop (length (revert_name r)) (c # cs)))
                   DETERMINISTIC_SMART_ACCOUNT_REVERTS) of
        Some r \<Rightarrow> Some r
      | None \<Rightarrow> name_hit (is_word_char c) cs)"

definition is_hex :: "char \<Rightarrow> bool" where
  "is_hex c \<longleftrightarrow> is_digit c \<or> (65 \<le> code_unit c \<and> code_unit c \<le> 70) \<or> (97 \<le> code_unit c \<and> code_unit c \<le> 102)"

definition selector_here :: "string \<Rightarrow> bool" where
  "selector_here s \<longleftrightarrow> starts_with s ''0x'' \<and> length s \<ge> 10 \<and> list_all is_hex (take 8 (drop 2 s)) \<and> word_ends (drop 10 s)"

text \<open>\<open>text.matchAll(SELECTOR_PATTERN)\<close>\<close>

function selector_matches :: "string \<Rightarrow> string list" where
  "selector_matches [] = []"
| "selector_matches (c # cs) =
     (if selector_here (c # cs) then take 10 (c # cs) # selector_matches (drop 9 cs)
      else selector_matches cs)"
  by pat_completeness auto
termination by (relation "measure length") simp_all

fun collectMessages :: "js_error \<Rightarrow> nat \<Rightarrow> string list" where
  "collectMessages (Js_string s) depth = (if depth > 8 then [] else [s])"
| "collectMessages (Js_error m cause) depth =
     (if depth > 8 then []
      else m # (case cause of None \<Rightarrow> [] | Some e \<Rightarrow> collectMessages e (depth + 1)))"
| "collectMessages (Js_brain m details cause) depth =
     (if depth > 8 then []
      else m # (case cause of None \<Rightarrow> [] | Some e \<Rightarrow> collectMessages e (depth + 1)))"
| "collectMessages (Js_other s) depth = []"

definition classifyDeterministicRevert :: "js_error \<Rightarrow> string option" where
  "classifyDeterministicRevert err =
     (let text = js_join [CHR 0x0A] (collectMessages err 0) in
      if text = [] then None
      else (case name_hit False text of
              Some r \<Rightarrow> Some (dr_signature r)
            | None \<Rightarrow>
                map_option dr_signature
                  (fold (\<lambda>m found. case found of Some r \<Rightarrow> Some r
                           | None \<Rightarrow> find (\<lambda>r. dr_selector r = to_lower m) DETERMINISTIC_SMART_ACCOUNT_REVERTS)
                     (selector_matches text) None)))"

definition permanentFailureReason :: "js_error \<Rightarrow> string option" where
  "permanentFailureReason err =
     (case err of
        Js_brain message (Some details) _ \<Rightarrow>
          if map_of details ''permanent_failure'' \<noteq> Some (JBool True) then None
          else (case map_of details ''decoded_revert'' of
                  Some (JStr decoded) \<Rightarrow>
                    if length decoded > 0 then Some (''deterministic_revert '' @ decoded @ '': '' @ message)
                    else Some message
                | _ \<Rightarrow> Some message)
      | _ \<Rightarrow> None)"

section \<open>The classification table\<close>

text \<open>Every revert of the table is recognised by its decoded name and by its raw selector down the
  cause chain; a selector that is only the head of longer hex data is not.\<close>

theorem classify_table:
  "list_all (\<lambda>r.
     classifyDeterministicRevert (Js_error (''Error: '' @ dr_signature r) None) = Some (dr_signature r)
     \<and> classifyDeterministicRevert
         (Js_brain ''dispatch failed'' None (Some (Js_error (''signature: '' @ dr_selector r) None)))
       = Some (dr_signature r))
   DETERMINISTIC_SMART_ACCOUNT_REVERTS"
  by code_simp

lemma longer_hex_is_no_selector: "classifyDeterministicRevert (Js_error ''0x49aeece100'' None) = None"
  by code_simp

end
