(* ===== verification/Outbox_Worker.thy ===== *)
theory Outbox_Worker
  imports Outbox Rails
begin

text \<open>
  The outbox worker (services/execution/src/outbox/worker.ts). It drains claimed rows: rail
  dispatch, receipt check, audit event, durable receipt, settlement through the executor
  interface of the payment intent service. The rails, the dispatch guard, the credential resolver
  and the executor are the fields of its dependency record. Every rail call is written to the log
  as \<open>Rail_dispatched\<close> with the tenant, the idempotency key and the execution id, whether or
  not the rail then returns a receipt: money may have moved from there on. The timer that repeats
  the cycle is not modelled.
\<close>

section \<open>Dependencies\<close>

record complete_args =
  co_paymentIntentId :: string
  co_executionId :: string
  co_rail :: string
  co_railReceipt :: "(string \<times> json) list"
  co_idempotencyKey :: string
  co_reservationId :: "string option"

record rail_input =
  ri_tenantId :: string
  ri_proposalId :: string
  ri_executionId :: string
  ri_action :: "(string \<times> json) list"
  ri_idempotencyKey :: string

type_synonym rail_fn = "rail_input \<Rightarrow> js_error + (string \<times> json) list"

record worker_deps =
  wd_rails :: "string \<Rightarrow> js_error + rail_fn"
  wd_completeExecution :: "call_ctx \<Rightarrow> complete_args \<Rightarrow> unit svc"
  wd_failExecution :: "call_ctx \<Rightarrow> string \<Rightarrow> string option \<Rightarrow> unit svc"
  wd_audit :: audit_emitter
  wd_beforeDispatch :: "(call_ctx \<Rightarrow> outbox_row \<Rightarrow> world \<Rightarrow> string option loaded) option"
  wd_resolveDispatchCredentials ::
    "(call_ctx \<Rightarrow> outbox_row \<Rightarrow> js_error + (string \<times> json) list option) option"
  wd_workerId :: string
  wd_locked :: "string \<Rightarrow> bool"

datatype row_outcome = Settled | Retrying | Reconciling | Failed_row

definition ctxForRow :: "outbox_row \<Rightarrow> string \<Rightarrow> call_ctx" where
  "ctxForRow row workerId = \<lparr>cx_tenantId = ob_tenant_id row, cx_actor = workerId, cx_principalType = None\<rparr>"

text \<open>The text of a service error; of a Brain error the model keeps the code.\<close>

fun svc_error_text :: "svc_error \<Rightarrow> string" where
  "svc_error_text (Brain_error code reason) = code"
| "svc_error_text (Thrown m) = m"

section \<open>Audit signals\<close>

definition json_nat :: "nat \<Rightarrow> json" where
  "json_nat n = JNum (of_nat n)"

definition emit_row :: "worker_deps \<Rightarrow> outbox_row \<Rightarrow> string \<Rightarrow> string \<Rightarrow> detail \<Rightarrow> detail \<Rightarrow> string svc" where
  "emit_row deps row layer act inputs outputs =
     audit_emit (wd_audit deps) (plain_event (ob_tenant_id row) layer (wd_workerId deps) act inputs outputs)"

definition row_ids :: "outbox_row \<Rightarrow> detail" where
  "row_ids row = [(''outbox_id'', JStr (ob_id row)), (''payment_intent_id'', JStr (ob_payment_intent_id row))]"

definition stuck_outputs :: "nat \<Rightarrow> string \<Rightarrow> detail" where
  "stuck_outputs attempts err =
     [(''attempt_count'', json_nat attempts), (''last_error'', JStr err), (''status'', JStr ''reconciling'')]"

definition emitStuck :: "worker_deps \<Rightarrow> outbox_row \<Rightarrow> nat \<Rightarrow> string \<Rightarrow> unit svc" where
  "emitStuck deps row attempts err =
     sthen (emit_row deps row ''execution'' ''payment_intent.reconciling''
              [(''payment_intent_id'', JStr (ob_payment_intent_id row)), (''outbox_id'', JStr (ob_id row))]
              (stuck_outputs attempts err))
    (sthen (emit_row deps row ''agent'' ''execution.outbox.stuck'' (row_ids row) (stuck_outputs attempts err))
       (sret ()))"

definition maybeEmitExhausted :: "worker_deps \<Rightarrow> outbox_row \<Rightarrow> nat \<Rightarrow> string \<Rightarrow> unit svc" where
  "maybeEmitExhausted deps row attempts err =
     (if attempts < MAX_TOTAL_DISPATCH_ATTEMPTS then sret ()
      else sthen (emit_row deps row ''agent'' ''execution.outbox.exhausted'' (row_ids row) (stuck_outputs attempts err))
             (sret ()))"

text \<open>\<open>markReconciling\<close>, the stuck signal, the giveup signal.\<close>

definition reconcile_row :: "worker_deps \<Rightarrow> outbox_row \<Rightarrow> string \<Rightarrow> row_outcome svc" where
  "reconcile_row deps row reason =
     sbind (markReconciling (ob_id row) reason) (\<lambda>attempts.
     sthen (emitStuck deps row attempts reason)
    (sthen (maybeEmitExhausted deps row attempts reason)
       (sret Reconciling)))"

text \<open>\<open>markFailed\<close>, and past the dispatch budget the same signals.\<close>

definition retry_row :: "worker_deps \<Rightarrow> outbox_row \<Rightarrow> string \<Rightarrow> row_outcome svc" where
  "retry_row deps row message =
     sbind (markFailed (ob_id row) message) (\<lambda>attempts.
     if attempts \<ge> MAX_DISPATCH_ATTEMPTS
     then sthen (emitStuck deps row attempts message)
         (sthen (maybeEmitExhausted deps row attempts message)
            (sret Reconciling))
     else sret Retrying)"

section \<open>Settling and failing\<close>

definition settleFromReceipt ::
  "worker_deps \<Rightarrow> outbox_row \<Rightarrow> call_ctx \<Rightarrow> string \<Rightarrow> (string \<times> json) list \<Rightarrow> row_outcome svc" where
  "settleFromReceipt deps row ctx executionId receipt =
     sbind (scatch
       (sthen (wd_completeExecution deps ctx
                 \<lparr>co_paymentIntentId = ob_payment_intent_id row, co_executionId = executionId,
                  co_rail = ob_rail row, co_railReceipt = receipt,
                  co_idempotencyKey = ob_idempotency_key row, co_reservationId = ob_reservation_id row\<rparr>)
          (sret None))
       (\<lambda>err. sret (Some (''settle_failed: '' @ svc_error_text err))))
       (\<lambda>failure.
     case failure of
       Some message \<Rightarrow> retry_row deps row message
     | None \<Rightarrow> sthen (markSettled (ob_id row)) (sret Settled))"

definition failPermanently :: "worker_deps \<Rightarrow> outbox_row \<Rightarrow> call_ctx \<Rightarrow> string \<Rightarrow> row_outcome svc" where
  "failPermanently deps row ctx reason =
     sbind (emit_row deps row ''agent'' ''payment_intent.execute.after''
              [(''payment_intent_id'', JStr (ob_payment_intent_id row)), (''rail'', JStr (ob_rail row)),
               (''outbox_id'', JStr (ob_id row))]
              [(''ok'', JBool False), (''permanent_failure'', JBool True), (''error'', JStr reason),
               (''gate_audit_before'', JStr (ob_audit_before_id row))]) (\<lambda>after.
     sbind (scatch
       (sthen (wd_failExecution deps ctx (ob_payment_intent_id row) (ob_reservation_id row)) (sret None))
       (\<lambda>err. sret (Some (reason @ ''; fail_transition_failed: '' @ svc_error_text err))))
       (\<lambda>failure.
     case failure of
       Some message \<Rightarrow> reconcile_row deps row message
     | None \<Rightarrow>
         sthen (markPermanentlyFailed (ob_id row) reason after)
        (sthen (emit_row deps row ''agent'' ''execution.outbox.failed'' (row_ids row)
                  [(''attempt_count'', json_nat (ob_attempt_count row + 1)), (''last_error'', JStr reason),
                   (''status'', JStr ''failed'')])
           (sret Failed_row))))"

section \<open>Dispatching\<close>

text \<open>\<open>{ ...payload, ...credentials }\<close>\<close>

definition spread :: "(string \<times> json) list \<Rightarrow> (string \<times> json) list \<Rightarrow> (string \<times> json) list" where
  "spread base extra = foldl (\<lambda>out (k, v). js_set out k v) base extra"

definition log_dispatch :: "outbox_row \<Rightarrow> string \<Rightarrow> unit svc" where
  "log_dispatch row executionId = smodify (\<lambda>w. w\<lparr>w_log := w_log w @
     [Rail_dispatched (ob_tenant_id row) (ob_idempotency_key row) executionId]\<rparr>)"

text \<open>The \<open>try\<close> block: rail lookup, credentials, the call. A throw is the left of the result.\<close>

definition dispatch_rail ::
  "worker_deps \<Rightarrow> outbox_row \<Rightarrow> call_ctx \<Rightarrow> string \<Rightarrow> (js_error + (string \<times> json) list) svc" where
  "dispatch_rail deps row ctx executionId =
     (case wd_rails deps (ob_rail row) of
        Inl err \<Rightarrow> sret (Inl err)
      | Inr rail \<Rightarrow>
          (case (case wd_resolveDispatchCredentials deps of None \<Rightarrow> Inr None | Some f \<Rightarrow> f ctx row) of
             Inl err \<Rightarrow> sret (Inl err)
           | Inr credentials \<Rightarrow>
               sthen (log_dispatch row executionId)
                 (sret (rail \<lparr>ri_tenantId = ob_tenant_id row, ri_proposalId = ob_payment_intent_id row,
                              ri_executionId = executionId,
                              ri_action = (case credentials of None \<Rightarrow> ob_payload row
                                           | Some c \<Rightarrow> spread (ob_payload row) c),
                              ri_idempotencyKey = ob_idempotency_key row\<rparr>))))"

definition action_kind :: "outbox_row \<Rightarrow> string" where
  "action_kind row = (case map_of (ob_payload row) ''kind'' of Some (JStr k) \<Rightarrow> k | _ \<Rightarrow> [])"

text \<open>Steps 2 to 5, after the rail returned.\<close>

definition accept_receipt ::
  "worker_deps \<Rightarrow> outbox_row \<Rightarrow> call_ctx \<Rightarrow> string \<Rightarrow> (string \<times> json) list \<Rightarrow> row_outcome svc" where
  "accept_receipt deps row ctx executionId receipt =
     (let check = validateRailReceipt (railKeyForActionType (action_kind row)) receipt
      in if \<not> vr_ok check
         then reconcile_row deps row (''invalid_rail_receipt: missing '' @ js_join '', '' (vr_missing check))
         else sbind (emit_row deps row ''agent'' ''payment_intent.execute.after''
                  [(''payment_intent_id'', JStr (ob_payment_intent_id row)), (''rail'', JStr (ob_rail row)),
                   (''execution_id'', JStr executionId), (''outbox_id'', JStr (ob_id row))]
                  [(''ok'', JBool True), (''rail_receipt'', JObj receipt),
                   (''gate_audit_before'', JStr (ob_audit_before_id row))]) (\<lambda>after.
              sthen (markDispatched (ob_id row) (JObj receipt) after executionId)
                (settleFromReceipt deps row ctx executionId receipt)))"

definition no_audit_before :: string where
  "no_audit_before = CHR 0xA7 # ''6 invariant violated: outbox row has no audit_before_id; refusing to dispatch''"

definition dispatch_guard :: "worker_deps \<Rightarrow> call_ctx \<Rightarrow> outbox_row \<Rightarrow> string option svc" where
  "dispatch_guard deps ctx row =
     (case wd_beforeDispatch deps of
        None \<Rightarrow> sret None
      | Some f \<Rightarrow> sbind (sget (f ctx row)) slift)"

definition receipt_object :: "json \<Rightarrow> (string \<times> json) list" where
  "receipt_object v = (case v of JObj kvs \<Rightarrow> kvs | _ \<Rightarrow> [])"

definition after_dispatch ::
  "worker_deps \<Rightarrow> outbox_row \<Rightarrow> call_ctx \<Rightarrow> string \<Rightarrow> js_error + (string \<times> json) list \<Rightarrow> row_outcome svc" where
  "after_dispatch deps row ctx executionId dispatched =
     (case dispatched of
        Inr receipt \<Rightarrow> accept_receipt deps row ctx executionId receipt
      | Inl err \<Rightarrow>
          (case permanentFailureReason err of
             Some permanent \<Rightarrow> failPermanently deps row ctx permanent
           | None \<Rightarrow> retry_row deps row (error_text err)))"

definition guarded_dispatch :: "worker_deps \<Rightarrow> outbox_row \<Rightarrow> call_ctx \<Rightarrow> string \<Rightarrow> row_outcome svc" where
  "guarded_dispatch deps row ctx executionId =
     sbind (dispatch_guard deps ctx row) (\<lambda>blocked.
     case blocked of
       Some reason \<Rightarrow> reconcile_row deps row (''dispatch_guard_blocked: '' @ reason)
     | None \<Rightarrow> sbind (dispatch_rail deps row ctx executionId) (after_dispatch deps row ctx executionId))"

definition processClaimedRow :: "worker_deps \<Rightarrow> outbox_row \<Rightarrow> row_outcome svc" where
  "processClaimedRow deps row =
     (let ctx = ctxForRow row (wd_workerId deps) in
      sbind (fresh_id ''exec_'') (\<lambda>executionId.
      if ob_audit_before_id row = [] then reconcile_row deps row no_audit_before
      else case (ob_rail_receipt row, ob_execution_id row) of
        (Some receipt, Some execution) \<Rightarrow> settleFromReceipt deps row ctx execution (receipt_object receipt)
      | _ \<Rightarrow> guarded_dispatch deps row ctx executionId))"

section \<open>The cycle\<close>

record cycle_result =
  cr_claimed :: nat
  cr_reclaimed :: nat
  cr_settled :: nat
  cr_retrying :: nat
  cr_reconciling :: nat
  cr_failed :: nat

definition tally :: "row_outcome \<Rightarrow> cycle_result \<Rightarrow> cycle_result" where
  "tally outcome c =
     (case outcome of
        Settled \<Rightarrow> c\<lparr>cr_settled := cr_settled c + 1\<rparr>
      | Retrying \<Rightarrow> c\<lparr>cr_retrying := cr_retrying c + 1\<rparr>
      | Reconciling \<Rightarrow> c\<lparr>cr_reconciling := cr_reconciling c + 1\<rparr>
      | Failed_row \<Rightarrow> c\<lparr>cr_failed := cr_failed c + 1\<rparr>)"

fun outbox_status_name :: "outbox_status \<Rightarrow> string" where
  "outbox_status_name Ob_pending = ''pending''"
| "outbox_status_name Ob_dispatching = ''dispatching''"
| "outbox_status_name Ob_dispatched = ''dispatched''"
| "outbox_status_name Ob_settled = ''settled''"
| "outbox_status_name Ob_failed = ''failed''"
| "outbox_status_name Ob_reconciling = ''reconciling''"

fun emit_reclaimed :: "worker_deps \<Rightarrow> (outbox_row \<times> outbox_status) list \<Rightarrow> unit svc" where
  "emit_reclaimed deps [] = sret ()"
| "emit_reclaimed deps ((row, prior) # rest) =
     sthen (emit_row deps row ''agent'' ''execution.outbox.reclaimed''
              [(''outbox_id'', JStr (ob_id row)), (''payment_intent_id'', JStr (ob_payment_intent_id row)),
               (''rail'', JStr (ob_rail row))]
              [(''prior_status'', JStr (outbox_status_name prior)),
               (''had_rail_receipt'', JBool (ob_rail_receipt row \<noteq> None)),
               (''attempt_count'', json_nat (ob_attempt_count row))])
       (emit_reclaimed deps rest)"

fun process_rows :: "worker_deps \<Rightarrow> outbox_row list \<Rightarrow> cycle_result \<Rightarrow> cycle_result svc" where
  "process_rows deps [] c = sret c"
| "process_rows deps (row # rest) c =
     sbind (processClaimedRow deps row) (\<lambda>outcome. process_rows deps rest (tally outcome c))"

definition runOutboxCycle :: "worker_deps \<Rightarrow> nat option \<Rightarrow> int option \<Rightarrow> cycle_result svc" where
  "runOutboxCycle deps limit staleSeconds =
     sbind (reclaimStale (wd_locked deps) (or_else staleSeconds 300)) (\<lambda>reclaimed.
     sthen (emit_reclaimed deps reclaimed)
    (sbind (claimNext (wd_locked deps) (wd_workerId deps) (or_else limit 10)) (\<lambda>rows.
     process_rows deps rows
       \<lparr>cr_claimed = length rows, cr_reclaimed = length reclaimed, cr_settled = 0, cr_retrying = 0,
        cr_reconciling = 0, cr_failed = 0\<rparr>)))"

end
