(* ===== verification/Payment_Intents.thy ===== *)
theory Payment_Intents
  imports Approvals Approval_Authority Outbox_Worker
begin

text \<open>
  The payment intent service (services/execution/src/payment-intents/PaymentIntentService.ts)
  with the actor resolver (members/ActorResolver.ts) and the executable action types
  (action-types.ts). Its loaders read databases and chains and are functions of the call context
  and the current world; the gate they feed is \<open>runPreExecutionGate\<close>. Rows are returned as they
  are: the renaming of fields in \<open>toRecord\<close> is not modelled. Times in events are milliseconds. Of an
  error the model keeps the code and the \<open>reason\<close> of its details; of an audit event not its
  before and after states nor its idempotency key; the detail of a refused approval is its reason.
\<close>

section \<open>Executable actions (action-types.ts) and rails\<close>

definition EXECUTABLE_PAYMENT_INTENT_ACTION_TYPES :: "string list" where
  "EXECUTABLE_PAYMENT_INTENT_ACTION_TYPES =
     [''ach_outbound'', ''ach_inbound'', ''wire'', ''onchain_transfer'', ''erp_writeback'', ''card_payment'',
      ''x402_settle'', ''escrow_release'']"

definition isExecutablePaymentIntentActionType :: "string option \<Rightarrow> bool" where
  "isExecutablePaymentIntentActionType a =
     (case a of None \<Rightarrow> False | Some t \<Rightarrow> t \<in> set EXECUTABLE_PAYMENT_INTENT_ACTION_TYPES)"

definition assertExecutablePaymentIntentActionType :: "string \<Rightarrow> unit svc" where
  "assertExecutablePaymentIntentActionType a =
     (if \<not> isExecutablePaymentIntentActionType (Some a)
      then sthrow (Brain_error ''action_type_not_executable'' None) else sret ())"

definition requiresExecutionReservation :: "string \<Rightarrow> bool" where
  "requiresExecutionReservation a \<longleftrightarrow> a \<noteq> ''x402_settle'' \<and> a \<noteq> ''escrow_release''"

definition EXECUTION_RESERVATION_TTL_MS :: int where
  "EXECUTION_RESERVATION_TTL_MS = 24 * 60 * 60 * 1000"

definition railFor :: "string \<Rightarrow> string svc" where
  "railFor a =
     (if a \<in> {''ach_outbound'', ''ach_inbound'', ''wire'', ''card_payment''} then sret ''bank_ach''
      else if a = ''onchain_transfer'' then sret ''onchain_base''
      else if a = ''x402_settle'' then sret ''x402_base''
      else if a = ''escrow_release'' then sret ''escrow_base''
      else if a = ''erp_writeback'' then sret ''erp_writeback''
      else sthrow (Brain_error ''action_type_not_executable'' None))"

section \<open>The actor resolver (ActorResolver.ts)\<close>

datatype identity_surface = Surf_slack | Surf_teams | Surf_email | Surf_platform

record member_lookup =
  ml_findMemberById :: "string \<Rightarrow> string \<Rightarrow> member_authority option loaded"
  ml_findMemberByEmail :: "string \<Rightarrow> string \<Rightarrow> member_authority option loaded"
  ml_findMemberByIdentityLink :: "string \<Rightarrow> identity_surface \<Rightarrow> string \<Rightarrow> member_authority option loaded"

record token_claims =
  tc_tenantId :: string
  tc_proposalId :: string
  tc_memberId :: "string option"
  tc_email :: "string option"
  tc_recipient :: "string option"

record actor_resolver =
  ar_members :: member_lookup
  ar_verifyEmailToken :: "(string \<Rightarrow> token_claims option loaded) option"

datatype resolve_input =
    Session_actor call_ctx json
  | Api_actor call_ctx "string option"
  | Surface_actor string identity_surface string
  | Email_actor string string string

definition actorUnresolved :: svc_error where
  "actorUnresolved = Brain_error ''payment_intent_approval_invalid'' (Some ''actor_unresolved'')"

definition toActorOrThrow ::
  "member_authority option \<Rightarrow> actor_verification \<Rightarrow> string option \<Rightarrow> actor_context svc" where
  "toActorOrThrow member verification assertedBy =
     (case member of
        None \<Rightarrow> sthrow actorUnresolved
      | Some m \<Rightarrow> sret \<lparr>ac_memberId = mb_id m, ac_email = mb_email m, ac_role = mb_role m,
                       ac_active = mb_active m, ac_verification = verification, ac_assertedBy = assertedBy\<rparr>)"

definition resolve_actor :: "actor_resolver \<Rightarrow> resolve_input \<Rightarrow> actor_context svc" where
  "resolve_actor ar input =
     (case input of
        Session_actor ctx payload \<Rightarrow>
          if cx_principalType ctx \<noteq> Some User then sthrow actorUnresolved
          else sbind (slift (ml_findMemberById (ar_members ar) (cx_tenantId ctx) (cx_actor ctx))) (\<lambda>m.
            toActorOrThrow m Ver_session None)
      | Api_actor ctx assertedActorId \<Rightarrow>
          (case assertedActorId of
             None \<Rightarrow> sthrow actorUnresolved
           | Some a \<Rightarrow>
               if a = [] then sthrow actorUnresolved
               else sbind (slift (ml_findMemberById (ar_members ar) (cx_tenantId ctx) a)) (\<lambda>m.
                 toActorOrThrow m Ver_tenant_asserted (Some (cx_actor ctx))))
      | Surface_actor t surface externalRef \<Rightarrow>
          sbind (slift (ml_findMemberByIdentityLink (ar_members ar) t surface externalRef)) (\<lambda>m.
            toActorOrThrow m Ver_surface_linked None)
      | Email_actor t proposalId token \<Rightarrow>
          (case ar_verifyEmailToken ar of
             None \<Rightarrow> sthrow actorUnresolved
           | Some verify \<Rightarrow> sbind (slift (verify token)) (\<lambda>claims. case claims of
               None \<Rightarrow> sthrow actorUnresolved
             | Some c \<Rightarrow>
                 if tc_tenantId c \<noteq> t \<or> tc_proposalId c \<noteq> proposalId then sthrow actorUnresolved
                 else sbind (slift (case tc_memberId c of
                          Some i \<Rightarrow> ml_findMemberById (ar_members ar) t i
                        | None \<Rightarrow> ml_findMemberByEmail (ar_members ar) t
                            (case tc_email c of Some e \<Rightarrow> e | None \<Rightarrow> or_else (tc_recipient c) []))) (\<lambda>m.
                   toActorOrThrow m Ver_signed_token None))))"

section \<open>Dependencies\<close>

record onchain_params =
  oc_smart_account :: string
  oc_holder :: string
  oc_target :: string
  oc_data :: string
  oc_value :: string
  oc_policy_version :: string

type_synonym 'a reads = "call_ctx \<Rightarrow> world \<Rightarrow> 'a"

record service_deps =
  ps_audit :: audit_emitter
  ps_outbox :: outbox_env
  ps_approvals :: approval_deps
  ps_db :: db_env
  ps_actorResolver :: "actor_resolver option"
  ps_members :: "member_lookup option"
  ps_resolveApprovalPayeeEmail :: "(gate_intent \<Rightarrow> string option loaded) reads option"
  ps_resolveAgent :: "(string \<Rightarrow> gate_agent option loaded) reads"
  ps_resolveTenantFlags :: "(string \<Rightarrow> bool loaded) reads option"
  ps_attestCounterpartyAgent :: "(string \<Rightarrow> string \<Rightarrow> string option \<Rightarrow> attestation loaded) reads option"
  ps_sumAgentWindowSpend :: "(string \<Rightarrow> int \<Rightarrow> string loaded) reads option"
  ps_resolveEscrowState :: "(string \<Rightarrow> string \<Rightarrow> resolved_escrow option loaded) reads option"
  ps_sumActiveReservations :: "(string \<Rightarrow> string loaded) reads option"
  ps_resolveEvidence :: "(gate_intent \<Rightarrow> resolved_evidence list loaded) reads option"
  ps_detectDuplicates :: "(duplicate_input \<Rightarrow> duplicate_result loaded) reads option"
  ps_resolveObligationConfidence :: "(string \<Rightarrow> rat option loaded) reads option"
  ps_resolveObligationDirection :: "(string \<Rightarrow> string option loaded) reads option"
  ps_resolveObligationProvenance :: "(string \<Rightarrow> string option loaded) reads option"
  ps_resolveAccount :: "(string \<Rightarrow> gate_account option loaded) reads"
  ps_resolveCounterparty :: "(string \<Rightarrow> gate_counterparty option loaded) reads"
  ps_evaluatePolicy :: "(gate_intent \<Rightarrow> gate_decision loaded) reads"
  ps_resolvePrincipal :: "gate_principal loaded reads"
  ps_resolveOnchainParams :: "(string \<Rightarrow> string \<Rightarrow> string \<Rightarrow> string \<Rightarrow> onchain_params option loaded) reads option"
  ps_enqueue :: bool
  ps_recordAgentSpend :: "(string \<Rightarrow> string \<Rightarrow> string \<Rightarrow> string \<Rightarrow> world \<Rightarrow> unit loaded) option"
  ps_fiatHumanApprovalFloorEnabled :: "bool option"
  ps_trustGateEnabled :: "bool option"
  ps_sha256_hex :: "string \<Rightarrow> string"

text \<open>\<open>await deps.loader(ctx, x)\<close>\<close>

definition load :: "('a \<Rightarrow> 'b loaded) reads \<Rightarrow> call_ctx \<Rightarrow> 'a \<Rightarrow> 'b svc" where
  "load f ctx x = sbind (sget (\<lambda>w. f ctx w x)) slift"

definition emit_event :: "service_deps \<Rightarrow> call_ctx \<Rightarrow> string \<Rightarrow> string \<Rightarrow> string \<Rightarrow> detail \<Rightarrow> detail \<Rightarrow> string option \<Rightarrow> string svc" where
  "emit_event deps ctx layer actor act inputs outputs decision_id =
     audit_emit (ps_audit deps)
       ((plain_event (cx_tenantId ctx) layer actor act inputs outputs)\<lparr>au_policyDecisionId := decision_id\<rparr>)"

definition announce :: "service_deps \<Rightarrow> string \<Rightarrow> unit svc" where
  "announce deps name = swhen (ps_enqueue deps) (log_event name)"

definition assert_intent_transition :: "intent_state \<Rightarrow> intent_state \<Rightarrow> unit svc" where
  "assert_intent_transition f t =
     (case assertPaymentIntentTransition f t of
        Inl code \<Rightarrow> sthrow (Brain_error code None) | Inr _ \<Rightarrow> sret ())"

definition invalid_state :: "'a svc" where
  "invalid_state = sthrow (Brain_error ''payment_intent_invalid_state'' None)"

fun intent_status_name :: "intent_state \<Rightarrow> string" where
  "intent_status_name Proposed = ''proposed''"
| "intent_status_name Pending_approval = ''pending_approval''"
| "intent_status_name Awaiting_second_approval = ''awaiting_second_approval''"
| "intent_status_name Approved = ''approved''"
| "intent_status_name Paused = ''paused''"
| "intent_status_name Dispatching = ''dispatching''"
| "intent_status_name Rejected = ''rejected''"
| "intent_status_name Executed = ''executed''"
| "intent_status_name Failed = ''failed''"
| "intent_status_name Cancelled = ''cancelled''"

definition requireIntent :: "call_ctx \<Rightarrow> string \<Rightarrow> intent_row svc" where
  "requireIntent ctx i =
     sbind (in_tx (findPaymentIntentById (cx_tenantId ctx) i)) (\<lambda>row.
     case row of
       None \<Rightarrow> sthrow (Brain_error ''payment_intent_not_found'' None)
     | Some r \<Rightarrow> sret r)"

section \<open>What the gate sees\<close>

definition gateSettlement :: "string \<Rightarrow> string \<Rightarrow> string \<Rightarrow> string option \<Rightarrow> settlement option" where
  "gateSettlement actionType currency amount payTo =
     (if actionType \<noteq> ''x402_settle'' then None
      else map_option (\<lambda>p. \<lparr>st_asset = currency, st_network = ''base'', st_amount = amount, st_pay_to = p\<rparr>) payTo)"

definition gateEscrow :: "string \<Rightarrow> string option \<Rightarrow> string option \<Rightarrow> escrow_ref option" where
  "gateEscrow actionType escrowId jobTermsHash =
     (if actionType \<noteq> ''escrow_release'' then None
      else case (escrowId, jobTermsHash) of
        (Some e, Some j) \<Rightarrow> Some \<lparr>es_escrowId = e, es_jobTermsHash = j\<rparr>
      | _ \<Rightarrow> None)"

definition intentToGate :: "intent_row \<Rightarrow> gate_intent" where
  "intentToGate r =
     \<lparr>gi_id = pi_id r, gi_owner_id = pi_owner_id r, gi_created_by_agent_id = pi_created_by_agent_id r,
      gi_action_type = pi_action_type r, gi_source_account_id = pi_source_account_id r,
      gi_destination_counterparty_id = pi_destination_counterparty_id r, gi_amount = pi_amount r,
      gi_currency = pi_currency r, gi_status = intent_status_name (pi_status r),
      gi_policy_decision_id = pi_policy_decision_id r, gi_evidence_ids = pi_evidence_ids r,
      gi_confidence = Some (pi_confidence r), gi_evidence_score = pi_evidence_score r,
      gi_risk_level = pi_risk_level r, gi_counterparty_trust_status = None,
      gi_invoice_id = pi_invoice_id r, gi_obligation_id = pi_obligation_id r,
      gi_settlement = gateSettlement (pi_action_type r) (pi_currency r) (pi_amount r) (pi_settlement_pay_to r),
      gi_escrow = gateEscrow (pi_action_type r) (pi_escrow_id r) (pi_job_terms_hash r)\<rparr>"

record create_input =
  ci_action_type :: string
  ci_source_account_id :: string
  ci_destination_counterparty_id :: string
  ci_amount :: string
  ci_currency :: string
  ci_obligation_id :: "string option"
  ci_invoice_id :: "string option"
  ci_agent_id :: "string option"
  ci_evidence_ids :: "string list option"
  ci_confidence :: "rat option"
  ci_evidence_score :: "rat option"
  ci_risk_level :: "string option"
  ci_pay_to :: "string option"
  ci_escrow_id :: "string option"
  ci_job_terms_hash :: "string option"
  ci_proposal_dedup_key :: "string option"

definition stubGateIntent :: "string \<Rightarrow> string \<Rightarrow> create_input \<Rightarrow> gate_intent" where
  "stubGateIntent i owner input =
     \<lparr>gi_id = i, gi_owner_id = owner, gi_created_by_agent_id = ci_agent_id input,
      gi_action_type = ci_action_type input, gi_source_account_id = ci_source_account_id input,
      gi_destination_counterparty_id = ci_destination_counterparty_id input, gi_amount = ci_amount input,
      gi_currency = ci_currency input, gi_status = ''proposed'', gi_policy_decision_id = None,
      gi_evidence_ids = or_else (ci_evidence_ids input) [], gi_confidence = ci_confidence input,
      gi_evidence_score = ci_evidence_score input, gi_risk_level = ci_risk_level input,
      gi_counterparty_trust_status = None, gi_invoice_id = ci_invoice_id input,
      gi_obligation_id = ci_obligation_id input,
      gi_settlement = gateSettlement (ci_action_type input) (ci_currency input) (ci_amount input) (ci_pay_to input),
      gi_escrow = gateEscrow (ci_action_type input) (ci_escrow_id input) (ci_job_terms_hash input)\<rparr>"

text \<open>The roles the approval service reports; reading them also marks superseded signatures stale.\<close>

definition approval_roles :: "call_ctx \<Rightarrow> world \<Rightarrow> string \<Rightarrow> int option \<Rightarrow> string list loaded" where
  "approval_roles ctx w i version =
     (case signedValidRoles ctx ''payment_intent'' i version w of
        (Inl _, _) \<Rightarrow> Inl ''signedValidRoles'' | (Inr roles, _) \<Rightarrow> Inr roles)"

definition linked :: "(string \<Rightarrow> string option loaded) \<Rightarrow> gate_intent \<Rightarrow> string option loaded" where
  "linked f intent = (case gi_obligation_id intent of None \<Rightarrow> Inr None | Some i \<Rightarrow> f i)"

definition gateDeps :: "service_deps \<Rightarrow> call_ctx \<Rightarrow> world \<Rightarrow> gate_deps" where
  "gateDeps deps ctx w =
     \<lparr>dp_resolveAgent = ps_resolveAgent deps ctx w, dp_resolveAccount = ps_resolveAccount deps ctx w,
      dp_resolveCounterparty = ps_resolveCounterparty deps ctx w,
      dp_evaluatePolicy = (\<lambda>intent dryRun. ps_evaluatePolicy deps ctx w intent),
      dp_resolveApprovals = approval_roles ctx w, dp_audit_emit = ps_audit deps, dp_traceCache = None,
      dp_sumActiveReservations = map_option (\<lambda>f. f ctx w) (ps_sumActiveReservations deps),
      dp_resolveEvidence = map_option (\<lambda>f. f ctx w) (ps_resolveEvidence deps),
      dp_detectDuplicates = map_option (\<lambda>f. f ctx w) (ps_detectDuplicates deps),
      dp_resolveTenantFlags = map_option (\<lambda>f. f ctx w) (ps_resolveTenantFlags deps),
      dp_attestCounterpartyAgent = map_option (\<lambda>f. f ctx w) (ps_attestCounterpartyAgent deps),
      dp_sumAgentWindowSpend = map_option (\<lambda>f. f ctx w) (ps_sumAgentWindowSpend deps),
      dp_resolveEscrowState = map_option (\<lambda>f. f ctx w) (ps_resolveEscrowState deps),
      dp_resolveObligationDirection = map_option (\<lambda>f. linked (f ctx w)) (ps_resolveObligationDirection deps),
      dp_resolveObligationProvenance = map_option (\<lambda>f. linked (f ctx w)) (ps_resolveObligationProvenance deps),
      dp_fiatHumanApprovalFloorEnabled = ps_fiatHumanApprovalFloorEnabled deps,
      dp_trustGateEnabled = ps_trustGateEnabled deps, dp_now = w_now w, dp_sha256_hex = ps_sha256_hex deps\<rparr>"

definition gate_input :: "call_ctx \<Rightarrow> gate_principal \<Rightarrow> gate_intent \<Rightarrow> run_gate_input" where
  "gate_input ctx prin intent =
     \<lparr>in_tenantId = cx_tenantId ctx, in_actor = cx_actor ctx, in_principal = prin, in_intent = intent,
      in_dryRun = None, in_runtimeBehaviorHash = None\<rparr>"

text \<open>The checks before the gate reads the approvals.\<close>

definition checks_3_to_10 ::
  "gate_deps \<Rightarrow> run_gate_input \<Rightarrow> gate_agent \<Rightarrow> gate_counterparty option \<Rightarrow> gate_decision \<Rightarrow> string gm" where
  "checks_3_to_10 deps inp agent preloaded decision =
     (let intent = in_intent inp in
      gseq (check_3_action_allowed decision)
     (gseq (check_3_5_onchain_permitted intent decision)
     (gbind (check_4_source_account deps intent) (\<lambda>account.
      gbind (check_5_counterparty deps intent preloaded) (\<lambda>cp.
      gseq (check_5_5_attested deps inp cp)
     (gseq (check_6_verified intent decision cp)
     (gseq (check_6_5_x402_context intent cp)
     (gseq (check_6_6_escrow_bound deps inp cp)
     (gseq (check_6_7_direction deps intent)
     (gseq (check_7_amount_limit intent decision)
     (gbind (check_7_5_ledger_bound deps account cp) (\<lambda>ledgerStateHash.
      gseq (check_8_balance deps intent account)
     (gseq (check_8_5_window_cap deps inp decision)
     (gseq (check_9_evidence_present intent decision)
     (gseq (check_9_5_evidence_supports deps intent agent decision)
     (gseq (check_10_determined decision)
     (gret ledgerStateHash)))))))))))))))))"

lemma gbind_assoc: "gbind (gbind m f) g = gbind m (\<lambda>x. gbind (f x) g)"
  by (rule ext) (auto simp: gbind_def split: prod.split gate_step.split)

lemma gseq_assoc: "gbind (gseq m n) g = gseq m (gbind n g)"
  by (simp add: gseq_def gbind_assoc)

lemma gret_bind: "gbind (gret x) f = f x"
  by (rule ext) (simp add: gbind_def gret_def)

lemma post_policy_split:
  "post_policy_checks deps inp agent preloaded decision =
     gbind (checks_3_to_10 deps inp agent preloaded decision) (\<lambda>ledgerStateHash.
       gseq (check_11_approval deps (in_intent inp) decision)
      (gseq (check_11_5_duplicates deps inp)
      (gseq (check_12_recorded decision)
       (gret ledgerStateHash))))"
  by (simp add: post_policy_checks_def checks_3_to_10_def Let_def gbind_assoc gseq_assoc gret_bind)

text \<open>The policy version the gate passes to the approval loader, when it reaches that call.\<close>

definition approvals_read :: "gate_deps \<Rightarrow> run_gate_input \<Rightarrow> int option option" where
  "approvals_read deps inp =
     (case pre_policy_checks deps inp [] of
        (Go (agent, preloaded), checks) \<Rightarrow>
          (case dp_evaluatePolicy deps (policy_intent (in_intent inp) preloaded) (is_dry_run inp) of
             Inl e \<Rightarrow> None
           | Inr decision \<Rightarrow>
               (case checks_3_to_10 deps inp agent preloaded decision checks of
                  (Go h, _) \<Rightarrow>
                    if gd_outcome decision = ''confirm''
                       \<or> requiresHardHumanApprovalFloor (in_intent inp) decision (dp_fiatHumanApprovalFloorEnabled deps)
                    then Some (gd_policy_version decision) else None
                | _ \<Rightarrow> None))
      | _ \<Rightarrow> None)"

definition gate_log :: "gate_effect list \<Rightarrow> effect list" where
  "gate_log effs = List.map_filter (\<lambda>e. case e of Audit_emitted ev \<Rightarrow> Some (Audited ev) | Trace_cached _ _ _ \<Rightarrow> None) effs"

text \<open>\<open>await runPreExecutionGate(this.gateDeps(ctx), ...)\<close> with its reads' and writes' effects.\<close>

definition run_gate :: "service_deps \<Rightarrow> call_ctx \<Rightarrow> gate_principal \<Rightarrow> gate_intent \<Rightarrow> gate_result svc" where
  "run_gate deps ctx prin intent w =
     (let gd = gateDeps deps ctx w; inp = gate_input ctx prin intent;
          (effs, result) = runPreExecutionGate gd inp;
          w1 = (case approvals_read gd inp of None \<Rightarrow> w
                | Some version \<Rightarrow> snd (signedValidRoles ctx ''payment_intent'' (gi_id intent) version w));
          w2 = w1\<lparr>w_log := w_log w1 @ gate_log effs\<rparr>
      in (case result of Inl e \<Rightarrow> (Inl (Thrown e), w2) | Inr r \<Rightarrow> (Inr r, w2)))"

section \<open>create\<close>

definition resolveEffectiveConfidence :: "service_deps \<Rightarrow> call_ctx \<Rightarrow> create_input \<Rightarrow> rat option svc" where
  "resolveEffectiveConfidence deps ctx input =
     (case (ci_obligation_id input, ps_resolveObligationConfidence deps) of
        (Some i, Some f) \<Rightarrow>
          sbind (load f ctx i) (\<lambda>found. case found of
            None \<Rightarrow> sthrow (Brain_error ''obligation_not_found'' None)
          | Some obligationConfidence \<Rightarrow>
              sret (Some (case ci_confidence input of
                            None \<Rightarrow> obligationConfidence | Some c \<Rightarrow> min c obligationConfidence)))
      | _ \<Rightarrow> sret (ci_confidence input))"

definition assertObligationDirectionPayable :: "service_deps \<Rightarrow> call_ctx \<Rightarrow> create_input \<Rightarrow> unit svc" where
  "assertObligationDirectionPayable deps ctx input =
     (case (ci_obligation_id input, ps_resolveObligationDirection deps) of
        (Some i, Some f) \<Rightarrow>
          sbind (load f ctx i) (\<lambda>direction.
            if direction \<noteq> Some ''payable'' then sthrow (Brain_error ''obligation_direction_invalid'' None) else sret ())
      | _ \<Rightarrow> sret ())"

definition assertSourceAccountExists :: "service_deps \<Rightarrow> call_ctx \<Rightarrow> create_input \<Rightarrow> unit svc" where
  "assertSourceAccountExists deps ctx input =
     sbind (load (ps_resolveAccount deps) ctx (ci_source_account_id input)) (\<lambda>account.
       if account = None then sthrow (Brain_error ''ledger_row_not_found'' None) else sret ())"

definition created_by :: "call_ctx \<Rightarrow> create_input \<Rightarrow> string option" where
  "created_by ctx input =
     (case ci_agent_id input of
        Some a \<Rightarrow> Some a
      | None \<Rightarrow> if cx_principalType ctx \<in> {None, Some Agent_principal} then Some (cx_actor ctx) else None)"

definition initial_status :: "service_deps \<Rightarrow> gate_intent \<Rightarrow> gate_decision \<Rightarrow> intent_state" where
  "initial_status deps stub decision =
     (if gd_outcome decision = ''reject'' then Rejected
      else if gd_outcome decision = ''allow''
              \<and> \<not> requiresHardHumanApprovalFloor stub decision (ps_fiatHumanApprovalFloorEnabled deps)
      then Approved else Pending_approval)"

definition new_intent ::
  "call_ctx \<Rightarrow> create_input \<Rightarrow> string \<Rightarrow> rat \<Rightarrow> gate_decision \<Rightarrow> intent_state \<Rightarrow> intent_row" where
  "new_intent ctx input i confidence decision status =
     \<lparr>pi_id = i, pi_owner_id = cx_tenantId ctx, pi_created_by_agent_id = created_by ctx input,
      pi_action_type = ci_action_type input, pi_source_account_id = ci_source_account_id input,
      pi_destination_counterparty_id = ci_destination_counterparty_id input, pi_amount = ci_amount input,
      pi_currency = ci_currency input, pi_obligation_id = ci_obligation_id input,
      pi_invoice_id = ci_invoice_id input, pi_status = status, pi_policy_decision_id = Some (gd_id decision),
      pi_approval_ids = [], pi_execution_receipt_ids = [],
      pi_evidence_ids = or_else (ci_evidence_ids input) [], pi_confidence = confidence,
      pi_evidence_score = ci_evidence_score input, pi_risk_level = ci_risk_level input,
      pi_proposal_dedup_key = ci_proposal_dedup_key input, pi_decision = None, pi_decision_audit_id = None,
      pi_decided_at = None,
      pi_settlement_pay_to = (if ci_action_type input = ''x402_settle'' then ci_pay_to input else None),
      pi_escrow_id = (if ci_action_type input = ''escrow_release'' \<and> ci_job_terms_hash input \<noteq> None
                      then ci_escrow_id input else None),
      pi_job_terms_hash = (if ci_action_type input = ''escrow_release'' \<and> ci_escrow_id input \<noteq> None
                           then ci_job_terms_hash input else None),
      pi_created_at = 0, pi_updated_at = 0\<rparr>"

definition decided_event ::
  "service_deps \<Rightarrow> call_ctx \<Rightarrow> string \<Rightarrow> detail \<Rightarrow> detail \<Rightarrow> gate_decision \<Rightarrow> unit svc" where
  "decided_event deps ctx act inputs outputs decision =
     sthen (audit_emit (ps_audit deps)
       ((plain_event (cx_tenantId ctx) ''agent'' (cx_actor ctx) act inputs outputs)
          \<lparr>au_policyDecisionId := Some (gd_id decision), au_policyCheckId := gd_matched_rule_id decision,
            au_outcome := Some (gd_outcome decision)\<rparr>))
       (sret ())"

text \<open>The insert with its recovery from a lost race on the dedup key.\<close>

definition insert_or_existing :: "service_deps \<Rightarrow> call_ctx \<Rightarrow> string option \<Rightarrow> (string \<Rightarrow> intent_row) \<Rightarrow> (intent_row + intent_row) svc" where
  "insert_or_existing deps ctx key row_of =
     scatch
       (sbind (in_tx (sbind (fresh_id ''pi_'') (\<lambda>i. insertPaymentIntent (ps_db deps) (row_of i))))
          (\<lambda>row. sret (Inr row)))
       (\<lambda>err. case key of
          None \<Rightarrow> sthrow err
        | Some k \<Rightarrow>
            if err = unique_violation
            then sbind (in_tx (findPaymentIntentByDedupKey (cx_tenantId ctx) k)) (\<lambda>found. case found of
                   Some row \<Rightarrow> sret (Inl row) | None \<Rightarrow> sthrow err)
            else sthrow err)"

definition announce_created ::
  "service_deps \<Rightarrow> call_ctx \<Rightarrow> create_input \<Rightarrow> gate_decision \<Rightarrow> intent_state \<Rightarrow> intent_row \<Rightarrow> intent_row svc" where
  "announce_created deps ctx input decision status row =
     sthen (decided_event deps ctx ''payment_intent.created''
              [(''action_type'', JStr (ci_action_type input)),
               (''source_account_id'', JStr (ci_source_account_id input)),
               (''destination_counterparty_id'', JStr (ci_destination_counterparty_id input)),
               (''amount'', JStr (ci_amount input)), (''currency'', JStr (ci_currency input))]
              [(''payment_intent_id'', JStr (pi_id row)), (''status'', JStr (intent_status_name (pi_status row))),
               (''policy_decision_id'', JStr (gd_id decision))] decision)
    (sthen (swhen (status = Approved)
              (decided_event deps ctx ''payment_intent.auto_approved'' [(''payment_intent_id'', JStr (pi_id row))]
                 [(''status'', JStr ''approved''), (''approval_mode'', JStr ''policy_auto_allow''),
                  (''policy_decision_id'', JStr (gd_id decision))] decision))
       (sret row))"

text \<open>What the policy is asked about: the intent as submitted, with the confidence to be stored.\<close>

definition create_stub :: "call_ctx \<Rightarrow> create_input \<Rightarrow> rat \<Rightarrow> gate_intent" where
  "create_stub ctx input c = stubGateIntent ''pi_PENDING'' (cx_tenantId ctx) (input\<lparr>ci_confidence := Some c\<rparr>)"

definition decide_and_store :: "service_deps \<Rightarrow> call_ctx \<Rightarrow> create_input \<Rightarrow> rat \<Rightarrow> intent_row svc" where
  "decide_and_store deps ctx input persistedConfidence =
     sbind (load (ps_evaluatePolicy deps) ctx (create_stub ctx input persistedConfidence)) (\<lambda>decision.
     let status = initial_status deps (create_stub ctx input persistedConfidence) decision in
     sbind (insert_or_existing deps ctx (ci_proposal_dedup_key input)
              (\<lambda>i. new_intent ctx input i persistedConfidence decision status)) (\<lambda>inserted.
     case inserted of
       Inl existing \<Rightarrow> sret existing
     | Inr row \<Rightarrow> announce_created deps ctx input decision status row))"

definition create_fresh :: "service_deps \<Rightarrow> call_ctx \<Rightarrow> create_input \<Rightarrow> intent_row svc" where
  "create_fresh deps ctx input =
     sthen (assertSourceAccountExists deps ctx input)
    (sbind (resolveEffectiveConfidence deps ctx input) (\<lambda>effectiveConfidence.
     sthen (assertObligationDirectionPayable deps ctx input)
       (decide_and_store deps ctx input (or_else effectiveConfidence 0))))"

definition create :: "service_deps \<Rightarrow> call_ctx \<Rightarrow> create_input \<Rightarrow> intent_row svc" where
  "create deps ctx input =
     sthen (assertExecutablePaymentIntentActionType (ci_action_type input))
    (if \<not> is_decimal (ci_amount input) \<or> ci_amount input = ''0''
     then sthrow (Brain_error ''request_body_invalid'' None)
     else case ci_proposal_dedup_key input of
       None \<Rightarrow> create_fresh deps ctx input
     | Some k \<Rightarrow>
         sbind (in_tx (findPaymentIntentByDedupKey (cx_tenantId ctx) k)) (\<lambda>existing.
         case existing of Some row \<Rightarrow> sret row | None \<Rightarrow> create_fresh deps ctx input))"

section \<open>get and list\<close>

definition get_intent :: "call_ctx \<Rightarrow> string \<Rightarrow> intent_row option svc" where
  "get_intent ctx i = in_tx (findPaymentIntentById (cx_tenantId ctx) i)"

definition list_intents :: "call_ctx \<Rightarrow> intent_state option \<Rightarrow> string option \<Rightarrow> nat option \<Rightarrow> intent_row list svc" where
  "list_intents ctx status agent_id limit =
     in_tx (listPaymentIntents (cx_tenantId ctx) status agent_id (min (or_else limit 50) 500))"

section \<open>Decisions by people\<close>

record approve_opts =
  ao_assertedActorId :: "string option"
  ao_payloadActorId :: json
  ao_surfaceIdentity :: "(identity_surface \<times> string) option"

definition resolveApprovalActor :: "service_deps \<Rightarrow> call_ctx \<Rightarrow> approve_opts \<Rightarrow> actor_context svc" where
  "resolveApprovalActor deps ctx opts =
     (case ps_actorResolver deps of
        None \<Rightarrow> sthrow (Brain_error ''internal_server_error'' None)
      | Some ar \<Rightarrow>
          (case ao_surfaceIdentity opts of
             Some (surface, externalRef) \<Rightarrow> resolve_actor ar (Surface_actor (cx_tenantId ctx) surface externalRef)
           | None \<Rightarrow>
               if cx_principalType ctx = Some Api_partner
               then resolve_actor ar (Api_actor ctx (ao_assertedActorId opts))
               else resolve_actor ar (Session_actor ctx (ao_payloadActorId opts))))"

fun verification_name :: "actor_verification \<Rightarrow> string" where
  "verification_name Ver_session = ''session''"
| "verification_name Ver_idp_verified = ''idp_verified''"
| "verification_name Ver_surface_linked = ''surface_linked''"
| "verification_name Ver_signed_token = ''signed_token''"
| "verification_name Ver_tenant_asserted = ''tenant_asserted''"

fun rejection_name :: "rejection_reason \<Rightarrow> string" where
  "rejection_name Actor_unresolved = ''actor_unresolved''"
| "rejection_name Actor_inactive = ''actor_inactive''"
| "rejection_name Domain_not_authorized = ''domain_not_authorized''"
| "rejection_name Actor_limit_exceeded = ''actor_limit_exceeded''"
| "rejection_name Second_approval_required = ''second_approval_required''"
| "rejection_name Self_approval_blocked = ''self_approval_blocked''"
| "rejection_name Last_admin_protected = ''last_admin_protected''"

fun role_name :: "member_role \<Rightarrow> string" where
  "role_name Role_admin = ''admin''"
| "role_name Role_approver = ''approver''"
| "role_name Role_viewer = ''viewer''"

definition actor_json :: "actor_context \<Rightarrow> json" where
  "actor_json a = JObj [(''member_id'', JStr (ac_memberId a)), (''verification'', JStr (verification_name (ac_verification a)))]"

definition approvals_json :: "actor_context \<Rightarrow> approval_row \<Rightarrow> json" where
  "approvals_json a row = JArr [JObj [(''member_id'', JStr (ac_memberId a)), (''at'', JNum (of_int (ap_signed_at row))),
     (''verification'', JStr (verification_name (ac_verification a)))]]"

definition emitApprovalRejected ::
  "service_deps \<Rightarrow> call_ctx \<Rightarrow> intent_row \<Rightarrow> actor_context option \<Rightarrow> string \<Rightarrow> unit svc" where
  "emitApprovalRejected deps ctx intent actor reason =
     sthen (emit_event deps ctx ''agent'' (case actor of None \<Rightarrow> cx_actor ctx | Some a \<Rightarrow> ac_memberId a)
              ''approval_rejected''
              [(''payment_intent_id'', JStr (pi_id intent)), (''reason'', JStr reason),
               (''actor'', case actor of None \<Rightarrow> JNull | Some a \<Rightarrow> actor_json a)]
              [(''status'', JStr (intent_status_name (pi_status intent))),
               (''detail'', JObj [(''reason'', JStr reason)])] None)
       (sret ())"

definition emitProposalDecisionAudit ::
  "service_deps \<Rightarrow> call_ctx \<Rightarrow> intent_row \<Rightarrow> string \<Rightarrow> string \<Rightarrow> intent_state \<Rightarrow> decision_stamp svc" where
  "emitProposalDecisionAudit deps ctx intent actorId decision status =
     sbind (emit_event deps ctx ''agent'' actorId ''proposal.decided''
              [(''proposal_id'', JStr (pi_id intent)), (''decision'', JStr decision)]
              [(''status'', JStr (intent_status_name status)), (''payment_intent_id'', JStr (pi_id intent))] None) (\<lambda>i.
     sbind (sget w_now) (\<lambda>now.
     sret \<lparr>dn_value = decision, dn_auditId = i, dn_decidedAt = now\<rparr>))"

text \<open>One guarded, conditional transition in its own transaction; a row that moved meanwhile is an error.\<close>

definition move_intent ::
  "call_ctx \<Rightarrow> string \<Rightarrow> intent_state \<Rightarrow> intent_state \<Rightarrow> decision_stamp option \<Rightarrow> intent_row svc" where
  "move_intent ctx i f to stamp =
     sbind (in_tx (sthen (assert_intent_transition f to) (transitionPaymentIntent (cx_tenantId ctx) i f to stamp)))
       (\<lambda>updated. case updated of None \<Rightarrow> invalid_state | Some row \<Rightarrow> sret row)"

definition approval_authorization ::
  "service_deps \<Rightarrow> call_ctx \<Rightarrow> intent_row \<Rightarrow> actor_context \<Rightarrow> (gate_decision \<times> authorization) svc" where
  "approval_authorization deps ctx intent actor =
     sbind (case ps_members deps of None \<Rightarrow> sret None
            | Some ml \<Rightarrow> slift (ml_findMemberById ml (cx_tenantId ctx) (ac_memberId actor))) (\<lambda>member.
     sbind (list_approvals ctx ''payment_intent'' (pi_id intent)) (\<lambda>existingApprovals.
     sbind (load (ps_evaluatePolicy deps) ctx (intentToGate intent)) (\<lambda>fresh.
     sbind (load (ps_resolveCounterparty deps) ctx (pi_destination_counterparty_id intent)) (\<lambda>counterparty.
     sbind (case ps_resolveApprovalPayeeEmail deps of None \<Rightarrow> sret None
            | Some f \<Rightarrow> load f ctx (intentToGate intent)) (\<lambda>payeeEmail.
     let payeeKind = paymentIntentPayeeKind (pi_action_type intent) (map_option cp_type counterparty)
     in sret (fresh, authorizeApproval
          \<lparr>az_actor = actor, az_member = member,
           az_proposal = \<lparr>ds_domain = paymentIntentApprovalDomain (pi_action_type intent) payeeKind,
                          ds_amountCents = decimalAmountToCents (pi_amount intent),
                          ds_payeeKind = payeeKind, ds_payeeEmail = payeeEmail\<rparr>,
           az_existingApproverMemberIds = map ap_approver_principal_id existingApprovals,
           az_requiredDistinctApprovals = max 1 (int (length (gd_required_approvers fresh)))\<rparr>))))))"

definition record_approval ::
  "service_deps \<Rightarrow> call_ctx \<Rightarrow> intent_row \<Rightarrow> actor_context \<Rightarrow> gate_decision \<Rightarrow> bool \<Rightarrow> member_role \<Rightarrow> intent_row svc" where
  "record_approval deps ctx intent actor fresh requiresAdditionalApproval approverRole =
     (let i = pi_id intent; t = cx_tenantId ctx;
          approvalCtx = ctx\<lparr>cx_actor := ac_memberId actor, cx_principalType := Some User\<rparr> in
      sbind (sign (ps_approvals deps) approvalCtx ''payment_intent'' i (Some (role_name approverRole)) None) (\<lambda>approval.
      sthen (in_tx (appendApprovalId t i (ap_id approval)))
     (if requiresAdditionalApproval
      then sbind (emitProposalDecisionAudit deps ctx intent (ac_memberId actor) ''approve'' Awaiting_second_approval) (\<lambda>stamp.
           sbind (move_intent ctx i Pending_approval Awaiting_second_approval (Some stamp)) (\<lambda>updated.
           sthen (emit_event deps ctx ''agent'' (ac_memberId actor) ''proposal.awaiting_second_approval''
                    [(''payment_intent_id'', JStr i), (''approval_id'', JStr (ap_id approval))]
                    [(''status'', JStr ''awaiting_second_approval''), (''actor'', actor_json actor),
                     (''approvals'', approvals_json actor approval)] (Some (gd_id fresh)))
          (sthen (announce deps ''proposal.awaiting_second_approval'')
             (sret updated))))
      else sbind (emitProposalDecisionAudit deps ctx intent (ac_memberId actor) ''approve'' Approved) (\<lambda>stamp.
           sbind (move_intent ctx i (pi_status intent) Approved (Some stamp)) (\<lambda>updated.
           sthen (emit_event deps ctx ''agent'' (ac_memberId actor) ''payment_intent.approved''
                    [(''payment_intent_id'', JStr i), (''approval_id'', JStr (ap_id approval))]
                    [(''status'', JStr ''approved''),
                     (''required_approvers'', JArr (map JStr (gd_required_approvers fresh))),
                     (''actor'', actor_json actor), (''approvals'', approvals_json actor approval)] (Some (gd_id fresh)))
             (sret updated))))))"

definition decide_approval :: "service_deps \<Rightarrow> call_ctx \<Rightarrow> intent_row \<Rightarrow> actor_context \<Rightarrow> intent_row svc" where
  "decide_approval deps ctx intent actor =
     sbind (approval_authorization deps ctx intent actor) (\<lambda>(fresh, authorization).
     case authorization of
       Refused reason \<Rightarrow>
         sthen (emitApprovalRejected deps ctx intent (Some actor) (rejection_name reason))
           (sthrow (Brain_error ''payment_intent_approval_invalid'' (Some (rejection_name reason))))
     | Authorized again role \<Rightarrow> record_approval deps ctx intent actor fresh again role)"

text \<open>The \<open>catch\<close> of \<open>approve\<close>: an unresolved actor is audited, every error is thrown on.\<close>

definition audit_unresolved ::
  "service_deps \<Rightarrow> call_ctx \<Rightarrow> intent_row \<Rightarrow> actor_context option \<Rightarrow> svc_error \<Rightarrow> 'a svc" where
  "audit_unresolved deps ctx intent actor err =
     sthen (case err of
              Brain_error code (Some reason) \<Rightarrow>
                swhen (reason = ''actor_unresolved'') (emitApprovalRejected deps ctx intent actor ''actor_unresolved'')
            | _ \<Rightarrow> sret ())
       (sthrow err)"

definition approve :: "service_deps \<Rightarrow> call_ctx \<Rightarrow> string \<Rightarrow> approve_opts \<Rightarrow> intent_row svc" where
  "approve deps ctx i opts =
     sbind (requireIntent ctx i) (\<lambda>intent.
     if pi_status intent \<noteq> Pending_approval \<and> pi_status intent \<noteq> Awaiting_second_approval then invalid_state
     else sbind (scatch (resolveApprovalActor deps ctx opts) (audit_unresolved deps ctx intent None)) (\<lambda>actor.
          scatch (decide_approval deps ctx intent actor) (audit_unresolved deps ctx intent (Some actor))))"

definition reject :: "service_deps \<Rightarrow> call_ctx \<Rightarrow> string \<Rightarrow> string option \<Rightarrow> intent_row svc" where
  "reject deps ctx i reason =
     sbind (requireIntent ctx i) (\<lambda>intent.
     if pi_status intent \<notin> {Pending_approval, Awaiting_second_approval, Proposed, Approved} then invalid_state
     else sthen (assert_intent_transition (pi_status intent) Rejected)
         (sbind (emitProposalDecisionAudit deps ctx intent (cx_actor ctx) ''reject'' Rejected) (\<lambda>stamp.
          sbind (in_tx (transitionPaymentIntent (cx_tenantId ctx) i (pi_status intent) Rejected (Some stamp))) (\<lambda>updated.
          case updated of
            None \<Rightarrow> invalid_state
          | Some row \<Rightarrow>
              sthen (emit_event deps ctx ''agent'' (cx_actor ctx) ''payment_intent.rejected''
                       [(''payment_intent_id'', JStr i), (''reason'', json_opt reason)]
                       [(''status'', JStr ''rejected'')] None)
             (sthen (announce deps ''payment.failed'')
                (sret row))))))"

text \<open>\<open>cancel\<close> and \<open>pause\<close>: assert, move, audit.\<close>

definition simple_move ::
  "service_deps \<Rightarrow> call_ctx \<Rightarrow> string \<Rightarrow> intent_state \<Rightarrow> intent_state \<Rightarrow> string \<Rightarrow> intent_row svc" where
  "simple_move deps ctx i f to act =
     sthen (assert_intent_transition f to)
    (sbind (in_tx (transitionPaymentIntent (cx_tenantId ctx) i f to None)) (\<lambda>updated.
     case updated of
       None \<Rightarrow> invalid_state
     | Some row \<Rightarrow>
         sthen (emit_event deps ctx ''agent'' (cx_actor ctx) act [(''payment_intent_id'', JStr i)]
                  [(''status'', JStr (intent_status_name to))] None)
           (sret row)))"

definition cancel :: "service_deps \<Rightarrow> call_ctx \<Rightarrow> string \<Rightarrow> intent_row svc" where
  "cancel deps ctx i =
     sbind (requireIntent ctx i) (\<lambda>intent.
     if pi_status intent \<noteq> Proposed \<and> pi_status intent \<noteq> Pending_approval then invalid_state
     else simple_move deps ctx i (pi_status intent) Cancelled ''payment_intent.cancelled'')"

definition pause :: "service_deps \<Rightarrow> call_ctx \<Rightarrow> string \<Rightarrow> intent_row svc" where
  "pause deps ctx i =
     sbind (requireIntent ctx i) (\<lambda>intent.
     if pi_status intent \<noteq> Approved then invalid_state
     else simple_move deps ctx i Approved Paused ''payment_intent.paused'')"

definition pauseByAgent :: "service_deps \<Rightarrow> call_ctx \<Rightarrow> string \<Rightarrow> string list svc" where
  "pauseByAgent deps ctx agentId =
     sbind (in_tx (pauseApprovedPaymentIntentsByAgent (cx_tenantId ctx) agentId)) (\<lambda>paused.
     sthen (emit_event deps ctx ''agent'' (cx_actor ctx) ''agent.halted'' [(''agent_id'', JStr agentId)]
              [(''paused_count'', json_nat (length paused)), (''paused_intent_ids'', JArr (map JStr paused))] None)
       (sret paused))"

definition failed_check_json :: "gate_check \<Rightarrow> json" where
  "failed_check_json c = JObj [(''index'', JNum (gk_index c)), (''passed'', JBool (gk_passed c)),
     (''detail'', JObj (or_else (gk_detail c) []))]"

definition resume :: "service_deps \<Rightarrow> call_ctx \<Rightarrow> string \<Rightarrow> intent_row svc" where
  "resume deps ctx i =
     sbind (requireIntent ctx i) (\<lambda>intent.
     if pi_status intent \<noteq> Paused then invalid_state
     else sbind (sbind (sget (ps_resolvePrincipal deps ctx)) slift) (\<lambda>prin.
          sbind (run_gate deps ctx prin (intentToGate intent)) (\<lambda>gate.
          case gate of
            Gate_failed gf \<Rightarrow>
              sthen (emit_event deps ctx ''agent'' (cx_actor ctx) ''payment_intent.resume.gate_failed''
                       [(''payment_intent_id'', JStr i)]
                       [(''ok'', JBool False), (''failed_check'', failed_check_json (gf_failedCheck gf))] None)
                (sthrow (Brain_error ''payment_intent_gate_failed'' None))
          | Gate_ok ok \<Rightarrow> simple_move deps ctx i Paused Approved ''payment_intent.resumed'')))"

section \<open>execute: the gate, then the durable hand-off\<close>

text \<open>Decimal amount to USDC base units: the fraction is cut or padded to six digits.\<close>

definition escrow_units :: "string \<Rightarrow> string svc" where
  "escrow_units amount =
     (let parts = js_split CHR ''.'' amount;
          intPart = hd parts;
          fracPart = pad_end 6 CHR ''0'' (take 6 (if length parts > 1 then parts ! 1 else []))
      in case (js_BigInt intPart, js_BigInt fracPart) of
           (Some i, Some f) \<Rightarrow> sret (show_int (i * 1000000 + f))
         | _ \<Rightarrow> sthrow (Thrown ''SyntaxError''))"

definition onchain_fields :: "service_deps \<Rightarrow> call_ctx \<Rightarrow> intent_row \<Rightarrow> (string \<times> json) list svc" where
  "onchain_fields deps ctx intent =
     (if pi_action_type intent \<noteq> ''onchain_transfer'' then sret []
      else case ps_resolveOnchainParams deps of
        None \<Rightarrow> sret []
      | Some f \<Rightarrow>
          sbind (sbind (sget (\<lambda>w. f ctx w (pi_source_account_id intent) (pi_destination_counterparty_id intent)
                                   (pi_amount intent) (pi_currency intent))) slift) (\<lambda>onchain.
          case onchain of
            None \<Rightarrow> sret []
          | Some p \<Rightarrow> sret [(''smart_account'', JStr (oc_smart_account p)), (''holder'', JStr (oc_holder p)),
              (''target'', JStr (oc_target p)), (''data'', JStr (oc_data p)), (''value'', JStr (oc_value p)),
              (''policy_version'', JStr (oc_policy_version p))]))"

definition x402_fields :: "intent_row \<Rightarrow> (string \<times> json) list" where
  "x402_fields intent =
     (if pi_action_type intent \<noteq> ''x402_settle'' then []
      else [(''asset'', JStr (pi_currency intent)), (''network'', JStr ''base'')]
         @ (case pi_settlement_pay_to intent of None \<Rightarrow> [] | Some p \<Rightarrow> [(''pay_to'', JStr p)]))"

definition escrow_fields :: "intent_row \<Rightarrow> (string \<times> json) list svc" where
  "escrow_fields intent =
     (if pi_action_type intent \<noteq> ''escrow_release'' then sret []
      else sbind (escrow_units (pi_amount intent)) (\<lambda>units. sret
         ((case pi_escrow_id intent of None \<Rightarrow> [] | Some e \<Rightarrow> [(''escrow_id'', JStr e)])
        @ (case pi_job_terms_hash intent of None \<Rightarrow> [] | Some j \<Rightarrow> [(''job_terms_hash'', JStr j)])
        @ [(''amount_units'', JStr units)])))"

definition rail_payload :: "service_deps \<Rightarrow> call_ctx \<Rightarrow> intent_row \<Rightarrow> (string \<times> json) list svc" where
  "rail_payload deps ctx intent =
     sbind (onchain_fields deps ctx intent) (\<lambda>onchain.
     sbind (escrow_fields intent) (\<lambda>escrow.
     sret ([(''kind'', JStr (pi_action_type intent)), (''source_account_id'', JStr (pi_source_account_id intent)),
            (''destination_counterparty_id'', JStr (pi_destination_counterparty_id intent)),
            (''amount'', JStr (pi_amount intent)), (''currency'', JStr (pi_currency intent))]
          @ onchain @ x402_fields intent @ escrow)))"

text \<open>The ledger reservation of the hand-off; without funds it throws and the transaction rolls back.\<close>

fun reserve_failure_name :: "reserve_failure \<Rightarrow> string" where
  "reserve_failure_name Account_not_found = ''account_not_found''"
| "reserve_failure_name Account_inactive = ''account_inactive''"
| "reserve_failure_name Currency_mismatch = ''currency_mismatch''"
| "reserve_failure_name Available_balance_missing = ''available_balance_missing''"
| "reserve_failure_name Insufficient_balance = ''insufficient_balance''"

definition execution_reservation ::
  "string \<Rightarrow> intent_row \<Rightarrow> gate_principal \<Rightarrow> string \<Rightarrow> string \<Rightarrow> int \<Rightarrow> reservation_row" where
  "execution_reservation t intent prin decision i now =
     \<lparr>rv_id = i, rv_owner_id = t, rv_account_id = pi_source_account_id intent, rv_amount = pi_amount intent,
      rv_currency = pi_currency intent, rv_payment_intent_id = pi_id intent, rv_policy_decision_id = decision,
      rv_reserving_agent_id = or_else (pi_created_by_agent_id intent) (gp_id prin),
      rv_reserved_until = now + EXECUTION_RESERVATION_TTL_MS, rv_status = Res_active, rv_created_at = now\<rparr>"

definition reserve_funds ::
  "service_deps \<Rightarrow> call_ctx \<Rightarrow> intent_row \<Rightarrow> gate_principal \<Rightarrow> string \<Rightarrow> string option svc" where
  "reserve_funds deps ctx intent prin decision =
     (if \<not> requiresExecutionReservation (pi_action_type intent) then sret None
      else sbind (fresh_id ''rsv_'') (\<lambda>i.
           sbind (sget w_now) (\<lambda>now.
           sbind (reserveIfAvailable (ps_db deps) (cx_tenantId ctx)
                    (execution_reservation (cx_tenantId ctx) intent prin decision i now)) (\<lambda>result.
           case result of
             Inr row \<Rightarrow> sret (Some (rv_id row))
           | Inl reason \<Rightarrow> sthrow (Brain_error
               (if reason = Available_balance_missing \<or> reason = Account_not_found
                then ''ledger_balance_unavailable'' else ''insufficient_balance'')
               (Some (reserve_failure_name reason)))))))"

datatype handoff = Handed_off string "string option" | Moved_away string

text \<open>One transaction: approved to dispatching, the reservation, the outbox row; all of them or none.\<close>

definition hand_off ::
  "service_deps \<Rightarrow> call_ctx \<Rightarrow> intent_row \<Rightarrow> gate_principal \<Rightarrow> gate_success \<Rightarrow> string
    \<Rightarrow> (string \<times> json) list \<Rightarrow> handoff svc" where
  "hand_off deps ctx intent prin gate rail payload =
     sthen (assert_intent_transition Approved Dispatching)
    (sbind (transitionPaymentIntent (cx_tenantId ctx) (pi_id intent) Approved Dispatching None) (\<lambda>moved.
     case moved of
       None \<Rightarrow>
         sbind (findPaymentIntentById (cx_tenantId ctx) (pi_id intent)) (\<lambda>cur.
         sret (Moved_away (case cur of None \<Rightarrow> ''missing'' | Some r \<Rightarrow> intent_status_name (pi_status r))))
     | Some m \<Rightarrow>
         sbind (reserve_funds deps ctx intent prin (gs_policyDecisionId gate)) (\<lambda>reservation.
         sbind (enqueue (ps_outbox deps) (cx_tenantId ctx)
                  \<lparr>en_paymentIntentId = pi_id intent, en_rail = rail,
                   en_idempotencyKey = ''pi:'' @ pi_id intent @ '':'' @ gs_policyDecisionId gate,
                   en_payload = payload, en_auditBeforeId = gs_auditBeforeEventId gate,
                   en_reservationId = reservation\<rparr>) (\<lambda>enq.
         sret (Handed_off (er_id enq) reservation)))))"

record execute_result =
  xr_payment_intent_id :: string
  xr_outbox_id :: string
  xr_rail :: string
  xr_status :: string

definition detail_reason :: "gate_check \<Rightarrow> string option" where
  "detail_reason c = (case map_of (or_else (gk_detail c) []) ''reason'' of Some (JStr r) \<Rightarrow> Some r | _ \<Rightarrow> None)"

definition gate_refused :: "service_deps \<Rightarrow> call_ctx \<Rightarrow> string \<Rightarrow> gate_check \<Rightarrow> 'a svc" where
  "gate_refused deps ctx i failed =
     sthen (emit_event deps ctx ''agent'' (cx_actor ctx) ''payment_intent.execute.after''
              [(''payment_intent_id'', JStr i)]
              [(''ok'', JBool False), (''failed_check'', failed_check_json failed), (''gate_failed'', JBool True)] None)
       (sthrow (Brain_error ''payment_intent_gate_failed'' (detail_reason failed)))"

definition execute_passed ::
  "service_deps \<Rightarrow> call_ctx \<Rightarrow> string \<Rightarrow> intent_row \<Rightarrow> gate_principal \<Rightarrow> gate_success \<Rightarrow> execute_result svc" where
  "execute_passed deps ctx i intent prin gate =
     sbind (railFor (pi_action_type intent)) (\<lambda>rail.
     sbind (rail_payload deps ctx intent) (\<lambda>payload.
     sbind (in_tx (hand_off deps ctx intent prin gate rail payload)) (\<lambda>handoff.
     case handoff of
       Moved_away status \<Rightarrow>
         sthen (emit_event deps ctx ''agent'' (cx_actor ctx) ''payment_intent.execute.after''
                  [(''payment_intent_id'', JStr i)]
                  [(''ok'', JBool False), (''aborted'', JBool True), (''status'', JStr status)]
                  (Some (gs_policyDecisionId gate)))
           invalid_state
     | Handed_off outboxId reservationId \<Rightarrow>
         sthen (emit_event deps ctx ''agent'' (cx_actor ctx) ''payment_intent.execute.enqueued''
                  [(''payment_intent_id'', JStr i), (''rail'', JStr rail)]
                  [(''ok'', JBool True), (''status'', JStr ''dispatching''), (''outbox_id'', JStr outboxId),
                   (''reservation_id'', json_opt reservationId),
                   (''gate_audit_before'', JStr (gs_auditBeforeEventId gate))]
                  (Some (gs_policyDecisionId gate)))
           (sret \<lparr>xr_payment_intent_id = pi_id intent, xr_outbox_id = outboxId, xr_rail = rail,
                  xr_status = ''dispatching''\<rparr>))))"

definition execute :: "service_deps \<Rightarrow> call_ctx \<Rightarrow> string \<Rightarrow> execute_result svc" where
  "execute deps ctx i =
     sbind (requireIntent ctx i) (\<lambda>intent.
     if pi_status intent \<noteq> Approved then invalid_state
     else sbind (sbind (sget (ps_resolvePrincipal deps ctx)) slift) (\<lambda>prin.
          sbind (run_gate deps ctx prin (intentToGate intent)) (\<lambda>gate.
          case gate of
            Gate_failed gf \<Rightarrow> gate_refused deps ctx i (gf_failedCheck gf)
          | Gate_ok gs \<Rightarrow> execute_passed deps ctx i intent prin gs)))"

section \<open>The worker's callbacks\<close>

definition required_move ::
  "string \<Rightarrow> string \<Rightarrow> intent_state \<Rightarrow> intent_state \<Rightarrow> unit svc" where
  "required_move t i f to =
     sthen (assert_intent_transition f to)
    (sbind (transitionPaymentIntent t i f to None) (\<lambda>moved.
     case moved of None \<Rightarrow> invalid_state | Some r \<Rightarrow> sret ()))"

definition on_reservation :: "string option \<Rightarrow> (string \<Rightarrow> unit svc) \<Rightarrow> unit svc" where
  "on_reservation r f = (case r of None \<Rightarrow> sret () | Some i \<Rightarrow> f i)"

definition record_spend :: "service_deps \<Rightarrow> call_ctx \<Rightarrow> intent_row \<Rightarrow> unit svc" where
  "record_spend deps ctx current =
     (case (ps_recordAgentSpend deps, pi_created_by_agent_id current) of
        (Some f, Some agent) \<Rightarrow>
          sbind (sget (f (cx_tenantId ctx) agent (pi_amount current) (pi_currency current))) slift
      | _ \<Rightarrow> sret ())"

definition settle_tx :: "service_deps \<Rightarrow> call_ctx \<Rightarrow> complete_args \<Rightarrow> intent_row \<Rightarrow> unit svc" where
  "settle_tx deps ctx args current =
     (let t = cx_tenantId ctx; i = co_paymentIntentId args; x = co_executionId args in
      sthen (insertExecution
        \<lparr>ex_id = x, ex_tenant_id = t, ex_proposal_id = i, ex_rail = co_rail args, ex_status = Exec_dispatched,
         ex_idempotency_key = Some (co_idempotencyKey args), ex_rail_receipt = None, ex_completed_at = None\<rparr>)
     (sthen (setExecutionReceipt t x (JObj (co_railReceipt args)))
     (sthen (transitionExecution t x Exec_dispatched Exec_in_flight)
     (sthen (required_move t i Dispatching Executed)
     (sthen (transitionExecution t x Exec_in_flight Exec_completed)
     (sthen (appendExecutionReceiptId t i x)
     (sthen (on_reservation (co_reservationId args) (consumeReservation t))
       (record_spend deps ctx current))))))))"

definition completeExecution :: "service_deps \<Rightarrow> call_ctx \<Rightarrow> complete_args \<Rightarrow> unit svc" where
  "completeExecution deps ctx args =
     sbind (in_tx
       (sbind (findPaymentIntentById (cx_tenantId ctx) (co_paymentIntentId args)) (\<lambda>row.
        case row of
          None \<Rightarrow> sthrow (Brain_error ''payment_intent_not_found'' None)
        | Some current \<Rightarrow>
            if pi_status current = Executed then sret False
            else if pi_status current \<noteq> Dispatching then invalid_state
            else if or_else (pi_policy_decision_id current) [] = [] then invalid_state
            else sthen (settle_tx deps ctx args current) (sret True)))) (\<lambda>emitted.
     swhen emitted
       (sthen (emit_event deps ctx ''execution'' (cx_actor ctx) ''payment_intent.executed''
                 [(''payment_intent_id'', JStr (co_paymentIntentId args)), (''execution_id'', JStr (co_executionId args))]
                 [(''status'', JStr ''executed''), (''rail'', JStr (co_rail args))] None)
          (sret ())))"

definition failExecution :: "service_deps \<Rightarrow> call_ctx \<Rightarrow> string \<Rightarrow> string option \<Rightarrow> unit svc" where
  "failExecution deps ctx i reservationId =
     sthen (in_tx (sthen (required_move (cx_tenantId ctx) i Dispatching Failed)
                     (on_reservation reservationId (releaseReservation (cx_tenantId ctx)))))
    (sthen (emit_event deps ctx ''execution'' (cx_actor ctx) ''payment_intent.failed''
              [(''payment_intent_id'', JStr i)] [(''status'', JStr ''failed'')] None)
       (sret ()))"

section \<open>Replay investigation\<close>

record investigation =
  iv_payment_intent :: intent_row
  iv_executions :: "execution_row list"
  iv_policy_decision_id :: "string option"
  iv_evidence_ids :: "string list"

fun find_executions :: "string \<Rightarrow> string list \<Rightarrow> execution_row list svc" where
  "find_executions t [] = sret []"
| "find_executions t (x # xs) =
     sbind (findExecution t x) (\<lambda>ex.
     sbind (find_executions t xs) (\<lambda>rest.
     sret (case ex of None \<Rightarrow> rest | Some e \<Rightarrow> e # rest)))"

definition replayInvestigation :: "call_ctx \<Rightarrow> string \<Rightarrow> investigation svc" where
  "replayInvestigation ctx i =
     sbind (requireIntent ctx i) (\<lambda>row.
     sbind (in_tx (find_executions (cx_tenantId ctx) (pi_execution_receipt_ids row))) (\<lambda>executions.
     sret \<lparr>iv_payment_intent = row, iv_executions = executions, iv_policy_decision_id = pi_policy_decision_id row,
           iv_evidence_ids = pi_evidence_ids row\<rparr>))"

end
