(* ===== verification/Outbox_Machine.thy ===== *)
theory Outbox_Machine
  imports Outbox_Worker
begin

text \<open>
  The life of an outbox row as a step relation, and the proof that the worker implements it:
  whatever the rails, the guard, the auditor and the executor answer, one cycle moves every row of
  the table along its machine and leaves the set of rows alone. The worker meets the executor only
  through the locale \<open>outbox_worker\<close>, whose laws the payment intent service discharges.
\<close>

section \<open>The machine of a row\<close>

inductive row_step :: "outbox_row \<Rightarrow> outbox_row \<Rightarrow> bool" where
  claim: "ob_status r \<in> {Ob_pending, Ob_reconciling} \<Longrightarrow>
    ob_attempt_count r < MAX_TOTAL_DISPATCH_ATTEMPTS \<Longrightarrow> row_step r (claim_row now worker r)"
| dispatch: "ob_status r = Ob_dispatching \<Longrightarrow> ob_rail_receipt r = None \<or> ob_execution_id r = None \<Longrightarrow>
    ob_audit_before_id r \<noteq> [] \<Longrightarrow>
    row_step r (r\<lparr>ob_status := Ob_dispatched, ob_rail_receipt := Some receipt, ob_audit_after_id := Some after,
      ob_execution_id := Some execution, ob_dispatched_at := Some now\<rparr>)"
| settle: "ob_status r \<in> {Ob_dispatching, Ob_dispatched} \<Longrightarrow>
    ob_rail_receipt r \<noteq> None \<Longrightarrow> ob_execution_id r \<noteq> None \<Longrightarrow>
    row_step r (r\<lparr>ob_status := Ob_settled, ob_completed_at := Some now\<rparr>)"
| retry: "ob_status r \<in> {Ob_dispatching, Ob_dispatched} \<Longrightarrow>
    status \<in> {Ob_pending, Ob_reconciling} \<Longrightarrow> row_step r (failed_attempt now err status r)"
| fail_row: "ob_status r = Ob_dispatching \<Longrightarrow> ob_rail_receipt r = None \<or> ob_execution_id r = None \<Longrightarrow>
    row_step r ((failed_attempt now err Ob_failed r)\<lparr>ob_audit_after_id := Some after, ob_completed_at := Some now\<rparr>)"
| reclaim: "ob_status r \<in> {Ob_dispatching, Ob_dispatched} \<Longrightarrow> row_step r (reclaim_row r)"

inductive_cases row_stepE: "row_step r s"

abbreviation row_steps :: "outbox_row \<Rightarrow> outbox_row \<Rightarrow> bool" where
  "row_steps \<equiv> row_step\<^sup>*\<^sup>*"

text \<open>What a row is allowed to look like at any time.\<close>

definition row_ok :: "outbox_row \<Rightarrow> bool" where
  "row_ok r \<longleftrightarrow> ob_attempt_count r \<le> MAX_TOTAL_DISPATCH_ATTEMPTS
     \<and> (ob_status r \<in> {Ob_dispatching, Ob_dispatched} \<longrightarrow> ob_attempt_count r < MAX_TOTAL_DISPATCH_ATTEMPTS)
     \<and> (ob_rail_receipt r = None \<longleftrightarrow> ob_execution_id r = None)
     \<and> (ob_status r = Ob_settled \<longrightarrow> ob_rail_receipt r \<noteq> None)
     \<and> (ob_status r = Ob_failed \<longrightarrow> ob_rail_receipt r = None)"

lemma row_step_ok: "row_step r s \<Longrightarrow> row_ok r \<Longrightarrow> row_ok s"
  by (induction rule: row_step.induct)
    (auto simp: row_ok_def claim_row_def failed_attempt_def reclaim_row_def)

text \<open>What no step changes: the identity of the row, a receipt once stored, a final status.\<close>

definition row_keeps :: "outbox_row \<Rightarrow> outbox_row \<Rightarrow> bool" where
  "row_keeps r s \<longleftrightarrow> ob_id s = ob_id r \<and> ob_tenant_id s = ob_tenant_id r
     \<and> ob_payment_intent_id s = ob_payment_intent_id r \<and> ob_idempotency_key s = ob_idempotency_key r
     \<and> ob_rail s = ob_rail r \<and> ob_payload s = ob_payload r \<and> ob_payload_hash s = ob_payload_hash r
     \<and> ob_audit_before_id s = ob_audit_before_id r \<and> ob_reservation_id s = ob_reservation_id r
     \<and> ob_created_at s = ob_created_at r
     \<and> (ob_rail_receipt r \<noteq> None \<and> ob_execution_id r \<noteq> None \<longrightarrow>
          ob_rail_receipt s = ob_rail_receipt r \<and> ob_execution_id s = ob_execution_id r)
     \<and> (ob_status r \<in> {Ob_settled, Ob_failed} \<longrightarrow> s = r)"

lemma row_keeps_refl: "row_keeps r r"
  by (simp add: row_keeps_def)

lemma row_step_keeps: "row_step r s \<Longrightarrow> row_keeps r s"
  by (erule row_stepE) (auto simp: row_keeps_def claim_row_def failed_attempt_def reclaim_row_def)

lemma row_keeps_trans: "row_keeps r q \<Longrightarrow> row_keeps q s \<Longrightarrow> row_keeps r s"
  unfolding row_keeps_def by auto

lemma row_steps_keeps: "row_steps r s \<Longrightarrow> row_keeps r s"
  by (induction rule: rtranclp_induct) (auto intro: row_keeps_refl row_keeps_trans row_step_keeps)

lemma row_steps_ok: "row_steps r s \<Longrightarrow> row_ok r \<Longrightarrow> row_ok s"
  by (induction rule: rtranclp_induct) (auto intro: row_step_ok)

section \<open>Running one row\<close>

definition dispatches :: "world \<Rightarrow> effect list" where
  "dispatches w = filter is_dispatch (w_log w)"

text \<open>Operations that neither touch the outbox nor call a rail.\<close>

definition same_outbox :: "world \<Rightarrow> world \<Rightarrow> bool" where
  "same_outbox w v \<longleftrightarrow> w_outbox v = w_outbox w \<and> dispatches v = dispatches w \<and> w_now v = w_now w"

interpretation outbox_silence: store_relation same_outbox
  by unfold_locales (auto simp: same_outbox_def dispatches_def)

lemmas silent_intros = outbox_silence.evolves_intros

text \<open>
  \<open>row_run i T m\<close>: \<open>m\<close> keeps the rows and their ids, leaves every row but \<open>i\<close> alone, and takes
  row \<open>i\<close> from \<open>r\<close> to \<open>s\<close> with result \<open>res\<close> only when \<open>T now res r s\<close>.
\<close>

definition row_run ::
  "string \<Rightarrow> (int \<Rightarrow> svc_error + 'a \<Rightarrow> outbox_row \<Rightarrow> outbox_row \<Rightarrow> bool) \<Rightarrow> 'a svc \<Rightarrow> bool" where
  "row_run i T m \<longleftrightarrow> (\<forall>w res w'. m w = (res, w') \<and> distinct (map ob_id (w_outbox w)) \<longrightarrow>
     w_now w' = w_now w \<and> map ob_id (w_outbox w') = map ob_id (w_outbox w) \<and>
     list_all2 (\<lambda>r s. if ob_id r = i then T (w_now w) res r s else s = r) (w_outbox w) (w_outbox w'))"

lemma row_runD:
  assumes "row_run i T m" "m w = (res, w')" "distinct (map ob_id (w_outbox w))"
  shows "w_now w' = w_now w" "map ob_id (w_outbox w') = map ob_id (w_outbox w)"
    "list_all2 (\<lambda>r s. if ob_id r = i then T (w_now w) res r s else s = r) (w_outbox w) (w_outbox w')"
  using assms unfolding row_run_def by blast+

lemma row_run_weaken:
  assumes "row_run i S m" "\<And>now res r s. S now res r s \<Longrightarrow> T now res r s"
  shows "row_run i T m"
  unfolding row_run_def
proof (intro allI impI, elim conjE)
  fix w res w' assume m: "m w = (res, w')" and d: "distinct (map ob_id (w_outbox w))"
  note run = row_runD [OF assms(1) m d]
  show "w_now w' = w_now w \<and> map ob_id (w_outbox w') = map ob_id (w_outbox w) \<and>
     list_all2 (\<lambda>r s. if ob_id r = i then T (w_now w) res r s else s = r) (w_outbox w) (w_outbox w')"
    using run(1,2) list_all2_mono [OF run(3)] assms(2) by (auto intro: list_all2_mono [OF run(3)])
qed

lemma row_run_silent: "evolves same_outbox m \<Longrightarrow> row_run i (\<lambda>now res r s. s = r) m"
  unfolding row_run_def
proof (intro allI impI, elim conjE)
  fix w res w' assume "evolves same_outbox m" and m: "m w = (res, w')"
  then have "same_outbox w w'" by (rule evolvesD)
  then show "w_now w' = w_now w \<and> map ob_id (w_outbox w') = map ob_id (w_outbox w) \<and>
     list_all2 (\<lambda>r s. if ob_id r = i then s = r else s = r) (w_outbox w) (w_outbox w')"
    by (simp add: same_outbox_def list_all2_refl)
qed

lemma row_run_sret: "row_run i (\<lambda>now res r s. s = r \<and> res = Inr x) (sret x)"
  by (auto simp: row_run_def sret_def intro!: list_all2_refl)

text \<open>Sequencing: the first part throws, or the second goes on from where it left the row.\<close>

lemma row_run_sbind:
  assumes m: "row_run i S m" and f: "\<And>x. row_run i (U x) (f x)"
  shows "row_run i (\<lambda>now res r s. (\<exists>e. res = Inl e \<and> S now (Inl e) r s)
     \<or> (\<exists>x q. S now (Inr x) r q \<and> U x now res q s)) (sbind m f)"
  unfolding row_run_def
proof (intro allI impI, elim conjE)
  fix w res w'
  let ?T = "\<lambda>now res r s. (\<exists>e. res = Inl e \<and> S now (Inl e) r s) \<or> (\<exists>x q. S now (Inr x) r q \<and> U x now res q s)"
  assume b: "sbind m f w = (res, w')" and d: "distinct (map ob_id (w_outbox w))"
  obtain r1 v where mw: "m w = (r1, v)" by (cases "m w")
  note run1 = row_runD [OF m mw d]
  show "w_now w' = w_now w \<and> map ob_id (w_outbox w') = map ob_id (w_outbox w) \<and>
     list_all2 (\<lambda>r s. if ob_id r = i then ?T (w_now w) res r s else s = r) (w_outbox w) (w_outbox w')"
  proof (cases r1)
    case (Inl e)
    with b mw have eq: "res = Inl e" "w' = v" by (auto simp: sbind_def)
    show ?thesis using run1(1,2) eq by (auto simp: Inl intro: list_all2_mono [OF run1(3)])
  next
    case (Inr x)
    with b mw have fx: "f x v = (res, w')" by (auto simp: sbind_def)
    have dv: "distinct (map ob_id (w_outbox v))" using d run1(2) by simp
    note run2 = row_runD [OF f fx dv]
    have "list_all2 (\<lambda>r s. if ob_id r = i then ?T (w_now w) res r s else s = r) (w_outbox w) (w_outbox w')"
    proof (rule list_all2_all_nthI)
      show len: "length (w_outbox w) = length (w_outbox w')"
        using list_all2_lengthD [OF run1(3)] list_all2_lengthD [OF run2(3)] by simp
      fix n assume n: "n < length (w_outbox w)"
      then have nv: "n < length (w_outbox v)" using list_all2_lengthD [OF run1(3)] by simp
      have same_id: "ob_id (w_outbox v ! n) = ob_id (w_outbox w ! n)"
        using run1(2) n nv by (metis nth_map)
      show "if ob_id (w_outbox w ! n) = i then ?T (w_now w) res (w_outbox w ! n) (w_outbox w' ! n)
            else w_outbox w' ! n = w_outbox w ! n"
        using list_all2_nthD [OF run1(3) n] list_all2_nthD [OF run2(3) nv] same_id run1(1) Inr
        by (auto split: if_splits)
    qed
    with run1(1,2) run2(1,2) show ?thesis by simp
  qed
qed

section \<open>The marks\<close>

lemma row_run_update:
  assumes "\<And>w :: world. m w = (Inr (), update_outbox (with_id i) (f (w_now w)) w)" "\<And>now r. ob_id (f now r) = ob_id r"
  shows "row_run i (\<lambda>now res r s. s = f now r \<and> res = Inr ()) m"
  using assms by (auto simp: row_run_def update_outbox_def with_id_def list_all2_map2 comp_def
      intro!: list_all2_refl map_cong)

lemma row_run_markDispatched:
  "row_run i (\<lambda>now res r s. s = r\<lparr>ob_status := Ob_dispatched, ob_rail_receipt := Some receipt,
      ob_audit_after_id := Some after, ob_execution_id := Some x, ob_dispatched_at := Some now\<rparr> \<and> res = Inr ())
    (markDispatched i receipt after x)"
  by (rule row_run_update) (simp_all add: markDispatched_def)

lemma row_run_markSettled:
  "row_run i (\<lambda>now res r s. s = r\<lparr>ob_status := Ob_settled, ob_completed_at := Some now\<rparr> \<and> res = Inr ())
    (markSettled i)"
  by (rule row_run_update) (simp_all add: markSettled_def)

lemma row_run_markPermanentlyFailed:
  "row_run i (\<lambda>now res r s. s = (failed_attempt now err Ob_failed r)
      \<lparr>ob_audit_after_id := Some after, ob_completed_at := Some now\<rparr> \<and> res = Inr ())
    (markPermanentlyFailed i err after)"
  by (rule row_run_update) (simp_all add: markPermanentlyFailed_def failed_attempt_def)

lemma find_with_id:
  "distinct (map ob_id rs) \<Longrightarrow> r \<in> set rs \<Longrightarrow> ob_id r = i \<Longrightarrow> find (with_id i) rs = Some r"
  by (induction rs) (auto simp: with_id_def)

lemma find_with_id_None: "find (with_id i) rs = None \<longleftrightarrow> (\<forall>r \<in> set rs. ob_id r \<noteq> i)"
  by (auto simp: find_None_iff with_id_def)

lemma row_run_counted:
  assumes m: "\<And>w :: world. m w = update_counted what i (f (w_now w)) w" and idf: "\<And>now r. ob_id (f now r) = ob_id r"
  shows "row_run i (\<lambda>now res r s. s = f now r \<and> res = Inr (ob_attempt_count (f now r))) m"
  unfolding row_run_def
proof (intro allI impI, elim conjE)
  fix w w' :: world and res
  let ?rs = "w_outbox w" and ?f = "f (w_now w)"
  assume run: "m w = (res, w')" and d: "distinct (map ob_id ?rs)"
  show "w_now w' = w_now w \<and> map ob_id (w_outbox w') = map ob_id ?rs \<and>
     list_all2 (\<lambda>r s. if ob_id r = i then s = ?f r \<and> res = Inr (ob_attempt_count (?f r)) else s = r)
       ?rs (w_outbox w')"
  proof (cases "find (with_id i) ?rs")
    case None
    with run have "w' = w" by (auto simp: m update_counted_def)
    with None show ?thesis by (auto simp: find_with_id_None list_all2_same)
  next
    case (Some r0)
    then have r0: "res = Inr (ob_attempt_count (?f r0))" "w' = update_outbox (with_id i) ?f w"
      using run by (auto simp: m update_counted_def)
    have "r \<in> set ?rs \<Longrightarrow> ob_id r = i \<Longrightarrow> r = r0" for r
      using find_with_id [OF d, of r i] Some by simp
    then show ?thesis
      by (auto simp: r0 update_outbox_def with_id_def idf list_all2_map2 list_all2_same comp_def intro!: map_cong)
  qed
qed

lemma row_run_markReconciling:
  "row_run i (\<lambda>now res r s. s = failed_attempt now err Ob_reconciling r \<and> res = Inr (ob_attempt_count r + 1))
    (markReconciling i err)"
  by (rule row_run_weaken [OF row_run_counted
        [where what = "''markReconciling''" and f = "\<lambda>now. failed_attempt now err Ob_reconciling"]])
    (auto simp: markReconciling_def failed_attempt_def)

definition retry_status :: "outbox_row \<Rightarrow> outbox_status" where
  "retry_status r = (if ob_attempt_count r + 1 \<ge> MAX_DISPATCH_ATTEMPTS then Ob_reconciling else Ob_pending)"

lemma row_run_markFailed:
  "row_run i (\<lambda>now res r s. s = failed_attempt now err (retry_status r) r \<and> res = Inr (ob_attempt_count r + 1))
    (markFailed i err)"
  by (rule row_run_weaken [OF row_run_counted
        [where what = "''markFailed''" and f = "\<lambda>now r. failed_attempt now err (retry_status r) r"]])
    (auto simp: markFailed_def failed_attempt_def retry_status_def)

section \<open>The worker under the executor's contract\<close>

text \<open>\<open>still x\<close>: the row stays as it is and a result, if there is one, is \<open>x\<close>.\<close>

definition still :: "'a \<Rightarrow> int \<Rightarrow> svc_error + 'a \<Rightarrow> outbox_row \<Rightarrow> outbox_row \<Rightarrow> bool" where
  "still x now res r s \<longleftrightarrow> s = r \<and> (\<forall>y. res = Inr y \<longrightarrow> y = x)"

lemma still_sret: "row_run i (still x) (sret x)"
  by (rule row_run_weaken [OF row_run_sret]) (simp add: still_def)

lemma still_sthen:
  assumes "evolves same_outbox m" "row_run i (still x) n"
  shows "row_run i (still x) (sthen m n)"
  unfolding sthen_def
  by (rule row_run_weaken [OF row_run_sbind [OF row_run_silent [OF assms(1)] assms(2)]])
    (auto simp: still_def)

lemma row_run_head:
  assumes "evolves same_outbox m" "\<And>x. row_run i T (f x)"
  shows "row_run i (\<lambda>now res r s. (isl res \<and> s = r) \<or> T now res r s) (sbind m f)"
  by (rule row_run_weaken [OF row_run_sbind [OF row_run_silent [OF assms(1)] assms(2)]]) auto

lemma silent_emit_row: "evolves same_outbox (emit_row deps row layer act inputs outputs)"
  unfolding emit_row_def by (rule outbox_silence.evolves_emit)

lemma silent_emitStuck: "evolves same_outbox (emitStuck deps row attempts err)"
  unfolding emitStuck_def by (intro silent_intros silent_emit_row)

lemma silent_maybeEmitExhausted: "evolves same_outbox (maybeEmitExhausted deps row attempts err)"
  unfolding maybeEmitExhausted_def by (auto intro!: silent_intros silent_emit_row)

lemma still_signals:
  "row_run i (still x) (sthen (emitStuck deps row n err) (sthen (maybeEmitExhausted deps row n err) (sret x)))"
  by (intro still_sthen still_sret silent_emitStuck silent_maybeEmitExhausted)

definition reconciled :: "string \<Rightarrow> int \<Rightarrow> svc_error + row_outcome \<Rightarrow> outbox_row \<Rightarrow> outbox_row \<Rightarrow> bool" where
  "reconciled err now res r s \<longleftrightarrow>
     s = failed_attempt now err Ob_reconciling r \<and> (\<forall>y. res = Inr y \<longrightarrow> y = Reconciling)"

definition retried :: "string \<Rightarrow> int \<Rightarrow> svc_error + row_outcome \<Rightarrow> outbox_row \<Rightarrow> outbox_row \<Rightarrow> bool" where
  "retried err now res r s \<longleftrightarrow> s = failed_attempt now err (retry_status r) r
     \<and> (\<forall>y. res = Inr y \<longrightarrow> y = (if retry_status r = Ob_pending then Retrying else Reconciling))"

definition settled_as :: "int \<Rightarrow> svc_error + row_outcome \<Rightarrow> outbox_row \<Rightarrow> outbox_row \<Rightarrow> bool" where
  "settled_as now res r s \<longleftrightarrow> s = r\<lparr>ob_status := Ob_settled, ob_completed_at := Some now\<rparr> \<and> res = Inr Settled"

definition failed_as :: "int \<Rightarrow> svc_error + row_outcome \<Rightarrow> outbox_row \<Rightarrow> outbox_row \<Rightarrow> bool" where
  "failed_as now res r s \<longleftrightarrow> (\<exists>err after. s = (failed_attempt now err Ob_failed r)
      \<lparr>ob_audit_after_id := Some after, ob_completed_at := Some now\<rparr>) \<and> (\<forall>y. res = Inr y \<longrightarrow> y = Failed_row)"

definition dispatched_as :: "int \<Rightarrow> outbox_row \<Rightarrow> outbox_row \<Rightarrow> bool" where
  "dispatched_as now r q \<longleftrightarrow> (\<exists>receipt after x. q = r\<lparr>ob_status := Ob_dispatched, ob_rail_receipt := Some receipt,
      ob_audit_after_id := Some after, ob_execution_id := Some x, ob_dispatched_at := Some now\<rparr>)"

definition closed_as :: "int \<Rightarrow> svc_error + row_outcome \<Rightarrow> outbox_row \<Rightarrow> outbox_row \<Rightarrow> bool" where
  "closed_as now res r s \<longleftrightarrow> (isl res \<and> s = r) \<or> settled_as now res r s \<or> (\<exists>err. retried err now res r s)"

lemma row_run_reconcile: "row_run (ob_id row) (reconciled err) (reconcile_row deps row err)"
  unfolding reconcile_row_def
  by (rule row_run_weaken [OF row_run_sbind [OF row_run_markReconciling still_signals]])
    (auto simp: still_def reconciled_def)

lemma row_run_retry: "row_run (ob_id row) (retried err) (retry_row deps row err)"
proof -
  define tail where "tail n = (if n \<ge> MAX_DISPATCH_ATTEMPTS
      then sthen (emitStuck deps row n err) (sthen (maybeEmitExhausted deps row n err) (sret Reconciling))
      else sret Retrying)" for n
  have tails: "row_run (ob_id row) (still (if n \<ge> MAX_DISPATCH_ATTEMPTS then Reconciling else Retrying)) (tail n)" for n
    by (simp add: tail_def still_signals still_sret)
  have eq: "retry_row deps row err = sbind (markFailed (ob_id row) err) tail"
    by (simp add: retry_row_def tail_def [abs_def])
  show ?thesis
    unfolding eq
    by (rule row_run_weaken [OF row_run_sbind [OF row_run_markFailed tails]])
      (auto simp: still_def retried_def retry_status_def split: if_splits)
qed

definition has_receipt :: "outbox_row \<Rightarrow> bool" where
  "has_receipt r \<longleftrightarrow> ob_rail_receipt r \<noteq> None \<and> ob_execution_id r \<noteq> None"

text \<open>Everything processing a claimed row can do to it.\<close>

definition processed :: "outbox_row \<Rightarrow> int \<Rightarrow> svc_error + row_outcome \<Rightarrow> outbox_row \<Rightarrow> outbox_row \<Rightarrow> bool" where
  "processed row now res r s \<longleftrightarrow> (isl res \<and> s = r) \<or> (\<exists>err. reconciled err now res r s) \<or> (\<exists>err. retried err now res r s)
     \<or> (has_receipt row \<and> settled_as now res r s)
     \<or> (\<not> has_receipt row \<and> ob_audit_before_id row \<noteq> [] \<and>
         (failed_as now res r s \<or> (\<exists>q. dispatched_as now r q \<and> closed_as now res q s)))"

lemma silent_dispatch_guard: "evolves same_outbox (dispatch_guard deps ctx row)"
  unfolding dispatch_guard_def by (auto intro!: silent_intros split: option.split)

lemma row_run_dispatch_rail: "row_run i (\<lambda>now res r s. s = r \<and> \<not> isl res) (dispatch_rail deps row ctx x)"
  by (auto simp: row_run_def dispatch_rail_def sthen_def sbind_def sret_def log_dispatch_def smodify_def
      split: sum.splits intro!: list_all2_refl)

locale outbox_worker =
  fixes deps :: worker_deps
  assumes complete_silent: "evolves same_outbox (wd_completeExecution deps ctx args)"
    and fail_silent: "evolves same_outbox (wd_failExecution deps ctx intent reservation)"
begin

lemma row_run_settle: "row_run (ob_id row) closed_as (settleFromReceipt deps row ctx x receipt)"
proof -
  have close: "row_run (ob_id row) closed_as (case failure of
       Some message \<Rightarrow> retry_row deps row message
     | None \<Rightarrow> sthen (markSettled (ob_id row)) (sret Settled))" for failure
  proof (cases failure)
    case None
    have "row_run (ob_id row) settled_as (sthen (markSettled (ob_id row)) (sret Settled))"
      unfolding sthen_def
      by (rule row_run_weaken [OF row_run_sbind [OF row_run_markSettled row_run_sret]])
        (auto simp: settled_as_def)
    with None show ?thesis by (auto simp: closed_as_def intro: row_run_weaken)
  next
    case (Some m)
    have "row_run (ob_id row) closed_as (retry_row deps row m)"
      by (rule row_run_weaken [OF row_run_retry]) (auto simp: closed_as_def)
    with Some show ?thesis by simp
  qed
  show ?thesis
    unfolding settleFromReceipt_def
    by (rule row_run_weaken [OF row_run_head [OF _ close]])
      (auto simp: closed_as_def intro!: silent_intros complete_silent)
qed

lemma row_run_failPermanently:
  "row_run (ob_id row) (\<lambda>now res r s. (isl res \<and> s = r) \<or> failed_as now res r s \<or> (\<exists>err. reconciled err now res r s))
     (failPermanently deps row ctx reason)"
proof -
  have fin: "row_run (ob_id row) (still Failed_row)
      (sthen (emit_row deps row layer act inputs outputs) (sret Failed_row))" for layer act inputs outputs
    by (intro still_sthen still_sret silent_emit_row)
  have failed: "row_run (ob_id row) failed_as (sthen (markPermanentlyFailed (ob_id row) reason after)
      (sthen (emit_row deps row layer act inputs outputs) (sret Failed_row)))" for after layer act inputs outputs
    unfolding sthen_def [of "markPermanentlyFailed _ _ _"]
    by (rule row_run_weaken [OF row_run_sbind [OF row_run_markPermanentlyFailed fin]])
      (auto simp: still_def failed_as_def)
  let ?T = "\<lambda>now res r s. failed_as now res r s \<or> (\<exists>err. reconciled err now res r s)"
  have branch: "row_run (ob_id row) ?T (case failure of
       Some message \<Rightarrow> reconcile_row deps row message
     | None \<Rightarrow> sthen (markPermanentlyFailed (ob_id row) reason after)
         (sthen (emit_row deps row layer act inputs outputs) (sret Failed_row)))"
    for failure after layer act inputs outputs
    by (cases failure) (auto intro: row_run_weaken [OF failed] row_run_weaken [OF row_run_reconcile])
  show ?thesis
    unfolding failPermanently_def
    by (rule row_run_weaken [OF row_run_head [OF silent_emit_row row_run_head [OF _ branch]]])
      (auto intro!: silent_intros fail_silent)
qed

lemma row_run_accept:
  "row_run (ob_id row) (\<lambda>now res r s. (isl res \<and> s = r) \<or> (\<exists>err. reconciled err now res r s)
      \<or> (\<exists>q. dispatched_as now r q \<and> closed_as now res q s))
     (accept_receipt deps row ctx x receipt)"
proof -
  have go: "row_run (ob_id row) (\<lambda>now res r s. \<exists>q. dispatched_as now r q \<and> closed_as now res q s)
      (sthen (markDispatched (ob_id row) (JObj receipt) after x) (settleFromReceipt deps row ctx x receipt))" for after
    unfolding sthen_def [of "markDispatched _ _ _ _"]
    by (rule row_run_weaken [OF row_run_sbind [OF row_run_markDispatched row_run_settle]])
      (auto simp: dispatched_as_def)
  show ?thesis
    unfolding accept_receipt_def Let_def
    by (auto intro: row_run_weaken [OF row_run_reconcile] row_run_weaken [OF row_run_head [OF silent_emit_row go]])
qed

lemma row_run_after_dispatch:
  assumes "\<not> has_receipt row" "ob_audit_before_id row \<noteq> []"
  shows "row_run (ob_id row) (processed row) (after_dispatch deps row ctx x dispatched)"
proof -
  have "row_run (ob_id row) (processed row) (accept_receipt deps row ctx x receipt)" for receipt
    by (rule row_run_weaken [OF row_run_accept]) (use assms in \<open>auto simp: processed_def\<close>)
  moreover have "row_run (ob_id row) (processed row) (failPermanently deps row ctx permanent)" for permanent
    by (rule row_run_weaken [OF row_run_failPermanently]) (use assms in \<open>auto simp: processed_def\<close>)
  moreover have "row_run (ob_id row) (processed row) (retry_row deps row err)" for err
    by (rule row_run_weaken [OF row_run_retry]) (auto simp: processed_def)
  ultimately show ?thesis by (auto simp: after_dispatch_def split: sum.split option.split)
qed

lemma row_run_reconciled: "row_run (ob_id row) (processed row) (reconcile_row deps row err)"
  by (rule row_run_weaken [OF row_run_reconcile]) (auto simp: processed_def)

lemma row_run_guarded:
  assumes "\<not> has_receipt row" "ob_audit_before_id row \<noteq> []"
  shows "row_run (ob_id row) (processed row) (guarded_dispatch deps row ctx x)"
proof -
  have rail: "row_run (ob_id row) (processed row)
      (sbind (dispatch_rail deps row ctx x) (after_dispatch deps row ctx x))"
    by (rule row_run_weaken [OF row_run_sbind [OF row_run_dispatch_rail row_run_after_dispatch [OF assms]]]) auto
  have next_step: "row_run (ob_id row) (processed row) (case blocked of
       Some reason \<Rightarrow> reconcile_row deps row (''dispatch_guard_blocked: '' @ reason)
     | None \<Rightarrow> sbind (dispatch_rail deps row ctx x) (after_dispatch deps row ctx x))" for blocked
    by (cases blocked) (simp_all only: option.case rail row_run_reconciled)
  show ?thesis
    unfolding guarded_dispatch_def
    by (rule row_run_weaken [OF row_run_head [OF silent_dispatch_guard next_step]]) (auto simp: processed_def)
qed

lemma row_run_process: "row_run (ob_id row) (processed row) (processClaimedRow deps row)"
proof -
  let ?ctx = "ctxForRow row (wd_workerId deps)"
  define body where "body x = (if ob_audit_before_id row = [] then reconcile_row deps row no_audit_before
      else case (ob_rail_receipt row, ob_execution_id row) of
        (Some receipt, Some execution) \<Rightarrow> settleFromReceipt deps row ?ctx execution (receipt_object receipt)
      | _ \<Rightarrow> guarded_dispatch deps row ?ctx x)" for x
  have settle: "row_run (ob_id row) (processed row) (settleFromReceipt deps row ?ctx x receipt)"
    if "has_receipt row" for x receipt
    by (rule row_run_weaken [OF row_run_settle]) (use that in \<open>auto simp: processed_def closed_as_def\<close>)
  have body: "row_run (ob_id row) (processed row) (body x)" for x
    using row_run_reconciled settle row_run_guarded [of row ?ctx x]
    by (auto simp: body_def has_receipt_def split: option.split)
  have eq: "processClaimedRow deps row = sbind (fresh_id ''exec_'') body"
    by (simp add: processClaimedRow_def body_def [abs_def] Let_def)
  show ?thesis
    unfolding eq
    by (rule row_run_weaken [OF row_run_head [OF outbox_silence.evolves_fresh body]]) (auto simp: processed_def)
qed

end

section \<open>The cycle implements the machine\<close>

fun outcome_status :: "row_outcome \<Rightarrow> outbox_status" where
  "outcome_status Settled = Ob_settled"
| "outcome_status Retrying = Ob_pending"
| "outcome_status Reconciling = Ob_reconciling"
| "outcome_status Failed_row = Ob_failed"

lemma retry_step: "ob_status r \<in> {Ob_dispatching, Ob_dispatched} \<Longrightarrow> retried err now res r s \<Longrightarrow> row_step r s"
  by (auto simp: retried_def retry_status_def intro: row_step.retry split: if_splits)

lemma reconcile_step: "ob_status r \<in> {Ob_dispatching, Ob_dispatched} \<Longrightarrow> reconciled err now res r s \<Longrightarrow> row_step r s"
  by (auto simp: reconciled_def intro: row_step.retry)

lemma closed_steps:
  assumes "closed_as now res r s" "ob_status r \<in> {Ob_dispatching, Ob_dispatched}" "has_receipt r"
  shows "row_steps r s"
  using assms by (auto simp: closed_as_def settled_as_def has_receipt_def
      intro: r_into_rtranclp row_step.settle retry_step)

lemma processed_steps:
  assumes p: "processed r now res r s" and d: "ob_status r = Ob_dispatching"
  shows "row_steps r s"
proof -
  from p consider "s = r" | err where "reconciled err now res r s" | err where "retried err now res r s"
    | "has_receipt r" "settled_as now res r s"
    | "\<not> has_receipt r" "failed_as now res r s"
    | q where "\<not> has_receipt r" "ob_audit_before_id r \<noteq> []" "dispatched_as now r q" "closed_as now res q s"
    unfolding processed_def by blast
  then show ?thesis
  proof cases
    case 5
    then show ?thesis using d
      by (auto simp: failed_as_def has_receipt_def intro!: r_into_rtranclp row_step.fail_row)
  next
    case 6
    then have "row_step r q"
      using d by (auto simp: dispatched_as_def has_receipt_def intro: row_step.dispatch)
    moreover have "row_steps q s"
      by (rule closed_steps [OF 6(4)]) (use 6(3) in \<open>auto simp: dispatched_as_def has_receipt_def\<close>)
    ultimately show ?thesis by (rule converse_rtranclp_into_rtranclp)
  qed (use d in \<open>auto simp: settled_as_def has_receipt_def
      intro: retry_step reconcile_step row_step.settle\<close>)
qed

lemma processed_outcome: "processed r now (Inr y) r' s \<Longrightarrow> ob_status s = outcome_status y"
  by (auto simp: processed_def reconciled_def retried_def settled_as_def failed_as_def closed_as_def
      dispatched_as_def failed_attempt_def retry_status_def split: if_splits)

lemma row_steps_id: "row_steps r s \<Longrightarrow> ob_id s = ob_id r"
  using row_steps_keeps by (simp add: row_keeps_def)

definition table_steps :: "world \<Rightarrow> world \<Rightarrow> bool" where
  "table_steps w v \<longleftrightarrow> list_all2 row_steps (w_outbox w) (w_outbox v)"

definition distinct_rows :: "world \<Rightarrow> bool" where
  "distinct_rows w \<longleftrightarrow> distinct (map ob_id (w_outbox w))"

lemma table_steps_refl: "table_steps w w"
  by (simp add: table_steps_def list_all2_refl)

lemma table_steps_trans: "table_steps w v \<Longrightarrow> table_steps v u \<Longrightarrow> table_steps w u"
  unfolding table_steps_def by (rule list_all2_trans [OF rtranclp_trans]) auto

lemma table_steps_ids: "table_steps w v \<Longrightarrow> map ob_id (w_outbox v) = map ob_id (w_outbox w)"
  unfolding table_steps_def
  by (induction rule: list_all2_induct) (simp_all add: row_steps_id)

lemma table_steps_distinct: "table_steps w v \<Longrightarrow> distinct_rows w \<Longrightarrow> distinct_rows v"
  by (simp add: distinct_rows_def table_steps_ids)

lemma table_steps_update:
  assumes "\<And>r. r \<in> set (w_outbox w) \<Longrightarrow> p r \<Longrightarrow> row_step r (f r)"
  shows "table_steps w (update_outbox p f w)"
  using assms by (auto simp: table_steps_def update_outbox_def list_all2_map2 intro!: list.rel_refl_strong)

lemma same_outbox_steps: "same_outbox w v \<Longrightarrow> table_steps w v"
  by (simp add: same_outbox_def table_steps_def list_all2_refl)

section \<open>Claims and reclaims\<close>

lemma set_insert_oldest: "set (insert_oldest r rs) = insert r (set rs)"
  by (induction rs) auto

lemma set_by_created_at: "set (by_created_at rs) = set rs"
proof -
  have "set (foldl (\<lambda>acc r. insert_oldest r acc) acc rs) = set acc \<union> set rs" for acc
    by (induction rs arbitrary: acc) (auto simp: set_insert_oldest)
  then show ?thesis by (simp add: by_created_at_def)
qed

lemma sorted_insert_oldest:
  "sorted (map ob_created_at rs) \<Longrightarrow> sorted (map ob_created_at (insert_oldest r rs))"
  by (induction rs) (auto simp: set_insert_oldest)

lemma sorted_by_created_at: "sorted (map ob_created_at (by_created_at rs))"
proof -
  have "sorted (map ob_created_at acc) \<Longrightarrow> sorted (map ob_created_at (foldl (\<lambda>acc r. insert_oldest r acc) acc rs))" for acc
    by (induction rs arbitrary: acc) (auto intro: sorted_insert_oldest)
  then show ?thesis by (simp add: by_created_at_def)
qed

lemma same_row:
  "distinct_rows w \<Longrightarrow> r \<in> set (w_outbox w) \<Longrightarrow> r' \<in> set (w_outbox w) \<Longrightarrow> ob_id r = ob_id r' \<Longrightarrow> r = r'"
  unfolding distinct_rows_def by (metis distinct_map inj_onD)

lemma claimed_row:
  assumes "distinct_rows w" "r \<in> set (w_outbox w)" "ob_id r \<in> set (claim_ids locked limit w)"
  shows "claimable (w_now w) r \<and> \<not> locked (ob_id r)"
proof -
  obtain r' where "ob_id r' = ob_id r" "r' \<in> set (w_outbox w)" "claimable (w_now w) r'" "\<not> locked (ob_id r')"
    using assms(3) by (auto simp: claim_ids_def set_by_created_at dest!: in_set_takeD)
  then show ?thesis using same_row [OF assms(1), of r' r] assms(2) by simp
qed

lemma claimNext_steps:
  assumes "distinct_rows w"
  shows "table_steps w (snd (claimNext locked worker limit w))"
  unfolding claimNext_def Let_def snd_conv
  by (rule table_steps_update) (auto dest: claimed_row [OF assms] simp: claimable_def intro!: row_step.claim)

lemma reclaimStale_steps: "table_steps w (snd (reclaimStale locked secs w))"
  unfolding reclaimStale_def Let_def snd_conv
  by (rule table_steps_update) (auto simp: is_stale_def intro!: row_step.reclaim)

lemma claimNext_rows:
  assumes "claimNext locked worker limit w = (Inr rows, w')" "distinct_rows w"
  shows "set rows \<subseteq> set (w_outbox w')" "\<forall>r \<in> set rows. ob_status r = Ob_dispatching" "distinct (map ob_id rows)"
proof -
  from assms(1) have rows: "rows = map (claim_row (w_now w) worker)
      (filter (\<lambda>r. ob_id r \<in> set (claim_ids locked limit w)) (w_outbox w))"
    and w': "w' = update_outbox (\<lambda>r. ob_id r \<in> set (claim_ids locked limit w)) (claim_row (w_now w) worker) w"
    by (auto simp: claimNext_def Let_def)
  show "set rows \<subseteq> set (w_outbox w')" by (force simp: rows w' update_outbox_def)
  show "\<forall>r \<in> set rows. ob_status r = Ob_dispatching" by (auto simp: rows claim_row_def)
  have "map ob_id rows = map ob_id (filter (\<lambda>r. ob_id r \<in> set (claim_ids locked limit w)) (w_outbox w))"
    by (simp add: rows claim_row_def)
  then show "distinct (map ob_id rows)"
    using assms(2) by (simp add: distinct_rows_def distinct_map_filter)
qed

lemma silent_emit_reclaimed: "evolves same_outbox (emit_reclaimed deps rs)"
  by (induction deps rs rule: emit_reclaimed.induct) (auto intro!: silent_intros silent_emit_row)

context outbox_worker
begin

lemma process_one:
  assumes "processClaimedRow deps r w = (res, w')" "distinct_rows w" "r \<in> set (w_outbox w)"
    and "ob_status r = Ob_dispatching"
  shows "table_steps w w'" "\<And>q. q \<in> set (w_outbox w) \<Longrightarrow> ob_id q \<noteq> ob_id r \<Longrightarrow> q \<in> set (w_outbox w')"
    and "\<exists>s \<in> set (w_outbox w'). ob_id s = ob_id r \<and> processed r (w_now w) res r s"
proof -
  note run = row_runD [OF row_run_process assms(1) assms(2) [unfolded distinct_rows_def]]
  show "table_steps w w'"
    unfolding table_steps_def
  proof (rule list_all2_all_nthI)
    show "length (w_outbox w) = length (w_outbox w')" using run(3) by (rule list_all2_lengthD)
    fix n assume n: "n < length (w_outbox w)"
    have "w_outbox w ! n = r" if "ob_id (w_outbox w ! n) = ob_id r"
      by (rule same_row [OF assms(2)]) (use n that assms(3) in auto)
    then show "row_steps (w_outbox w ! n) (w_outbox w' ! n)"
      using list_all2_nthD [OF run(3) n] processed_steps [OF _ assms(4)]
      by (cases "ob_id (w_outbox w ! n) = ob_id r") auto
  qed
  show "q \<in> set (w_outbox w) \<Longrightarrow> ob_id q \<noteq> ob_id r \<Longrightarrow> q \<in> set (w_outbox w')" for q
    using list_all2_nthD [OF run(3)] list_all2_lengthD [OF run(3)] by (metis in_set_conv_nth)
  show "\<exists>s \<in> set (w_outbox w'). ob_id s = ob_id r \<and> processed r (w_now w) res r s"
    using list_all2_nthD [OF run(3)] list_all2_lengthD [OF run(3)] assms(3) run(2)
    by (metis (no_types, lifting) in_set_conv_nth nth_map)
qed

lemma process_rows_steps:
  "distinct_rows w \<Longrightarrow> distinct (map ob_id rows) \<Longrightarrow> set rows \<subseteq> set (w_outbox w) \<Longrightarrow>
   (\<And>r. r \<in> set rows \<Longrightarrow> ob_status r = Ob_dispatching) \<Longrightarrow>
   table_steps w (snd (process_rows deps rows c w))"
proof (induction rows arbitrary: w c)
  case (Cons r rows)
  obtain res v where one: "processClaimedRow deps r w = (res, v)" by (cases "processClaimedRow deps r w")
  have r: "r \<in> set (w_outbox w)" "ob_status r = Ob_dispatching" using Cons.prems by auto
  note p = process_one [OF one Cons.prems(1) r]
  have rest: "set rows \<subseteq> set (w_outbox v)"
    using p(2) Cons.prems(2,3) by (fastforce simp: image_iff)
  have "table_steps v (snd (process_rows deps rows d v))" for d
    by (rule Cons.IH) (use Cons.prems rest table_steps_distinct [OF p(1)] in auto)
  then show ?case
    using p(1) by (auto simp: sbind_def one split: sum.split intro: table_steps_trans)
qed (simp add: sret_def table_steps_refl)

lemma cycle_steps:
  assumes "distinct_rows w"
  shows "table_steps w (snd (runOutboxCycle deps limit secs w))"
proof -
  let ?secs = "or_else secs 300" and ?limit = "or_else limit 10"
  obtain rc w1 where rc: "reclaimStale (wd_locked deps) ?secs w = (Inr rc, w1)"
    by (simp add: reclaimStale_def Let_def)
  have s1: "table_steps w w1"
    using reclaimStale_steps [of w "wd_locked deps" ?secs] by (simp add: rc)
  obtain er w2 where er: "emit_reclaimed deps rc w1 = (er, w2)" by (cases "emit_reclaimed deps rc w1")
  have s2: "table_steps w1 w2"
    by (rule same_outbox_steps) (rule evolvesD [OF silent_emit_reclaimed er])
  obtain rows w3 where cl: "claimNext (wd_locked deps) (wd_workerId deps) ?limit w2 = (Inr rows, w3)"
    by (simp add: claimNext_def Let_def)
  have d2: "distinct_rows w2" using assms s1 s2 table_steps_distinct by blast
  have s3: "table_steps w2 w3"
    using claimNext_steps [OF d2, of "wd_locked deps" "wd_workerId deps" ?limit] by (simp add: cl)
  have s4: "table_steps w3 (snd (process_rows deps rows c w3))" for c
    using claimNext_rows [OF cl d2] table_steps_distinct [OF s3 d2] by (intro process_rows_steps) auto
  show ?thesis
    using s1 s2 s3 s4
    by (auto simp: runOutboxCycle_def sbind_def sthen_def rc er cl split: sum.split
        intro: table_steps_trans table_steps_trans [OF table_steps_trans])
qed

end

section \<open>Rail calls\<close>

definition quiet :: "world \<Rightarrow> world \<Rightarrow> bool" where
  "quiet w v \<longleftrightarrow> dispatches v = dispatches w"

interpretation quiet_log: store_relation quiet
  by unfold_locales (auto simp: quiet_def dispatches_def)

lemma quiet_silent: "evolves same_outbox m \<Longrightarrow> evolves quiet m"
  by (auto simp: evolves_def same_outbox_def quiet_def)

lemma quiet_marks:
  "evolves quiet (markDispatched i receipt after x)" "evolves quiet (markSettled i)"
  "evolves quiet (markFailed i err)" "evolves quiet (markReconciling i err)"
  "evolves quiet (markPermanentlyFailed i err after)"
  "evolves quiet (claimNext locked worker limit)" "evolves quiet (reclaimStale locked secs)"
  by (auto simp: evolves_def quiet_def dispatches_def markDispatched_def markSettled_def markFailed_def
      markReconciling_def markPermanentlyFailed_def claimNext_def reclaimStale_def update_counted_def
      update_outbox_def Let_def split: option.split)

lemmas quiet_intros = quiet_log.evolves_intros quiet_marks quiet_silent [OF silent_emit_row]
  quiet_silent [OF silent_emitStuck] quiet_silent [OF silent_maybeEmitExhausted]
  quiet_silent [OF silent_dispatch_guard] quiet_silent [OF silent_emit_reclaimed]

lemma quiet_retry: "evolves quiet (retry_row deps row err)"
  unfolding retry_row_def by (auto intro!: quiet_intros)

lemma quiet_reconcile: "evolves quiet (reconcile_row deps row err)"
  unfolding reconcile_row_def by (auto intro!: quiet_intros)

context outbox_worker
begin

lemma quiet_settle: "evolves quiet (settleFromReceipt deps row ctx x receipt)"
  unfolding settleFromReceipt_def
  by (auto intro!: quiet_intros quiet_retry quiet_silent [OF complete_silent] split: option.split)

lemma quiet_fail: "evolves quiet (failPermanently deps row ctx reason)"
  unfolding failPermanently_def
  by (auto intro!: quiet_intros quiet_reconcile quiet_silent [OF fail_silent] split: option.split)

lemma quiet_after: "evolves quiet (after_dispatch deps row ctx x dispatched)"
  unfolding after_dispatch_def accept_receipt_def Let_def
  by (auto intro!: quiet_intros quiet_settle quiet_fail quiet_retry quiet_reconcile split: sum.split option.split)

end

section \<open>Counting the rail calls\<close>

fun is_for :: "string \<Rightarrow> string \<Rightarrow> effect \<Rightarrow> bool" where
  "is_for t k (Rail_dispatched t' k' x) = (t' = t \<and> k' = k)"
| "is_for t k (Audited ev) = False"
| "is_for t k (Domain_event s) = False"

definition rail_calls :: "string \<Rightarrow> string \<Rightarrow> world \<Rightarrow> nat" where
  "rail_calls t k w = length (filter (is_for t k) (w_log w))"

lemma rail_calls_dispatches: "rail_calls t k w = length (filter (is_for t k) (dispatches w))"
proof -
  have "filter (is_for t k) xs = filter (is_for t k) (filter is_dispatch xs)" for xs
  proof (induction xs)
    case (Cons e xs)
    then show ?case by (cases e) simp_all
  qed simp
  then show ?thesis by (simp add: rail_calls_def dispatches_def)
qed

lemma quiet_calls: "quiet w v \<Longrightarrow> rail_calls t k v = rail_calls t k w"
  by (simp add: quiet_def rail_calls_dispatches)

lemma evolves_quiet_calls: "evolves quiet m \<Longrightarrow> rail_calls t k (snd (m w)) = rail_calls t k w"
  using quiet_calls evolves_world by blast

lemma evolves_quiet_calls_to: "evolves quiet m \<Longrightarrow> m w = (r, v) \<Longrightarrow> rail_calls t k v = rail_calls t k w"
  using quiet_calls evolvesD by blast

text \<open>A row whose processing may call its rail.\<close>

definition callable :: "string \<Rightarrow> string \<Rightarrow> outbox_row \<Rightarrow> bool" where
  "callable t k r \<longleftrightarrow> ob_tenant_id r = t \<and> ob_idempotency_key r = k \<and> \<not> has_receipt r
     \<and> ob_audit_before_id r \<noteq> [] \<and> ob_status r \<notin> {Ob_settled, Ob_failed}"

lemma dispatch_rail_calls:
  "rail_calls t k (snd (dispatch_rail deps row ctx x w))
     \<le> rail_calls t k w + (if ob_tenant_id row = t \<and> ob_idempotency_key row = k then 1 else 0)"
  by (auto simp: dispatch_rail_def sret_def sthen_def sbind_def log_dispatch_def smodify_def rail_calls_def
      split: sum.split)

lemma length_filter_rel:
  assumes "list_all2 R xs ys" "\<And>x y. R x y \<Longrightarrow> P y \<Longrightarrow> Q x"
  shows "length (filter P ys) \<le> length (filter Q xs)"
  using assms(1) by (induction rule: list_all2_induct) (use assms(2) in auto)

lemma one_callable:
  assumes "distinct (map (\<lambda>r. (ob_tenant_id r, ob_idempotency_key r)) rs)"
  shows "length (filter (callable t k) rs) \<le> 1"
  using assms
proof (induction rs)
  case (Cons r rs)
  then show ?case
  proof (cases "callable t k r")
    case True
    then have "(t, k) \<notin> (\<lambda>r. (ob_tenant_id r, ob_idempotency_key r)) ` set rs"
      using Cons.prems by (auto simp: callable_def)
    then have "filter (callable t k) rs = []" by (force simp: filter_empty_conv callable_def)
    then show ?thesis by simp
  qed simp
qed simp

context outbox_worker
begin

lemma guarded_calls:
  "rail_calls t k (snd (guarded_dispatch deps r ctx x w))
     \<le> rail_calls t k w + (if ob_tenant_id r = t \<and> ob_idempotency_key r = k then 1 else 0)"
proof -
  obtain res v where g: "dispatch_guard deps ctx r w = (res, v)" by (cases "dispatch_guard deps ctx r w")
  have v: "rail_calls t k v = rail_calls t k w"
    by (rule evolves_quiet_calls_to [OF quiet_silent [OF silent_dispatch_guard] g])
  obtain d u where rail: "dispatch_rail deps r ctx x v = (d, u)" by (cases "dispatch_rail deps r ctx x v")
  have u: "rail_calls t k u \<le> rail_calls t k v + (if ob_tenant_id r = t \<and> ob_idempotency_key r = k then 1 else 0)"
    using dispatch_rail_calls [of t k deps r ctx x v] by (simp add: rail)
  show ?thesis
    using u by (auto simp: guarded_dispatch_def sbind_def g v rail evolves_quiet_calls quiet_after quiet_reconcile
        split: sum.split option.split)
qed

lemma process_calls:
  "ob_status r = Ob_dispatching \<Longrightarrow> rail_calls t k (snd (processClaimedRow deps r w))
     \<le> rail_calls t k w + (if callable t k r then 1 else 0)"
proof -
  assume d: "ob_status r = Ob_dispatching"
  let ?v = "w\<lparr>w_next := Suc (w_next w)\<rparr>" and ?ctx = "ctxForRow r (wd_workerId deps)"
  let ?x = "''exec_'' @ show_nat (w_next w)"
  have v: "rail_calls t k ?v = rail_calls t k w" by (simp add: rail_calls_def)
  show ?thesis
  proof (cases "ob_audit_before_id r = [] \<or> has_receipt r")
    case True
    then have "rail_calls t k (snd (processClaimedRow deps r w)) = rail_calls t k ?v"
      by (auto simp: processClaimedRow_def Let_def sbind_def fresh_id_def has_receipt_def
          evolves_quiet_calls [OF quiet_reconcile] evolves_quiet_calls [OF quiet_settle] split: option.split)
    with v show ?thesis by simp
  next
    case False
    then have "processClaimedRow deps r w = guarded_dispatch deps r ?ctx ?x ?v"
      by (auto simp: processClaimedRow_def Let_def sbind_def fresh_id_def has_receipt_def split: option.split)
    then show ?thesis
      using guarded_calls [of t k r ?ctx ?x ?v] v False d by (auto simp: callable_def)
  qed
qed

lemma process_rows_calls:
  "(\<And>r. r \<in> set rows \<Longrightarrow> ob_status r = Ob_dispatching) \<Longrightarrow>
   rail_calls t k (snd (process_rows deps rows c w)) \<le> rail_calls t k w + length (filter (callable t k) rows)"
proof (induction rows arbitrary: w c)
  case (Cons r rows)
  obtain res v where one: "processClaimedRow deps r w = (res, v)" by (cases "processClaimedRow deps r w")
  have "rail_calls t k v \<le> rail_calls t k w + (if callable t k r then 1 else 0)"
    using process_calls [of r t k w] Cons.prems by (simp add: one)
  moreover have "rail_calls t k (snd (process_rows deps rows d v)) \<le> rail_calls t k v + length (filter (callable t k) rows)"
    for d
    by (rule Cons.IH) (use Cons.prems in auto)
  note rest = this
  ultimately show ?case
  proof (cases res)
    case (Inr y)
    with \<open>rail_calls t k v \<le> _\<close> rest [of "tally y c"] show ?thesis
      by (auto simp: sbind_def one split: if_splits)
  qed (auto simp: sbind_def one split: if_splits)
qed (simp add: sret_def)

end

end
