(* ===== verification/Outbox_Safety.thy ===== *)
theory Outbox_Safety
  imports Outbox_Machine
begin

text \<open>
  Properties of the outbox under its worker. A run interleaves worker cycles with the passing of
  time and with anything the services do to the outbox table: append new pending rows under new
  keys. The claims hold for every choice of rails, guards, auditors and clocks.
\<close>

section \<open>The table\<close>

definition outbox_key :: "outbox_row \<Rightarrow> string \<times> string" where
  "outbox_key r = (ob_tenant_id r, ob_idempotency_key r)"

definition outbox_distinct :: "world \<Rightarrow> bool" where
  "outbox_distinct w \<longleftrightarrow> distinct_rows w \<and> distinct (map outbox_key (w_outbox w))"

definition outbox_ok :: "world \<Rightarrow> bool" where
  "outbox_ok w \<longleftrightarrow> outbox_distinct w \<and> (\<forall>r \<in> set (w_outbox w). row_ok r)"

lemma table_steps_keys: "table_steps w v \<Longrightarrow> map outbox_key (w_outbox v) = map outbox_key (w_outbox w)"
  unfolding table_steps_def
  by (induction rule: list_all2_induct) (auto dest!: row_steps_keeps simp: row_keeps_def outbox_key_def)

lemma table_steps_rows_ok:
  "table_steps w v \<Longrightarrow> (\<forall>r \<in> set (w_outbox w). row_ok r) \<Longrightarrow> (\<forall>r \<in> set (w_outbox v). row_ok r)"
  unfolding table_steps_def
  by (induction rule: list_all2_induct) (auto intro: row_steps_ok)

lemma table_steps_ok: "table_steps w v \<Longrightarrow> outbox_ok w \<Longrightarrow> outbox_ok v"
  using table_steps_distinct table_steps_keys table_steps_rows_ok
  by (auto simp: outbox_ok_def outbox_distinct_def)

text \<open>Services only append: fresh pending rows under keys not yet in the table.\<close>

definition new_row :: "outbox_row \<Rightarrow> bool" where
  "new_row r \<longleftrightarrow> ob_status r = Ob_pending \<and> ob_attempt_count r = 0 \<and> ob_rail_receipt r = None
     \<and> ob_execution_id r = None \<and> ob_last_attempt_at r = None \<and> ob_locked_at r = None"

definition outbox_grows :: "world \<Rightarrow> world \<Rightarrow> bool" where
  "outbox_grows w v \<longleftrightarrow> (\<exists>new. w_outbox v = w_outbox w @ new \<and> list_all new_row new)
     \<and> (outbox_distinct w \<longrightarrow> outbox_distinct v) \<and> dispatches v = dispatches w"

interpretation outbox_appends: store_relation outbox_grows
proof unfold_locales
  fix w v u :: world
  assume "outbox_grows w v" "outbox_grows v u"
  then show "outbox_grows w u" unfolding outbox_grows_def by (auto simp: list_all_append)
qed (auto simp: outbox_grows_def outbox_distinct_def distinct_rows_def dispatches_def)

lemma new_row_ok: "new_row r \<Longrightarrow> row_ok r"
  by (simp add: new_row_def row_ok_def)

lemma grows_insert:
  "new_row r \<Longrightarrow> evolves outbox_grows (insert_outbox_row r)"
  by (rule evolvesI) (auto simp: insert_outbox_row_def outbox_grows_def outbox_distinct_def distinct_rows_def
      dispatches_def list_ex_iff own_key_def outbox_key_def)

lemma grows_enqueue: "evolves outbox_grows (enqueue env t input)"
  unfolding enqueue_def
  by (auto intro!: outbox_appends.evolves_intros grows_insert simp: new_row_def new_outbox_row_def
      split: option.split)

section \<open>Runs\<close>

inductive outbox_run :: "worker_deps \<Rightarrow> world \<Rightarrow> world \<Rightarrow> bool" for deps where
  start: "outbox_run deps w w"
| cycle: "outbox_run deps w v \<Longrightarrow> outbox_run deps w (snd (runOutboxCycle deps limit staleSeconds v))"
| service: "outbox_run deps w v \<Longrightarrow> outbox_grows v u \<Longrightarrow> outbox_run deps w u"
| tick: "outbox_run deps w v \<Longrightarrow> w_now v \<le> now \<Longrightarrow> outbox_run deps w (v\<lparr>w_now := now\<rparr>)"

definition rows_progress :: "world \<Rightarrow> world \<Rightarrow> bool" where
  "rows_progress w v \<longleftrightarrow> (\<forall>r \<in> set (w_outbox w). \<exists>s \<in> set (w_outbox v). row_steps r s)"

lemma table_steps_progress: "table_steps w v \<Longrightarrow> rows_progress w v"
  unfolding table_steps_def rows_progress_def
  by (metis in_set_conv_nth list_all2_conv_all_nth)

lemma rows_progress_trans: "rows_progress w v \<Longrightarrow> rows_progress v u \<Longrightarrow> rows_progress w u"
  unfolding rows_progress_def by (meson rtranclp_trans)

context outbox_worker
begin

lemma run_progress: "outbox_run deps w v \<Longrightarrow> outbox_ok w \<Longrightarrow> outbox_ok v \<and> rows_progress w v"
proof (induction rule: outbox_run.induct)
  case (start w)
  then show ?case by (auto simp: rows_progress_def)
next
  case (cycle w v limit secs)
  then have "table_steps v (snd (runOutboxCycle deps limit secs v))"
    by (intro cycle_steps) (simp add: outbox_ok_def outbox_distinct_def)
  with cycle show ?case
    using table_steps_ok table_steps_progress rows_progress_trans by blast
next
  case (service w v u)
  then have "rows_progress v u" "outbox_ok u"
    by (auto simp: outbox_grows_def rows_progress_def outbox_ok_def list_all_iff intro: new_row_ok)
  with service show ?case using rows_progress_trans by blast
next
  case (tick w v now)
  then show ?case
    by (auto simp: outbox_ok_def outbox_distinct_def distinct_rows_def rows_progress_def)
qed

lemma cycle_calls:
  assumes "outbox_distinct w"
  shows "rail_calls t k (snd (runOutboxCycle deps limit secs w))
     \<le> rail_calls t k w + length (filter (callable t k) (w_outbox w))"
proof -
  let ?secs = "or_else secs 300" and ?limit = "or_else limit 10"
  obtain rc w1 where rc: "reclaimStale (wd_locked deps) ?secs w = (Inr rc, w1)"
    by (simp add: reclaimStale_def Let_def)
  have s1: "table_steps w w1"
    using reclaimStale_steps [of w "wd_locked deps" ?secs] by (simp add: rc)
  obtain er w2 where er: "emit_reclaimed deps rc w1 = (er, w2)" by (cases "emit_reclaimed deps rc w1")
  have s2: "table_steps w1 w2"
    by (rule same_outbox_steps) (rule evolvesD [OF silent_emit_reclaimed er])
  obtain rows w3 where cl: "claimNext (wd_locked deps) (wd_workerId deps) ?limit w2 = (Inr rows, w3)"
    by (simp add: claimNext_def Let_def)
  have c1: "rail_calls t k w1 = rail_calls t k w" by (rule evolves_quiet_calls_to [OF quiet_marks(7) rc])
  have c2: "rail_calls t k w2 = rail_calls t k w1"
    by (rule evolves_quiet_calls_to [OF quiet_silent [OF silent_emit_reclaimed] er])
  have c3: "rail_calls t k w3 = rail_calls t k w2" by (rule evolves_quiet_calls_to [OF quiet_marks(6) cl])
  have d2: "distinct_rows w2"
    using assms s1 s2 table_steps_distinct by (auto simp: outbox_distinct_def)
  have rows: "rows = map (claim_row (w_now w2) (wd_workerId deps))
      (filter (\<lambda>r. ob_id r \<in> set (claim_ids (wd_locked deps) ?limit w2)) (w_outbox w2))"
    using cl by (auto simp: claimNext_def Let_def)
  have claimed: "callable t k r"
    if "r \<in> set (w_outbox w2)" "ob_id r \<in> set (claim_ids (wd_locked deps) ?limit w2)"
      "callable t k (claim_row (w_now w2) (wd_workerId deps) r)" for r
    using claimed_row [OF d2 that(1,2)] that(3)
    by (auto simp: callable_def claim_row_def has_receipt_def claimable_def)
  have "length (filter (callable t k) rows) \<le> length (filter (callable t k) (w_outbox w2))"
  proof -
    have "filter (callable t k) rows = map (claim_row (w_now w2) (wd_workerId deps))
        (filter (\<lambda>r. ob_id r \<in> set (claim_ids (wd_locked deps) ?limit w2)
            \<and> callable t k (claim_row (w_now w2) (wd_workerId deps) r)) (w_outbox w2))"
      by (simp add: rows filter_map comp_def conj_commute)
    also have "length \<dots> \<le> length (filter (callable t k) (w_outbox w2))"
      using claimed by (simp add: length_filter_conv_card) (rule card_mono, auto)
    finally show ?thesis .
  qed
  also have "\<dots> \<le> length (filter (callable t k) (w_outbox w))"
  proof (rule length_filter_rel)
    show "list_all2 row_steps (w_outbox w) (w_outbox w2)"
      using table_steps_trans [OF s1 s2] by (simp add: table_steps_def)
    show "callable t k r" if "row_steps r s" "callable t k s" for r s
      using row_steps_keeps [OF that(1)] that(2)
      by (auto simp: row_keeps_def callable_def has_receipt_def)
  qed
  finally have n: "length (filter (callable t k) rows) \<le> length (filter (callable t k) (w_outbox w))" .
  have p: "rail_calls t k (snd (process_rows deps rows c w3)) \<le> rail_calls t k w3 + length (filter (callable t k) rows)" for c
    by (rule process_rows_calls) (use claimNext_rows(2) [OF cl d2] in auto)
  have total: "rail_calls t k (snd (process_rows deps rows c w3))
      \<le> rail_calls t k w + length (filter (callable t k) (w_outbox w))" for c
    using p [of c] n c1 c2 c3 by linarith
  show ?thesis
  proof (cases er)
    case (Inr u)
    then show ?thesis
      using total by (simp add: runOutboxCycle_def sbind_def sthen_def rc er cl)
  qed (use c1 c2 in \<open>simp add: runOutboxCycle_def sbind_def sthen_def rc er\<close>)
qed

end

section \<open>A concrete table\<close>

definition sample_row :: outbox_row where
  "sample_row = \<lparr>ob_id = ''exo_1'', ob_tenant_id = ''tnt_1'', ob_payment_intent_id = ''pi_1'',
     ob_execution_id = None, ob_rail = ''bank_ach'', ob_idempotency_key = ''pi:pi_1:pd_1'',
     ob_payload = [(''kind'', JStr ''ach_outbound'')], ob_payload_hash = ''h'', ob_status = Ob_pending,
     ob_attempt_count = 0, ob_last_error = None, ob_last_attempt_at = None, ob_rail_receipt = None,
     ob_audit_before_id = ''evt_1'', ob_audit_after_id = None, ob_reservation_id = Some ''rsv_1'',
     ob_locked_at = None, ob_locked_by = None, ob_created_at = 0, ob_dispatched_at = None,
     ob_completed_at = None\<rparr>"

definition outbox_world :: "outbox_row \<Rightarrow> world" where
  "outbox_world r = \<lparr>w_now = 1000, w_next = 7, w_intents = [], w_approvals = [], w_reservations = [],
     w_accounts = [], w_balances = [], w_executions = [], w_outbox = [r], w_log = []\<rparr>"

definition sample_worker :: "audit_emitter \<Rightarrow> worker_deps" where
  "sample_worker emit = \<lparr>wd_rails = (\<lambda>_. Inr (\<lambda>_. Inr [(''ach_trace'', JStr ''T1'')])),
     wd_completeExecution = (\<lambda>_ _. sret ()), wd_failExecution = (\<lambda>_ _ _. sret ()), wd_audit = emit,
     wd_beforeDispatch = None, wd_resolveDispatchCredentials = None, wd_workerId = ''worker_1'',
     wd_locked = (\<lambda>_. False)\<rparr>"

definition accepting :: audit_emitter where
  "accepting ev = Inr ''evt_2''"

lemma sample_worker_ok: "outbox_worker (sample_worker emit)"
  by unfold_locales (simp_all add: sample_worker_def outbox_silence.evolves_sret)

lemma sample_outbox_ok: "outbox_ok (outbox_world sample_row)"
  by (simp add: outbox_ok_def outbox_distinct_def distinct_rows_def outbox_world_def row_ok_def
      sample_row_def MAX_TOTAL_DISPATCH_ATTEMPTS_def)

abbreviation sample_cycle :: "audit_emitter \<Rightarrow> world \<Rightarrow> world" where
  "sample_cycle emit w \<equiv> snd (runOutboxCycle (sample_worker emit) None None w)"

lemma sample_settles: "map ob_status (w_outbox (sample_cycle accepting (outbox_world sample_row))) = [Ob_settled]"
  by code_simp

section \<open>Claims\<close>

text \<open>C15 (refinement). The worker implements the row machine: in every run from a well-formed table, under whatever
  rails, guards, auditors and clocks, each row only ever moves along \<open>row_step\<close>, the ids and the
  (tenant, idempotency key) pairs stay unique, and the attempt counter stored with a row never passes
  twelve. (The counter counts the failures the worker records; a row that is reclaimed after its
  receipt was lost is dispatched again without counting.)\<close>

theorem outbox_refines_machine:
  assumes "outbox_worker deps" "outbox_run deps w v" "outbox_ok w"
  shows "(\<forall>r \<in> set (w_outbox w). \<exists>s \<in> set (w_outbox v). row_steps r s)
    \<and> distinct (map ob_id (w_outbox v)) \<and> distinct (map outbox_key (w_outbox v))
    \<and> (\<forall>s \<in> set (w_outbox v). ob_attempt_count s \<le> MAX_TOTAL_DISPATCH_ATTEMPTS)"
  using outbox_worker.run_progress [OF assms]
  by (auto simp: outbox_ok_def outbox_distinct_def distinct_rows_def rows_progress_def row_ok_def)

lemma key_unique:
  "outbox_distinct w \<Longrightarrow> r \<in> set (w_outbox w) \<Longrightarrow> s \<in> set (w_outbox w) \<Longrightarrow> outbox_key r = outbox_key s \<Longrightarrow> r = s"
  unfolding outbox_distinct_def by (metis distinct_map inj_onD)

lemma receipt_not_callable:
  assumes "outbox_distinct w" "s \<in> set (w_outbox w)" "has_receipt s"
  shows "filter (callable (ob_tenant_id s) (ob_idempotency_key s)) (w_outbox w) = []"
  using key_unique [OF assms(1) _ assms(2)] assms(3)
  by (auto simp: filter_empty_conv callable_def outbox_key_def)

lemma calls_grows: "outbox_grows w v \<Longrightarrow> rail_calls t k v = rail_calls t k w"
  by (simp add: outbox_grows_def rail_calls_dispatches)

theorem outbox_refines_machine_witness:
  "\<exists>s \<in> set (w_outbox (sample_cycle accepting (outbox_world sample_row))).
     row_steps sample_row s \<and> ob_attempt_count s \<le> 12"
proof -
  have "outbox_run (sample_worker accepting) (outbox_world sample_row) (sample_cycle accepting (outbox_world sample_row))"
    by (intro outbox_run.cycle outbox_run.start)
  from outbox_refines_machine [OF sample_worker_ok this sample_outbox_ok] show ?thesis
    by (auto simp: outbox_world_def MAX_TOTAL_DISPATCH_ATTEMPTS_def)
qed

text \<open>C16 (safety). Once the rail's receipt is stored the money is not sent again: in every further run a row that
  carries a receipt causes no rail call under its tenant and idempotency key, and keeps that receipt.\<close>

theorem receipt_stops_dispatch:
  assumes worker: "outbox_worker deps" and run: "outbox_run deps w v" and ok: "outbox_ok w"
    and r: "r \<in> set (w_outbox w)" "ob_rail_receipt r \<noteq> None"
  shows "rail_calls (ob_tenant_id r) (ob_idempotency_key r) v \<le> rail_calls (ob_tenant_id r) (ob_idempotency_key r) w
    \<and> (\<exists>s \<in> set (w_outbox v). ob_id s = ob_id r \<and> ob_rail_receipt s = ob_rail_receipt r)"
proof -
  let ?calls = "rail_calls (ob_tenant_id r) (ob_idempotency_key r)"
  have receipt: "has_receipt r" using ok r by (auto simp: outbox_ok_def row_ok_def has_receipt_def)
  have kept: "\<exists>s \<in> set (w_outbox u). row_keeps r s" if "outbox_run deps w u" for u
    using outbox_worker.run_progress [OF worker that ok] r(1) row_steps_keeps
    unfolding rows_progress_def by blast
  have "?calls v \<le> ?calls w"
    using run kept ok
  proof (induction rule: outbox_run.induct)
    case (cycle w v limit secs)
    obtain s where s: "s \<in> set (w_outbox v)" "row_keeps r s" using cycle.prems(1) cycle.hyps by blast
    have "outbox_distinct v"
      using outbox_worker.run_progress [OF worker cycle.hyps cycle.prems(2)] by (simp add: outbox_ok_def)
    moreover have "has_receipt s" "ob_tenant_id s = ob_tenant_id r" "ob_idempotency_key s = ob_idempotency_key r"
      using s(2) receipt by (auto simp: row_keeps_def has_receipt_def)
    ultimately have "filter (callable (ob_tenant_id r) (ob_idempotency_key r)) (w_outbox v) = []"
      using receipt_not_callable [of v s] s(1) by simp
    then have "?calls (snd (runOutboxCycle deps limit secs v)) \<le> ?calls v"
      using outbox_worker.cycle_calls [OF worker \<open>outbox_distinct v\<close>,
          of "ob_tenant_id r" "ob_idempotency_key r" limit secs] by simp
    with cycle show ?case by (meson order_trans)
  next
    case (service w v u)
    then show ?case by (simp add: calls_grows)
  qed (simp_all add: rail_calls_def)
  moreover have "\<exists>s \<in> set (w_outbox v). ob_id s = ob_id r \<and> ob_rail_receipt s = ob_rail_receipt r"
    using kept [OF run] receipt by (auto simp: row_keeps_def has_receipt_def)
  ultimately show ?thesis by blast
qed

definition stranded_row :: outbox_row where
  "stranded_row = sample_row\<lparr>ob_status := Ob_dispatched, ob_rail_receipt := Some (JObj [(''ach_trace'', JStr ''T1'')]),
     ob_execution_id := Some ''exec_1'', ob_locked_at := Some (-400000), ob_locked_by := Some ''worker_0''\<rparr>"

theorem receipt_stops_dispatch_witness:
  "rail_calls ''tnt_1'' ''pi:pi_1:pd_1'' (sample_cycle accepting (outbox_world stranded_row)) = 0
   \<and> map ob_status (w_outbox (sample_cycle accepting (outbox_world stranded_row))) = [Ob_settled]"
proof -
  have ok: "outbox_ok (outbox_world stranded_row)"
    by (simp add: outbox_ok_def outbox_distinct_def distinct_rows_def outbox_world_def row_ok_def stranded_row_def
        sample_row_def MAX_TOTAL_DISPATCH_ATTEMPTS_def)
  have run: "outbox_run (sample_worker accepting) (outbox_world stranded_row) (sample_cycle accepting (outbox_world stranded_row))"
    by (intro outbox_run.cycle outbox_run.start)
  have "rail_calls ''tnt_1'' ''pi:pi_1:pd_1'' (sample_cycle accepting (outbox_world stranded_row)) = 0"
    using receipt_stops_dispatch [OF sample_worker_ok run ok, of stranded_row]
    by (simp add: outbox_world_def stranded_row_def sample_row_def rail_calls_def)
  moreover have "map ob_status (w_outbox (sample_cycle accepting (outbox_world stranded_row))) = [Ob_settled]"
    by code_simp
  ultimately show ?thesis by blast
qed

text \<open>Every rail call is accounted for: one worker cycle calls the rail of a (tenant, idempotency key) pair
  at most once, and only if the table holds an open row under that pair which carries the id of the gate's
  audit event and no receipt.\<close>

theorem rail_calls_accounted:
  assumes "outbox_worker deps" "outbox_ok w"
  shows "rail_calls t k (snd (runOutboxCycle deps limit secs w)) \<le> rail_calls t k w + 1
    \<and> (rail_calls t k w < rail_calls t k (snd (runOutboxCycle deps limit secs w)) \<longrightarrow>
        (\<exists>r \<in> set (w_outbox w). outbox_key r = (t, k) \<and> ob_audit_before_id r \<noteq> []
           \<and> ob_rail_receipt r = None \<and> ob_status r \<notin> {Ob_settled, Ob_failed}))"
proof -
  have d: "outbox_distinct w" and rows: "\<forall>r \<in> set (w_outbox w). row_ok r"
    using assms(2) by (auto simp: outbox_ok_def)
  let ?open = "filter (callable t k) (w_outbox w)"
  have "rail_calls t k (snd (runOutboxCycle deps limit secs w)) \<le> rail_calls t k w + length ?open"
    by (rule outbox_worker.cycle_calls [OF assms(1) d])
  moreover have "length ?open \<le> 1"
    using one_callable d by (simp add: outbox_distinct_def outbox_key_def [abs_def])
  moreover have "?open \<noteq> [] \<Longrightarrow> \<exists>r \<in> set (w_outbox w). outbox_key r = (t, k) \<and> ob_audit_before_id r \<noteq> []
      \<and> ob_rail_receipt r = None \<and> ob_status r \<notin> {Ob_settled, Ob_failed}"
    using rows by (force simp: filter_empty_conv callable_def has_receipt_def row_ok_def outbox_key_def)
  ultimately show ?thesis by (cases "?open = []") auto
qed

theorem rail_calls_accounted_witness:
  "rail_calls ''tnt_1'' ''pi:pi_1:pd_1'' (sample_cycle accepting (outbox_world sample_row)) = 1
   \<and> outbox_key sample_row = (''tnt_1'', ''pi:pi_1:pd_1'')"
proof -
  have "rail_calls ''tnt_1'' ''pi:pi_1:pd_1'' (sample_cycle accepting (outbox_world sample_row)) = Suc 0"
    by code_simp
  moreover have "rail_calls ''tnt_1'' ''pi:pi_1:pd_1'' (outbox_world sample_row) = 0"
    by (simp add: rail_calls_def outbox_world_def)
  ultimately show ?thesis
    using rail_calls_accounted [OF sample_worker_ok sample_outbox_ok, of "''tnt_1''" "''pi:pi_1:pd_1''" accepting None None]
    by (simp add: outbox_world_def)
qed

definition losing_after :: audit_emitter where
  "losing_after ev = (if au_action ev = ''payment_intent.execute.after'' then Inl ''audit store down'' else Inr ''evt_9'')"

definition second_cycle :: world where
  "second_cycle = sample_cycle losing_after
     ((sample_cycle losing_after (outbox_world sample_row))\<lparr>w_now := 400000\<rparr>)"

text \<open>Where the guarantee ends, on one row as an example: the receipt is stored only after the audit event that follows the rail call
  is accepted. Here the auditor rejects that event: the row is reclaimed without a receipt and without a counted
  attempt, and the rail is called a second time under the same key.\<close>

theorem lost_receipt_dispatches_again:
  "rail_calls ''tnt_1'' ''pi:pi_1:pd_1'' second_cycle = 2
   \<and> map ob_attempt_count (w_outbox second_cycle) = [0] \<and> map ob_rail_receipt (w_outbox second_cycle) = [None]"
  by code_simp

lemma row_step_parked:
  "row_step r s \<Longrightarrow> ob_status r \<in> {Ob_pending, Ob_reconciling, Ob_settled, Ob_failed} \<Longrightarrow>
   ob_attempt_count r < MAX_TOTAL_DISPATCH_ATTEMPTS"
  by (erule row_stepE) auto

text \<open>Retries end: in every run a row that has used its twelve attempts stays exactly as it is, and
  its rail is called no more.\<close>

theorem exhausted_row_parks:
  assumes worker: "outbox_worker deps" and run: "outbox_run deps w v" and ok: "outbox_ok w"
    and r: "r \<in> set (w_outbox w)" "ob_attempt_count r = MAX_TOTAL_DISPATCH_ATTEMPTS"
  shows "r \<in> set (w_outbox v)"
proof -
  obtain s where s: "s \<in> set (w_outbox v)" "row_steps r s"
    using outbox_worker.run_progress [OF worker run ok] r(1) by (auto simp: rows_progress_def)
  have "ob_status r \<in> {Ob_pending, Ob_reconciling, Ob_settled, Ob_failed}"
    using ok r by (cases "ob_status r") (auto simp: outbox_ok_def row_ok_def)
  with s(2) r(2) have "s = r" by (cases rule: converse_rtranclpE) (auto dest: row_step_parked)
  with s(1) show ?thesis by simp
qed

theorem exhausted_row_parks_witness:
  "sample_row\<lparr>ob_status := Ob_reconciling, ob_attempt_count := 12\<rparr>
     \<in> set (w_outbox (sample_cycle accepting (outbox_world (sample_row\<lparr>ob_status := Ob_reconciling, ob_attempt_count := 12\<rparr>))))"
  (is "?r \<in> set (w_outbox (sample_cycle accepting ?w))")
proof -
  have "outbox_ok ?w"
    by (simp add: outbox_ok_def outbox_distinct_def distinct_rows_def outbox_world_def row_ok_def sample_row_def
        MAX_TOTAL_DISPATCH_ATTEMPTS_def)
  moreover have "outbox_run (sample_worker accepting) ?w (sample_cycle accepting ?w)"
    by (intro outbox_run.cycle outbox_run.start)
  ultimately show ?thesis
    using exhausted_row_parks [OF sample_worker_ok, of accepting ?w "sample_cycle accepting ?w" ?r]
    by (simp add: outbox_world_def MAX_TOTAL_DISPATCH_ATTEMPTS_def)
qed

lemma distinct_by_created_at: "distinct rs \<Longrightarrow> distinct (by_created_at rs)"
proof -
  have ins: "distinct (insert_oldest r acc) = (r \<notin> set acc \<and> distinct acc)" for r acc
    by (induction acc) (auto simp: set_insert_oldest)
  have "distinct (acc @ rs) \<Longrightarrow> distinct (foldl (\<lambda>acc r. insert_oldest r acc) acc rs)" for acc
    by (induction rs arbitrary: acc) (auto simp: ins set_insert_oldest)
  then show "distinct rs \<Longrightarrow> distinct (by_created_at rs)" by (simp add: by_created_at_def)
qed

lemma claimed_set:
  assumes "distinct_rows w"
  shows "set (filter (\<lambda>r. ob_id r \<in> set (claim_ids locked limit w)) (w_outbox w))
    = set (take limit (by_created_at (filter (\<lambda>r. claimable (w_now w) r \<and> \<not> locked (ob_id r)) (w_outbox w))))"
    (is "_ = set (take limit ?E)")
proof -
  have "set (take limit ?E) \<subseteq> set (w_outbox w)"
    using set_take_subset [of limit ?E] by (auto simp: set_by_created_at)
  then have "x = y" if "x \<in> set (w_outbox w)" "y \<in> set (take limit ?E)" "ob_id x = ob_id y" for x y
    using same_row [OF assms that(1) _ that(3)] that(2) by blast
  with \<open>set (take limit ?E) \<subseteq> set (w_outbox w)\<close> show ?thesis
    unfolding claim_ids_def set_filter set_map by blast
qed

text \<open>The claim takes the oldest eligible rows: every claimed row was pending or reconciling, unlocked,
  under the attempt ceiling and past its backoff window, at most \<open>limit\<close> rows are claimed, and an eligible row
  left behind is no older than any row taken.\<close>

theorem claim_oldest_eligible:
  assumes "claimNext locked worker limit w = (Inr rows, w')" "outbox_ok w"
  shows "length rows \<le> limit
    \<and> (\<forall>c \<in> set rows. \<exists>r \<in> set (w_outbox w). c = claim_row (w_now w) worker r
         \<and> claimable (w_now w) r \<and> \<not> locked (ob_id r))
    \<and> (\<forall>r \<in> set (w_outbox w). claimable (w_now w) r \<and> \<not> locked (ob_id r) \<and> ob_id r \<notin> ob_id ` set rows \<longrightarrow>
         length rows = limit \<and> (\<forall>c \<in> set rows. ob_created_at c \<le> ob_created_at r))"
proof -
  let ?E = "by_created_at (filter (\<lambda>r. claimable (w_now w) r \<and> \<not> locked (ob_id r)) (w_outbox w))"
  let ?hit = "filter (\<lambda>r. ob_id r \<in> set (claim_ids locked limit w)) (w_outbox w)"
  have d: "distinct_rows w" using assms(2) by (simp add: outbox_ok_def outbox_distinct_def)
  then have dw: "distinct (w_outbox w)" by (simp add: distinct_rows_def distinct_map)
  have rows: "rows = map (claim_row (w_now w) worker) ?hit"
    using assms(1) by (auto simp: claimNext_def Let_def)
  have hit: "set ?hit = set (take limit ?E)" by (rule claimed_set [OF d])
  have len: "length rows = length (take limit ?E)"
    using distinct_card [OF distinct_filter [OF dw], of "\<lambda>r. ob_id r \<in> set (claim_ids locked limit w)"]
      distinct_card [OF distinct_take [OF distinct_by_created_at [OF distinct_filter [OF dw]]]] hit
    by (simp add: rows)
  have ids: "ob_id ` set rows = ob_id ` set ?hit" by (auto simp: rows claim_row_def image_iff)
  have left: "length rows = limit \<and> (\<forall>c \<in> set rows. ob_created_at c \<le> ob_created_at r)"
    if "r \<in> set (w_outbox w)" "claimable (w_now w) r" "\<not> locked (ob_id r)" "ob_id r \<notin> ob_id ` set rows" for r
  proof -
    have "r \<in> set ?E" "r \<notin> set (take limit ?E)"
      using that hit ids by (auto simp: set_by_created_at)
    then have r: "r \<in> set (drop limit ?E)" by (metis UnE append_take_drop_id set_append)
    moreover have "sorted (map ob_created_at (take limit ?E @ drop limit ?E))" by (simp add: sorted_by_created_at)
    ultimately have "\<forall>c \<in> set (take limit ?E). ob_created_at c \<le> ob_created_at r"
      unfolding map_append sorted_append by auto
    moreover have "length (take limit ?E) = limit" using r by (cases "length ?E \<le> limit") auto
    ultimately show ?thesis using len hit by (auto simp: rows claim_row_def)
  qed
  have "\<exists>r \<in> set (w_outbox w). c = claim_row (w_now w) worker r \<and> claimable (w_now w) r \<and> \<not> locked (ob_id r)"
    if "c \<in> set rows" for c
    using that claimed_row [OF d] by (auto simp: rows)
  with left len show ?thesis by auto
qed

theorem claim_oldest_eligible_witness:
  "\<exists>rows w'. claimNext (\<lambda>_. False) ''worker_1'' 1 (outbox_world sample_row) = (Inr rows, w')
     \<and> map ob_id rows = [''exo_1''] \<and> length rows \<le> 1"
proof -
  obtain rows w' where c: "claimNext (\<lambda>_. False) ''worker_1'' 1 (outbox_world sample_row) = (Inr rows, w')"
    by (simp add: claimNext_def Let_def)
  have "map_sum id (map ob_id) (fst (claimNext (\<lambda>_. False) ''worker_1'' 1 (outbox_world sample_row))) = Inr [''exo_1'']"
    by code_simp
  then have "map ob_id rows = [''exo_1'']" unfolding c by simp
  moreover have "length rows \<le> 1" using claim_oldest_eligible [OF c sample_outbox_ok] by blast
  ultimately show ?thesis using c by (intro exI conjI)
qed

text \<open>Enqueueing is idempotent per (tenant, key) and keeps credentials out: when it returns, the table
  holds exactly one row under the key; the call that created it stored a pending row whose payload passed the
  credential assertion, and a replay returns the existing row's id and changes no row.\<close>

theorem enqueue_once:
  assumes "enqueue env t input w = (Inr result, w')" "outbox_ok w"
  shows "\<exists>row. filter (own_key t (en_idempotencyKey input)) (w_outbox w') = [row] \<and> er_id result = ob_id row
    \<and> \<not> list_ex (forbidden_key DEFAULT_AGENT_TRACE_POLICY)
          (visible_keys DEFAULT_AGENT_TRACE_POLICY (JObj (en_payload input)))
    \<and> (if er_created result
        then w_outbox w' = w_outbox w @ [row] \<and> new_row row \<and> ob_payload row = en_payload input
          \<and> ob_audit_before_id row = en_auditBeforeId input
        else w_outbox w' = w_outbox w)"
proof -
  let ?k = "en_idempotencyKey input"
  from assms(1) have pass: "assertNoForbiddenFields (oe_digests env) DEFAULT_AGENT_TRACE_POLICY (JObj (en_payload input)) = Inr ()"
    by (auto simp: enqueue_def sthen_def sbind_def slift_def sthrow_def split: sum.splits)
  define i where "i = ''exo_'' @ show_nat (w_next w)"
  define row where "row = new_outbox_row env t input i (w_now w)"
  let ?w1 = "w\<lparr>w_next := Suc (w_next w)\<rparr>"
  have row: "ob_tenant_id row = t" "ob_idempotency_key row = ?k" "ob_id row = i" "new_row row"
    "ob_payload row = en_payload input" "ob_audit_before_id row = en_auditBeforeId input"
    by (simp_all add: row_def new_outbox_row_def new_row_def)
  have keys: "distinct (map outbox_key (w_outbox w))"
    using assms(2) by (simp add: outbox_ok_def outbox_distinct_def)
  have unique: "\<exists>x. filter (own_key t ?k) rs = [x] \<and> find (own_key t ?k) rs = Some x"
    if "distinct (map outbox_key rs)" "list_ex (own_key t ?k) rs" for rs
    using that
  proof (induction rs)
    case (Cons a rs)
    show ?case
    proof (cases "own_key t ?k a")
      case True
      then have "filter (own_key t ?k) rs = []"
        using Cons.prems(1) by (auto simp: filter_empty_conv own_key_def outbox_key_def image_iff)
      with True show ?thesis by simp
    qed (use Cons in simp)
  qed simp
  have "enqueue env t input w = sbind (insert_outbox_row row) (\<lambda>inserted. case inserted of
       Some j \<Rightarrow> sret \<lparr>er_id = j, er_created = True\<rparr>
     | None \<Rightarrow> sbind (sget (\<lambda>w. find (own_key t ?k) (w_outbox w))) (\<lambda>existing. case existing of
         None \<Rightarrow> sthrow (Thrown ''execution_outbox enqueue: conflict but no existing row found'')
       | Some row \<Rightarrow> sret \<lparr>er_id = ob_id row, er_created = False\<rparr>)) ?w1"
    unfolding enqueue_def row_def i_def
    by (simp add: sthen_def sbind_def slift_def pass sret_def fresh_id_def sget_def)
  note run = assms(1) [unfolded this]
  have secret: "\<not> list_ex (forbidden_key DEFAULT_AGENT_TRACE_POLICY)
      (visible_keys DEFAULT_AGENT_TRACE_POLICY (JObj (en_payload input)))"
    using pass unfolding assertNoForbiddenFields_iff .
  show ?thesis
  proof (cases "list_ex (own_key t ?k) (w_outbox w)")
    case True
    with run unique [OF keys True] secret show ?thesis
      by (auto simp: insert_outbox_row_def row sbind_def sget_def sret_def)
  next
    case False
    then have "filter (own_key t ?k) (w_outbox w) = []" by (simp add: filter_empty_conv list_ex_iff)
    with run False secret row show ?thesis
      by (auto simp: insert_outbox_row_def own_key_def sbind_def sret_def split: if_splits)
  qed
qed

definition sample_env :: outbox_env where
  "sample_env = \<lparr>oe_digests = \<lparr>dg_hmac_hex = (\<lambda>_ _. []), dg_sha256_hex = (\<lambda>s. s)\<rparr>, oe_show_number = (\<lambda>_. [])\<rparr>"

definition sample_enqueue :: "string \<Rightarrow> enqueue_input" where
  "sample_enqueue k = \<lparr>en_paymentIntentId = ''pi_2'', en_rail = ''bank_ach'', en_idempotencyKey = k,
     en_payload = [(''kind'', JStr ''ach_outbound''), (''amount'', JStr ''10.00'')], en_auditBeforeId = ''evt_3'',
     en_reservationId = None\<rparr>"

theorem enqueue_once_witness:
  "\<exists>r w'. enqueue sample_env ''tnt_1'' (sample_enqueue ''pi:pi_2:pd_2'') (outbox_world sample_row) = (Inr r, w')
     \<and> er_created r \<and> length (w_outbox w') = 2"
proof -
  have "map_sum id er_created (fst (enqueue sample_env ''tnt_1'' (sample_enqueue ''pi:pi_2:pd_2'') (outbox_world sample_row)))
      = Inr True"
    by code_simp
  then obtain r w' where e: "enqueue sample_env ''tnt_1'' (sample_enqueue ''pi:pi_2:pd_2'') (outbox_world sample_row) = (Inr r, w')"
    and c: "er_created r"
    by (cases "enqueue sample_env ''tnt_1'' (sample_enqueue ''pi:pi_2:pd_2'') (outbox_world sample_row)")
      (auto simp: map_sum_def split: sum.splits)
  from enqueue_once [OF e sample_outbox_ok] c have "length (w_outbox w') = 2"
    by (auto simp: outbox_world_def)
  with e c show ?thesis by blast
qed

end
