(* ===== verification/Reservations.thy ===== *)
theory Reservations
  imports Exec_Store
begin

text \<open>
  Reservations never promise the same money twice (services/ledger/src/repository/
  reservations.ts). The file has its own decimal arithmetic at eight fraction digits, the
  precision of the \<open>NUMERIC(28, 8)\<close> columns; it is shown to meet the same interface as the
  gate's, in units of 10^-8. Postgres' own arithmetic on the columns enters as \<open>db_exact\<close>, which
  speaks only of decimals that fit the column: beyond eight fraction digits Postgres rounds.
\<close>

section \<open>Eight-digit arithmetic\<close>

definition units8 :: "string \<Rightarrow> int" where
  "units8 s = (case decimal_parts s of (i, f) \<Rightarrow>
     int (digits_val i * 10 ^ 8 + digits_val (take 8 (pad_end 8 CHR ''0'' f))))"

lemma take_pad_end: "take n (f @ replicate m c) = take n (pad_end n c f)" if "n \<le> m"
  using that by (cases "length f \<le> n") (simp_all add: pad_end_def)

lemma digits_take: "list_all is_digit f \<Longrightarrow> list_all is_digit (take n (pad_end n CHR ''0'' f))"
  by (auto simp: pad_end_def list_all_iff dest: in_set_takeD)

lemma toScaled8_units:
  assumes "is_decimal s"
  shows "toScaled8 s = Some (units8 s)"
proof -
  from assms obtain i f where p: "decimal_parts s = (i, f)"
    and d: "i \<noteq> []" "list_all is_digit i" "list_all is_digit f" by (rule is_decimalE)
  have trim: "js_trim s = s"
    by (rule js_trim_id) (rule signed_not_space [OF is_decimal_signed [OF assms]])
  have "take 8 (f @ ''00000000'') = take 8 (pad_end 8 CHR ''0'' f)"
    using take_pad_end [of 8 8 f "CHR ''0''"] by (simp add: numeral_eq_Suc)
  moreover have "js_BigInt (nonempty_or (strip_leading_zeros i) ''0'' @ take 8 (pad_end 8 CHR ''0'' f))
      = Some (int (digits_val (nonempty_or (strip_leading_zeros i) ''0'' @ take 8 (pad_end 8 CHR ''0'' f))))"
    using nonempty_or_digits [OF d(2)] digits_take [OF d(3), of 8] by (intro js_BigInt_digits) auto
  moreover have "length (take 8 (pad_end 8 CHR ''0'' f)) = 8" by (simp add: pad_end_def)
  ultimately show ?thesis
    using d is_decimal_not_minus [OF assms]
    by (simp add: toScaled8_def trim p units8_def digits_val_append)
qed

text \<open>Printing a sum and reading it back.\<close>

definition print8 :: "int \<Rightarrow> string" where
  "print8 i =
     (let raw = pad_start 9 CHR ''0'' (show_int i);
          intPart = nonempty_or (strip_leading_zeros (take (length raw - 8) raw)) ''0'';
          fracPart = strip_trailing_zeros (drop (length raw - 8) raw)
      in if length fracPart > 0 then intPart @ ''.'' @ fracPart else intPart)"

lemma strip_trailing_repad:
  assumes "length d = n"
  shows "take n (pad_end n CHR ''0'' (strip_trailing_zeros d)) = d"
proof -
  obtain k where k: "d = strip_trailing_zeros d @ replicate k CHR ''0''" using strip_trailing_split by blast
  then have "n = length (strip_trailing_zeros d) + k" using assms by (metis length_append length_replicate)
  then have "pad_end n CHR ''0'' (strip_trailing_zeros d) = d" using k by (simp add: pad_end_def)
  then show ?thesis using assms by simp
qed

text \<open>A decimal the column holds as it is: at most eight fraction digits.\<close>

definition fits8 :: "string \<Rightarrow> bool" where
  "fits8 s \<longleftrightarrow> is_decimal s \<and> length (snd (decimal_parts s)) \<le> 8"

lemma print8_spec:
  assumes "0 \<le> i"
  shows "fits8 (print8 i) \<and> units8 (print8 i) = i"
proof -
  define raw where "raw = pad_start 9 CHR ''0'' (show_int i)"
  define h where "h = take (length raw - 8) raw"
  define d where "d = drop (length raw - 8) raw"
  have s: "list_all is_digit (show_int i)" "digits_val (show_int i) = nat i"
    using show_nat_spec [of "nat i"] by (simp_all add: show_int_nat assms)
  note r = pad_start_spec [OF s(1), of 9, folded raw_def]
  have len: "length d = 8" using r(2) by (simp add: d_def)
  have dig: "list_all is_digit h" "list_all is_digit d"
    using r(1) by (auto simp: h_def d_def list_all_iff dest: in_set_takeD in_set_dropD)
  have "digits_val raw = digits_val h * 10 ^ 8 + digits_val d"
    using digits_val_append [of h d] len by (simp add: h_def d_def)
  then have val: "int (digits_val h * 10 ^ 8 + digits_val d) = i" using r(3) s(2) assms by simp
  let ?h = "nonempty_or (strip_leading_zeros h) ''0''" and ?f = "strip_trailing_zeros d"
  have f: "list_all is_digit ?f" "length ?f \<le> 8"
    using strip_trailing_split [of d] dig(2) len by (metis list_all_append, metis length_append le_add1)
  have hd: "list_all is_digit ?h" "?h \<noteq> []" "digits_val ?h = digits_val h"
    using nonempty_or_digits [OF dig(1)] by (simp_all add: digits_val_nonempty_or)
  have print: "print8 i = (if length ?f > 0 then ?h @ ''.'' @ ?f else ?h)"
    by (simp add: print8_def Let_def raw_def [symmetric] h_def d_def)
  have parts: "is_decimal (print8 i) \<and> decimal_parts (print8 i) = (?h, ?f)"
  proof (cases "?f = []")
    case True
    then show ?thesis using is_decimal_intI [OF hd(2,1)] decimal_parts_int [OF hd(1)] by (simp add: print)
  next
    case False
    then show ?thesis using is_decimal_fracI [OF hd(2,1) False f(1)] decimal_parts_frac [OF hd(1) f(1)]
      by (simp add: print)
  qed
  then have "units8 (print8 i) = int (digits_val ?h * 10 ^ 8 + digits_val d)"
    unfolding units8_def conjunct2 [OF parts] prod.case strip_trailing_repad [OF len] by simp
  with val hd(3) parts f(2) show ?thesis by (simp add: fits8_def)
qed

lemma units8_nonneg: "0 \<le> units8 s"
  by (simp add: units8_def split: prod.split)

lemma addDecimalString8_print:
  "is_decimal a \<Longrightarrow> is_decimal b \<Longrightarrow> addDecimalString8 a b = Some (print8 (units8 a + units8 b))"
  by (simp add: addDecimalString8_def toScaled8_units print8_def Let_def)

lemma addDecimalString8_exact:
  "is_decimal a \<Longrightarrow> is_decimal b \<Longrightarrow>
   \<exists>c. addDecimalString8 a b = Some c \<and> is_decimal c \<and> units8 c = units8 a + units8 b"
  using addDecimalString8_print print8_spec units8_nonneg by (simp add: add_nonneg_nonneg fits8_def)

lemma cmpDecimal8_units:
  "is_decimal a \<Longrightarrow> is_decimal b \<Longrightarrow> cmpDecimal8 a b = Some (sgn (units8 a - units8 b))"
  by (simp add: cmpDecimal8_def toScaled8_units sgn_if)

interpretation reservation_decimal: decimal_add is_decimal "\<lambda>a b. the (cmpDecimal8 a b)" units8 addDecimalString8
  by unfold_locales (simp_all add: cmpDecimal8_units addDecimalString8_exact)

section \<open>The account is never over-reserved\<close>

text \<open>
  What the code relies on from the columns, for decimals of at most eight fraction digits: a
  \<open>SUM\<close> of stored amounts is their exact sum, and an amount is stored without rounding.
\<close>

definition db_exact :: "db_env \<Rightarrow> bool" where
  "db_exact db \<longleftrightarrow>
     (\<forall>xs. list_all fits8 xs \<longrightarrow> fits8 (db_sum db xs) \<and> units8 (db_sum db xs) = sum_list (map units8 xs))
     \<and> (\<forall>a b. fits8 a \<longrightarrow> db_numeric db a = Some b \<longrightarrow> fits8 b \<and> units8 b = units8 a)"

definition active_units :: "string \<Rightarrow> string \<Rightarrow> world \<Rightarrow> int" where
  "active_units t account w = sum_list (map (units8 \<circ> rv_amount) (filter (active_on t account) (w_reservations w)))"

text \<open>The balance the code reads: the latest snapshot's, or the account row's.\<close>

definition available_of :: "string \<Rightarrow> account_row \<Rightarrow> world \<Rightarrow> string option" where
  "available_of t a w =
     (case latest_balance t (la_id a) w of None \<Rightarrow> la_available_balance a
      | Some b \<Rightarrow> (case lb_available_balance b of None \<Rightarrow> la_available_balance a | Some x \<Rightarrow> Some x))"

lemma reserve_InrD:
  assumes "reserveIfAvailable db t r w = (Inr (Inr row), w')"
  shows "\<exists>a available required. find (\<lambda>a. la_owner_id a = t \<and> la_id a = rv_account_id r) (w_accounts w) = Some a
    \<and> la_status a = ''active'' \<and> available_of t a w = Some available
    \<and> addDecimalString8 (rv_amount r)
        (db_sum db (map rv_amount (filter (active_on t (rv_account_id r)) (w_reservations w)))) = Some required
    \<and> (\<exists>c. cmpDecimal8 available required = Some c \<and> 0 \<le> c)
    \<and> insertReservation db r w = (Inr row, w')"
proof -
  have acc: "find (\<lambda>a. la_owner_id a = t \<and> la_id a = rv_account_id r) xs = Some a \<Longrightarrow> la_id a = rv_account_id r"
    for xs a by (auto dest: find_Some_iff [THEN iffD1])
  show ?thesis using assms unfolding reserveIfAvailable_def sumActiveReservations_def
    by (auto simp: sbind_def sget_def sret_def sthrow_def Let_def available_of_def not_less dest!: acc
        split: option.splits if_splits sum.splits prod.splits)
qed

lemma insertReservation_InrD:
  assumes "insertReservation db r w = (Inr row, w')"
  shows "db_numeric db (rv_amount r) = Some (rv_amount row)" "rv_owner_id row = rv_owner_id r"
    "rv_account_id row = rv_account_id r" "rv_status row = Res_active"
    "w' = w\<lparr>w_reservations := w_reservations w @ [row]\<rparr>"
  using assms by (auto simp: insertReservation_def Let_def split: option.splits if_splits)

text \<open>C13 (bounds). Money is never reserved twice: when \<open>reserveIfAvailable\<close> succeeds on a row of the
  caller's tenant, for an amount and on active reservations of at most eight fraction digits (which the
  column stores without rounding), then the account is the tenant's own, its status is active and it has
  a balance; and when that balance is a decimal, afterwards all active reservations on the account, the
  new one included, sum to at most it, exactly, in units of 10^-8. The stored amounts still fit the
  column, and nothing else in the store has changed.\<close>

theorem reserve_never_overcommits:
  assumes "db_exact db" and "reserveIfAvailable db t r w = (Inr (Inr row), w')"
    and "rv_owner_id r = t" and "fits8 (rv_amount r)"
    and "list_all (\<lambda>x. fits8 (rv_amount x)) (filter (active_on t (rv_account_id r)) (w_reservations w))"
  shows "\<exists>a available. a \<in> set (w_accounts w) \<and> la_id a = rv_account_id r \<and> la_owner_id a = t
    \<and> la_status a = ''active'' \<and> available_of t a w = Some available
    \<and> active_units t (rv_account_id r) w' = active_units t (rv_account_id r) w + units8 (rv_amount r)
    \<and> (is_decimal available \<longrightarrow> active_units t (rv_account_id r) w' \<le> units8 available)
    \<and> list_all (\<lambda>x. fits8 (rv_amount x)) (filter (active_on t (rv_account_id r)) (w_reservations w'))
    \<and> w' = w\<lparr>w_reservations := w_reservations w @ [row]\<rparr>"
proof -
  let ?xs = "map rv_amount (filter (active_on t (rv_account_id r)) (w_reservations w))"
  from reserve_InrD [OF assms(2)] obtain a available required c where
    a: "find (\<lambda>a. la_owner_id a = t \<and> la_id a = rv_account_id r) (w_accounts w) = Some a"
    and act: "la_status a = ''active''" and av: "available_of t a w = Some available"
    and req: "addDecimalString8 (rv_amount r) (db_sum db ?xs) = Some required"
    and c: "cmpDecimal8 available required = Some c" "0 \<le> c"
    and ins: "insertReservation db r w = (Inr row, w')" by blast
  note row = insertReservation_InrD [OF ins]
  have xs: "list_all fits8 ?xs" using assms(5) by (simp add: list_all_iff)
  with assms(1) have s: "fits8 (db_sum db ?xs)" "units8 (db_sum db ?xs) = sum_list (map units8 ?xs)"
    by (auto simp: db_exact_def)
  have dec: "is_decimal (rv_amount r)" "is_decimal (db_sum db ?xs)" using assms(4) s(1) by (simp_all add: fits8_def)
  have before: "active_units t (rv_account_id r) w = sum_list (map units8 ?xs)"
    by (simp add: active_units_def comp_def)
  have amount: "units8 (rv_amount row) = units8 (rv_amount r)" "fits8 (rv_amount row)"
    using assms(1,4) row(1) by (auto simp: db_exact_def)
  have "filter (active_on t (rv_account_id r)) (w_reservations w')
      = filter (active_on t (rv_account_id r)) (w_reservations w) @ [row]"
    using row(2-5) assms(3) by (simp add: active_on_def)
  then have after: "active_units t (rv_account_id r) w' = active_units t (rv_account_id r) w + units8 (rv_amount r)"
    and fit: "list_all (\<lambda>x. fits8 (rv_amount x)) (filter (active_on t (rv_account_id r)) (w_reservations w'))"
    using amount assms(5) by (simp_all add: active_units_def)
  have bound: "active_units t (rv_account_id r) w' \<le> units8 available" if "is_decimal available"
  proof -
    from reservation_decimal.add_units [OF dec req] reservation_decimal.add_valid [OF dec req]
    have "is_decimal required" "units8 required = units8 (rv_amount r) + sum_list (map units8 ?xs)" using s(2) by auto
    with c cmpDecimal8_units [OF that] show ?thesis unfolding after before by (auto simp: sgn_if split: if_splits)
  qed
  have "a \<in> set (w_accounts w)" "la_id a = rv_account_id r" "la_owner_id a = t"
    using find_Some_iff [THEN iffD1, OF a] by auto
  with act av after fit bound row(5) show ?thesis by blast
qed

text \<open>A database that sums with the printer above, holding 40 of 100 reserved, and a reservation of 60.\<close>

definition sample_db :: db_env where
  "sample_db = \<lparr>db_numeric = (\<lambda>a. if is_decimal a then Some a else None),
     db_sum = (\<lambda>xs. print8 (sum_list (map units8 xs))), db_intent_check = (\<lambda>_. True)\<rparr>"

lemma sample_db_exact: "db_exact sample_db"
proof -
  have "0 \<le> sum_list (map units8 xs)" for xs
    by (rule sum_list_nonneg) (auto simp: units8_nonneg)
  then show ?thesis using print8_spec by (auto simp: db_exact_def sample_db_def fits8_def)
qed

definition sample_reservation :: "string \<Rightarrow> string \<Rightarrow> reservation_row" where
  "sample_reservation i amount =
     \<lparr>rv_id = i, rv_owner_id = ''t_1'', rv_account_id = ''acc_1'', rv_amount = amount, rv_currency = ''USD'',
      rv_payment_intent_id = ''pi_1'', rv_policy_decision_id = ''pd_1'', rv_reserving_agent_id = ''agent_1'',
      rv_reserved_until = 100, rv_status = Res_active, rv_created_at = 0\<rparr>"

definition reserve_world :: world where
  "reserve_world =
     \<lparr>w_now = 5, w_next = 7, w_intents = [], w_approvals = [],
      w_reservations = [sample_reservation ''rsv_1'' ''40.00''],
      w_accounts = [\<lparr>la_id = ''acc_1'', la_owner_id = ''t_1'', la_status = ''active'', la_currency = ''USD'',
        la_available_balance = Some ''100''\<rparr>],
      w_balances = [], w_executions = [], w_outbox = [], w_log = []\<rparr>"

theorem reserve_never_overcommits_witness:
  "\<exists>row w'. reserveIfAvailable sample_db ''t_1'' (sample_reservation ''rsv_2'' ''60.0'') reserve_world
      = (Inr (Inr row), w')
    \<and> active_units ''t_1'' ''acc_1'' w' = active_units ''t_1'' ''acc_1'' reserve_world + units8 ''60.0''"
proof -
  let ?r = "sample_reservation ''rsv_2'' ''60.0''"
  let ?run = "reserveIfAvailable sample_db ''t_1'' ?r reserve_world"
  have u: "units8 ''60.0'' = 6000000000" "units8 ''40.00'' = 4000000000" "units8 ''100'' = 10000000000"
    by code_simp+
  have dec: "is_decimal ''60.0''" "is_decimal ''100''" by code_simp+
  have p: "is_decimal (print8 i)" "units8 (print8 i) = i" if "0 \<le> i" for i
    using print8_spec [OF that] by (simp_all add: fits8_def)
  have "db_sum sample_db [''40.00''] = print8 4000000000" by (simp add: sample_db_def u)
  then have add: "addDecimalString8 ''60.0'' (db_sum sample_db [''40.00'']) = Some (print8 10000000000)"
    by (simp add: addDecimalString8_print dec p u)
  have cmp: "cmpDecimal8 ''100'' (print8 10000000000) = Some 0"
    by (simp add: cmpDecimal8_units dec p u)
  have num: "db_numeric sample_db ''60.0'' = Some ''60.0''" by code_simp
  have "\<exists>row w'. ?run = (Inr (Inr row), w')"
    using add cmp num
    by (simp add: reserveIfAvailable_def sumActiveReservations_def insertReservation_def active_on_def
        reserve_world_def sample_reservation_def latest_balance_def sbind_def sget_def sret_def Let_def)
  then obtain row w' where run: "?run = (Inr (Inr row), w')" by blast
  have d: "fits8 (rv_amount ?r)" "list_all (\<lambda>x. fits8 (rv_amount x))
      (filter (active_on ''t_1'' (rv_account_id ?r)) (w_reservations reserve_world))" by code_simp+
  have t: "rv_owner_id ?r = ''t_1''" "rv_account_id ?r = ''acc_1''" "rv_amount ?r = ''60.0''"
    by (simp_all add: sample_reservation_def)
  from reserve_never_overcommits [OF sample_db_exact run t(1) d] run show ?thesis unfolding t by blast
qed

end
