(* ===== verification/Intent_Facts.thy ===== *)
theory Intent_Facts
  imports Payment_Intents Outbox_Safety Reservations
begin

text \<open>
  Shared facts on the payment intent service: which tables its steps can touch, and the relation
  every operation leaves between the stored intents before and after. Each group is an
  interpretation of the store relation of Exec_Store, so that the facts on an operation follow its
  definition line by line.
\<close>

section \<open>Composition\<close>

context store_relation
begin

lemma evolves_assert:
  "(isValidPaymentIntentTransition f t \<Longrightarrow> evolves R n) \<Longrightarrow> evolves R (sthen (assert_intent_transition f t) n)"
  by (cases "isValidPaymentIntentTransition f t")
    (simp_all add: assert_intent_transition_def assertPaymentIntentTransition_def sthen_def sbind_def
      sret_def sthrow_def evolves_def R_refl)

lemma evolves_load: "evolves R (load f ctx x)"
  by (simp add: load_def evolves_intros)

lemma evolves_event: "evolves R (emit_event deps ctx layer actor act ins outs d)"
  by (simp add: emit_event_def evolves_intros)

lemma evolves_announce: "evolves R (announce deps name)"
  by (simp add: announce_def evolves_intros)

lemma evolves_invalid: "evolves R invalid_state"
  by (simp add: invalid_state_def evolves_intros)

lemma evolves_find: "evolves R (findPaymentIntentById t i)"
  by (simp add: findPaymentIntentById_def evolves_intros)

lemma evolves_find_key: "evolves R (findPaymentIntentByDedupKey t k)"
  by (simp add: findPaymentIntentByDedupKey_def evolves_intros)

lemma evolves_require: "evolves R (requireIntent ctx i)"
  by (auto simp: requireIntent_def intro!: evolves_intros evolves_find split: option.split)

lemma R_logs: "list_all (\<lambda>e. \<not> is_dispatch e) es \<Longrightarrow> R w (w\<lparr>w_log := w_log w @ es\<rparr>)"
proof (induction es rule: rev_induct)
  case Nil
  then show ?case by (simp add: R_refl)
next
  case (snoc e es)
  then have "R w (w\<lparr>w_log := w_log w @ es\<rparr>)" and e: "\<not> is_dispatch e" by auto
  then show ?case using R_log [OF e, of "w\<lparr>w_log := w_log w @ es\<rparr>"] by (auto intro: R_trans)
qed

lemma gate_log_silent: "list_all (\<lambda>e. \<not> is_dispatch e) (gate_log effs)"
  by (auto simp: gate_log_def List.map_filter_def list_all_iff split: gate_effect.split)

lemma evolves_run_gate:
  assumes "\<And>version. evolves R (signedValidRoles ctx ''payment_intent'' (gi_id intent) version)"
  shows "evolves R (run_gate deps ctx prin intent)"
proof (rule evolvesI)
  fix w
  let ?gd = "gateDeps deps ctx w" and ?inp = "gate_input ctx prin intent"
  obtain effs result where g: "runPreExecutionGate ?gd ?inp = (effs, result)"
    by (cases "runPreExecutionGate ?gd ?inp")
  let ?w1 = "case approvals_read ?gd ?inp of None \<Rightarrow> w
     | Some version \<Rightarrow> snd (signedValidRoles ctx ''payment_intent'' (gi_id intent) version w)"
  have "R w ?w1"
    by (auto simp: R_refl intro: evolves_world [OF assms] split: option.split)
  moreover have "R ?w1 (?w1\<lparr>w_log := w_log ?w1 @ gate_log effs\<rparr>)"
    by (rule R_logs [OF gate_log_silent])
  ultimately have "R w (?w1\<lparr>w_log := w_log ?w1 @ gate_log effs\<rparr>)" by (rule R_trans)
  then show "R w (snd (run_gate deps ctx prin intent w))"
    unfolding run_gate_def Let_def g by (auto split: sum.split)
qed

lemma evolves_resolve_actor: "evolves R (resolve_actor ar input)"
  by (auto simp: resolve_actor_def toActorOrThrow_def intro!: evolves_intros
      split: resolve_input.split option.split)

lemma evolves_approval_actor: "evolves R (resolveApprovalActor deps ctx opts)"
  by (auto simp: resolveApprovalActor_def intro!: evolves_intros evolves_resolve_actor split: option.split)

lemma evolves_approvals_list: "evolves R (list_approvals ctx kind i)"
  by (simp add: list_approvals_def listApprovals_def evolves_intros)

lemma evolves_rejected: "evolves R (emitApprovalRejected deps ctx intent actor reason)"
  by (simp add: emitApprovalRejected_def evolves_intros evolves_event)

lemma evolves_unresolved: "evolves R (audit_unresolved deps ctx intent actor err)"
  by (auto simp: audit_unresolved_def intro!: evolves_intros evolves_rejected
      split: svc_error.split option.split)

lemma evolves_decision_audit: "evolves R (emitProposalDecisionAudit deps ctx intent a d s)"
  by (simp add: emitProposalDecisionAudit_def evolves_intros evolves_event)

lemma evolves_authorization: "evolves R (approval_authorization deps ctx intent actor)"
  by (auto simp: approval_authorization_def Let_def intro!: evolves_intros evolves_load evolves_approvals_list
      split: option.split)

lemma evolves_units: "evolves R (escrow_units amount)"
  unfolding escrow_units_def Let_def by (auto intro!: evolves_intros split: option.split prod.split)

lemma evolves_escrow: "evolves R (escrow_fields intent)"
  unfolding escrow_fields_def by (simp add: evolves_intros evolves_units)

lemma evolves_onchain: "evolves R (onchain_fields deps ctx intent)"
  unfolding onchain_fields_def by (auto intro!: evolves_intros split: option.split)

lemma evolves_payload: "evolves R (rail_payload deps ctx intent)"
  unfolding rail_payload_def by (intro evolves_intros evolves_onchain evolves_escrow)

lemma evolves_rail: "evolves R (railFor a)"
  by (auto simp: railFor_def intro!: evolves_intros)

lemma evolves_spend: "evolves R (record_spend deps ctx current)"
  by (auto simp: record_spend_def intro!: evolves_intros split: option.split)

lemma evolves_find_executions: "evolves R (find_executions t xs)"
  by (induction xs) (auto simp: findExecution_def intro!: evolves_intros)

lemmas service_intros = evolves_intros evolves_assert evolves_load evolves_event evolves_announce
  evolves_invalid evolves_find evolves_find_key evolves_require evolves_approval_actor
  evolves_approvals_list evolves_rejected evolves_unresolved evolves_decision_audit
  evolves_authorization evolves_payload evolves_rail evolves_spend evolves_find_executions

end

section \<open>Relations that do not look at a table\<close>

text \<open>
  One locale per table: a relation that ignores the table is respected by every operation that
  writes only there. Each relation of the development interprets those it can.
\<close>

locale approvals_blind = store_relation +
  assumes R_approvals: "R w (w\<lparr>w_approvals := a\<rparr>)"
begin

lemma evolves_stale: "evolves R (markStaleForSupersededVersion t kind i v)"
  by (simp add: markStaleForSupersededVersion_def smodify_def evolves_def R_approvals)

lemma evolves_roles: "evolves R (signedValidRoles ctx kind i version)"
  by (auto simp: signedValidRoles_def Let_def listValidApprovals_def
      intro!: evolves_intros evolves_stale split: option.split)

lemma evolves_gate: "evolves R (run_gate deps ctx prin intent)"
  by (rule evolves_run_gate [OF evolves_roles])

lemma evolves_insertApproval: "evolves R (insertApproval r)"
  by (simp add: insertApproval_def evolves_def Let_def R_refl R_approvals)

lemma evolves_sign: "evolves R (sign deps ctx kind i role signature)"
  by (auto simp: sign_def signer_guards_def active_policy_version_def resolved_role_def
      findApprovalForSigner_def intro!: evolves_intros evolves_insertApproval split: option.split)

end

locale reservations_blind = store_relation +
  assumes R_reservations: "R w (w\<lparr>w_reservations := a\<rparr>)"
begin

lemma evolves_insertReservation: "evolves R (insertReservation db r)"
  by (simp add: insertReservation_def evolves_def Let_def R_refl R_reservations split: option.split)

lemma evolves_reserve: "evolves R (reserve_funds deps ctx intent prin decision)"
  by (auto simp: reserve_funds_def reserveIfAvailable_def sumActiveReservations_def Let_def
      intro!: evolves_intros evolves_insertReservation split: option.split sum.split)

lemma evolves_consume: "evolves R (consumeReservation t i)"
  by (simp add: consumeReservation_def reservation_transition_def smodify_def evolves_def R_reservations)

lemma evolves_release: "evolves R (releaseReservation t i)"
  by (simp add: releaseReservation_def reservation_transition_def smodify_def evolves_def R_reservations)

lemma evolves_on_reservation:
  "evolves R (on_reservation r (consumeReservation t))" "evolves R (on_reservation r (releaseReservation t))"
  by (auto simp: on_reservation_def intro!: evolves_intros evolves_consume evolves_release split: option.split)

end

locale executions_blind = store_relation +
  assumes R_executions: "R w (w\<lparr>w_executions := a\<rparr>)"
begin

lemma evolves_insertExecution: "evolves R (insertExecution r)"
  by (simp add: insertExecution_def evolves_def R_refl R_executions)

lemma evolves_receipt: "evolves R (setExecutionReceipt t i receipt)"
  by (simp add: setExecutionReceipt_def smodify_def evolves_def R_executions)

lemma evolves_transitionExecution: "evolves R (transitionExecution t i f to)"
  by (simp add: transitionExecution_def evolves_def Let_def R_refl R_executions split: sum.split)

end

locale outbox_blind = store_relation +
  assumes R_outbox: "R w (w\<lparr>w_outbox := a\<rparr>)"
begin

lemma evolves_insert_outbox: "evolves R (insert_outbox_row r)"
  by (simp add: insert_outbox_row_def evolves_def R_refl R_outbox)

lemma evolves_enqueue: "evolves R (enqueue env t input)"
  by (auto simp: enqueue_def intro!: evolves_intros evolves_insert_outbox split: option.split)

end

locale intents_blind = store_relation +
  assumes R_intents: "R w (w\<lparr>w_intents := a\<rparr>)"
begin

lemma evolves_transition: "evolves R (transitionPaymentIntent t i f to d)"
  by (simp add: transitionPaymentIntent_def update_intents_def evolves_def Let_def R_intents)

lemma evolves_append: "evolves R (appendApprovalId t i a)" "evolves R (appendExecutionReceiptId t i a)"
  by (simp_all add: appendApprovalId_def appendExecutionReceiptId_def update_intents_def evolves_def R_intents)

lemma evolves_insertIntent: "evolves R (insertPaymentIntent db r)"
  by (simp add: insertPaymentIntent_def evolves_def Let_def R_refl R_intents split: option.split)

lemma evolves_pause_agent: "evolves R (pauseApprovedPaymentIntentsByAgent t agent)"
  by (simp add: pauseApprovedPaymentIntentsByAgent_def update_intents_def evolves_def Let_def R_intents)

lemma evolves_required: "evolves R (required_move t i f to)"
  by (auto simp: required_move_def intro!: service_intros evolves_transition split: option.split)

end

text \<open>A relation that ignores the tables a settlement writes is respected by the worker's callbacks.\<close>

locale settlement_blind = intents_blind + reservations_blind + executions_blind
begin

lemma evolves_complete: "evolves R (completeExecution deps ctx args)"
  by (auto simp: completeExecution_def settle_tx_def Let_def
      intro!: service_intros evolves_required evolves_append evolves_on_reservation
        evolves_insertExecution evolves_receipt evolves_transitionExecution split: option.split)

lemma evolves_fail: "evolves R (failExecution deps ctx i r)"
  by (auto simp: failExecution_def intro!: service_intros evolves_required evolves_on_reservation)

end

end
