(* ===== verification/Intent_Moves.thy ===== *)
theory Intent_Moves
  imports Intent_Facts
begin

text \<open>
  What every operation of the payment intent service leaves of the stored intents: none is lost,
  its terms never change, and its status moves only along the state machine.
\<close>

section \<open>The relation\<close>

definition same_terms :: "intent_row \<Rightarrow> intent_row \<Rightarrow> bool" where
  "same_terms r s \<longleftrightarrow> pi_id s = pi_id r \<and> pi_owner_id s = pi_owner_id r
     \<and> pi_created_by_agent_id s = pi_created_by_agent_id r \<and> pi_action_type s = pi_action_type r
     \<and> pi_source_account_id s = pi_source_account_id r
     \<and> pi_destination_counterparty_id s = pi_destination_counterparty_id r
     \<and> pi_amount s = pi_amount r \<and> pi_currency s = pi_currency r
     \<and> pi_policy_decision_id s = pi_policy_decision_id r
     \<and> pi_proposal_dedup_key s = pi_proposal_dedup_key r
     \<and> pi_settlement_pay_to s = pi_settlement_pay_to r \<and> pi_escrow_id s = pi_escrow_id r
     \<and> pi_job_terms_hash s = pi_job_terms_hash r"

abbreviation moves :: "intent_state \<Rightarrow> intent_state \<Rightarrow> bool" where
  "moves \<equiv> isValidPaymentIntentTransition\<^sup>*\<^sup>*"

definition intent_follows :: "intent_row \<Rightarrow> intent_row \<Rightarrow> bool" where
  "intent_follows r s \<longleftrightarrow> same_terms r s \<and> moves (pi_status r) (pi_status s)"

lemma follows_refl: "intent_follows r r"
  by (simp add: intent_follows_def same_terms_def)

lemma follows_trans: "intent_follows r s \<Longrightarrow> intent_follows s q \<Longrightarrow> intent_follows r q"
  unfolding intent_follows_def same_terms_def by auto

text \<open>A new intent carries its policy decision and starts rejected, approved or awaiting people.\<close>

definition fresh_intent :: "intent_row \<Rightarrow> bool" where
  "fresh_intent r \<longleftrightarrow> pi_status r \<in> {Rejected, Approved, Pending_approval} \<and> pi_policy_decision_id r \<noteq> None
     \<and> pi_execution_receipt_ids r = [] \<and> pi_approval_ids r = []"

definition born :: "intent_row \<Rightarrow> bool" where
  "born s \<longleftrightarrow> (\<exists>r. fresh_intent r \<and> intent_follows r s)"

lemma born_follows: "born r \<Longrightarrow> intent_follows r s \<Longrightarrow> born s"
  unfolding born_def using follows_trans by blast

definition intent_moves :: "world \<Rightarrow> world \<Rightarrow> bool" where
  "intent_moves w v \<longleftrightarrow> (\<exists>old new. w_intents v = old @ new
     \<and> list_all2 intent_follows (w_intents w) old \<and> list_all born new)"

lemma moves_trans:
  assumes "intent_moves w v" "intent_moves v u"
  shows "intent_moves w u"
proof -
  from assms(1) obtain old new where a: "w_intents v = old @ new"
    "list_all2 intent_follows (w_intents w) old" "list_all born new" by (auto simp: intent_moves_def)
  from assms(2) a(1) obtain old2 new2 where b: "w_intents u = old2 @ new2"
    "list_all2 intent_follows (old @ new) old2" "list_all born new2" by (auto simp: intent_moves_def)
  from b(2) obtain x y where c: "old2 = x @ y" "list_all2 intent_follows old x" "list_all2 intent_follows new y"
    by (auto simp: list_all2_append1)
  have "list_all2 intent_follows (w_intents w) x"
    by (rule list_all2_trans [OF _ a(2) c(2)]) (rule follows_trans)
  moreover have "list_all born y"
    using c(3) a(3) by (induction rule: list_all2_induct) (auto intro: born_follows)
  ultimately show ?thesis unfolding intent_moves_def
    by (intro exI [of _ x] exI [of _ "y @ new2"]) (simp add: b c)
qed

lemma moves_same: "w_intents v = w_intents w \<Longrightarrow> intent_moves w v"
  unfolding intent_moves_def by (metis append_Nil2 follows_refl list.pred_inject(1) list_all2_refl)

interpretation intents_move: store_relation intent_moves
proof unfold_locales
  show "intent_moves w v \<Longrightarrow> intent_moves v u \<Longrightarrow> intent_moves w u" for w v u by (rule moves_trans)
qed (auto intro: moves_same)

lemma moves_update:
  assumes "\<And>r. p r \<Longrightarrow> intent_follows r (f r)"
  shows "intent_moves w (update_intents p f w)"
  unfolding intent_moves_def update_intents_def
  by (rule exI [of _ "map (\<lambda>r. if p r then f r else r) (w_intents w)"], rule exI [of _ "[]"])
    (auto simp: list_all2_map2 intro!: list_all2_refl assms follows_refl)

section \<open>The repository\<close>

lemma moves_transition:
  assumes "isValidPaymentIntentTransition f to"
  shows "evolves intent_moves (transitionPaymentIntent t i f to d)"
proof (rule evolvesI)
  fix w
  show "intent_moves w (snd (transitionPaymentIntent t i f to d w))"
    unfolding transitionPaymentIntent_def Let_def snd_conv
    by (rule moves_update)
      (use assms in \<open>auto simp: intent_follows_def same_terms_def stamp_decision_def split: option.split\<close>)
qed

lemma moves_once: "isValidPaymentIntentTransition f t \<Longrightarrow> moves f t"
  by (rule r_into_rtranclp)

lemma moves_pause_agent: "evolves intent_moves (pauseApprovedPaymentIntentsByAgent t agent)"
  by (rule evolvesI) (auto simp: pauseApprovedPaymentIntentsByAgent_def Let_def intent_follows_def same_terms_def
      intro!: moves_update moves_once)

lemma moves_append_approval: "evolves intent_moves (appendApprovalId t i a)"
  by (rule evolvesI) (auto simp: appendApprovalId_def intent_follows_def same_terms_def intro!: moves_update)

lemma moves_append_receipt: "evolves intent_moves (appendExecutionReceiptId t i e)"
  by (rule evolvesI) (auto simp: appendExecutionReceiptId_def intent_follows_def same_terms_def intro!: moves_update)

lemma moves_born: "born r \<Longrightarrow> intent_moves (w :: world) (w\<lparr>w_intents := w_intents w @ [r]\<rparr>)"
  unfolding intent_moves_def
  by (rule exI [of _ "w_intents w"], rule exI [of _ "[r]"]) (simp add: list_all2_refl follows_refl)

lemma fresh_born: "fresh_intent r \<Longrightarrow> born r"
  unfolding born_def using follows_refl by blast

lemma moves_insert:
  assumes "pi_status r \<in> {Rejected, Approved, Pending_approval}" "pi_policy_decision_id r \<noteq> None"
  shows "evolves intent_moves (insertPaymentIntent db r)"
proof (rule evolvesI)
  fix w :: world
  have "born (r\<lparr>pi_amount := a, pi_approval_ids := [], pi_execution_receipt_ids := [],
                pi_created_at := w_now w, pi_updated_at := w_now w\<rparr>)" for a
    by (rule fresh_born) (use assms in \<open>simp add: fresh_intent_def\<close>)
  then show "intent_moves w (snd (insertPaymentIntent db r w))"
    by (simp add: insertPaymentIntent_def Let_def moves_born moves_same split: option.split)
qed

text \<open>Writes to the other tables leave the intents as they are.\<close>

interpretation intents_move_approvals: approvals_blind intent_moves
  by unfold_locales (simp add: moves_same)

interpretation intents_move_reservations: reservations_blind intent_moves
  by unfold_locales (simp add: moves_same)

interpretation intents_move_executions: executions_blind intent_moves
  by unfold_locales (simp add: moves_same)

interpretation intents_move_outbox: outbox_blind intent_moves
  by unfold_locales (simp add: moves_same)

section \<open>The operations\<close>

lemmas move_intros = intents_move.service_intros moves_transition moves_append_approval moves_append_receipt
  intents_move_approvals.evolves_gate intents_move_approvals.evolves_sign
  intents_move_reservations.evolves_reserve intents_move_reservations.evolves_on_reservation
  intents_move_outbox.evolves_enqueue intents_move_executions.evolves_insertExecution
  intents_move_executions.evolves_receipt intents_move_executions.evolves_transitionExecution

lemma moves_create: "evolves intent_moves (create deps ctx input)"
proof -
  have "evolves intent_moves (insert_or_existing deps ctx key
      (\<lambda>i. new_intent ctx input i confidence decision (initial_status deps stub decision)))" for key confidence decision stub
    unfolding insert_or_existing_def
    by (intro move_intros moves_insert)
      (auto simp: new_intent_def initial_status_def intro!: move_intros split: option.split)
  then have "evolves intent_moves (create_fresh deps ctx input)"
    by (auto simp: create_fresh_def decide_and_store_def announce_created_def Let_def assertSourceAccountExists_def resolveEffectiveConfidence_def
        assertObligationDirectionPayable_def decided_event_def intro!: move_intros split: option.split sum.split)
  then show ?thesis
    by (auto simp: create_def assertExecutablePaymentIntentActionType_def intro!: move_intros split: option.split)
qed

lemma moves_move_intent: "evolves intent_moves (move_intent ctx i f to stamp)"
  by (auto simp: move_intent_def intro!: move_intros split: option.split)

lemma moves_simple: "evolves intent_moves (simple_move deps ctx i f to act)"
  by (auto simp: simple_move_def intro!: move_intros split: option.split)

lemma moves_approve: "evolves intent_moves (approve deps ctx i opts)"
  by (auto simp: approve_def decide_approval_def record_approval_def Let_def
      intro!: move_intros moves_move_intent split: option.split authorization.split)

lemma moves_reject: "evolves intent_moves (reject deps ctx i reason)"
  by (auto simp: reject_def intro!: move_intros split: option.split)

lemma moves_cancel: "evolves intent_moves (cancel deps ctx i)"
  by (auto simp: cancel_def intro!: move_intros moves_simple)

lemma moves_pause: "evolves intent_moves (pause deps ctx i)"
  by (auto simp: pause_def intro!: move_intros moves_simple)

lemma moves_pauseByAgent: "evolves intent_moves (pauseByAgent deps ctx agent)"
  by (auto simp: pauseByAgent_def intro!: move_intros moves_pause_agent)

lemma moves_resume: "evolves intent_moves (resume deps ctx i)"
  by (auto simp: resume_def intro!: move_intros moves_simple split: gate_result.split)

lemma moves_execute: "evolves intent_moves (execute deps ctx i)"
  by (auto simp: execute_def gate_refused_def execute_passed_def hand_off_def
      intro!: move_intros split: gate_result.split handoff.split option.split)

lemma moves_required: "evolves intent_moves (required_move t i f to)"
  by (auto simp: required_move_def intro!: move_intros split: option.split)

lemma moves_complete: "evolves intent_moves (completeExecution deps ctx args)"
  by (auto simp: completeExecution_def settle_tx_def Let_def
      intro!: move_intros moves_required split: option.split)

lemma moves_fail: "evolves intent_moves (failExecution deps ctx i r)"
  by (auto simp: failExecution_def intro!: move_intros moves_required)

end
