(* ===== verification/Money_Path.thy ===== *)
theory Money_Path
  imports Intent_Moves
begin

text \<open>
  The money path as one system: the requests of the payment intent service and the cycles of the
  outbox worker that calls it back (wired in services/api/src/main.ts), in any order, with time
  passing between them. The claims here hold of every sequence of requests, for every choice of
  loaders, rails, guards and auditors.
\<close>

section \<open>Relations the worker respects\<close>

definition row_ident :: "outbox_row \<Rightarrow> string \<times> string \<times> string \<times> string" where
  "row_ident o1 = (ob_id o1, ob_tenant_id o1, ob_payment_intent_id o1, ob_idempotency_key o1)"

locale worker_relation = store_relation +
  fixes deps :: worker_deps
  assumes R_rows: "map row_ident rows = map row_ident (w_outbox w) \<Longrightarrow> R w (w\<lparr>w_outbox := rows\<rparr>)"
    and R_calls: "R w (w\<lparr>w_log := l\<rparr>)"
    and R_complete: "evolves R (wd_completeExecution deps ctx args)"
    and R_fail: "evolves R (wd_failExecution deps ctx intent reservation)"
begin

lemma update_outbox_R: "(\<And>r. row_ident (f r) = row_ident r) \<Longrightarrow> R w (update_outbox p f w)"
  unfolding update_outbox_def by (rule R_rows) auto

lemma evolves_marks:
  "evolves R (markDispatched i receipt after x)" "evolves R (markSettled i)"
  "evolves R (markPermanentlyFailed i err after)"
  by (simp_all add: evolves_def markDispatched_def markSettled_def markPermanentlyFailed_def
      failed_attempt_def row_ident_def update_outbox_R)

lemma evolves_counts: "evolves R (markFailed i err)" "evolves R (markReconciling i err)"
  by (simp_all add: evolves_def markFailed_def markReconciling_def update_counted_def
      failed_attempt_def row_ident_def update_outbox_R R_refl split: option.split)

lemma evolves_claims: "evolves R (claimNext locked worker limit)" "evolves R (reclaimStale locked secs)"
  by (simp_all add: evolves_def claimNext_def reclaimStale_def Let_def claim_row_def reclaim_row_def
      row_ident_def update_outbox_R)

lemma evolves_emit_row: "evolves R (emit_row deps row layer act ins outs)"
  by (simp add: emit_row_def evolves_intros)

lemma evolves_signals: "evolves R (emitStuck deps row n err)" "evolves R (maybeEmitExhausted deps row n err)"
  by (simp_all add: emitStuck_def maybeEmitExhausted_def evolves_intros evolves_emit_row)

lemmas worker_intros = evolves_intros evolves_marks evolves_counts evolves_claims evolves_emit_row
  evolves_signals R_complete R_fail

lemma evolves_retry: "evolves R (retry_row deps row err)"
  by (auto simp: retry_row_def intro!: worker_intros)

lemma evolves_reconcile: "evolves R (reconcile_row deps row err)"
  by (auto simp: reconcile_row_def intro!: worker_intros)

lemma evolves_settle: "evolves R (settleFromReceipt deps row ctx x receipt)"
  by (auto simp: settleFromReceipt_def intro!: worker_intros evolves_retry split: option.split)

lemma evolves_fail_row: "evolves R (failPermanently deps row ctx reason)"
  by (auto simp: failPermanently_def intro!: worker_intros evolves_reconcile split: option.split)

lemma evolves_after: "evolves R (after_dispatch deps row ctx x dispatched)"
  by (auto simp: after_dispatch_def accept_receipt_def Let_def
      intro!: worker_intros evolves_settle evolves_fail_row evolves_retry evolves_reconcile
      split: sum.split option.split)

lemma evolves_dispatch: "evolves R (dispatch_rail deps row ctx x)"
proof -
  have "evolves R (log_dispatch row x)"
    by (simp add: log_dispatch_def smodify_def evolves_def R_calls)
  then show ?thesis
    by (auto simp: dispatch_rail_def intro!: worker_intros split: sum.split)
qed

lemma evolves_process: "evolves R (processClaimedRow deps row)"
  by (auto simp: processClaimedRow_def guarded_dispatch_def dispatch_guard_def Let_def
      intro!: worker_intros evolves_settle evolves_reconcile evolves_dispatch evolves_after split: option.split)

lemma evolves_process_rows: "evolves R (process_rows deps rows c)"
  by (induction rows arbitrary: c) (auto intro!: worker_intros evolves_process)

lemma evolves_emit_reclaimed: "evolves R (emit_reclaimed deps rs)"
  by (induction rs) (auto intro!: worker_intros)

lemma evolves_cycle: "evolves R (runOutboxCycle deps limit secs)"
  unfolding runOutboxCycle_def
  by (intro worker_intros evolves_process_rows evolves_emit_reclaimed)

end

section \<open>Requests\<close>

text \<open>The worker as the composition root wires it: the service settles and fails its rows.\<close>

definition service_worker :: "service_deps \<Rightarrow> worker_deps \<Rightarrow> worker_deps" where
  "service_worker deps base = base\<lparr>wd_completeExecution := completeExecution deps,
                                  wd_failExecution := failExecution deps\<rparr>"

datatype request =
    Req_create call_ctx create_input
  | Req_approve call_ctx string approve_opts
  | Req_reject call_ctx string "string option"
  | Req_cancel call_ctx string
  | Req_pause call_ctx string
  | Req_pause_agent call_ctx string
  | Req_resume call_ctx string
  | Req_execute call_ctx string
  | Req_cycle "nat option" "int option"
  | Req_tick nat

fun serve :: "service_deps \<Rightarrow> worker_deps \<Rightarrow> request \<Rightarrow> world \<Rightarrow> world" where
  "serve deps base (Req_create ctx input) w = snd (create deps ctx input w)"
| "serve deps base (Req_approve ctx i opts) w = snd (approve deps ctx i opts w)"
| "serve deps base (Req_reject ctx i reason) w = snd (reject deps ctx i reason w)"
| "serve deps base (Req_cancel ctx i) w = snd (cancel deps ctx i w)"
| "serve deps base (Req_pause ctx i) w = snd (pause deps ctx i w)"
| "serve deps base (Req_pause_agent ctx agent) w = snd (pauseByAgent deps ctx agent w)"
| "serve deps base (Req_resume ctx i) w = snd (resume deps ctx i w)"
| "serve deps base (Req_execute ctx i) w = snd (execute deps ctx i w)"
| "serve deps base (Req_cycle limit secs) w = snd (runOutboxCycle (service_worker deps base) limit secs w)"
| "serve deps base (Req_tick ms) w = w\<lparr>w_now := w_now w + int ms\<rparr>"

definition serve_all :: "service_deps \<Rightarrow> worker_deps \<Rightarrow> request list \<Rightarrow> world \<Rightarrow> world" where
  "serve_all deps base = fold (serve deps base)"

text \<open>A relation every request leaves is left by every sequence of requests.\<close>

context store_relation
begin

lemma serve_all_R:
  assumes "\<And>req v. R v (serve deps base req v)"
  shows "R w (serve_all deps base reqs w)"
  unfolding serve_all_def
  by (induction reqs arbitrary: w) (auto simp: R_refl intro: R_trans assms)

end

section \<open>The service honours the worker's contract\<close>

interpretation silent_settlement: settlement_blind same_outbox
  by unfold_locales (simp_all add: same_outbox_def dispatches_def)

interpretation money_worker: outbox_worker "service_worker deps base" for deps base
  by unfold_locales
    (simp_all add: service_worker_def silent_settlement.evolves_complete silent_settlement.evolves_fail)

section \<open>The terms of an intent and its lifecycle\<close>

interpretation moving_worker: worker_relation intent_moves "service_worker deps base" for deps base
  by unfold_locales (simp_all add: moves_same service_worker_def moves_complete moves_fail)

lemma serve_moves: "intent_moves w (serve deps base req w)"
  by (cases req)
    (simp_all add: evolves_world moves_create moves_approve moves_reject moves_cancel moves_pause
      moves_pauseByAgent moves_resume moves_execute moving_worker.evolves_cycle moves_same)

text \<open>C6 (invariant). Whatever sequence of requests and worker cycles is served, no stored payment
intent is lost, its terms (amount, currency, accounts, payee, policy decision) never change, its
status moves only along the guarded transitions of its state machine, and every intent added on
the way was born rejected, approved or awaiting approval with a policy decision recorded.\<close>

theorem intents_only_move: "intent_moves w (serve_all deps base reqs w)"
  by (rule intents_move.serve_all_R [OF serve_moves])

end
