(* ===== verification/Hand_Off.thy ===== *)
theory Hand_Off
  imports Money_Path Decimal_Order
begin

text \<open>
  The transactional outbox from end to end: an intent has exactly one outbox row when it has been
  handed to the worker, and none before. The invariant is kept by every request and cycle.
\<close>

section \<open>The invariant\<close>

definition row_for :: "intent_row \<Rightarrow> outbox_row \<Rightarrow> bool" where
  "row_for r o1 \<longleftrightarrow> ob_tenant_id o1 = pi_owner_id r \<and> ob_payment_intent_id o1 = pi_id r"

definition handed_off :: "intent_state \<Rightarrow> bool" where
  "handed_off s \<longleftrightarrow> s = Dispatching \<or> s = Executed \<or> s = Failed"

definition one_row :: "outbox_row list \<Rightarrow> intent_row \<Rightarrow> bool" where
  "one_row rows r \<longleftrightarrow> length (filter (row_for r) rows) = (if handed_off (pi_status r) then 1 else 0)"

definition colon_free :: "string \<Rightarrow> bool" where
  "colon_free s \<longleftrightarrow> CHR '':'' \<notin> set s"

definition keyed :: "outbox_row \<Rightarrow> bool" where
  "keyed o1 \<longleftrightarrow> (\<exists>d. ob_idempotency_key o1 = ''pi:'' @ ob_payment_intent_id o1 @ '':'' @ d)"

definition money_ok :: "world \<Rightarrow> bool" where
  "money_ok w \<longleftrightarrow> distinct (map pi_id (w_intents w))
     \<and> (\<forall>r \<in> set (w_intents w). colon_free (pi_id r) \<and> one_row (w_outbox w) r)
     \<and> (\<forall>o1 \<in> set (w_outbox w). keyed o1 \<and> (\<exists>r \<in> set (w_intents w). row_for r o1))"

interpretation money_inv: store_invariant money_ok
  by unfold_locales (simp_all add: money_ok_def)

interpretation money_approvals: approvals_blind "preserved money_ok"
  by unfold_locales (simp add: preserved_def money_ok_def)

interpretation money_reservations: reservations_blind "preserved money_ok"
  by unfold_locales (simp add: preserved_def money_ok_def)

interpretation money_executions: executions_blind "preserved money_ok"
  by unfold_locales (simp add: preserved_def money_ok_def)

section \<open>Updates of intents\<close>

lemma row_for_cong: "pi_id s = pi_id r \<Longrightarrow> pi_owner_id s = pi_owner_id r \<Longrightarrow> row_for s = row_for r"
  by (rule ext) (simp add: row_for_def)

lemma money_ok_map:
  assumes "\<And>r. pi_id (g r) = pi_id r" "\<And>r. row_for (g r) = row_for r"
    "\<And>rows r. one_row rows (g r) = one_row rows r" "money_ok w"
  shows "money_ok (w\<lparr>w_intents := map g (w_intents w)\<rparr>)"
proof -
  have "map pi_id (map g (w_intents w)) = map pi_id (w_intents w)" using assms(1) by simp
  then show ?thesis
    using assms(4) unfolding money_ok_def by (simp add: assms(1-3) del: map_map)
qed

lemma keeps_update:
  assumes "\<And>r. p r \<Longrightarrow> pi_id (f r) = pi_id r \<and> pi_owner_id (f r) = pi_owner_id r
                 \<and> handed_off (pi_status (f r)) = handed_off (pi_status r)"
  shows "preserved money_ok w (update_intents p f w)"
proof -
  have same: "pi_id (f r) = pi_id r" "row_for (f r) = row_for r" "one_row rows (f r) = one_row rows r"
    if "p r" for r rows
  proof -
    show "pi_id (f r) = pi_id r" using assms [OF that] by simp
    show rf: "row_for (f r) = row_for r" by (rule row_for_cong) (use assms [OF that] in simp_all)
    show "one_row rows (f r) = one_row rows r" using assms [OF that] by (simp add: one_row_def rf)
  qed
  show ?thesis
    unfolding preserved_def update_intents_def by (rule impI, rule money_ok_map) (simp_all add: same)
qed

lemma keeps_transition:
  "handed_off f = handed_off to \<Longrightarrow> evolves (preserved money_ok) (transitionPaymentIntent t i f to d)"
  by (rule evolvesI, cases d) (auto simp: transitionPaymentIntent_def Let_def stamp_decision_def
      intro!: keeps_update)

lemma keeps_pause_agent: "evolves (preserved money_ok) (pauseApprovedPaymentIntentsByAgent t agent)"
  by (rule evolvesI) (auto simp: pauseApprovedPaymentIntentsByAgent_def Let_def handed_off_def intro!: keeps_update)

lemma keeps_append:
  "evolves (preserved money_ok) (appendApprovalId t i a)"
  "evolves (preserved money_ok) (appendExecutionReceiptId t i a)"
  by (auto simp: evolves_def appendApprovalId_def appendExecutionReceiptId_def intro!: keeps_update)

lemma no_rows_for_new:
  assumes "\<forall>o1 \<in> set rows. \<exists>s \<in> set intents. row_for s o1" "\<forall>s \<in> set intents. pi_id s \<noteq> pi_id r"
  shows "filter (row_for r) rows = []"
  using assms by (auto simp: filter_empty_conv row_for_def)

lemma keeps_insert:
  assumes "\<not> handed_off (pi_status r)" "colon_free (pi_id r)"
  shows "evolves (preserved money_ok) (insertPaymentIntent db r)"
proof (rule evolvesI)
  fix w :: world
  have "money_ok (w\<lparr>w_intents := w_intents w @ [s]\<rparr>)"
    if "money_ok w" "pi_id s = pi_id r" "pi_status s = pi_status r" "\<forall>x \<in> set (w_intents w). pi_id x \<noteq> pi_id s" for s
    using that assms no_rows_for_new [of "w_outbox w" "w_intents w" s]
    unfolding money_ok_def one_row_def by (auto simp: image_iff)
  then show "preserved money_ok w (snd (insertPaymentIntent db r w))"
    by (auto simp: insertPaymentIntent_def Let_def preserved_def list_ex_iff split: option.split)
qed

section \<open>The hand-off\<close>

lemma colon_free_split:
  "colon_free a \<Longrightarrow> colon_free b \<Longrightarrow> a @ CHR '':'' # x = b @ CHR '':'' # y \<Longrightarrow> a = b"
proof (induction a arbitrary: b)
  case Nil
  then show ?case by (cases b) (auto simp: colon_free_def)
next
  case (Cons c a)
  then show ?case by (cases b) (auto simp: colon_free_def)
qed

lemma intent_unique:
  "distinct (map pi_id (w_intents w)) \<Longrightarrow> r \<in> set (w_intents w) \<Longrightarrow> s \<in> set (w_intents w)
     \<Longrightarrow> pi_id r = pi_id s \<Longrightarrow> r = s"
  by (auto simp: distinct_map inj_on_def)

text \<open>An approved intent has no row under its key, whichever policy decision the key carries.\<close>

lemma approved_key_free:
  assumes "money_ok w" "r \<in> set (w_intents w)" "\<not> handed_off (pi_status r)" "o1 \<in> set (w_outbox w)"
  shows "\<not> own_key (pi_owner_id r) (''pi:'' @ pi_id r @ '':'' @ d) o1"
proof
  assume own: "own_key (pi_owner_id r) (''pi:'' @ pi_id r @ '':'' @ d) o1"
  have k1: "ob_tenant_id o1 = pi_owner_id r" "ob_idempotency_key o1 = ''pi:'' @ pi_id r @ '':'' @ d"
    using own by (simp_all only: own_key_def)
  have "keyed o1" using assms(1,4) by (simp add: money_ok_def)
  then obtain e where k2: "ob_idempotency_key o1 = ''pi:'' @ ob_payment_intent_id o1 @ '':'' @ e"
    unfolding keyed_def by blast
  obtain s where s: "s \<in> set (w_intents w)" "row_for s o1"
    using assms(1,4) unfolding money_ok_def by blast
  have free: "colon_free (pi_id r)" "colon_free (ob_payment_intent_id o1)"
    using assms(1,2) s unfolding money_ok_def row_for_def by auto
  have "pi_id r @ CHR '':'' # d = ob_payment_intent_id o1 @ CHR '':'' # e"
    using k1(2) k2 by simp
  then have "pi_id r = ob_payment_intent_id o1" by (rule colon_free_split [OF free])
  then have "row_for r o1" using k1(1) by (simp add: row_for_def)
  moreover have "filter (row_for r) (w_outbox w) = []"
    using assms(1-3) by (auto simp: money_ok_def one_row_def)
  ultimately show False using assms(4) by (auto simp: filter_empty_conv)
qed

lemma enqueue_InrD:
  assumes "enqueue env t input w = (Inr res, v)"
  shows "(\<exists>o1 \<in> set (w_outbox w). own_key t (en_idempotencyKey input) o1
            \<and> res = \<lparr>er_id = ob_id o1, er_created = False\<rparr> \<and> w_outbox v = w_outbox w \<and> w_intents v = w_intents w)
       \<or> (\<exists>i. w_outbox v = w_outbox w @ [new_outbox_row env t input i (w_now w)] \<and> w_intents v = w_intents w
            \<and> res = \<lparr>er_id = i, er_created = True\<rparr>)"
proof -
  let ?k = "en_idempotencyKey input" and ?w1 = "w\<lparr>w_next := Suc (w_next w)\<rparr>"
  define i where "i = ''exo_'' @ show_nat (w_next w)"
  define row where "row = new_outbox_row env t input i (w_now w)"
  have row: "ob_tenant_id row = t" "ob_idempotency_key row = ?k" "ob_id row = i"
    by (simp_all add: row_def new_outbox_row_def)
  from assms have e: "sbind (insert_outbox_row row) (\<lambda>inserted. case inserted of
       Some j \<Rightarrow> sret \<lparr>er_id = j, er_created = True\<rparr>
     | None \<Rightarrow> sbind (sget (\<lambda>w. find (own_key t ?k) (w_outbox w))) (\<lambda>existing. case existing of
           None \<Rightarrow> sthrow (Thrown ''execution_outbox enqueue: conflict but no existing row found'')
         | Some r \<Rightarrow> sret \<lparr>er_id = ob_id r, er_created = False\<rparr>)) ?w1 = (Inr res, v)"
    unfolding enqueue_def row_def i_def
    by (simp add: sthen_def sbind_def slift_def sthrow_def sret_def fresh_id_def sget_def split: sum.splits)
  show ?thesis
  proof (cases "list_ex (own_key t ?k) (w_outbox w)")
    case True
    then obtain o1 where "find (own_key t ?k) (w_outbox w) = Some o1"
      by (metis find_None_iff list_ex_iff not_None_eq)
    with e True show ?thesis
      by (auto simp: row insert_outbox_row_def sbind_def sget_def sret_def find_Some_iff)
  next
    case False
    with e have "res = \<lparr>er_id = i, er_created = True\<rparr>" "w_outbox v = w_outbox w @ [row]" "w_intents v = w_intents w"
      by (auto simp: row insert_outbox_row_def sbind_def sret_def split: if_splits)
    then show ?thesis by (auto simp: row_def)
  qed
qed

definition tables_same :: "world \<Rightarrow> world \<Rightarrow> bool" where
  "tables_same w v \<longleftrightarrow> w_intents v = w_intents w \<and> w_outbox v = w_outbox w \<and> w_now v = w_now w"

interpretation same_tables: reservations_blind tables_same
  by unfold_locales (simp_all add: tables_same_def)

text \<open>What a committed hand-off leaves: nothing, or the moved intent and one new row for it.\<close>

lemma transition_InrD:
  assumes "transitionPaymentIntent t i f to d w = (Inr (Some m), v)"
  obtains r where "r \<in> set (w_intents w)" "own_intent t i r" "pi_status r = f"
    "m = stamp_decision d (r\<lparr>pi_status := to, pi_updated_at := w_now w\<rparr>)"
    "v = update_intents (\<lambda>r. own_intent t i r \<and> pi_status r = f)
           (\<lambda>r. stamp_decision d (r\<lparr>pi_status := to, pi_updated_at := w_now w\<rparr>)) w"
  using assms by (auto simp: transitionPaymentIntent_def Let_def find_Some_iff) (metis nth_mem)

lemma transition_NoneD:
  assumes "transitionPaymentIntent t i f to d w = (Inr None, v)"
  shows "v = w"
proof -
  have "\<not> (own_intent t i r \<and> pi_status r = f)" if "r \<in> set (w_intents w)" for r
    using assms that by (auto simp: transitionPaymentIntent_def Let_def find_None_iff)
  then have "map (\<lambda>r. if own_intent t i r \<and> pi_status r = f
       then stamp_decision d (r\<lparr>pi_status := to, pi_updated_at := w_now w\<rparr>) else r) (w_intents w) = w_intents w"
    by (intro map_idI) auto
  then show ?thesis
    using assms by (auto simp: transitionPaymentIntent_def Let_def update_intents_def)
qed

definition dispatched_intents :: "string \<Rightarrow> string \<Rightarrow> world \<Rightarrow> world" where
  "dispatched_intents t i w = update_intents (\<lambda>r. own_intent t i r \<and> pi_status r = Approved)
     (\<lambda>r. r\<lparr>pi_status := Dispatching, pi_updated_at := w_now w\<rparr>) w"

definition handed_input ::
  "intent_row \<Rightarrow> gate_success \<Rightarrow> string \<Rightarrow> (string \<times> json) list \<Rightarrow> string option \<Rightarrow> enqueue_input" where
  "handed_input intent gate rail payload reservation =
     \<lparr>en_paymentIntentId = pi_id intent, en_rail = rail,
      en_idempotencyKey = ''pi:'' @ pi_id intent @ '':'' @ gs_policyDecisionId gate,
      en_payload = payload, en_auditBeforeId = gs_auditBeforeEventId gate, en_reservationId = reservation\<rparr>"

lemma sthen_ok: "m w = (Inr x, v) \<Longrightarrow> sthen m n w = n v"
  by (simp add: sthen_def sbind_def)

lemma hand_off_InrD:
  assumes "hand_off deps ctx intent prin gate rail payload w = (Inr h, v)"
  shows "(v = w \<and> (\<exists>s. h = Moved_away s))
       \<or> (\<exists>r reservation u res. r \<in> set (w_intents w) \<and> own_intent (cx_tenantId ctx) (pi_id intent) r
            \<and> pi_status r = Approved
            \<and> reserve_funds deps ctx intent prin (gs_policyDecisionId gate)
                (dispatched_intents (cx_tenantId ctx) (pi_id intent) w) = (Inr reservation, u)
            \<and> enqueue (ps_outbox deps) (cx_tenantId ctx) (handed_input intent gate rail payload reservation) u
                = (Inr res, v)
            \<and> h = Handed_off (er_id res) reservation)"
proof -
  let ?t = "cx_tenantId ctx" and ?i = "pi_id intent"
  define settle where "settle = (\<lambda>moved. case moved of
       None \<Rightarrow> sbind (findPaymentIntentById ?t ?i) (\<lambda>cur.
         sret (Moved_away (case cur of None \<Rightarrow> ''missing'' | Some r \<Rightarrow> intent_status_name (pi_status r))))
     | Some (m :: intent_row) \<Rightarrow> sbind (reserve_funds deps ctx intent prin (gs_policyDecisionId gate)) (\<lambda>reservation.
         sbind (enqueue (ps_outbox deps) ?t (handed_input intent gate rail payload reservation)) (\<lambda>enq.
         sret (Handed_off (er_id enq) reservation))))"
  have "hand_off deps ctx intent prin gate rail payload w
      = sbind (transitionPaymentIntent ?t ?i Approved Dispatching None) settle w"
    unfolding hand_off_def settle_def handed_input_def
    by (rule sthen_ok) (simp add: assert_intent_transition_def assertPaymentIntentTransition_def sret_def)
  with assms obtain moved w1 where tr: "transitionPaymentIntent ?t ?i Approved Dispatching None w = (Inr moved, w1)"
    and rest: "settle moved w1 = (Inr h, v)"
    by (metis sbind_InrD)
  show ?thesis
  proof (cases moved)
    case None
    with tr have "w1 = w" by (auto dest: transition_NoneD)
    with rest None settle_def show ?thesis
      by (auto simp: findPaymentIntentById_def sbind_def sget_def sret_def)
  next
    case (Some m)
    with tr obtain r where r: "r \<in> set (w_intents w)" "own_intent ?t ?i r" "pi_status r = Approved"
      "w1 = dispatched_intents ?t ?i w"
      by (auto simp: dispatched_intents_def stamp_decision_def elim: transition_InrD)
    from rest Some settle_def obtain reservation u res where
      "reserve_funds deps ctx intent prin (gs_policyDecisionId gate) w1 = (Inr reservation, u)"
      "enqueue (ps_outbox deps) ?t (handed_input intent gate rail payload reservation) u = (Inr res, v)"
      "h = Handed_off (er_id res) reservation"
      by (auto simp: sret_def dest!: sbind_InrD)
    with r show ?thesis by blast
  qed
qed

section \<open>Every operation keeps the invariant\<close>

text \<open>One intent moved to dispatching together with its one row.\<close>

lemma money_ok_handed:
  assumes ok: "money_ok w" and r: "r \<in> set (w_intents w)" "own_intent t i r" "pi_status r = Approved"
    and v: "w_intents v = w_intents (dispatched_intents t i w)" "w_outbox v = w_outbox w @ [o1]"
    and o1: "keyed o1" "ob_tenant_id o1 = t" "ob_payment_intent_id o1 = i"
  shows "money_ok v"
proof -
  let ?g = "\<lambda>r. if own_intent t i r \<and> pi_status r = Approved
                then r\<lparr>pi_status := Dispatching, pi_updated_at := w_now w\<rparr> else r"
  have ints: "w_intents v = map ?g (w_intents w)"
    by (simp add: v(1) dispatched_intents_def update_intents_def)
  have g: "pi_id (?g s) = pi_id s" "row_for (?g s) = row_for s" for s
    by (auto simp: row_for_def fun_eq_iff)
  have one: "one_row (w_outbox w @ [o1]) (?g s)" if s: "s \<in> set (w_intents w)" for s
  proof (cases "s = r")
    case True
    have "filter (row_for r) (w_outbox w) = []"
      using ok r by (auto simp: money_ok_def one_row_def handed_off_def)
    moreover have "row_for r o1" using o1 r(2) by (simp add: row_for_def own_intent_def)
    ultimately show ?thesis
      using True r g(2) [of r] by (simp add: one_row_def handed_off_def row_for_def)
  next
    case False
    then have "pi_id s \<noteq> i"
      using ok s r intent_unique [of w s r] by (auto simp: money_ok_def own_intent_def)
    then have "\<not> row_for s o1" "?g s = s" using o1(3) by (simp_all add: row_for_def own_intent_def)
    then show ?thesis using ok s by (simp add: money_ok_def one_row_def)
  qed
  have "row_for r o1" using o1 r(2) by (simp add: row_for_def own_intent_def)
  then have src: "\<exists>s \<in> set (w_intents w). row_for s x" if "x \<in> set (w_outbox w @ [o1])" for x
    using that ok r(1) unfolding money_ok_def by auto
  have backed: "\<exists>s \<in> set (map ?g (w_intents w)). row_for s x" if x: "x \<in> set (w_outbox w @ [o1])" for x
  proof -
    from src [OF x] obtain s where s: "s \<in> set (w_intents w)" "row_for s x" by blast
    have "?g s \<in> set (map ?g (w_intents w))" unfolding set_map by (rule imageI) (rule s(1))
    then show ?thesis by (rule bexI [rotated]) (simp only: g(2) s(2))
  qed
  have "distinct (map pi_id (map ?g (w_intents w)))"
    using ok g(1) by (simp add: money_ok_def comp_def)
  moreover have "colon_free (pi_id s) \<and> one_row (w_outbox w @ [o1]) s" if "s \<in> set (map ?g (w_intents w))" for s
  proof -
    from that obtain q where q: "q \<in> set (w_intents w)" "s = ?g q" unfolding set_map by blast
    have "colon_free (pi_id (?g q))" using ok q(1) unfolding g(1) money_ok_def by blast
    with one [OF q(1)] show ?thesis unfolding q(2) by blast
  qed
  moreover have "\<forall>x \<in> set (w_outbox w @ [o1]). keyed x" using ok o1(1) by (auto simp: money_ok_def)
  ultimately show ?thesis using backed unfolding money_ok_def ints v(2) by blast
qed

lemma keeps_hand_off: "evolves (preserved money_ok) (in_tx (hand_off deps ctx intent prin gate rail payload))"
proof (rule evolvesI)
  fix w :: world
  let ?t = "cx_tenantId ctx" and ?i = "pi_id intent"
  show "preserved money_ok w (snd (in_tx (hand_off deps ctx intent prin gate rail payload) w))"
  proof (cases "hand_off deps ctx intent prin gate rail payload w")
    case (Pair result v)
    have "money_ok v" if ok: "money_ok w" and h: "result = Inr h" for h
    proof -
      have run: "hand_off deps ctx intent prin gate rail payload w = (Inr h, v)" using Pair h by simp
      show ?thesis
      proof (rule disjE [OF hand_off_InrD [OF run]])
        assume "v = w \<and> (\<exists>s. h = Moved_away s)"
        then show ?thesis using ok by simp
      next
        assume "\<exists>r reservation u res. r \<in> set (w_intents w) \<and> own_intent ?t ?i r \<and> pi_status r = Approved
            \<and> reserve_funds deps ctx intent prin (gs_policyDecisionId gate) (dispatched_intents ?t ?i w)
                = (Inr reservation, u)
            \<and> enqueue (ps_outbox deps) ?t (handed_input intent gate rail payload reservation) u = (Inr res, v)
            \<and> h = Handed_off (er_id res) reservation"
        then obtain r reservation u res where r: "r \<in> set (w_intents w)" "own_intent ?t ?i r" "pi_status r = Approved"
          and rf: "reserve_funds deps ctx intent prin (gs_policyDecisionId gate) (dispatched_intents ?t ?i w)
                = (Inr reservation, u)"
          and en: "enqueue (ps_outbox deps) ?t (handed_input intent gate rail payload reservation) u = (Inr res, v)"
          by blast
        have u: "w_intents u = w_intents (dispatched_intents ?t ?i w)" "w_outbox u = w_outbox w"
          using evolvesD [OF same_tables.evolves_reserve rf]
          by (simp_all add: tables_same_def dispatched_intents_def update_intents_def)
        have "\<not> own_key ?t (en_idempotencyKey (handed_input intent gate rail payload reservation)) o1"
          if "o1 \<in> set (w_outbox u)" for o1
          using approved_key_free [OF ok r(1) _ that [unfolded u(2)]] r(2,3)
          by (simp add: handed_input_def own_intent_def handed_off_def)
        with enqueue_InrD [OF en] obtain j where v: "w_intents v = w_intents u"
          "w_outbox v = w_outbox u @ [new_outbox_row (ps_outbox deps) ?t
             (handed_input intent gate rail payload reservation) j (w_now u)]" by blast
        show ?thesis
          by (rule money_ok_handed [OF ok r v(1) [unfolded u] v(2) [unfolded u]])
            (simp_all add: new_outbox_row_def handed_input_def keyed_def)
      qed
    qed
    then show ?thesis by (auto simp: Pair in_tx_def preserved_def split: sum.split)
  qed
qed

lemma fresh_intent_id: "colon_free (''pi_'' @ show_nat n)"
  using show_nat_spec [of n] by (auto simp: colon_free_def list_all_iff is_digit_def)

lemma keeps_insert_or_existing:
  assumes "\<And>i. pi_id (row_of i) = i" "\<And>i. \<not> handed_off (pi_status (row_of i))"
  shows "evolves (preserved money_ok) (insert_or_existing deps ctx key row_of)"
proof -
  have "evolves (preserved money_ok) (sbind (fresh_id ''pi_'') (\<lambda>i. insertPaymentIntent (ps_db deps) (row_of i)))"
  proof (rule evolvesI)
    fix w :: world
    let ?w = "w\<lparr>w_next := Suc (w_next w)\<rparr>" and ?i = "''pi_'' @ show_nat (w_next w)"
    have "preserved money_ok ?w (snd (insertPaymentIntent (ps_db deps) (row_of ?i) ?w))"
      by (rule evolves_world, rule keeps_insert) (simp_all only: assms fresh_intent_id not_False_eq_True)
    moreover have "money_ok ?w = money_ok w" by (rule money_inv.I_next)
    ultimately show "preserved money_ok w
        (snd (sbind (fresh_id ''pi_'') (\<lambda>i. insertPaymentIntent (ps_db deps) (row_of i)) w))"
      by (simp add: sbind_def fresh_id_def preserved_def)
  qed
  then show ?thesis
    by (auto simp: insert_or_existing_def intro!: money_inv.service_intros split: option.split)
qed

lemmas keep_intros = money_inv.service_intros keeps_append money_approvals.evolves_gate
  money_approvals.evolves_sign money_reservations.evolves_reserve money_reservations.evolves_on_reservation
  money_executions.evolves_insertExecution money_executions.evolves_receipt
  money_executions.evolves_transitionExecution

lemma keeps_create: "evolves (preserved money_ok) (create deps ctx input)"
proof -
  have "evolves (preserved money_ok) (insert_or_existing deps ctx key
      (\<lambda>i. new_intent ctx input i confidence decision (initial_status deps stub decision)))" for key confidence decision stub
    by (rule keeps_insert_or_existing) (auto simp: new_intent_def initial_status_def handed_off_def)
  then have "evolves (preserved money_ok) (create_fresh deps ctx input)"
    by (auto simp: create_fresh_def decide_and_store_def announce_created_def Let_def assertSourceAccountExists_def resolveEffectiveConfidence_def
        assertObligationDirectionPayable_def decided_event_def intro!: keep_intros split: option.split sum.split)
  then show ?thesis
    by (auto simp: create_def assertExecutablePaymentIntentActionType_def intro!: keep_intros split: option.split)
qed

lemma not_handed:
  "\<not> handed_off Proposed" "\<not> handed_off Pending_approval" "\<not> handed_off Awaiting_second_approval"
  "\<not> handed_off Approved" "\<not> handed_off Paused" "\<not> handed_off Rejected" "\<not> handed_off Cancelled"
  "handed_off Dispatching" "handed_off Executed" "handed_off Failed"
  by (simp_all add: handed_off_def)

lemma keeps_move_intent:
  "handed_off f = handed_off to \<Longrightarrow> evolves (preserved money_ok) (move_intent ctx i f to stamp)"
  by (auto simp: move_intent_def intro!: keep_intros keeps_transition split: option.split)

lemma keeps_simple:
  "handed_off f = handed_off to \<Longrightarrow> evolves (preserved money_ok) (simple_move deps ctx i f to act)"
  by (auto simp: simple_move_def intro!: keep_intros keeps_transition split: option.split)

lemma keeps_required:
  "handed_off f = handed_off to \<Longrightarrow> evolves (preserved money_ok) (required_move t i f to)"
  by (auto simp: required_move_def intro!: keep_intros keeps_transition split: option.split)

text \<open>\<open>approve\<close> moves from the status it read, which it has checked to be one of two.\<close>

lemma keeps_record_approval:
  assumes "\<not> handed_off (pi_status intent)"
  shows "evolves (preserved money_ok) (record_approval deps ctx intent actor fresh again role)"
  using assms by (auto simp: record_approval_def Let_def not_handed intro!: keep_intros keeps_move_intent)


lemma keeps_approve: "evolves (preserved money_ok) (approve deps ctx i opts)"
  by (auto simp: approve_def decide_approval_def not_handed
      intro!: keep_intros keeps_record_approval split: option.split authorization.split)

lemma keeps_reject: "evolves (preserved money_ok) (reject deps ctx i reason)"
  by (auto simp: reject_def not_handed intro!: keep_intros keeps_transition split: option.split)

lemma keeps_cancel: "evolves (preserved money_ok) (cancel deps ctx i)"
  by (auto simp: cancel_def not_handed intro!: keep_intros keeps_simple)

lemma keeps_pause: "evolves (preserved money_ok) (pause deps ctx i)"
  by (auto simp: pause_def not_handed intro!: keep_intros keeps_simple)

lemma keeps_pauseByAgent: "evolves (preserved money_ok) (pauseByAgent deps ctx agent)"
  by (auto simp: pauseByAgent_def intro!: keep_intros keeps_pause_agent)

lemma keeps_resume: "evolves (preserved money_ok) (resume deps ctx i)"
  by (auto simp: resume_def not_handed intro!: keep_intros keeps_simple split: gate_result.split)

lemma keeps_execute: "evolves (preserved money_ok) (execute deps ctx i)"
  by (auto simp: execute_def gate_refused_def execute_passed_def
      intro!: keep_intros keeps_hand_off split: gate_result.split handoff.split)

lemma keeps_complete: "evolves (preserved money_ok) (completeExecution deps ctx args)"
  by (auto simp: completeExecution_def settle_tx_def Let_def not_handed
      intro!: keep_intros keeps_required split: option.split)

lemma keeps_fail: "evolves (preserved money_ok) (failExecution deps ctx i r)"
  by (auto simp: failExecution_def not_handed intro!: keep_intros keeps_required)

end
