(* ===== verification/Money_Sample.thy ===== *)
theory Money_Sample
  imports Hand_Off Gate_Sample
begin

text \<open>
  A concrete tenant with one approved ACH intent, funds, and a policy that allows it: the world
  the witnesses of the money path run in.
\<close>

definition allow_decision :: gate_decision where
  "allow_decision =
     \<lparr>gd_id = ''pd_1'', gd_outcome = ''allow'', gd_matched_rule_id = Some ''rule_1'',
      gd_required_approvers = [], gd_ledger_snapshot_hash = [], gd_trace = [],
      gd_required_evidence_kinds = None, gd_counterparty_verification_threshold = None,
      gd_amount_upper_bound = None, gd_policy_version = Some 1, gd_onchain_settlement_permitted = None,
      gd_micropayment_window_cap = None, gd_x402_autonomous_max_amount = None,
      gd_ach_autonomous_max_amount = Some (JObj [(''currency'', JStr ''USD''), (''value'', JStr ''250'')]),
      gd_card_autonomous_max_amount = None\<rparr>"

definition money_ctx :: call_ctx where
  "money_ctx = \<lparr>cx_tenantId = ''t_1'', cx_actor = ''agent_1'', cx_principalType = Some Agent_principal\<rparr>"

definition money_service :: "audit_emitter \<Rightarrow> service_deps" where
  "money_service emit =
     \<lparr>ps_audit = emit, ps_outbox = sample_env, ps_approvals = sample_approval_deps, ps_db = sample_db,
      ps_actorResolver = None, ps_members = None, ps_resolveApprovalPayeeEmail = None,
      ps_resolveAgent = (\<lambda>_ _ _. Inr (Some \<lparr>gt_id = ''agent_1'', gt_state = ''active'',
        gt_canExecutePayments = True, gt_behaviorHash = None, gt_max_risk_level = None\<rparr>)),
      ps_resolveTenantFlags = None, ps_attestCounterpartyAgent = None, ps_sumAgentWindowSpend = None,
      ps_resolveEscrowState = None, ps_sumActiveReservations = None, ps_resolveEvidence = None,
      ps_detectDuplicates = None, ps_resolveObligationConfidence = None,
      ps_resolveObligationDirection = None, ps_resolveObligationProvenance = None,
      ps_resolveAccount = (\<lambda>_ _ _. Inr (Some \<lparr>gc_id = ''acc_1'', gc_status = ''active'',
        gc_currency = ''USD'', gc_available_balance = Some ''500''\<rparr>)),
      ps_resolveCounterparty = (\<lambda>_ _ _. Inr (Some \<lparr>cp_id = ''cp_1'', cp_type = ''vendor'',
        cp_risk_level = Some ''low'', cp_verified_status = Some ''document_verified'',
        cp_trust_status = Some ''trusted'', cp_agent_id = None, cp_onchain_address = None\<rparr>)),
      ps_evaluatePolicy = (\<lambda>_ _ _. Inr allow_decision),
      ps_resolvePrincipal = (\<lambda>_ _. Inr \<lparr>gp_id = ''agent_1'', gp_type = Agent_principal,
        gp_scopes = [''payment_intent:execute'']\<rparr>),
      ps_resolveOnchainParams = None, ps_enqueue = False, ps_recordAgentSpend = None,
      ps_fiatHumanApprovalFloorEnabled = None, ps_trustGateEnabled = None, ps_sha256_hex = (\<lambda>s. ''hash'')\<rparr>"

definition money_intent :: "intent_state \<Rightarrow> string \<Rightarrow> intent_row" where
  "money_intent status act =
     \<lparr>pi_id = ''pi_1'', pi_owner_id = ''t_1'', pi_created_by_agent_id = Some ''agent_1'',
      pi_action_type = act, pi_source_account_id = ''acc_1'',
      pi_destination_counterparty_id = ''cp_1'', pi_amount = ''100'', pi_currency = ''USD'',
      pi_obligation_id = None, pi_invoice_id = None, pi_status = status,
      pi_policy_decision_id = Some ''pd_1'', pi_approval_ids = [], pi_execution_receipt_ids = [],
      pi_evidence_ids = [], pi_confidence = 1, pi_evidence_score = None, pi_risk_level = None,
      pi_proposal_dedup_key = Some ''key_1'', pi_decision = None, pi_decision_audit_id = None,
      pi_decided_at = None, pi_settlement_pay_to = None, pi_escrow_id = None, pi_job_terms_hash = None,
      pi_created_at = 0, pi_updated_at = 0\<rparr>"

definition money_world :: "intent_row \<Rightarrow> outbox_row list \<Rightarrow> world" where
  "money_world intent rows =
     \<lparr>w_now = 1000, w_next = 7, w_intents = [intent], w_approvals = [], w_reservations = [],
      w_accounts = [\<lparr>la_id = ''acc_1'', la_owner_id = ''t_1'', la_status = ''active'', la_currency = ''USD'',
        la_available_balance = Some ''500''\<rparr>],
      w_balances = [], w_executions = [], w_outbox = rows, w_log = []\<rparr>"

definition money_prin :: gate_principal where
  "money_prin = \<lparr>gp_id = ''agent_1'', gp_type = Agent_principal, gp_scopes = [''payment_intent:execute'']\<rparr>"

text \<open>The gate passes, check by check, for an intent of 100 that nobody has signed.\<close>

definition money_agent :: gate_agent where
  "money_agent = \<lparr>gt_id = ''agent_1'', gt_state = ''active'', gt_canExecutePayments = True,
     gt_behaviorHash = None, gt_max_risk_level = None\<rparr>"

definition money_payee :: gate_counterparty where
  "money_payee = \<lparr>cp_id = ''cp_1'', cp_type = ''vendor'', cp_risk_level = Some ''low'',
     cp_verified_status = Some ''document_verified'', cp_trust_status = Some ''trusted'', cp_agent_id = None,
     cp_onchain_address = None\<rparr>"

definition money_account :: gate_account where
  "money_account = \<lparr>gc_id = ''acc_1'', gc_status = ''active'', gc_currency = ''USD'',
     gc_available_balance = Some ''500''\<rparr>"

lemma money_amounts:
  "cmpDecimal ''500'' ''100'' = 1" "cmpDecimal ''100'' ''250'' = - 1" "is_decimal ''100''" "is_decimal ''250''"
  by code_simp+

lemma money_add: "addDecimalString ''100'' ''0'' = Some ''100''"
proof -
  have n: "norm_gate ''100'' = \<lparr>nd_negative = False, nd_int = ''100'', nd_frac = ''000000000000000000''\<rparr>"
    "norm_gate ''0'' = \<lparr>nd_negative = False, nd_int = ''0'', nd_frac = ''000000000000000000''\<rparr>"
    by code_simp+
  have b: "js_BigInt ''100000000000000000000'' = Some 100000000000000000000"
    "js_BigInt ''0000000000000000000'' = Some 0"
    by (subst js_BigInt_digits; simp add: number_eval)+
  have s: "show_int 100000000000000000000 = ''100000000000000000000''" by (simp add: print_eval)
  have f: "format_scaled (pad_start 19 CHR ''0'' ''100000000000000000000'') = ''100''" by code_simp
  show ?thesis by (simp add: addDecimalString_def n b s f)
qed

lemmas money_defs = money_service_def money_ctx_def money_intent_def money_agent_def money_payee_def
  money_account_def money_prin_def allow_decision_def money_amounts money_add

lemma money_gate_passes:
  "gate_passes (gateDeps (money_service accepting) money_ctx w)
     (gate_input money_ctx money_prin (intentToGate (money_intent Approved ''ach_outbound'')))"
    (is "gate_passes ?d ?inp")
proof -
  let ?i = "in_intent ?inp"
  note simps = gate_steps gateDeps_def gate_input_def intentToGate_def money_defs gateSettlement_def gateEscrow_def
    linked_def
  have one: "always_goes (check_1_agent_identity ?d ?inp) money_agent"
    by (rule always_goesI) (simp add: check_1_agent_identity_def intent_agent_id_def simps)
  have pin: "always_goes (check_1_5_behavior_pinned ?d ?inp money_agent) ()"
    by (rule always_goesI) (simp add: check_1_5_behavior_pinned_def simps)
  have two: "always_goes (check_2_authorized ?inp money_agent) ()"
    by (rule always_goesI) (simp add: check_2_authorized_def simps)
  have off: "\<not> trustGateEnabled ?d" by (simp add: trustGateEnabled_def simps)
  have pre: "always_goes (pre_policy_checks ?d ?inp) (money_agent, None)"
    unfolding pre_policy_checks_def if_not_P [OF off]
    by (rule always_goes_bind [OF one]) (intro always_goes_seq pin two always_goes_gret)
  have five: "always_goes (check_5_counterparty ?d ?i None) money_payee"
    unfolding check_5_counterparty_def if_not_P [OF off]
    by (rule always_goesI) (simp add: simps)
  have post: "always_goes (post_policy_checks ?d ?inp money_agent None allow_decision) ''hash''"
  proof (rule post_policy_intro [where account = money_account and cp = money_payee])
    show "always_goes (check_5_counterparty ?d ?i None) money_payee" by (rule five)
  qed (rule always_goesI, simp add: simps check_3_action_allowed_def check_3_5_onchain_permitted_def
      check_4_source_account_def
        check_5_5_attested_def check_6_verified_def check_10_determined_def check_11_5_duplicates_def
        check_12_recorded_def check_6_7_direction_def check_6_5_x402_context_def check_6_6_escrow_bound_def
        check_7_amount_limit_def check_7_5_ledger_bound_def computeLedgerSnapshot_def check_8_balance_def
        active_reservations_def check_8_5_window_cap_def check_9_evidence_present_def
        check_9_5_evidence_supports_def check_11_approval_def requiresHardHumanApprovalFloor_def
        isFiatAutonomousAllowed_def within_cap_def amount_cap_def Let_def accepting_def)+
  show ?thesis
    by (rule gate_passesI [OF pre _ post]) (simp_all add: simps is_dry_run_def accepting_def)
qed

end
