(* ===== verification/Execute_Facts.thy ===== *)
theory Execute_Facts
  imports Money_Sample
begin

text \<open>
  What \<open>execute\<close> and the worker's callbacks do: the hand-off is all or nothing and happens behind a
  passed gate only, and a settlement is recorded once.
\<close>

section \<open>Reading steps\<close>

lemma requireIntent_run:
  "requireIntent ctx i w = (case find (own_intent (cx_tenantId ctx) i) (w_intents w) of
     None \<Rightarrow> (Inl (Brain_error ''payment_intent_not_found'' None), w) | Some r \<Rightarrow> (Inr r, w))"
  by (simp add: requireIntent_def findPaymentIntentById_def in_tx_def sbind_def sget_def sret_def sthrow_def
      split: option.split)

text \<open>Everything the money tables hold, and the clock.\<close>

definition same_money :: "world \<Rightarrow> world \<Rightarrow> bool" where
  "same_money w v \<longleftrightarrow> w_intents v = w_intents w \<and> w_outbox v = w_outbox w \<and> w_now v = w_now w
     \<and> w_reservations v = w_reservations w \<and> w_executions v = w_executions w
     \<and> w_accounts v = w_accounts w \<and> w_balances v = w_balances w"

interpretation money_same: approvals_blind same_money
  by unfold_locales (simp_all add: same_money_def)

definition rest_same :: "world \<Rightarrow> world \<Rightarrow> bool" where
  "rest_same w v \<longleftrightarrow> w_executions v = w_executions w \<and> w_reservations v = w_reservations w"

interpretation rest_outbox: outbox_blind rest_same
  by unfold_locales (simp_all add: rest_same_def)

definition executions_same :: "world \<Rightarrow> world \<Rightarrow> bool" where
  "executions_same w v \<longleftrightarrow> w_executions v = w_executions w"

interpretation executions_reservations: reservations_blind executions_same
  by unfold_locales (simp_all add: executions_same_def)

section \<open>Funds\<close>

definition funds_held :: "db_env \<Rightarrow> string \<Rightarrow> intent_row \<Rightarrow> string option \<Rightarrow> world \<Rightarrow> world \<Rightarrow> bool" where
  "funds_held db t intent reservation w v \<longleftrightarrow>
     (if requiresExecutionReservation (pi_action_type intent)
      then (\<exists>rv. reservation = Some (rv_id rv) \<and> w_reservations v = w_reservations w @ [rv]
              \<and> rv_owner_id rv = t \<and> rv_account_id rv = pi_source_account_id intent
              \<and> db_numeric db (pi_amount intent) = Some (rv_amount rv)
              \<and> rv_payment_intent_id rv = pi_id intent \<and> rv_status rv = Res_active)
      else reservation = None \<and> w_reservations v = w_reservations w)"

lemma reserve_funds_InrD:
  assumes "reserve_funds deps ctx intent prin decision w = (Inr reservation, v)"
  shows "funds_held (ps_db deps) (cx_tenantId ctx) intent reservation w v"
proof (cases "requiresExecutionReservation (pi_action_type intent)")
  case False
  with assms show ?thesis by (simp add: reserve_funds_def funds_held_def sret_def)
next
  case True
  let ?r = "\<lambda>i. execution_reservation (cx_tenantId ctx) intent prin decision i (w_now w)"
  from assms True obtain i row where
    "reserveIfAvailable (ps_db deps) (cx_tenantId ctx) (?r i) (w\<lparr>w_next := Suc (w_next w)\<rparr>) = (Inr (Inr row), v)"
    "reservation = Some (rv_id row)"
    by (auto simp: reserve_funds_def sret_def sthrow_def fresh_id_def sget_def sbind_def
        split: sum.splits prod.splits)
  with reserve_InrD have ins: "insertReservation (ps_db deps) (?r i) (w\<lparr>w_next := Suc (w_next w)\<rparr>) = (Inr row, v)"
    and r: "reservation = Some (rv_id row)" by blast+
  have "rv_payment_intent_id row = pi_id intent"
    using ins by (auto simp: insertReservation_def Let_def execution_reservation_def split: option.splits if_splits)
  with insertReservation_InrD [OF ins] r True show ?thesis
    by (auto simp: funds_held_def execution_reservation_def)
qed

section \<open>The hand-off behind the gate\<close>

definition handed :: "service_deps \<Rightarrow> call_ctx \<Rightarrow> intent_row \<Rightarrow> gate_success \<Rightarrow> world \<Rightarrow> world \<Rightarrow> bool" where
  "handed deps ctx intent gate w v \<longleftrightarrow>
     (\<exists>o1. w_intents v = w_intents (dispatched_intents (cx_tenantId ctx) (pi_id intent) w)
        \<and> w_outbox v = w_outbox w @ [o1] \<and> ob_status o1 = Ob_pending
        \<and> ob_tenant_id o1 = cx_tenantId ctx \<and> ob_payment_intent_id o1 = pi_id intent
        \<and> ob_audit_before_id o1 = gs_auditBeforeEventId gate
        \<and> ob_idempotency_key o1 = ''pi:'' @ pi_id intent @ '':'' @ gs_policyDecisionId gate
        \<and> funds_held (ps_db deps) (cx_tenantId ctx) intent (ob_reservation_id o1) w v
        \<and> w_executions v = w_executions w)"

lemma funds_held_cong:
  "funds_held db t intent r w v \<Longrightarrow> w_reservations w' = w_reservations w \<Longrightarrow> w_reservations v' = w_reservations v
     \<Longrightarrow> funds_held db t intent r w' v'"
  by (simp add: funds_held_def)

lemma hand_off_handed:
  assumes ok: "money_ok w" and run: "hand_off deps ctx intent prin gate rail payload w = (Inr (Handed_off x r), v)"
  shows "handed deps ctx intent gate w v"
proof -
  let ?t = "cx_tenantId ctx" and ?i = "pi_id intent"
  from hand_off_InrD [OF run] obtain q u res where q: "q \<in> set (w_intents w)" "own_intent ?t ?i q" "pi_status q = Approved"
    and rf: "reserve_funds deps ctx intent prin (gs_policyDecisionId gate) (dispatched_intents ?t ?i w) = (Inr r, u)"
    and en: "enqueue (ps_outbox deps) ?t (handed_input intent gate rail payload r) u = (Inr res, v)"
    by blast
  have u: "w_intents u = w_intents (dispatched_intents ?t ?i w)" "w_outbox u = w_outbox w"
    using evolvesD [OF same_tables.evolves_reserve rf]
    by (simp_all add: tables_same_def dispatched_intents_def update_intents_def)
  have "\<not> own_key ?t (en_idempotencyKey (handed_input intent gate rail payload r)) o1" if "o1 \<in> set (w_outbox u)" for o1
    using approved_key_free [OF ok q(1) _ that [unfolded u(2)]] q(2,3)
    by (simp add: handed_input_def own_intent_def handed_off_def)
  with enqueue_InrD [OF en] obtain j where v: "w_intents v = w_intents u"
    "w_outbox v = w_outbox u @ [new_outbox_row (ps_outbox deps) ?t (handed_input intent gate rail payload r) j (w_now u)]"
    by blast
  have rest: "rest_same u v" by (rule evolvesD [OF rest_outbox.evolves_enqueue en])
  have "executions_same (dispatched_intents ?t ?i w) u"
    by (rule evolvesD [OF executions_reservations.evolves_reserve rf])
  moreover have "funds_held (ps_db deps) ?t intent r w v"
    using rest by (intro funds_held_cong [OF reserve_funds_InrD [OF rf]])
      (simp_all add: rest_same_def dispatched_intents_def update_intents_def)
  ultimately show ?thesis
    unfolding handed_def using rest
    by (intro exI [of _ "new_outbox_row (ps_outbox deps) ?t (handed_input intent gate rail payload r) j (w_now u)"])
      (simp add: v u new_outbox_row_def handed_input_def rest_same_def executions_same_def
        dispatched_intents_def update_intents_def)
qed

lemma handed_cong:
  assumes "handed deps ctx intent gate w v" "same_money w' w" "same_money v v'"
  shows "handed deps ctx intent gate w' v'"
proof -
  from assms(1) obtain o1 where o1: "w_intents v = w_intents (dispatched_intents (cx_tenantId ctx) (pi_id intent) w)"
    "w_outbox v = w_outbox w @ [o1]" "ob_status o1 = Ob_pending"
    "ob_tenant_id o1 = cx_tenantId ctx" "ob_payment_intent_id o1 = pi_id intent"
    "ob_audit_before_id o1 = gs_auditBeforeEventId gate"
    "ob_idempotency_key o1 = ''pi:'' @ pi_id intent @ '':'' @ gs_policyDecisionId gate"
    "funds_held (ps_db deps) (cx_tenantId ctx) intent (ob_reservation_id o1) w v" "w_executions v = w_executions w"
    unfolding handed_def by blast
  have f: "funds_held (ps_db deps) (cx_tenantId ctx) intent (ob_reservation_id o1) w' v'"
    using assms(2,3) by (intro funds_held_cong [OF o1(8)]) (simp_all add: same_money_def)
  have i: "w_intents (dispatched_intents t i w) = w_intents (dispatched_intents t i w')" for t i
    using assms(2) by (simp add: dispatched_intents_def update_intents_def same_money_def)
  show ?thesis
    unfolding handed_def using o1 f i assms(2,3) by (intro exI [of _ o1]) (simp add: same_money_def)
qed

text \<open>A step that leaves the money tables alone, before one that fails without a trace or reaches \<open>Q\<close>.\<close>

definition failed :: "svc_error + 'a \<Rightarrow> world \<Rightarrow> world \<Rightarrow> bool" where
  "failed r w v \<longleftrightarrow> (\<exists>e. r = Inl e) \<and> same_money w v"

lemma sbindE:
  assumes "sbind m f w = (r, v)"
  obtains (fails) e where "m w = (Inl e, v)" "r = Inl e" | (goes) x u where "m w = (Inr x, u)" "f x u = (r, v)"
  using assms by (auto simp: sbind_def split: sum.splits prod.splits)

lemma after_reading:
  assumes run: "sbind m f w = (r, v)" and m: "evolves same_money m"
    and next_step: "\<And>x u. m w = (Inr x, u) \<Longrightarrow> f x u = (r, v) \<Longrightarrow> failed r u v \<or> Q u v"
    and lift_back: "\<And>u. same_money w u \<Longrightarrow> Q u v \<Longrightarrow> Q w v"
  shows "failed r w v \<or> Q w v"
  using run
proof (cases rule: sbindE)
  case (fails e)
  then show ?thesis using evolvesD [OF m] by (auto simp: failed_def)
next
  case (goes x u)
  have "same_money w u" by (rule evolvesD [OF m goes(1)])
  then show ?thesis using next_step [OF goes] lift_back money_same.R_trans by (auto simp: failed_def)
qed

lemma throws_failed: "evolves same_money m \<Longrightarrow> (sthen m (sthrow e)) w = (r, v) \<Longrightarrow> failed r w v"
  unfolding sthen_def by (erule sbindE) (auto simp: failed_def sthrow_def dest: evolvesD)

lemma hand_off_outcome:
  assumes ok: "money_ok w" and run: "in_tx (hand_off deps ctx intent prin gate rail payload) w = (r, u)"
  shows "r = Inr (Handed_off x rsv) \<Longrightarrow> handed deps ctx intent gate w u"
    and "r = Inr (Moved_away s) \<Longrightarrow> u = w" and "r = Inl e \<Longrightarrow> u = w"
proof -
  have h: "r = Inr y \<Longrightarrow> hand_off deps ctx intent prin gate rail payload w = (Inr y, u)" for y
    using run by (auto dest: in_tx_InrD)
  show "r = Inr (Handed_off x rsv) \<Longrightarrow> handed deps ctx intent gate w u" by (rule hand_off_handed [OF ok h])
  show "r = Inr (Moved_away s) \<Longrightarrow> u = w" using hand_off_InrD [OF h] by blast
  show "r = Inl e \<Longrightarrow> u = w" using run by (auto simp: in_tx_def split: sum.splits prod.splits)
qed

lemma execute_passed_outcome:
  assumes ok: "money_ok w" and run: "execute_passed deps ctx i intent prin gate w = (r, v)"
  shows "failed r w v \<or> handed deps ctx intent gate w v"
  using run unfolding execute_passed_def
proof (rule after_reading [OF _ money_same.evolves_rail], goal_cases)
  case (1 rail w1)
  then have ok1: "money_ok w1" using ok evolvesD [OF money_same.evolves_rail 1(1)]
    by (simp add: money_ok_def same_money_def)
  from 1(2) show ?case
  proof (rule after_reading [OF _ money_same.evolves_payload], goal_cases)
    case (1 payload w2)
    then have ok2: "money_ok w2" using ok1 evolvesD [OF money_same.evolves_payload 1(1)]
      by (simp add: money_ok_def same_money_def)
    from 1(2) show ?case
    proof (cases rule: sbindE)
      case (fails e)
      then show ?thesis using hand_off_outcome(3) [OF ok2 fails(1)] by (simp add: failed_def money_same.R_refl)
    next
      case (goes ho w3)
      show ?thesis
      proof (cases ho)
        case (Moved_away s)
        then have "failed r w2 v"
          using goes hand_off_outcome(2) [OF ok2 goes(1)]
          by (auto simp: invalid_state_def intro!: throws_failed [OF money_same.evolves_event])
        then show ?thesis ..
      next
        case (Handed_off x rsv)
        then have "handed deps ctx intent gate w2 w3" using hand_off_outcome(1) [OF ok2 goes(1)] by simp
        moreover have "same_money w3 v"
          using goes(2) unfolding Handed_off handoff.case
          by (rule evolvesD [OF money_same.evolves_sthen [OF money_same.evolves_event money_same.evolves_sret]])
        ultimately have "handed deps ctx intent gate w2 v" using handed_cong money_same.R_refl by blast
        then show ?thesis ..
      qed
    qed
  qed (rule handed_cong [OF _ _ money_same.R_refl])
qed (rule handed_cong [OF _ _ money_same.R_refl])

lemma load_prin: "evolves same_money (sbind (sget (ps_resolvePrincipal deps ctx)) slift)"
  by (intro money_same.evolves_intros)

lemma execute_outcome:
  assumes ok: "money_ok w" and approved: "pi_status intent = Approved"
    and run: "sbind (sbind (sget (ps_resolvePrincipal deps ctx)) slift) (\<lambda>prin.
          sbind (run_gate deps ctx prin (intentToGate intent)) (\<lambda>gate.
          case gate of
            Gate_failed gf \<Rightarrow> gate_refused deps ctx i (gf_failedCheck gf)
          | Gate_ok gs \<Rightarrow> execute_passed deps ctx i intent prin gs)) w = (r, v)"
  shows "failed r w v \<or> (\<exists>prin gate. fst (run_gate deps ctx prin (intentToGate intent) w) = Inr (Gate_ok gate)
           \<and> handed deps ctx intent gate w v)"
  using run
proof (cases rule: sbindE)
  case (fails e)
  then show ?thesis using evolvesD [OF load_prin] by (auto simp: failed_def)
next
  case (goes prin u)
  then have u: "u = w" by (auto simp: sbind_def sget_def slift_def sret_def sthrow_def split: sum.splits)
  from goes(2) [unfolded u] show ?thesis
  proof (cases rule: sbindE)
    case (fails e)
    then show ?thesis using evolvesD [OF money_same.evolves_gate] by (auto simp: failed_def)
  next
    case g: (goes gate w1)
    note s1 = evolvesD [OF money_same.evolves_gate g(1)]
    show ?thesis
    proof (cases gate)
      case (Gate_failed gf)
      then have "failed r w1 v"
        using g(2) by (auto simp: gate_refused_def intro!: throws_failed [OF money_same.evolves_event])
      then show ?thesis using s1 by (auto simp: failed_def intro: money_same.R_trans)
    next
      case (Gate_ok gs)
      have ok1: "money_ok w1" using ok s1 by (simp add: money_ok_def same_money_def)
      from execute_passed_outcome [OF ok1] g(2) Gate_ok have "failed r w1 v \<or> handed deps ctx intent gs w1 v" by simp
      then show ?thesis
      proof
        assume "failed r w1 v"
        then show ?thesis using s1 by (auto simp: failed_def intro: money_same.R_trans)
      next
        assume "handed deps ctx intent gs w1 v"
        then have "handed deps ctx intent gs w v" by (rule handed_cong [OF _ s1 money_same.R_refl])
        moreover have "fst (run_gate deps ctx prin (intentToGate intent) w) = Inr (Gate_ok gs)"
          using g(1) Gate_ok by simp
        ultimately show ?thesis by blast
      qed
    qed
  qed
qed

text \<open>C1 (safety). \<open>execute\<close> is all or nothing, behind a passed gate: from any store that keeps the
hand-off invariant, either it throws and intents, outbox, reservations and executions are exactly as
before, or the intent was approved, the pre-execution gate passed on it, and in one step it is
dispatching, has one new pending outbox row carrying the gate's audit-before id and keyed by the
gate's policy decision, and (unless it settles on chain) one new active reservation of its amount
on its source account.\<close>

theorem execute_all_or_nothing:
  assumes "money_ok w" and "execute deps ctx i w = (result, v)"
  shows "(\<exists>e. result = Inl e) \<and> same_money w v
    \<or> (\<exists>intent prin gate. find (own_intent (cx_tenantId ctx) i) (w_intents w) = Some intent
         \<and> pi_status intent = Approved
         \<and> fst (run_gate deps ctx prin (intentToGate intent) w) = Inr (Gate_ok gate)
         \<and> handed deps ctx intent gate w v)"
proof -
  note run = assms(2) [unfolded execute_def]
  have "failed result w v \<or> (\<exists>intent prin gate. find (own_intent (cx_tenantId ctx) i) (w_intents w) = Some intent
         \<and> pi_status intent = Approved
         \<and> fst (run_gate deps ctx prin (intentToGate intent) w) = Inr (Gate_ok gate)
         \<and> handed deps ctx intent gate w v)"
  proof (cases "find (own_intent (cx_tenantId ctx) i) (w_intents w)")
    case None
    with run show ?thesis by (auto simp: sbind_def requireIntent_run failed_def money_same.R_refl)
  next
    case (Some intent)
    show ?thesis
    proof (cases "pi_status intent = Approved")
      case False
      with run Some show ?thesis
        by (auto simp: sbind_def requireIntent_run invalid_state_def sthrow_def failed_def money_same.R_refl)
    next
      case True
      from run have "sbind (sbind (sget (ps_resolvePrincipal deps ctx)) slift) (\<lambda>prin.
          sbind (run_gate deps ctx prin (intentToGate intent)) (\<lambda>gate.
          case gate of
            Gate_failed gf \<Rightarrow> gate_refused deps ctx i (gf_failedCheck gf)
          | Gate_ok gs \<Rightarrow> execute_passed deps ctx i intent prin gs)) w = (result, v)"
        by (cases rule: sbindE) (auto simp: requireIntent_run Some True)
      from execute_outcome [OF assms(1) True this] Some True show ?thesis by blast
    qed
  qed
  then show ?thesis by (simp add: failed_def)
qed

section \<open>A concrete execution\<close>

definition sample_payload :: "(string \<times> json) list" where
  "sample_payload = [(''kind'', JStr ''ach_outbound''), (''source_account_id'', JStr ''acc_1''),
     (''destination_counterparty_id'', JStr ''cp_1''), (''amount'', JStr ''100''), (''currency'', JStr ''USD'')]"

lemma sample_payload_clean:
  "assertNoForbiddenFields (oe_digests sample_env) DEFAULT_AGENT_TRACE_POLICY (JObj sample_payload) = Inr ()"
  by code_simp

lemma sample_funds:
  "addDecimalString8 ''100'' (db_sum sample_db []) = Some ''100''" "cmpDecimal8 ''500'' ''100'' = Some 1"
  "db_numeric sample_db ''100'' = Some ''100''"
  by code_simp+

lemma sample_money_ok: "money_ok (money_world (money_intent Approved act) [])"
  by (simp add: money_ok_def money_world_def money_intent_def one_row_def handed_off_def colon_free_def)

lemma sample_execute_passed:
  assumes "same_money (money_world (money_intent Approved ''ach_outbound'') []) w"
  shows "\<exists>res v. execute_passed (money_service accepting) money_ctx ''pi_1''
     (money_intent Approved ''ach_outbound'') money_prin gs w = (Inr res, v)"
proof -
  let ?d = "money_service accepting" and ?p = "money_intent Approved ''ach_outbound''"
  have w: "w_intents w = [?p]" "w_outbox w = []" "w_now w = 1000" "w_reservations w = []" "w_balances w = []"
    "w_accounts w = [\<lparr>la_id = ''acc_1'', la_owner_id = ''t_1'', la_status = ''active'', la_currency = ''USD'',
        la_available_balance = Some ''500''\<rparr>]"
    using assms by (simp_all add: same_money_def money_world_def)
  have rail: "railFor (pi_action_type ?p) w = (Inr ''bank_ach'', w)"
    by (simp add: railFor_def money_intent_def sret_def)
  have payload: "rail_payload ?d money_ctx ?p w = (Inr sample_payload, w)"
    by (simp add: rail_payload_def onchain_fields_def escrow_fields_def x402_fields_def sample_payload_def
        money_intent_def sbind_def sret_def)
  obtain m where tr: "transitionPaymentIntent (cx_tenantId money_ctx) (pi_id ?p) Approved Dispatching None w
      = (Inr (Some m), dispatched_intents ''t_1'' ''pi_1'' w)"
    by (simp add: transitionPaymentIntent_def w money_intent_def own_intent_def Let_def money_ctx_def
        dispatched_intents_def stamp_decision_def)
  have "\<exists>r u. reserve_funds ?d money_ctx ?p money_prin (gs_policyDecisionId gs) (dispatched_intents ''t_1'' ''pi_1'' w)
      = (Inr r, u) \<and> w_outbox u = []"
    by (simp add: reserve_funds_def requiresExecutionReservation_def money_intent_def sbind_def fresh_id_def
        sget_def reserveIfAvailable_def dispatched_intents_def update_intents_def w execution_reservation_def
        money_ctx_def latest_balance_def sumActiveReservations_def sample_funds money_service_def sret_def
        insertReservation_def Let_def)
  then obtain r u where rf: "reserve_funds ?d money_ctx ?p money_prin (gs_policyDecisionId gs)
      (dispatched_intents ''t_1'' ''pi_1'' w) = (Inr r, u)" "w_outbox u = []" by blast
  obtain e x where en: "enqueue (ps_outbox ?d) (cx_tenantId money_ctx)
      \<lparr>en_paymentIntentId = pi_id ?p, en_rail = ''bank_ach'',
       en_idempotencyKey = ''pi:'' @ pi_id ?p @ '':'' @ gs_policyDecisionId gs, en_payload = sample_payload,
       en_auditBeforeId = gs_auditBeforeEventId gs, en_reservationId = r\<rparr> u = (Inr e, x)"
    using rf(2) sample_payload_clean
    by (simp add: enqueue_def money_service_def sthen_def sbind_def slift_def sret_def fresh_id_def sget_def
        insert_outbox_row_def)
  have ho: "hand_off ?d money_ctx ?p money_prin gs ''bank_ach'' sample_payload w = (Inr (Handed_off (er_id e) r), x)"
    unfolding hand_off_def using en
    by (simp add: sthen_def sbind_def assert_intent_transition_def assertPaymentIntentTransition_def sret_def
        tr rf(1))
  have "ps_audit ?d = accepting" by (simp add: money_service_def)
  then show ?thesis
    by (simp add: execute_passed_def sbind_def rail payload ho in_tx_def sthen_def emit_event_def audit_emit_def
        accepting_def sret_def)
qed

lemma sample_execute:
  "\<exists>res v. execute (money_service accepting) money_ctx ''pi_1'' (money_world (money_intent Approved ''ach_outbound'') [])
     = (Inr res, v)"
proof -
  let ?d = "money_service accepting" and ?p = "money_intent Approved ''ach_outbound''"
  let ?w = "money_world ?p []"
  obtain eff gs where g: "runPreExecutionGate (gateDeps ?d money_ctx ?w) (gate_input money_ctx money_prin (intentToGate ?p))
      = (eff, Inr (Gate_ok gs))"
    by (rule gate_passesE [OF money_gate_passes [of ?w]])
  then obtain w1 where gate: "run_gate ?d money_ctx money_prin (intentToGate ?p) ?w = (Inr (Gate_ok gs), w1)"
    by (auto simp: run_gate_def Let_def)
  obtain res v where "execute_passed ?d money_ctx ''pi_1'' ?p money_prin gs w1 = (Inr res, v)"
    using sample_execute_passed [OF evolvesD [OF money_same.evolves_gate gate]] by blast
  moreover have "requireIntent money_ctx ''pi_1'' ?w = (Inr ?p, ?w)" "pi_status ?p = Approved"
    by (simp_all add: requireIntent_run money_world_def money_ctx_def money_intent_def own_intent_def)
  moreover have "sbind (sget (ps_resolvePrincipal ?d money_ctx)) slift ?w = (Inr money_prin, ?w)"
    by (simp add: sbind_def sget_def slift_def sret_def money_service_def money_prin_def)
  ultimately have "execute ?d money_ctx ''pi_1'' ?w = (Inr res, v)"
    by (simp add: execute_def sbind_def [of "requireIntent money_ctx ''pi_1''"]
        sbind_def [of "sbind (sget (ps_resolvePrincipal ?d money_ctx)) slift"]
        sbind_def [of "run_gate ?d money_ctx money_prin (intentToGate ?p)"] gate)
  then show ?thesis by blast
qed

theorem execute_all_or_nothing_witness:
  "\<exists>res v gate. execute (money_service accepting) money_ctx ''pi_1'' (money_world (money_intent Approved ''ach_outbound'') [])
      = (Inr res, v)
    \<and> handed (money_service accepting) money_ctx (money_intent Approved ''ach_outbound'') gate
        (money_world (money_intent Approved ''ach_outbound'') []) v"
proof -
  obtain res v where run: "execute (money_service accepting) money_ctx ''pi_1''
      (money_world (money_intent Approved ''ach_outbound'') []) = (Inr res, v)"
    using sample_execute by blast
  have "find (own_intent (cx_tenantId money_ctx) ''pi_1'')
      (w_intents (money_world (money_intent Approved ''ach_outbound'') [])) = Some (money_intent Approved ''ach_outbound'')"
    by (simp add: money_world_def money_ctx_def money_intent_def own_intent_def)
  with execute_all_or_nothing [OF sample_money_ok run] run show ?thesis by auto
qed

end
