(* ===== verification/Settlement.thy ===== *)
theory Settlement
  imports Execute_Facts
begin

text \<open>
  Settlement by the worker's callback \<open>completeExecution\<close>: one transaction that records the
  execution with its receipt, moves the intent to executed and consumes the reservation, or
  leaves the store as it was.
\<close>

section \<open>The transaction\<close>

lemma sthenE:
  assumes "sthen m n w = (Inr y, v)"
  obtains x u where "m w = (Inr x, u)" "n u = (Inr y, v)"
  using sthen_InrD [OF assms] by blast

definition settled_execution :: "call_ctx \<Rightarrow> complete_args \<Rightarrow> int \<Rightarrow> execution_row" where
  "settled_execution ctx args now =
     \<lparr>ex_id = co_executionId args, ex_tenant_id = cx_tenantId ctx, ex_proposal_id = co_paymentIntentId args,
      ex_rail = co_rail args, ex_status = Exec_completed, ex_idempotency_key = Some (co_idempotencyKey args),
      ex_rail_receipt = Some (JObj (co_railReceipt args)), ex_completed_at = Some now\<rparr>"

text \<open>A fresh row at the end of the table is the only one its id reaches.\<close>

lemma map_fresh:
  assumes "\<forall>x \<in> set rows. ex_id x \<noteq> i" "\<And>r. ex_id r \<noteq> i \<Longrightarrow> f r = r"
  shows "map f (rows @ [r]) = rows @ [f r]"
  using assms by (simp add: map_idI)

lemma insertExecution_InrD:
  assumes "insertExecution r w = (Inr y, v)"
  shows "ex_rail r \<in> set EXECUTION_RAILS" "\<forall>x \<in> set (w_executions w). ex_id x \<noteq> ex_id r"
    "v = w\<lparr>w_executions := w_executions w @ [r]\<rparr>"
  using assms by (auto simp: insertExecution_def list_ex_iff split: if_splits)

lemma transitionExecution_fresh:
  assumes "transitionExecution t i f to w = (Inr y, v)" "w_executions w = rows @ [r]"
    "\<forall>x \<in> set rows. ex_id x \<noteq> i" "ex_id r = i"
  shows "v = w\<lparr>w_executions := rows @ [r\<lparr>ex_status := to,
           ex_completed_at := (if to = Exec_completed \<or> to = Exec_failed then Some (w_now w) else ex_completed_at r)\<rparr>]\<rparr>"
    and "ex_status r = f"
proof -
  let ?hit = "\<lambda>r. ex_tenant_id r = t \<and> ex_id r = i \<and> ex_status r = f"
  have some: "find ?hit (rows @ [r]) \<noteq> None" and v: "v = w\<lparr>w_executions := map (\<lambda>r. if ?hit r
       then r\<lparr>ex_status := to, ex_completed_at := (if to = Exec_completed \<or> to = Exec_failed
              then Some (w_now w) else ex_completed_at r)\<rparr> else r) (rows @ [r])\<rparr>"
    using assms(1,2) by (auto simp: transitionExecution_def Let_def split: sum.splits if_splits)
  have hit: "?hit r" using some assms(3) by (auto simp: find_None_iff)
  then show "ex_status r = f" by simp
  show "v = w\<lparr>w_executions := rows @ [r\<lparr>ex_status := to,
           ex_completed_at := (if to = Exec_completed \<or> to = Exec_failed then Some (w_now w) else ex_completed_at r)\<rparr>]\<rparr>"
    unfolding v by (subst map_fresh [OF assms(3)]) (use hit in auto)
qed

text \<open>What the steps after the execution row do to it: nothing.\<close>

interpretation executions_intents: intents_blind executions_same
  by unfold_locales (simp_all add: executions_same_def)

abbreviation opened_execution :: "call_ctx \<Rightarrow> complete_args \<Rightarrow> execution_row" where
  "opened_execution ctx args \<equiv>
     \<lparr>ex_id = co_executionId args, ex_tenant_id = cx_tenantId ctx, ex_proposal_id = co_paymentIntentId args,
      ex_rail = co_rail args, ex_status = Exec_dispatched, ex_idempotency_key = Some (co_idempotencyKey args),
      ex_rail_receipt = None, ex_completed_at = None\<rparr>"

lemma settle_txE:
  assumes "settle_tx deps ctx args current w = (Inr y, v)"
  obtains y1 w1 y2 w2 y3 w3 y4 w4 y5 w5 y6 w6 y7 w7 where
    "insertExecution (opened_execution ctx args) w = (Inr y1, w1)"
    "setExecutionReceipt (cx_tenantId ctx) (co_executionId args) (JObj (co_railReceipt args)) w1 = (Inr y2, w2)"
    "transitionExecution (cx_tenantId ctx) (co_executionId args) Exec_dispatched Exec_in_flight w2 = (Inr y3, w3)"
    "required_move (cx_tenantId ctx) (co_paymentIntentId args) Dispatching Executed w3 = (Inr y4, w4)"
    "transitionExecution (cx_tenantId ctx) (co_executionId args) Exec_in_flight Exec_completed w4 = (Inr y5, w5)"
    "appendExecutionReceiptId (cx_tenantId ctx) (co_paymentIntentId args) (co_executionId args) w5 = (Inr y6, w6)"
    "on_reservation (co_reservationId args) (consumeReservation (cx_tenantId ctx)) w6 = (Inr y7, w7)"
    "record_spend deps ctx current w7 = (Inr y, v)"
  using assms unfolding settle_tx_def Let_def by (elim sthenE) blast

lemma settle_tx_executions:
  assumes "settle_tx deps ctx args current w = (Inr y, v)"
  shows "co_rail args \<in> set EXECUTION_RAILS
    \<and> w_executions v = w_executions w @ [settled_execution ctx args (w_now w)]"
proof -
  let ?t = "cx_tenantId ctx" and ?x = "co_executionId args" and ?i = "co_paymentIntentId args"
  let ?r = "opened_execution ctx args"
  let ?r1 = "?r\<lparr>ex_rail_receipt := Some (JObj (co_railReceipt args))\<rparr>"
  obtain y1 w1 y2 w2 y3 w3 y4 w4 y5 w5 y6 w6 y7 w7 where
    1: "insertExecution ?r w = (Inr y1, w1)" and
    2: "setExecutionReceipt ?t ?x (JObj (co_railReceipt args)) w1 = (Inr y2, w2)" and
    3: "transitionExecution ?t ?x Exec_dispatched Exec_in_flight w2 = (Inr y3, w3)" and
    4: "required_move ?t ?i Dispatching Executed w3 = (Inr y4, w4)" and
    5: "transitionExecution ?t ?x Exec_in_flight Exec_completed w4 = (Inr y5, w5)" and
    6: "appendExecutionReceiptId ?t ?i ?x w5 = (Inr y6, w6)" and
    7: "on_reservation (co_reservationId args) (consumeReservation ?t) w6 = (Inr y7, w7)" and
    8: "record_spend deps ctx current w7 = (Inr y, v)"
    by (rule settle_txE [OF assms])
  note ins = insertExecution_InrD [OF 1, simplified]
  have e1: "w_executions w1 = w_executions w @ [?r]" by (simp add: ins(3))
  have e2: "w_executions w2 = w_executions w @ [?r1]"
    using 2 map_fresh [OF ins(2), of "\<lambda>r. if ex_tenant_id r = ?t \<and> ex_id r = ?x
       then r\<lparr>ex_rail_receipt := Some (JObj (co_railReceipt args))\<rparr> else r" ?r]
    by (auto simp: setExecutionReceipt_def smodify_def e1)
  have e3: "w_executions w3 = w_executions w @ [?r1\<lparr>ex_status := Exec_in_flight\<rparr>]"
    using transitionExecution_fresh(1) [OF 3 e2 ins(2)] by simp
  have e4: "w_executions w4 = w_executions w3"
    using evolvesD [OF executions_intents.evolves_required 4] by (simp add: executions_same_def)
  have now: "w_now w4 = w_now w"
    using evolvesD [OF silent_settlement.evolves_insertExecution 1] evolvesD [OF silent_settlement.evolves_receipt 2]
      evolvesD [OF silent_settlement.evolves_transitionExecution 3] evolvesD [OF silent_settlement.evolves_required 4]
    by (simp add: same_outbox_def)
  have e5: "w_executions w5 = w_executions w @ [settled_execution ctx args (w_now w)]"
    using transitionExecution_fresh(1) [OF 5 e4 [unfolded e3] ins(2)] now by (simp add: settled_execution_def)
  have "executions_same w5 w6" by (rule evolvesD [OF executions_intents.evolves_append(2) 6])
  moreover have "executions_same w6 w7" by (rule evolvesD [OF executions_reservations.evolves_on_reservation(1) 7])
  moreover have "executions_same w7 v" by (rule evolvesD [OF executions_reservations.evolves_spend 8])
  ultimately have "w_executions v = w_executions w @ [settled_execution ctx args (w_now w)]"
    using e5 by (simp add: executions_same_def)
  then show "co_rail args \<in> set EXECUTION_RAILS \<and> w_executions v = w_executions w @ [settled_execution ctx args (w_now w)]"
    using ins(1) by simp
qed

lemma required_move_InrD:
  assumes "required_move t i f to w = (Inr y, v)"
  shows "isValidPaymentIntentTransition f to"
    and "\<exists>r \<in> set (w_intents w). own_intent t i r \<and> pi_status r = f"
    and "v = update_intents (\<lambda>r. own_intent t i r \<and> pi_status r = f)
           (\<lambda>r. r\<lparr>pi_status := to, pi_updated_at := w_now w\<rparr>) w"
proof -
  from assms obtain a u m where a: "assert_intent_transition f to w = (Inr a, u)"
    and tr: "transitionPaymentIntent t i f to None u = (Inr (Some m), v)"
    by (auto simp: required_move_def invalid_state_def sthrow_def sret_def dest!: sthen_InrD sbind_InrD split: option.splits)
  from a show "isValidPaymentIntentTransition f to"
    by (auto simp: assert_intent_transition_def assertPaymentIntentTransition_def sthrow_def split: if_splits)
  from a have u: "u = w"
    by (auto simp: assert_intent_transition_def assertPaymentIntentTransition_def sthrow_def sret_def split: if_splits)
  show "\<exists>r \<in> set (w_intents w). own_intent t i r \<and> pi_status r = f"
    and "v = update_intents (\<lambda>r. own_intent t i r \<and> pi_status r = f)
           (\<lambda>r. r\<lparr>pi_status := to, pi_updated_at := w_now w\<rparr>) w"
    using tr unfolding u by (auto elim!: transition_InrD simp: stamp_decision_def)
qed

text \<open>The settled intent: executed, with the execution among its receipts. Other intents are untouched.\<close>

definition settle_intent :: "string \<Rightarrow> string \<Rightarrow> string \<Rightarrow> int \<Rightarrow> intent_row \<Rightarrow> intent_row" where
  "settle_intent t i x now r =
     (if \<not> own_intent t i r then r
      else r\<lparr>pi_status := (if pi_status r = Dispatching then Executed else pi_status r), pi_updated_at := now,
             pi_execution_receipt_ids := pi_execution_receipt_ids r @ [x]\<rparr>)"

definition intents_same :: "world \<Rightarrow> world \<Rightarrow> bool" where
  "intents_same w v \<longleftrightarrow> w_intents v = w_intents w"

interpretation intents_reservations: reservations_blind intents_same
  by unfold_locales (simp_all add: intents_same_def)

interpretation intents_executions: executions_blind intents_same
  by unfold_locales (simp_all add: intents_same_def)

lemma settle_tx_intents:
  assumes "settle_tx deps ctx args current w = (Inr y, v)"
  shows "w_intents v = map (settle_intent (cx_tenantId ctx) (co_paymentIntentId args) (co_executionId args) (w_now w))
                         (w_intents w)"
proof -
  let ?t = "cx_tenantId ctx" and ?x = "co_executionId args" and ?i = "co_paymentIntentId args"
  obtain y1 w1 y2 w2 y3 w3 y4 w4 y5 w5 y6 w6 y7 w7 where
    1: "insertExecution (opened_execution ctx args) w = (Inr y1, w1)" and
    2: "setExecutionReceipt ?t ?x (JObj (co_railReceipt args)) w1 = (Inr y2, w2)" and
    3: "transitionExecution ?t ?x Exec_dispatched Exec_in_flight w2 = (Inr y3, w3)" and
    4: "required_move ?t ?i Dispatching Executed w3 = (Inr y4, w4)" and
    5: "transitionExecution ?t ?x Exec_in_flight Exec_completed w4 = (Inr y5, w5)" and
    6: "appendExecutionReceiptId ?t ?i ?x w5 = (Inr y6, w6)" and
    7: "on_reservation (co_reservationId args) (consumeReservation ?t) w6 = (Inr y7, w7)" and
    8: "record_spend deps ctx current w7 = (Inr y, v)"
    by (rule settle_txE [OF assms])
  note silent = evolvesD [OF silent_settlement.evolves_insertExecution 1] evolvesD [OF silent_settlement.evolves_receipt 2]
    evolvesD [OF silent_settlement.evolves_transitionExecution 3] evolvesD [OF silent_settlement.evolves_required 4]
    evolvesD [OF silent_settlement.evolves_transitionExecution 5]
  note same = evolvesD [OF intents_executions.evolves_insertExecution 1] evolvesD [OF intents_executions.evolves_receipt 2]
    evolvesD [OF intents_executions.evolves_transitionExecution 3] evolvesD [OF intents_executions.evolves_transitionExecution 5]
    evolvesD [OF intents_reservations.evolves_on_reservation(1) 7] evolvesD [OF intents_reservations.evolves_spend 8]
  have now: "w_now w3 = w_now w" "w_now w5 = w_now w" using silent by (simp_all add: same_outbox_def)
  let ?f = "\<lambda>r. if own_intent ?t ?i r \<and> pi_status r = Dispatching
       then r\<lparr>pi_status := Executed, pi_updated_at := w_now w\<rparr> else r"
  let ?g = "\<lambda>r. if own_intent ?t ?i r
       then r\<lparr>pi_execution_receipt_ids := pi_execution_receipt_ids r @ [?x], pi_updated_at := w_now w\<rparr> else r"
  have eq: "w_intents v = w_intents w6" "w_intents w5 = w_intents w4" "w_intents w3 = w_intents w"
    using same by (simp_all only: intents_same_def)
  have g: "w_intents w6 = map ?g (w_intents w5)"
    using 6 by (auto simp: appendExecutionReceiptId_def update_intents_def now)
  have f: "w_intents w4 = map ?f (w_intents w3)"
    using required_move_InrD(3) [OF 4] by (simp add: update_intents_def now)
  have gf: "?g (?f r) = settle_intent ?t ?i ?x (w_now w) r" for r
  proof (cases "own_intent ?t ?i r")
    case True
    then have "own_intent ?t ?i (?f r)" by (simp add: own_intent_def)
    then have "?g (?f r) = (?f r)\<lparr>pi_execution_receipt_ids := pi_execution_receipt_ids (?f r) @ [?x],
        pi_updated_at := w_now w\<rparr>" by (rule if_P)
    with True show ?thesis by (cases "pi_status r = Dispatching") (simp_all add: settle_intent_def)
  qed (simp add: settle_intent_def)
  have "w_intents v = map (\<lambda>r. ?g (?f r)) (w_intents w)"
    unfolding eq(1) g eq(2) f eq(3) map_map comp_def ..
  then show ?thesis unfolding gf .
qed

section \<open>The callback\<close>

definition settle_outcome :: "service_deps \<Rightarrow> call_ctx \<Rightarrow> complete_args \<Rightarrow> world \<Rightarrow> world \<Rightarrow> bool" where
  "settle_outcome deps ctx args w v \<longleftrightarrow>
     (\<exists>current d. find (own_intent (cx_tenantId ctx) (co_paymentIntentId args)) (w_intents w) = Some current
        \<and> pi_status current = Dispatching \<and> pi_policy_decision_id current = Some d \<and> d \<noteq> []
        \<and> co_rail args \<in> set EXECUTION_RAILS
        \<and> w_executions v = w_executions w @ [settled_execution ctx args (w_now w)]
        \<and> w_intents v = map (settle_intent (cx_tenantId ctx) (co_paymentIntentId args) (co_executionId args) (w_now w))
                           (w_intents w))"

definition already_executed :: "call_ctx \<Rightarrow> complete_args \<Rightarrow> world \<Rightarrow> bool" where
  "already_executed ctx args w \<longleftrightarrow>
     map_option pi_status (find (own_intent (cx_tenantId ctx) (co_paymentIntentId args)) (w_intents w)) = Some Executed"

lemma complete_tx_outcome:
  assumes "in_tx (sbind (findPaymentIntentById (cx_tenantId ctx) (co_paymentIntentId args)) (\<lambda>row.
        case row of
          None \<Rightarrow> sthrow (Brain_error ''payment_intent_not_found'' None)
        | Some current \<Rightarrow>
            if pi_status current = Executed then sret False
            else if pi_status current \<noteq> Dispatching then invalid_state
            else if or_else (pi_policy_decision_id current) [] = [] then invalid_state
            else sthen (settle_tx deps ctx args current) (sret True))) w = (r, v)"
  shows "(\<exists>e. r = Inl e) \<and> v = w
    \<or> r = Inr False \<and> v = w \<and> already_executed ctx args w
    \<or> r = Inr True \<and> settle_outcome deps ctx args w v"
proof (cases "find (own_intent (cx_tenantId ctx) (co_paymentIntentId args)) (w_intents w)")
  case None
  with assms show ?thesis
    by (auto simp: in_tx_def sbind_def findPaymentIntentById_def sget_def sthrow_def)
next
  case (Some current)
  obtain sr u where st: "settle_tx deps ctx args current w = (sr, u)" by (cases "settle_tx deps ctx args current w")
  show ?thesis
  proof (cases sr)
    case (Inl e)
    with assms Some st show ?thesis
      by (auto simp: in_tx_def sbind_def sthen_def findPaymentIntentById_def sget_def sthrow_def sret_def
          invalid_state_def already_executed_def split: if_splits)
  next
    case (Inr y)
    with st have recorded: "co_rail args \<in> set EXECUTION_RAILS"
      "w_executions u = w_executions w @ [settled_execution ctx args (w_now w)]"
      "w_intents u = map (settle_intent (cx_tenantId ctx) (co_paymentIntentId args) (co_executionId args) (w_now w))
         (w_intents w)"
      using settle_tx_executions settle_tx_intents by blast+
    from assms Some st Inr recorded show ?thesis
      by (cases "pi_policy_decision_id current")
        (auto simp: in_tx_def sbind_def sthen_def findPaymentIntentById_def sget_def sthrow_def sret_def
          invalid_state_def settle_outcome_def already_executed_def split: if_splits)
  qed
qed

text \<open>C5 (functional). Settlement is recorded at most once, and wholly or not at all: a call of
\<open>completeExecution\<close> either leaves the money tables as they were (returning normally only when the
intent is already executed), or the intent was dispatching with a policy decision on record, and
exactly one completed execution row with the rail's receipt is added, the intent is executed and
lists that execution, and no other intent changes.\<close>

theorem settles_once:
  assumes "completeExecution deps ctx args w = (r, v)"
  shows "same_money w v \<and> (r = Inr () \<longrightarrow> already_executed ctx args w)
    \<or> settle_outcome deps ctx args w v"
proof -
  note run = assms [unfolded completeExecution_def]
  from run show ?thesis
  proof (cases rule: sbindE)
    case (fails e)
    from complete_tx_outcome [OF fails(1)] fails(2) show ?thesis by (auto simp: money_same.R_refl)
  next
    case (goes emitted u)
    from complete_tx_outcome [OF goes(1)] show ?thesis
    proof (elim disjE conjE)
      assume "Inr emitted = (Inr True :: svc_error + bool)" and st: "settle_outcome deps ctx args w u"
      then have "evolves same_money (swhen emitted (sthen (emit_event deps ctx ''execution'' (cx_actor ctx)
          ''payment_intent.executed''
          [(''payment_intent_id'', JStr (co_paymentIntentId args)), (''execution_id'', JStr (co_executionId args))]
          [(''status'', JStr ''executed''), (''rail'', JStr (co_rail args))] None) (sret ())))"
        by (intro money_same.service_intros)
      then have "same_money u v" using goes(2) by (rule evolvesD)
      with st show ?thesis by (simp add: settle_outcome_def same_money_def)
    next
      assume "Inr emitted = (Inr False :: svc_error + bool)" "u = w" "already_executed ctx args w"
      with goes(2) show ?thesis by (auto simp: swhen_def sret_def money_same.R_refl)
    qed auto
  qed
qed

text \<open>A dispatching intent, its outbox row, and the arguments the worker settles it with.\<close>

definition sample_settlement :: "string \<Rightarrow> complete_args" where
  "sample_settlement rail =
     \<lparr>co_paymentIntentId = ''pi_1'', co_executionId = ''exec_9'', co_rail = rail,
      co_railReceipt = [(''ach_trace'', JStr ''T1'')], co_idempotencyKey = ''pi:pi_1:pd_1'', co_reservationId = None\<rparr>"

abbreviation dispatching_world :: "string \<Rightarrow> world" where
  "dispatching_world act \<equiv> money_world (money_intent Dispatching act) []"

lemma sample_settles_run:
  "map pi_status (w_intents (snd (completeExecution (money_service accepting) money_ctx
     (sample_settlement ''bank_ach'') (dispatching_world ''ach_outbound'')))) = [Executed]"
  by code_simp

theorem settles_once_witness:
  "settle_outcome (money_service accepting) money_ctx (sample_settlement ''bank_ach'') (dispatching_world ''ach_outbound'')
     (snd (completeExecution (money_service accepting) money_ctx (sample_settlement ''bank_ach'')
        (dispatching_world ''ach_outbound'')))"
proof -
  let ?w = "dispatching_world ''ach_outbound''"
  obtain r v where run: "completeExecution (money_service accepting) money_ctx (sample_settlement ''bank_ach'') ?w = (r, v)"
    by (cases "completeExecution (money_service accepting) money_ctx (sample_settlement ''bank_ach'') ?w")
  have "\<not> same_money ?w v"
    using sample_settles_run run by (auto simp: same_money_def money_world_def money_intent_def)
  with settles_once [OF run] run show ?thesis by simp
qed

text \<open>C36 (error). No x402 or escrow payment can ever be settled: the rail name \<open>railFor\<close> gives their
executions is not admitted by the executions table, so after the rail has moved the money every
call of \<open>completeExecution\<close> throws and leaves the intent dispatching.\<close>

theorem onchain_settlement_always_throws:
  assumes "find (own_intent (cx_tenantId ctx) (co_paymentIntentId args)) (w_intents w) = Some current"
    and "pi_status current = Dispatching"
    and "pi_action_type current = ''x402_settle'' \<or> pi_action_type current = ''escrow_release''"
    and "railFor (pi_action_type current) w = (Inr (co_rail args), w)"
  shows "\<exists>e. completeExecution deps ctx args w = (Inl e, w)"
proof -
  have rail: "co_rail args \<notin> set EXECUTION_RAILS"
    using assms(3,4) by (auto simp: railFor_def sret_def EXECUTION_RAILS_def)
  obtain r v where tx: "in_tx (sbind (findPaymentIntentById (cx_tenantId ctx) (co_paymentIntentId args)) (\<lambda>row.
        case row of
          None \<Rightarrow> sthrow (Brain_error ''payment_intent_not_found'' None)
        | Some current \<Rightarrow>
            if pi_status current = Executed then sret False
            else if pi_status current \<noteq> Dispatching then invalid_state
            else if or_else (pi_policy_decision_id current) [] = [] then invalid_state
            else sthen (settle_tx deps ctx args current) (sret True))) w = (r, v)"
    by fastforce
  from complete_tx_outcome [OF tx] rail assms(1,2) have "\<exists>e. r = Inl e" "v = w"
    by (auto simp: settle_outcome_def already_executed_def)
  with tx show ?thesis by (auto simp: completeExecution_def sbind_def)
qed

theorem onchain_settlement_always_throws_witness:
  "\<exists>e. completeExecution (money_service accepting) money_ctx (sample_settlement ''x402_base'')
     (dispatching_world ''x402_settle'') = (Inl e, dispatching_world ''x402_settle'')"
  by (rule onchain_settlement_always_throws [where current = "money_intent Dispatching ''x402_settle''"])
    (simp_all add: money_world_def money_intent_def money_ctx_def sample_settlement_def own_intent_def railFor_def sret_def)

end
