(* ===== verification/Money_Properties.thy ===== *)
theory Money_Properties
  imports Settlement
begin

text \<open>
  The system-wide invariant of the money path: one outbox row per hand-off.
\<close>

section \<open>One outbox row per hand-off\<close>

lemma one_row_ident:
  "map row_ident rows = map row_ident rows' \<Longrightarrow> one_row rows r = one_row rows' r"
proof -
  let ?q = "\<lambda>(i, t, p, k). t = pi_owner_id r \<and> p = pi_id r"
  have "length (filter (row_for r) xs) = length (filter ?q (map row_ident xs))" for xs
    by (induction xs) (auto simp: row_for_def row_ident_def)
  note len = this
  assume eq: "map row_ident rows = map row_ident rows'"
  have "length (filter (row_for r) rows) = length (filter (row_for r) rows')" unfolding len eq ..
  then show "one_row rows r = one_row rows' r" by (simp only: one_row_def)
qed

lemma money_ok_rows:
  assumes "map row_ident rows = map row_ident (w_outbox w)" "money_ok w"
  shows "money_ok (w\<lparr>w_outbox := rows\<rparr>)"
proof -
  have "keyed o1 \<and> (\<exists>r \<in> set (w_intents w). row_for r o1)" if "o1 \<in> set rows" for o1
  proof -
    have "row_ident o1 \<in> row_ident ` set (w_outbox w)" using that assms(1) by (metis image_eqI set_map)
    then obtain o2 where o2: "o2 \<in> set (w_outbox w)" "row_ident o1 = row_ident o2" by blast
    then have "keyed o1 = keyed o2" "row_for r o1 = row_for r o2" for r
      by (simp_all add: row_ident_def keyed_def row_for_def)
    with o2 assms(2) show ?thesis by (simp add: money_ok_def)
  qed
  with assms(2) show ?thesis using one_row_ident [OF assms(1)] by (simp add: money_ok_def)
qed

interpretation money_cycles: worker_relation "preserved money_ok" "service_worker deps base" for deps base
proof unfold_locales
  fix rows :: "outbox_row list" and w :: world
  assume "map row_ident rows = map row_ident (w_outbox w)"
  then show "preserved money_ok w (w\<lparr>w_outbox := rows\<rparr>)" by (simp add: preserved_def money_ok_rows)
qed (simp_all add: preserved_def money_inv.I_log service_worker_def keeps_complete keeps_fail)

lemma serve_keeps: "preserved money_ok w (serve deps base req w)"
  by (cases req)
    (simp_all add: evolves_world keeps_create keeps_approve keeps_reject keeps_cancel keeps_pause
      keeps_pauseByAgent keeps_resume keeps_execute money_cycles.evolves_cycle,
     simp add: preserved_def money_ok_def)

text \<open>C2 (invariant). The transactional outbox, end to end: after any sequence of requests and worker
cycles from a store that keeps the hand-off invariant, a payment intent has exactly one outbox
row if it is dispatching, executed or failed, and none otherwise; every outbox row belongs to a
stored intent. So no intent is handed to the worker twice, and none is stuck in dispatching without
its row.\<close>

theorem one_outbox_row_per_hand_off:
  assumes "money_ok w"
  shows "let v = serve_all deps base reqs w in money_ok v
    \<and> (\<forall>k < length (w_intents v). length (filter (row_for (w_intents v ! k)) (w_outbox v))
         = (if handed_off (pi_status (w_intents v ! k)) then 1 else 0))"
proof -
  have "money_ok (serve_all deps base reqs w)"
    using money_inv.serve_all_R [OF serve_keeps] assms unfolding preserved_def by blast
  then show ?thesis by (simp add: Let_def money_ok_def one_row_def)
qed

theorem one_outbox_row_per_hand_off_witness:
  "let v = serve_all (money_service accepting) (sample_worker accepting)
     [Req_execute money_ctx ''pi_1'', Req_tick 10, Req_cycle None None]
     (money_world (money_intent Approved ''ach_outbound'') []) in money_ok v
    \<and> (\<forall>k < length (w_intents v). length (filter (row_for (w_intents v ! k)) (w_outbox v))
         = (if handed_off (pi_status (w_intents v ! k)) then 1 else 0))"
  by (rule one_outbox_row_per_hand_off [OF sample_money_ok])

end
