(* ===== verification/Kill_Switch.thy ===== *)
theory Kill_Switch
  imports Money_Properties
begin

text \<open>
  The kill switch over time: what an intent needs to be executed after the agent that made it was
  halted. The first stored row of the intent, which every operation reads, keeps a status other than
  approved through any requests and worker cycles, until a person approves or resumes that intent.
\<close>

section \<open>An intent that is not approved\<close>

definition unapproved :: "string \<Rightarrow> string \<Rightarrow> intent_row list \<Rightarrow> bool" where
  "unapproved t i rows \<longleftrightarrow> (\<exists>r. find (own_intent t i) rows = Some r \<and> pi_status r \<noteq> Approved)"

definition stays_unapproved :: "string \<Rightarrow> string \<Rightarrow> world \<Rightarrow> world \<Rightarrow> bool" where
  "stays_unapproved t i w v \<longleftrightarrow> (unapproved t i (w_intents w) \<longrightarrow> unapproved t i (w_intents v))"

lemma find_prefix: "find p xs = Some r \<Longrightarrow> find p (xs @ ys) = Some r"
  by (induction xs) (auto split: if_splits)

lemma find_of_map: "find p (map f xs) = map_option f (find (\<lambda>x. p (f x)) xs)"
  by (induction xs) auto

lemma unapproved_append: "unapproved t i rows \<Longrightarrow> unapproved t i (rows @ new)"
  by (auto simp: unapproved_def dest: find_prefix)

lemma unapproved_map:
  assumes "unapproved t i rows" "\<And>r. own_intent t i (f r) = own_intent t i r"
    and "\<And>r. own_intent t i r \<Longrightarrow> pi_status r \<noteq> Approved \<Longrightarrow> pi_status (f r) \<noteq> Approved"
  shows "unapproved t i (map f rows)"
proof -
  from assms(1) obtain r where r: "find (own_intent t i) rows = Some r" "pi_status r \<noteq> Approved"
    by (auto simp: unapproved_def)
  then have "find (own_intent t i) (map f rows) = Some (f r)"
    by (simp add: find_of_map assms(2) cong: map_option_cong)
  moreover have "own_intent t i r" using r(1) by (auto simp: find_Some_iff)
  ultimately show ?thesis using assms(3) r(2) by (auto simp: unapproved_def)
qed

lemma stays_same: "w_intents v = w_intents w \<Longrightarrow> stays_unapproved t i w v"
  by (simp add: stays_unapproved_def)

interpretation halted: store_relation "stays_unapproved t i" for t i
  by unfold_locales (auto simp: stays_unapproved_def)

interpretation halted_approvals: approvals_blind "stays_unapproved t i" for t i
  by unfold_locales (simp add: stays_same)

interpretation halted_reservations: reservations_blind "stays_unapproved t i" for t i
  by unfold_locales (simp add: stays_same)

interpretation halted_executions: executions_blind "stays_unapproved t i" for t i
  by unfold_locales (simp add: stays_same)

interpretation halted_outbox: outbox_blind "stays_unapproved t i" for t i
  by unfold_locales (simp add: stays_same)

lemma stays_update:
  assumes "\<And>r. own_intent t i (f r) = own_intent t i r"
    and "\<And>r. own_intent t i r \<Longrightarrow> p r \<Longrightarrow> pi_status r \<noteq> Approved \<Longrightarrow> pi_status (f r) \<noteq> Approved"
  shows "stays_unapproved t i w (update_intents p f w)"
proof -
  let ?g = "\<lambda>r. if p r then f r else r"
  have "unapproved t i (map ?g (w_intents w))" if "unapproved t i (w_intents w)"
    by (rule unapproved_map [OF that]) (use assms in auto)
  then show ?thesis by (simp add: stays_unapproved_def update_intents_def)
qed

section \<open>The repository and the operations\<close>

lemma stays_transition:
  assumes "to \<noteq> Approved \<or> (t', i') \<noteq> (t, i)"
  shows "evolves (stays_unapproved t i) (transitionPaymentIntent t' i' f to d)"
proof (rule evolvesI)
  fix w
  show "stays_unapproved t i w (snd (transitionPaymentIntent t' i' f to d w))"
    unfolding transitionPaymentIntent_def Let_def snd_conv
    by (rule stays_update) (use assms in \<open>auto simp: own_intent_def stamp_decision_def split: option.split\<close>)
qed

lemma stays_pause_agent: "evolves (stays_unapproved t i) (pauseApprovedPaymentIntentsByAgent t' agent)"
  by (rule evolvesI) (auto simp: pauseApprovedPaymentIntentsByAgent_def Let_def own_intent_def intro!: stays_update)

lemma stays_append:
  "evolves (stays_unapproved t i) (appendApprovalId t' i' a)"
  "evolves (stays_unapproved t i) (appendExecutionReceiptId t' i' a)"
  by (auto simp: appendApprovalId_def appendExecutionReceiptId_def own_intent_def intro!: evolvesI stays_update)

lemma stays_insert: "evolves (stays_unapproved t i) (insertPaymentIntent db r)"
proof (rule evolvesI)
  fix w
  show "stays_unapproved t i w (snd (insertPaymentIntent db r w))"
    by (auto simp: insertPaymentIntent_def Let_def stays_unapproved_def intro: unapproved_append split: option.split)
qed

lemmas stay_intros = halted.service_intros stays_append stays_insert
  halted_approvals.evolves_gate halted_approvals.evolves_sign
  halted_reservations.evolves_reserve halted_reservations.evolves_on_reservation
  halted_outbox.evolves_enqueue halted_executions.evolves_insertExecution
  halted_executions.evolves_receipt halted_executions.evolves_transitionExecution

lemma stays_create: "evolves (stays_unapproved t i) (create deps ctx input)"
proof -
  have "evolves (stays_unapproved t i) (create_fresh deps ctx input)"
    by (auto simp: create_fresh_def decide_and_store_def insert_or_existing_def announce_created_def Let_def
        assertSourceAccountExists_def resolveEffectiveConfidence_def assertObligationDirectionPayable_def
        decided_event_def intro!: stay_intros split: option.split sum.split)
  then show ?thesis
    by (auto simp: create_def assertExecutablePaymentIntentActionType_def intro!: stay_intros split: option.split)
qed

lemma stays_move_intent:
  "to \<noteq> Approved \<or> (cx_tenantId ctx, i') \<noteq> (t, i) \<Longrightarrow> evolves (stays_unapproved t i) (move_intent ctx i' f to stamp)"
  by (auto simp: move_intent_def intro!: stay_intros stays_transition split: option.split)

lemma stays_simple:
  "to \<noteq> Approved \<or> (cx_tenantId ctx, i') \<noteq> (t, i) \<Longrightarrow> evolves (stays_unapproved t i) (simple_move deps ctx i' f to act)"
  by (auto simp: simple_move_def intro!: stay_intros stays_transition split: option.split)

text \<open>What follows a lookup runs on the intent that was asked for.\<close>

lemma stays_looked_up:
  assumes "\<And>r. pi_id r = i' \<Longrightarrow> evolves (stays_unapproved t i) (f r)"
  shows "evolves (stays_unapproved t i) (sbind (requireIntent ctx i') f)"
proof (rule evolvesI)
  fix w
  show "stays_unapproved t i w (snd (sbind (requireIntent ctx i') f w))"
  proof (cases "find (own_intent (cx_tenantId ctx) i') (w_intents w)")
    case (Some r)
    then have "pi_id r = i'" by (auto simp: find_Some_iff own_intent_def)
    from evolves_world [OF assms [OF this]] Some show ?thesis by (simp add: sbind_def requireIntent_run)
  qed (simp add: sbind_def requireIntent_run stays_same)
qed

lemma stays_decide:
  "(cx_tenantId ctx, pi_id intent) \<noteq> (t, i) \<Longrightarrow> evolves (stays_unapproved t i) (decide_approval deps ctx intent actor)"
  by (auto simp: decide_approval_def record_approval_def Let_def
      intro!: stay_intros stays_move_intent split: option.split authorization.split)

lemma stays_approve:
  "(cx_tenantId ctx, i') \<noteq> (t, i) \<Longrightarrow> evolves (stays_unapproved t i) (approve deps ctx i' opts)"
  unfolding approve_def by (auto intro!: stays_looked_up stay_intros stays_decide)

lemma stays_reject: "evolves (stays_unapproved t i) (reject deps ctx i' reason)"
  by (auto simp: reject_def intro!: stay_intros stays_transition split: option.split)

lemma stays_cancel: "evolves (stays_unapproved t i) (cancel deps ctx i')"
  by (auto simp: cancel_def intro!: stay_intros stays_simple)

lemma stays_pause: "evolves (stays_unapproved t i) (pause deps ctx i')"
  by (auto simp: pause_def intro!: stay_intros stays_simple)

lemma stays_pauseByAgent: "evolves (stays_unapproved t i) (pauseByAgent deps ctx agent)"
  by (auto simp: pauseByAgent_def intro!: stay_intros stays_pause_agent)

lemma stays_resume: "(cx_tenantId ctx, i') \<noteq> (t, i) \<Longrightarrow> evolves (stays_unapproved t i) (resume deps ctx i')"
  by (auto simp: resume_def intro!: stay_intros stays_simple split: gate_result.split)

lemma stays_execute: "evolves (stays_unapproved t i) (execute deps ctx i')"
  by (auto simp: execute_def gate_refused_def execute_passed_def hand_off_def
      intro!: stay_intros stays_transition split: gate_result.split handoff.split option.split)

lemma stays_required: "to \<noteq> Approved \<Longrightarrow> evolves (stays_unapproved t i) (required_move t' i' f to)"
  by (auto simp: required_move_def intro!: stay_intros stays_transition split: option.split)

lemma stays_complete: "evolves (stays_unapproved t i) (completeExecution deps ctx args)"
  by (auto simp: completeExecution_def settle_tx_def Let_def
      intro!: stay_intros stays_required split: option.split)

lemma stays_fail: "evolves (stays_unapproved t i) (failExecution deps ctx i' r)"
  by (auto simp: failExecution_def intro!: stay_intros stays_required)

interpretation halted_cycles: worker_relation "stays_unapproved t i" "service_worker deps base" for t i deps base
  by unfold_locales (simp_all add: stays_same service_worker_def stays_complete stays_fail)

section \<open>Requests\<close>

text \<open>The two requests by which a person puts an intent back to approved.\<close>

fun reinstates :: "string \<Rightarrow> string \<Rightarrow> request \<Rightarrow> bool" where
  "reinstates t i (Req_approve ctx i' opts) = (cx_tenantId ctx = t \<and> i' = i)"
| "reinstates t i (Req_resume ctx i') = (cx_tenantId ctx = t \<and> i' = i)"
| "reinstates t i _ = False"

lemma serve_stays: "\<not> reinstates t i req \<Longrightarrow> stays_unapproved t i w (serve deps base req w)"
  by (cases req)
    (simp_all add: evolves_world stays_create stays_approve stays_reject stays_cancel stays_pause
      stays_pauseByAgent stays_resume stays_execute halted_cycles.evolves_cycle stays_same)

lemma serve_all_stays:
  "\<forall>req \<in> set reqs. \<not> reinstates t i req \<Longrightarrow> stays_unapproved t i w (serve_all deps base reqs w)"
  unfolding serve_all_def
proof (induction reqs arbitrary: w)
  case (Cons req reqs)
  then show ?case using serve_stays [of t i req w deps base] by (auto simp: stays_unapproved_def)
qed (simp add: stays_same)

section \<open>The claim\<close>

lemma pause_agent_status:
  assumes "pauseApprovedPaymentIntentsByAgent t agent w = (Inr ids, v)" "r \<in> set (w_intents v)"
    "pi_owner_id r = t" "pi_created_by_agent_id r = Some agent"
  shows "pi_status r \<noteq> Approved"
proof -
  let ?hit = "\<lambda>r. pi_owner_id r = t \<and> pi_created_by_agent_id r = Some agent \<and> pi_status r = Approved"
  have "w_intents v = map (\<lambda>r. if ?hit r then r\<lparr>pi_status := Paused, pi_updated_at := w_now w\<rparr> else r) (w_intents w)"
    using assms(1) by (auto simp: pauseApprovedPaymentIntentsByAgent_def Let_def update_intents_def)
  with assms(2) obtain q where "r = (if ?hit q then q\<lparr>pi_status := Paused, pi_updated_at := w_now w\<rparr> else q)"
    by (simp only: set_map) (erule imageE, blast)
  with assms(3,4) show ?thesis by (cases "?hit q") auto
qed

lemma execute_needs_approved:
  "find (own_intent (cx_tenantId ctx) i) (w_intents w) = Some r \<Longrightarrow> pi_status r \<noteq> Approved
     \<Longrightarrow> execute deps ctx i w = (Inl (Brain_error ''payment_intent_invalid_state'' None), w)"
  by (simp add: execute_def sbind_def requireIntent_run invalid_state_def sthrow_def)

text \<open>After the halt every intent of the agent that is stored is unapproved, so \<open>execute\<close> refuses it.\<close>

lemma unapproved_refused:
  assumes "unapproved (cx_tenantId caller) i (w_intents w)"
  shows "execute deps caller i w = (Inl (Brain_error ''payment_intent_invalid_state'' None), w)"
  using assms execute_needs_approved by (auto simp: unapproved_def)

lemma paused_unapproved:
  assumes "pauseByAgent deps ctx agent w = (Inr ids, v)"
    and "find (own_intent (cx_tenantId ctx) i) (w_intents v) = Some r" and "pi_created_by_agent_id r = Some agent"
  shows "unapproved (cx_tenantId ctx) i (w_intents v)"
proof -
  obtain ids' u where p: "in_tx (pauseApprovedPaymentIntentsByAgent (cx_tenantId ctx) agent) w = (Inr ids', u)"
    and e: "sthen (emit_event deps ctx ''agent'' (cx_actor ctx) ''agent.halted'' [(''agent_id'', JStr agent)]
              [(''paused_count'', json_nat (length ids')), (''paused_intent_ids'', JArr (map JStr ids'))] None)
       (sret ids') u = (Inr ids, v)"
    using sbind_InrD [OF assms(1) [unfolded pauseByAgent_def]] by blast
  have "same_money u v"
    by (rule evolvesD [OF money_same.evolves_sthen [OF money_same.evolves_event money_same.evolves_sret] e])
  then have v: "w_intents v = w_intents u" by (simp add: same_money_def)
  have "r \<in> set (w_intents v)" "own_intent (cx_tenantId ctx) i r"
    using assms(2) by (auto simp: find_Some_iff)
  then have "pi_status r \<noteq> Approved"
    using pause_agent_status [OF in_tx_InrD [OF p], of r] assms(3) v by (simp add: own_intent_def)
  with assms(2) show ?thesis by (simp add: unapproved_def)
qed

text \<open>C27 (safety). The kill switch holds until a person lifts it: take any intent that is stored when
  \<open>pauseByAgent\<close> returns and that the agent created, whatever its status. From then on, after any
  sequence of requests and worker cycles in which nobody approves or resumes that intent, \<open>execute\<close> on it
  throws \<open>payment_intent_invalid_state\<close> and changes nothing, whatever the policy, the gate's loaders or
  the caller in the tenant. (Intents created after the halt are outside the claim, and an intent
  handed to the outbox before the halt is still settled by the worker.)\<close>

theorem halted_agent_executes_nothing:
  assumes "pauseByAgent deps ctx agent w = (Inr ids, v)"
    and "find (own_intent (cx_tenantId ctx) i) (w_intents v) = Some r"
    and "pi_created_by_agent_id r = Some agent" and "cx_tenantId caller = cx_tenantId ctx"
    and "\<forall>req \<in> set reqs. \<not> reinstates (cx_tenantId ctx) i req"
  shows "let u = serve_all deps base reqs v in
    execute deps' caller i u = (Inl (Brain_error ''payment_intent_invalid_state'' None), u)"
proof -
  have "unapproved (cx_tenantId ctx) i (w_intents (serve_all deps base reqs v))"
    using paused_unapproved [OF assms(1-3)] serve_all_stays [OF assms(5), of v deps base]
    by (simp add: stays_unapproved_def)
  then show ?thesis using unapproved_refused assms(4) by (simp add: Let_def)
qed

lemma sample_paused:
  "fst (pauseByAgent (money_service accepting) money_ctx ''agent_1''
     (money_world (money_intent Approved ''ach_outbound'') [])) = Inr [''pi_1'']"
  by code_simp

theorem halted_agent_executes_nothing_witness:
  "\<exists>v. pauseByAgent (money_service accepting) money_ctx ''agent_1'' (money_world (money_intent Approved ''ach_outbound'') [])
         = (Inr [''pi_1''], v)
     \<and> (let u = serve_all (money_service accepting) (sample_worker accepting)
           [Req_execute money_ctx ''pi_1'', Req_resume money_ctx ''pi_2'', Req_tick 60, Req_cycle None None] v in
        execute (money_service accepting) money_ctx ''pi_1'' u
         = (Inl (Brain_error ''payment_intent_invalid_state'' None), u))"
proof -
  let ?w = "money_world (money_intent Approved ''ach_outbound'') []"
  obtain v where run: "pauseByAgent (money_service accepting) money_ctx ''agent_1'' ?w = (Inr [''pi_1''], v)"
    using sample_paused by (cases "pauseByAgent (money_service accepting) money_ctx ''agent_1'' ?w") auto
  have "(case find (own_intent ''t_1'' ''pi_1'') (w_intents (snd (pauseByAgent (money_service accepting) money_ctx ''agent_1'' ?w)))
     of None \<Rightarrow> None | Some r \<Rightarrow> pi_created_by_agent_id r) = Some ''agent_1''" by code_simp
  then obtain r where r: "find (own_intent (cx_tenantId money_ctx) ''pi_1'') (w_intents v) = Some r"
    "pi_created_by_agent_id r = Some ''agent_1''"
    using run by (auto simp: money_ctx_def split: option.splits)
  have reqs: "\<forall>req \<in> set [Req_execute money_ctx ''pi_1'', Req_resume money_ctx ''pi_2'', Req_tick 60, Req_cycle None None].
      \<not> reinstates (cx_tenantId money_ctx) ''pi_1'' req" by simp
  from halted_agent_executes_nothing [OF run r refl reqs] run show ?thesis by blast
qed

end
