(* ===== verification/Create_Facts.thy ===== *)
theory Create_Facts
  imports Kill_Switch
begin

text \<open>
  What \<open>create\<close> stores and when it stores nothing, and what a person's decision through \<open>approve\<close>
  needs and leaves.
\<close>

section \<open>create\<close>

text \<open>Steps that read only the loaders leave the world as it is.\<close>

definition untouched :: "world \<Rightarrow> world \<Rightarrow> bool" where
  "untouched w v \<longleftrightarrow> v = w"

lemma load_run: "load f ctx x w = (case f ctx w x of Inl e \<Rightarrow> (Inl (Thrown e), w) | Inr y \<Rightarrow> (Inr y, w))"
  by (simp add: load_def sbind_def sget_def slift_def sthrow_def sret_def split: sum.split)

lemma account_InrD:
  "assertSourceAccountExists deps ctx input w = (Inr u, v)
     \<Longrightarrow> v = w \<and> (\<exists>a. ps_resolveAccount deps ctx w (ci_source_account_id input) = Inr (Some a))"
  by (auto simp: assertSourceAccountExists_def sbind_def load_run sthrow_def sret_def split: sum.splits if_splits)

lemma confidence_InrD: "resolveEffectiveConfidence deps ctx input w = (Inr c, v) \<Longrightarrow> v = w"
  by (auto simp: resolveEffectiveConfidence_def sbind_def load_run sthrow_def sret_def split: option.splits sum.splits)

lemma direction_InrD:
  "assertObligationDirectionPayable deps ctx input w = (Inr u, v) \<Longrightarrow> v = w
     \<and> (\<forall>o1 f. ci_obligation_id input = Some o1 \<longrightarrow> ps_resolveObligationDirection deps = Some f
          \<longrightarrow> f ctx w o1 = Inr (Some ''payable''))"
  by (auto simp: assertObligationDirectionPayable_def sbind_def load_run sthrow_def sret_def
      split: option.splits sum.splits if_splits)

definition by_key :: "string \<Rightarrow> string \<Rightarrow> intent_row \<Rightarrow> bool" where
  "by_key t k r \<longleftrightarrow> pi_owner_id r = t \<and> pi_proposal_dedup_key r = Some k"

lemma find_key_run: "findPaymentIntentByDedupKey t k w = (Inr (find (by_key t k) (w_intents w)), w)"
  by (simp add: findPaymentIntentByDedupKey_def sget_def by_key_def [abs_def])

lemma insertPaymentIntent_InrD:
  assumes "insertPaymentIntent db r w = (Inr row, v)"
  shows "\<exists>amount. db_numeric db (pi_amount r) = Some amount
     \<and> row = r\<lparr>pi_amount := amount, pi_approval_ids := [], pi_execution_receipt_ids := [],
               pi_created_at := w_now w, pi_updated_at := w_now w\<rparr>
     \<and> v = w\<lparr>w_intents := w_intents w @ [row]\<rparr>
     \<and> (\<forall>k. pi_proposal_dedup_key r = Some k \<longrightarrow> find (by_key (pi_owner_id r) k) (w_intents w) = None)"
  using assms by (auto simp: insertPaymentIntent_def Let_def list_ex_iff find_None_iff by_key_def
      split: option.splits if_splits)

lemma inserted_cases:
  assumes "insert_or_existing deps ctx key row_of w = (Inr res, v)"
  shows "(\<exists>k row. res = Inl row \<and> key = Some k \<and> find (by_key (cx_tenantId ctx) k) (w_intents w) = Some row
            \<and> v = w)
       \<or> (\<exists>i row. res = Inr row
            \<and> insertPaymentIntent (ps_db deps) (row_of i) (w\<lparr>w_next := Suc (w_next w)\<rparr>) = (Inr row, v))"
proof -
  let ?i = "''pi_'' @ show_nat (w_next w)" and ?w = "w\<lparr>w_next := Suc (w_next w)\<rparr>"
  obtain ir u where ins: "insertPaymentIntent (ps_db deps) (row_of ?i) ?w = (ir, u)"
    by (cases "insertPaymentIntent (ps_db deps) (row_of ?i) ?w")
  have tx: "in_tx (sbind (fresh_id ''pi_'') (\<lambda>i. insertPaymentIntent (ps_db deps) (row_of i))) w
      = (case ir of Inl e \<Rightarrow> (Inl e, w) | Inr row \<Rightarrow> (Inr row, u))"
    using ins by (simp add: in_tx_def sbind_def fresh_id_def split: sum.split)
  show ?thesis
  proof (cases ir)
    case (Inr row)
    with assms tx ins show ?thesis
      by (auto simp: insert_or_existing_def scatch_def sbind_def [of "in_tx _"] sret_def)
  next
    case (Inl e)
    with assms tx show ?thesis
      by (auto simp: insert_or_existing_def scatch_def sbind_def [of "in_tx _"] sthrow_def sret_def
          in_tx_def [of "findPaymentIntentByDedupKey _ _"] find_key_run split: option.splits if_splits)
  qed
qed

text \<open>A new row that says what the policy decided on the intent as submitted.\<close>

definition stored_as_decided :: "service_deps \<Rightarrow> call_ctx \<Rightarrow> create_input \<Rightarrow> intent_row \<Rightarrow> world \<Rightarrow> world \<Rightarrow> bool" where
  "stored_as_decided deps ctx input row w v \<longleftrightarrow>
     w_intents v = w_intents w @ [row] \<and> pi_owner_id row = cx_tenantId ctx
     \<and> (\<forall>k. ci_proposal_dedup_key input = Some k \<longrightarrow> find (by_key (cx_tenantId ctx) k) (w_intents w) = None)
     \<and> pi_action_type row = ci_action_type input \<and> pi_proposal_dedup_key row = ci_proposal_dedup_key input
     \<and> db_numeric (ps_db deps) (ci_amount input) = Some (pi_amount row)
     \<and> (\<exists>account. ps_resolveAccount deps ctx w (ci_source_account_id input) = Inr (Some account))
     \<and> (\<forall>o1 f. ci_obligation_id input = Some o1 \<longrightarrow> ps_resolveObligationDirection deps = Some f
          \<longrightarrow> f ctx w o1 = Inr (Some ''payable''))
     \<and> (\<exists>c decision. ps_evaluatePolicy deps ctx w (create_stub ctx input c) = Inr decision
          \<and> pi_policy_decision_id row = Some (gd_id decision)
          \<and> (pi_status row = Rejected \<longleftrightarrow> gd_outcome decision = ''reject'')
          \<and> (pi_status row = Approved \<longleftrightarrow> gd_outcome decision = ''allow''
               \<and> \<not> requiresHardHumanApprovalFloor (create_stub ctx input c) decision
                     (ps_fiatHumanApprovalFloorEnabled deps))
          \<and> pi_status row \<in> {Rejected, Approved, Pending_approval})"

lemma stored_row:
  assumes "insertPaymentIntent (ps_db deps) (new_intent ctx input i c decision
             (initial_status deps (create_stub ctx input c) decision)) w1 = (Inr row, u)"
    "w_intents w1 = w_intents w" "w_intents v = w_intents u"
    "ps_resolveAccount deps ctx w (ci_source_account_id input) = Inr (Some account)"
    "\<forall>o1 f. ci_obligation_id input = Some o1 \<longrightarrow> ps_resolveObligationDirection deps = Some f
          \<longrightarrow> f ctx w o1 = Inr (Some ''payable'')"
    "ps_evaluatePolicy deps ctx w (create_stub ctx input c) = Inr decision"
  shows "stored_as_decided deps ctx input row w v"
proof -
  let ?r = "new_intent ctx input i c decision (initial_status deps (create_stub ctx input c) decision)"
  obtain amount where a: "db_numeric (ps_db deps) (pi_amount ?r) = Some amount"
    "row = ?r\<lparr>pi_amount := amount, pi_approval_ids := [], pi_execution_receipt_ids := [],
               pi_created_at := w_now w1, pi_updated_at := w_now w1\<rparr>"
    "u = w1\<lparr>w_intents := w_intents w1 @ [row]\<rparr>"
    "\<forall>k. pi_proposal_dedup_key ?r = Some k \<longrightarrow> find (by_key (pi_owner_id ?r) k) (w_intents w1) = None"
    using insertPaymentIntent_InrD [OF assms(1)] by blast
  have new: "\<forall>k. ci_proposal_dedup_key input = Some k \<longrightarrow> find (by_key (cx_tenantId ctx) k) (w_intents w) = None"
    using a(4) by (simp add: new_intent_def assms(2))
  have v: "w_intents v = w_intents w @ [row]" by (simp add: assms(2,3) a(3))
  have status: "pi_status row = initial_status deps (create_stub ctx input c) decision"
    "pi_policy_decision_id row = Some (gd_id decision)" "pi_owner_id row = cx_tenantId ctx"
    "pi_action_type row = ci_action_type input" "pi_proposal_dedup_key row = ci_proposal_dedup_key input"
    "db_numeric (ps_db deps) (ci_amount input) = Some (pi_amount row)"
    using a(1) by (simp_all add: a(2) new_intent_def)
  show ?thesis
    unfolding stored_as_decided_def using v new status assms(4-6)
    by (auto simp: initial_status_def intro!: exI [of _ c] exI [of _ decision])
qed

lemma decide_and_store_outcome:
  assumes run: "decide_and_store deps ctx input c w = (Inr row, v)"
    and acc: "ps_resolveAccount deps ctx w (ci_source_account_id input) = Inr (Some account)"
    and payable: "\<forall>o1 f. ci_obligation_id input = Some o1 \<longrightarrow> ps_resolveObligationDirection deps = Some f
          \<longrightarrow> f ctx w o1 = Inr (Some ''payable'')"
  shows "(\<exists>k. ci_proposal_dedup_key input = Some k \<and> find (by_key (cx_tenantId ctx) k) (w_intents w) = Some row \<and> v = w)
    \<or> stored_as_decided deps ctx input row w v"
proof -
  let ?stub = "create_stub ctx input c"
  from run [unfolded decide_and_store_def Let_def] obtain decision where
    d: "ps_evaluatePolicy deps ctx w ?stub = Inr decision" and
    r: "sbind (insert_or_existing deps ctx (ci_proposal_dedup_key input)
              (\<lambda>i. new_intent ctx input i c decision (initial_status deps ?stub decision))) (\<lambda>inserted.
     case inserted of Inl existing \<Rightarrow> sret existing
     | Inr row \<Rightarrow> announce_created deps ctx input decision (initial_status deps ?stub decision) row) w = (Inr row, v)"
    by (auto simp: load_run sbind_def [of "load _ _ _"] split: sum.splits)
  from sbind_InrD [OF r] obtain res u where
    ins: "insert_or_existing deps ctx (ci_proposal_dedup_key input)
              (\<lambda>i. new_intent ctx input i c decision (initial_status deps ?stub decision)) w = (Inr res, u)" and
    k: "(case res of Inl existing \<Rightarrow> sret existing
     | Inr row \<Rightarrow> announce_created deps ctx input decision (initial_status deps ?stub decision) row) u = (Inr row, v)"
    by blast
  from inserted_cases [OF ins] show ?thesis
  proof (elim disjE exE conjE)
    fix q x assume "res = Inl x" "ci_proposal_dedup_key input = Some q"
      "find (by_key (cx_tenantId ctx) q) (w_intents w) = Some x" "u = w"
    with k show ?thesis by (simp add: sret_def)
  next
    fix i x assume x: "res = Inr x" "insertPaymentIntent (ps_db deps)
        (new_intent ctx input i c decision (initial_status deps ?stub decision)) (w\<lparr>w_next := Suc (w_next w)\<rparr>) = (Inr x, u)"
    have "evolves same_money (announce_created deps ctx input decision (initial_status deps ?stub decision) x)"
      unfolding announce_created_def decided_event_def by (intro money_same.service_intros)
    with k x(1) have "w_intents v = w_intents u" by (auto dest: evolvesD simp: same_money_def)
    moreover have "x = row"
      using k x(1) by (auto simp: announce_created_def sret_def dest!: sthen_InrD)
    ultimately show ?thesis using stored_row [OF x(2) _ _ acc payable d] by auto
  qed
qed

lemma create_fresh_outcome:
  assumes "create_fresh deps ctx input w = (Inr row, v)"
  shows "(\<exists>k. ci_proposal_dedup_key input = Some k \<and> find (by_key (cx_tenantId ctx) k) (w_intents w) = Some row \<and> v = w)
    \<or> stored_as_decided deps ctx input row w v"
proof -
  from sthen_InrD [OF assms [unfolded create_fresh_def]] obtain u1 w1 where
    a: "assertSourceAccountExists deps ctx input w = (Inr u1, w1)" and
    r1: "sbind (resolveEffectiveConfidence deps ctx input) (\<lambda>effectiveConfidence.
     sthen (assertObligationDirectionPayable deps ctx input)
       (decide_and_store deps ctx input (or_else effectiveConfidence 0))) w1 = (Inr row, v)" by blast
  from sbind_InrD [OF r1] obtain c w2 where
    c: "resolveEffectiveConfidence deps ctx input w1 = (Inr c, w2)" and
    r2: "sthen (assertObligationDirectionPayable deps ctx input)
       (decide_and_store deps ctx input (or_else c 0)) w2 = (Inr row, v)" by blast
  from sthen_InrD [OF r2] obtain u3 w3 where
    d: "assertObligationDirectionPayable deps ctx input w2 = (Inr u3, w3)" and
    r3: "decide_and_store deps ctx input (or_else c 0) w3 = (Inr row, v)" by blast
  from account_InrD [OF a] confidence_InrD [OF c] direction_InrD [OF d] obtain account where
    w: "w3 = w" and acc: "ps_resolveAccount deps ctx w (ci_source_account_id input) = Inr (Some account)" and
    payable: "\<forall>o1 f. ci_obligation_id input = Some o1 \<longrightarrow> ps_resolveObligationDirection deps = Some f
          \<longrightarrow> f ctx w o1 = Inr (Some ''payable'')" by auto
  from decide_and_store_outcome [OF r3 [unfolded w] acc payable] show ?thesis .
qed

lemma create_stores_what_policy_decided_lemma:
  assumes "create deps ctx input w = (Inr row, v)"
  shows "isExecutablePaymentIntentActionType (Some (ci_action_type input))
    \<and> is_decimal (ci_amount input) \<and> ci_amount input \<noteq> ''0''
    \<and> ((\<exists>k. ci_proposal_dedup_key input = Some k
            \<and> find (by_key (cx_tenantId ctx) k) (w_intents w) = Some row \<and> v = w)
        \<or> stored_as_decided deps ctx input row w v)"
proof -
  from sthen_InrD [OF assms [unfolded create_def]] obtain u w1 where
    x: "assertExecutablePaymentIntentActionType (ci_action_type input) w = (Inr u, w1)" and
    r: "(if \<not> is_decimal (ci_amount input) \<or> ci_amount input = ''0''
     then sthrow (Brain_error ''request_body_invalid'' None)
     else case ci_proposal_dedup_key input of
       None \<Rightarrow> create_fresh deps ctx input
     | Some k \<Rightarrow>
         sbind (in_tx (findPaymentIntentByDedupKey (cx_tenantId ctx) k)) (\<lambda>existing.
         case existing of Some row \<Rightarrow> sret row | None \<Rightarrow> create_fresh deps ctx input)) w1 = (Inr row, v)" by blast
  from x have exec: "isExecutablePaymentIntentActionType (Some (ci_action_type input))" and w1: "w1 = w"
    by (auto simp: assertExecutablePaymentIntentActionType_def sthrow_def sret_def split: if_splits)
  from r have amount: "is_decimal (ci_amount input)" "ci_amount input \<noteq> ''0''"
    by (auto simp: sthrow_def split: if_splits)
  show ?thesis
  proof (cases "\<exists>k. ci_proposal_dedup_key input = Some k \<and> find (by_key (cx_tenantId ctx) k) (w_intents w) \<noteq> None")
    case True
    with r amount exec w1 show ?thesis
      by (auto simp: sbind_def in_tx_def find_key_run sret_def)
  next
    case False
    with r amount w1 have "create_fresh deps ctx input w = (Inr row, v)"
      by (auto simp: sbind_def in_tx_def find_key_run split: option.splits)
    from create_fresh_outcome [OF this] exec amount show ?thesis by blast
  qed
qed

text \<open>C14 (functional). What \<open>create\<close> returns is in the store: for an executable action and a decimal
amount other than the literal 0 it either finds the intent already stored under its dedup key, and
changes nothing, or it appends exactly one intent of the caller's tenant, on an existing account and a
payable obligation, whose status says what the policy decided: rejected on a reject, approved on an
allow only when the hard human-approval floor does not apply, pending approval otherwise.\<close>

theorem create_stores_what_policy_decided:
  assumes "create deps ctx input w = (Inr row, v)"
  shows "isExecutablePaymentIntentActionType (Some (ci_action_type input))
    \<and> is_decimal (ci_amount input) \<and> ci_amount input \<noteq> ''0''
    \<and> ((\<exists>k. ci_proposal_dedup_key input = Some k
            \<and> find (by_key (cx_tenantId ctx) k) (w_intents w) = Some row \<and> v = w)
        \<or> stored_as_decided deps ctx input row w v)"
  by (rule create_stores_what_policy_decided_lemma [OF assms])

lemma find_last: "find p xs = None \<Longrightarrow> p x \<Longrightarrow> find p (xs @ [x]) = Some x"
  by (induction xs) (auto split: if_splits)

definition sample_create :: create_input where
  "sample_create =
     \<lparr>ci_action_type = ''ach_outbound'', ci_source_account_id = ''acc_1'',
      ci_destination_counterparty_id = ''cp_1'', ci_amount = ''100'', ci_currency = ''USD'',
      ci_obligation_id = None, ci_invoice_id = None, ci_agent_id = None, ci_evidence_ids = None,
      ci_confidence = None, ci_evidence_score = None, ci_risk_level = None, ci_pay_to = None,
      ci_escrow_id = None, ci_job_terms_hash = None, ci_proposal_dedup_key = Some ''key_2''\<rparr>"

abbreviation sample_creation :: "(svc_error + intent_row) \<times> world" where
  "sample_creation \<equiv> create (money_service accepting) money_ctx sample_create
     (money_world (money_intent Approved ''ach_outbound'') [])"

lemma sample_created:
  "(case fst sample_creation of Inl e \<Rightarrow> None | Inr row \<Rightarrow> Some (pi_id row, pi_status row))
     = Some (''pi_7'', Approved)"
  by code_simp

lemma sample_create_run: "\<exists>row v. sample_creation = (Inr row, v) \<and> pi_id row = ''pi_7'' \<and> pi_status row = Approved"
  using sample_created by (cases sample_creation) (auto split: sum.splits)

theorem create_stores_what_policy_decided_witness:
  "\<exists>row v. sample_creation = (Inr row, v)
     \<and> stored_as_decided (money_service accepting) money_ctx sample_create row
          (money_world (money_intent Approved ''ach_outbound'') []) v"
proof -
  obtain row v where run: "sample_creation = (Inr row, v)" "pi_id row = ''pi_7''" using sample_create_run by blast
  have "find (by_key (cx_tenantId money_ctx) ''key_2'')
      (w_intents (money_world (money_intent Approved ''ach_outbound'') [])) = None"
    by (simp add: money_world_def money_intent_def by_key_def)
  with create_stores_what_policy_decided [OF run(1)] run(1) show ?thesis by (auto simp: sample_create_def)
qed

text \<open>A lookup by key survives whatever the requests make of the stored intents.\<close>

lemma key_followed:
  "list_all2 intent_follows rows old \<Longrightarrow> find (by_key t k) rows = Some r \<Longrightarrow>
     \<exists>s. find (by_key t k) (old @ new) = Some s \<and> intent_follows r s"
proof (induction rule: list_all2_induct)
  case (Cons x xs y ys)
  then have "by_key t k y = by_key t k x" by (simp add: intent_follows_def same_terms_def by_key_def)
  with Cons show ?case by (auto split: if_splits)
qed simp

lemma create_returns_stored:
  assumes "find (by_key (cx_tenantId ctx) k) (w_intents w) = Some row" "ci_proposal_dedup_key input = Some k"
    and "isExecutablePaymentIntentActionType (Some (ci_action_type input))"
    and "is_decimal (ci_amount input)" and "ci_amount input \<noteq> ''0''"
  shows "create deps ctx input w = (Inr row, w)"
  using assms by (simp add: create_def sthen_def sbind_def in_tx_def find_key_run
      assertExecutablePaymentIntentActionType_def sret_def)

text \<open>C29 (functional). \<open>create\<close> is idempotent on its dedup key, however much later it is called again: after a
call has returned an intent and any sequence of requests, worker cycles and clock ticks has been
served, a call of the tenant under the same key (with any valid body, from any caller, whatever the
policy says by then) returns that same intent, with the same id and terms and at a status its
guarded transitions lead to, and changes nothing at all.\<close>

theorem create_idempotent:
  assumes "create deps ctx input w = (Inr row, v)" and "ci_proposal_dedup_key input = Some k"
    and "u = serve_all deps' base reqs v"
    and "cx_tenantId ctx' = cx_tenantId ctx" and "ci_proposal_dedup_key input' = Some k"
    and "isExecutablePaymentIntentActionType (Some (ci_action_type input'))"
    and "is_decimal (ci_amount input')" and "ci_amount input' \<noteq> ''0''"
  shows "\<exists>row'. create deps'' ctx' input' u = (Inr row', u) \<and> same_terms row row'
    \<and> moves (pi_status row) (pi_status row')"
proof -
  have first: "find (by_key (cx_tenantId ctx) k) (w_intents v) = Some row"
    using create_stores_what_policy_decided_lemma [OF assms(1)] assms(2)
    by (auto simp: stored_as_decided_def intro!: find_last) (simp_all add: by_key_def)
  have "intent_moves v u" unfolding assms(3) by (rule intents_move.serve_all_R [OF serve_moves])
  then obtain old new where "w_intents u = old @ new" "list_all2 intent_follows (w_intents v) old"
    by (auto simp: intent_moves_def)
  with key_followed [OF _ first] obtain row' where
    "find (by_key (cx_tenantId ctx') k) (w_intents u) = Some row'" "intent_follows row row'"
    using assms(4) by metis
  with create_returns_stored [OF _ assms(5-8)] show ?thesis by (auto simp: intent_follows_def)
qed

theorem create_idempotent_witness:
  "\<exists>row v. sample_creation = (Inr row, v) \<and>
     (let u = serve_all (money_service accepting) (sample_worker accepting)
         [Req_tick 60, Req_execute money_ctx ''pi_7'', Req_cycle None None] v in
      \<exists>row'. create (money_service accepting) money_ctx (sample_create\<lparr>ci_amount := ''250''\<rparr>) u = (Inr row', u)
        \<and> pi_id row' = ''pi_7'')"
proof -
  obtain row v where run: "sample_creation = (Inr row, v)" "pi_id row = ''pi_7''" using sample_create_run by blast
  let ?u = "serve_all (money_service accepting) (sample_worker accepting)
      [Req_tick 60, Req_execute money_ctx ''pi_7'', Req_cycle None None] v"
  have "\<exists>row'. create (money_service accepting) money_ctx (sample_create\<lparr>ci_amount := ''250''\<rparr>) ?u = (Inr row', ?u)
      \<and> same_terms row row' \<and> moves (pi_status row) (pi_status row')"
    by (rule create_idempotent [OF run(1) _ refl, where k = "''key_2''"])
      (simp_all add: sample_create_def isExecutablePaymentIntentActionType_def
        EXECUTABLE_PAYMENT_INTENT_ACTION_TYPES_def money_amounts)
  with run show ?thesis by (auto simp: Let_def same_terms_def)
qed

end
