(* ===== verification/Audit_Hash.thy ===== *)
theory Audit_Hash
  imports Json_Text Decimal_Order
begin

text \<open>
  The canonical form of an audit event and its hash (shared/src/audit/hash.ts, types.ts). SHA-256 is
  the argument \<open>hs_sha256_hex\<close> and the text of a number \<open>hs_number\<close>. The main result says when two
  events have the same canonical text, which is what the chain, the idempotency check and the
  consistency verifier compare.
\<close>

section \<open>Events (types.ts)\<close>

text \<open>
  A JavaScript value as an emitter passes it: an object field may hold \<open>undefined\<close>. Functions,
  symbols and big integers, which the code turns into their string form, are left out.
\<close>

datatype jsv =
    VUndefined
  | VNull
  | VBool bool
  | VNum rat
  | VStr string
  | VArr "jsv list"
  | VObj "(string \<times> jsv) list"

type_synonym js_object = "(string \<times> jsv) list"

datatype event_type = System_activity | Assistant_activity | Flagged

datatype severity = Info | Warning | Critical

record event_input =
  ae_tenantId :: string
  ae_layer :: string
  ae_eventType :: "event_type option"
  ae_severity :: "severity option"
  ae_actor :: string
  ae_actorDisplayName :: "string option"
  ae_actorEmail :: "string option"
  ae_action :: string
  ae_inputs :: js_object
  ae_outputs :: js_object
  ae_policyVersion :: "rat option"
  ae_policyDecisionId :: "string option"
  ae_policyCheckId :: "string option"
  ae_outcome :: "string option"
  ae_beforeState :: "js_object option"
  ae_afterState :: "js_object option"
  ae_idempotencyKey :: "string option"
  ae_correlationId :: "string option"
  ae_keyId :: "string option"

definition normalizeAuditEventType :: "event_type option \<Rightarrow> event_type" where
  "normalizeAuditEventType t = or_else t System_activity"

definition normalizeAuditSeverity :: "event_type option \<Rightarrow> severity option \<Rightarrow> severity" where
  "normalizeAuditSeverity t s =
     (case s of Some x \<Rightarrow> x
      | None \<Rightarrow> if normalizeAuditEventType t = Flagged then Warning else Info)"

definition normalizeAuditEventInput :: "event_input \<Rightarrow> event_input" where
  "normalizeAuditEventInput e =
     (let eventType = normalizeAuditEventType (ae_eventType e)
      in e\<lparr>ae_eventType := Some eventType,
           ae_severity := Some (normalizeAuditSeverity (Some eventType) (ae_severity e))\<rparr>)"

section \<open>Stable serialization (hash.ts)\<close>

fun stableJsonValue :: "jsv \<Rightarrow> json" where
  "stableJsonValue VUndefined = JNull"
| "stableJsonValue VNull = JNull"
| "stableJsonValue (VBool b) = JBool b"
| "stableJsonValue (VNum n) = JNum n"
| "stableJsonValue (VStr s) = JStr s"
| "stableJsonValue (VArr vs) = JArr (map stableJsonValue vs)"
| "stableJsonValue (VObj kvs) = JObj (sort_keys (map (\<lambda>(k, v). (k, stableJsonValue v)) kvs))"

fun stableStringify :: "(rat \<Rightarrow> string) \<Rightarrow> json \<Rightarrow> string" where
  "stableStringify number JNull = ''null''"
| "stableStringify number (JNum n) = number n"
| "stableStringify number (JBool b) = (if b then ''true'' else ''false'')"
| "stableStringify number (JStr s) = json_quote s"
| "stableStringify number (JArr vs) =
     ''['' @ js_join '','' (map (stableStringify number) vs) @ '']''"
| "stableStringify number (JObj kvs) =
     [CHR 0x7B] @ js_join '',''
       (map (\<lambda>(k, t). json_quote k @ '':'' @ t)
         (sort_keys (map (\<lambda>(k, v). (k, stableStringify number v)) kvs))) @ [CHR 0x7D]"

record hash_input =
  hi_event :: event_input
  hi_id :: string
  hi_createdAt :: string
  hi_prevEventHash :: "string option"

record hash_env =
  hs_number :: "rat \<Rightarrow> string"
  hs_sha256_hex :: "string \<Rightarrow> string"

definition AUDIT_HASH_SCHEMA_VERSION :: nat where "AUDIT_HASH_SCHEMA_VERSION = 4"

fun event_type_name :: "event_type \<Rightarrow> string" where
  "event_type_name System_activity = ''system_activity''"
| "event_type_name Assistant_activity = ''assistant_activity''"
| "event_type_name Flagged = ''flagged''"

fun severity_name :: "severity \<Rightarrow> string" where
  "severity_name Info = ''info''"
| "severity_name Warning = ''warning''"
| "severity_name Critical = ''critical''"

definition json_num_opt :: "rat option \<Rightarrow> json" where
  "json_num_opt x = (case x of None \<Rightarrow> JNull | Some n \<Rightarrow> JNum n)"

definition stable_opt :: "js_object option \<Rightarrow> json" where
  "stable_opt x = (case x of None \<Rightarrow> JNull | Some kvs \<Rightarrow> stableJsonValue (VObj kvs))"

definition event_payload :: "hash_input \<Rightarrow> json" where
  "event_payload i =
     (let e = hi_event i in JObj
       [ (''id'', JStr (hi_id i)),
         (''tenant_id'', JStr (ae_tenantId e)),
         (''layer'', JStr (ae_layer e)),
         (''event_type'', JStr (event_type_name (normalizeAuditEventType (ae_eventType e)))),
         (''severity'', JStr (severity_name (normalizeAuditSeverity (ae_eventType e) (ae_severity e)))),
         (''actor'', JStr (ae_actor e)),
         (''actor_display_name'', json_opt (ae_actorDisplayName e)),
         (''actor_email'', json_opt (ae_actorEmail e)),
         (''action'', JStr (ae_action e)),
         (''inputs'', stableJsonValue (VObj (ae_inputs e))),
         (''outputs'', stableJsonValue (VObj (ae_outputs e))),
         (''policy_version'', json_num_opt (ae_policyVersion e)),
         (''policy_decision_id'', json_opt (ae_policyDecisionId e)),
         (''policy_check_id'', json_opt (ae_policyCheckId e)),
         (''outcome'', json_opt (ae_outcome e)),
         (''before_state'', stable_opt (ae_beforeState e)),
         (''after_state'', stable_opt (ae_afterState e)),
         (''key_id'', json_opt (ae_keyId e)),
         (''created_at'', JStr (hi_createdAt i)),
         (''prev_event_hash'', json_opt (hi_prevEventHash i)) ])"

definition canonicalize_event :: "hash_env \<Rightarrow> hash_input \<Rightarrow> string" where
  "canonicalize_event hs i = stableStringify (hs_number hs) (event_payload i)"

definition hashEvent :: "hash_env \<Rightarrow> hash_input \<Rightarrow> string" where
  "hashEvent hs i = hs_sha256_hex hs (canonicalize_event hs i)"

definition canonicalJsonSha256 :: "hash_env \<Rightarrow> jsv \<Rightarrow> string" where
  "canonicalJsonSha256 hs v = hs_sha256_hex hs (stableStringify (hs_number hs) (stableJsonValue v))"

definition v_opt :: "string option \<Rightarrow> jsv" where
  "v_opt x = (case x of None \<Rightarrow> VNull | Some s \<Rightarrow> VStr s)"

definition logicalPayloadFingerprint :: "hash_env \<Rightarrow> event_input \<Rightarrow> string" where
  "logicalPayloadFingerprint hs e = stableStringify (hs_number hs) (stableJsonValue (VObj
       [ (''tenant_id'', VStr (ae_tenantId e)),
         (''layer'', VStr (ae_layer e)),
         (''event_type'', VStr (event_type_name (normalizeAuditEventType (ae_eventType e)))),
         (''severity'', VStr (severity_name (normalizeAuditSeverity (ae_eventType e) (ae_severity e)))),
         (''actor'', VStr (ae_actor e)),
         (''actor_display_name'', v_opt (ae_actorDisplayName e)),
         (''actor_email'', v_opt (ae_actorEmail e)),
         (''action'', VStr (ae_action e)),
         (''inputs'', VObj (ae_inputs e)),
         (''outputs'', VObj (ae_outputs e)),
         (''policy_version'', (case ae_policyVersion e of None \<Rightarrow> VNull | Some n \<Rightarrow> VNum n)),
         (''policy_decision_id'', v_opt (ae_policyDecisionId e)),
         (''policy_check_id'', v_opt (ae_policyCheckId e)),
         (''outcome'', v_opt (ae_outcome e)),
         (''before_state'', (case ae_beforeState e of None \<Rightarrow> VNull | Some kvs \<Rightarrow> VObj kvs)),
         (''after_state'', (case ae_afterState e of None \<Rightarrow> VNull | Some kvs \<Rightarrow> VObj kvs)),
         (''key_id'', v_opt (ae_keyId e)) ]))"

section \<open>The serializers agree\<close>

text \<open>The printer of the chain and the printer of the ledger snapshot are the same function.\<close>

lemma stableStringify_canonicalize: "stableStringify number v = canonicalize number v"
proof (induction number v rule: stableStringify.induct)
  case (6 number kvs)
  then have entries: "map (\<lambda>(k, v). (k, stableStringify number v)) kvs
      = map (\<lambda>(k, v). (k, canonicalize number v)) kvs"
    by (intro map_cong) auto
  show ?case unfolding stableStringify.simps canonicalize.simps entries ..
qed (auto simp: comp_def cong: map_cong)

lemma stableStringify_inject:
  "number_text sn \<Longrightarrow> stableStringify sn v = stableStringify sn w \<longleftrightarrow> jsort v = jsort w"
  by (simp add: stableStringify_canonicalize canonicalize_inject)

section \<open>Sorted values\<close>

abbreviation keys_ordered :: "(string \<times> 'a) list \<Rightarrow> bool" where
  "keys_ordered \<equiv> sorted_wrt (\<lambda>x y. \<not> str_lt (fst y) (fst x))"

lemma str_lt_asym: "str_lt a b \<Longrightarrow> \<not> str_lt b a"
  using str_lt_trans [of a b a] by auto

lemma not_str_lt_trans: "\<not> str_lt b a \<Longrightarrow> \<not> str_lt c b \<Longrightarrow> \<not> str_lt c a"
  using str_lt_linear [of b c] str_lt_trans [of b c a] by auto

lemma insert_key_ordered: "keys_ordered xs \<Longrightarrow> keys_ordered (insert_key x xs)"
proof (induction xs)
  case (Cons y ys)
  show ?case
  proof (cases "str_lt (fst y) (fst x)")
    case True
    with Cons show ?thesis by (auto simp: str_lt_asym)
  next
    case False
    then have "\<not> str_lt (fst z) (fst x)" if "z \<in> set (y # ys)" for z
      using Cons.prems that not_str_lt_trans [of "fst y" "fst x" "fst z"] by auto
    with Cons.prems False show ?thesis by simp
  qed
qed simp

lemma sort_keys_ordered: "keys_ordered (sort_keys xs)"
  by (induction xs) (auto simp: sort_keys_def insert_key_ordered)

lemma sort_keys_of_ordered: "keys_ordered xs \<Longrightarrow> sort_keys xs = xs"
proof (induction xs)
  case (Cons x xs)
  then have "sort_keys xs = xs" by simp
  moreover have "insert_key x xs = x # xs" using Cons.prems by (cases xs) auto
  ultimately show ?case by (simp add: sort_keys_def)
qed (simp add: sort_keys_def)

lemma sort_keys_idem [simp]: "sort_keys (sort_keys xs) = sort_keys xs"
  by (rule sort_keys_of_ordered [OF sort_keys_ordered])

text \<open>Lists with the same distinct keys are equal when their sorted forms are.\<close>

lemma entries_of_map: "distinct (map fst xs) \<Longrightarrow> map (\<lambda>k. (k, the (map_of xs k))) (map fst xs) = xs"
proof (induction xs)
  case (Cons x xs)
  have "map (\<lambda>k. (k, the (map_of (x # xs) k))) (map fst xs) = map (\<lambda>k. (k, the (map_of xs k))) (map fst xs)"
    using Cons.prems by (intro map_cong) (auto simp: image_iff)
  with Cons show ?case by simp
qed simp

lemma sort_keys_same_keys:
  assumes "map fst xs = map fst ys" "distinct (map fst xs)"
  shows "sort_keys xs = sort_keys ys \<longleftrightarrow> xs = ys"
proof
  assume "sort_keys xs = sort_keys ys"
  then have "set xs = set ys" by (metis set_sort_keys)
  then have "map_of xs = map_of ys" using assms by (simp add: map_of_inject_set)
  then show "xs = ys" using entries_of_map [of xs] entries_of_map [of ys] assms by simp
qed simp

lemma jsort_stable [simp]: "jsort (stableJsonValue v) = stableJsonValue v"
proof (induction v)
  case (VObj kvs)
  then have entries: "map (\<lambda>(k, v). (k, jsort v)) (sort_keys (map (\<lambda>(k, v). (k, stableJsonValue v)) kvs))
      = sort_keys (map (\<lambda>(k, v). (k, stableJsonValue v)) kvs)"
    by (intro map_idI) auto
  show ?case by (simp add: entries)
qed (auto intro!: map_cong)

section \<open>What the canonical text says\<close>

text \<open>
  What it means that two events have the same content, without reference to how the code prints them.
\<close>

text \<open>
  Two JavaScript values are the same JSON value: equal primitives, \<open>undefined\<close> as \<open>null\<close>, arrays
  element by element, objects key by key. \<open>values_at k\<close> lists the value under the key (an object has at
  most one). The relation does not mention the serializer.
\<close>

definition values_at :: "string \<Rightarrow> (string \<times> 'a) list \<Rightarrow> 'a list" where
  "values_at k kvs = map snd (filter (\<lambda>kv. fst kv = k) kvs)"

inductive same_value :: "jsv \<Rightarrow> jsv \<Rightarrow> bool" where
  null: "v \<in> {VUndefined, VNull} \<Longrightarrow> w \<in> {VUndefined, VNull} \<Longrightarrow> same_value v w"
| bool: "same_value (VBool b) (VBool b)"
| num: "same_value (VNum n) (VNum n)"
| str: "same_value (VStr s) (VStr s)"
| arr: "list_all2 same_value vs ws \<Longrightarrow> same_value (VArr vs) (VArr ws)"
| obj: "(\<And>k. list_all2 same_value (values_at k xs) (values_at k ys)) \<Longrightarrow> same_value (VObj xs) (VObj ys)"

inductive_simps same_value_simps:
  "same_value VUndefined w" "same_value VNull w" "same_value (VBool b) w" "same_value (VNum n) w"
  "same_value (VStr s) w" "same_value (VArr vs) w" "same_value (VObj xs) w"

definition same_object :: "js_object \<Rightarrow> js_object \<Rightarrow> bool" where
  "same_object x y \<longleftrightarrow> same_value (VObj x) (VObj y)"

text \<open>Sorting by key keeps what is under each key, and an ordered list is determined by that.\<close>

lemma values_at_simps [simp]:
  "values_at k [] = []" "values_at k (x # xs) = (if fst x = k then [snd x] else []) @ values_at k xs"
  by (simp_all add: values_at_def)

lemma values_at_insert_key: "values_at k (insert_key x xs) = values_at k (x # xs)"
  by (induction xs) auto

lemma values_at_sort_keys [simp]: "values_at k (sort_keys xs) = values_at k xs"
  by (induction xs) (simp_all add: sort_keys_def values_at_insert_key)

lemma values_at_map [simp]: "values_at k (map (\<lambda>(k, v). (k, f v)) xs) = map f (values_at k xs)"
  by (induction xs) auto

lemma values_at_mem: "v \<in> set (values_at k xs) \<longleftrightarrow> (k, v) \<in> set xs"
  by (auto simp: values_at_def image_iff)

lemma ordered_hd_le:
  assumes "keys_ordered (x # xs)" "values_at k (x # xs) \<noteq> []"
  shows "\<not> str_lt k (fst x)"
proof -
  from assms(2) obtain v where "(k, v) \<in> set (x # xs)" using values_at_mem [of _ k "x # xs"] by (metis last_in_set)
  with assms(1) show ?thesis by auto
qed

lemma ordered_by_values:
  "keys_ordered xs \<Longrightarrow> keys_ordered ys \<Longrightarrow> (\<And>k. values_at k xs = values_at k ys) \<Longrightarrow> xs = ys"
proof (induction xs arbitrary: ys)
  case Nil
  then show ?case using Nil.prems(3) [of "fst (hd ys)"] by (cases ys) auto
next
  case (Cons x xs)
  obtain y ys' where ys: "ys = y # ys'"
    using Cons.prems(3) [of "fst x"] by (cases ys) auto
  have "values_at (fst x) ys \<noteq> []" "values_at (fst y) (x # xs) \<noteq> []"
    using Cons.prems(3) [of "fst x", symmetric] Cons.prems(3) [of "fst y"] ys by simp_all
  then have "\<not> str_lt (fst x) (fst y)" "\<not> str_lt (fst y) (fst x)"
    using ordered_hd_le Cons.prems(1,2) ys by blast+
  then have key: "fst x = fst y" using str_lt_linear by blast
  then have "snd x = snd y" using Cons.prems(3) [of "fst x"] ys by simp
  with key have x: "x = y" by (simp add: prod_eq_iff)
  moreover have "xs = ys'"
  proof (rule Cons.IH)
    show "values_at k xs = values_at k ys'" for k using Cons.prems(3) [of k] ys x by (simp split: if_splits)
  qed (use Cons.prems ys in simp_all)
  ultimately show ?case using ys by simp
qed

lemma sort_keys_values: "sort_keys xs = sort_keys ys \<longleftrightarrow> (\<forall>k. values_at k xs = values_at k ys)"
  by (metis ordered_by_values sort_keys_ordered values_at_sort_keys)

lemma stable_iff_same: "same_value v w \<longleftrightarrow> stableJsonValue v = stableJsonValue w"
proof (induction v arbitrary: w)
  case (VArr vs)
  have "list_all2 same_value vs ws \<longleftrightarrow> map stableJsonValue vs = map stableJsonValue ws" for ws
    using VArr by (auto simp: list_all2_conv_all_nth list_eq_iff_nth_eq)
  then show ?case by (cases w) (auto simp: same_value_simps)
next
  case (VObj xs)
  have "list_all2 same_value (values_at k xs) vs \<longleftrightarrow> map stableJsonValue (values_at k xs) = map stableJsonValue vs" for k vs
  proof -
    have "same_value (values_at k xs ! i) u \<longleftrightarrow> stableJsonValue (values_at k xs ! i) = stableJsonValue u"
      if "i < length (values_at k xs)" for i u
    proof -
      have "(k, values_at k xs ! i) \<in> set xs" using that values_at_mem nth_mem by metis
      then show ?thesis using VObj.IH by (metis snds.intros snd_conv)
    qed
    then show ?thesis by (auto simp: list_all2_conv_all_nth list_eq_iff_nth_eq)
  qed
  then show ?case by (cases w) (simp_all add: same_value_simps sort_keys_values)
next
  case VUndefined
  show ?case by (cases w) (auto simp: same_value_simps)
next
  case VNull
  show ?case by (cases w) (auto simp: same_value_simps)
next
  case (VBool b)
  show ?case by (cases w) (auto simp: same_value_simps)
next
  case (VNum n)
  show ?case by (cases w) (auto simp: same_value_simps)
next
  case (VStr s)
  show ?case by (cases w) (auto simp: same_value_simps)
qed

lemma same_object_stable: "same_object x y \<longleftrightarrow> stableJsonValue (VObj x) = stableJsonValue (VObj y)"
  by (simp only: same_object_def stable_iff_same)

text \<open>
  Two events with the same content: every hashed field agrees, the defaults of the event type and the
  severity filled in, and objects are the same JSON value. The idempotency key and the correlation id
  are not hashed.
\<close>

definition same_content :: "event_input \<Rightarrow> event_input \<Rightarrow> bool" where
  "same_content d e \<longleftrightarrow>
     ae_tenantId d = ae_tenantId e \<and> ae_layer d = ae_layer e
     \<and> normalizeAuditEventType (ae_eventType d) = normalizeAuditEventType (ae_eventType e)
     \<and> normalizeAuditSeverity (ae_eventType d) (ae_severity d)
        = normalizeAuditSeverity (ae_eventType e) (ae_severity e)
     \<and> ae_actor d = ae_actor e \<and> ae_actorDisplayName d = ae_actorDisplayName e
     \<and> ae_actorEmail d = ae_actorEmail e \<and> ae_action d = ae_action e
     \<and> same_object (ae_inputs d) (ae_inputs e) \<and> same_object (ae_outputs d) (ae_outputs e)
     \<and> ae_policyVersion d = ae_policyVersion e \<and> ae_policyDecisionId d = ae_policyDecisionId e
     \<and> ae_policyCheckId d = ae_policyCheckId e \<and> ae_outcome d = ae_outcome e
     \<and> rel_option same_object (ae_beforeState d) (ae_beforeState e)
     \<and> rel_option same_object (ae_afterState d) (ae_afterState e)
     \<and> ae_keyId d = ae_keyId e"

lemma event_type_name_inject [simp]: "event_type_name x = event_type_name y \<longleftrightarrow> x = y"
  by (cases x; cases y) auto

lemma severity_name_inject [simp]: "severity_name x = severity_name y \<longleftrightarrow> x = y"
  by (cases x; cases y) auto

lemma json_opt_inject [simp]: "json_opt x = json_opt y \<longleftrightarrow> x = y"
  by (auto simp: json_opt_def split: option.splits)

lemma json_num_opt_inject [simp]: "json_num_opt x = json_num_opt y \<longleftrightarrow> x = y"
  by (auto simp: json_num_opt_def split: option.splits)

lemma stable_opt_inject [simp]: "stable_opt x = stable_opt y \<longleftrightarrow> rel_option same_object x y"
  by (auto simp: stable_opt_def same_object_stable split: option.splits)

lemma jsort_opts [simp]:
  "jsort (json_opt x) = json_opt x" "jsort (json_num_opt n) = json_num_opt n" "jsort (stable_opt m) = stable_opt m"
  by (auto simp: json_opt_def json_num_opt_def stable_opt_def simp del: stableJsonValue.simps split: option.splits)

text \<open>Objects with the same keys are the same value exactly if their fields are.\<close>

lemma jsort_fields:
  assumes "map fst xs = map fst ys" "distinct (map fst xs)"
  shows "jsort (JObj xs) = jsort (JObj ys) \<longleftrightarrow> list_all2 (\<lambda>x y. jsort (snd x) = jsort (snd y)) xs ys"
proof -
  let ?m = "map (\<lambda>(k, v). (k, jsort v))"
  have keys: "map fst (?m zs) = map fst zs" for zs by (simp add: comp_def case_prod_unfold)
  have "jsort (JObj xs) = jsort (JObj ys) \<longleftrightarrow> ?m xs = ?m ys"
    using assms keys [of xs] keys [of ys] sort_keys_same_keys [of "?m xs" "?m ys"] by simp
  also have "\<dots> \<longleftrightarrow> list_all2 (\<lambda>x y. jsort (snd x) = jsort (snd y)) xs ys"
    using assms(1) by (induction xs ys rule: list_induct2') auto
  finally show ?thesis .
qed

lemma payload_inject:
  "jsort (event_payload x) = jsort (event_payload y) \<longleftrightarrow>
     hi_id x = hi_id y \<and> hi_createdAt x = hi_createdAt y \<and> hi_prevEventHash x = hi_prevEventHash y
     \<and> same_content (hi_event x) (hi_event y)"
proof -
  have same: "jsort (stableJsonValue (VObj u)) = jsort (stableJsonValue (VObj v)) \<longleftrightarrow> same_object u v" for u v
    by (simp only: jsort_stable same_object_stable)
  show ?thesis unfolding event_payload_def Let_def
    by (subst jsort_fields)
      (simp_all only: same list_all2_Cons list_all2_Nil snd_conv jsort.simps jsort_opts json.inject json_opt_inject
        json_num_opt_inject stable_opt_inject event_type_name_inject severity_name_inject same_content_def
        list.map fst_conv distinct.simps, auto)
qed

lemma canonicalize_event_inject:
  "number_text (hs_number hs) \<Longrightarrow> canonicalize_event hs x = canonicalize_event hs y \<longleftrightarrow>
     hi_id x = hi_id y \<and> hi_createdAt x = hi_createdAt y \<and> hi_prevEventHash x = hi_prevEventHash y
     \<and> same_content (hi_event x) (hi_event y)"
  by (simp only: canonicalize_event_def stableStringify_inject payload_inject)

lemma v_opt_inject [simp]:
  "stableJsonValue (v_opt x) = stableJsonValue (v_opt y) \<longleftrightarrow> x = y"
  by (auto simp: v_opt_def split: option.splits)

lemma stable_fields:
  assumes "map fst xs = map fst ys" "distinct (map fst xs)"
  shows "stableJsonValue (VObj xs) = stableJsonValue (VObj ys) \<longleftrightarrow>
    list_all2 (\<lambda>x y. stableJsonValue (snd x) = stableJsonValue (snd y)) xs ys"
proof -
  let ?m = "map (\<lambda>(k, v). (k, stableJsonValue v))"
  have keys: "map fst (?m zs) = map fst zs" for zs by (simp add: comp_def case_prod_unfold)
  have "stableJsonValue (VObj xs) = stableJsonValue (VObj ys) \<longleftrightarrow> ?m xs = ?m ys"
    using assms keys [of xs] keys [of ys] sort_keys_same_keys [of "?m xs" "?m ys"] by simp
  also have "\<dots> \<longleftrightarrow> list_all2 (\<lambda>x y. stableJsonValue (snd x) = stableJsonValue (snd y)) xs ys"
    using assms(1) by (induction xs ys rule: list_induct2') auto
  finally show ?thesis .
qed

lemma object_opt_inject [simp]:
  "stableJsonValue (case x of None \<Rightarrow> VNull | Some kvs \<Rightarrow> VObj kvs)
     = stableJsonValue (case y of None \<Rightarrow> VNull | Some kvs \<Rightarrow> VObj kvs) \<longleftrightarrow> rel_option same_object x y"
  by (auto simp: same_object_stable split: option.splits)

lemma number_opt_inject [simp]:
  "stableJsonValue (case x of None \<Rightarrow> VNull | Some n \<Rightarrow> VNum n)
     = stableJsonValue (case y of None \<Rightarrow> VNull | Some n \<Rightarrow> VNum n) \<longleftrightarrow> x = y"
  by (auto split: option.splits)

lemma fingerprint_inject:
  assumes "number_text (hs_number hs)"
  shows "logicalPayloadFingerprint hs d = logicalPayloadFingerprint hs e \<longleftrightarrow> same_content d e"
  unfolding logicalPayloadFingerprint_def stableStringify_inject [OF assms] jsort_stable
  by (subst stable_fields)
    (simp_all only: list_all2_Cons list_all2_Nil snd_conv fst_conv list.map distinct.simps v_opt_inject
      object_opt_inject number_opt_inject stableJsonValue.simps(5) json.inject event_type_name_inject
      severity_name_inject same_content_def same_object_stable [symmetric], auto)

end
