(* ===== verification/Audit_Chain.thy ===== *)
theory Audit_Chain
  imports Audit_Hash
begin

text \<open>
  The audit log: the Postgres emitter and the in-memory emitter of shared/src/audit/emitter.ts on the
  \<open>audit_events\<close> and \<open>audit_chain_heads\<close> tables, and the structural checks of
  services/audit/src/audit-consistency.ts. An emit runs under the tenant's advisory lock in one
  transaction, so it is one step; the new id and the clock reading are its arguments. The statement
  semantics are those of the migrations: unique indexes, and the trigger that compares and swaps the
  chain head.
\<close>

section \<open>Rows\<close>

text \<open>
  A row of \<open>audit_events\<close>: the event columns, with SQL \<open>NULL\<close> as \<open>None\<close>. Hashes are kept as hex text.
\<close>

record audit_row =
  ar_id :: string
  ar_event :: event_input
  ar_event_hash :: string
  ar_prev_event_hash :: "string option"
  ar_created_at :: int
  ar_hash_schema_version :: nat

record chain_head =
  ch_event_id :: "string option"
  ch_event_hash :: "string option"
  ch_sequence :: nat

record audit_db =
  ad_events :: "audit_row list"
  ad_heads :: "string \<Rightarrow> chain_head option"

text \<open>What an emitter returns.\<close>

record stored_event =
  sv_event :: event_input
  sv_id :: string
  sv_createdAt :: int
  sv_eventHash :: string
  sv_prevEventHash :: "string option"

datatype audit_error =
    Audit_idempotency_conflict
  | Audit_hash_version_unsupported
  | Audit_chain_head_unavailable
  | Audit_unique_violation
  | Audit_head_mismatch

text \<open>The ISO text of a timestamp is the argument \<open>iso\<close> (\<open>Date.prototype.toISOString\<close>).\<close>

record audit_env =
  en_hash :: hash_env
  en_iso :: "int \<Rightarrow> string"

definition event_text :: "audit_env \<Rightarrow> event_input \<Rightarrow> string \<Rightarrow> int \<Rightarrow> string option \<Rightarrow> string" where
  "event_text env e i created prev =
     canonicalize_event (en_hash env)
       \<lparr>hi_event = e, hi_id = i, hi_createdAt = en_iso env created, hi_prevEventHash = prev\<rparr>"

definition event_hash :: "audit_env \<Rightarrow> event_input \<Rightarrow> string \<Rightarrow> int \<Rightarrow> string option \<Rightarrow> string" where
  "event_hash env e i created prev =
     hashEvent (en_hash env) \<lparr>hi_event = e, hi_id = i, hi_createdAt = en_iso env created, hi_prevEventHash = prev\<rparr>"

lemma event_hash_text: "event_hash env e i created prev = hs_sha256_hex (en_hash env) (event_text env e i created prev)"
  by (simp add: event_hash_def event_text_def hashEvent_def)

section \<open>JSONB columns\<close>

text \<open>
  \<open>JSON.stringify\<close> into a JSONB column and back: \<open>undefined\<close> fields are dropped, \<open>undefined\<close> array
  elements become \<open>null\<close>.
\<close>

fun jsonb_value :: "jsv \<Rightarrow> jsv" where
  "jsonb_value VUndefined = VNull"
| "jsonb_value (VArr vs) = VArr (map jsonb_value vs)"
| "jsonb_value (VObj kvs) =
     VObj (map (\<lambda>(k, v). (k, jsonb_value v)) (filter (\<lambda>(k, v). v \<noteq> VUndefined) kvs))"
| "jsonb_value v = v"

definition jsonb :: "js_object \<Rightarrow> js_object" where
  "jsonb kvs = map (\<lambda>(k, v). (k, jsonb_value v)) (filter (\<lambda>(k, v). v \<noteq> VUndefined) kvs)"

definition columns_of :: "event_input \<Rightarrow> event_input" where
  "columns_of e = e\<lparr>ae_inputs := jsonb (ae_inputs e), ae_outputs := jsonb (ae_outputs e),
     ae_beforeState := map_option jsonb (ae_beforeState e), ae_afterState := map_option jsonb (ae_afterState e)\<rparr>"

section \<open>The database\<close>

text \<open>\<open>INSERT INTO audit_chain_heads (tenant_id) ... ON CONFLICT DO NOTHING\<close>.\<close>

definition ensure_head :: "string \<Rightarrow> audit_db \<Rightarrow> audit_db" where
  "ensure_head t db =
     (case ad_heads db t of
        Some h \<Rightarrow> db
      | None \<Rightarrow> db\<lparr>ad_heads := (ad_heads db)(t \<mapsto> \<lparr>ch_event_id = None, ch_event_hash = None, ch_sequence = 0\<rparr>)\<rparr>)"

text \<open>
  The insert of one event: the primary key and the unique indexes on (tenant, hash) and (tenant,
  idempotency key), then the trigger, which advances the head only from the predecessor the row
  names. The trigger's compatibility path, for a tenant without a head row, is never taken after
  \<open>ensure_head\<close>.
\<close>

definition insert_event :: "audit_row \<Rightarrow> audit_db \<Rightarrow> audit_error + audit_db" where
  "insert_event r db =
     (let t = ae_tenantId (ar_event r) in
      if list_ex (\<lambda>x. ar_id x = ar_id r) (ad_events db)
         \<or> list_ex (\<lambda>x. ae_tenantId (ar_event x) = t \<and> ar_event_hash x = ar_event_hash r) (ad_events db)
         \<or> (ae_idempotencyKey (ar_event r) \<noteq> None \<and>
            list_ex (\<lambda>x. ae_tenantId (ar_event x) = t
              \<and> ae_idempotencyKey (ar_event x) = ae_idempotencyKey (ar_event r)) (ad_events db))
      then Inl Audit_unique_violation
      else case ad_heads db t of
        None \<Rightarrow> Inl Audit_head_mismatch
      | Some h \<Rightarrow>
          if ch_event_hash h \<noteq> ar_prev_event_hash r then Inl Audit_head_mismatch
          else Inr \<lparr>ad_events = ad_events db @ [r],
                    ad_heads = (ad_heads db)(t \<mapsto> \<lparr>ch_event_id = Some (ar_id r),
                      ch_event_hash = Some (ar_event_hash r), ch_sequence = ch_sequence h + 1\<rparr>)\<rparr>)"

section \<open>PostgresAuditEmitter.emit\<close>

definition find_by_key :: "string \<Rightarrow> string \<Rightarrow> audit_row list \<Rightarrow> audit_row option" where
  "find_by_key t k rows = find (\<lambda>r. ae_tenantId (ar_event r) = t \<and> ae_idempotencyKey (ar_event r) = Some k) rows"

text \<open>The event a row of a superseded version stands for.\<close>

definition stored_input :: "event_input \<Rightarrow> event_input" where
  "stored_input e = e\<lparr>ae_eventType := Some (normalizeAuditEventType (ae_eventType e)),
     ae_severity := Some (normalizeAuditSeverity (ae_eventType e) (ae_severity e))\<rparr>"

definition key_conflict :: "audit_env \<Rightarrow> event_input \<Rightarrow> audit_row \<Rightarrow> audit_error + bool" where
  "key_conflict env e hit =
     (if ar_hash_schema_version hit = AUDIT_HASH_SCHEMA_VERSION
      then Inr (event_hash env e (ar_id hit) (ar_created_at hit) (ar_prev_event_hash hit) \<noteq> ar_event_hash hit)
      else if ar_hash_schema_version hit < AUDIT_HASH_SCHEMA_VERSION
      then Inr (logicalPayloadFingerprint (en_hash env) e
                \<noteq> logicalPayloadFingerprint (en_hash env) (stored_input (ar_event hit)))
      else Inl Audit_hash_version_unsupported)"

definition first_of :: "'a option \<Rightarrow> 'a option \<Rightarrow> 'a option" where
  "first_of x y = (case x of None \<Rightarrow> y | Some v \<Rightarrow> Some v)"

text \<open>The answer for a key that was already written.\<close>

definition stored_answer :: "event_input \<Rightarrow> audit_row \<Rightarrow> stored_event" where
  "stored_answer e hit =
     (let h = ar_event hit in
      \<lparr>sv_event = e\<lparr>ae_eventType := Some (normalizeAuditEventType (ae_eventType h)),
          ae_severity := Some (normalizeAuditSeverity (ae_eventType h) (ae_severity h)),
          ae_actorDisplayName := first_of (ae_actorDisplayName h) (ae_actorDisplayName e),
          ae_actorEmail := first_of (ae_actorEmail h) (ae_actorEmail e),
          ae_correlationId := first_of (ae_correlationId h) (ae_correlationId e),
          ae_keyId := first_of (ae_keyId h) (ae_keyId e),
          ae_policyCheckId := first_of (ae_policyCheckId h) (ae_policyCheckId e),
          ae_outcome := first_of (ae_outcome h) (ae_outcome e)\<rparr>,
       sv_id = ar_id hit, sv_createdAt = ar_created_at hit, sv_eventHash = ar_event_hash hit,
       sv_prevEventHash = ar_prev_event_hash hit\<rparr>)"

definition append_event ::
  "audit_env \<Rightarrow> string \<Rightarrow> int \<Rightarrow> event_input \<Rightarrow> audit_db \<Rightarrow> (audit_error + stored_event) \<times> audit_db" where
  "append_event env newId now e db =
     (let t = ae_tenantId e; db1 = ensure_head t db in
      case ad_heads db1 t of
        None \<Rightarrow> (Inl Audit_chain_head_unavailable, db)
      | Some head \<Rightarrow>
          let prevHash = ch_event_hash head;
              hash = event_hash env e newId now prevHash
          in case insert_event \<lparr>ar_id = newId, ar_event = columns_of e, ar_event_hash = hash,
                   ar_prev_event_hash = prevHash, ar_created_at = now,
                   ar_hash_schema_version = AUDIT_HASH_SCHEMA_VERSION\<rparr> db1 of
               Inl err \<Rightarrow> (Inl err, db)
             | Inr db2 \<Rightarrow> (Inr \<lparr>sv_event = e, sv_id = newId, sv_createdAt = now, sv_eventHash = hash,
                               sv_prevEventHash = prevHash\<rparr>, db2))"

text \<open>The \<open>catch\<close> rolls the transaction back, so an error leaves the database as it was.\<close>

definition pg_emit ::
  "audit_env \<Rightarrow> string \<Rightarrow> int \<Rightarrow> event_input \<Rightarrow> audit_db \<Rightarrow> (audit_error + stored_event) \<times> audit_db" where
  "pg_emit env newId now event db =
     (let e = normalizeAuditEventInput event in
      case ae_idempotencyKey e of
        None \<Rightarrow> append_event env newId now e db
      | Some k \<Rightarrow>
          (case find_by_key (ae_tenantId e) k (ad_events db) of
             None \<Rightarrow> append_event env newId now e db
           | Some hit \<Rightarrow>
               (case key_conflict env e hit of
                  Inl err \<Rightarrow> (Inl err, db)
                | Inr conflict \<Rightarrow>
                    if conflict then (Inl Audit_idempotency_conflict, db)
                    else (Inr (stored_answer e hit), db))))"

section \<open>InMemoryAuditEmitter.emit\<close>

definition latestForTenant :: "string \<Rightarrow> stored_event list \<Rightarrow> stored_event option" where
  "latestForTenant t evs = find (\<lambda>x. ae_tenantId (sv_event x) = t) (rev evs)"

definition mem_append ::
  "audit_env \<Rightarrow> string \<Rightarrow> int \<Rightarrow> event_input \<Rightarrow> stored_event list \<Rightarrow> (audit_error + stored_event) \<times> stored_event list" where
  "mem_append env newId now e evs =
     (let prev = map_option sv_eventHash (latestForTenant (ae_tenantId e) evs);
          stored = \<lparr>sv_event = e, sv_id = newId, sv_createdAt = now,
                    sv_eventHash = event_hash env e newId now prev, sv_prevEventHash = prev\<rparr>
      in (Inr stored, evs @ [stored]))"

definition mem_emit ::
  "audit_env \<Rightarrow> string \<Rightarrow> int \<Rightarrow> event_input \<Rightarrow> stored_event list \<Rightarrow> (audit_error + stored_event) \<times> stored_event list" where
  "mem_emit env newId now event evs =
     (let e = normalizeAuditEventInput event in
      case ae_idempotencyKey e of
        None \<Rightarrow> mem_append env newId now e evs
      | Some k \<Rightarrow>
          (case find (\<lambda>x. ae_tenantId (sv_event x) = ae_tenantId e \<and> ae_idempotencyKey (sv_event x) = Some k) evs of
             None \<Rightarrow> mem_append env newId now e evs
           | Some x \<Rightarrow>
               if event_hash env e (sv_id x) (sv_createdAt x) (sv_prevEventHash x) \<noteq> sv_eventHash x
               then (Inl Audit_idempotency_conflict, evs)
               else (Inr x, evs)))"

section \<open>checkAuditConsistency\<close>

record consistency_result =
  cr_forks :: nat
  cr_gaps :: nat
  cr_invalidGenesis :: nat

definition tenant_of :: "audit_row \<Rightarrow> string" where
  "tenant_of r = ae_tenantId (ar_event r)"

text \<open>\<open>GROUP BY tenant_id, prev_event_hash HAVING count(*) > 1\<close> over the rows with a predecessor.\<close>

definition fork_groups :: "audit_row list \<Rightarrow> (string \<times> string option) list" where
  "fork_groups rows =
     (let links = map (\<lambda>r. (tenant_of r, ar_prev_event_hash r)) (filter (\<lambda>r. ar_prev_event_hash r \<noteq> None) rows)
      in filter (\<lambda>g. count_list links g > 1) (remdups links))"

definition gap_rows :: "audit_row list \<Rightarrow> audit_row list" where
  "gap_rows rows = filter (\<lambda>e. ar_prev_event_hash e \<noteq> None
     \<and> \<not> list_ex (\<lambda>p. tenant_of p = tenant_of e \<and> Some (ar_event_hash p) = ar_prev_event_hash e) rows) rows"

definition bad_genesis :: "audit_row list \<Rightarrow> string list" where
  "bad_genesis rows =
     filter (\<lambda>t. length (filter (\<lambda>r. tenant_of r = t \<and> ar_prev_event_hash r = None) rows) \<noteq> 1)
       (remdups (map tenant_of rows))"

definition checkAuditConsistency :: "audit_db \<Rightarrow> consistency_result" where
  "checkAuditConsistency db =
     \<lparr>cr_forks = length (fork_groups (ad_events db)), cr_gaps = length (gap_rows (ad_events db)),
      cr_invalidGenesis = length (bad_genesis (ad_events db))\<rparr>"

end
