(* ===== verification/Audit_Facts.thy ===== *)
theory Audit_Facts
  imports Audit_Chain
begin

text \<open>
  What the audit log guarantees: every tenant's events form one chain, whatever is emitted; a key is
  written once; the in-memory emitter refines the Postgres one; and the hash at the head of a verified
  chain determines the whole history.
\<close>

named_theorems audit_defs \<open>the steps of an emit\<close>

lemmas [audit_defs] = pg_emit_def append_event_def insert_event_def ensure_head_def

section \<open>One chain per tenant\<close>

definition chain_of :: "string \<Rightarrow> audit_row list \<Rightarrow> audit_row list" where
  "chain_of t rows = filter (\<lambda>r. tenant_of r = t) rows"

fun linked :: "string option \<Rightarrow> audit_row list \<Rightarrow> bool" where
  "linked p [] = True"
| "linked p (r # rs) = (ar_prev_event_hash r = p \<and> linked (Some (ar_event_hash r)) rs)"

definition head_hash :: "string option \<Rightarrow> audit_row list \<Rightarrow> string option" where
  "head_hash p rows = (if rows = [] then p else Some (ar_event_hash (last rows)))"

lemma head_hash_simps [simp]:
  "head_hash p [] = p" "head_hash p (rows @ [r]) = Some (ar_event_hash r)"
  "head_hash p (r # rows) = head_hash (Some (ar_event_hash r)) rows"
  by (simp_all add: head_hash_def)

lemma linked_snoc: "linked p (rows @ [r]) \<longleftrightarrow> linked p rows \<and> ar_prev_event_hash r = head_hash p rows"
  by (induction p rows rule: linked.induct) auto

lemma chain_of_snoc:
  "chain_of t (rows @ [r]) = (if tenant_of r = t then chain_of t rows @ [r] else chain_of t rows)"
  by (simp add: chain_of_def)

text \<open>The head row of a tenant speaks for its chain.\<close>

definition head_ok :: "audit_db \<Rightarrow> string \<Rightarrow> bool" where
  "head_ok db t \<longleftrightarrow>
     linked None (chain_of t (ad_events db)) \<and>
     (case ad_heads db t of
        None \<Rightarrow> chain_of t (ad_events db) = []
      | Some h \<Rightarrow> ch_event_hash h = head_hash None (chain_of t (ad_events db))
          \<and> ch_sequence h = length (chain_of t (ad_events db)))"

definition row_key :: "audit_row \<Rightarrow> string \<times> string" where
  "row_key r = (tenant_of r, ar_event_hash r)"

definition audit_ok :: "audit_db \<Rightarrow> bool" where
  "audit_ok db \<longleftrightarrow> (\<forall>t. head_ok db t) \<and> distinct (map row_key (ad_events db))"

lemma audit_okI: "(\<And>t. head_ok db t) \<Longrightarrow> distinct (map row_key (ad_events db)) \<Longrightarrow> audit_ok db"
  by (simp add: audit_ok_def)

lemma audit_okD: "audit_ok db \<Longrightarrow> head_ok db t" "audit_ok db \<Longrightarrow> distinct (map row_key (ad_events db))"
  by (simp_all add: audit_ok_def)

lemma ensure_head_ok: "head_ok db t' \<Longrightarrow> head_ok (ensure_head t db) t'"
  by (auto simp: head_ok_def ensure_head_def split: option.splits)

lemma ensure_head_events [simp]: "ad_events (ensure_head t db) = ad_events db"
  by (simp add: ensure_head_def split: option.splits)

lemma ensure_head_present: "\<exists>h. ad_heads (ensure_head t db) t = Some h"
  by (simp add: ensure_head_def split: option.splits)

text \<open>The trigger keeps every chain linear: the row goes in only behind the head.\<close>

lemma insert_event_ok:
  assumes ok: "audit_ok db" and ins: "insert_event r db = Inr db2"
  shows "audit_ok db2"
proof (rule audit_okI)
  let ?t = "tenant_of r"
  from ins obtain h where h: "ad_heads db ?t = Some h" "ch_event_hash h = ar_prev_event_hash r"
    and fresh: "\<not> list_ex (\<lambda>x. tenant_of x = ?t \<and> ar_event_hash x = ar_event_hash r) (ad_events db)"
    and db2: "db2 = \<lparr>ad_events = ad_events db @ [r],
                    ad_heads = (ad_heads db)(?t \<mapsto> \<lparr>ch_event_id = Some (ar_id r),
                      ch_event_hash = Some (ar_event_hash r), ch_sequence = ch_sequence h + 1\<rparr>)\<rparr>"
    by (auto simp: insert_event_def Let_def tenant_of_def split: if_splits option.splits)
  show "head_ok db2 t" for t
    using audit_okD(1) [OF ok, of t] h
    by (auto simp: head_ok_def db2 chain_of_snoc linked_snoc split: option.splits)
  have "row_key r \<notin> row_key ` set (ad_events db)"
    using fresh by (auto simp: row_key_def list_ex_iff)
  then show "distinct (map row_key (ad_events db2))"
    using audit_okD(2) [OF ok] by (simp add: db2)
qed

lemma append_event_ok: "audit_ok db \<Longrightarrow> audit_ok (snd (append_event env i now e db))"
proof -
  assume ok: "audit_ok db"
  then have "audit_ok (ensure_head (ae_tenantId e) db)"
    by (auto intro!: audit_okI ensure_head_ok dest: audit_okD)
  with ok show ?thesis
    by (auto simp: append_event_def Let_def dest: insert_event_ok split: option.splits sum.splits)
qed

lemma pg_emit_ok: "audit_ok db \<Longrightarrow> audit_ok (snd (pg_emit env i now e db))"
  by (auto simp: pg_emit_def Let_def append_event_ok split: option.splits sum.splits)

definition empty_audit :: audit_db where
  "empty_audit = \<lparr>ad_events = [], ad_heads = \<lambda>_. None\<rparr>"

lemma empty_audit_ok: "audit_ok empty_audit"
  by (simp add: audit_ok_def head_ok_def empty_audit_def chain_of_def)

text \<open>A run of the log: emits with the ids and times they draw, failed ones included.\<close>

fun emit_all :: "audit_env \<Rightarrow> (string \<times> int \<times> event_input) list \<Rightarrow> audit_db \<Rightarrow> audit_db" where
  "emit_all env [] db = db"
| "emit_all env ((i, now, e) # rest) db = emit_all env rest (snd (pg_emit env i now e db))"

lemma emit_all_ok: "audit_ok db \<Longrightarrow> audit_ok (emit_all env reqs db)"
  by (induction env reqs db rule: emit_all.induct) (auto simp: pg_emit_ok)

section \<open>The structural checks see a linear chain\<close>

lemma linked_prev:
  "linked p rows \<Longrightarrow> e \<in> set rows \<Longrightarrow>
     ar_prev_event_hash e = p \<or> (\<exists>q \<in> set rows. Some (ar_event_hash q) = ar_prev_event_hash e)"
  by (induction p rows rule: linked.induct) auto

lemma linked_distinct_prevs:
  "linked p rows \<Longrightarrow> distinct (map ar_event_hash rows) \<Longrightarrow> p \<notin> Some ` ar_event_hash ` set rows \<Longrightarrow>
     distinct (map ar_prev_event_hash rows)"
proof (induction p rows rule: linked.induct)
  case (2 p r rs)
  have "p \<notin> ar_prev_event_hash ` set rs"
  proof
    assume "p \<in> ar_prev_event_hash ` set rs"
    then obtain e where "e \<in> set rs" "ar_prev_event_hash e = p" by auto
    then have "p = Some (ar_event_hash r) \<or> p \<in> Some ` ar_event_hash ` set rs"
      using linked_prev [of "Some (ar_event_hash r)" rs e] 2(2) by (metis imageI linked.simps(2))
    with "2.prems"(3) show False by auto
  qed
  with 2 show ?case by auto
qed simp

lemma chain_hashes_distinct:
  "distinct (map row_key rows) \<Longrightarrow> distinct (map ar_event_hash (chain_of t rows))"
proof (induction rows)
  case (Cons r rows)
  have "ar_event_hash r \<notin> ar_event_hash ` set (chain_of (tenant_of r) rows)"
  proof
    assume "ar_event_hash r \<in> ar_event_hash ` set (chain_of (tenant_of r) rows)"
    then obtain x where "x \<in> set rows" "row_key x = row_key r" by (auto simp: chain_of_def row_key_def)
    then have "row_key r \<in> row_key ` set rows" by (metis imageI)
    with Cons.prems show False by simp
  qed
  with Cons show ?case by (auto simp: chain_of_def)
qed (simp add: chain_of_def)

lemma distinct_pairs:
  "(\<And>t. distinct (map f (chain_of t rows))) \<Longrightarrow> distinct (map (\<lambda>r. (tenant_of r, f r)) rows)"
proof (induction rows)
  case (Cons r rows)
  have "distinct (map f (chain_of t rows))" for t
    using Cons.prems [of t] by (auto simp: chain_of_def split: if_splits)
  moreover have "f r \<notin> f ` set (chain_of (tenant_of r) rows)"
    using Cons.prems [of "tenant_of r"] by (simp add: chain_of_def)
  then have "(tenant_of r, f r) \<notin> (\<lambda>r. (tenant_of r, f r)) ` set rows"
    by (auto simp: chain_of_def)
  ultimately show ?case using Cons.IH by simp
qed simp

lemma count_list_distinct: "distinct xs \<Longrightarrow> count_list xs x \<le> 1"
  by (induction xs) (auto simp: count_list_0_iff)

lemma linked_one_genesis:
  "linked None rows \<Longrightarrow> rows \<noteq> [] \<Longrightarrow> length (filter (\<lambda>r. ar_prev_event_hash r = None) rows) = 1"
proof -
  have none: "linked (Some h) rs \<Longrightarrow> filter (\<lambda>r. ar_prev_event_hash r = None) rs = []" for h rs
    by (induction rs arbitrary: h) auto
  show "linked None rows \<Longrightarrow> rows \<noteq> [] \<Longrightarrow> ?thesis"
    by (cases rows) (auto simp: none)
qed

lemma consistent_when_ok:
  assumes "audit_ok db"
  shows "checkAuditConsistency db = \<lparr>cr_forks = 0, cr_gaps = 0, cr_invalidGenesis = 0\<rparr>"
proof -
  let ?rows = "ad_events db"
  have lin: "linked None (chain_of t ?rows)" for t
    using audit_okD(1) [OF assms] by (simp add: head_ok_def)
  have hashes: "distinct (map ar_event_hash (chain_of t ?rows))" for t
    using audit_okD(2) [OF assms] by (rule chain_hashes_distinct)
  have "distinct (map (\<lambda>r. (tenant_of r, ar_prev_event_hash r)) ?rows)"
    by (rule distinct_pairs, rule linked_distinct_prevs [OF lin hashes]) auto
  then have "distinct (map (\<lambda>r. (tenant_of r, ar_prev_event_hash r)) (filter (\<lambda>r. ar_prev_event_hash r \<noteq> None) ?rows))"
    by (rule distinct_map_filter)
  then have forks: "fork_groups ?rows = []"
    using count_list_distinct by (fastforce simp: fork_groups_def Let_def filter_empty_conv not_less)
  have gaps: "gap_rows ?rows = []"
    unfolding gap_rows_def filter_empty_conv
  proof (intro ballI notI, elim conjE)
    fix e assume e: "e \<in> set ?rows" "ar_prev_event_hash e \<noteq> None"
      "\<not> list_ex (\<lambda>p. tenant_of p = tenant_of e \<and> Some (ar_event_hash p) = ar_prev_event_hash e) ?rows"
    then have "e \<in> set (chain_of (tenant_of e) ?rows)" by (simp add: chain_of_def)
    from linked_prev [OF lin this] e show False by (auto simp: list_ex_iff chain_of_def)
  qed
  have "length (filter (\<lambda>r. tenant_of r = t \<and> ar_prev_event_hash r = None) ?rows) = 1"
    if "t \<in> tenant_of ` set ?rows" for t
  proof -
    have "chain_of t ?rows \<noteq> []" using that by (auto simp: chain_of_def filter_empty_conv)
    from linked_one_genesis [OF lin this] show ?thesis by (simp add: chain_of_def conj_commute)
  qed
  then have genesis: "bad_genesis ?rows = []" by (auto simp: bad_genesis_def filter_empty_conv)
  show ?thesis by (simp add: checkAuditConsistency_def forks gaps genesis)
qed

section \<open>Content\<close>

lemma same_object_refl [simp]: "same_object kvs kvs"
  by (simp add: same_object_stable)

lemma same_content_refl [simp]: "same_content e e"
  by (simp add: same_content_def same_object_stable option.rel_refl)

lemma same_content_sym: "same_content d e \<Longrightarrow> same_content e d"
  by (auto simp: same_content_def same_object_stable elim!: option.rel_cases)

lemma same_content_trans: "same_content c d \<Longrightarrow> same_content d e \<Longrightarrow> same_content c e"
  by (auto simp: same_content_def same_object_stable elim!: option.rel_cases)

lemma same_content_normalized [simp]: "same_content (normalizeAuditEventInput e) e"
  by (auto simp: same_content_def same_object_stable normalizeAuditEventInput_def normalizeAuditEventType_def
      normalizeAuditSeverity_def option.rel_refl Let_def split: option.splits)

lemma normalized_fields [simp]:
  "ae_tenantId (normalizeAuditEventInput e) = ae_tenantId e"
  "ae_idempotencyKey (normalizeAuditEventInput e) = ae_idempotencyKey e"
  by (simp_all add: normalizeAuditEventInput_def Let_def)

lemma same_content_normalize:
  "same_content (normalizeAuditEventInput d) (normalizeAuditEventInput e) \<longleftrightarrow> same_content d e"
  by (meson same_content_normalized same_content_sym same_content_trans)

lemma event_text_inject:
  assumes "number_text (hs_number (en_hash env))"
  shows "event_text env d i a p = event_text env e j b q \<longleftrightarrow>
    i = j \<and> en_iso env a = en_iso env b \<and> p = q \<and> same_content d e"
  using assms by (simp add: event_text_def canonicalize_event_inject)

lemma event_hash_same_content:
  "number_text (hs_number (en_hash env)) \<Longrightarrow> same_content d e \<Longrightarrow>
     event_hash env d i a p = event_hash env e i a p"
  unfolding event_hash_text using event_text_inject [of env d i a p e i a p] by simp

lemma columns_fields [simp]:
  "ae_tenantId (columns_of e) = ae_tenantId e" "ae_idempotencyKey (columns_of e) = ae_idempotencyKey e"
  by (simp_all add: columns_of_def)

section \<open>A key is written once\<close>

lemma append_event_InrD:
  assumes "append_event env i now e db = (Inr s, db2)"
  shows "\<exists>prev. s = \<lparr>sv_event = e, sv_id = i, sv_createdAt = now,
      sv_eventHash = event_hash env e i now prev, sv_prevEventHash = prev\<rparr>
    \<and> ad_events db2 = ad_events db @ [\<lparr>ar_id = i, ar_event = columns_of e, ar_event_hash = event_hash env e i now prev,
        ar_prev_event_hash = prev, ar_created_at = now, ar_hash_schema_version = AUDIT_HASH_SCHEMA_VERSION\<rparr>]"
  using assms
  by (auto simp: append_event_def insert_event_def Let_def split: option.splits sum.splits if_splits)

lemma find_by_key_append:
  "find_by_key t k rows = None \<Longrightarrow> tenant_of r = t \<Longrightarrow> ae_idempotencyKey (ar_event r) = Some k \<Longrightarrow>
     find_by_key t k (rows @ [r]) = Some r"
  by (induction rows) (auto simp: find_by_key_def tenant_of_def split: if_splits)

lemma emit_fresh_key:
  assumes "pg_emit env i now d db = (Inr s, db1)" "ae_idempotencyKey d = Some k"
    "find_by_key (ae_tenantId d) k (ad_events db) = None"
  shows "\<exists>hit. find_by_key (ae_tenantId d) k (ad_events db1) = Some hit
    \<and> ar_hash_schema_version hit = AUDIT_HASH_SCHEMA_VERSION
    \<and> ar_id hit = sv_id s \<and> ar_created_at hit = sv_createdAt s \<and> ar_prev_event_hash hit = sv_prevEventHash s
    \<and> ar_event_hash hit = sv_eventHash s
    \<and> sv_eventHash s = event_hash env (normalizeAuditEventInput d) (sv_id s) (sv_createdAt s) (sv_prevEventHash s)"
proof -
  let ?d = "normalizeAuditEventInput d"
  from assms have "append_event env i now ?d db = (Inr s, db1)"
    by (simp add: pg_emit_def Let_def)
  then obtain prev where s: "s = \<lparr>sv_event = ?d, sv_id = i, sv_createdAt = now,
      sv_eventHash = event_hash env ?d i now prev, sv_prevEventHash = prev\<rparr>"
    and db1: "ad_events db1 = ad_events db @ [\<lparr>ar_id = i, ar_event = columns_of ?d,
        ar_event_hash = event_hash env ?d i now prev, ar_prev_event_hash = prev, ar_created_at = now,
        ar_hash_schema_version = AUDIT_HASH_SCHEMA_VERSION\<rparr>]"
    using append_event_InrD by blast
  then show ?thesis using assms(2,3)
    by (simp add: find_by_key_append tenant_of_def)
qed

lemma key_reuse:
  assumes "number_text (hs_number (en_hash env))"
    and "pg_emit env i now d db = (Inr s, db1)" "ae_idempotencyKey d = Some k"
    and "find_by_key (ae_tenantId d) k (ad_events db) = None"
    and "ae_tenantId e = ae_tenantId d" "ae_idempotencyKey e = Some k"
    and "inj_on (hs_sha256_hex (en_hash env))
      {event_text env (normalizeAuditEventInput d) (sv_id s) (sv_createdAt s) (sv_prevEventHash s),
       event_text env (normalizeAuditEventInput e) (sv_id s) (sv_createdAt s) (sv_prevEventHash s)}"
  shows "if same_content d e
    then \<exists>s'. pg_emit env j later e db1 = (Inr s', db1) \<and> sv_id s' = sv_id s \<and> sv_createdAt s' = sv_createdAt s
      \<and> sv_eventHash s' = sv_eventHash s \<and> sv_prevEventHash s' = sv_prevEventHash s
    else pg_emit env j later e db1 = (Inl Audit_idempotency_conflict, db1)"
proof -
  let ?d = "normalizeAuditEventInput d" and ?e = "normalizeAuditEventInput e"
  obtain hit where hit: "find_by_key (ae_tenantId d) k (ad_events db1) = Some hit"
    "ar_hash_schema_version hit = AUDIT_HASH_SCHEMA_VERSION"
    "ar_id hit = sv_id s" "ar_created_at hit = sv_createdAt s" "ar_prev_event_hash hit = sv_prevEventHash s"
    "ar_event_hash hit = sv_eventHash s"
    "sv_eventHash s = event_hash env ?d (sv_id s) (sv_createdAt s) (sv_prevEventHash s)"
    using emit_fresh_key [OF assms(2-4)] by blast
  have "event_hash env ?e (sv_id s) (sv_createdAt s) (sv_prevEventHash s) = sv_eventHash s \<longleftrightarrow> same_content e d"
  proof -
    have "event_hash env ?e (sv_id s) (sv_createdAt s) (sv_prevEventHash s) = sv_eventHash s \<longleftrightarrow>
      event_text env ?e (sv_id s) (sv_createdAt s) (sv_prevEventHash s)
        = event_text env ?d (sv_id s) (sv_createdAt s) (sv_prevEventHash s)"
      unfolding hit(7) event_hash_text using assms(7) by (auto dest: inj_onD)
    then show ?thesis by (simp add: event_text_inject [OF assms(1)] same_content_normalize)
  qed
  then have "key_conflict env ?e hit = Inr (\<not> same_content d e)"
    using hit by (auto simp: key_conflict_def dest: same_content_sym)
  then show ?thesis
    using hit assms(5,6) by (simp add: pg_emit_def Let_def stored_answer_def)
qed

section \<open>The head determines the history\<close>

text \<open>A row whose stored hash is the hash of its own columns: what the content verifier recomputes.\<close>

definition row_text :: "audit_env \<Rightarrow> audit_row \<Rightarrow> string" where
  "row_text env r = event_text env (ar_event r) (ar_id r) (ar_created_at r) (ar_prev_event_hash r)"

definition recomputed :: "audit_env \<Rightarrow> audit_row \<Rightarrow> string" where
  "recomputed env r = event_hash env (ar_event r) (ar_id r) (ar_created_at r) (ar_prev_event_hash r)"

definition same_row :: "audit_env \<Rightarrow> audit_row \<Rightarrow> audit_row \<Rightarrow> bool" where
  "same_row env x y \<longleftrightarrow> ar_id x = ar_id y \<and> ar_event_hash x = ar_event_hash y
     \<and> en_iso env (ar_created_at x) = en_iso env (ar_created_at y)
     \<and> ar_prev_event_hash x = ar_prev_event_hash y \<and> same_content (ar_event x) (ar_event y)"

lemma same_recomputed_row:
  assumes "number_text (hs_number (en_hash env))"
    and "inj_on (hs_sha256_hex (en_hash env)) {row_text env x, row_text env y}"
    and "recomputed env x = ar_event_hash x" "recomputed env y = ar_event_hash y"
    and "ar_event_hash x = ar_event_hash y"
  shows "same_row env x y"
proof -
  have "hs_sha256_hex (en_hash env) (row_text env x) = hs_sha256_hex (en_hash env) (row_text env y)"
    using assms(3-5) by (simp add: recomputed_def row_text_def event_hash_text)
  then have "row_text env x = row_text env y" by (rule inj_onD [OF assms(2)]) simp_all
  then show ?thesis
    using assms(5) by (simp add: row_text_def event_text_inject [OF assms(1)] same_row_def)
qed

lemma histories_agree:
  assumes "number_text (hs_number (en_hash env))"
    and "inj_on (hs_sha256_hex (en_hash env)) (row_text env ` (set xs \<union> set ys))"
    and "\<forall>r \<in> set xs \<union> set ys. recomputed env r = ar_event_hash r"
    and "linked None xs" "linked None ys" "head_hash None xs = head_hash None ys"
  shows "list_all2 (same_row env) xs ys"
  using assms(2-6)
proof (induction xs arbitrary: ys rule: rev_induct)
  case Nil
  then show ?case by (simp add: head_hash_def split: if_splits)
next
  case (snoc x xs)
  from snoc.prems(5) obtain y ys' where ys: "ys = ys' @ [y]"
    by (cases ys rule: rev_cases) auto
  have "inj_on (hs_sha256_hex (en_hash env)) {row_text env x, row_text env y}"
    by (rule inj_on_subset [OF snoc.prems(1)]) (auto simp: ys)
  then have xy: "same_row env x y"
    using snoc.prems(2,5) by (intro same_recomputed_row [OF assms(1)]) (auto simp: ys)
  have "list_all2 (same_row env) xs ys'"
  proof (rule snoc.IH)
    show "inj_on (hs_sha256_hex (en_hash env)) (row_text env ` (set xs \<union> set ys'))"
      by (rule inj_on_subset [OF snoc.prems(1)]) (auto simp: ys)
    show "head_hash None xs = head_hash None ys'"
      using snoc.prems(3,4) xy by (simp add: ys linked_snoc same_row_def)
  qed (use snoc.prems in \<open>auto simp: ys linked_snoc\<close>)
  with xy show ?case by (simp add: ys list_all2_appendI)
qed

section \<open>The in-memory emitter refines the log\<close>

text \<open>An event the in-memory emitter holds and the row of the log it stands for.\<close>

definition same_record :: "stored_event \<Rightarrow> audit_row \<Rightarrow> bool" where
  "same_record x r \<longleftrightarrow> sv_id x = ar_id r \<and> sv_createdAt x = ar_created_at r \<and> sv_eventHash x = ar_event_hash r
     \<and> sv_prevEventHash x = ar_prev_event_hash r \<and> ae_tenantId (sv_event x) = tenant_of r
     \<and> ae_idempotencyKey (sv_event x) = ae_idempotencyKey (ar_event r)
     \<and> ar_hash_schema_version r = AUDIT_HASH_SCHEMA_VERSION"

definition same_answer :: "stored_event \<Rightarrow> stored_event \<Rightarrow> bool" where
  "same_answer x y \<longleftrightarrow> sv_id x = sv_id y \<and> sv_createdAt x = sv_createdAt y \<and> sv_eventHash x = sv_eventHash y
     \<and> sv_prevEventHash x = sv_prevEventHash y"

definition mirrors :: "stored_event list \<Rightarrow> audit_db \<Rightarrow> bool" where
  "mirrors evs db \<longleftrightarrow> list_all2 same_record evs (ad_events db) \<and> audit_ok db"

lemma latest_mirrors:
  assumes "list_all2 same_record evs rows"
  shows "map_option sv_eventHash (latestForTenant t evs) = head_hash None (chain_of t rows)"
  using assms
proof (induction evs arbitrary: rows rule: rev_induct)
  case Nil
  then show ?case by (simp add: latestForTenant_def chain_of_def)
next
  case (snoc x evs)
  then obtain r rows' where "rows = rows' @ [r]" "list_all2 same_record evs rows'" "same_record x r"
    by (auto simp: list_all2_append1 list_all2_Cons1)
  moreover from this have "ae_tenantId (sv_event x) = tenant_of r" "sv_eventHash x = ar_event_hash r"
    by (simp_all add: same_record_def)
  ultimately show ?case using snoc.IH [of rows'] by (auto simp: latestForTenant_def chain_of_snoc)
qed

lemma find_mirrors:
  assumes "list_all2 same_record evs rows"
  shows "rel_option same_record
    (find (\<lambda>x. ae_tenantId (sv_event x) = t \<and> ae_idempotencyKey (sv_event x) = Some k) evs) (find_by_key t k rows)"
  using assms by (induction rule: list_all2_induct) (auto simp: find_by_key_def same_record_def tenant_of_def)

lemma append_mirrors:
  assumes m: "mirrors evs db" and app: "append_event env i now e db = (Inr s, db2)"
  shows "\<exists>s' evs'. mem_append env i now e evs = (Inr s', evs') \<and> same_answer s s' \<and> mirrors evs' db2"
proof -
  let ?t = "ae_tenantId e"
  have all: "list_all2 same_record evs (ad_events db)" and ok: "audit_ok db"
    using m by (simp_all add: mirrors_def)
  obtain h where h: "ad_heads (ensure_head ?t db) ?t = Some h" using ensure_head_present by blast
  have "head_ok (ensure_head ?t db) ?t" by (rule ensure_head_ok [OF audit_okD(1) [OF ok]])
  then have prev: "ch_event_hash h = map_option sv_eventHash (latestForTenant ?t evs)"
    using h by (simp add: head_ok_def latest_mirrors [OF all])
  from app h have s: "s = \<lparr>sv_event = e, sv_id = i, sv_createdAt = now,
      sv_eventHash = event_hash env e i now (ch_event_hash h), sv_prevEventHash = ch_event_hash h\<rparr>"
    by (auto simp: append_event_def Let_def split: sum.splits)
  have "audit_ok db2" using append_event_ok [OF ok, of env i now e] app by simp
  moreover have "list_all2 same_record (evs @ [s]) (ad_events db2)"
    using append_event_InrD [OF app] all s
    by (auto simp: same_record_def tenant_of_def intro!: list_all2_appendI)
  ultimately show ?thesis
    by (auto simp: mem_append_def Let_def s prev [symmetric] same_answer_def mirrors_def)
qed

lemma emit_mirrors:
  assumes m: "mirrors evs db"
  shows "case fst (pg_emit env i now e db) of
      Inr s \<Rightarrow> \<exists>s' evs'. mem_emit env i now e evs = (Inr s', evs') \<and> same_answer s s'
        \<and> mirrors evs' (snd (pg_emit env i now e db))
    | Inl err \<Rightarrow> snd (pg_emit env i now e db) = db
        \<and> (err = Audit_idempotency_conflict \<and> mem_emit env i now e evs = (Inl err, evs) \<or> err = Audit_unique_violation)"
proof -
  let ?e = "normalizeAuditEventInput e"
  have fails: "fst (append_event env i now ?e db) = Inl err \<Longrightarrow>
      err = Audit_unique_violation \<and> snd (append_event env i now ?e db) = db" for err
    using ensure_head_present [of "ae_tenantId ?e" db]
    by (auto simp: append_event_def insert_event_def Let_def split: option.splits sum.splits if_splits)
  have fresh: ?thesis if "pg_emit env i now e db = append_event env i now ?e db"
    "mem_emit env i now e evs = mem_append env i now ?e evs"
  proof (cases "append_event env i now ?e db")
    case (Pair res db2)
    with append_mirrors [OF m, of env i now ?e] fails that show ?thesis by (cases res) auto
  qed
  show ?thesis
  proof (cases "ae_idempotencyKey e")
    case None
    then show ?thesis by (intro fresh) (simp_all add: pg_emit_def mem_emit_def Let_def)
  next
    case (Some k)
    have found: "rel_option same_record (find (\<lambda>x. ae_tenantId (sv_event x) = ae_tenantId e
        \<and> ae_idempotencyKey (sv_event x) = Some k) evs) (find_by_key (ae_tenantId e) k (ad_events db))"
      using m by (intro find_mirrors) (simp add: mirrors_def)
    show ?thesis
    proof (cases "find_by_key (ae_tenantId e) k (ad_events db)")
      case None
      with found Some show ?thesis by (intro fresh) (simp_all add: pg_emit_def mem_emit_def Let_def)
    next
      case hit: (Some r)
      with found obtain x where x: "find (\<lambda>x. ae_tenantId (sv_event x) = ae_tenantId e
        \<and> ae_idempotencyKey (sv_event x) = Some k) evs = Some x" "same_record x r" by (auto elim: option.rel_cases)
      then show ?thesis using Some hit m
        by (auto simp: pg_emit_def mem_emit_def Let_def key_conflict_def same_record_def same_answer_def stored_answer_def)
    qed
  qed
qed

text \<open>A second emit of an event answers from the log and leaves it alone, whatever happened first.\<close>

lemma pg_emit_again:
  assumes "pg_emit env i now e db = (Inr s, db1)" "ae_idempotencyKey e = Some k"
  shows "\<exists>s'. pg_emit env j later e db1 = (Inr s', db1) \<and> same_answer s s'"
proof (cases "find_by_key (ae_tenantId e) k (ad_events db)")
  case None
  from emit_fresh_key [OF assms None] assms(2) show ?thesis
    by (auto simp: pg_emit_def Let_def key_conflict_def stored_answer_def same_answer_def)
next
  case (Some hit)
  with assms have "db1 = db" "s = stored_answer (normalizeAuditEventInput e) hit"
    by (auto simp: pg_emit_def Let_def split: sum.splits if_splits)
  with assms Some show ?thesis by (auto simp: pg_emit_def Let_def same_answer_def split: sum.splits if_splits)
qed

end
