(* ===== verification/Merkle.thy ===== *)
theory Merkle
  imports Prelude "HOL-Library.Word"
begin

text \<open>
  The Merkle tree over a window of audit events (services/audit/src/merkle.ts, verify.ts). A
  \<open>Buffer\<close> is a list of bytes. \<open>keccak256\<close> comes from the viem package and is the argument \<open>h\<close> of
  every definition; what the soundness results rely on is named where it is used: its digests have
  32 bytes, and it does not collide on the inputs at hand.
\<close>

type_synonym buffer = "8 word list"

section \<open>Hashing\<close>

definition hashLeafKeccak :: "(buffer \<Rightarrow> buffer) \<Rightarrow> buffer \<Rightarrow> buffer" where
  "hashLeafKeccak h leaf = h ([0x00] @ leaf)"

text \<open>The UTF-8 text \<open>brain.audit.leaf-count.v1\<close>.\<close>

definition COUNT_LEAF_DOMAIN :: "(buffer \<Rightarrow> buffer) \<Rightarrow> buffer" where
  "COUNT_LEAF_DOMAIN h = h (map (\<lambda>c. word_of_nat (code_unit c)) ''brain.audit.leaf-count.v1'')"

text \<open>\<open>word.writeBigUInt64BE(n, 24)\<close> into 32 zero bytes; it throws above 64 bits (\<open>None\<close>).\<close>

definition uint64_be :: "nat \<Rightarrow> buffer" where
  "uint64_be n = map (\<lambda>i. word_of_nat (n div 256 ^ (7 - i))) [0..<8]"

definition countLeaf :: "(buffer \<Rightarrow> buffer) \<Rightarrow> nat \<Rightarrow> buffer" where
  "countLeaf h leafCount =
     h (COUNT_LEAF_DOMAIN h @ replicate 24 0 @ uint64_be leafCount)"

text \<open>\<open>Buffer.compare(a, b) <= 0\<close>: lexicographic on bytes, a prefix is smaller.\<close>

fun buffer_le :: "buffer \<Rightarrow> buffer \<Rightarrow> bool" where
  "buffer_le [] b = True"
| "buffer_le (x # xs) [] = False"
| "buffer_le (x # xs) (y # ys) = (x < y \<or> (x = y \<and> buffer_le xs ys))"

definition hashInternalKeccak :: "(buffer \<Rightarrow> buffer) \<Rightarrow> buffer \<Rightarrow> buffer \<Rightarrow> buffer" where
  "hashInternalKeccak h a b =
     (let (lo, hi) = (if buffer_le a b then (a, b) else (b, a)) in h ([0x01] @ lo @ hi))"

section \<open>Building the tree\<close>

record merkle_tree =
  mt_root :: buffer
  mt_leafCount :: nat
  mt_layers :: "buffer list list"

text \<open>One round of the pairing loop: the odd node at the end is paired with itself.\<close>

fun next_layer :: "(buffer \<Rightarrow> buffer) \<Rightarrow> buffer list \<Rightarrow> buffer list" where
  "next_layer h [] = []"
| "next_layer h [a] = [hashInternalKeccak h a a]"
| "next_layer h (a # b # rest) = hashInternalKeccak h a b # next_layer h rest"

lemma length_next_layer [simp]: "length (next_layer h xs) = (length xs + 1) div 2"
  by (induction h xs rule: next_layer.induct) auto

text \<open>The \<open>while\<close> loop: layers from \<open>prev\<close> up to the first layer of one node.\<close>

function layers_from :: "(buffer \<Rightarrow> buffer) \<Rightarrow> buffer list \<Rightarrow> buffer list list" where
  "layers_from h prev =
     (if length prev > 1 then prev # layers_from h (next_layer h prev) else [prev])"
  by pat_completeness auto
termination by (relation "measure (\<lambda>(h, prev). length prev)") auto

declare layers_from.simps [simp del]

definition buildTree :: "(buffer \<Rightarrow> buffer) \<Rightarrow> buffer list \<Rightarrow> merkle_tree" where
  "buildTree h leaves =
     (if length leaves = 0
      then \<lparr>mt_root = replicate 32 0, mt_leafCount = 0, mt_layers = []\<rparr>
      else let nodes = countLeaf h (length leaves) # leaves;
               layers = layers_from h (map (hashLeafKeccak h) nodes)
           in \<lparr>mt_root = hd (last layers), mt_leafCount = length leaves, mt_layers = layers\<rparr>)"

section \<open>Proofs\<close>

text \<open>\<open>xs[i]\<close>: \<open>undefined\<close> out of range.\<close>

definition js_at :: "'a list \<Rightarrow> nat \<Rightarrow> 'a option" where
  "js_at xs i = (if i < length xs then Some (xs ! i) else None)"

text \<open>
  The loop over all layers but the last. The index of an inner node is in range when the first one
  is; a \<open>makeProof\<close> beyond the last leaf pushes \<open>undefined\<close>, which \<open>None\<close> stands for.
\<close>

fun proof_path :: "buffer list list \<Rightarrow> nat \<Rightarrow> buffer option list" where
  "proof_path [] idx = []"
| "proof_path [layer] idx = []"
| "proof_path (layer # next # rest) idx =
     (let pair = xor idx 1;
          sibling = (if pair < length layer then js_at layer pair else js_at layer idx)
      in sibling # proof_path (next # rest) (idx div 2))"

definition proofForNode :: "merkle_tree \<Rightarrow> nat \<Rightarrow> buffer option list" where
  "proofForNode tree nodeIndex = proof_path (mt_layers tree) nodeIndex"

definition makeProof :: "merkle_tree \<Rightarrow> nat \<Rightarrow> buffer option list" where
  "makeProof tree leafIndex = proofForNode tree (leafIndex + 1)"

definition makeCountProof :: "merkle_tree \<Rightarrow> buffer option list" where
  "makeCountProof tree = proofForNode tree 0"

text \<open>The loop of \<open>verifyProof\<close>.\<close>

definition climb :: "(buffer \<Rightarrow> buffer) \<Rightarrow> buffer \<Rightarrow> buffer list \<Rightarrow> buffer" where
  "climb h = foldl (hashInternalKeccak h)"

definition verifyProof :: "(buffer \<Rightarrow> buffer) \<Rightarrow> buffer \<Rightarrow> buffer \<Rightarrow> buffer list \<Rightarrow> bool" where
  "verifyProof h rt leaf pf \<longleftrightarrow> climb h (hashLeafKeccak h leaf) pf = rt"

definition verifyInclusion :: "(buffer \<Rightarrow> buffer) \<Rightarrow> buffer \<Rightarrow> buffer \<Rightarrow> buffer list \<Rightarrow> bool" where
  "verifyInclusion h rt leaf pf = verifyProof h rt leaf pf"

section \<open>The climb\<close>

lemma xor_one_nat: "xor idx 1 = (if even idx then idx + 1 else idx - (1::nat))"
proof (cases "even idx")
  case True
  then show ?thesis by (simp add: xor_nat_def xor_one_eq nat_add_distrib)
next
  case False
  then show ?thesis by (simp add: xor_nat_def xor_one_eq nat_diff_distrib odd_pos Suc_leI)
qed

lemmas xor_one = xor_one_nat xor_one_nat [unfolded One_nat_def]

lemma buffer_le_total: "buffer_le a b \<or> buffer_le b a"
  by (induction a b rule: buffer_le.induct) auto

lemma buffer_le_antisym: "buffer_le a b \<Longrightarrow> buffer_le b a \<Longrightarrow> a = b"
proof (induction a b rule: buffer_le.induct)
  case (1 b) then show ?case by (cases b) auto
qed auto

text \<open>The order of the children does not matter.\<close>

lemma hashInternalKeccak_commute: "hashInternalKeccak h a b = hashInternalKeccak h b a"
  using buffer_le_total [of a b] buffer_le_antisym [of a b]
  by (auto simp: hashInternalKeccak_def)

lemma climb_simps [simp]:
  "climb h x [] = x" "climb h x (s # pf) = climb h (hashInternalKeccak h x s) pf"
  "climb h x (pf @ [s]) = hashInternalKeccak h (climb h x pf) s"
  by (simp_all add: climb_def)

definition internal_input :: "buffer \<Rightarrow> buffer \<Rightarrow> buffer" where
  "internal_input a b = (let (lo, hi) = (if buffer_le a b then (a, b) else (b, a)) in [0x01] @ lo @ hi)"

lemma hashInternalKeccak_input: "hashInternalKeccak h a b = h (internal_input a b)"
  by (simp add: hashInternalKeccak_def internal_input_def Let_def case_prod_unfold)

text \<open>Everything that is hashed to build a layer on top of another, a tree, and to check a proof.\<close>

fun layer_inputs :: "buffer list \<Rightarrow> buffer list" where
  "layer_inputs [] = []"
| "layer_inputs [a] = [internal_input a a]"
| "layer_inputs (a # b # rest) = internal_input a b # layer_inputs rest"

definition build_inputs :: "(buffer \<Rightarrow> buffer) \<Rightarrow> buffer list \<Rightarrow> buffer list" where
  "build_inputs h leaves =
     (let nodes = countLeaf h (length leaves) # leaves
      in map (\<lambda>l. [0x00] @ l) nodes
         @ concat (map layer_inputs (butlast (layers_from h (map (hashLeafKeccak h) nodes)))))"

fun climb_inputs :: "(buffer \<Rightarrow> buffer) \<Rightarrow> buffer \<Rightarrow> buffer list \<Rightarrow> buffer list" where
  "climb_inputs h x [] = []"
| "climb_inputs h x (s # pf) = internal_input x s # climb_inputs h (hashInternalKeccak h x s) pf"

definition verify_inputs :: "(buffer \<Rightarrow> buffer) \<Rightarrow> buffer \<Rightarrow> buffer list \<Rightarrow> buffer list" where
  "verify_inputs h leaf pf = ([0x00] @ leaf) # climb_inputs h (hashLeafKeccak h leaf) pf"

lemma climb_inputs_append:
  "climb_inputs h x (pf @ qs) = climb_inputs h x pf @ climb_inputs h (climb h x pf) qs"
  by (induction pf arbitrary: x) auto

lemma next_layer_inputs: "next_layer h xs = map h (layer_inputs xs)"
  by (induction xs rule: layer_inputs.induct) (simp_all add: hashInternalKeccak_input)

lemma length_layer_inputs [simp]: "length (layer_inputs xs) = (length xs + 1) div 2"
  by (induction xs rule: layer_inputs.induct) auto

lemma internal_input_commute: "internal_input a b = internal_input b a"
  using buffer_le_total [of a b] buffer_le_antisym [of a b] by (auto simp: internal_input_def)

text \<open>The parent of node \<open>i\<close> hashes node \<open>i\<close> and its sibling.\<close>

lemma layer_inputs_nth:
  "i < length xs \<Longrightarrow> layer_inputs xs ! (i div 2) =
     internal_input (xs ! i) (if xor i 1 < length xs then xs ! xor i 1 else xs ! i)"
proof (induction xs arbitrary: i rule: layer_inputs.induct)
  case (3 a b rest)
  consider "i = 0" | "i = 1" | k where "i = Suc (Suc k)" by (metis One_nat_def not0_implies_Suc)
  then show ?case
  proof cases
    case (3 k)
    then have "xor i 1 = Suc (Suc (xor k 1))" by (cases "even k") (auto simp: xor_one elim!: oddE)
    with 3 "3.IH" [of k] "3.prems" show ?thesis by simp
  qed (simp_all add: xor_one internal_input_commute [of a b])
qed (auto simp: xor_one)

lemma next_layer_nth:
  "i < length xs \<Longrightarrow> next_layer h xs ! (i div 2) =
     hashInternalKeccak h (xs ! i) (if xor i 1 < length xs then xs ! xor i 1 else xs ! i)"
  by (simp add: next_layer_inputs hashInternalKeccak_input layer_inputs_nth)

lemma layers_from_last: "xs \<noteq> [] \<Longrightarrow> length (last (layers_from h xs)) = 1"
proof (induction h xs rule: layers_from.induct)
  case (1 h xs)
  show ?case
  proof (cases "length xs > 1")
    case True
    then have "length (next_layer h xs) \<noteq> 0" by simp
    then have ne: "next_layer h xs \<noteq> []" by blast
    moreover have "layers_from h (next_layer h xs) \<noteq> []" by (subst layers_from.simps) simp
    ultimately show ?thesis using "1.IH" True by (subst layers_from.simps) simp
  next
    case False
    with "1.prems" have "length xs = 1" by (cases xs) auto
    then show ?thesis by (subst layers_from.simps) simp
  qed
qed

lemma layers_from_hd: "\<exists>rest. layers_from h xs = xs # rest"
  by (subst layers_from.simps) simp

lemma path_climbs:
  "i < length xs \<Longrightarrow> \<exists>pf. proof_path (layers_from h xs) i = map Some pf
     \<and> climb h (xs ! i) pf = hd (last (layers_from h xs))
     \<and> set (climb_inputs h (xs ! i) pf) \<subseteq> set (concat (map layer_inputs (butlast (layers_from h xs))))"
proof (induction h xs arbitrary: i rule: layers_from.induct)
  case (1 h xs)
  show ?case
  proof (cases "length xs > 1")
    case True
    let ?up = "next_layer h xs"
    let ?sib = "if xor i 1 < length xs then xs ! xor i 1 else xs ! i"
    from "1.prems" have "i div 2 < length ?up" by simp
    then obtain pf where pf: "proof_path (layers_from h ?up) (i div 2) = map Some pf"
      and up: "climb h (?up ! (i div 2)) pf = hd (last (layers_from h ?up))"
      and ins: "set (climb_inputs h (?up ! (i div 2)) pf)
        \<subseteq> set (concat (map layer_inputs (butlast (layers_from h ?up))))"
      using "1.IH" [OF True] by blast
    obtain rest where rest: "layers_from h ?up = ?up # rest" using layers_from_hd by blast
    have layers: "layers_from h xs = xs # ?up # rest"
      using True rest by (subst layers_from.simps) simp
    have "proof_path (layers_from h xs) i = map Some (?sib # pf)"
      using pf "1.prems" by (simp add: layers rest js_at_def Let_def)
    moreover have "climb h (xs ! i) (?sib # pf) = hd (last (layers_from h xs))"
      using up next_layer_nth [OF "1.prems", of h] by (simp only: climb_simps layers rest last.simps list.simps if_False)
    moreover have "set (climb_inputs h (xs ! i) (?sib # pf))
        \<subseteq> set (concat (map layer_inputs (butlast (layers_from h xs))))"
    proof -
      have "internal_input (xs ! i) ?sib \<in> set (layer_inputs xs)"
        using layer_inputs_nth [OF "1.prems"] "1.prems" by (metis \<open>i div 2 < length ?up\<close> length_layer_inputs length_next_layer nth_mem)
      moreover have "hashInternalKeccak h (xs ! i) ?sib = ?up ! (i div 2)"
        using next_layer_nth [OF "1.prems", of h] by simp
      moreover have "concat (map layer_inputs (butlast (layers_from h xs)))
          = layer_inputs xs @ concat (map layer_inputs (butlast (layers_from h ?up)))"
        by (simp add: layers rest)
      ultimately show ?thesis using ins unfolding climb_inputs.simps set_append set_simps by simp blast
    qed
    ultimately show ?thesis by blast
  next
    case False
    with "1.prems" obtain x where "xs = [x]" "i = 0" by (cases xs) auto
    then have "layers_from h xs = [[x]]" by (subst layers_from.simps) simp
    then have "proof_path (layers_from h xs) i = map Some []"
      and "climb h (xs ! i) [] = hd (last (layers_from h xs))"
      and "set (climb_inputs h (xs ! i) []) \<subseteq> set (concat (map layer_inputs (butlast (layers_from h xs))))"
      using \<open>xs = [x]\<close> \<open>i = 0\<close> by simp_all
    then show ?thesis by blast
  qed
qed

lemma node_proof_verifies:
  assumes "i \<le> length leaves" "leaves \<noteq> []"
  shows "\<exists>pf. proofForNode (buildTree h leaves) i = map Some pf
    \<and> verifyProof h (mt_root (buildTree h leaves)) ((countLeaf h (length leaves) # leaves) ! i) pf
    \<and> set (verify_inputs h ((countLeaf h (length leaves) # leaves) ! i) pf) \<subseteq> set (build_inputs h leaves)"
proof -
  let ?nodes = "countLeaf h (length leaves) # leaves"
  let ?xs = "map (hashLeafKeccak h) ?nodes"
  have i: "i < length ?xs" using assms(1) by simp
  then have start: "?xs ! i = hashLeafKeccak h (?nodes ! i)" by (simp only: nth_map length_map)
  from path_climbs [OF i, of h] obtain pf where pf:
    "proof_path (layers_from h ?xs) i = map Some pf"
    "climb h (hashLeafKeccak h (?nodes ! i)) pf = hd (last (layers_from h ?xs))"
    "set (climb_inputs h (hashLeafKeccak h (?nodes ! i)) pf)
       \<subseteq> set (concat (map layer_inputs (butlast (layers_from h ?xs))))"
    unfolding start by blast
  have tree: "mt_layers (buildTree h leaves) = layers_from h ?xs"
    "mt_root (buildTree h leaves) = hd (last (layers_from h ?xs))"
    using assms(2) by (simp_all add: buildTree_def Let_def)
  have "?nodes ! i \<in> set ?nodes" using i by (metis length_map nth_mem)
  then have "set (verify_inputs h (?nodes ! i) pf) \<subseteq> set (build_inputs h leaves)"
    using pf(3) unfolding verify_inputs_def build_inputs_def Let_def by auto
  then show ?thesis using pf(1,2) tree by (auto simp: proofForNode_def verifyProof_def)
qed

section \<open>What a root commits to\<close>

text \<open>An internal input determines its children when they are digests.\<close>

lemma internal_input_hd [simp]: "hd (internal_input a b) = 1" "internal_input a b \<noteq> []"
  by (simp_all add: internal_input_def Let_def case_prod_unfold)

lemma internal_input_child:
  assumes "internal_input c s = internal_input a b" "length c = 32" "length a = 32" "length b = 32"
  shows "c = a \<or> c = b"
proof -
  have "length (internal_input c s) = 1 + length c + length s" "length (internal_input a b) = 65"
    using assms(3,4) by (simp_all add: internal_input_def)
  with assms(1,2) have "length s = 32" by simp
  with assms show ?thesis by (auto simp: internal_input_def split: if_splits)
qed

lemma next_layer_parent:
  "z \<in> set (next_layer h xs) \<Longrightarrow>
     \<exists>a b. a \<in> set xs \<and> b \<in> set xs \<and> internal_input a b \<in> set (layer_inputs xs) \<and> z = h (internal_input a b)"
  by (induction h xs rule: next_layer.induct) (auto simp: hashInternalKeccak_input)

lemma climb_through_layer:
  assumes digest: "\<And>x. length (h x) = 32" and inj: "inj_on h D"
    and start: "y = h (0 # leaf)" "0 # leaf \<in> D" and steps: "set (climb_inputs h y pf) \<subseteq> D"
  shows "xs \<noteq> [] \<Longrightarrow> \<forall>x \<in> set xs. length x = 32 \<Longrightarrow>
    set (concat (map layer_inputs (butlast (layers_from h xs)))) \<subseteq> D \<Longrightarrow>
    climb h y pf = hd (last (layers_from h xs)) \<Longrightarrow>
    \<exists>pf1 pf2. pf = pf1 @ pf2 \<and> climb h y pf1 \<in> set xs"
proof (induction "length xs" arbitrary: xs rule: less_induct)
  case less
  show ?case
  proof (cases "length xs > 1")
    case False
    with less.prems(1) obtain x where "xs = [x]" by (cases xs) auto
    then have "layers_from h xs = [[x]]" by (subst layers_from.simps) simp
    with less.prems(4) \<open>xs = [x]\<close> have "pf = pf @ [] \<and> climb h y pf \<in> set xs" by simp
    then show ?thesis by blast
  next
    case True
    let ?up = "next_layer h xs"
    have layers: "layers_from h xs = xs # layers_from h ?up" "layers_from h ?up \<noteq> []"
      using True layers_from_hd [of h ?up] by (subst layers_from.simps, auto)
    have "length ?up < length xs" "?up \<noteq> []"
      using True by (auto simp flip: length_greater_0_conv)
    moreover have "\<forall>x \<in> set ?up. length x = 32" using next_layer_parent digest by metis
    moreover have "set (concat (map layer_inputs (butlast (layers_from h ?up)))) \<subseteq> D"
      using less.prems(3) layers by simp
    moreover have "climb h y pf = hd (last (layers_from h ?up))" using less.prems(4) layers by simp
    ultimately obtain pf1 pf2 where pf: "pf = pf1 @ pf2" and "climb h y pf1 \<in> set ?up"
      using less.hyps by blast
    then obtain a b where ab: "a \<in> set xs" "b \<in> set xs" "internal_input a b \<in> set (layer_inputs xs)"
      and top: "climb h y pf1 = h (internal_input a b)" using next_layer_parent by blast
    have in_D: "internal_input a b \<in> D" using ab(3) less.prems(3) layers by auto
    show ?thesis
    proof (cases pf1 rule: rev_cases)
      case Nil
      then have "0 # leaf = internal_input a b"
        using top start in_D inj by (auto dest: inj_onD)
      then have "hd (0 # leaf) = (1 :: 8 word)" by simp
      then show ?thesis by simp
    next
      case (snoc q s)
      let ?c = "climb h y q"
      have "internal_input ?c s \<in> D" using steps by (auto simp: pf snoc climb_inputs_append)
      then have "internal_input ?c s = internal_input a b"
        using top in_D inj by (auto simp: snoc hashInternalKeccak_input dest: inj_onD)
      moreover have "length ?c = 32"
        using digest start(1) by (cases q rule: rev_cases) (simp_all add: hashInternalKeccak_input)
      ultimately have "?c \<in> set xs" using internal_input_child [of ?c s a b] ab less.prems(2) by auto
      then show ?thesis using pf snoc by (intro exI [of _ q] exI [of _ "s # pf2"]) simp
    qed
  qed
qed

lemma verified_in_layer:
  assumes digest: "\<And>x. length (h x) = 32" and ne: "leaves \<noteq> []"
    and inj: "inj_on h (set (build_inputs h leaves) \<union> set (verify_inputs h leaf pf))"
    and ok: "verifyProof h (mt_root (buildTree h leaves)) leaf pf"
  shows "leaf = countLeaf h (length leaves) \<or> leaf \<in> set leaves"
proof -
  let ?nodes = "countLeaf h (length leaves) # leaves"
  let ?xs = "map (hashLeafKeccak h) ?nodes"
  let ?D = "set (build_inputs h leaves) \<union> set (verify_inputs h leaf pf)"
  have "climb h (hashLeafKeccak h leaf) pf = hd (last (layers_from h ?xs))"
    using ok ne by (simp add: verifyProof_def buildTree_def Let_def)
  moreover have "\<forall>x \<in> set ?xs. length x = 32" using digest by (auto simp: hashLeafKeccak_def)
  moreover have "set (concat (map layer_inputs (butlast (layers_from h ?xs)))) \<subseteq> ?D"
    by (auto simp: build_inputs_def Let_def)
  ultimately obtain pf1 pf2 where pf: "pf = pf1 @ pf2"
    and on_layer: "climb h (hashLeafKeccak h leaf) pf1 \<in> set ?xs"
    using climb_through_layer [OF digest inj, of "hashLeafKeccak h leaf" leaf pf ?xs]
    by (auto simp: hashLeafKeccak_def verify_inputs_def)
  then obtain n where n: "n \<in> set ?nodes" "climb h (hashLeafKeccak h leaf) pf1 = h (0 # n)"
    by (auto simp: hashLeafKeccak_def)
  have nD: "0 # n \<in> ?D" using n(1) by (auto simp: build_inputs_def Let_def)
  show ?thesis
  proof (cases pf1 rule: rev_cases)
    case Nil
    then have "h (0 # leaf) = h (0 # n)" using n(2) by (simp add: hashLeafKeccak_def)
    then have "0 # leaf = 0 # n" using inj nD by (auto simp: verify_inputs_def dest: inj_onD)
    with n(1) show ?thesis by simp
  next
    case (snoc q s)
    let ?i = "internal_input (climb h (hashLeafKeccak h leaf) q) s"
    have "?i \<in> ?D" by (auto simp: verify_inputs_def pf snoc climb_inputs_append)
    moreover have "h ?i = h (0 # n)" using n(2) by (simp add: snoc hashInternalKeccak_input)
    ultimately have "?i = 0 # n" using inj nD by (meson inj_onD)
    then have "(1 :: 8 word) = 0" using internal_input_hd(1) [of "climb h (hashLeafKeccak h leaf) q" s] by simp
    then show ?thesis by simp
  qed
qed

section \<open>Count leaves\<close>

lemma digits_determine:
  fixes b m n :: nat
  shows "(\<And>j. j < k \<Longrightarrow> m div b ^ j mod b = n div b ^ j mod b) \<Longrightarrow> m mod b ^ k = n mod b ^ k"
proof (induction k)
  case (Suc k)
  have "x mod b ^ Suc k = b ^ k * (x div b ^ k mod b) + x mod b ^ k" for x :: nat
    using mod_mult2_eq [of x "b ^ k" b] by (simp add: mult.commute)
  with Suc show ?case by simp
qed simp

lemma uint64_be_inject:
  assumes "m < 2 ^ 64" "n < 2 ^ 64" "uint64_be m = uint64_be n"
  shows "m = n"
proof -
  have "m div 256 ^ j mod 256 = n div 256 ^ j mod 256" if "j < 8" for j
  proof -
    have i: "[0..<8] ! (7 - j) = 7 - j" by (subst nth_upt) auto
    have byte: "uint64_be k ! (7 - j) = word_of_nat (k div 256 ^ j)" for k
      unfolding uint64_be_def using that by (subst nth_map) (simp_all only: i length_upt, auto)
    have "unat (word_of_nat (m div 256 ^ j) :: 8 word) = unat (word_of_nat (n div 256 ^ j) :: 8 word)"
      using assms(3) byte by metis
    then show ?thesis by (simp add: unat_of_nat)
  qed
  then have "m mod 256 ^ 8 = n mod 256 ^ 8" by (rule digits_determine)
  with assms(1,2) show ?thesis by simp
qed

text \<open>What is hashed into a count leaf.\<close>

definition count_input :: "(buffer \<Rightarrow> buffer) \<Rightarrow> nat \<Rightarrow> buffer" where
  "count_input h n = COUNT_LEAF_DOMAIN h @ replicate 24 0 @ uint64_be n"

lemma countLeaf_inject:
  assumes "inj_on h {count_input h m, count_input h n}" "m < 2 ^ 64" "n < 2 ^ 64"
    and "countLeaf h m = countLeaf h n"
  shows "m = n"
proof -
  have "h (count_input h m) = h (count_input h n)"
    using assms(4) unfolding countLeaf_def count_input_def .
  then have "count_input h m = count_input h n" by (rule inj_onD [OF assms(1)]) simp_all
  then have "uint64_be m = uint64_be n" unfolding count_input_def same_append_eq .
  then show ?thesis by (rule uint64_be_inject [OF assms(2,3)])
qed

section \<open>Properties\<close>

text \<open>
  A digest of 32 bytes for the examples, made of the length and two bytes of its input, and how to see
  that it does not collide on a list.
\<close>

definition sample_digest :: "buffer \<Rightarrow> buffer" where
  "sample_digest x = replicate 29 0 @
     (let n = word_of_nat (length x); m = (if x = [] then 0 else x ! (length x div 2));
          z = (if x = [] then 0 else last x)
      in [n, m, 31 * n + 5 * m + 3 * z + 1])"

lemma length_sample_digest [simp]: "length (sample_digest x) = 32"
  by (simp add: sample_digest_def Let_def)

lemma inj_on_list: "distinct (map h (remdups xs)) \<Longrightarrow> inj_on h (set xs)"
  by (simp add: distinct_map)

text \<open>C23 (roundtrip). Whatever \<open>keccak256\<close> is, the proof the builder makes for each event of a nonempty window
  verifies against the root of the window, and so does the proof of its count leaf, which certifies
  the number of events published beside the root.\<close>

theorem every_leaf_verifies:
  assumes "leaves \<noteq> []"
  shows "(\<forall>i < length leaves. \<exists>pf. makeProof (buildTree h leaves) i = map Some pf
      \<and> verifyInclusion h (mt_root (buildTree h leaves)) (leaves ! i) pf)
    \<and> (\<exists>pf. makeCountProof (buildTree h leaves) = map Some pf
      \<and> verifyInclusion h (mt_root (buildTree h leaves)) (countLeaf h (length leaves)) pf)"
proof (intro conjI allI impI)
  fix i assume "i < length leaves"
  then show "\<exists>pf. makeProof (buildTree h leaves) i = map Some pf
      \<and> verifyInclusion h (mt_root (buildTree h leaves)) (leaves ! i) pf"
    using node_proof_verifies [OF _ assms, of "i + 1" h]
    by (auto simp: makeProof_def verifyInclusion_def)
next
  show "\<exists>pf. makeCountProof (buildTree h leaves) = map Some pf
      \<and> verifyInclusion h (mt_root (buildTree h leaves)) (countLeaf h (length leaves)) pf"
    using node_proof_verifies [OF _ assms, of 0 h]
    by (auto simp: makeCountProof_def verifyInclusion_def)
qed

theorem every_leaf_verifies_witness:
  "\<exists>pf. makeCountProof (buildTree sample_digest [[1], [2]]) = map Some pf
     \<and> verifyInclusion sample_digest (mt_root (buildTree sample_digest [[1], [2]]))
         (countLeaf sample_digest 2) pf"
  using every_leaf_verifies [of "[[1], [2]]" sample_digest] by (simp add: numeral_2_eq_2)

text \<open>C21 (safety). A proof that verifies against the root of a window is a proof of one of its events (or of its
  count leaf), whoever made it and whatever its length: a digest of 32 bytes and no collision among the
  inputs hashed to build the tree and to check the proof are all it takes. In particular no internal
  node passes for an event.\<close>

theorem verified_means_included:
  assumes "\<And>x. length (h x) = 32" and "leaves \<noteq> []"
    and "inj_on h (set (build_inputs h leaves) \<union> set (verify_inputs h leaf pf))"
    and "verifyInclusion h (mt_root (buildTree h leaves)) leaf pf"
  shows "leaf = countLeaf h (length leaves) \<or> leaf \<in> set leaves"
  using verified_in_layer [OF assms(1-3)] assms(4) by (simp add: verifyInclusion_def)

theorem verified_means_included_witness:
  "\<exists>pf. verifyInclusion sample_digest (mt_root (buildTree sample_digest [[1], [2]])) [2] pf
     \<and> ([2] = countLeaf sample_digest 2 \<or> [2] \<in> set [[1], [2 :: 8 word]])"
proof -
  let ?h = sample_digest
  let ?pf = "[hashLeafKeccak ?h [2], hashInternalKeccak ?h (hashLeafKeccak ?h (countLeaf ?h 2)) (hashLeafKeccak ?h [1])]"
  have "inj_on ?h (set (build_inputs ?h [[1], [2]] @ verify_inputs ?h [2] ?pf))"
    by (rule inj_on_list) code_simp
  moreover have ok: "verifyInclusion ?h (mt_root (buildTree ?h [[1], [2]])) [2] ?pf" by code_simp
  ultimately have "[2] = countLeaf ?h (length [[1], [2 :: 8 word]]) \<or> [2] \<in> set [[1], [2 :: 8 word]]"
    by (intro verified_means_included [where pf = ?pf]) simp_all
  with ok show ?thesis by auto
qed

lemma nodes_of_equal_roots:
  assumes digest: "\<And>x. length (h x) = 32" and ne: "xs \<noteq> []" "ys \<noteq> []"
    and inj: "inj_on h (set (build_inputs h xs) \<union> set (build_inputs h ys))"
    and eq: "mt_root (buildTree h xs) = mt_root (buildTree h ys)"
    and y: "y \<in> set (countLeaf h (length ys) # ys)"
  shows "y \<in> set (countLeaf h (length xs) # xs)"
proof -
  obtain i where i: "i \<le> length ys" "(countLeaf h (length ys) # ys) ! i = y"
    using y by (metis in_set_conv_nth length_Cons less_Suc_eq_le)
  then obtain pf where "verifyProof h (mt_root (buildTree h xs)) y pf"
    and ins: "set (verify_inputs h y pf) \<subseteq> set (build_inputs h ys)"
    using node_proof_verifies [OF i(1) ne(2), of h] eq by auto
  moreover have "inj_on h (set (build_inputs h xs) \<union> set (verify_inputs h y pf))"
    by (rule inj_on_subset [OF inj]) (use ins in blast)
  ultimately have "y = countLeaf h (length xs) \<or> y \<in> set xs"
    using verified_in_layer [of h xs y pf] digest ne(1) by blast
  then show ?thesis by simp
qed

lemma root_binds:
  assumes "\<And>x. length (h x) = 32" and "xs \<noteq> []" "ys \<noteq> []" and "length xs < 2 ^ 64" "length ys < 2 ^ 64"
    and "inj_on h (set (build_inputs h xs) \<union> set (build_inputs h ys)
      \<union> {count_input h (length xs), count_input h (length ys)})"
    and "countLeaf h (length xs) \<notin> set ys" "countLeaf h (length ys) \<notin> set xs"
    and "mt_root (buildTree h xs) = mt_root (buildTree h ys)"
  shows "set xs = set ys \<and> length xs = length ys"
proof -
  have built: "inj_on h (set (build_inputs h xs) \<union> set (build_inputs h ys))"
    using assms(6) by (rule inj_on_subset) blast
  have sub: "set (countLeaf h (length ys) # ys) \<subseteq> set (countLeaf h (length xs) # xs)"
    using nodes_of_equal_roots [OF assms(1-3) built assms(9)] by blast
  have sup: "set (countLeaf h (length xs) # xs) \<subseteq> set (countLeaf h (length ys) # ys)"
    using nodes_of_equal_roots [OF assms(1,3,2) _ assms(9) [symmetric]] built by (metis Un_commute subsetI)
  have count: "countLeaf h (length xs) = countLeaf h (length ys)" using sub assms(8) by auto
  have "inj_on h {count_input h (length xs), count_input h (length ys)}"
    using assms(6) by (rule inj_on_subset) blast
  then have "length xs = length ys" using assms(4,5) count by (rule countLeaf_inject)
  moreover have "set xs = set ys" using sub sup assms(7,8) count by auto
  ultimately show ?thesis by simp
qed

text \<open>C22 (safety). One root stands for one set of events: two windows with the same root hold the same events and
  the same number of them, provided no event hash is itself a count leaf and \<open>keccak256\<close> does not
  collide on what is hashed to build them. The count leaf is what makes a truncated or padded
  window visible; the order of the events is not committed to, since siblings are sorted.\<close>

theorem root_binds_events:
  assumes "\<And>x. length (h x) = 32" and "xs \<noteq> []" "ys \<noteq> []" and "length xs < 2 ^ 64" "length ys < 2 ^ 64"
    and "inj_on h (set (build_inputs h xs) \<union> set (build_inputs h ys)
      \<union> {count_input h (length xs), count_input h (length ys)})"
    and "countLeaf h (length xs) \<notin> set ys" "countLeaf h (length ys) \<notin> set xs"
    and "mt_root (buildTree h xs) = mt_root (buildTree h ys)"
  shows "set xs = set ys \<and> length xs = length ys"
  by (rule root_binds [OF assms])

text \<open>The siblings of the last pair are swapped between the two windows, and the root is the same.\<close>

theorem root_binds_events_witness:
  "mt_root (buildTree sample_digest [[1], [2], [3]]) = mt_root (buildTree sample_digest [[1], [3], [2]])
   \<and> set [[1], [2], [3 :: 8 word]] = set [[1], [3], [2]]"
proof -
  let ?h = sample_digest and ?xs = "[[1], [2], [3 :: 8 word]]" and ?ys = "[[1], [3], [2 :: 8 word]]"
  have "inj_on ?h (set (build_inputs ?h ?xs @ build_inputs ?h ?ys @ [count_input ?h 3, count_input ?h 3]))"
    by (rule inj_on_list) code_simp
  then have inj: "inj_on ?h (set (build_inputs ?h ?xs) \<union> set (build_inputs ?h ?ys)
      \<union> {count_input ?h (length ?xs), count_input ?h (length ?ys)})"
    by (simp add: Un_assoc numeral_3_eq_3)
  have fresh: "countLeaf ?h (length ?xs) \<notin> set ?ys" "countLeaf ?h (length ?ys) \<notin> set ?xs" by code_simp+
  have root: "mt_root (buildTree ?h ?xs) = mt_root (buildTree ?h ?ys)" by code_simp
  have "set ?xs = set ?ys \<and> length ?xs = length ?ys"
    by (rule root_binds_events [OF _ _ _ _ _ inj fresh root]) simp_all
  with root show ?thesis by blast
qed

end
