(* ===== verification/Anchors.thy ===== *)
theory Anchors
  imports Audit_Facts Merkle
begin

text \<open>
  Anchoring the audit log (services/audit/src/anchorWindow.ts, repository.ts, publisher.ts,
  reconciler.ts): which window of events is anchored next, the \<open>audit_anchors\<close> table, the publisher
  and the reconciler. The chain itself is reached through a broadcaster and a reader, which are
  arguments; so is \<open>keccak256\<close>. Timestamps are milliseconds. Row-level security restricts a
  tenant-scoped query to the tenant's rows, so those queries take the tenant as an argument.
\<close>

section \<open>Windows (anchorWindow.ts)\<close>

definition MAX_ANCHOR_WINDOW_MS :: int where
  "MAX_ANCHOR_WINDOW_MS = 7 * 24 * 60 * 60 * 1000"

record anchor_window =
  aw_periodStart :: int
  aw_periodEnd :: int

definition nextAnchorWindow :: "int option \<Rightarrow> int \<Rightarrow> int \<Rightarrow> int \<Rightarrow> anchor_window" where
  "nextAnchorWindow coveredTo oldestUnanchored now maxWindowMs =
     (let afterCovered = (case coveredTo of None \<Rightarrow> oldestUnanchored | Some c \<Rightarrow> c + 1);
          periodStart = max afterCovered oldestUnanchored
      in \<lparr>aw_periodStart = periodStart,
          aw_periodEnd = (if now - periodStart > maxWindowMs then periodStart + maxWindowMs else now)\<rparr>)"

section \<open>The table (repository.ts)\<close>

datatype anchor_status = Anchor_pending | Anchor_confirmed | Anchor_reverted

record anchor_row =
  an_id :: string
  an_tenant_id :: string
  an_merkle_root :: buffer
  an_event_count :: nat
  an_period_start :: int
  an_period_end :: int
  an_onchain_tx_hash :: "buffer option"
  an_onchain_block_number :: "int option"
  an_onchain_status :: anchor_status
  an_onchain_contract_address :: "string option"
  an_created_at :: int

record anchor_world =
  az_audit :: audit_db
  az_anchors :: "anchor_row list"
  az_now :: int
  az_next :: nat
  az_log :: "string list"

record anchor_env =
  ae_audit :: audit_env
  ae_keccak :: "buffer \<Rightarrow> buffer"

text \<open>\<open>Buffer.from(hash, "hex")\<close>.\<close>

fun hex_bytes :: "string \<Rightarrow> buffer" where
  "hex_bytes (a # b # r) =
     (case (hex_digit_val a, hex_digit_val b) of
        (Some x, Some y) \<Rightarrow> word_of_nat (16 * x + y) # hex_bytes r
      | _ \<Rightarrow> [])"
| "hex_bytes r = []"

text \<open>\<open>ORDER BY created_at ASC, id ASC\<close>.\<close>

definition before_row :: "int \<times> string \<Rightarrow> int \<times> string \<Rightarrow> bool" where
  "before_row a b \<longleftrightarrow> fst a < fst b \<or> fst a = fst b \<and> str_lt (snd a) (snd b)"

fun insert_by :: "('a \<Rightarrow> int \<times> string) \<Rightarrow> 'a \<Rightarrow> 'a list \<Rightarrow> 'a list" where
  "insert_by key x [] = [x]"
| "insert_by key x (y # ys) = (if before_row (key y) (key x) then y # insert_by key x ys else x # y # ys)"

definition order_by :: "('a \<Rightarrow> int \<times> string) \<Rightarrow> 'a list \<Rightarrow> 'a list" where
  "order_by key xs = foldr (insert_by key) xs []"

definition event_order :: "audit_row \<Rightarrow> int \<times> string" where
  "event_order r = (ar_created_at r, ar_id r)"

definition in_window :: "int \<Rightarrow> int \<Rightarrow> audit_row \<Rightarrow> bool" where
  "in_window lo hi r \<longleftrightarrow> lo \<le> ar_created_at r \<and> ar_created_at r \<le> hi"

definition listEventsForAnchor :: "string \<Rightarrow> int \<Rightarrow> int \<Rightarrow> audit_row list \<Rightarrow> audit_row list" where
  "listEventsForAnchor t periodStart periodEnd rows =
     order_by event_order (filter (\<lambda>r. tenant_of r = t \<and> in_window periodStart periodEnd r) rows)"

definition findAnchorByRoot :: "string \<Rightarrow> buffer \<Rightarrow> anchor_row list \<Rightarrow> anchor_row option" where
  "findAnchorByRoot t rt anchors = find (\<lambda>a. an_tenant_id a = t \<and> an_merkle_root a = rt) anchors"

text \<open>\<open>ORDER BY period_end DESC LIMIT 1\<close>, and the earliest window that contains an instant.\<close>

definition findLatestAnchor :: "string \<Rightarrow> anchor_row list \<Rightarrow> anchor_row option" where
  "findLatestAnchor t anchors =
     (case filter (\<lambda>a. an_tenant_id a = t) anchors of [] \<Rightarrow> None
      | a # rest \<Rightarrow> Some (foldl (\<lambda>best x. if an_period_end best < an_period_end x then x else best) a rest))"

definition findAnchorForEvent :: "string \<Rightarrow> int \<Rightarrow> anchor_row list \<Rightarrow> anchor_row option" where
  "findAnchorForEvent t instant anchors =
     (case filter (\<lambda>a. an_tenant_id a = t \<and> an_period_start a \<le> instant \<and> instant \<le> an_period_end a
             \<and> an_onchain_status a \<noteq> Anchor_reverted) anchors of [] \<Rightarrow> None
      | a # rest \<Rightarrow> Some (foldl (\<lambda>best x. if an_period_end x < an_period_end best then x else best) a rest))"

datatype anchor_error =
    Anchor_check_violation
  | Anchor_insert_no_row
  | Broadcast_failed string
  | Batch_count_mismatch
  | Reader_failed string
  | Orphan_emit_failed audit_error

text \<open>
  \<open>INSERT ... ON CONFLICT (tenant_id, merkle_root) DO NOTHING RETURNING *\<close>, the look-up of the row
  that won, and the CHECK on the window.
\<close>

definition insertAnchor :: "anchor_row \<Rightarrow> anchor_world \<Rightarrow> (anchor_error + anchor_row) \<times> anchor_world" where
  "insertAnchor a w =
     (if an_period_end a < an_period_start a then (Inl Anchor_check_violation, w)
      else case findAnchorByRoot (an_tenant_id a) (an_merkle_root a) (az_anchors w) of
        None \<Rightarrow> (Inr a, w\<lparr>az_anchors := az_anchors w @ [a]\<rparr>)
      | Some existing \<Rightarrow> (Inr existing, w))"

definition update_anchor :: "string \<Rightarrow> string \<Rightarrow> (anchor_row \<Rightarrow> anchor_row) \<Rightarrow> anchor_world \<Rightarrow> anchor_world" where
  "update_anchor t i f w =
     w\<lparr>az_anchors := map (\<lambda>a. if an_tenant_id a = t \<and> an_id a = i then f a else a) (az_anchors w)\<rparr>"

definition setAnchorTxHash :: "string \<Rightarrow> string \<Rightarrow> buffer \<Rightarrow> int \<Rightarrow> string option \<Rightarrow> anchor_world \<Rightarrow> anchor_world" where
  "setAnchorTxHash t i txHash block contract =
     update_anchor t i (\<lambda>a. a\<lparr>an_onchain_tx_hash := Some txHash, an_onchain_block_number := Some block,
       an_onchain_status := Anchor_confirmed,
       an_onchain_contract_address := first_of contract (an_onchain_contract_address a)\<rparr>)"

definition setAnchorReverted :: "string \<Rightarrow> string \<Rightarrow> anchor_world \<Rightarrow> anchor_world" where
  "setAnchorReverted t i = update_anchor t i (\<lambda>a. a\<lparr>an_onchain_status := Anchor_reverted\<rparr>)"

section \<open>The publisher (publisher.ts)\<close>

datatype broadcast_status = B_confirmed | B_already_anchored | B_reverted | B_unresolved

record broadcast_input =
  bi_tenantId :: string
  bi_merkleRoot :: buffer
  bi_eventCount :: nat
  bi_periodStart :: int
  bi_periodEnd :: int

record broadcast_result =
  br_txHash :: buffer
  br_blockNumber :: int
  br_status :: broadcast_status
  br_contractAddress :: "string option"

definition broadcast_of :: "anchor_row \<Rightarrow> broadcast_input" where
  "broadcast_of a = \<lparr>bi_tenantId = an_tenant_id a, bi_merkleRoot = an_merkle_root a,
     bi_eventCount = an_event_count a, bi_periodStart = an_period_start a, bi_periodEnd = an_period_end a\<rparr>"

definition window_root :: "anchor_env \<Rightarrow> audit_row list \<Rightarrow> buffer" where
  "window_root env rows = mt_root (buildTree (ae_keccak env) (map (\<lambda>r. hex_bytes (ar_event_hash r)) rows))"

definition reverted_log :: string where
  "reverted_log = ''recomputed anchor window matches a terminally reverted anchor''"

text \<open>\<open>anchorId\<close> rewrites the prefix of a fresh event id.\<close>

definition createPendingAnchor ::
  "anchor_env \<Rightarrow> string \<Rightarrow> int \<Rightarrow> int \<Rightarrow> anchor_world \<Rightarrow> (anchor_error + anchor_row option) \<times> anchor_world" where
  "createPendingAnchor env t periodStart periodEnd w =
     (let events = listEventsForAnchor t periodStart periodEnd (ad_events (az_audit w)) in
      if events = [] then (Inr None, w)
      else let rt = window_root env events in
      case findAnchorByRoot t rt (az_anchors w) of
        Some existing \<Rightarrow>
          (Inr (Some existing),
           if an_onchain_status existing = Anchor_reverted then w\<lparr>az_log := az_log w @ [reverted_log]\<rparr> else w)
      | None \<Rightarrow>
          (case insertAnchor \<lparr>an_id = ''anchor_'' @ show_nat (az_next w), an_tenant_id = t, an_merkle_root = rt,
                  an_event_count = length events, an_period_start = periodStart, an_period_end = periodEnd,
                  an_onchain_tx_hash = None, an_onchain_block_number = None,
                  an_onchain_status = Anchor_pending, an_onchain_contract_address = None,
                  an_created_at = az_now w\<rparr> (w\<lparr>az_next := az_next w + 1\<rparr>) of
             (Inl err, _) \<Rightarrow> (Inl err, w)
           | (Inr row, w') \<Rightarrow> (Inr (Some row), w')))"

definition is_terminal :: "anchor_row \<Rightarrow> bool" where
  "is_terminal a \<longleftrightarrow> an_onchain_tx_hash a \<noteq> None \<or> an_onchain_status a = Anchor_reverted"

definition record_broadcast :: "anchor_row \<Rightarrow> broadcast_result \<Rightarrow> anchor_world \<Rightarrow> anchor_world" where
  "record_broadcast a b w =
     (if br_status b = B_reverted then setAnchorReverted (an_tenant_id a) (an_id a) w
      else if br_status b \<noteq> B_unresolved
      then setAnchorTxHash (an_tenant_id a) (an_id a) (br_txHash b) (br_blockNumber b) (br_contractAddress b) w
      else w)"

definition publishPendingAnchor ::
  "(broadcast_input \<Rightarrow> string + broadcast_result) \<Rightarrow> anchor_row \<Rightarrow> anchor_world
    \<Rightarrow> (anchor_error + anchor_row option) \<times> anchor_world" where
  "publishPendingAnchor broadcaster a w =
     (if is_terminal a then (Inr (Some a), w)
      else case broadcaster (broadcast_of a) of
        Inl err \<Rightarrow> (Inl (Broadcast_failed err), w)
      | Inr b \<Rightarrow> let w' = record_broadcast a b w
                in (Inr (findAnchorByRoot (an_tenant_id a) (an_merkle_root a) (az_anchors w')), w'))"

definition publishAnchor ::
  "anchor_env \<Rightarrow> (broadcast_input \<Rightarrow> string + broadcast_result) \<Rightarrow> string \<Rightarrow> int \<Rightarrow> int \<Rightarrow> anchor_world
    \<Rightarrow> (anchor_error + anchor_row option) \<times> anchor_world" where
  "publishAnchor env broadcaster t periodStart periodEnd w =
     (case createPendingAnchor env t periodStart periodEnd w of
        (Inl err, w') \<Rightarrow> (Inl err, w')
      | (Inr None, w') \<Rightarrow> (Inr None, w')
      | (Inr (Some row), w') \<Rightarrow> publishPendingAnchor broadcaster row w')"

record batch_summary =
  bs_attempted :: nat
  bs_skippedTerminal :: nat
  bs_confirmed :: nat
  bs_alreadyAnchored :: nat
  bs_reverted :: nat
  bs_unresolved :: nat
  bs_txHashes :: "buffer list"

definition count_status :: "broadcast_result \<Rightarrow> batch_summary \<Rightarrow> batch_summary" where
  "count_status b s =
     (let tx = (if br_txHash b \<noteq> [] then List.insert (br_txHash b) (bs_txHashes s) else bs_txHashes s) in
      case br_status b of
        B_unresolved \<Rightarrow> s\<lparr>bs_unresolved := bs_unresolved s + 1\<rparr>
      | B_reverted \<Rightarrow> s\<lparr>bs_reverted := bs_reverted s + 1\<rparr>
      | B_already_anchored \<Rightarrow> s\<lparr>bs_alreadyAnchored := bs_alreadyAnchored s + 1, bs_txHashes := tx\<rparr>
      | B_confirmed \<Rightarrow> s\<lparr>bs_confirmed := bs_confirmed s + 1, bs_txHashes := tx\<rparr>)"

text \<open>The loop over the results, one transaction per row; \<open>txCount\<close> is the number of \<open>bs_txHashes\<close>.\<close>

fun record_batch ::
  "anchor_row list \<Rightarrow> broadcast_result list \<Rightarrow> batch_summary \<Rightarrow> anchor_world \<Rightarrow> batch_summary \<times> anchor_world" where
  "record_batch (a # as) (b # bs) s w = record_batch as bs (count_status b s) (record_broadcast a b w)"
| "record_batch _ _ s w = (s, w)"

definition publishPendingAnchorBatch ::
  "(broadcast_input list \<Rightarrow> string + broadcast_result list) \<Rightarrow> anchor_row list \<Rightarrow> anchor_world
    \<Rightarrow> (anchor_error + batch_summary) \<times> anchor_world" where
  "publishPendingAnchorBatch broadcaster rows w =
     (let pending = filter (\<lambda>a. \<not> is_terminal a) rows;
          summary = \<lparr>bs_attempted = length pending, bs_skippedTerminal = length rows - length pending,
            bs_confirmed = 0, bs_alreadyAnchored = 0, bs_reverted = 0, bs_unresolved = 0, bs_txHashes = []\<rparr>
      in if pending = [] then (Inr summary, w)
         else case broadcaster (map broadcast_of pending) of
           Inl err \<Rightarrow> (Inl (Broadcast_failed err), w)
         | Inr broadcasts \<Rightarrow>
             if length broadcasts \<noteq> length pending then (Inl Batch_count_mismatch, w)
             else let (s, w') = record_batch pending broadcasts summary w in (Inr s, w'))"

datatype outcome_severity = Sev_error | Sev_warn | Sev_info

definition classifyAnchorBatchOutcome :: "batch_summary \<Rightarrow> outcome_severity" where
  "classifyAnchorBatchOutcome s =
     (if bs_attempted s = 0 then Sev_info
      else if bs_confirmed s + bs_alreadyAnchored s = 0 then Sev_error
      else if bs_unresolved s > 0 \<or> bs_reverted s > 0 then Sev_warn
      else Sev_info)"

section \<open>Coverage (routes.ts, the on-demand publish)\<close>

text \<open>\<open>MAX(period_end)\<close> over the anchors that are not reverted; \<open>MIN(created_at)\<close> over the events after it.\<close>

definition max_opt :: "int list \<Rightarrow> int option" where
  "max_opt xs = (case xs of [] \<Rightarrow> None | x # rest \<Rightarrow> Some (foldl max x rest))"

definition min_opt :: "int list \<Rightarrow> int option" where
  "min_opt xs = (case xs of [] \<Rightarrow> None | x # rest \<Rightarrow> Some (foldl min x rest))"

definition covered_to :: "string \<Rightarrow> anchor_row list \<Rightarrow> int option" where
  "covered_to t anchors =
     max_opt (map an_period_end (filter (\<lambda>a. an_tenant_id a = t \<and> an_onchain_status a \<noteq> Anchor_reverted) anchors))"

definition after_opt :: "int option \<Rightarrow> int \<Rightarrow> bool" where
  "after_opt c x = (case c of None \<Rightarrow> True | Some y \<Rightarrow> y < x)"

definition unanchored :: "string \<Rightarrow> anchor_world \<Rightarrow> audit_row list" where
  "unanchored t w =
     filter (\<lambda>r. tenant_of r = t \<and> after_opt (covered_to t (az_anchors w)) (ar_created_at r)) (ad_events (az_audit w))"

definition oldest_unanchored :: "string \<Rightarrow> anchor_world \<Rightarrow> int option" where
  "oldest_unanchored t w = min_opt (map ar_created_at (unanchored t w))"

definition PUBLISH_COOLDOWN_MS :: int where "PUBLISH_COOLDOWN_MS = 60000"

definition cooling_down :: "string \<Rightarrow> anchor_world \<Rightarrow> bool" where
  "cooling_down t w =
     (case max_opt (map an_created_at (filter (\<lambda>a. an_tenant_id a = t) (az_anchors w))) of
        None \<Rightarrow> False
      | Some last_at \<Rightarrow> last_at + PUBLISH_COOLDOWN_MS - az_now w > 0)"

datatype publish_refusal =
    Audit_anchor_db_only
  | Rate_limited
  | Audit_no_events
  | Publish_failed anchor_error

text \<open>
  \<open>POST /audit/anchor/publish\<close> after the scope check; \<open>db_only\<close> is the tenant's anchoring mode.
\<close>

definition publish_route ::
  "anchor_env \<Rightarrow> (broadcast_input \<Rightarrow> string + broadcast_result) \<Rightarrow> bool \<Rightarrow> string \<Rightarrow> anchor_world
    \<Rightarrow> (publish_refusal + anchor_row) \<times> anchor_world" where
  "publish_route env broadcaster db_only t w =
     (if db_only then (Inl Audit_anchor_db_only, w)
      else if cooling_down t w then (Inl Rate_limited, w)
      else let now = az_now w;
               win = nextAnchorWindow (covered_to t (az_anchors w)) (or_else (oldest_unanchored t w) now) now
                       MAX_ANCHOR_WINDOW_MS
           in case publishAnchor env broadcaster t (aw_periodStart win) (aw_periodEnd win) w of
                (Inl err, w') \<Rightarrow> (Inl (Publish_failed err), w')
              | (Inr None, w') \<Rightarrow> (Inl Audit_no_events, w')
              | (Inr (Some row), w') \<Rightarrow> (Inr row, w'))"

section \<open>The reconciler (reconciler.ts)\<close>

definition orphan_event :: "(buffer \<Rightarrow> string) \<Rightarrow> anchor_row \<Rightarrow> event_input" where
  "orphan_event hex a =
     \<lparr>ae_tenantId = an_tenant_id a, ae_layer = ''audit'', ae_eventType = None, ae_severity = None,
      ae_actor = ''sys_anchor_reconciler'', ae_actorDisplayName = None, ae_actorEmail = None,
      ae_action = ''audit.anchor.orphan_detected'',
      ae_inputs = [(''anchor_id'', VStr (an_id a)), (''merkle_root'', VStr (hex (an_merkle_root a)))],
      ae_outputs = [], ae_policyVersion = None, ae_policyDecisionId = None, ae_policyCheckId = None,
      ae_outcome = None, ae_beforeState = None, ae_afterState = None,
      ae_idempotencyKey = Some (''audit.anchor.orphan_detected:'' @ an_id a),
      ae_correlationId = None, ae_keyId = None\<rparr>"

definition emit_orphan ::
  "anchor_env \<Rightarrow> (buffer \<Rightarrow> string) \<Rightarrow> anchor_row \<Rightarrow> anchor_world \<Rightarrow> (audit_error + stored_event) \<times> anchor_world" where
  "emit_orphan env hex a w =
     (case pg_emit (ae_audit env) (''evt_'' @ show_nat (az_next w)) (az_now w) (orphan_event hex a) (az_audit w) of
        (res, db) \<Rightarrow> (res, w\<lparr>az_audit := db, az_next := az_next w + 1\<rparr>))"

text \<open>The loop over the orphans: recovered and flagged, or the first error.\<close>

fun reconcile_rows ::
  "anchor_env \<Rightarrow> (buffer \<Rightarrow> string) \<Rightarrow> (string \<Rightarrow> buffer \<Rightarrow> string + (buffer \<times> int) option) \<Rightarrow> int
    \<Rightarrow> anchor_row list \<Rightarrow> nat \<times> nat \<Rightarrow> anchor_world \<Rightarrow> (anchor_error + nat \<times> nat) \<times> anchor_world" where
  "reconcile_rows env hex reader graceMs [] counts w = (Inr counts, w)"
| "reconcile_rows env hex reader graceMs (a # rows) (recovered, flagged) w =
     (case reader (an_tenant_id a) (an_merkle_root a) of
        Inl err \<Rightarrow> (Inl (Reader_failed err), w)
      | Inr (Some (txHash, block)) \<Rightarrow>
          reconcile_rows env hex reader graceMs rows (recovered + 1, flagged)
            (setAnchorTxHash (an_tenant_id a) (an_id a) txHash block None w)
      | Inr None \<Rightarrow>
          if az_now w - an_created_at a > graceMs
          then (case emit_orphan env hex a w of
                  (Inl err, w') \<Rightarrow> (Inl (Orphan_emit_failed err), w')
                | (Inr _, w') \<Rightarrow> reconcile_rows env hex reader graceMs rows (recovered, flagged + 1) w')
          else reconcile_rows env hex reader graceMs rows (recovered, flagged) w)"

definition is_orphan :: "anchor_row \<Rightarrow> bool" where
  "is_orphan a \<longleftrightarrow> an_onchain_tx_hash a = None \<and> an_onchain_status a \<noteq> Anchor_reverted"

definition reconcileOrphanedAnchors ::
  "anchor_env \<Rightarrow> (buffer \<Rightarrow> string) \<Rightarrow> (string \<Rightarrow> buffer \<Rightarrow> string + (buffer \<times> int) option)
    \<Rightarrow> nat option \<Rightarrow> int option \<Rightarrow> anchor_world \<Rightarrow> (anchor_error + nat \<times> nat) \<times> anchor_world" where
  "reconcileOrphanedAnchors env hex reader limit graceMs w =
     reconcile_rows env hex reader (or_else graceMs (60 * 60 * 1000))
       (take (or_else limit 100)
         (order_by (\<lambda>a. (an_created_at a, [])) (filter is_orphan (az_anchors w)))) (0, 0) w"

end
