(* ===== verification/Anchor_Facts.thy ===== *)
theory Anchor_Facts
  imports Anchors
begin

text \<open>
  Properties of anchoring: a window takes the whole backlog up to its end and always makes progress,
  a batch accounts for every row it was given, an orphan is reported once, and an event that commits
  behind the covered window stays out of every later one.
\<close>

section \<open>Lists ordered by a key\<close>

lemma set_insert_by [simp]: "set (insert_by key x xs) = insert x (set xs)"
  by (induction xs) auto

lemma set_order_by [simp]: "set (order_by key xs) = set xs"
  by (induction xs) (auto simp: order_by_def)

lemma length_order_by [simp]: "length (order_by key xs) = length xs"
proof -
  have "length (insert_by key x ys) = Suc (length ys)" for x and ys :: "'a list"
    by (induction ys) auto
  then show ?thesis by (induction xs) (auto simp: order_by_def)
qed

lemma order_by_Nil_iff [simp]: "order_by key xs = [] \<longleftrightarrow> xs = []"
  by (metis length_0_conv length_order_by)

section \<open>Maxima and minima\<close>

lemma foldl_max: "foldl max a xs \<in> set (a # xs) \<and> (\<forall>x \<in> set (a # xs). x \<le> foldl max a xs)" for a :: int
  by (induction xs arbitrary: a) (auto simp: max_def split: if_splits, fastforce+)

lemma foldl_min: "foldl min a xs \<in> set (a # xs) \<and> (\<forall>x \<in> set (a # xs). foldl min a xs \<le> x)" for a :: int
  by (induction xs arbitrary: a) (auto simp: min_def split: if_splits, fastforce+)

lemma max_opt_None [simp]: "max_opt xs = None \<longleftrightarrow> xs = []"
  by (simp add: max_opt_def split: list.splits)

lemma max_optD: "max_opt xs = Some m \<Longrightarrow> m \<in> set xs \<and> (\<forall>x \<in> set xs. x \<le> m)"
  using foldl_max by (cases xs) (auto simp: max_opt_def)

lemma min_optD: "min_opt xs = Some m \<Longrightarrow> m \<in> set xs \<and> (\<forall>x \<in> set xs. m \<le> x)"
  using foldl_min by (cases xs) (auto simp: min_opt_def)

lemma max_opt_snoc: "max_opt (xs @ [x]) = Some (case max_opt xs of None \<Rightarrow> x | Some m \<Rightarrow> max m x)"
  by (cases xs) (auto simp: max_opt_def)

section \<open>Coverage\<close>

lemma after_opt_mono: "after_opt c x \<Longrightarrow> x \<le> y \<Longrightarrow> after_opt c y"
  by (auto simp: after_opt_def split: option.splits)

lemma oldest_unanchoredD:
  assumes "oldest_unanchored t w = Some m"
  shows "\<exists>r \<in> set (unanchored t w). ar_created_at r = m"
    and "\<And>r. r \<in> set (unanchored t w) \<Longrightarrow> m \<le> ar_created_at r"
    and "after_opt (covered_to t (az_anchors w)) m"
  using min_optD [OF assms [unfolded oldest_unanchored_def]] by (auto simp: unanchored_def)

text \<open>The window a cycle takes starts at the oldest event that is not covered.\<close>

lemma window_start:
  assumes "after_opt c m"
  shows "aw_periodStart (nextAnchorWindow c m now maxMs) = m"
  using assms by (auto simp: nextAnchorWindow_def after_opt_def Let_def split: option.splits)

lemma window_end:
  assumes "after_opt c m" "m \<le> now" "0 \<le> maxMs"
  shows "m \<le> aw_periodEnd (nextAnchorWindow c m now maxMs)" "aw_periodEnd (nextAnchorWindow c m now maxMs) \<le> now"
    "aw_periodEnd (nextAnchorWindow c m now maxMs) - m \<le> maxMs"
  using assms by (auto simp: nextAnchorWindow_def after_opt_def Let_def split: option.splits)

lemma covered_to_snoc:
  "covered_to t (anchors @ [a]) =
     (if an_tenant_id a = t \<and> an_onchain_status a \<noteq> Anchor_reverted
      then Some (case covered_to t anchors of None \<Rightarrow> an_period_end a | Some m \<Rightarrow> max m (an_period_end a))
      else covered_to t anchors)"
  by (simp add: covered_to_def max_opt_snoc)

lemma createPendingAnchor_new:
  assumes "listEventsForAnchor t lo hi (ad_events (az_audit w)) \<noteq> []" "lo \<le> hi"
    and "findAnchorByRoot t (window_root env (listEventsForAnchor t lo hi (ad_events (az_audit w)))) (az_anchors w) = None"
  shows "\<exists>row. createPendingAnchor env t lo hi w
      = (Inr (Some row), w\<lparr>az_next := az_next w + 1, az_anchors := az_anchors w @ [row]\<rparr>)
    \<and> an_tenant_id row = t \<and> an_period_start row = lo \<and> an_period_end row = hi
    \<and> an_onchain_status row = Anchor_pending \<and> an_onchain_tx_hash row = None
    \<and> an_event_count row = length (listEventsForAnchor t lo hi (ad_events (az_audit w)))
    \<and> an_merkle_root row = window_root env (listEventsForAnchor t lo hi (ad_events (az_audit w)))"
  using assms by (simp add: createPendingAnchor_def insertAnchor_def Let_def)

lemma window_takes_backlog:
  assumes m: "oldest_unanchored t w = Some m"
  shows "filter (\<lambda>r. ar_created_at r \<le> hi) (unanchored t w)
    = filter (\<lambda>r. tenant_of r = t \<and> in_window m hi r) (ad_events (az_audit w))"
  unfolding unanchored_def filter_filter
proof (intro filter_cong refl iffI)
  fix r assume r: "r \<in> set (ad_events (az_audit w))"
  { assume "(tenant_of r = t \<and> after_opt (covered_to t (az_anchors w)) (ar_created_at r)) \<and> ar_created_at r \<le> hi"
    with r oldest_unanchoredD(2) [OF m, of r] show "tenant_of r = t \<and> in_window m hi r"
      by (simp add: unanchored_def in_window_def) }
  { assume "tenant_of r = t \<and> in_window m hi r"
    with oldest_unanchoredD(3) [OF m] show "(tenant_of r = t \<and> after_opt (covered_to t (az_anchors w)) (ar_created_at r)) \<and> ar_created_at r \<le> hi"
      by (auto simp: in_window_def intro: after_opt_mono) }
qed

text \<open>One cycle over one tenant, as the publisher runs it.\<close>

definition anchor_cycle :: "anchor_env \<Rightarrow> string \<Rightarrow> anchor_world \<Rightarrow> (anchor_error + anchor_row option) \<times> anchor_world" where
  "anchor_cycle env t w =
     (case oldest_unanchored t w of
        None \<Rightarrow> (Inr None, w)
      | Some m \<Rightarrow>
          let win = nextAnchorWindow (covered_to t (az_anchors w)) m (az_now w) MAX_ANCHOR_WINDOW_MS
          in createPendingAnchor env t (aw_periodStart win) (aw_periodEnd win) w)"

lemma cycle_progress:
  assumes m: "oldest_unanchored t w = Some m" and now: "m \<le> az_now w"
    and hi: "hi = aw_periodEnd (nextAnchorWindow (covered_to t (az_anchors w)) m (az_now w) MAX_ANCHOR_WINDOW_MS)"
    and fresh: "findAnchorByRoot t (window_root env (listEventsForAnchor t m hi (ad_events (az_audit w))))
      (az_anchors w) = None"
  shows "\<exists>row w'. anchor_cycle env t w = (Inr (Some row), w')
    \<and> an_event_count row = length (filter (\<lambda>r. ar_created_at r \<le> hi) (unanchored t w)) \<and> an_event_count row > 0
    \<and> unanchored t w' = filter (\<lambda>r. hi < ar_created_at r) (unanchored t w)
    \<and> length (unanchored t w') + an_event_count row = length (unanchored t w)
    \<and> hi - m \<le> MAX_ANCHOR_WINDOW_MS"
proof -
  note old = oldest_unanchoredD [OF m]
  have ms: "0 \<le> MAX_ANCHOR_WINDOW_MS" by (simp add: MAX_ANCHOR_WINDOW_MS_def)
  note win = window_start [OF old(3), of "az_now w" MAX_ANCHOR_WINDOW_MS] window_end [OF old(3) now ms]
  let ?taken = "filter (\<lambda>r. ar_created_at r \<le> hi) (unanchored t w)"
  have events: "listEventsForAnchor t m hi (ad_events (az_audit w)) = order_by event_order ?taken"
    by (simp add: listEventsForAnchor_def window_takes_backlog [OF m])
  have some: "?taken \<noteq> []" using old(1) win(2) by (auto simp: filter_empty_conv hi)
  obtain row where row: "createPendingAnchor env t m hi w
      = (Inr (Some row), w\<lparr>az_next := az_next w + 1, az_anchors := az_anchors w @ [row]\<rparr>)"
    "an_tenant_id row = t" "an_period_end row = hi" "an_onchain_status row = Anchor_pending"
    "an_event_count row = length ?taken"
    using createPendingAnchor_new [of t m hi w env] fresh some win(2) events hi by auto
  let ?w' = "w\<lparr>az_next := az_next w + 1, az_anchors := az_anchors w @ [row]\<rparr>"
  have "after_opt (covered_to t (az_anchors ?w')) x \<longleftrightarrow> after_opt (covered_to t (az_anchors w)) x \<and> hi < x" for x
    by (auto simp: covered_to_snoc row after_opt_def split: option.splits)
  then have rest: "unanchored t ?w' = filter (\<lambda>r. hi < ar_created_at r) (unanchored t w)"
    by (auto simp: unanchored_def intro!: filter_cong)
  have "length (filter (\<lambda>r. hi < ar_created_at r) (unanchored t w)) + length ?taken = length (unanchored t w)"
    using sum_length_filter_compl [of "\<lambda>r. hi < ar_created_at r" "unanchored t w"] by (simp add: not_less)
  with rest row some win show ?thesis
    by (simp add: anchor_cycle_def m Let_def hi)
qed

section \<open>Batches\<close>

definition resolved :: "batch_summary \<Rightarrow> nat" where
  "resolved s = bs_confirmed s + bs_alreadyAnchored s + bs_reverted s + bs_unresolved s"

lemma count_status_resolved:
  "resolved (count_status b s) = resolved s + 1" "bs_attempted (count_status b s) = bs_attempted s"
  "bs_skippedTerminal (count_status b s) = bs_skippedTerminal s"
  by (simp_all add: count_status_def resolved_def Let_def split: broadcast_status.splits)

lemma record_batch_resolved:
  "length as = length bs \<Longrightarrow> resolved (fst (record_batch as bs s w)) = resolved s + length bs
     \<and> bs_attempted (fst (record_batch as bs s w)) = bs_attempted s
     \<and> bs_skippedTerminal (fst (record_batch as bs s w)) = bs_skippedTerminal s"
  by (induction as bs s w rule: record_batch.induct) (auto simp: count_status_resolved)

lemma batch_accounts:
  assumes "publishPendingAnchorBatch broadcaster rows w = (Inr s, w')"
  shows "bs_attempted s + bs_skippedTerminal s = length rows" "resolved s = bs_attempted s"
proof -
  let ?pending = "filter (\<lambda>a. \<not> is_terminal a) rows"
  let ?s0 = "\<lparr>bs_attempted = length ?pending, bs_skippedTerminal = length rows - length ?pending,
    bs_confirmed = 0, bs_alreadyAnchored = 0, bs_reverted = 0, bs_unresolved = 0, bs_txHashes = []\<rparr>"
  have len: "length ?pending \<le> length rows" by simp
  have "s = ?s0 \<and> ?pending = [] \<or> (\<exists>bs. length ?pending = length bs \<and> s = fst (record_batch ?pending bs ?s0 w))"
    using assms by (auto simp: publishPendingAnchorBatch_def Let_def split: if_splits sum.splits prod.splits)
      (metis fst_conv)
  then have "bs_attempted s = length ?pending \<and> bs_skippedTerminal s = length rows - length ?pending
    \<and> resolved s = length ?pending"
  proof (elim disjE exE conjE)
    fix bs assume "length ?pending = length bs" "s = fst (record_batch ?pending bs ?s0 w)"
    with record_batch_resolved [of ?pending bs ?s0 w] show ?thesis by (simp add: resolved_def)
  qed (simp add: resolved_def)
  then show "bs_attempted s + bs_skippedTerminal s = length rows" "resolved s = bs_attempted s"
    using len by auto
qed

section \<open>Orphans are reported once\<close>

lemma orphan_again:
  assumes "emit_orphan env hex a w = (Inr s, w1)" and "az_audit w2 = az_audit w1"
  shows "\<exists>s'. emit_orphan env hex a w2 = (Inr s', w2\<lparr>az_next := az_next w2 + 1\<rparr>) \<and> same_answer s s'"
proof -
  from assms(1) obtain db where first: "pg_emit (ae_audit env) (''evt_'' @ show_nat (az_next w)) (az_now w)
      (orphan_event hex a) (az_audit w) = (Inr s, db)" and "az_audit w1 = db"
    by (auto simp: emit_orphan_def split: prod.splits)
  from pg_emit_again [OF first, of _ "''evt_'' @ show_nat (az_next w2)" "az_now w2"] assms(2) this(2) show ?thesis
    by (auto simp: emit_orphan_def orphan_event_def)
qed

section \<open>The state of an anchor\<close>

text \<open>A row carries a transaction hash exactly when it is confirmed.\<close>

definition anchor_ok :: "anchor_row \<Rightarrow> bool" where
  "anchor_ok a \<longleftrightarrow> (an_onchain_tx_hash a \<noteq> None \<longleftrightarrow> an_onchain_status a = Anchor_confirmed)"

definition anchors_ok :: "anchor_world \<Rightarrow> bool" where
  "anchors_ok w \<longleftrightarrow> (\<forall>a \<in> set (az_anchors w). anchor_ok a)
     \<and> distinct (map (\<lambda>a. (an_tenant_id a, an_id a)) (az_anchors w))"

text \<open>A row handed to the publisher as it stands in the table.\<close>

lemma update_anchor_ok:
  assumes "anchors_ok w" "\<And>a. an_tenant_id (f a) = an_tenant_id a \<and> an_id (f a) = an_id a"
    and "\<And>a. a \<in> set (az_anchors w) \<Longrightarrow> an_tenant_id a = t \<Longrightarrow> an_id a = i \<Longrightarrow> anchor_ok (f a)"
  shows "anchors_ok (update_anchor t i f w)"
proof -
  have "map (\<lambda>a. (an_tenant_id a, an_id a)) (az_anchors (update_anchor t i f w))
    = map (\<lambda>a. (an_tenant_id a, an_id a)) (az_anchors w)"
    using assms(2) by (auto simp: update_anchor_def comp_def intro!: map_cong)
  moreover have "\<forall>a \<in> set (az_anchors (update_anchor t i f w)). anchor_ok a"
    using assms(1,3) by (auto simp: anchors_ok_def update_anchor_def)
  ultimately show ?thesis using assms(1) by (simp only: anchors_ok_def)
qed

lemma record_broadcast_ok:
  assumes w: "anchors_ok w" and a: "a \<in> set (az_anchors w)" "\<not> is_terminal a"
  shows "anchors_ok (record_broadcast a b w)"
proof -
  have same: "x = a" if "x \<in> set (az_anchors w)" "an_tenant_id x = an_tenant_id a" "an_id x = an_id a" for x
    using w a(1) that by (auto simp: anchors_ok_def distinct_map inj_on_def)
  have "anchors_ok (setAnchorReverted (an_tenant_id a) (an_id a) w)"
    unfolding setAnchorReverted_def
    by (rule update_anchor_ok [OF w]) (use same a(2) in \<open>auto simp: anchor_ok_def is_terminal_def\<close>)
  moreover have "anchors_ok (setAnchorTxHash (an_tenant_id a) (an_id a) tx n c w)" for tx n c
    unfolding setAnchorTxHash_def by (rule update_anchor_ok [OF w]) (auto simp: anchor_ok_def)
  ultimately show ?thesis using w by (simp add: record_broadcast_def)
qed

lemma publishPendingAnchor_ok:
  assumes "anchors_ok w" "a \<in> set (az_anchors w)"
  shows "anchors_ok (snd (publishPendingAnchor broadcaster a w))"
  using assms record_broadcast_ok by (auto simp: publishPendingAnchor_def Let_def split: sum.splits)

section \<open>Events that commit late\<close>

text \<open>
  The clock of an emit is read before its transaction commits, so an event can become visible after a
  window that ends later than its timestamp was cut.
\<close>

lemma late_event:
  assumes m: "oldest_unanchored t w = Some m" and now: "m \<le> az_now w"
    and hi: "hi = aw_periodEnd (nextAnchorWindow (covered_to t (az_anchors w)) m (az_now w) MAX_ANCHOR_WINDOW_MS)"
    and cycle: "anchor_cycle env t w = (Inr (Some row), w')"
    and fresh: "findAnchorByRoot t (window_root env (listEventsForAnchor t m hi (ad_events (az_audit w))))
      (az_anchors w) = None"
    and late: "tenant_of r = t" "m \<le> ar_created_at r" "ar_created_at r \<le> hi"
    and w2: "ad_events (az_audit w2) = ad_events (az_audit w') @ [r]" "az_anchors w2 = az_anchors w'"
  shows "r \<notin> set (unanchored t w2)"
    and "length (listEventsForAnchor t m hi (ad_events (az_audit w2))) = an_event_count row + 1"
proof -
  note start = window_start [OF oldest_unanchoredD(3) [OF m], of "az_now w" MAX_ANCHOR_WINDOW_MS]
  have le: "m \<le> hi" using late by simp
  have events: "listEventsForAnchor t m hi (ad_events (az_audit w)) \<noteq> []"
    using oldest_unanchoredD(1) [OF m] le
    by (auto simp: listEventsForAnchor_def in_window_def unanchored_def filter_empty_conv)
  have w': "az_audit w' = az_audit w" "az_anchors w' = az_anchors w @ [row]"
    and row: "an_tenant_id row = t" "an_period_end row = hi" "an_onchain_status row = Anchor_pending"
      "an_event_count row = length (listEventsForAnchor t m hi (ad_events (az_audit w)))"
    using createPendingAnchor_new [OF events le fresh] cycle start hi
    by (auto simp: anchor_cycle_def m Let_def)
  show "r \<notin> set (unanchored t w2)"
    using late(3) by (auto simp: unanchored_def w2 w' covered_to_snoc row after_opt_def split: option.splits)
  show "length (listEventsForAnchor t m hi (ad_events (az_audit w2))) = an_event_count row + 1"
    using late row(4) by (simp add: listEventsForAnchor_def w2 w' in_window_def)
qed

end
