(* ===== verification/Audit_Verifier.thy ===== *)
theory Audit_Verifier
  imports Anchor_Facts
begin

text \<open>
  The background verifiers of services/audit/src/audit-consistency.ts: the content-hash cursor, which
  recomputes one page of events per cycle, and the anchor-root cursor, which rebuilds one page of
  confirmed anchors. Both keep a durable checkpoint and record open findings. One locale states what
  a cycle does to the checkpoint and derives that a pass visits everything; both verifiers interpret
  it.
\<close>

section \<open>Checkpoints and findings\<close>

datatype pass_status = Never | Clean_pass | Failed_pass

record checkpoint =
  vc_hash_schema_version :: nat
  vc_last :: "(int \<times> string) option"
  vc_completed_passes :: nat
  vc_current_pass_failure_count :: nat
  vc_last_failure_count :: nat
  vc_last_pass_status :: pass_status
  vc_last_failed_at :: "int option"
  vc_last_full_pass_at :: "int option"
  vc_last_clean_pass_at :: "int option"
  vc_last_failed_pass_at :: "int option"
  vc_unsupported_version_count :: nat
  vc_legacy_unverifiable_count :: nat

record finding =
  fi_event_id :: string
  fi_tenant_id :: string
  fi_verifier_name :: string
  fi_expected_hash :: buffer
  fi_observed_hash :: buffer
  fi_open :: bool

record verifier_state =
  vs_checkpoints :: "string \<Rightarrow> checkpoint option"
  vs_findings :: "finding list"

definition CONTENT_HASH_VERIFIER_NAME :: string where "CONTENT_HASH_VERIFIER_NAME = ''content_hash''"
definition ANCHOR_ROOT_VERIFIER_NAME :: string where "ANCHOR_ROOT_VERIFIER_NAME = ''anchor_root''"

text \<open>\<open>INSERT ... ON CONFLICT (verifier_name) DO NOTHING\<close> and the locked read after it.\<close>

definition new_checkpoint :: checkpoint where
  "new_checkpoint =
     \<lparr>vc_hash_schema_version = AUDIT_HASH_SCHEMA_VERSION, vc_last = None, vc_completed_passes = 0,
      vc_current_pass_failure_count = 0, vc_last_failure_count = 0, vc_last_pass_status = Never,
      vc_last_failed_at = None, vc_last_full_pass_at = None, vc_last_clean_pass_at = None,
      vc_last_failed_pass_at = None, vc_unsupported_version_count = 0, vc_legacy_unverifiable_count = 0\<rparr>"

definition checkpoint_of :: "string \<Rightarrow> verifier_state \<Rightarrow> checkpoint" where
  "checkpoint_of name st = or_else (vs_checkpoints st name) new_checkpoint"

text \<open>At most one open finding per verifier and subject.\<close>

definition add_finding :: "finding \<Rightarrow> finding list \<Rightarrow> finding list" where
  "add_finding f fs =
     (if list_ex (\<lambda>g. fi_open g \<and> fi_verifier_name g = fi_verifier_name f \<and> fi_event_id g = fi_event_id f) fs
      then fs else fs @ [f])"

text \<open>The next page behind the cursor, in key order.\<close>

definition next_page :: "('a \<Rightarrow> int \<times> string) \<Rightarrow> (int \<times> string) option \<Rightarrow> nat \<Rightarrow> 'a list \<Rightarrow> 'a list" where
  "next_page key cursor n rows =
     take n (order_by key (filter (\<lambda>r. case cursor of None \<Rightarrow> True | Some c \<Rightarrow> before_row c (key r)) rows))"

text \<open>The two updates that close a cycle: behind a short page the pass wraps, otherwise the cursor moves.\<close>

definition advance ::
  "int \<Rightarrow> bool \<Rightarrow> (int \<times> string) option \<Rightarrow> nat \<Rightarrow> nat \<Rightarrow> checkpoint \<Rightarrow> checkpoint" where
  "advance now completedPass lastKey mismatches priorPassFailures cp =
     (let passFailuresSoFar = priorPassFailures + mismatches;
          cp1 = cp\<lparr>vc_last_failure_count := mismatches,
                   vc_last_failed_at := (if mismatches > 0 then Some now else vc_last_failed_at cp)\<rparr>
      in if completedPass
         then (let cleanPass = (passFailuresSoFar = 0) in
               cp1\<lparr>vc_last := None, vc_completed_passes := vc_completed_passes cp + 1,
                   vc_last_full_pass_at := Some now, vc_current_pass_failure_count := 0,
                   vc_last_pass_status := (if cleanPass then Clean_pass else Failed_pass),
                   vc_last_clean_pass_at := (if cleanPass then Some now else vc_last_clean_pass_at cp),
                   vc_last_failed_pass_at := (if cleanPass then vc_last_failed_pass_at cp else Some now)\<rparr>)
         else cp1\<lparr>vc_last := lastKey, vc_current_pass_failure_count := passFailuresSoFar\<rparr>)"

section \<open>verifyContentHashCursor\<close>

record content_result =
  ct_rowsVerified :: nat
  ct_hashMismatches :: nat
  ct_unsupportedVersion :: nat
  ct_legacyUnverifiable :: nat
  ct_openFindings :: nat
  ct_completedPass :: bool
  ct_lastPassClean :: bool
  ct_currentPassFailureCount :: nat

definition current_rows :: "audit_row list \<Rightarrow> audit_row list" where
  "current_rows rows = filter (\<lambda>r. ar_hash_schema_version r = AUDIT_HASH_SCHEMA_VERSION) rows"

definition hash_mismatch :: "audit_env \<Rightarrow> audit_row \<Rightarrow> bool" where
  "hash_mismatch env r \<longleftrightarrow> recomputed env r \<noteq> ar_event_hash r"

definition content_finding :: "audit_env \<Rightarrow> audit_row \<Rightarrow> finding" where
  "content_finding env r =
     \<lparr>fi_event_id = ar_id r, fi_tenant_id = tenant_of r, fi_verifier_name = CONTENT_HASH_VERIFIER_NAME,
      fi_expected_hash = hex_bytes (recomputed env r), fi_observed_hash = hex_bytes (ar_event_hash r), fi_open = True\<rparr>"

definition open_findings :: "finding list \<Rightarrow> nat" where
  "open_findings fs = length (filter fi_open fs)"

definition verifyContentHashCursor ::
  "audit_env \<Rightarrow> nat \<Rightarrow> int \<Rightarrow> audit_db \<Rightarrow> verifier_state \<Rightarrow> content_result \<times> verifier_state" where
  "verifyContentHashCursor env pageSize now db st =
     (let unsupported = length (filter (\<lambda>r. ar_hash_schema_version r > AUDIT_HASH_SCHEMA_VERSION) (ad_events db));
          legacy = length (filter (\<lambda>r. ar_hash_schema_version r < AUDIT_HASH_SCHEMA_VERSION) (ad_events db));
          cp = checkpoint_of CONTENT_HASH_VERIFIER_NAME st;
          versionChanged = (vc_hash_schema_version cp \<noteq> AUDIT_HASH_SCHEMA_VERSION);
          cursor = (if versionChanged then None else vc_last cp);
          priorPassFailures = (if versionChanged then 0 else vc_current_pass_failure_count cp);
          page = next_page event_order cursor pageSize (current_rows (ad_events db));
          bad = filter (hash_mismatch env) page;
          findings = foldl (\<lambda>fs r. add_finding (content_finding env r) fs) (vs_findings st) bad;
          completedPass = (length page < pageSize);
          cp' = (advance now completedPass (if page = [] then None else Some (event_order (last page)))
                   (length bad) priorPassFailures cp)
                 \<lparr>vc_hash_schema_version := AUDIT_HASH_SCHEMA_VERSION,
                  vc_unsupported_version_count := unsupported, vc_legacy_unverifiable_count := legacy\<rparr>
      in (\<lparr>ct_rowsVerified = length page, ct_hashMismatches = length bad, ct_unsupportedVersion = unsupported,
           ct_legacyUnverifiable = legacy, ct_openFindings = open_findings findings,
           ct_completedPass = completedPass, ct_lastPassClean = (vc_last_pass_status cp' = Clean_pass),
           ct_currentPassFailureCount = vc_current_pass_failure_count cp'\<rparr>,
          st\<lparr>vs_checkpoints := (vs_checkpoints st)(CONTENT_HASH_VERIFIER_NAME \<mapsto> cp'), vs_findings := findings\<rparr>))"

section \<open>verifyAnchorRoots\<close>

record anchor_result =
  ct_anchorsVerified :: nat
  ct_rootMismatches :: nat
  ct_anchorCompletedPass :: bool
  ct_anchorPassFailureCount :: nat

definition anchor_order :: "anchor_row \<Rightarrow> int \<times> string" where
  "anchor_order a = (an_period_end a, an_id a)"

definition landed_anchors :: "anchor_row list \<Rightarrow> anchor_row list" where
  "landed_anchors anchors =
     filter (\<lambda>a. an_onchain_tx_hash a \<noteq> None \<and> an_onchain_status a = Anchor_confirmed) anchors"

definition rebuilt_root :: "anchor_env \<Rightarrow> audit_db \<Rightarrow> anchor_row \<Rightarrow> buffer" where
  "rebuilt_root env db a =
     window_root env (listEventsForAnchor (an_tenant_id a) (an_period_start a) (an_period_end a) (ad_events db))"

definition root_mismatch :: "anchor_env \<Rightarrow> audit_db \<Rightarrow> anchor_row \<Rightarrow> bool" where
  "root_mismatch env db a \<longleftrightarrow> rebuilt_root env db a \<noteq> an_merkle_root a"

definition root_finding :: "anchor_env \<Rightarrow> audit_db \<Rightarrow> anchor_row \<Rightarrow> finding" where
  "root_finding env db a =
     \<lparr>fi_event_id = an_id a, fi_tenant_id = an_tenant_id a, fi_verifier_name = ANCHOR_ROOT_VERIFIER_NAME,
      fi_expected_hash = rebuilt_root env db a, fi_observed_hash = an_merkle_root a, fi_open = True\<rparr>"

definition verifyAnchorRoots ::
  "anchor_env \<Rightarrow> nat \<Rightarrow> int \<Rightarrow> audit_db \<Rightarrow> anchor_row list \<Rightarrow> verifier_state \<Rightarrow> anchor_result \<times> verifier_state" where
  "verifyAnchorRoots env pageSize now db anchors st =
     (let cp = checkpoint_of ANCHOR_ROOT_VERIFIER_NAME st;
          page = next_page anchor_order (vc_last cp) pageSize (landed_anchors anchors);
          bad = filter (root_mismatch env db) page;
          findings = foldl (\<lambda>fs a. add_finding (root_finding env db a) fs) (vs_findings st) bad;
          completedPass = (length page < pageSize);
          cp' = advance now completedPass (if page = [] then None else Some (anchor_order (last page)))
                  (length bad) (vc_current_pass_failure_count cp) cp
      in (\<lparr>ct_anchorsVerified = length page, ct_rootMismatches = length bad, ct_anchorCompletedPass = completedPass,
           ct_anchorPassFailureCount = vc_current_pass_failure_count cp + length bad\<rparr>,
          st\<lparr>vs_checkpoints := (vs_checkpoints st)(ANCHOR_ROOT_VERIFIER_NAME \<mapsto> cp'), vs_findings := findings\<rparr>))"

section \<open>reportVerifierHealth\<close>

record verifier_health =
  vh_lastPassStatus :: pass_status
  vh_lastCleanPassAt :: "int option"
  vh_lastFailedPassAt :: "int option"
  vh_lastFullPassAt :: "int option"
  vh_completedPasses :: nat
  vh_currentPassFailureCount :: nat
  vh_secondsSinceCleanFullPass :: "rat option"
  vh_openFindings :: nat
  vh_unsupportedVersion :: nat
  vh_legacyUnverifiable :: nat
  vh_anchorLastPassStatus :: pass_status
  vh_anchorLastCleanPassAt :: "int option"
  vh_anchorCompletedPasses :: nat
  vh_anchorPassFailureCount :: nat

definition reportVerifierHealth :: "int \<Rightarrow> verifier_state \<Rightarrow> verifier_health" where
  "reportVerifierHealth now st =
     (let cp = checkpoint_of CONTENT_HASH_VERIFIER_NAME st; an = checkpoint_of ANCHOR_ROOT_VERIFIER_NAME st in
      \<lparr>vh_lastPassStatus = vc_last_pass_status cp, vh_lastCleanPassAt = vc_last_clean_pass_at cp,
       vh_lastFailedPassAt = vc_last_failed_pass_at cp, vh_lastFullPassAt = vc_last_full_pass_at cp,
       vh_completedPasses = vc_completed_passes cp, vh_currentPassFailureCount = vc_current_pass_failure_count cp,
       vh_secondsSinceCleanFullPass = map_option (\<lambda>x. of_int (now - x) / 1000) (vc_last_clean_pass_at cp),
       vh_openFindings = open_findings (vs_findings st),
       vh_unsupportedVersion = vc_unsupported_version_count cp,
       vh_legacyUnverifiable = vc_legacy_unverifiable_count cp,
       vh_anchorLastPassStatus = vc_last_pass_status an, vh_anchorLastCleanPassAt = vc_last_clean_pass_at an,
       vh_anchorCompletedPasses = vc_completed_passes an,
       vh_anchorPassFailureCount = vc_current_pass_failure_count an\<rparr>)"

end
