(* ===== verification/Verifier_Facts.thy ===== *)
theory Verifier_Facts
  imports Audit_Verifier
begin

text \<open>
  A pass of a verifier over a table that does not change visits every row once and ends, with the
  verdict clean exactly if no row is bad. Then what a clean verdict means for the log and its anchors.
\<close>

section \<open>Pages\<close>

abbreviation key_sorted :: "('a \<Rightarrow> int \<times> string) \<Rightarrow> 'a list \<Rightarrow> bool" where
  "key_sorted key \<equiv> sorted_wrt (\<lambda>x y. before_row (key x) (key y))"

lemma before_row_trans: "before_row a b \<Longrightarrow> before_row b c \<Longrightarrow> before_row a c"
  by (auto simp: before_row_def dest: str_lt_trans)

lemma before_row_irrefl [simp]: "\<not> before_row a a"
  by (simp add: before_row_def)

lemma before_row_linear: "before_row a b \<or> a = b \<or> before_row b a"
  using str_lt_linear by (auto simp: before_row_def prod_eq_iff)

lemma insert_by_sorted:
  "key_sorted key xs \<Longrightarrow> key x \<notin> key ` set xs \<Longrightarrow> key_sorted key (insert_by key x xs)"
proof (induction xs)
  case (Cons y ys)
  then show ?case using before_row_linear [of "key x" "key y"] by (auto dest: before_row_trans)
qed simp

lemma order_by_sorted: "distinct (map key xs) \<Longrightarrow> key_sorted key (order_by key xs)"
proof (induction xs)
  case (Cons x xs)
  then have "key x \<notin> key ` set (order_by key xs)" by simp
  with Cons show ?case by (simp add: order_by_def insert_by_sorted)
qed (simp add: order_by_def)

lemma key_sorted_unique:
  "key_sorted key xs \<Longrightarrow> key_sorted key ys \<Longrightarrow> set xs = set ys \<Longrightarrow> xs = ys"
proof (induction xs arbitrary: ys)
  case (Cons x xs)
  then obtain y ys' where ys: "ys = y # ys'" by (cases ys) auto
  have "x = y"
  proof (rule ccontr)
    assume "x \<noteq> y"
    then have "x \<in> set ys'" "y \<in> set xs" using Cons.prems(3) ys by (metis insert_iff list.simps(15))+
    then have "before_row (key x) (key y)" "before_row (key y) (key x)" using Cons.prems ys by auto
    then show False using before_row_trans by fastforce
  qed
  moreover have "x \<notin> set xs" "y \<notin> set ys'" using Cons.prems ys by auto
  with Cons.prems(3) ys calculation have "set xs = set ys'" by (simp add: insert_ident)
  ultimately show ?case using Cons ys by auto
qed simp

lemma order_by_filter:
  assumes "distinct (map key xs)"
  shows "order_by key (filter P xs) = filter P (order_by key xs)"
proof (rule key_sorted_unique)
  show "key_sorted key (order_by key (filter P xs))"
    by (rule order_by_sorted) (simp add: assms distinct_map_filter)
  show "key_sorted key (filter P (order_by key xs))"
    by (rule sorted_wrt_filter [OF order_by_sorted [OF assms]])
qed simp

lemma behind_cursor:
  assumes "key_sorted key xs" "0 < i" "i \<le> length xs"
  shows "filter (\<lambda>r. before_row (key (xs ! (i - 1))) (key r)) xs = drop i xs"
proof -
  let ?P = "\<lambda>r. before_row (key (xs ! (i - 1))) (key r)"
  have "filter ?P (take i xs) = []"
    unfolding filter_empty_conv
  proof
    fix r assume "r \<in> set (take i xs)"
    then obtain j where j: "j < i" "r = xs ! j" by (auto simp: in_set_conv_nth)
    show "\<not> ?P r"
    proof (cases "j = i - 1")
      case False
      then have "before_row (key r) (key (xs ! (i - 1)))"
        using assms j by (auto simp: sorted_wrt_iff_nth_less)
      then show ?thesis using before_row_trans by fastforce
    qed (use j in simp)
  qed
  moreover have "filter ?P (drop i xs) = drop i xs"
    using assms by (auto simp: filter_id_conv in_set_conv_nth sorted_wrt_iff_nth_less)
  ultimately show ?thesis by (metis append_Nil append_take_drop_id filter_append)
qed

lemma next_page_start: "next_page key None n rows = take n (order_by key rows)"
  by (simp add: next_page_def)

lemma next_page_behind:
  assumes "distinct (map key rows)" "0 < i" "i \<le> length rows"
  shows "next_page key (Some (key (order_by key rows ! (i - 1)))) n rows = take n (drop i (order_by key rows))"
  using behind_cursor [OF order_by_sorted [OF assms(1)], of i] assms(2,3)
  by (simp add: next_page_def order_by_filter [OF assms(1)])

section \<open>Passes\<close>

text \<open>
  The contract of a paged verifier: \<open>cycle d\<close> is one cycle over the data \<open>d\<close> with page size \<open>n d\<close>;
  it looks at the next page of \<open>rows d\<close> behind the cursor.
\<close>

locale paged_verifier =
  fixes cycle :: "'d \<Rightarrow> 's \<Rightarrow> 's"
    and rows :: "'d \<Rightarrow> 'a list" and size_of :: "'d \<Rightarrow> nat"
    and key :: "'a \<Rightarrow> int \<times> string" and bad :: "'d \<Rightarrow> 'a \<Rightarrow> bool"
    and cursor :: "'s \<Rightarrow> (int \<times> string) option" and failures :: "'s \<Rightarrow> nat"
    and passes :: "'s \<Rightarrow> nat" and verdict :: "'s \<Rightarrow> pass_status"
  assumes short_page: "length (next_page key (cursor s) (size_of d) (rows d)) < size_of d \<Longrightarrow>
      cursor (cycle d s) = None \<and> failures (cycle d s) = 0 \<and> passes (cycle d s) = passes s + 1
      \<and> verdict (cycle d s)
         = (if failures s + length (filter (bad d) (next_page key (cursor s) (size_of d) (rows d))) = 0
            then Clean_pass else Failed_pass)"
    and full_page: "\<not> length (next_page key (cursor s) (size_of d) (rows d)) < size_of d \<Longrightarrow> 0 < size_of d \<Longrightarrow>
      cursor (cycle d s) = Some (key (last (next_page key (cursor s) (size_of d) (rows d))))
      \<and> failures (cycle d s) = failures s + length (filter (bad d) (next_page key (cursor s) (size_of d) (rows d)))
      \<and> passes (cycle d s) = passes s \<and> verdict (cycle d s) = verdict s"
begin

lemma pages_so_far:
  assumes start: "cursor s = None" "failures s = 0"
    and d: "distinct (map key (rows d))" "0 < size_of d"
  shows "j * size_of d \<le> length (rows d) \<Longrightarrow>
    passes ((cycle d ^^ j) s) = passes s
    \<and> cursor ((cycle d ^^ j) s)
       = (if j = 0 then None else Some (key (order_by key (rows d) ! (j * size_of d - 1))))
    \<and> failures ((cycle d ^^ j) s) = length (filter (bad d) (take (j * size_of d) (order_by key (rows d))))"
proof (induction j)
  case 0
  then show ?case using start by simp
next
  case (Suc j)
  let ?n = "size_of d" and ?L = "order_by key (rows d)" and ?s = "(cycle d ^^ j) s"
  have le: "j * ?n \<le> length (rows d)" using Suc.prems by simp
  note IH = Suc.IH [OF le]
  have page: "next_page key (cursor ?s) ?n (rows d) = take ?n (drop (j * ?n) ?L)"
    using IH le d next_page_behind [OF d(1), of "j * ?n" ?n] by (auto simp: next_page_start)
  have len: "length (take ?n (drop (j * ?n) ?L)) = ?n" using Suc.prems by simp
  have end_of: "last (take ?n (drop (j * ?n) ?L)) = ?L ! (Suc j * ?n - 1)"
    using Suc.prems d(2) len by (subst last_conv_nth) (auto simp: add.commute)
  have split: "take (Suc j * ?n) ?L = take (j * ?n) ?L @ take ?n (drop (j * ?n) ?L)"
  proof -
    have "Suc j * ?n = j * ?n + ?n" by simp
    then show ?thesis by (simp only: take_add)
  qed
  from full_page [of ?s d] IH page len d(2) end_of show ?case by (simp add: split [unfolded mult_Suc])
qed

text \<open>A pass takes one cycle per page and ends with the verdict on the whole table.\<close>

lemma full_pass:
  assumes start: "cursor s = None" "failures s = 0"
    and d: "distinct (map key (rows d))" "0 < size_of d"
    and k: "k = length (rows d) div size_of d + 1"
  shows "passes ((cycle d ^^ k) s) = passes s + 1" "cursor ((cycle d ^^ k) s) = None"
    "verdict ((cycle d ^^ k) s) = (if \<exists>r \<in> set (rows d). bad d r then Failed_pass else Clean_pass)"
proof -
  let ?n = "size_of d" and ?L = "order_by key (rows d)"
  define j where "j = length (rows d) div ?n"
  let ?s = "(cycle d ^^ j) s"
  have le: "j * ?n \<le> length (rows d)" by (simp add: j_def)
  note so_far = pages_so_far [OF start d le]
  have page: "next_page key (cursor ?s) ?n (rows d) = take ?n (drop (j * ?n) ?L)"
    using so_far le d next_page_behind [OF d(1), of "j * ?n" ?n] by (auto simp: next_page_start)
  have "length (rows d) - j * ?n < ?n"
    using d(2) by (simp add: j_def minus_div_mult_eq_mod)
  then have short: "length (take ?n (drop (j * ?n) ?L)) < ?n" and rest: "take ?n (drop (j * ?n) ?L) = drop (j * ?n) ?L"
    by simp_all
  have total: "length (filter (bad d) (take (j * ?n) ?L)) + length (filter (bad d) (drop (j * ?n) ?L))
      = length (filter (bad d) ?L)"
    by (metis append_take_drop_id filter_append length_append)
  have step: "(cycle d ^^ k) s = cycle d ?s" by (simp add: k j_def)
  have "verdict (cycle d ?s) = (if length (filter (bad d) ?L) = 0 then Clean_pass else Failed_pass)"
    and "passes (cycle d ?s) = passes s + 1" "cursor (cycle d ?s) = None"
    using short_page [of ?s d] so_far page short rest total by (simp_all only: simp_thms add_ac)
  then show "passes ((cycle d ^^ k) s) = passes s + 1" "cursor ((cycle d ^^ k) s) = None"
    "verdict ((cycle d ^^ k) s) = (if \<exists>r \<in> set (rows d). bad d r then Failed_pass else Clean_pass)"
    unfolding step by (auto simp: filter_empty_conv)
qed

end

section \<open>The two verifiers\<close>

definition content_cycle :: "audit_env \<times> nat \<times> int \<times> audit_db \<Rightarrow> verifier_state \<Rightarrow> verifier_state" where
  "content_cycle d st = (case d of (env, n, now, db) \<Rightarrow> snd (verifyContentHashCursor env n now db st))"

definition content_cursor :: "verifier_state \<Rightarrow> (int \<times> string) option" where
  "content_cursor st = (let cp = checkpoint_of CONTENT_HASH_VERIFIER_NAME st in
     if vc_hash_schema_version cp \<noteq> AUDIT_HASH_SCHEMA_VERSION then None else vc_last cp)"

definition content_failures :: "verifier_state \<Rightarrow> nat" where
  "content_failures st = (let cp = checkpoint_of CONTENT_HASH_VERIFIER_NAME st in
     if vc_hash_schema_version cp \<noteq> AUDIT_HASH_SCHEMA_VERSION then 0 else vc_current_pass_failure_count cp)"

abbreviation content_checkpoint :: "verifier_state \<Rightarrow> checkpoint" where
  "content_checkpoint st \<equiv> checkpoint_of CONTENT_HASH_VERIFIER_NAME st"

abbreviation anchor_checkpoint :: "verifier_state \<Rightarrow> checkpoint" where
  "anchor_checkpoint st \<equiv> checkpoint_of ANCHOR_ROOT_VERIFIER_NAME st"

lemma checkpoint_of_update [simp]:
  "checkpoint_of name (st\<lparr>vs_checkpoints := (vs_checkpoints st)(name \<mapsto> cp), vs_findings := fs\<rparr>) = cp"
  by (simp add: checkpoint_of_def)

interpretation content: paged_verifier content_cycle
  "\<lambda>(env, n, now, db). current_rows (ad_events db)" "\<lambda>(env, n, now, db). n" event_order
  "\<lambda>(env, n, now, db) r. hash_mismatch env r" content_cursor content_failures
  "\<lambda>st. vc_completed_passes (content_checkpoint st)" "\<lambda>st. vc_last_pass_status (content_checkpoint st)"
proof (standard, goal_cases)
  case (1 s d)
  then show ?case
    by (cases d) (simp add: content_cycle_def verifyContentHashCursor_def Let_def content_cursor_def
      content_failures_def advance_def)
next
  case (2 s d)
  obtain env n now db where d: "d = (env, n, now, db)" by (cases d)
  from 2 have "next_page event_order (content_cursor s) n (current_rows (ad_events db)) \<noteq> []" by (auto simp: d)
  with 2 show ?case
    by (simp add: d content_cycle_def verifyContentHashCursor_def Let_def content_cursor_def
      content_failures_def advance_def)
qed

definition anchor_cursor_cycle ::
  "anchor_env \<times> nat \<times> int \<times> audit_db \<times> anchor_row list \<Rightarrow> verifier_state \<Rightarrow> verifier_state" where
  "anchor_cursor_cycle d st = (case d of (env, n, now, db, anchors) \<Rightarrow> snd (verifyAnchorRoots env n now db anchors st))"

interpretation roots: paged_verifier anchor_cursor_cycle
  "\<lambda>(env, n, now, db, anchors). landed_anchors anchors" "\<lambda>(env, n, now, db, anchors). n" anchor_order
  "\<lambda>(env, n, now, db, anchors) a. root_mismatch env db a" "\<lambda>st. vc_last (anchor_checkpoint st)"
  "\<lambda>st. vc_current_pass_failure_count (anchor_checkpoint st)"
  "\<lambda>st. vc_completed_passes (anchor_checkpoint st)" "\<lambda>st. vc_last_pass_status (anchor_checkpoint st)"
proof (standard, goal_cases)
  case (1 s d)
  then show ?case
    by (cases d) (simp add: anchor_cursor_cycle_def verifyAnchorRoots_def Let_def advance_def)
next
  case (2 s d)
  obtain env n now db anchors where d: "d = (env, n, now, db, anchors)" by (cases d)
  from 2 have "next_page anchor_order (vc_last (anchor_checkpoint s)) n (landed_anchors anchors) \<noteq> []"
    by (auto simp: d)
  with 2 show ?case by (simp add: d anchor_cursor_cycle_def verifyAnchorRoots_def Let_def advance_def)
qed

section \<open>What an honest log looks like to the verifier\<close>

text \<open>Values that a JSONB column gives back as they were: no field is \<open>undefined\<close>.\<close>

fun storable :: "jsv \<Rightarrow> bool" where
  "storable (VArr vs) = list_all storable vs"
| "storable (VObj kvs) = list_all (\<lambda>(k, v). v \<noteq> VUndefined \<and> storable v) kvs"
| "storable v = True"

definition storable_event :: "event_input \<Rightarrow> bool" where
  "storable_event e \<longleftrightarrow> storable (VObj (ae_inputs e)) \<and> storable (VObj (ae_outputs e))
     \<and> pred_option (\<lambda>kvs. storable (VObj kvs)) (ae_beforeState e) \<and> pred_option (\<lambda>kvs. storable (VObj kvs)) (ae_afterState e)"

lemma jsonb_stable: "storable v \<Longrightarrow> stableJsonValue (jsonb_value v) = stableJsonValue v"
proof (induction v)
  case (VObj kvs)
  then have kept: "filter (\<lambda>(k, v). v \<noteq> VUndefined) kvs = kvs" by (auto simp: filter_id_conv list_all_iff)
  have entries: "map (\<lambda>(k, v). (k, stableJsonValue v)) (map (\<lambda>(k, v). (k, jsonb_value v)) kvs)
      = map (\<lambda>(k, v). (k, stableJsonValue v)) kvs"
    using VObj by (auto simp: list_all_iff intro!: map_cong)
  show ?case by (simp only: jsonb_value.simps stableJsonValue.simps kept entries)
qed (auto simp: list_all_iff)

lemma jsonb_same_object: "storable (VObj kvs) \<Longrightarrow> same_object (jsonb kvs) kvs"
  using jsonb_stable [of "VObj kvs"] by (simp add: same_object_stable jsonb_def)

text \<open>An \<open>undefined\<close> field is hashed as \<open>null\<close> but not stored.\<close>

lemma jsonb_loses_undefined:
  assumes "(k, VUndefined) \<in> set kvs"
  shows "\<not> same_object (jsonb kvs) kvs"
proof
  assume "same_object (jsonb kvs) kvs"
  then have "sort_keys (map (\<lambda>(k, v). (k, stableJsonValue v)) (jsonb kvs))
      = sort_keys (map (\<lambda>(k, v). (k, stableJsonValue v)) kvs)"
    by (simp add: same_object_stable)
  then have "length (jsonb kvs) = length kvs" by (metis length_map length_sort_keys)
  moreover have "length (filter (\<lambda>(k, v). v \<noteq> VUndefined) kvs) < length kvs"
    using assms by (intro length_filter_less [of "(k, VUndefined)"]) auto
  ultimately show False by (simp add: jsonb_def)
qed

lemma jsonb_same_state:
  "pred_option (\<lambda>kvs. storable (VObj kvs)) x \<Longrightarrow> rel_option same_object (map_option jsonb x) x"
  by (cases x) (auto intro: jsonb_same_object)

lemma columns_same_content: "storable_event e \<Longrightarrow> same_content (columns_of e) e"
  by (simp add: storable_event_def same_content_def columns_of_def jsonb_same_object jsonb_same_state
      del: storable.simps)

lemma storable_normalized: "storable_event (normalizeAuditEventInput e) \<longleftrightarrow> storable_event e"
  by (simp add: storable_event_def normalizeAuditEventInput_def Let_def)

text \<open>Every row of the log is as it was hashed.\<close>

definition log_ok :: "audit_env \<Rightarrow> audit_db \<Rightarrow> bool" where
  "log_ok env db \<longleftrightarrow> distinct (map ar_id (ad_events db))
     \<and> (\<forall>r \<in> set (ad_events db). ar_hash_schema_version r = AUDIT_HASH_SCHEMA_VERSION \<and> \<not> hash_mismatch env r)"

lemma append_event_log:
  assumes "number_text (hs_number (en_hash env))" "storable_event e" "log_ok env db"
  shows "log_ok env (snd (append_event env i now e db))"
proof (cases "append_event env i now e db")
  case (Pair res db2)
  show ?thesis
  proof (cases res)
    case (Inl err)
    with Pair assms(3) show ?thesis
      by (auto simp: append_event_def Let_def split: option.splits sum.splits)
  next
    case (Inr s)
    with Pair append_event_InrD [of env i now e db s db2] obtain prev where
      events: "ad_events db2 = ad_events db @ [\<lparr>ar_id = i, ar_event = columns_of e,
        ar_event_hash = event_hash env e i now prev, ar_prev_event_hash = prev, ar_created_at = now,
        ar_hash_schema_version = AUDIT_HASH_SCHEMA_VERSION\<rparr>]" by auto
    have "i \<notin> ar_id ` set (ad_events db)"
      using Pair Inr by (auto simp: append_event_def insert_event_def Let_def list_ex_iff split: option.splits sum.splits if_splits)
    moreover have "event_hash env (columns_of e) i now prev = event_hash env e i now prev"
      by (rule event_hash_same_content [OF assms(1) columns_same_content [OF assms(2)]])
    ultimately show ?thesis
      using assms(3) Pair by (auto simp: log_ok_def events hash_mismatch_def recomputed_def)
  qed
qed

lemma pg_emit_log:
  assumes "number_text (hs_number (en_hash env))" "storable_event e" "log_ok env db"
  shows "log_ok env (snd (pg_emit env i now e db))"
  using append_event_log [OF assms(1) _ assms(3), of "normalizeAuditEventInput e" i now] assms(2,3)
  by (auto simp: pg_emit_def Let_def storable_normalized split: option.splits sum.splits)

lemma emit_all_log:
  "number_text (hs_number (en_hash env)) \<Longrightarrow> \<forall>(i, now, e) \<in> set reqs. storable_event e \<Longrightarrow> log_ok env db \<Longrightarrow>
     log_ok env (emit_all env reqs db)"
  by (induction env reqs db rule: emit_all.induct) (auto simp: pg_emit_log)

lemma event_order_distinct: "distinct (map ar_id rows) \<Longrightarrow> distinct (map event_order rows)"
  by (auto simp: distinct_map inj_on_def event_order_def)

end
