(* ===== verification/Number_Text.thy ===== *)
theory Number_Text
  imports Json_Text Decimal_Order
begin

text \<open>
  A printer of numbers for the example environments, as numerator and denominator, which
  satisfies what the canonical JSON text asks of a printer: it is injective and its characters
  end at a delimiter.
\<close>

definition sample_number :: "rat \<Rightarrow> string" where
  "sample_number q = (case quotient_of q of (a, b) \<Rightarrow> show_int a @ ''e'' @ show_int b)"

lemma show_int_chars: "c \<in> set (show_int a) \<Longrightarrow> is_digit c \<or> c = CHR ''-''"
  using show_nat_spec by (auto simp: show_int_def list_all_iff split: if_splits)

lemma show_int_nonempty: "show_int a \<noteq> []"
  using show_nat_spec by (auto simp: show_int_def)

lemma show_nat_inject: "show_nat m = show_nat n \<Longrightarrow> m = n"
  using show_nat_spec by metis

lemma show_int_inject: "show_int a = show_int b \<Longrightarrow> a = b"
proof -
  have no_sign: "show_nat m \<noteq> CHR ''-'' # s" for m s
  proof
    assume "show_nat m = CHR ''-'' # s"
    with show_nat_spec [of m] have "is_digit CHR ''-''" by simp
    then show False by (simp add: is_digit_def)
  qed
  assume "show_int a = show_int b"
  then have "(a < 0) = (b < 0)" "show_nat (nat \<bar>a\<bar>) = show_nat (nat \<bar>b\<bar>)"
    using no_sign by (auto simp: show_int_def split: if_splits dest: sym)
  then show ?thesis using show_nat_inject [of "nat \<bar>a\<bar>" "nat \<bar>b\<bar>"] by (auto split: if_splits)
qed

lemma sample_number_text: "number_text sample_number"
proof -
  have digits: "takeWhile (\<lambda>c. c \<noteq> CHR ''e'') (show_int a @ CHR ''e'' # s) = show_int a" for a s
  proof -
    have "c \<noteq> CHR ''e''" if "c \<in> set (show_int a)" for c
      using show_int_chars [OF that] by (auto simp: is_digit_def)
    then show ?thesis by (simp add: takeWhile_append2)
  qed
  have "inj sample_number"
  proof (rule injI)
    fix p q assume eq: "sample_number p = sample_number q"
    obtain a b c d where pq: "quotient_of p = (a, b)" "quotient_of q = (c, d)" by fastforce
    with eq have "show_int a @ CHR ''e'' # show_int b = show_int c @ CHR ''e'' # show_int d"
      by (simp add: sample_number_def)
    moreover from this have "show_int a = show_int c" using digits by metis
    ultimately have "a = c \<and> b = d" by (auto dest: show_int_inject)
    with pq show "p = q" using quotient_of_inject by metis
  qed
  moreover have "sample_number q \<noteq> [] \<and> list_all number_char (sample_number q)" for q
    using show_int_chars
    by (auto simp: sample_number_def list_all_iff number_char_def split: prod.splits)
  ultimately show ?thesis by (simp add: number_text_def)
qed

end
