(* ===== verification/Audit_Properties.thy ===== *)
theory Audit_Properties
  imports Verifier_Facts Number_Text
begin

text \<open>
  The properties of the audit log, its anchors and its verifiers, with an example environment for the
  witnesses, in which the digests are injective functions.
\<close>

section \<open>An example environment\<close>

definition sample_audit :: audit_env where
  "sample_audit = \<lparr>en_hash = \<lparr>hs_number = sample_number, hs_sha256_hex = \<lambda>s. s\<rparr>, en_iso = show_int\<rparr>"

lemma sample_audit_simps [simp]:
  "number_text (hs_number (en_hash sample_audit))" "inj_on (hs_sha256_hex (en_hash sample_audit)) A"
  "hs_sha256_hex (en_hash sample_audit) t = t"
  by (simp_all add: sample_audit_def sample_number_text)

definition sample_event :: "string option \<Rightarrow> js_object \<Rightarrow> event_input" where
  "sample_event key inputs =
     \<lparr>ae_tenantId = ''tnt_1'', ae_layer = ''audit'', ae_eventType = None, ae_severity = None, ae_actor = ''user_1'',
      ae_actorDisplayName = None, ae_actorEmail = None, ae_action = ''raw.ingest'', ae_inputs = inputs,
      ae_outputs = [], ae_policyVersion = None, ae_policyDecisionId = None, ae_policyCheckId = None,
      ae_outcome = None, ae_beforeState = None, ae_afterState = None, ae_idempotencyKey = key,
      ae_correlationId = None, ae_keyId = None\<rparr>"

section \<open>The canonical form\<close>

text \<open>C25 (equivalence). Two events have the same canonical text exactly if every hashed field agrees: the id,
  the timestamp, the predecessor, and the content, with the defaults filled in, where objects are compared
  as JSON values by a relation that does not mention the serializer: equal primitives, \<open>undefined\<close> read as
  \<open>null\<close>, arrays element by element, objects key by key in any order. Numbers are assumed to print as
  number literals, different ones differently. The fingerprint that compares events of superseded versions decides the
  same content.\<close>

theorem canonical_text_decides:
  assumes "number_text (hs_number hs)"
  shows "(canonicalize_event hs x = canonicalize_event hs y \<longleftrightarrow>
      hi_id x = hi_id y \<and> hi_createdAt x = hi_createdAt y \<and> hi_prevEventHash x = hi_prevEventHash y
      \<and> same_content (hi_event x) (hi_event y))
    \<and> (logicalPayloadFingerprint hs d = logicalPayloadFingerprint hs e \<longleftrightarrow> same_content d e)"
  by (simp add: canonicalize_event_inject [OF assms] fingerprint_inject [OF assms])

theorem canonical_text_decides_witness:
  "logicalPayloadFingerprint (en_hash sample_audit) (sample_event None [(''b'', VNull), (''a'', VNum 1)])
     = logicalPayloadFingerprint (en_hash sample_audit) (sample_event (Some ''k'') [(''a'', VNum 1), (''b'', VUndefined)])"
proof -
  let ?d = "sample_event None [(''b'', VNull), (''a'', VNum 1)]"
    and ?e = "sample_event (Some ''k'') [(''a'', VNum 1), (''b'', VUndefined)]"
  have "same_object [(''b'', VNull), (''a'', VNum 1)] [(''a'', VNum 1), (''b'', VUndefined)]"
    by (simp add: same_object_stable sort_keys_def)
  then have "same_content ?d ?e" by (simp add: same_content_def sample_event_def)
  then show ?thesis
    using canonical_text_decides [of "en_hash sample_audit", where d = ?d and e = ?e] by simp
qed

section \<open>The chain\<close>

text \<open>C8 (invariant). Whatever is emitted, failed emits included, every tenant's rows form one chain from a single genesis
  row, the head row names the last of them and counts them, and the structural checks report no fork,
  no gap and no bad genesis.\<close>

theorem log_is_one_chain:
  "linked None (chain_of t (ad_events (emit_all env reqs empty_audit)))
   \<and> (case ad_heads (emit_all env reqs empty_audit) t of
        None \<Rightarrow> chain_of t (ad_events (emit_all env reqs empty_audit)) = []
      | Some h \<Rightarrow> ch_event_hash h = head_hash None (chain_of t (ad_events (emit_all env reqs empty_audit)))
          \<and> ch_sequence h = length (chain_of t (ad_events (emit_all env reqs empty_audit))))
   \<and> checkAuditConsistency (emit_all env reqs empty_audit)
      = \<lparr>cr_forks = 0, cr_gaps = 0, cr_invalidGenesis = 0\<rparr>"
proof -
  have ok: "audit_ok (emit_all env reqs empty_audit)" by (rule emit_all_ok [OF empty_audit_ok])
  show ?thesis using audit_okD(1) [OF ok, of t] consistent_when_ok [OF ok] by (simp add: head_ok_def)
qed

text \<open>C19 (functional). An idempotency key is written once: after an event was recorded under a key, an emit under the key
  returns that record and writes nothing when it carries the same content, and is refused without a
  trace when it does not (unless SHA-256 collides on the two texts).\<close>

theorem key_written_once:
  assumes "number_text (hs_number (en_hash env))"
    and "pg_emit env i now d db = (Inr s, db1)" "ae_idempotencyKey d = Some k"
    and "find_by_key (ae_tenantId d) k (ad_events db) = None"
    and "ae_tenantId e = ae_tenantId d" "ae_idempotencyKey e = Some k"
    and "inj_on (hs_sha256_hex (en_hash env))
      {event_text env (normalizeAuditEventInput d) (sv_id s) (sv_createdAt s) (sv_prevEventHash s),
       event_text env (normalizeAuditEventInput e) (sv_id s) (sv_createdAt s) (sv_prevEventHash s)}"
  shows "if same_content d e
    then \<exists>s'. pg_emit env j later e db1 = (Inr s', db1) \<and> sv_id s' = sv_id s \<and> sv_createdAt s' = sv_createdAt s
      \<and> sv_eventHash s' = sv_eventHash s \<and> sv_prevEventHash s' = sv_prevEventHash s
    else pg_emit env j later e db1 = (Inl Audit_idempotency_conflict, db1)"
  by (rule key_reuse [OF assms])

theorem key_written_once_witness:
  "\<exists>s db1. pg_emit sample_audit ''evt_1'' 10 (sample_event (Some ''k'') [(''n'', VNum 1)]) empty_audit = (Inr s, db1)
     \<and> pg_emit sample_audit ''evt_2'' 20 (sample_event (Some ''k'') [(''n'', VNum 2)]) db1
       = (Inl Audit_idempotency_conflict, db1)
     \<and> (\<exists>s'. pg_emit sample_audit ''evt_3'' 30 (sample_event (Some ''k'') [(''n'', VNum 1)]) db1 = (Inr s', db1)
          \<and> sv_id s' = ''evt_1'')"
proof -
  let ?d = "sample_event (Some ''k'') [(''n'', VNum 1)]" and ?e = "sample_event (Some ''k'') [(''n'', VNum 2)]"
  obtain s db1 where first: "pg_emit sample_audit ''evt_1'' 10 ?d empty_audit = (Inr s, db1)" and s: "sv_id s = ''evt_1''"
    by (simp add: pg_emit_def append_event_def insert_event_def ensure_head_def empty_audit_def find_by_key_def
        Let_def sample_event_def)
  have new: "find_by_key (ae_tenantId ?d) ''k'' (ad_events empty_audit) = None"
    by (simp add: find_by_key_def empty_audit_def)
  have key: "ae_idempotencyKey (sample_event (Some ''k'') kvs) = Some ''k''"
    "ae_tenantId (sample_event (Some ''k'') kvs) = ae_tenantId ?d" for kvs
    by (simp_all add: sample_event_def)
  have differ: "\<not> same_content ?d ?e"
    by (simp add: same_content_def sample_event_def same_object_stable sort_keys_def)
  note reuse = key_written_once [OF sample_audit_simps(1) first key(1) new key(2,1) sample_audit_simps(2)]
  have "pg_emit sample_audit ''evt_2'' 20 ?e db1 = (Inl Audit_idempotency_conflict, db1)"
    using reuse [of "[(''n'', VNum 2)]" "''evt_2''" 20] differ by simp
  moreover have "\<exists>s'. pg_emit sample_audit ''evt_3'' 30 ?d db1 = (Inr s', db1) \<and> sv_id s' = ''evt_1''"
    using reuse [of "[(''n'', VNum 1)]" "''evt_3''" 30] s by auto
  ultimately show ?thesis using first by blast
qed

text \<open>C24 (refinement). The in-memory emitter the tests run against refines the Postgres emitter: on a log it mirrors it
  returns the same id, time, hash and predecessor, refuses the same key conflicts, and mirrors the log
  again. The only other failure of the Postgres emitter is a unique index, which leaves the log as
  it was.\<close>

theorem memory_refines_postgres:
  assumes "mirrors evs db"
  shows "case fst (pg_emit env i now e db) of
      Inr s \<Rightarrow> \<exists>s' evs'. mem_emit env i now e evs = (Inr s', evs') \<and> same_answer s s'
        \<and> mirrors evs' (snd (pg_emit env i now e db))
    | Inl err \<Rightarrow> snd (pg_emit env i now e db) = db
        \<and> (err = Audit_idempotency_conflict \<and> mem_emit env i now e evs = (Inl err, evs) \<or> err = Audit_unique_violation)"
  by (rule emit_mirrors [OF assms])

theorem memory_refines_postgres_witness:
  "\<exists>s evs. mem_emit sample_audit ''evt_1'' 10 (sample_event None []) [] = (Inr s, evs)
     \<and> mirrors evs (snd (pg_emit sample_audit ''evt_1'' 10 (sample_event None []) empty_audit))"
proof -
  have "mirrors [] empty_audit" using empty_audit_ok by (simp add: mirrors_def empty_audit_def)
  moreover have "\<exists>s. fst (pg_emit sample_audit ''evt_1'' 10 (sample_event None []) empty_audit) = Inr s"
    by (simp add: pg_emit_def append_event_def insert_event_def ensure_head_def empty_audit_def
        Let_def sample_event_def)
  ultimately show ?thesis
    using memory_refines_postgres [of "[]" empty_audit sample_audit "''evt_1''" 10 "sample_event None []"] by auto
qed

text \<open>C9 (safety). The hash at the head determines the whole history: two linked chains of rows whose stored hashes
  recompute, with the same head hash, are row by row the same, with the same ids, times and content
  (unless SHA-256 collides on one of their texts). So nobody rewrites an event without changing every
  later hash.\<close>

theorem head_determines_history:
  assumes "number_text (hs_number (en_hash env))"
    and "inj_on (hs_sha256_hex (en_hash env)) (row_text env ` (set xs \<union> set ys))"
    and "\<forall>r \<in> set xs \<union> set ys. recomputed env r = ar_event_hash r"
    and "linked None xs" "linked None ys" "head_hash None xs = head_hash None ys"
  shows "list_all2 (same_row env) xs ys"
  by (rule histories_agree [OF assms])

theorem head_determines_history_witness:
  "list_all2 (same_row sample_audit)
     (ad_events (snd (pg_emit sample_audit ''evt_1'' 10 (sample_event None []) empty_audit)))
     (ad_events (snd (pg_emit sample_audit ''evt_1'' 10 (sample_event (Some ''k'') []) empty_audit)))"
proof -
  define row where "row key = \<lparr>ar_id = ''evt_1'', ar_event = columns_of (normalizeAuditEventInput (sample_event key [])),
    ar_event_hash = event_hash sample_audit (normalizeAuditEventInput (sample_event key [])) ''evt_1'' 10 None,
    ar_prev_event_hash = None, ar_created_at = 10, ar_hash_schema_version = AUDIT_HASH_SCHEMA_VERSION\<rparr>" for key
  have rows: "ad_events (snd (pg_emit sample_audit ''evt_1'' 10 (sample_event key []) empty_audit)) = [row key]" for key
    by (simp add: row_def pg_emit_def append_event_def insert_event_def ensure_head_def empty_audit_def find_by_key_def
        Let_def sample_event_def split: option.splits)
  have same: "same_content (normalizeAuditEventInput (sample_event key [])) (sample_event None [])"
    "same_content (columns_of (normalizeAuditEventInput (sample_event key []))) (sample_event None [])" for key
    by (simp_all add: same_content_def sample_event_def normalizeAuditEventInput_def normalizeAuditEventType_def
        normalizeAuditSeverity_def Let_def columns_of_def jsonb_def)
  have "recomputed sample_audit (row key) = ar_event_hash (row key)" for key
    unfolding recomputed_def row_def by (simp, rule event_hash_same_content)
      (simp, meson same same_content_trans same_content_sym)
  moreover have "ar_event_hash (row None) = ar_event_hash (row (Some ''k''))"
    unfolding row_def by (simp, rule event_hash_same_content) (simp, meson same same_content_trans same_content_sym)
  moreover have "ar_prev_event_hash (row key) = None" for key by (simp add: row_def)
  ultimately show ?thesis unfolding rows
    by (intro head_determines_history) (auto simp: head_hash_def)
qed

section \<open>The verifiers\<close>

definition fresh_verifier :: verifier_state where
  "fresh_verifier = \<lparr>vs_checkpoints = \<lambda>_. None, vs_findings = []\<rparr>"

lemma fresh_verifier_start [simp]:
  "content_cursor fresh_verifier = None" "content_failures fresh_verifier = 0"
  by (simp_all add: fresh_verifier_def content_cursor_def content_failures_def checkpoint_of_def new_checkpoint_def Let_def)

text \<open>C26 (termination). A pass of the content verifier ends: over a table that stands still, with page size \<open>n\<close>, it takes
  one cycle per full page and one more, completes exactly one pass, and its verdict is failed if and
  only if some row of the current version does not hash to its stored hash.\<close>

theorem content_pass_is_exact:
  assumes "distinct (map ar_id (ad_events db))" "0 < n" "content_cursor st = None" "content_failures st = 0"
    and "k = length (current_rows (ad_events db)) div n + 1"
  shows "vc_completed_passes (content_checkpoint ((content_cycle (env, n, now, db) ^^ k) st))
      = vc_completed_passes (content_checkpoint st) + 1
    \<and> vc_last_pass_status (content_checkpoint ((content_cycle (env, n, now, db) ^^ k) st))
      = (if \<exists>r \<in> set (current_rows (ad_events db)). hash_mismatch env r then Failed_pass else Clean_pass)"
proof -
  have "distinct (map event_order (current_rows (ad_events db)))"
    using event_order_distinct [OF assms(1)] by (simp add: current_rows_def distinct_map_filter)
  then show ?thesis
    using content.full_pass [of st "(env, n, now, db)" k] assms(2-5) by simp
qed

theorem content_pass_is_exact_witness:
  "vc_last_pass_status (content_checkpoint ((content_cycle (sample_audit, 1, 5, empty_audit) ^^ 1) fresh_verifier)) = Clean_pass"
  using content_pass_is_exact [of empty_audit 1 fresh_verifier 1 sample_audit 5]
  by (simp add: empty_audit_def current_rows_def)

text \<open>C10 (safety). An honest log is never accused: after any emits whose values JSON can store, a full pass over the log is
  clean, at any page size, and the structural checks find nothing.\<close>

theorem honest_log_verifies_clean:
  assumes "number_text (hs_number (en_hash env))" and "\<forall>(i, now, e) \<in> set reqs. storable_event e" and "0 < n"
    and "db = emit_all env reqs empty_audit" and "k = length (current_rows (ad_events db)) div n + 1"
  shows "vc_last_pass_status (content_checkpoint ((content_cycle (env, n, now, db) ^^ k) fresh_verifier)) = Clean_pass
    \<and> checkAuditConsistency db = \<lparr>cr_forks = 0, cr_gaps = 0, cr_invalidGenesis = 0\<rparr>"
proof -
  have log: "log_ok env db"
    unfolding assms(4) by (rule emit_all_log [OF assms(1,2)]) (simp add: log_ok_def empty_audit_def)
  then have "distinct (map event_order (current_rows (ad_events db)))"
    using event_order_distinct [of "ad_events db"] by (simp add: log_ok_def current_rows_def distinct_map_filter)
  then show ?thesis
    using content.full_pass [of fresh_verifier "(env, n, now, db)" k] assms(3,5) log
      consistent_when_ok [OF emit_all_ok [OF empty_audit_ok], of env reqs]
    by (auto simp: log_ok_def current_rows_def assms(4))
qed

theorem honest_log_verifies_clean_witness:
  "\<exists>k. vc_last_pass_status (content_checkpoint ((content_cycle (sample_audit, 2, 5,
       emit_all sample_audit [(''evt_1'', 1, sample_event None [(''n'', VNum 1)])] empty_audit) ^^ k) fresh_verifier)) = Clean_pass"
proof -
  let ?reqs = "[(''evt_1'', 1, sample_event None [(''n'', VNum 1)])]"
  have "\<forall>(i, now, e) \<in> set ?reqs. storable_event e"
    by (simp add: storable_event_def sample_event_def)
  from honest_log_verifies_clean [OF sample_audit_simps(1) this zero_less_numeral refl refl] show ?thesis by blast
qed

text \<open>C38 (error). The emitter accepts an \<open>undefined\<close> field in the inputs of an event, hashes it as \<open>null\<close> and
  does not store it: the row written for such an event (one without an idempotency key) does not
  recompute, so the verifier reports an honest event as altered, provided different numbers print
  differently and SHA-256 does not collide on two texts, that of the event and that of the stored row.\<close>

theorem undefined_field_is_reported:
  assumes "number_text (hs_number (en_hash env))"
    and "pg_emit env i now e db = (Inr s, db1)" "ae_idempotencyKey e = None"
    and "(k, VUndefined) \<in> set (ae_inputs e)" and "ad_events db1 = ad_events db @ [r]"
    and "inj_on (hs_sha256_hex (en_hash env))
      {row_text env r, event_text env (normalizeAuditEventInput e) i now (ar_prev_event_hash r)}"
  shows "hash_mismatch env r"
proof -
  let ?e = "normalizeAuditEventInput e"
  have "append_event env i now ?e db = (Inr s, db1)"
    using assms(2,3) by (simp add: pg_emit_def Let_def)
  then obtain prev where "ad_events db1 = ad_events db @ [\<lparr>ar_id = i, ar_event = columns_of ?e,
      ar_event_hash = event_hash env ?e i now prev, ar_prev_event_hash = prev, ar_created_at = now,
      ar_hash_schema_version = AUDIT_HASH_SCHEMA_VERSION\<rparr>]" (is "_ = _ @ [?r]")
    using append_event_InrD by blast
  then have r: "r = ?r" using assms(5) by simp
  have "\<not> same_object (jsonb (ae_inputs ?e)) (ae_inputs ?e)"
    using assms(4) by (intro jsonb_loses_undefined [of k]) (simp add: normalizeAuditEventInput_def Let_def)
  then have "\<not> same_content (columns_of ?e) ?e" by (simp add: same_content_def columns_of_def)
  then have "row_text env ?r \<noteq> event_text env ?e i now prev"
    by (simp add: row_text_def event_text_inject [OF assms(1)])
  then have "hash_mismatch env ?r"
    using assms(6) unfolding r by (auto simp: hash_mismatch_def recomputed_def event_hash_text row_text_def dest: inj_onD)
  then show ?thesis unfolding r .
qed

theorem undefined_field_is_reported_witness:
  "\<exists>r. ad_events (snd (pg_emit sample_audit ''evt_1'' 10 (sample_event None [(''since'', VUndefined)]) empty_audit)) = [r]
     \<and> hash_mismatch sample_audit r"
proof -
  let ?e = "sample_event None [(''since'', VUndefined)]"
  have "\<exists>s. fst (pg_emit sample_audit ''evt_1'' 10 ?e empty_audit) = Inr s"
    by (simp add: pg_emit_def append_event_def insert_event_def ensure_head_def empty_audit_def Let_def sample_event_def)
  then obtain s where "pg_emit sample_audit ''evt_1'' 10 ?e empty_audit
      = (Inr s, snd (pg_emit sample_audit ''evt_1'' 10 ?e empty_audit))" by (metis prod.collapse)
  note run = this
  then obtain r where "ad_events (snd (pg_emit sample_audit ''evt_1'' 10 ?e empty_audit)) = ad_events empty_audit @ [r]"
    by (auto simp: pg_emit_def Let_def sample_event_def dest!: append_event_InrD)
  with undefined_field_is_reported [OF sample_audit_simps(1) run _ _ this, of "''since''"] show ?thesis
    by (simp add: sample_event_def empty_audit_def)
qed

section \<open>Anchors\<close>

text \<open>C20 (liveness). Every cycle makes progress: when some event is not covered and its root is not in the table yet, the
  cycle inserts a pending anchor that holds exactly the uncovered events up to the end of its window,
  at least one and over at most seven days, and exactly the later ones stay uncovered. So a backlog of
  any length drains, and no event falls between two windows.\<close>

theorem anchor_cycle_progresses:
  assumes "oldest_unanchored t w = Some m" and "m \<le> az_now w"
    and "hi = aw_periodEnd (nextAnchorWindow (covered_to t (az_anchors w)) m (az_now w) MAX_ANCHOR_WINDOW_MS)"
    and "findAnchorByRoot t (window_root env (listEventsForAnchor t m hi (ad_events (az_audit w))))
      (az_anchors w) = None"
  shows "\<exists>row w'. anchor_cycle env t w = (Inr (Some row), w')
    \<and> an_event_count row = length (filter (\<lambda>r. ar_created_at r \<le> hi) (unanchored t w)) \<and> an_event_count row > 0
    \<and> unanchored t w' = filter (\<lambda>r. hi < ar_created_at r) (unanchored t w)
    \<and> length (unanchored t w') + an_event_count row = length (unanchored t w)
    \<and> hi - m \<le> MAX_ANCHOR_WINDOW_MS"
  by (rule cycle_progress [OF assms])

definition sample_row :: "string \<Rightarrow> int \<Rightarrow> string \<Rightarrow> audit_row" where
  "sample_row i created hash =
     \<lparr>ar_id = i, ar_event = sample_event None [], ar_event_hash = hash, ar_prev_event_hash = None,
      ar_created_at = created, ar_hash_schema_version = 4\<rparr>"

definition sample_world :: anchor_world where
  "sample_world =
     \<lparr>az_audit = \<lparr>ad_events = [sample_row ''evt_1'' 10 ''01'', sample_row ''evt_2'' 20 ''02''], ad_heads = \<lambda>_. None\<rparr>,
      az_anchors = [], az_now = 100, az_next = 3, az_log = []\<rparr>"

definition sample_anchoring :: anchor_env where
  "sample_anchoring = \<lparr>ae_audit = sample_audit, ae_keccak = sample_digest\<rparr>"

lemma sample_world_oldest: "oldest_unanchored ''tnt_1'' sample_world = Some 10"
  by code_simp

lemma sample_world_facts:
  "10 \<le> az_now sample_world"
  "100 = aw_periodEnd (nextAnchorWindow (covered_to ''tnt_1'' (az_anchors sample_world)) 10 (az_now sample_world)
     MAX_ANCHOR_WINDOW_MS)"
  by code_simp+

lemma sample_world_no_anchor: "findAnchorByRoot ''tnt_1'' rt (az_anchors sample_world) = None"
  by (simp add: sample_world_def findAnchorByRoot_def)

theorem anchor_cycle_progresses_witness:
  "\<exists>row w'. anchor_cycle sample_anchoring ''tnt_1'' sample_world = (Inr (Some row), w') \<and> an_event_count row > 0"
  using anchor_cycle_progresses [OF sample_world_oldest sample_world_facts sample_world_no_anchor] by blast

text \<open>The clock of an emit is read before its row is committed, and a window closes at the current time: a row
  that commits after a window it belongs to was cut is behind the covered time. It is not among the
  unanchored events of the state it commits into, so while that anchor is not reverted no cycle cuts
  a window for it, and the window then holds one event more than its anchor counted.\<close>

theorem late_event_is_behind_its_window:
  assumes "oldest_unanchored t w = Some m" and "m \<le> az_now w"
    and "hi = aw_periodEnd (nextAnchorWindow (covered_to t (az_anchors w)) m (az_now w) MAX_ANCHOR_WINDOW_MS)"
    and "anchor_cycle env t w = (Inr (Some row), w')"
    and "findAnchorByRoot t (window_root env (listEventsForAnchor t m hi (ad_events (az_audit w))))
      (az_anchors w) = None"
    and "tenant_of r = t" "m \<le> ar_created_at r" "ar_created_at r \<le> hi"
    and "ad_events (az_audit w2) = ad_events (az_audit w') @ [r]" "az_anchors w2 = az_anchors w'"
  shows "r \<notin> set (unanchored t w2)
    \<and> length (listEventsForAnchor t m hi (ad_events (az_audit w2))) = an_event_count row + 1"
  by (rule conjI [OF late_event(1) [OF assms] late_event(2) [OF assms]])

theorem late_event_is_behind_its_window_witness:
  "\<exists>w2. sample_row ''evt_0'' 15 ''03'' \<in> set (ad_events (az_audit w2))
     \<and> sample_row ''evt_0'' 15 ''03'' \<notin> set (unanchored ''tnt_1'' w2)"
proof -
  obtain row w' where cycle: "anchor_cycle sample_anchoring ''tnt_1'' sample_world = (Inr (Some row), w')"
    using cycle_progress [OF sample_world_oldest sample_world_facts sample_world_no_anchor, of sample_anchoring] by blast
  define r where "r = sample_row ''evt_0'' 15 ''03''"
  define w2 where "w2 = w'\<lparr>az_audit := (az_audit w')\<lparr>ad_events := ad_events (az_audit w') @ [r]\<rparr>\<rparr>"
  have "tenant_of r = ''tnt_1''" "10 \<le> ar_created_at r" "ar_created_at r \<le> 100"
    by (simp_all add: r_def sample_row_def tenant_of_def sample_event_def)
  moreover have "ad_events (az_audit w2) = ad_events (az_audit w') @ [r]" "az_anchors w2 = az_anchors w'"
    by (simp_all add: w2_def)
  ultimately have "r \<notin> set (unanchored ''tnt_1'' w2)"
    using late_event_is_behind_its_window [OF sample_world_oldest sample_world_facts cycle sample_world_no_anchor] by blast
  moreover have "r \<in> set (ad_events (az_audit w2))" by (simp add: w2_def)
  ultimately show ?thesis unfolding r_def by blast
qed

definition leaf_hashes :: "audit_row list \<Rightarrow> buffer list" where
  "leaf_hashes rows = map (\<lambda>r. hex_bytes (ar_event_hash r)) rows"

text \<open>C11 (safety). Truncation is detected, down to the last event: an anchor the root verifier accepts, built
  over a nonempty window, stands for exactly the event hashes its window holds now, and for as many
  events; in particular the window is not empty now. The hypotheses are those of the Merkle tree: 32-byte
  digests, no collision on what is hashed, windows of fewer than 2^64 events, no event hash that is a
  count leaf, and an anchored root that is not the 32 zero bytes the code uses for an empty window.\<close>

theorem accepted_anchor_holds_its_events:
  assumes "\<And>x. length (ae_keccak env x) = 32"
    and "an_merkle_root a = window_root env old" "old \<noteq> []" "length old < 2 ^ 64"
    and "an_merkle_root a \<noteq> replicate 32 0"
    and "kept = listEventsForAnchor (an_tenant_id a) (an_period_start a) (an_period_end a) (ad_events db)"
    and "length kept < 2 ^ 64"
    and "inj_on (ae_keccak env) (set (build_inputs (ae_keccak env) (leaf_hashes old))
      \<union> set (build_inputs (ae_keccak env) (leaf_hashes kept))
      \<union> {count_input (ae_keccak env) (length old), count_input (ae_keccak env) (length kept)})"
    and "countLeaf (ae_keccak env) (length old) \<notin> set (leaf_hashes kept)"
    and "countLeaf (ae_keccak env) (length kept) \<notin> set (leaf_hashes old)"
    and "\<not> root_mismatch env db a"
  shows "set (leaf_hashes old) = set (leaf_hashes kept) \<and> length old = length kept \<and> kept \<noteq> []"
proof -
  have len: "length (leaf_hashes rows) = length rows" "leaf_hashes rows = [] \<longleftrightarrow> rows = []" for rows
    by (simp_all add: leaf_hashes_def)
  have rt: "window_root env kept = an_merkle_root a" using assms(6,11) by (simp add: root_mismatch_def rebuilt_root_def)
  have kept: "kept \<noteq> []" using rt assms(5) by (auto simp: window_root_def buildTree_def)
  have "mt_root (buildTree (ae_keccak env) (leaf_hashes old)) = mt_root (buildTree (ae_keccak env) (leaf_hashes kept))"
    using rt assms(2) by (simp add: window_root_def leaf_hashes_def)
  then have "set (leaf_hashes old) = set (leaf_hashes kept) \<and> length (leaf_hashes old) = length (leaf_hashes kept)"
    by (intro root_binds [OF assms(1)]) (use assms(3,4,7-10) kept in \<open>simp_all only: len not_False_eq_True\<close>)
  with kept show ?thesis by (simp add: len)
qed

theorem accepted_anchor_holds_its_events_witness:
  "\<exists>a. \<not> root_mismatch sample_anchoring (az_audit sample_world) a
     \<and> an_merkle_root a = window_root sample_anchoring (ad_events (az_audit sample_world))
     \<and> set (leaf_hashes (ad_events (az_audit sample_world)))
       = set (leaf_hashes (listEventsForAnchor ''tnt_1'' 10 100 (ad_events (az_audit sample_world))))"
proof -
  let ?h = sample_digest and ?db = "az_audit sample_world"
  define old where "old = ad_events ?db"
  define a where "a = \<lparr>an_id = ''anchor_1'', an_tenant_id = ''tnt_1'', an_merkle_root = window_root sample_anchoring old,
    an_event_count = 2, an_period_start = 10, an_period_end = 100, an_onchain_tx_hash = None,
    an_onchain_block_number = None, an_onchain_status = Anchor_pending, an_onchain_contract_address = None,
    an_created_at = 100\<rparr>"
  have kept: "listEventsForAnchor (an_tenant_id a) (an_period_start a) (an_period_end a) (ad_events ?db) = old"
    unfolding a_def old_def by code_simp
  have keccak: "ae_keccak sample_anchoring = ?h" by (simp add: sample_anchoring_def)
  have leaves: "leaf_hashes old = [[1], [2]]" "length old = 2" unfolding old_def by code_simp+
  have "inj_on ?h (set (build_inputs ?h [[1], [2]] @ [count_input ?h 2]))"
    by (rule inj_on_list) code_simp
  then have inj: "inj_on (ae_keccak sample_anchoring) (set (build_inputs (ae_keccak sample_anchoring) (leaf_hashes old))
      \<union> set (build_inputs (ae_keccak sample_anchoring) (leaf_hashes old))
      \<union> {count_input (ae_keccak sample_anchoring) (length old), count_input (ae_keccak sample_anchoring) (length old)})"
    by (simp add: keccak leaves)
  have fresh: "countLeaf (ae_keccak sample_anchoring) (length old) \<notin> set (leaf_hashes old)"
    unfolding keccak leaves by code_simp
  have ok: "\<not> root_mismatch sample_anchoring ?db a"
    using kept by (simp add: root_mismatch_def rebuilt_root_def) (simp add: a_def)
  have "mt_root (buildTree ?h [[1], [2]]) \<noteq> replicate 32 0" by code_simp
  then have root: "an_merkle_root a \<noteq> replicate 32 0"
    using leaves(1) by (simp add: a_def window_root_def leaf_hashes_def keccak)
  have small: "old \<noteq> []" "length old < 2 ^ 64" "an_merkle_root a = window_root sample_anchoring old"
    using leaves(2) by (auto simp: a_def)
  have "set (leaf_hashes old) = set (leaf_hashes old) \<and> length old = length old \<and> old \<noteq> []"
    by (rule accepted_anchor_holds_its_events [OF _ small(3,1,2) root kept [symmetric] small(2) inj fresh fresh ok])
      (simp add: keccak)
  then show ?thesis using ok kept by (intro exI [of _ a]) (simp add: a_def old_def)
qed

text \<open>An orphaned anchor is reported once: after the reconciler has written its event, every later attempt
  for the same anchor, at any time and in any later cycle, gets that event back and writes nothing.\<close>

theorem orphan_is_reported_once:
  assumes "emit_orphan env hex a w = (Inr s, w1)" and "az_audit w2 = az_audit w1"
  shows "\<exists>s'. emit_orphan env hex a w2 = (Inr s', w2\<lparr>az_next := az_next w2 + 1\<rparr>) \<and> same_answer s s'"
  by (rule orphan_again [OF assms])

theorem orphan_is_reported_once_witness:
  "\<exists>a s w1. emit_orphan sample_anchoring (\<lambda>_. ''00'') a sample_world = (Inr s, w1)
     \<and> (\<exists>s'. emit_orphan sample_anchoring (\<lambda>_. ''00'') a (w1\<lparr>az_now := 500\<rparr>)
          = (Inr s', w1\<lparr>az_now := 500, az_next := az_next w1 + 1\<rparr>) \<and> same_answer s s')"
proof -
  define a where "a = \<lparr>an_id = ''anchor_1'', an_tenant_id = ''tnt_2'', an_merkle_root = [],
    an_event_count = 2, an_period_start = 10, an_period_end = 100, an_onchain_tx_hash = None,
    an_onchain_block_number = None, an_onchain_status = Anchor_pending, an_onchain_contract_address = None,
    an_created_at = 100\<rparr>"
  have "\<exists>s. fst (emit_orphan sample_anchoring (\<lambda>_. ''00'') a sample_world) = Inr s"
    by (simp add: emit_orphan_def orphan_event_def a_def pg_emit_def append_event_def insert_event_def
        ensure_head_def find_by_key_def sample_world_def sample_row_def sample_event_def Let_def
        show_nat.simps)
  then obtain s w1 where first: "emit_orphan sample_anchoring (\<lambda>_. ''00'') a sample_world = (Inr s, w1)"
    by (metis prod.collapse)
  from orphan_is_reported_once [OF first, of "w1\<lparr>az_now := 500\<rparr>"] first show ?thesis
    by (intro exI [of _ a] exI [of _ s] exI [of _ w1]) simp
qed

end
