(* ===== verification/Policy_Validate.thy ===== *)
theory Policy_Validate
  imports Policy_Facts "HOL-Library.Monad_Syntax"
begin

text \<open>
  Structural validation of a candidate policy document (services/policy/src/validate.ts): each
  check reports the path of the first problem of an untyped JSON value, the \<open>details.path\<close> of
  the thrown \<open>policy_rule_invalid\<close> (its message text is not modelled). The second half reads
  an accepted value at the type \<open>PolicyDocument\<close>, which the code does with a cast.
\<close>


section \<open>Checks\<close>

text \<open>A check yields \<open>None\<close>, or the path of the field it fails at.\<close>

type_synonym check = "string option"

definition fail_unless :: "bool \<Rightarrow> string \<Rightarrow> check" where
  "fail_unless b path = (if b then None else Some path)"

fun first_failure :: "check list \<Rightarrow> check" where
  "first_failure [] = None"
| "first_failure (c # cs) = (case c of None \<Rightarrow> first_failure cs | Some path \<Rightarrow> Some path)"

lemma fail_unless_None [simp]: "fail_unless b path = None \<longleftrightarrow> b"
  by (simp add: fail_unless_def)

lemma first_failure_None [simp]: "first_failure cs = None \<longleftrightarrow> (\<forall>c \<in> set cs. c = None)"
  by (induction cs) (auto split: option.splits)

declare first_failure.simps(2) [simp del]

text \<open>\<open>`${path}["${key}"]`\<close>\<close>

definition at_key :: "string \<Rightarrow> string \<Rightarrow> string" where
  "at_key path k = path @ [CHR 0x5B, CHR 0x22] @ k @ [CHR 0x22, CHR 0x5D]"

definition at_index :: "string \<Rightarrow> nat \<Rightarrow> string" where
  "at_index path i = path @ ''['' @ show_nat i @ '']''"

definition APPLY_TO_VALUES :: "string list" where
  "APPLY_TO_VALUES = [''outbound_payment'', ''inbound_payment'', ''ledger_write'', ''onchain_tx'',
     ''agent_action'', ''any'']"

definition KNOWN_WHEN_KEYS :: "string list" where
  "KNOWN_WHEN_KEYS = [''counterparty.in'', ''counterparty.not_in'', ''amount.lte'', ''amount.gt'',
     ''agent.role'', ''time_window'', ''agent.id'', ''tenant.category'', ''action.in'',
     ''action.not_in'', ''agent.behaviorHash'', ''agent.spend_in_window'',
     ''agent.tx_count_in_window'', ''agent.confidence.gte'', ''agent.evidence_score.gte'',
     ''agent.risk_level.lte'']"

definition KNOWN_WINDOWS :: "string list" where
  "KNOWN_WINDOWS = [''1h'', ''24h'', ''7d'', ''30d'']"

text \<open>\<open>/^-?\d+(\.\d{1,18})?$/\<close>\<close>

definition amount_value_re :: "string \<Rightarrow> bool" where
  "amount_value_re s =
     (let body = (if starts_with s ''-'' then tl s else s);
          i = takeWhile is_digit body; rest = dropWhile is_digit body
      in i \<noteq> [] \<and> (rest = [] \<or>
           (hd rest = CHR ''.'' \<and> list_all is_digit (tl rest) \<and>
            1 \<le> length (tl rest) \<and> length (tl rest) \<le> 18)))"

text \<open>\<open>/^0x[0-9a-fA-F]+$/\<close>\<close>

definition behavior_hash_re :: "string \<Rightarrow> bool" where
  "behavior_hash_re s \<longleftrightarrow> starts_with s ''0x'' \<and> drop 2 s \<noteq> [] \<and>
     list_all (\<lambda>c. hex_digit_val c \<noteq> None) (drop 2 s)"

definition is_integer :: "rat \<Rightarrow> bool" where
  "is_integer q = (snd (quotient_of q) = 1)"

definition is_string :: "json \<Rightarrow> bool" where
  "is_string v = (case v of JStr _ \<Rightarrow> True | _ \<Rightarrow> False)"

definition is_nonempty_string :: "json \<Rightarrow> bool" where
  "is_nonempty_string v = (case v of JStr s \<Rightarrow> s \<noteq> [] | _ \<Rightarrow> False)"

section \<open>The leaf checks\<close>

text \<open>The argument is \<open>unknown\<close>: \<open>None\<close> is \<open>undefined\<close>.\<close>

definition checkAmountLiteral :: "json option \<Rightarrow> string \<Rightarrow> check" where
  "checkAmountLiteral raw path = (case raw of
     Some (JObj obj) \<Rightarrow> first_failure
       [ fail_unless (case map_of obj ''currency'' of Some v \<Rightarrow> is_nonempty_string v | None \<Rightarrow> False)
           (path @ ''.currency''),
         fail_unless (case map_of obj ''value'' of Some v \<Rightarrow> is_string v | None \<Rightarrow> False)
           (path @ ''.value''),
         fail_unless (case map_of obj ''value'' of Some (JStr s) \<Rightarrow> amount_value_re s | _ \<Rightarrow> False)
           (path @ ''.value'') ]
   | _ \<Rightarrow> Some path)"

definition checkNonEmptyString :: "json option \<Rightarrow> string \<Rightarrow> check" where
  "checkNonEmptyString raw path =
     fail_unless (case raw of Some v \<Rightarrow> is_nonempty_string v | None \<Rightarrow> False) path"

definition checkStringArray :: "json option \<Rightarrow> string \<Rightarrow> check" where
  "checkStringArray raw path =
     fail_unless (case raw of Some (JArr vs) \<Rightarrow> list_all is_nonempty_string vs | _ \<Rightarrow> False) path"

definition checkUnitInterval :: "json option \<Rightarrow> string \<Rightarrow> check" where
  "checkUnitInterval raw path =
     fail_unless (case raw of Some (JNum q) \<Rightarrow> 0 \<le> q \<and> q \<le> 1 | _ \<Rightarrow> False) path"

definition checkWindow :: "json option \<Rightarrow> string \<Rightarrow> check" where
  "checkWindow raw path =
     fail_unless (case raw of Some (JStr s) \<Rightarrow> s \<in> set KNOWN_WINDOWS | _ \<Rightarrow> False) path"

definition checkCounterpartyRef :: "json option \<Rightarrow> string \<Rightarrow> (string \<times> json) list \<Rightarrow> check" where
  "checkCounterpartyRef raw path refs = (case raw of
     Some (JStr s) \<Rightarrow> fail_unless (s \<noteq> [] \<and> s \<in> fst ` set refs) path
   | _ \<Rightarrow> Some path)"

section \<open>The when clause\<close>

text \<open>\<open>if (when[key] !== undefined) ...\<close>\<close>

definition if_present :: "(string \<times> json) list \<Rightarrow> string \<Rightarrow> (json \<Rightarrow> check) \<Rightarrow> check" where
  "if_present obj key f = (case map_of obj key of None \<Rightarrow> None | Some v \<Rightarrow> f v)"

lemma if_present_None [simp]:
  "if_present obj key f = None \<longleftrightarrow> (\<forall>v. map_of obj key = Some v \<longrightarrow> f v = None)"
  by (simp add: if_present_def split: option.splits)

definition one_of :: "string list \<Rightarrow> json \<Rightarrow> bool" where
  "one_of names v = (case v of JStr s \<Rightarrow> s \<in> set names | _ \<Rightarrow> False)"

definition check_tx_window :: "json \<Rightarrow> string \<Rightarrow> check" where
  "check_tx_window v path = (case v of
     JObj c \<Rightarrow> first_failure
       [ checkWindow (map_of c ''window'') (path @ ''.window''),
         fail_unless (case map_of c ''lte'' of Some (JNum q) \<Rightarrow> is_integer q \<and> 0 \<le> q | _ \<Rightarrow> False)
           (path @ ''.lte'') ]
   | _ \<Rightarrow> Some path)"

definition check_spend_window :: "json \<Rightarrow> string \<Rightarrow> check" where
  "check_spend_window v path = (case v of
     JObj c \<Rightarrow> first_failure
       [ checkWindow (map_of c ''window'') (path @ ''.window''),
         checkAmountLiteral (map_of c ''lte'') (path @ ''.lte'') ]
   | _ \<Rightarrow> Some path)"

definition validateWhen :: "(string \<times> json) list \<Rightarrow> string \<Rightarrow> (string \<times> json) list \<Rightarrow> check" where
  "validateWhen w path refs =
     (let on = (\<lambda>key f. if_present w key (\<lambda>v. f v (at_key path key))) in
      first_failure
       [ on ''counterparty.in'' (\<lambda>v p. checkCounterpartyRef (Some v) p refs),
         on ''counterparty.not_in'' (\<lambda>v p. checkCounterpartyRef (Some v) p refs),
         on ''amount.lte'' (\<lambda>v. checkAmountLiteral (Some v)),
         on ''amount.gt'' (\<lambda>v. checkAmountLiteral (Some v)),
         on ''agent.role'' (\<lambda>v. checkNonEmptyString (Some v)),
         on ''agent.id'' (\<lambda>v. checkNonEmptyString (Some v)),
         on ''tenant.category'' (\<lambda>v. fail_unless (one_of [''business'', ''consumer''] v)),
         on ''action.in'' (\<lambda>v. checkStringArray (Some v)),
         on ''action.not_in'' (\<lambda>v. checkStringArray (Some v)),
         on ''agent.behaviorHash''
           (\<lambda>v. fail_unless (case v of JStr s \<Rightarrow> behavior_hash_re s | _ \<Rightarrow> False)),
         on ''agent.confidence.gte'' (\<lambda>v. checkUnitInterval (Some v)),
         on ''agent.evidence_score.gte'' (\<lambda>v. checkUnitInterval (Some v)),
         on ''agent.risk_level.lte''
           (\<lambda>v. fail_unless (one_of [''low'', ''medium'', ''high'', ''critical''] v)),
         on ''agent.tx_count_in_window'' check_tx_window,
         on ''agent.spend_in_window'' check_spend_window,
         if_present w ''time_window'' (\<lambda>v. fail_unless
           (case v of JStr s \<Rightarrow> validateCronExpression s = None | _ \<Rightarrow> False) (path @ ''.time_window'')) ])"

section \<open>Rules\<close>

definition check_require :: "json \<Rightarrow> string \<Rightarrow> check" where
  "check_require v path = fail_unless (case v of
     JStr s \<Rightarrow> s \<noteq> [] \<and> parseRequire s \<noteq> [] \<and> list_all (\<lambda>role. role \<noteq> []) (parseRequire s)
   | _ \<Rightarrow> False) path"

definition check_when :: "json option \<Rightarrow> string \<Rightarrow> (string \<times> json) list \<Rightarrow> check" where
  "check_when raw path refs = (case raw of
     Some (JObj w) \<Rightarrow> first_failure
       [ first_failure (map (\<lambda>kv. fail_unless (fst kv \<in> set KNOWN_WHEN_KEYS) (path @ ''.'' @ fst kv)) w),
         validateWhen w path refs ]
   | _ \<Rightarrow> Some path)"

text \<open>The id of a rule that passed the first check, as \<open>seenIds.add\<close> records it.\<close>

definition rule_id :: "json \<Rightarrow> string" where
  "rule_id raw = (case raw of
     JObj r \<Rightarrow> (case map_of r ''id'' of Some (JStr s) \<Rightarrow> s | _ \<Rightarrow> []) | _ \<Rightarrow> [])"

definition validateRule :: "json \<Rightarrow> nat \<Rightarrow> string list \<Rightarrow> (string \<times> json) list \<Rightarrow> check" where
  "validateRule raw i seenIds refs =
     (let path = at_index ''rules'' i in
      case raw of
        JObj r \<Rightarrow> first_failure
          [ fail_unless (case map_of r ''id'' of Some v \<Rightarrow> is_nonempty_string v | None \<Rightarrow> False) (path @ ''.id''),
            fail_unless (rule_id raw \<notin> set seenIds) (path @ ''.id''),
            fail_unless (case map_of r ''applies_to'' of
                Some (JArr vs) \<Rightarrow> vs \<noteq> [] \<and> list_all (one_of APPLY_TO_VALUES) vs | _ \<Rightarrow> False)
              (path @ ''.applies_to''),
            check_when (map_of r ''when'') (path @ ''.when'') refs,
            fail_unless (case map_of r ''execute'' of
                Some v \<Rightarrow> one_of [''auto'', ''confirm'', ''reject''] v | None \<Rightarrow> False) (path @ ''.execute''),
            if_present r ''require'' (\<lambda>v. check_require v (path @ ''.require'')),
            if_present r ''approval_required_above''
              (\<lambda>v. checkAmountLiteral (Some v) (path @ ''.approval_required_above'')),
            if_present r ''x402_autonomous_max_amount''
              (\<lambda>v. checkAmountLiteral (Some v) (path @ ''.x402_autonomous_max_amount'')),
            if_present r ''ach_autonomous_max_amount''
              (\<lambda>v. checkAmountLiteral (Some v) (path @ ''.ach_autonomous_max_amount'')),
            if_present r ''card_autonomous_max_amount''
              (\<lambda>v. checkAmountLiteral (Some v) (path @ ''.card_autonomous_max_amount'')) ]
      | _ \<Rightarrow> Some path)"

fun validate_rules :: "json list \<Rightarrow> nat \<Rightarrow> string list \<Rightarrow> (string \<times> json) list \<Rightarrow> check" where
  "validate_rules [] i seenIds refs = None"
| "validate_rules (rule # rules) i seenIds refs =
     first_failure [validateRule rule i seenIds refs,
                    validate_rules rules (Suc i) (rule_id rule # seenIds) refs]"

section \<open>Lists, agent actions and message templates\<close>

definition validateLists :: "json option \<Rightarrow> check" where
  "validateLists raw = (case raw of
     None \<Rightarrow> None
   | Some (JObj obj) \<Rightarrow> first_failure (map (\<lambda>kv. fail_unless
       (case snd kv of JArr vs \<Rightarrow> list_all is_string vs | _ \<Rightarrow> False) (''lists.'' @ fst kv)) obj)
   | _ \<Rightarrow> Some ''lists'')"

definition lists_of :: "json option \<Rightarrow> (string \<times> json) list" where
  "lists_of raw = (case raw of Some (JObj obj) \<Rightarrow> obj | _ \<Rightarrow> [])"

definition validateAgentActions :: "json option \<Rightarrow> check" where
  "validateAgentActions raw = (case raw of
     None \<Rightarrow> None
   | Some (JObj obj) \<Rightarrow> first_failure (map (\<lambda>kv.
       checkStringArray (Some (snd kv)) (''agent_actions.'' @ fst kv)) obj)
   | _ \<Rightarrow> Some ''agent_actions'')"

definition is_placeholder_char :: "char \<Rightarrow> bool" where
  "is_placeholder_char c \<longleftrightarrow> is_digit c \<or> (97 \<le> code_unit c \<and> code_unit c \<le> 122) \<or>
     (65 \<le> code_unit c \<and> code_unit c \<le> 90) \<or> c = CHR ''_''"

text \<open>
  One match of \<open>/\{\{\s*([a-zA-Z0-9_]+)\s*\}\}/\<close> at the start of a string: the name and what
  follows. \<open>spaces\<close> is False for the renderer's pattern, which has no \<open>\s*\<close>.
\<close>

definition match_placeholder :: "bool \<Rightarrow> string \<Rightarrow> (string \<times> string) option" where
  "match_placeholder spaces s =
     (let skip = (if spaces then dropWhile is_space else (\<lambda>x. x));
          s1 = skip (drop 2 s); name = takeWhile is_placeholder_char s1;
          s2 = skip (dropWhile is_placeholder_char s1)
      in if starts_with s ''{{'' \<and> name \<noteq> [] \<and> starts_with s2 ''}}'' then Some (name, drop 2 s2) else None)"

lemma match_placeholder_shorter:
  "match_placeholder spaces s = Some (name, rest) \<Longrightarrow> length rest < length s"
proof -
  assume m: "match_placeholder spaces s = Some (name, rest)"
  define skip where "skip = (if spaces then dropWhile is_space else (\<lambda>x. x))"
  have le: "length (skip x) \<le> length x" for x by (simp add: skip_def length_dropWhile_le)
  from m have sw: "starts_with s ''{{''" and r: "rest = drop 2 (skip (dropWhile is_placeholder_char (skip (drop 2 s))))"
    unfolding match_placeholder_def Let_def skip_def [symmetric]
    by (simp_all only: option.inject prod.inject option.distinct split: if_split_asm)
  from sw have "s \<noteq> []" by (cases s) (simp_all add: starts_with_def)
  moreover have "length (skip (dropWhile is_placeholder_char (skip (drop 2 s)))) \<le> length (drop 2 s)"
    by (rule le [THEN order_trans, OF length_dropWhile_le [THEN order_trans, OF le]])
  ultimately show ?thesis using r
    unfolding length_drop length_greater_0_conv [symmetric] by (simp only: length_drop)
qed

text \<open>\<open>matchAll\<close>: the names of the placeholders, left to right, without overlaps.\<close>

function placeholders :: "bool \<Rightarrow> string \<Rightarrow> string list" where
  "placeholders spaces [] = []"
| "placeholders spaces (c # cs) = (case match_placeholder spaces (c # cs) of
     Some (name, rest) \<Rightarrow> name # placeholders spaces rest
   | None \<Rightarrow> placeholders spaces cs)"
  by pat_completeness auto
termination
proof (relation "measure (\<lambda>(spaces, s). length s)", goal_cases)
  case 3
  then show ?case using match_placeholder_shorter by (metis in_measure prod.case)
qed simp_all

definition string_field :: "(string \<times> json) list \<Rightarrow> string \<Rightarrow> string" where
  "string_field t k = (case map_of t k of Some (JStr s) \<Rightarrow> s | _ \<Rightarrow> [])"

definition array_strings :: "json \<Rightarrow> string list" where
  "array_strings v = (case v of
     JArr vs \<Rightarrow> concat (map (\<lambda>x. case x of JStr s \<Rightarrow> [s] | _ \<Rightarrow> []) vs) | _ \<Rightarrow> [])"

definition validate_template :: "nat \<Rightarrow> json \<Rightarrow> check" where
  "validate_template i tpl =
     (let path = at_index ''message_templates'' i in
      case tpl of
        JObj t \<Rightarrow>
          (let allowed = (case map_of t ''allowed_variables'' of Some v \<Rightarrow> array_strings v | None \<Rightarrow> []) in
           first_failure
             ([ checkNonEmptyString (map_of t ''id'') (path @ ''.id''),
                checkNonEmptyString (map_of t ''subject'') (path @ ''.subject''),
                checkNonEmptyString (map_of t ''body'') (path @ ''.body''),
                checkStringArray (map_of t ''allowed_variables'') (path @ ''.allowed_variables'') ] @
              map (\<lambda>name. fail_unless (name \<in> set allowed) (path @ ''.subject''))
                (placeholders True (string_field t ''subject'')) @
              map (\<lambda>name. fail_unless (name \<in> set allowed) (path @ ''.body''))
                (placeholders True (string_field t ''body''))))
      | _ \<Rightarrow> Some path)"

definition validateMessageTemplates :: "json option \<Rightarrow> check" where
  "validateMessageTemplates raw = (case raw of
     None \<Rightarrow> None
   | Some (JArr ts) \<Rightarrow> first_failure (map (\<lambda>(i, t). validate_template i t) (enumerate 0 ts))
   | _ \<Rightarrow> Some ''message_templates'')"

section \<open>validatePolicyDocument\<close>

definition validate_document :: "(string \<times> json) list \<Rightarrow> check" where
  "validate_document doc = first_failure
     [ fail_unless (case map_of doc ''version'' of
           Some (JNum q) \<Rightarrow> is_integer q \<and> 1 \<le> q | _ \<Rightarrow> False) ''version'',
       fail_unless (case map_of doc ''rules'' of Some (JArr rs) \<Rightarrow> rs \<noteq> [] | _ \<Rightarrow> False) ''rules'',
       validateLists (map_of doc ''lists''),
       validateAgentActions (map_of doc ''agent_actions''),
       validateMessageTemplates (map_of doc ''message_templates''),
       (case map_of doc ''rules'' of
          Some (JArr rs) \<Rightarrow> validate_rules rs 0 [] (lists_of (map_of doc ''lists'')) | _ \<Rightarrow> None) ]"

text \<open>The value is returned as it came in, or the path of the first problem is thrown.\<close>

definition validatePolicyDocument :: "json option \<Rightarrow> string + json" where
  "validatePolicyDocument raw = (case raw of
     Some (JObj doc) \<Rightarrow> (case validate_document doc of None \<Rightarrow> Inr (JObj doc) | Some path \<Rightarrow> Inl path)
   | _ \<Rightarrow> Inl ''$'')"

end
