(* ===== verification/Policy_Typed.thy ===== *)
theory Policy_Typed
  imports Policy_Validate
begin

text \<open>
  The cast \<open>raw as PolicyDocument\<close> that ends the policy validator, made a function: a JSON
  value is read at the declared types of services/policy/src/dsl.ts, and has no reading when
  a field is of another type. The validator is then sound: whatever it accepts has a reading,
  and the reading is well formed. Two optional fields that it does not look at are the
  exception, and one of them makes the gate's evaluation throw.
\<close>

section \<open>Types of JSON fields\<close>

datatype json_type =
  T_string | T_strings | T_bool | T_number | T_amount | T_spend_window | T_tx_window
  | T_category

definition amount_fields :: "(string \<times> json) list \<Rightarrow> amount_literal option" where
  "amount_fields obj = (case (map_of obj ''currency'', map_of obj ''value'') of
     (Some (JStr c), Some (JStr v)) \<Rightarrow> Some \<lparr>am_currency = c, am_value = v\<rparr> | _ \<Rightarrow> None)"

definition read_amount :: "json \<Rightarrow> amount_literal option" where
  "read_amount v = (case v of JObj obj \<Rightarrow> amount_fields obj | _ \<Rightarrow> None)"

definition read_string :: "json \<Rightarrow> string option" where
  "read_string v = (case v of JStr s \<Rightarrow> Some s | _ \<Rightarrow> None)"

definition read_strings :: "json \<Rightarrow> string list option" where
  "read_strings v = (case v of
     JArr vs \<Rightarrow> (if list_all is_string vs then Some (array_strings v) else None) | _ \<Rightarrow> None)"

definition read_number :: "json \<Rightarrow> rat option" where
  "read_number v = (case v of JNum q \<Rightarrow> Some q | _ \<Rightarrow> None)"

definition read_bool :: "json \<Rightarrow> bool option" where
  "read_bool v = (case v of JBool b \<Rightarrow> Some b | _ \<Rightarrow> None)"

definition read_category :: "json \<Rightarrow> tenant_category option" where
  "read_category v = (if v = JStr ''business'' then Some Business
     else if v = JStr ''consumer'' then Some Consumer else None)"

definition read_spend_window :: "json \<Rightarrow> spend_window option" where
  "read_spend_window v = (case v of
     JObj c \<Rightarrow> (case (map_of c ''window'', Option.bind (map_of c ''lte'') read_amount) of
         (Some (JStr w), Some m) \<Rightarrow> Some \<lparr>sw_window = w, sw_lte = m\<rparr> | _ \<Rightarrow> None)
   | _ \<Rightarrow> None)"

definition read_tx_window :: "json \<Rightarrow> tx_count_window option" where
  "read_tx_window v = (case v of
     JObj c \<Rightarrow> (case (map_of c ''window'', map_of c ''lte'') of
         (Some (JStr w), Some (JNum n)) \<Rightarrow> Some \<lparr>tw_window = w, tw_lte = n\<rparr> | _ \<Rightarrow> None)
   | _ \<Rightarrow> None)"

definition has_type :: "json_type \<Rightarrow> json \<Rightarrow> bool" where
  "has_type t v = (case t of
     T_string \<Rightarrow> read_string v \<noteq> None | T_strings \<Rightarrow> read_strings v \<noteq> None
   | T_bool \<Rightarrow> read_bool v \<noteq> None | T_number \<Rightarrow> read_number v \<noteq> None
   | T_amount \<Rightarrow> read_amount v \<noteq> None | T_spend_window \<Rightarrow> read_spend_window v \<noteq> None
   | T_tx_window \<Rightarrow> read_tx_window v \<noteq> None | T_category \<Rightarrow> read_category v \<noteq> None)"

text \<open>Every field of the table that is present has its type.\<close>

definition typed_fields :: "(string \<times> json_type) list \<Rightarrow> (string \<times> json) list \<Rightarrow> bool" where
  "typed_fields table obj = list_all (\<lambda>(k, t). case map_of obj k of None \<Rightarrow> True | Some v \<Rightarrow> has_type t v) table"

definition at_field :: "(json \<Rightarrow> 'a option) \<Rightarrow> (string \<times> json) list \<Rightarrow> string \<Rightarrow> 'a option" where
  "at_field f obj k = Option.bind (map_of obj k) f"

section \<open>Reading a document\<close>

definition WHEN_FIELDS :: "(string \<times> json_type) list" where
  "WHEN_FIELDS = [(''counterparty.in'', T_string), (''counterparty.not_in'', T_string),
     (''amount.lte'', T_amount), (''amount.gt'', T_amount), (''agent.role'', T_string),
     (''time_window'', T_string), (''agent.id'', T_string), (''tenant.category'', T_category),
     (''action.in'', T_strings), (''action.not_in'', T_strings), (''agent.behaviorHash'', T_string),
     (''agent.spend_in_window'', T_spend_window), (''agent.tx_count_in_window'', T_tx_window),
     (''agent.confidence.gte'', T_number), (''agent.evidence_score.gte'', T_number),
     (''agent.risk_level.lte'', T_string)]"

definition when_fields :: "(string \<times> json) list \<Rightarrow> rule_when" where
  "when_fields w = \<lparr>
     counterparty_in = at_field read_string w ''counterparty.in'',
     counterparty_not_in = at_field read_string w ''counterparty.not_in'',
     amount_lte = at_field read_amount w ''amount.lte'',
     amount_gt = at_field read_amount w ''amount.gt'',
     agent_role_is = at_field read_string w ''agent.role'',
     time_window = at_field read_string w ''time_window'',
     agent_id_is = at_field read_string w ''agent.id'',
     tenant_category_is = at_field read_category w ''tenant.category'',
     action_in = at_field read_strings w ''action.in'',
     action_not_in = at_field read_strings w ''action.not_in'',
     agent_behaviorHash = at_field read_string w ''agent.behaviorHash'',
     agent_spend_in_window = at_field read_spend_window w ''agent.spend_in_window'',
     agent_tx_count_in_window = at_field read_tx_window w ''agent.tx_count_in_window'',
     agent_confidence_gte = at_field read_number w ''agent.confidence.gte'',
     agent_evidence_score_gte = at_field read_number w ''agent.evidence_score.gte'',
     agent_risk_level_lte = at_field read_string w ''agent.risk_level.lte''\<rparr>"

definition read_when :: "json \<Rightarrow> rule_when option" where
  "read_when v = (case v of
     JObj w \<Rightarrow> (if typed_fields WHEN_FIELDS w then Some (when_fields w) else None) | _ \<Rightarrow> None)"

definition read_apply_to :: "json \<Rightarrow> apply_to option" where
  "read_apply_to v =
     (if v = JStr ''outbound_payment'' then Some Outbound_payment
      else if v = JStr ''inbound_payment'' then Some Inbound_payment
      else if v = JStr ''ledger_write'' then Some Ledger_write
      else if v = JStr ''onchain_tx'' then Some Onchain_tx
      else if v = JStr ''agent_action'' then Some Agent_action
      else if v = JStr ''any'' then Some Any else None)"

fun read_all :: "('b \<Rightarrow> 'a option) \<Rightarrow> 'b list \<Rightarrow> 'a list option" where
  "read_all f [] = Some []"
| "read_all f (v # vs) = do { x \<leftarrow> f v; xs \<leftarrow> read_all f vs; Some (x # xs) }"

definition read_list :: "(json \<Rightarrow> 'a option) \<Rightarrow> json \<Rightarrow> 'a list option" where
  "read_list f v = (case v of JArr vs \<Rightarrow> read_all f vs | _ \<Rightarrow> None)"

definition read_execute :: "json \<Rightarrow> execute_mode option" where
  "read_execute v =
     (if v = JStr ''auto'' then Some Execute_auto
      else if v = JStr ''confirm'' then Some Execute_confirm
      else if v = JStr ''reject'' then Some Execute_reject else None)"

text \<open>
  The optional fields the validator checks, and the two it does not. A strict reading wants
  the unchecked fields at their types too; the lenient one is what the linter and the VM see,
  which never look at them, and takes an ill-typed one for absent.
\<close>

definition CHECKED_FIELDS :: "(string \<times> json_type) list" where
  "CHECKED_FIELDS = [(''require'', T_string), (''approval_required_above'', T_amount),
     (''x402_autonomous_max_amount'', T_amount), (''ach_autonomous_max_amount'', T_amount),
     (''card_autonomous_max_amount'', T_amount)]"

definition UNCHECKED_FIELDS :: "(string \<times> json_type) list" where
  "UNCHECKED_FIELDS =
     [(''onchain_settlement_permitted'', T_bool), (''required_evidence_kinds'', T_strings)]"

definition read_rule :: "bool \<Rightarrow> json \<Rightarrow> policy_rule option" where
  "read_rule strict v = (case v of
     JObj r \<Rightarrow> (if typed_fields (CHECKED_FIELDS @ (if strict then UNCHECKED_FIELDS else [])) r then do {
         i \<leftarrow> at_field read_string r ''id'';
         kinds \<leftarrow> at_field (read_list read_apply_to) r ''applies_to'';
         w \<leftarrow> at_field read_when r ''when'';
         mode \<leftarrow> at_field read_execute r ''execute'';
         Some \<lparr>rl_id = i, rl_applies_to = kinds, rl_when = w,
           rl_require = at_field read_string r ''require'', rl_execute = mode,
           rl_approval_required_above = at_field read_amount r ''approval_required_above'',
           rl_onchain_settlement_permitted = at_field read_bool r ''onchain_settlement_permitted'',
           rl_x402_autonomous_max_amount = at_field read_amount r ''x402_autonomous_max_amount'',
           rl_ach_autonomous_max_amount = at_field read_amount r ''ach_autonomous_max_amount'',
           rl_card_autonomous_max_amount = at_field read_amount r ''card_autonomous_max_amount'',
           rl_required_evidence_kinds = at_field read_strings r ''required_evidence_kinds''\<rparr> }
       else None)
   | _ \<Rightarrow> None)"

text \<open>\<open>lists\<close> and \<open>agent_actions\<close>: an object whose values are arrays of strings.\<close>

definition read_table :: "json \<Rightarrow> (string \<rightharpoonup> string list) option" where
  "read_table v = (case v of
     JObj obj \<Rightarrow> (if list_all (\<lambda>kv. read_strings (snd kv) \<noteq> None) obj
       then Some (\<lambda>k. Option.bind (map_of obj k) read_strings) else None)
   | _ \<Rightarrow> None)"

definition read_template :: "bool \<Rightarrow> json \<Rightarrow> message_template option" where
  "read_template strict v = (case v of
     JObj t \<Rightarrow> (if typed_fields (if strict then [(''approver_signatures'', T_strings)] else []) t then do {
         i \<leftarrow> at_field read_string t ''id'';
         subj \<leftarrow> at_field read_string t ''subject'';
         body \<leftarrow> at_field read_string t ''body'';
         allowed \<leftarrow> at_field read_strings t ''allowed_variables'';
         Some \<lparr>mt_id = i, mt_subject = subj, mt_body = body, mt_allowed_variables = allowed,
           mt_approver_signatures = at_field read_strings t ''approver_signatures''\<rparr> }
       else None)
   | _ \<Rightarrow> None)"

text \<open>An optional field: \<open>Some None\<close> when it is absent, \<open>None\<close> when it has no reading.\<close>

definition opt_field :: "(json \<Rightarrow> 'a option) \<Rightarrow> (string \<times> json) list \<Rightarrow> string \<Rightarrow> 'a option option" where
  "opt_field f obj k = (case map_of obj k of None \<Rightarrow> Some None | Some v \<Rightarrow> map_option Some (f v))"

definition read_document :: "bool \<Rightarrow> json \<Rightarrow> policy_document option" where
  "read_document strict v = (case v of
     JObj d \<Rightarrow> do {
       n \<leftarrow> at_field read_number d ''version'';
       rs \<leftarrow> at_field (read_list (read_rule strict)) d ''rules'';
       ls \<leftarrow> opt_field read_table d ''lists'';
       ts \<leftarrow> opt_field (read_list (read_template strict)) d ''message_templates'';
       acts \<leftarrow> opt_field read_table d ''agent_actions'';
       Some \<lparr>pd_version = \<lfloor>n\<rfloor>, pd_rules = rs, pd_lists = ls, pd_message_templates = ts,
             pd_agent_actions = acts\<rparr> }
   | _ \<Rightarrow> None)"

section \<open>Well-formed documents\<close>

definition amount_wf :: "amount_literal \<Rightarrow> bool" where
  "amount_wf m \<longleftrightarrow> am_currency m \<noteq> [] \<and> is_signed_decimal (am_value m)"

definition when_wf :: "string set \<Rightarrow> rule_when \<Rightarrow> bool" where
  "when_wf names w \<longleftrightarrow>
     (\<forall>n. counterparty_in w = Some n \<or> counterparty_not_in w = Some n \<longrightarrow> n \<in> names) \<and>
     (\<forall>m. amount_lte w = Some m \<or> amount_gt w = Some m \<longrightarrow> amount_wf m) \<and>
     (\<forall>e. time_window w = Some e \<longrightarrow> validateCronExpression e = None) \<and>
     (\<forall>c. agent_spend_in_window w = Some c \<longrightarrow> sw_window c \<in> set KNOWN_WINDOWS \<and> amount_wf (sw_lte c)) \<and>
     (\<forall>c. agent_tx_count_in_window w = Some c \<longrightarrow> tw_window c \<in> set KNOWN_WINDOWS \<and> 0 \<le> tw_lte c) \<and>
     (\<forall>q. agent_confidence_gte w = Some q \<or> agent_evidence_score_gte w = Some q \<longrightarrow> 0 \<le> q \<and> q \<le> 1) \<and>
     (\<forall>r. agent_risk_level_lte w = Some r \<longrightarrow> RISK_RANK r \<noteq> None)"

definition rule_wf :: "string set \<Rightarrow> policy_rule \<Rightarrow> bool" where
  "rule_wf names r \<longleftrightarrow>
     rl_id r \<noteq> [] \<and> rl_applies_to r \<noteq> [] \<and> when_wf names (rl_when r) \<and>
     rl_execute r \<in> {Execute_auto, Execute_confirm, Execute_reject} \<and>
     (\<forall>e. rl_require r = Some e \<longrightarrow> parseRequire e \<noteq> [] \<and> [] \<notin> set (parseRequire e)) \<and>
     (\<forall>m. Some m \<in> {rl_approval_required_above r, rl_x402_autonomous_max_amount r,
            rl_ach_autonomous_max_amount r, rl_card_autonomous_max_amount r} \<longrightarrow> amount_wf m)"

definition list_names :: "policy_document \<Rightarrow> string set" where
  "list_names doc = (case pd_lists doc of None \<Rightarrow> {} | Some m \<Rightarrow> dom m)"

definition document_wf :: "policy_document \<Rightarrow> bool" where
  "document_wf doc \<longleftrightarrow>
     1 \<le> pd_version doc \<and> pd_rules doc \<noteq> [] \<and> distinct (map rl_id (pd_rules doc)) \<and>
     (\<forall>r \<in> set (pd_rules doc). rule_wf (list_names doc) r)"

section \<open>An accepted value has a reading\<close>

lemma decimal_split:
  assumes "i \<noteq> []" "list_all is_digit i"
    and "rest = [] \<or> (hd rest = CHR ''.'' \<and> list_all is_digit (tl rest) \<and> 1 \<le> length (tl rest))"
  shows "is_decimal (i @ rest)"
proof (cases rest)
  case Nil
  with assms(1,2) show ?thesis by (simp add: is_decimal_intI)
next
  case (Cons c f)
  with assms(3) have "c = CHR ''.''" "list_all is_digit f" "f \<noteq> []" by auto
  with assms(1,2) Cons show ?thesis using is_decimal_fracI [of i f] by simp
qed

lemma amount_value_re_decimal: "amount_value_re s \<Longrightarrow> is_signed_decimal s"
proof -
  assume re: "amount_value_re s"
  let ?body = "if starts_with s ''-'' then tl s else s"
  have "list_all is_digit (takeWhile is_digit ?body)"
    unfolding list_all_iff by (blast dest: set_takeWhileD)
  then have "is_decimal (takeWhile is_digit ?body @ dropWhile is_digit ?body)"
    using re unfolding amount_value_re_def Let_def by (intro decimal_split) blast+
  then show ?thesis unfolding takeWhile_dropWhile_id is_signed_decimal_def by (simp split: if_splits)
qed

lemma is_stringE: "is_string v \<Longrightarrow> (\<And>s. v = JStr s \<Longrightarrow> P) \<Longrightarrow> P"
  by (cases v) (simp_all add: is_string_def)

lemma is_nonempty_stringE: "is_nonempty_string v \<Longrightarrow> (\<And>s. v = JStr s \<Longrightarrow> s \<noteq> [] \<Longrightarrow> P) \<Longrightarrow> P"
  by (cases v) (simp_all add: is_nonempty_string_def)

lemma is_nonempty_string_string: "is_nonempty_string v \<Longrightarrow> is_string v"
  by (cases v) (simp_all add: is_nonempty_string_def is_string_def)

lemma checkAmountLiteral_ok:
  assumes "checkAmountLiteral (Some v) path = None"
  shows "\<exists>m. read_amount v = Some m \<and> amount_wf m"
proof -
  from assms obtain obj where obj: "v = JObj obj"
    by (cases v) (simp_all add: checkAmountLiteral_def)
  from assms obtain c s where "map_of obj ''currency'' = Some (JStr c)" "c \<noteq> []"
    "map_of obj ''value'' = Some (JStr s)" "amount_value_re s"
    by (auto simp: checkAmountLiteral_def obj split: option.splits json.splits elim: is_nonempty_stringE)
  then show ?thesis
    by (simp add: read_amount_def obj amount_fields_def amount_wf_def amount_value_re_decimal)
qed

lemma checkStringArray_ok:
  "checkStringArray (Some v) path = None \<Longrightarrow> read_strings v \<noteq> None"
  by (cases v)
    (auto simp: checkStringArray_def read_strings_def list_all_iff is_nonempty_string_string)

lemma checkNonEmptyString_ok:
  "checkNonEmptyString (Some v) path = None \<Longrightarrow> \<exists>s. v = JStr s \<and> s \<noteq> []"
  by (auto simp: checkNonEmptyString_def elim: is_nonempty_stringE)

lemma checkUnitInterval_ok:
  "checkUnitInterval (Some v) path = None \<Longrightarrow> \<exists>q. v = JNum q \<and> 0 \<le> q \<and> q \<le> 1"
  by (cases v) (auto simp: checkUnitInterval_def)

lemma checkCounterpartyRef_ok:
  "checkCounterpartyRef (Some v) path refs = None \<Longrightarrow> \<exists>s. v = JStr s \<and> s \<in> fst ` set refs"
  by (cases v) (auto simp: checkCounterpartyRef_def)

lemma checkWindow_ok:
  "checkWindow raw path = None \<Longrightarrow> \<exists>s. raw = Some (JStr s) \<and> s \<in> set KNOWN_WINDOWS"
  by (auto simp: checkWindow_def split: option.splits json.splits)

lemma check_tx_window_ok:
  "check_tx_window v path = None \<Longrightarrow>
   \<exists>c. read_tx_window v = Some c \<and> tw_window c \<in> set KNOWN_WINDOWS \<and> 0 \<le> tw_lte c"
  by (cases v)
    (auto simp: check_tx_window_def read_tx_window_def dest!: checkWindow_ok split: option.splits json.splits)

lemma check_spend_window_ok:
  assumes "check_spend_window v path = None"
  shows "\<exists>c. read_spend_window v = Some c \<and> sw_window c \<in> set KNOWN_WINDOWS \<and> amount_wf (sw_lte c)"
proof -
  from assms obtain obj where obj: "v = JObj obj" by (cases v) (simp_all add: check_spend_window_def)
  with assms have w: "checkWindow (map_of obj ''window'') (path @ ''.window'') = None"
    and m: "checkAmountLiteral (map_of obj ''lte'') (path @ ''.lte'') = None"
    by (simp_all add: check_spend_window_def)
  from m obtain x where "map_of obj ''lte'' = Some x"
    by (cases "map_of obj ''lte''") (simp_all add: checkAmountLiteral_def)
  with m w show ?thesis
    by (auto simp: read_spend_window_def obj dest!: checkWindow_ok checkAmountLiteral_ok)
qed

lemma one_ofE: "one_of names v \<Longrightarrow> (\<And>s. v = JStr s \<Longrightarrow> s \<in> set names \<Longrightarrow> P) \<Longrightarrow> P"
  by (cases v) (simp_all add: one_of_def)

lemma at_field_Some:
  "at_field f obj k = Some x \<longleftrightarrow> (\<exists>v. map_of obj k = Some v \<and> f v = Some x)"
  "Some x = at_field f obj k \<longleftrightarrow> (\<exists>v. map_of obj k = Some v \<and> f v = Some x)"
  by (auto simp: at_field_def bind_eq_Some_conv eq_commute [of "Some x"])

text \<open>What an accepted \<open>when\<close> clause says of each of its fields: the check it passed.\<close>

lemma validateWhen_checks:
  assumes "validateWhen w path refs = None"
  shows "\<And>v. map_of w ''counterparty.in'' = Some v \<Longrightarrow> checkCounterpartyRef (Some v) (at_key path ''counterparty.in'') refs = None"
    and "\<And>v. map_of w ''counterparty.not_in'' = Some v \<Longrightarrow> checkCounterpartyRef (Some v) (at_key path ''counterparty.not_in'') refs = None"
    and "\<And>v. map_of w ''amount.lte'' = Some v \<Longrightarrow> checkAmountLiteral (Some v) (at_key path ''amount.lte'') = None"
    and "\<And>v. map_of w ''amount.gt'' = Some v \<Longrightarrow> checkAmountLiteral (Some v) (at_key path ''amount.gt'') = None"
    and "\<And>v. map_of w ''agent.role'' = Some v \<Longrightarrow> checkNonEmptyString (Some v) (at_key path ''agent.role'') = None"
    and "\<And>v. map_of w ''agent.id'' = Some v \<Longrightarrow> checkNonEmptyString (Some v) (at_key path ''agent.id'') = None"
    and "\<And>v. map_of w ''tenant.category'' = Some v \<Longrightarrow> one_of [''business'', ''consumer''] v"
    and "\<And>v. map_of w ''action.in'' = Some v \<Longrightarrow> checkStringArray (Some v) (at_key path ''action.in'') = None"
    and "\<And>v. map_of w ''action.not_in'' = Some v \<Longrightarrow> checkStringArray (Some v) (at_key path ''action.not_in'') = None"
    and "\<And>v. map_of w ''agent.behaviorHash'' = Some v \<Longrightarrow> (case v of JStr s \<Rightarrow> behavior_hash_re s | _ \<Rightarrow> False)"
    and "\<And>v. map_of w ''agent.confidence.gte'' = Some v \<Longrightarrow> checkUnitInterval (Some v) (at_key path ''agent.confidence.gte'') = None"
    and "\<And>v. map_of w ''agent.evidence_score.gte'' = Some v \<Longrightarrow> checkUnitInterval (Some v) (at_key path ''agent.evidence_score.gte'') = None"
    and "\<And>v. map_of w ''agent.risk_level.lte'' = Some v \<Longrightarrow> one_of [''low'', ''medium'', ''high'', ''critical''] v"
    and "\<And>v. map_of w ''agent.tx_count_in_window'' = Some v \<Longrightarrow> check_tx_window v (at_key path ''agent.tx_count_in_window'') = None"
    and "\<And>v. map_of w ''agent.spend_in_window'' = Some v \<Longrightarrow> check_spend_window v (at_key path ''agent.spend_in_window'') = None"
    and "\<And>v. map_of w ''time_window'' = Some v \<Longrightarrow> (case v of JStr s \<Rightarrow> validateCronExpression s = None | _ \<Rightarrow> False)"
  by ((insert assms [unfolded validateWhen_def Let_def first_failure_None list.set ball_simps(5,7) if_present_None
      fail_unless_None], elim conjE, erule allE, erule impE, assumption, assumption)+)

text \<open>The readings of the fields of a \<open>when\<close> clause, and their types.\<close>

lemma category_reads: "one_of [''business'', ''consumer''] v \<Longrightarrow> read_category v \<noteq> None"
  by (auto simp: read_category_def elim: one_ofE)

lemma risk_reads:
  "one_of [''low'', ''medium'', ''high'', ''critical''] v \<Longrightarrow> \<exists>s. v = JStr s \<and> RISK_RANK s \<noteq> None"
  by (erule one_ofE) (auto simp: RISK_RANK_def)

lemmas when_reads =
  validateWhen_checks(1,2) [THEN checkCounterpartyRef_ok]
  validateWhen_checks(3,4) [THEN checkAmountLiteral_ok]
  validateWhen_checks(5,6) [THEN checkNonEmptyString_ok]
  validateWhen_checks(7) [THEN category_reads]
  validateWhen_checks(8,9) [THEN checkStringArray_ok]
  validateWhen_checks(10)
  validateWhen_checks(11,12) [THEN checkUnitInterval_ok]
  validateWhen_checks(13) [THEN risk_reads]
  validateWhen_checks(14) [THEN check_tx_window_ok]
  validateWhen_checks(15) [THEN check_spend_window_ok]
  validateWhen_checks(16)

lemma typed_fieldsI:
  "(\<And>k t v. (k, t) \<in> set table \<Longrightarrow> map_of obj k = Some v \<Longrightarrow> has_type t v) \<Longrightarrow> typed_fields table obj"
  by (auto simp: typed_fields_def list_all_iff split: option.split)

lemma read_string_Some [simp]: "read_string v = Some s \<longleftrightarrow> v = JStr s"
  by (cases v) (auto simp: read_string_def)

lemma read_number_Some [simp]: "read_number v = Some q \<longleftrightarrow> v = JNum q"
  by (cases v) (auto simp: read_number_def)

lemma read_literals [simp]: "read_string (JStr s) = Some s" "read_number (JNum q) = Some q"
  by simp_all

lemma validateWhen_typed:
  assumes "validateWhen w path refs = None"
  shows "typed_fields WHEN_FIELDS w"
proof (rule typed_fieldsI)
  fix k t v assume "(k, t) \<in> set WHEN_FIELDS" "map_of w k = Some v"
  then show "has_type t v"
    unfolding WHEN_FIELDS_def list.set insert_iff empty_iff prod.inject
    by - (elim disjE conjE FalseE; hypsubst; drule when_reads [OF assms];
          auto simp: has_type_def split: json.splits)
qed

lemma validateWhen_wf:
  assumes "validateWhen w path refs = None"
  shows "when_wf (fst ` set refs) (when_fields w)"
  unfolding when_wf_def when_fields_def rule_when.simps at_field_Some
  by (intro conjI allI impI; elim disjE exE conjE; drule when_reads [OF assms])
    (auto split: json.splits)

section \<open>Rules, lists, templates, documents\<close>

definition unchecked_typed :: "(string \<times> json_type) list \<Rightarrow> json \<Rightarrow> bool" where
  "unchecked_typed table v = (case v of JObj obj \<Rightarrow> typed_fields table obj | _ \<Rightarrow> True)"

lemma typed_fields_append: "typed_fields (xs @ ys) obj \<longleftrightarrow> typed_fields xs obj \<and> typed_fields ys obj"
  by (simp add: typed_fields_def)

lemma read_all_map: "(\<And>v. v \<in> set vs \<Longrightarrow> \<exists>x. f v = Some x) \<Longrightarrow> \<exists>xs. read_all f vs = Some xs \<and> length xs = length vs"
proof (induction vs)
  case (Cons v vs)
  then obtain x xs where "f v = Some x" "read_all f vs = Some xs" "length xs = length vs" by fastforce
  then show ?case by simp
qed simp

lemma read_apply_to_one_of: "one_of APPLY_TO_VALUES v \<Longrightarrow> \<exists>k. read_apply_to v = Some k"
  by (erule one_ofE) (auto simp: APPLY_TO_VALUES_def read_apply_to_def)

lemma read_execute_one_of:
  "one_of [''auto'', ''confirm'', ''reject''] v \<Longrightarrow>
   \<exists>m. read_execute v = Some m \<and> m \<in> {Execute_auto, Execute_confirm, Execute_reject}"
  by (erule one_ofE) (auto simp: read_execute_def)

lemma check_when_reads:
  assumes "check_when raw path refs = None"
  shows "\<exists>v w. raw = Some v \<and> read_when v = Some w \<and> when_wf (fst ` set refs) w"
proof -
  from assms obtain obj where "raw = Some (JObj obj)" "validateWhen obj path refs = None"
    by (auto simp: check_when_def split: option.splits json.splits)
  then show ?thesis by (simp add: read_when_def validateWhen_typed validateWhen_wf)
qed

lemma check_require_ok:
  "check_require v path = None \<Longrightarrow> \<exists>s. v = JStr s \<and> parseRequire s \<noteq> [] \<and> [] \<notin> set (parseRequire s)"
  by (cases v) (auto simp: check_require_def list_all_iff)

lemma at_fieldI: "map_of obj k = Some v \<Longrightarrow> f v = Some x \<Longrightarrow> at_field f obj k = Some x"
  by (simp add: at_field_def)

lemma validateRule_checks:
  assumes "validateRule (JObj obj) i seen refs = None"
  shows "rule_id (JObj obj) \<notin> set seen"
    and "\<exists>v. map_of obj ''id'' = Some v \<and> is_nonempty_string v"
    and "\<exists>vs. map_of obj ''applies_to'' = Some (JArr vs) \<and> vs \<noteq> [] \<and> list_all (one_of APPLY_TO_VALUES) vs"
    and "\<exists>path. check_when (map_of obj ''when'') path refs = None"
    and "\<exists>v. map_of obj ''execute'' = Some v \<and> one_of [''auto'', ''confirm'', ''reject''] v"
    and "\<And>v. map_of obj ''require'' = Some v \<Longrightarrow> \<exists>path. check_require v path = None"
    and "\<And>k v. k \<in> {''approval_required_above'', ''x402_autonomous_max_amount'',
           ''ach_autonomous_max_amount'', ''card_autonomous_max_amount''} \<Longrightarrow> map_of obj k = Some v \<Longrightarrow>
         \<exists>path. checkAmountLiteral (Some v) path = None"
  using assms by (auto simp: validateRule_def Let_def split: option.splits json.splits)

lemma validateRule_reads:
  assumes "validateRule raw i seen refs = None" "strict \<longrightarrow> unchecked_typed UNCHECKED_FIELDS raw"
  shows "\<exists>r. read_rule strict raw = Some r \<and> rule_wf (fst ` set refs) r \<and> rl_id r = rule_id raw \<and> rule_id raw \<notin> set seen"
proof -
  from assms(1) obtain obj where raw: "raw = JObj obj"
    by (cases raw) (simp_all add: validateRule_def Let_def)
  note c = validateRule_checks [OF assms(1) [unfolded raw]]
  have amounts: "\<exists>m. read_amount v = Some m \<and> amount_wf m"
    if "k \<in> {''approval_required_above'', ''x402_autonomous_max_amount'',
           ''ach_autonomous_max_amount'', ''card_autonomous_max_amount''}" "map_of obj k = Some v" for k v
    using c(7) [OF that] checkAmountLiteral_ok by blast
  have req: "\<exists>s. v = JStr s \<and> parseRequire s \<noteq> [] \<and> [] \<notin> set (parseRequire s)"
    if "map_of obj ''require'' = Some v" for v using c(6) [OF that] check_require_ok by blast
  have typed: "typed_fields CHECKED_FIELDS obj"
  proof (rule typed_fieldsI)
    fix k t v assume m: "(k, t) \<in> set CHECKED_FIELDS" "map_of obj k = Some v"
    show "has_type t v"
    proof (cases "k = ''require''")
      case True
      with m(1) have "t = T_string" by (simp add: CHECKED_FIELDS_def)
      with True m(2) req show ?thesis by (fastforce simp: has_type_def)
    next
      case False
      with m(1) have "t = T_amount" and k: "k \<in> {''approval_required_above'', ''x402_autonomous_max_amount'',
          ''ach_autonomous_max_amount'', ''card_autonomous_max_amount''}"
        unfolding CHECKED_FIELDS_def by auto
      with amounts [OF k m(2)] show ?thesis by (auto simp: has_type_def)
    qed
  qed
  from c(2) obtain s where s: "map_of obj ''id'' = Some (JStr s)" "s \<noteq> []" by (auto elim: is_nonempty_stringE)
  from c(3) obtain vs where vs: "map_of obj ''applies_to'' = Some (JArr vs)" "vs \<noteq> []" "list_all (one_of APPLY_TO_VALUES) vs"
    by blast
  then obtain ks where ks: "read_all read_apply_to vs = Some ks" "length ks = length vs"
    using read_all_map [of vs read_apply_to] read_apply_to_one_of by (auto simp: list_all_iff)
  from c(4) check_when_reads obtain wv rw where rw: "map_of obj ''when'' = Some wv" "read_when wv = Some rw"
    "when_wf (fst ` set refs) rw" by blast
  from c(5) read_execute_one_of obtain xv m where m: "map_of obj ''execute'' = Some xv" "read_execute xv = Some m"
    "m \<in> {Execute_auto, Execute_confirm, Execute_reject}" by blast
  from assms(2) typed have t: "typed_fields (CHECKED_FIELDS @ (if strict then UNCHECKED_FIELDS else [])) obj"
    by (simp add: unchecked_typed_def raw typed_fields_append typed_fields_def [of "[]"])
  have fields: "at_field read_string obj ''id'' = Some s"
    "at_field (read_list read_apply_to) obj ''applies_to'' = Some ks"
    "at_field read_when obj ''when'' = Some rw" "at_field read_execute obj ''execute'' = Some m"
    using s vs ks rw m by (simp_all add: at_field_def read_list_def)
  have "\<exists>r. read_rule strict raw = Some r \<and> rl_id r = s \<and> rl_applies_to r = ks \<and> rl_when r = rw \<and> rl_execute r = m
      \<and> rl_require r = at_field read_string obj ''require''
      \<and> rl_approval_required_above r = at_field read_amount obj ''approval_required_above''
      \<and> rl_x402_autonomous_max_amount r = at_field read_amount obj ''x402_autonomous_max_amount''
      \<and> rl_ach_autonomous_max_amount r = at_field read_amount obj ''ach_autonomous_max_amount''
      \<and> rl_card_autonomous_max_amount r = at_field read_amount obj ''card_autonomous_max_amount''"
    by (simp add: read_rule_def raw t fields)
  then obtain r where r: "read_rule strict raw = Some r" "rl_id r = s" "rl_applies_to r = ks" "rl_when r = rw"
      "rl_execute r = m" "rl_require r = at_field read_string obj ''require''"
      "rl_approval_required_above r = at_field read_amount obj ''approval_required_above''"
      "rl_x402_autonomous_max_amount r = at_field read_amount obj ''x402_autonomous_max_amount''"
      "rl_ach_autonomous_max_amount r = at_field read_amount obj ''ach_autonomous_max_amount''"
      "rl_card_autonomous_max_amount r = at_field read_amount obj ''card_autonomous_max_amount''" by blast
  have am: "amount_wf x" if "at_field read_amount obj k = Some x" and
    k: "k \<in> {''approval_required_above'', ''x402_autonomous_max_amount'',
           ''ach_autonomous_max_amount'', ''card_autonomous_max_amount''}" for k x
    using that(1) amounts [OF k] by (auto simp: at_field_Some)
  have rq: "parseRequire e \<noteq> [] \<and> [] \<notin> set (parseRequire e)"
    if "at_field read_string obj ''require'' = Some e" for e
    using that req by (auto simp: at_field_Some)
  have "ks \<noteq> []" using ks(2) vs(2) by auto
  then have "rule_wf (fst ` set refs) r"
    unfolding rule_wf_def r(2-10) using s(2) rw(3) m(3) rq am by auto
  with r(1,2) c(1) s show ?thesis by (simp add: rule_id_def raw)
qed

lemma validate_rules_reads:
  assumes "validate_rules raws i seen refs = None" "strict \<longrightarrow> (\<forall>raw \<in> set raws. unchecked_typed UNCHECKED_FIELDS raw)"
  shows "\<exists>rs. read_all (read_rule strict) raws = Some rs \<and> length rs = length raws \<and> distinct (map rl_id rs) \<and>
     (\<forall>r \<in> set rs. rule_wf (fst ` set refs) r \<and> rl_id r \<notin> set seen)"
  using assms
proof (induction raws arbitrary: i seen)
  case (Cons raw raws)
  from Cons.prems obtain r where r: "read_rule strict raw = Some r" "rule_wf (fst ` set refs) r" "rl_id r = rule_id raw"
      "rule_id raw \<notin> set seen"
    using validateRule_reads [of raw i seen refs strict] by auto
  from Cons.prems Cons.IH [of "Suc i" "rule_id raw # seen"]
  obtain rs where "read_all (read_rule strict) raws = Some rs" "length rs = length raws" "distinct (map rl_id rs)"
    "\<forall>r \<in> set rs. rule_wf (fst ` set refs) r \<and> rl_id r \<notin> set (rule_id raw # seen)" by auto
  with r show ?case by auto
qed simp

lemma read_strings_array: "list_all is_string vs \<Longrightarrow> read_strings (JArr vs) \<noteq> None"
  by (simp add: read_strings_def)

lemma read_table_ok:
  "\<forall>kv \<in> set obj. read_strings (snd kv) \<noteq> None \<Longrightarrow>
   \<exists>m. read_table (JObj obj) = Some m \<and> fst ` set obj \<subseteq> dom m"
proof -
  assume ok: "\<forall>kv \<in> set obj. read_strings (snd kv) \<noteq> None"
  have "fst ` set obj \<subseteq> dom (\<lambda>k. Option.bind (map_of obj k) read_strings)"
  proof
    fix k assume "k \<in> fst ` set obj"
    then obtain v where v: "map_of obj k = Some v" by (metis domIff dom_map_of_conv_image_fst not_None_eq)
    then have "(k, v) \<in> set obj" by (rule map_of_SomeD)
    with ok v show "k \<in> dom (\<lambda>k. Option.bind (map_of obj k) read_strings)" by force
  qed
  with ok show ?thesis by (simp add: read_table_def list_all_iff)
qed

lemma validateLists_reads:
  "validateLists raw = None \<Longrightarrow> \<exists>ls. opt_field read_table d k = Some ls \<and>
     fst ` set (lists_of raw) \<subseteq> (case ls of None \<Rightarrow> {} | Some m \<Rightarrow> dom m)"
  if "map_of d k = raw" for d k
proof (cases raw)
  case None
  with that show ?thesis by (simp add: opt_field_def lists_of_def)
next
  case (Some v)
  assume ok: "validateLists raw = None"
  then obtain obj where v: "v = JObj obj" by (cases v) (simp_all add: validateLists_def Some)
  have "\<forall>kv \<in> set obj. read_strings (snd kv) \<noteq> None"
    using ok by (auto simp: validateLists_def Some v read_strings_def split: json.splits)
  from read_table_ok [OF this] that show ?thesis by (auto simp: opt_field_def lists_of_def Some v)
qed

lemma validateAgentActions_reads:
  "validateAgentActions (map_of d k) = None \<Longrightarrow> \<exists>acts. opt_field read_table d k = Some acts"
proof (cases "map_of d k")
  case (Some v)
  assume ok: "validateAgentActions (map_of d k) = None"
  then obtain obj where v: "v = JObj obj" by (cases v) (simp_all add: validateAgentActions_def Some)
  have "\<forall>kv \<in> set obj. read_strings (snd kv) \<noteq> None"
    using ok checkStringArray_ok by (simp add: validateAgentActions_def Some v) blast
  from read_table_ok [OF this] show ?thesis by (auto simp: opt_field_def Some v)
qed (simp add: opt_field_def)

lemma validate_template_reads:
  assumes "validate_template i v = None" "strict \<longrightarrow> unchecked_typed [(''approver_signatures'', T_strings)] v"
  shows "\<exists>t. read_template strict v = Some t \<and>
     set (placeholders True (mt_subject t)) \<union> set (placeholders True (mt_body t)) \<subseteq> set (mt_allowed_variables t)"
proof -
  from assms(1) obtain t where v: "v = JObj t" by (cases v) (simp_all add: validate_template_def Let_def)
  from assms(1) have "\<exists>p. checkNonEmptyString (map_of t ''id'') p = None"
    "\<exists>p. checkNonEmptyString (map_of t ''subject'') p = None"
    "\<exists>p. checkNonEmptyString (map_of t ''body'') p = None"
    and a: "\<exists>p. checkStringArray (map_of t ''allowed_variables'') p = None"
    and names: "set (placeholders True (string_field t ''subject'')) \<union> set (placeholders True (string_field t ''body''))
      \<subseteq> set (case map_of t ''allowed_variables'' of Some v \<Rightarrow> array_strings v | None \<Rightarrow> [])"
    unfolding validate_template_def Let_def v json.case first_failure_None set_append list.set set_map
      subset_iff Un_iff by (blast, blast, blast, blast, auto simp: ball_Un)
  then obtain i s b where ok: "map_of t ''id'' = Some (JStr i)" "map_of t ''subject'' = Some (JStr s)"
    "map_of t ''body'' = Some (JStr b)"
    by (auto simp: checkNonEmptyString_def split: option.splits elim!: is_nonempty_stringE)
  from a obtain av where av: "map_of t ''allowed_variables'' = Some av"
    by (auto simp: checkStringArray_def split: option.splits)
  with a checkStringArray_ok have "read_strings av \<noteq> None" by metis
  then have "read_strings av = Some (array_strings av)"
    by (auto simp: read_strings_def split: json.splits if_splits)
  with ok av names assms(2) show ?thesis
    by (simp add: read_template_def v at_field_def unchecked_typed_def string_field_def typed_fields_def [of "[]"])
qed

text \<open>The fields of a document the validator does not look at have their declared types.\<close>

definition unchecked_document :: "json \<Rightarrow> bool" where
  "unchecked_document v = (case v of
     JObj d \<Rightarrow> (case map_of d ''rules'' of
                  Some (JArr rs) \<Rightarrow> \<forall>r \<in> set rs. unchecked_typed UNCHECKED_FIELDS r | _ \<Rightarrow> True) \<and>
               (case map_of d ''message_templates'' of
                  Some (JArr ts) \<Rightarrow> \<forall>t \<in> set ts. unchecked_typed [(''approver_signatures'', T_strings)] t
                | _ \<Rightarrow> True)
   | _ \<Rightarrow> True)"

lemma validateMessageTemplates_reads:
  assumes "validateMessageTemplates (map_of d k) = None"
    and "\<And>vs. map_of d k = Some (JArr vs) \<Longrightarrow> strict \<longrightarrow> (\<forall>t \<in> set vs. unchecked_typed [(''approver_signatures'', T_strings)] t)"
  shows "\<exists>ts. opt_field (read_list (read_template strict)) d k = Some ts"
proof (cases "map_of d k")
  case (Some v)
  with assms(1) obtain vs where v: "v = JArr vs" by (cases v) (simp_all add: validateMessageTemplates_def)
  have "\<exists>t. read_template strict x = Some t" if "x \<in> set vs" for x
  proof -
    from that obtain i where "i < length vs" "vs ! i = x" by (auto simp: in_set_conv_nth)
    then have "(i, x) \<in> set (enumerate 0 vs)" by (simp add: in_set_enumerate_eq)
    with assms(1) have "validate_template i x = None" by (auto simp: validateMessageTemplates_def Some v)
    with validate_template_reads assms(2) [OF Some [unfolded v]] that show ?thesis by blast
  qed
  from read_all_map [of vs "read_template strict", OF this] show ?thesis
    by (auto simp: opt_field_def Some v read_list_def)
qed (simp add: opt_field_def)

lemma is_integer_floor: "is_integer q \<Longrightarrow> 1 \<le> q \<Longrightarrow> 1 \<le> \<lfloor>q\<rfloor>"
  by simp

lemma validated_reads:
  assumes "validatePolicyDocument (Some raw) = Inr v" "strict \<longrightarrow> unchecked_document raw"
  shows "\<exists>doc. read_document strict v = Some doc \<and> document_wf doc"
proof -
  from assms(1) obtain d where raw: "raw = JObj d" "v = JObj d" "validate_document d = None"
    by (auto simp: validatePolicyDocument_def split: json.splits option.splits)
  then obtain q rs where q: "map_of d ''version'' = Some (JNum q)" "1 \<le> q"
    and rs: "map_of d ''rules'' = Some (JArr rs)" "rs \<noteq> []"
      "validate_rules rs 0 [] (lists_of (map_of d ''lists'')) = None"
    and other: "validateLists (map_of d ''lists'') = None" "validateAgentActions (map_of d ''agent_actions'') = None"
      "validateMessageTemplates (map_of d ''message_templates'') = None"
    by (auto simp: validate_document_def split: option.splits json.splits)
  from assms(2) have u: "strict \<longrightarrow> (\<forall>r \<in> set rs. unchecked_typed UNCHECKED_FIELDS r)"
    "\<And>vs. map_of d ''message_templates'' = Some (JArr vs) \<Longrightarrow>
       strict \<longrightarrow> (\<forall>t \<in> set vs. unchecked_typed [(''approver_signatures'', T_strings)] t)"
    by (simp_all add: unchecked_document_def raw rs(1))
  obtain rules where rules: "read_all (read_rule strict) rs = Some rules" "length rules = length rs"
    "distinct (map rl_id rules)" "\<forall>r \<in> set rules. rule_wf (fst ` set (lists_of (map_of d ''lists''))) r"
    using validate_rules_reads [OF rs(3) u(1)] by blast
  obtain ls where ls: "opt_field read_table d ''lists'' = Some ls"
    "fst ` set (lists_of (map_of d ''lists'')) \<subseteq> (case ls of None \<Rightarrow> {} | Some m \<Rightarrow> dom m)"
    using validateLists_reads [OF refl other(1)] by blast
  obtain acts ts where "opt_field read_table d ''agent_actions'' = Some acts"
    "opt_field (read_list (read_template strict)) d ''message_templates'' = Some ts"
    using validateAgentActions_reads [OF other(2)] validateMessageTemplates_reads [OF other(3) u(2)] by blast
  then have "read_document strict v = Some \<lparr>pd_version = \<lfloor>q\<rfloor>, pd_rules = rules, pd_lists = ls,
      pd_message_templates = ts, pd_agent_actions = acts\<rparr>"
    using q rs rules ls by (simp add: read_document_def raw at_field_def read_list_def)
  moreover have mono: "rule_wf A r \<Longrightarrow> A \<subseteq> B \<Longrightarrow> rule_wf B r" for A B r
    unfolding rule_wf_def when_wf_def by (elim conjE, intro conjI) blast+
  ultimately show ?thesis
    using q(2) rs(2) rules ls(2) unfolding document_wf_def list_names_def by fastforce
qed

section \<open>Properties\<close>

lemma matched_rule_unique:
  assumes "document_wf doc" "evaluate doc a = Some d" "de_matched_rule_id d = Some rid"
  shows "\<exists>!rule. rule \<in> set (pd_rules doc) \<and> rl_id rule = rid"
    and "\<exists>rule \<in> set (pd_rules doc). rl_id rule = rid \<and> rule_matches doc a rule"
proof -
  have d: "distinct (map rl_id (pd_rules doc))" using assms(1) by (simp add: document_wf_def)
  show m: "\<exists>rule \<in> set (pd_rules doc). rl_id rule = rid \<and> rule_matches doc a rule"
  proof (cases rule: evaluate_cases [OF assms(2)])
    case 1
    with assms(3) show ?thesis by simp
  next
    case (2 pre rule post)
    then have "de_matched_rule_id d = Some (rl_id rule)" by (metis rule_decision_id)
    with 2 assms(3) show ?thesis by auto
  qed
  show "\<exists>!rule. rule \<in> set (pd_rules doc) \<and> rl_id rule = rid"
    using m d by (auto simp: distinct_map dest: inj_onD)
qed

text \<open>
  A document the validator accepts, whose unchecked optional fields have
  their declared types, reads as a \<open>PolicyDocument\<close> that is well formed: distinct rule ids,
  no dangling list reference, decimal amounts, known windows, a schedule in every time window,
  approvers in every \<open>require\<close>. Evaluating it never throws on an action with decimal amounts,
  and the matched rule id names exactly one rule, the one that matched.
\<close>

theorem validated_document_is_typed:
  assumes "validatePolicyDocument (Some raw) = Inr v" "unchecked_document raw"
  shows "\<exists>doc. read_document True v = Some doc \<and> document_wf doc \<and>
     (\<forall>a. action_wf a \<longrightarrow> (\<exists>d. evaluate doc a = Some d \<and>
        (\<forall>rid. de_matched_rule_id d = Some rid \<longrightarrow>
           (\<exists>!rule. rule \<in> set (pd_rules doc) \<and> rl_id rule = rid) \<and>
           (\<exists>rule \<in> set (pd_rules doc). rl_id rule = rid \<and> rule_matches doc a rule))))"
proof -
  obtain doc where doc: "read_document True v = Some doc" "document_wf doc"
    using validated_reads [OF assms(1), of True] assms(2) by blast
  have "\<exists>d. evaluate doc a = Some d \<and> (\<forall>rid. de_matched_rule_id d = Some rid \<longrightarrow>
      (\<exists>!rule. rule \<in> set (pd_rules doc) \<and> rl_id rule = rid) \<and>
      (\<exists>rule \<in> set (pd_rules doc). rl_id rule = rid \<and> rule_matches doc a rule))" if wf: "action_wf a" for a
  proof -
    obtain d where d: "evaluate doc a = Some d" using evaluate_rules_total [OF wf] unfolding evaluate_def by blast
    from matched_rule_unique [OF doc(2) d] show ?thesis by (intro exI [of _ d]) (simp add: d)
  qed
  with doc show ?thesis by (intro exI [of _ doc]) simp
qed

definition sample_json_policy :: json where
  "sample_json_policy = JObj
     [ (''version'', JNum 2),
       (''lists'', JObj [(''vendors.trusted'', JArr [JStr ''cp_1''])]),
       (''rules'', JArr [JObj
          [ (''id'', JStr ''pay_vendors''), (''applies_to'', JArr [JStr ''outbound_payment'']),
            (''when'', JObj
               [ (''counterparty.in'', JStr ''vendors.trusted''),
                 (''amount.lte'', JObj [(''currency'', JStr ''USD''), (''value'', JStr ''250.00'')]),
                 (''agent.confidence.gte'', JNum (9 / 10)) ]),
            (''execute'', JStr ''auto''), (''require'', JStr ''admin_approval'') ]]) ]"

lemma sample_json_accepted: "validatePolicyDocument (Some sample_json_policy) = Inr sample_json_policy"
  by code_simp

theorem validated_document_is_typed_witness:
  "\<exists>doc. read_document True sample_json_policy = Some doc \<and> document_wf doc \<and> evaluate doc sample_action \<noteq> None"
proof -
  have "unchecked_document sample_json_policy" by code_simp
  from validated_document_is_typed [OF sample_json_accepted this] show ?thesis
    using sample_action_wf by (metis option.distinct(1))
qed

end
