(* ===== verification/Policy_Messages.thy ===== *)
theory Policy_Messages
  imports Policy_Typed
begin

text \<open>
  Rendering of approved message templates (services/policy/src/message-templates.ts), against
  the template check of the validator: a template that passed it renders without throwing
  for every set of approved variables, but the two modules disagree on what a placeholder is.
\<close>

section \<open>renderApprovedMessage\<close>

definition findMessageTemplate :: "policy_document \<Rightarrow> string \<Rightarrow> message_template option" where
  "findMessageTemplate doc templateId =
     Option.bind (pd_message_templates doc) (find (\<lambda>t. mt_id t = templateId))"

text \<open>
  \<open>text.replace(/\{\{(\w+)\}\}/g, ...)\<close>: \<open>None\<close> is the thrown error for a name outside the
  allowed set; a name without a value stays as it is. Values are given as their \<open>String(value)\<close>.
\<close>

function substitute :: "string list \<Rightarrow> (string \<rightharpoonup> string) \<Rightarrow> string \<Rightarrow> string option" where
  "substitute allowed vars [] = Some []"
| "substitute allowed vars (c # cs) = (case match_placeholder False (c # cs) of
     Some (name, rest) \<Rightarrow>
       if name \<notin> set allowed then None
       else map_option (\<lambda>out. (case vars name of None \<Rightarrow> ''{{'' @ name @ ''}}'' | Some v \<Rightarrow> v) @ out)
              (substitute allowed vars rest)
   | None \<Rightarrow> map_option (\<lambda>out. c # out) (substitute allowed vars cs))"
  by pat_completeness auto
termination
proof (relation "measure (\<lambda>(allowed, vars, s). length s)", goal_cases)
  case 3
  then show ?case using match_placeholder_shorter by (metis in_measure prod.case)
qed simp_all

record rendered_message =
  rm_subject :: string
  rm_body :: string

definition renderApprovedMessage ::
  "message_template \<Rightarrow> (string \<times> string) list \<Rightarrow> rendered_message option" where
  "renderApprovedMessage template vars =
     (let allowed = mt_allowed_variables template in
      if \<not> list_all (\<lambda>kv. fst kv \<in> set allowed) vars then None
      else do {
        subj \<leftarrow> substitute allowed (map_of vars) (mt_subject template);
        body \<leftarrow> substitute allowed (map_of vars) (mt_body template);
        Some \<lparr>rm_subject = subj, rm_body = body\<rparr> })"

section \<open>The two readings of a placeholder\<close>

lemma no_brace_no_match: "\<not> starts_with s ''{{'' \<Longrightarrow> match_placeholder spaces s = None"
  by (simp add: match_placeholder_def Let_def)

lemma placeholders_skip: "CHR ''{'' \<notin> set p \<Longrightarrow> placeholders False (p @ r) = placeholders False r"
  by (induction p) (auto simp: no_brace_no_match starts_with_def)

lemma is_word_not_space: "is_placeholder_char c \<Longrightarrow> \<not> is_space c"
  by (auto simp: is_placeholder_char_def is_space_def is_digit_def)

lemma starts_with_split: "starts_with s p \<Longrightarrow> s = p @ drop (length p) s"
  unfolding starts_with_def by (metis append_take_drop_id)

text \<open>The shape of a match, with the white space it skips.\<close>

lemma match_placeholder_shape:
  assumes "match_placeholder True s = Some (name, rest)"
  obtains sp1 sp2 where "s = ''{{'' @ sp1 @ name @ sp2 @ ''}}'' @ rest"
    "list_all is_space sp1" "list_all is_space sp2" "name \<noteq> []" "list_all is_placeholder_char name"
proof -
  define s1 where "s1 = dropWhile is_space (drop 2 s)"
  define s2 where "s2 = dropWhile is_space (dropWhile is_placeholder_char s1)"
  from assms have m: "starts_with s ''{{''" "takeWhile is_placeholder_char s1 \<noteq> []" "starts_with s2 ''}}''"
    "name = takeWhile is_placeholder_char s1" "rest = drop 2 s2"
    unfolding match_placeholder_def Let_def if_True s1_def [symmetric] s2_def [symmetric]
    by (simp_all only: option.inject prod.inject option.distinct simp_thms split: if_split_asm)
  have "s = ''{{'' @ drop 2 s" "s2 = ''}}'' @ drop 2 s2"
    using starts_with_split [OF m(1)] starts_with_split [OF m(3)] by (simp_all add: numeral_2_eq_2)
  moreover have "drop 2 s = takeWhile is_space (drop 2 s) @ s1" "s1 = takeWhile is_placeholder_char s1 @ dropWhile is_placeholder_char s1"
    "dropWhile is_placeholder_char s1 = takeWhile is_space (dropWhile is_placeholder_char s1) @ s2"
    by (simp_all add: s1_def s2_def)
  ultimately have "s = ''{{'' @ takeWhile is_space (drop 2 s) @ name @
      takeWhile is_space (dropWhile is_placeholder_char s1) @ ''}}'' @ rest" using m(4,5) by metis
  then show thesis
    by (rule that) (use m(2,4) in \<open>auto simp: list_all_iff dest: set_takeWhileD\<close>)
qed

lemma match_False_True:
  assumes "match_placeholder False s = Some x"
  shows "match_placeholder True s = Some x"
proof -
  from assms have "takeWhile is_placeholder_char (drop 2 s) \<noteq> []" "starts_with (dropWhile is_placeholder_char (drop 2 s)) ''}}''"
    by (simp_all add: match_placeholder_def Let_def split: if_split_asm)
  then obtain c t u where "drop 2 s = c # t" "is_placeholder_char c" "dropWhile is_placeholder_char (drop 2 s) = CHR ''}'' # u"
    by (cases "drop 2 s"; cases "dropWhile is_placeholder_char (drop 2 s)") (auto simp: starts_with_def split: if_splits)
  then have "dropWhile is_space (drop 2 s) = drop 2 s"
    "dropWhile is_space (dropWhile is_placeholder_char (drop 2 s)) = dropWhile is_placeholder_char (drop 2 s)"
    by (simp_all add: is_word_not_space) (simp add: is_space_def)
  with assms show ?thesis by (simp add: match_placeholder_def Let_def split: if_split_asm)
qed

text \<open>Whatever the renderer substitutes, the validator has seen.\<close>

lemma placeholders_subset: "set (placeholders False s) \<subseteq> set (placeholders True s)"
proof (induction s rule: length_induct)
  case (1 s)
  show ?case
  proof (cases s)
    case (Cons c cs)
    show ?thesis
    proof (cases "match_placeholder False s")
      case (Some x)
      obtain name rest where x: "x = (name, rest)" by force
      then have "length rest < length s" using Some match_placeholder_shorter by blast
      with 1 have "set (placeholders False rest) \<subseteq> set (placeholders True rest)" by blast
      moreover have "match_placeholder True s = Some x" by (rule match_False_True [OF Some])
      ultimately show ?thesis using Some by (simp add: Cons x) blast
    next
      case None
      then have f: "placeholders False s = placeholders False cs" by (simp add: Cons)
      show ?thesis
      proof (cases "match_placeholder True s")
        case None
        with f 1 show ?thesis by (simp add: Cons)
      next
        case (Some x)
        obtain name rest where x: "x = (name, rest)" by force
        then obtain sp1 sp2 where sh: "s = ''{{'' @ sp1 @ name @ sp2 @ ''}}'' @ rest"
          "list_all is_space sp1" "list_all is_space sp2" "name \<noteq> []" "list_all is_placeholder_char name"
          using match_placeholder_shape Some by metis
        define p where "p = sp1 @ name @ sp2 @ ''}}''"
        have "CHR ''{'' \<notin> set p"
          using sh(2,3,5) by (auto simp: p_def list_all_iff is_space_def is_placeholder_char_def is_digit_def)
        moreover have "p \<noteq> []" by (simp add: p_def)
        with calculation have "\<not> starts_with (CHR ''{'' # p @ rest) ''{{''"
          by (cases p) (auto simp: starts_with_def)
        ultimately have "placeholders False (CHR ''{'' # p @ rest) = placeholders False rest"
          by (simp add: no_brace_no_match placeholders_skip)
        moreover have "cs = CHR ''{'' # p @ rest" using sh(1) by (simp add: Cons p_def)
        moreover have "set (placeholders False rest) \<subseteq> set (placeholders True rest)"
          using 1 match_placeholder_shorter Some x by blast
        ultimately show ?thesis using f Some by (auto simp: Cons x)
      qed
    qed
  qed simp
qed

lemma substitute_returns:
  "(\<exists>out. substitute allowed vars s = Some out) \<longleftrightarrow> set (placeholders False s) \<subseteq> set allowed"
  by (induction allowed vars s rule: substitute.induct) (auto split: option.splits)

section \<open>Properties\<close>

text \<open>
  A template that passed the validator renders for every assignment of approved variables,
  and rendering throws when a variable outside the approved set is supplied.
\<close>

theorem validated_template_renders:
  assumes "validate_template i v = None" "unchecked_typed [(''approver_signatures'', T_strings)] v"
  shows "\<exists>t. read_template True v = Some t \<and>
     (\<forall>vars. (\<exists>msg. renderApprovedMessage t vars = Some msg) \<longleftrightarrow>
             fst ` set vars \<subseteq> set (mt_allowed_variables t))"
proof -
  obtain t where t: "read_template True v = Some t"
    "set (placeholders True (mt_subject t)) \<union> set (placeholders True (mt_body t)) \<subseteq> set (mt_allowed_variables t)"
    using validate_template_reads [OF assms(1), of True] assms(2) by blast
  have "\<exists>out. substitute (mt_allowed_variables t) vars (mt_subject t) = Some out"
    "\<exists>out. substitute (mt_allowed_variables t) vars (mt_body t) = Some out" for vars
    unfolding substitute_returns using t(2) placeholders_subset by blast+
  then have "(\<exists>msg. renderApprovedMessage t vars = Some msg) \<longleftrightarrow>
      list_all (\<lambda>kv. fst kv \<in> set (mt_allowed_variables t)) vars" for vars
    unfolding renderApprovedMessage_def Let_def by (cases "list_all (\<lambda>kv. fst kv \<in> set (mt_allowed_variables t)) vars")
      (metis bind.bind_lunit option.simps(3))+
  then have "(\<exists>msg. renderApprovedMessage t vars = Some msg) \<longleftrightarrow>
      fst ` set vars \<subseteq> set (mt_allowed_variables t)" for vars
    by (auto simp: list_all_iff)
  with t(1) show ?thesis by blast
qed

definition spaced_template :: json where
  "spaced_template = JObj [(''id'', JStr ''t1''), (''subject'', JStr ''Hi''),
     (''body'', JStr ''Dear {{ name }}''), (''allowed_variables'', JArr [JStr ''name''])]"

text \<open>
  The validator accepts white space inside the braces, the renderer does not: an accepted
  template with a value for every variable still ships the braces to the counterparty.
\<close>

theorem spaced_placeholder_ships_raw:
  "validate_template 0 spaced_template = None \<and>
   Option.bind (read_template True spaced_template) (\<lambda>t. renderApprovedMessage t [(''name'', ''Ada'')]) =
     Some \<lparr>rm_subject = ''Hi'', rm_body = ''Dear {{ name }}''\<rparr>"
  by code_simp

end
