(* ===== verification/Policy_Lint.thy ===== *)
theory Policy_Lint
  imports Policy_Facts Approver_Roles
begin

text \<open>
  The policy linter and the activation gate (services/policy/src/linter.ts), the semantic
  diff (policy-diff.ts) and the simulator (simulator.ts), with their soundness against the
  policy VM: what a clean lint excludes at run time, and that a rule reported unreachable
  never decides. The message texts of findings are not modelled.
\<close>

section \<open>Findings and options\<close>

datatype lint_severity = Lint_error | Lint_warn

datatype lint_code =
    Confidence_floor_missing | Confidence_floor_too_low | Auto_no_amount_cap
  | Auto_no_counterparty_constraint | Auto_no_verified_counterparty | No_approval_path_high_value
  | Unsupported_currency | Invalid_approval_role | Auto_no_risk_bound | Broad_any_auto
  | Unreachable_rule | Zero_recent_matches

record lint_finding =
  lf_code :: lint_code
  lf_severity :: lint_severity
  lf_rule_id :: "string option"

record lint_options =
  lo_supportedCurrencies :: "string list option"
  lo_knownRoles :: "string list option"
  lo_recentMatchCounts :: "(string \<rightharpoonup> nat) option"
  lo_highValueThreshold :: "amount_literal option"
  lo_confidenceFloorReject :: bool

definition DEFAULT_CURRENCIES :: "string list" where
  "DEFAULT_CURRENCIES =
     [''USD'', ''EUR'', ''GBP'', ''CAD'', ''AUD'', ''JPY'', ''ETH'', ''USDC'', ''USDT'']"

definition MONEY_MOVEMENT :: "apply_to list" where
  "MONEY_MOVEMENT = [Outbound_payment, Onchain_tx, Any]"

section \<open>What the linter reads of a rule\<close>

definition isMoneyMover :: "policy_rule \<Rightarrow> bool" where
  "isMoneyMover rule = (\<exists>a \<in> set (rl_applies_to rule). a \<in> set MONEY_MOVEMENT)"

definition isAuto :: "policy_rule \<Rightarrow> bool" where
  "isAuto rule = (rl_execute rule = Execute_auto)"

definition hasAmountCap :: "policy_rule \<Rightarrow> bool" where
  "hasAmountCap rule =
     (amount_lte (rl_when rule) \<noteq> None \<or> rl_approval_required_above rule \<noteq> None)"

definition hasCounterpartyConstraint :: "policy_rule \<Rightarrow> bool" where
  "hasCounterpartyConstraint rule =
     (counterparty_in (rl_when rule) \<noteq> None \<or> counterparty_not_in (rl_when rule) \<noteq> None)"

definition riskConstraint :: "policy_rule \<Rightarrow> string option" where
  "riskConstraint rule = agent_risk_level_lte (rl_when rule)"

definition parseRoles :: "string option \<Rightarrow> string list" where
  "parseRoles require = (case require of None \<Rightarrow> [] | Some r \<Rightarrow>
     if r = ''single_signer'' then [''signer'']
     else if ends_with r ''_approval'' then [take (length r - length ''_approval'') r]
     else if str_includes r ''_and_'' then filter (\<lambda>s. length s > 0) (split_on ''_and_'' [] r)
     else [r])"

definition confidenceBounds :: "policy_document \<Rightarrow> (string \<times> rat) list" where
  "confidenceBounds doc = concat (map (\<lambda>rule.
     case agent_confidence_gte (rl_when rule) of None \<Rightarrow> [] | Some v \<Rightarrow> [(rl_id rule, v)])
     (pd_rules doc))"

section \<open>lintPolicy\<close>

text \<open>\<open>add(severity, code, rule_id)\<close> under its condition.\<close>

definition add_if :: "bool \<Rightarrow> lint_severity \<Rightarrow> lint_code \<Rightarrow> string option \<Rightarrow> lint_finding list" where
  "add_if c sev code rid =
     (if c then [\<lparr>lf_code = code, lf_severity = sev, lf_rule_id = rid\<rparr>] else [])"

definition confidence_findings :: "lint_options \<Rightarrow> policy_document \<Rightarrow> lint_finding list" where
  "confidence_findings opts doc =
     (let floorSeverity = (if lo_confidenceFloorReject opts then Lint_error else Lint_warn);
          floors = confidenceBounds doc
      in if floors = [] then add_if True floorSeverity Confidence_floor_missing None
         else if \<not> (\<exists>f \<in> set floors. snd f > 1 / 2)
         then add_if True floorSeverity Confidence_floor_too_low (Some (fst (hd floors)))
         else [])"

definition lint_threshold :: "lint_options \<Rightarrow> amount_literal" where
  "lint_threshold opts =
     or_else (lo_highValueThreshold opts) \<lparr>am_currency = ''USD'', am_value = ''10000''\<rparr>"

definition lint_currencies :: "lint_options \<Rightarrow> string list" where
  "lint_currencies opts = or_else (lo_supportedCurrencies opts) DEFAULT_CURRENCIES"

definition lint_roles :: "lint_options \<Rightarrow> string list" where
  "lint_roles opts = or_else (lo_knownRoles opts) APPROVER_ROLE_TOKENS"

definition cap_exceeds :: "lint_options \<Rightarrow> policy_rule \<Rightarrow> bool" where
  "cap_exceeds opts rule = (case amount_lte (rl_when rule) of None \<Rightarrow> True
     | Some cap \<Rightarrow> am_currency cap = am_currency (lint_threshold opts) \<and>
                   compareDecimal_vm (am_value cap) (am_value (lint_threshold opts)) > 0)"

definition is_catch_all :: "policy_rule \<Rightarrow> bool" where
  "is_catch_all rule = (Any \<in> set (rl_applies_to rule) \<and> rl_when rule = when_empty)"

text \<open>The body of the loop over the rules; \<open>seen\<close> is \<open>catchAllSeen !== null\<close>.\<close>

definition lint_rule :: "lint_options \<Rightarrow> bool \<Rightarrow> policy_rule \<Rightarrow> lint_finding list" where
  "lint_rule opts seen rule =
     (let auto = isAuto rule; mover = isMoneyMover rule; w = rl_when rule; rid = Some (rl_id rule) in
      add_if (auto \<and> mover \<and> \<not> hasAmountCap rule) Lint_error Auto_no_amount_cap rid @
      add_if (auto \<and> mover \<and> \<not> hasCounterpartyConstraint rule)
        Lint_error Auto_no_counterparty_constraint rid @
      add_if (auto \<and> mover \<and> counterparty_in w = None) Lint_error Auto_no_verified_counterparty rid @
      add_if (auto \<and> mover \<and> cap_exceeds opts rule \<and> rl_require rule = None \<and>
              rl_approval_required_above rule = None)
        Lint_error No_approval_path_high_value rid @
      concat (map (\<lambda>lit. case lit of None \<Rightarrow> [] | Some l \<Rightarrow>
                add_if (am_currency l \<notin> set (lint_currencies opts)) Lint_error Unsupported_currency rid)
              [amount_lte w, amount_gt w, rl_approval_required_above rule]) @
      concat (map (\<lambda>role. add_if (role \<notin> set (lint_roles opts)) Lint_error Invalid_approval_role rid)
              (parseRoles (rl_require rule))) @
      add_if (auto \<and> mover \<and> riskConstraint rule = None) Lint_error Auto_no_risk_bound rid @
      add_if (auto \<and> Any \<in> set (rl_applies_to rule)) Lint_error Broad_any_auto rid @
      add_if seen Lint_warn Unreachable_rule rid @
      (case lo_recentMatchCounts opts of None \<Rightarrow> []
       | Some counts \<Rightarrow> add_if (or_else (counts (rl_id rule)) 0 = 0) Lint_warn Zero_recent_matches rid))"

fun lint_rules :: "lint_options \<Rightarrow> bool \<Rightarrow> policy_rule list \<Rightarrow> lint_finding list" where
  "lint_rules opts seen [] = []"
| "lint_rules opts seen (rule # rules) =
     lint_rule opts seen rule @ lint_rules opts (seen \<or> is_catch_all rule) rules"

definition lintPolicy :: "policy_document \<Rightarrow> lint_options \<Rightarrow> lint_finding list" where
  "lintPolicy doc opts = confidence_findings opts doc @ lint_rules opts False (pd_rules doc)"

section \<open>runActivationLintGate\<close>

definition CONFIDENCE_FLOOR_CODES :: "lint_code list" where
  "CONFIDENCE_FLOOR_CODES = [Confidence_floor_missing, Confidence_floor_too_low]"

record activation_gate =
  ag_findings :: "lint_finding list"
  ag_blocking :: "lint_finding list"
  ag_warnings :: "lint_finding list"

text \<open>\<open>{ confidenceFloorReject }\<close>, every other option at its default.\<close>

definition default_lint :: "bool \<Rightarrow> lint_options" where
  "default_lint reject =
     \<lparr>lo_supportedCurrencies = None, lo_knownRoles = None, lo_recentMatchCounts = None,
      lo_highValueThreshold = None, lo_confidenceFloorReject = reject\<rparr>"

definition runActivationLintGate :: "policy_document \<Rightarrow> bool \<Rightarrow> bool \<Rightarrow> activation_gate" where
  "runActivationLintGate doc lintEnforce confidenceEnforce =
     (let findings = lintPolicy doc (default_lint confidenceEnforce) in
      \<lparr>ag_findings = findings,
       ag_blocking = filter (\<lambda>f. lf_severity f = Lint_error \<and>
          (lintEnforce \<or> lf_code f \<in> set CONFIDENCE_FLOOR_CODES)) findings,
       ag_warnings = filter (\<lambda>f. lf_severity f = Lint_warn) findings\<rparr>)"

section \<open>A clean gate, rule by rule\<close>

lemma set_add_if [simp]:
  "f \<in> set (add_if c sev code rid) \<longleftrightarrow> c \<and> f = \<lparr>lf_code = code, lf_severity = sev, lf_rule_id = rid\<rparr>"
  by (auto simp: add_if_def)

lemma add_if_Nil [simp]: "add_if c sev code rid = [] \<longleftrightarrow> \<not> c"
  by (simp add: add_if_def)

lemma lint_rules_mem:
  "rule \<in> set rules \<Longrightarrow> \<exists>seen'. set (lint_rule opts seen' rule) \<subseteq> set (lint_rules opts seen rules)"
proof (induction rules arbitrary: seen)
  case (Cons r rules)
  show ?case
  proof (cases "rule = r")
    case True
    then show ?thesis by (intro exI [of _ seen]) simp
  next
    case False
    with Cons.prems have "rule \<in> set rules" by simp
    from Cons.IH [OF this, of "seen \<or> is_catch_all r"] show ?thesis by auto
  qed
qed simp

text \<open>The errors a rule of a document without blocking findings cannot have.\<close>

lemma clean_rule:
  assumes "ag_blocking (runActivationLintGate doc True ce) = []" "rule \<in> set (pd_rules doc)"
    and "isAuto rule"
  shows "Any \<notin> set (rl_applies_to rule)"
    and "isMoneyMover rule \<Longrightarrow> hasAmountCap rule"
    and "isMoneyMover rule \<Longrightarrow> \<exists>name. counterparty_in (rl_when rule) = Some name"
    and "isMoneyMover rule \<Longrightarrow> \<exists>r. agent_risk_level_lte (rl_when rule) = Some r"
    and "\<And>l. Some l \<in> {amount_lte (rl_when rule), rl_approval_required_above rule} \<Longrightarrow>
           am_currency l \<in> set DEFAULT_CURRENCIES"
    and "isMoneyMover rule \<Longrightarrow> rl_require rule = None \<Longrightarrow> rl_approval_required_above rule = None \<Longrightarrow>
           \<exists>cap. amount_lte (rl_when rule) = Some cap \<and>
             (am_currency cap = ''USD'' \<longrightarrow> compareDecimal_vm (am_value cap) ''10000'' \<le> 0)"
proof -
  obtain seen where sub: "set (lint_rule (default_lint ce) seen rule)
      \<subseteq> set (lint_rules (default_lint ce) False (pd_rules doc))"
    using lint_rules_mem [OF assms(2)] by blast
  have none: "f \<notin> set (lint_rule (default_lint ce) seen rule)" if "lf_severity f = Lint_error" for f
    using assms(1) sub that
    by (auto simp: runActivationLintGate_def Let_def lintPolicy_def filter_empty_conv)
  note d = lint_rule_def Let_def default_lint_def lint_currencies_def lint_threshold_def
    riskConstraint_def cap_exceeds_def
  show "Any \<notin> set (rl_applies_to rule)"
    using none [of "\<lparr>lf_code = Broad_any_auto, lf_severity = Lint_error, lf_rule_id = Some (rl_id rule)\<rparr>"]
      assms(3) by (simp add: d)
  show "isMoneyMover rule \<Longrightarrow> hasAmountCap rule"
    using none [of "\<lparr>lf_code = Auto_no_amount_cap, lf_severity = Lint_error, lf_rule_id = Some (rl_id rule)\<rparr>"]
      assms(3) by (simp add: d)
  show "isMoneyMover rule \<Longrightarrow> \<exists>name. counterparty_in (rl_when rule) = Some name"
    using none [of "\<lparr>lf_code = Auto_no_verified_counterparty, lf_severity = Lint_error, lf_rule_id = Some (rl_id rule)\<rparr>"]
      assms(3) by (simp add: d)
  show "isMoneyMover rule \<Longrightarrow> \<exists>r. agent_risk_level_lte (rl_when rule) = Some r"
    using none [of "\<lparr>lf_code = Auto_no_risk_bound, lf_severity = Lint_error, lf_rule_id = Some (rl_id rule)\<rparr>"]
      assms(3) by (simp add: d)
  show "am_currency l \<in> set DEFAULT_CURRENCIES"
    if "Some l \<in> {amount_lte (rl_when rule), rl_approval_required_above rule}" for l
    using none [of "\<lparr>lf_code = Unsupported_currency, lf_severity = Lint_error, lf_rule_id = Some (rl_id rule)\<rparr>"]
      that by (auto simp: d split: option.splits)
  show "\<exists>cap. amount_lte (rl_when rule) = Some cap \<and>
      (am_currency cap = ''USD'' \<longrightarrow> compareDecimal_vm (am_value cap) ''10000'' \<le> 0)"
    if "isMoneyMover rule" "rl_require rule = None" "rl_approval_required_above rule = None"
    using none [of "\<lparr>lf_code = No_approval_path_high_value, lf_severity = Lint_error, lf_rule_id = Some (rl_id rule)\<rparr>"]
      that assms(3) by (auto simp: d split: option.splits)
qed

section \<open>Rules behind a catch-all\<close>

text \<open>The rules that follow a catch-all rule: those the loop visits with \<open>catchAllSeen\<close> set.\<close>

fun shadowed :: "bool \<Rightarrow> policy_rule list \<Rightarrow> policy_rule list" where
  "shadowed seen [] = []"
| "shadowed seen (rule # rules) =
     (if seen then rule # shadowed True rules else shadowed (is_catch_all rule) rules)"

definition unreachable_warning :: "string \<Rightarrow> lint_finding" where
  "unreachable_warning rid =
     \<lparr>lf_code = Unreachable_rule, lf_severity = Lint_warn, lf_rule_id = Some rid\<rparr>"

lemma unreachable_in_lint_rule: "unreachable_warning rid \<in> set (lint_rule opts seen rule) \<longleftrightarrow> seen \<and> rid = rl_id rule"
  by (auto simp: lint_rule_def Let_def unreachable_warning_def split: option.splits if_splits)

lemma unreachable_in_lint_rules:
  "unreachable_warning rid \<in> set (lint_rules opts seen rules) \<longleftrightarrow> rid \<in> rl_id ` set (shadowed seen rules)"
  by (induction opts seen rules rule: lint_rules.induct) (auto simp: unreachable_in_lint_rule)

lemma unreachable_in_lintPolicy:
  "unreachable_warning rid \<in> set (lintPolicy doc opts) \<longleftrightarrow> rid \<in> rl_id ` set (shadowed False (pd_rules doc))"
proof -
  have "unreachable_warning rid \<notin> set (confidence_findings opts doc)"
    by (simp add: confidence_findings_def Let_def unreachable_warning_def)
  then show ?thesis by (simp add: lintPolicy_def unreachable_in_lint_rules)
qed

lemma shadowed_all: "shadowed True rules = rules"
  by (induction rules) simp_all

text \<open>A document splits into the rules up to its first catch-all and the shadowed ones.\<close>

lemma shadowed_split:
  "shadowed False rules = [] \<or>
   (\<exists>pre rule. is_catch_all rule \<and> rules = (pre @ [rule]) @ shadowed False rules)"
proof (induction rules)
  case (Cons r rules)
  show ?case
  proof (cases "is_catch_all r")
    case True
    then show ?thesis by (intro disjI2 exI [of _ "[]"] exI [of _ r]) (simp add: shadowed_all)
  next
    case False
    with Cons.IH show ?thesis
    proof (elim disjE exE conjE)
      fix pre rule assume "is_catch_all rule" "rules = (pre @ [rule]) @ shadowed False rules"
      with False show ?thesis by (intro disjI2 exI [of _ "r # pre"] exI [of _ rule]) simp
    qed simp
  qed
qed simp

lemma catch_all_matches: "is_catch_all rule \<Longrightarrow> matchRule policy rule a = Some (True, [])"
  by (simp add: is_catch_all_def matchRule_def rule_primitives_def primitive_defs
      prim_spend_in_window_def when_empty_def)

lemma evaluate_rules_cut:
  "is_catch_all rule \<Longrightarrow>
   evaluate_rules policy a t (pre @ rule # post) = evaluate_rules policy a t (pre @ [rule])"
  by (induction pre arbitrary: t)
    (auto simp: catch_all_matches Let_def split: option.splits)

lemma evaluate_rules_lists:
  "pd_lists policy = pd_lists policy' \<Longrightarrow>
   evaluate_rules policy a t rules = evaluate_rules policy' a t rules"
proof (induction rules arbitrary: t)
  case (Cons r rules)
  have "policy_list policy = policy_list policy'"
    using Cons.prems by (intro ext) (simp add: policy_list_def)
  then have "rule_primitives policy (rl_when r) a = rule_primitives policy' (rl_when r) a"
    by (simp add: rule_primitives_def prim_counterparty_in_def prim_counterparty_not_in_def
        cong: option.case_cong)
  then have "matchRule policy r a = matchRule policy' r a" by (simp add: matchRule_def)
  then show ?case using Cons by (simp add: Let_def split: option.splits)
qed simp

lemma filter_unshadowed:
  assumes "distinct (map rl_id rules)" "rules = kept @ shadowed False rules"
  shows "filter (\<lambda>r. rl_id r \<notin> rl_id ` set (shadowed False rules)) rules = kept"
proof -
  define s where "s = shadowed False rules"
  with assms have r: "rules = kept @ s" by simp
  with assms(1) have "rl_id r \<notin> rl_id ` set s" if "r \<in> set kept" for r using that by force
  then have "filter (\<lambda>r. rl_id r \<notin> rl_id ` set s) (kept @ s) = kept"
    by (simp add: filter_id_conv filter_empty_conv)
  then show ?thesis using r s_def by metis
qed

lemma evaluate_unshadowed:
  assumes "distinct (map rl_id (pd_rules doc))"
  shows "evaluate (doc\<lparr>pd_rules := filter (\<lambda>r. unreachable_warning (rl_id r) \<notin> set (lintPolicy doc opts))
                                   (pd_rules doc)\<rparr>) a = evaluate doc a"
proof -
  let ?rs = "pd_rules doc" and ?s = "shadowed False (pd_rules doc)"
  have "\<exists>kept. ?rs = kept @ ?s \<and> evaluate_rules doc a [] kept = evaluate_rules doc a [] ?rs"
    using shadowed_split [of ?rs]
  proof (elim disjE exE conjE)
    fix pre rule assume c: "is_catch_all rule" and e: "?rs = (pre @ [rule]) @ ?s"
    have "evaluate_rules doc a [] ((pre @ [rule]) @ ?s) = evaluate_rules doc a [] (pre @ [rule])"
      using evaluate_rules_cut [OF c, of doc a "[]" pre ?s] by simp
    then show ?thesis using e by metis
  qed simp
  then show ?thesis
    using evaluate_rules_lists [of "doc\<lparr>pd_rules := _\<rparr>" doc] filter_unshadowed [OF assms]
    by (auto simp: evaluate_def unreachable_in_lintPolicy)
qed

section \<open>Properties\<close>

text \<open>
  A rule the linter reports as unreachable never decides: deleting every
  rule reported so leaves the decision and the trace of every action unchanged, as long as
  the rule ids of the document are distinct (which the validator checks).
\<close>

theorem unreachable_rules_are_dead:
  assumes "distinct (map rl_id (pd_rules doc))"
  shows "evaluate (doc\<lparr>pd_rules := filter (\<lambda>r. unreachable_warning (rl_id r) \<notin> set (lintPolicy doc opts))
                                   (pd_rules doc)\<rparr>) a = evaluate doc a"
  by (rule evaluate_unshadowed [OF assms])

text \<open>
  Concrete documents: \<open>vendor_policy\<close> pays trusted vendors automatically below a threshold of
  100 US dollars, and \<open>shadowed_policy\<close> hides it behind a rule that confirms everything.
\<close>

definition vendor_rule :: policy_rule where
  "vendor_rule = \<lparr>
     rl_id = ''pay_vendors'', rl_applies_to = [Outbound_payment],
     rl_when = when_empty\<lparr>
        counterparty_in := Some ''vendors.trusted'',
        agent_confidence_gte := Some (9 / 10),
        agent_risk_level_lte := Some ''low''\<rparr>,
     rl_require = None, rl_execute = Execute_auto,
     rl_approval_required_above = Some (usd ''100''), rl_onchain_settlement_permitted = None,
     rl_x402_autonomous_max_amount = None, rl_ach_autonomous_max_amount = None,
     rl_card_autonomous_max_amount = None, rl_required_evidence_kinds = None\<rparr>"

definition confirm_rule :: policy_rule where
  "confirm_rule = vendor_rule\<lparr>rl_id := ''confirm_all'', rl_applies_to := [Any],
     rl_when := when_empty, rl_execute := Execute_confirm\<rparr>"

definition vendor_policy :: policy_document where
  "vendor_policy = \<lparr>pd_version = 1, pd_rules = [vendor_rule],
     pd_lists = Some [''vendors.trusted'' \<mapsto> [''cp_1'']],
     pd_message_templates = None, pd_agent_actions = None\<rparr>"

definition shadowed_policy :: policy_document where
  "shadowed_policy = vendor_policy\<lparr>pd_rules := [confirm_rule, vendor_rule]\<rparr>"

definition vendor_action :: "string \<Rightarrow> string \<Rightarrow> action" where
  "vendor_action currency v = sample_action\<lparr>ac_counterparty_id := Some ''cp_1'',
     ac_amount := Some \<lparr>am_currency = currency, am_value = v\<rparr>,
     ac_confidence := Some 1, ac_risk_level := Some ''low''\<rparr>"

lemmas vendor_defs = vendor_policy_def vendor_rule_def vendor_action_def usd_def when_empty_def sample_action_def

lemma vendor_matches: "matchRule vendor_policy vendor_rule (vendor_action cur v) =
   Some (True, [rule_check_of K_counterparty_in True (Text ''vendors.trusted''),
                rule_check_of K_confidence_gte True (Number (9 / 10)),
                rule_check_of K_risk_level_lte True (Text ''low'')])"
  by (simp add: matchRule_def rule_primitives_def primitive_defs prim_spend_in_window_def
      policy_list_def RISK_RANK_def vendor_defs)

lemma vendor_evaluates:
  "\<exists>t. evaluate vendor_policy (vendor_action cur v) = Some (rule_decision vendor_rule (vendor_action cur v) t)"
proof -
  have "pd_rules vendor_policy = [vendor_rule]" by (simp add: vendor_policy_def)
  then show ?thesis by (simp add: evaluate_def vendor_matches) blast
qed

lemma vendor_clean: "ag_blocking (runActivationLintGate vendor_policy True True) = []"
  by (simp add: runActivationLintGate_def lintPolicy_def confidence_findings_def confidenceBounds_def
      default_lint_def lint_rule_def Let_def add_if_def vendor_defs isAuto_def isMoneyMover_def
      MONEY_MOVEMENT_def hasAmountCap_def hasCounterpartyConstraint_def riskConstraint_def cap_exceeds_def
      lint_currencies_def DEFAULT_CURRENCIES_def parseRoles_def)

theorem unreachable_rules_are_dead_witness:
  "unreachable_warning ''pay_vendors'' \<in> set (lintPolicy shadowed_policy (default_lint True)) \<and>
   evaluate (shadowed_policy\<lparr>pd_rules := [confirm_rule]\<rparr>) sample_action = evaluate shadowed_policy sample_action"
proof -
  have d: "distinct (map rl_id (pd_rules shadowed_policy))"
    by (simp add: shadowed_policy_def vendor_policy_def confirm_rule_def vendor_rule_def)
  have c: "is_catch_all confirm_rule" by (simp add: is_catch_all_def confirm_rule_def)
  have s: "shadowed False (pd_rules shadowed_policy) = [vendor_rule]"
    by (simp add: shadowed_policy_def c)
  have f: "filter (\<lambda>r. unreachable_warning (rl_id r) \<notin> set (lintPolicy shadowed_policy (default_lint True)))
      (pd_rules shadowed_policy) = [confirm_rule]"
    unfolding unreachable_in_lintPolicy s
    by (simp add: shadowed_policy_def confirm_rule_def vendor_rule_def)
  have "unreachable_warning ''pay_vendors'' \<in> set (lintPolicy shadowed_policy (default_lint True))"
    unfolding unreachable_in_lintPolicy s by (simp add: vendor_rule_def)
  then show ?thesis
    using unreachable_rules_are_dead [OF d, of "default_lint True" sample_action] unfolding f by blast
qed

lemma clean_allow_bounded:
  assumes "ag_blocking (runActivationLintGate doc True confidenceEnforce) = []"
    and "evaluate doc a = Some d" "de_outcome d = Allow"
    and "ac_kind a = Outbound_payment \<or> ac_kind a = Onchain_tx"
  shows "\<exists>rule \<in> set (pd_rules doc). de_matched_rule_id d = Some (rl_id rule)
     \<and> (\<exists>name c. counterparty_in (rl_when rule) = Some name \<and> ac_counterparty_id a = Some c \<and>
          c \<in> set (policy_list doc name))
     \<and> (\<exists>bound r n. agent_risk_level_lte (rl_when rule) = Some bound \<and> ac_risk_level a = Some r \<and>
          RISK_RANK r = Some n \<and> n \<le> or_else (RISK_RANK bound) 0)
     \<and> ((\<exists>b m. amount_lte (rl_when rule) = Some b \<and> ac_amount a = Some m \<and>
           am_currency m = am_currency b \<and> compareDecimal_vm (am_value m) (am_value b) \<le> 0)
        \<or> (\<exists>t. rl_approval_required_above rule = Some t \<and>
             (\<forall>m. ac_amount a = Some m \<and> am_currency m = am_currency t \<longrightarrow>
                  compareDecimal_vm (am_value m) (am_value t) \<le> 0)))"
proof (cases rule: evaluate_cases [OF assms(2)])
  case 1
  with assms(3) show ?thesis by simp
next
  case (2 pre rule post)
  from 2(4) assms(3) have "de_outcome (rule_decision rule a (de_trace d)) = Allow" by simp
  then have auto: "isAuto rule" and below: "\<not> exceeds_threshold rule a"
    unfolding rule_decision_Allow isAuto_def by blast+
  have mem: "rule \<in> set (pd_rules doc)" using 2(1) by simp
  note clean = clean_rule [OF assms(1) mem auto]
  from 2(3) obtain cs where m: "matchRule doc rule a = Some (True, cs)" by (auto simp: rule_matches_def)
  have "isMoneyMover rule"
    using matchRule_TrueE(1) [OF m] clean(1) assms(4) by (auto simp: isMoneyMover_def MONEY_MOVEMENT_def)
  note clean = clean(2-4) [OF this]
  note P = matched_primitives [OF m]
  have cp: "\<exists>name c. counterparty_in (rl_when rule) = Some name \<and> ac_counterparty_id a = Some c \<and>
      c \<in> set (policy_list doc name)"
    using clean(2) P(1) by (auto simp: prim_counterparty_in_def Let_def split: option.splits)
  have risk: "\<exists>bound r n. agent_risk_level_lte (rl_when rule) = Some bound \<and> ac_risk_level a = Some r \<and>
      RISK_RANK r = Some n \<and> n \<le> or_else (RISK_RANK bound) 0"
    using clean(3) prim_risk_level_lteD [OF P(9)] by blast
  have amount: "\<exists>b m. amount_lte (rl_when rule) = Some b \<and> ac_amount a = Some m \<and>
      am_currency m = am_currency b \<and> compareDecimal_vm (am_value m) (am_value b) \<le> 0"
    if "amount_lte (rl_when rule) \<noteq> None" using that prim_amount_lteD [OF P(3)] by blast
  have above: "compareDecimal_vm (am_value m) (am_value t) \<le> 0"
    if "rl_approval_required_above rule = Some t" "ac_amount a = Some m" "am_currency m = am_currency t" for t m
    using below that by (simp add: exceeds_threshold_def)
  have "de_matched_rule_id d = Some (rl_id rule)" using 2(4) by (metis rule_decision_id)
  with mem cp risk amount above clean(1) show ?thesis
    unfolding hasAmountCap_def by (intro bexI [of _ rule]) blast+
qed

text \<open>
  What the activation lint buys at run time: under a document it lets through with
  enforcement on, a payment or on-chain action is allowed without approval only by a rule
  that found its counterparty on a list and its risk level within a bound, and whose
  amount is within \<open>amount.lte\<close>, or, where only \<open>approval_required_above\<close> caps the
  amount, is within that threshold if it is in the currency of the threshold.
\<close>

theorem clean_lint_bounds_autonomy:
  assumes "ag_blocking (runActivationLintGate doc True confidenceEnforce) = []"
    and "evaluate doc a = Some d" "de_outcome d = Allow"
    and "ac_kind a = Outbound_payment \<or> ac_kind a = Onchain_tx"
  shows "\<exists>rule \<in> set (pd_rules doc). de_matched_rule_id d = Some (rl_id rule)
     \<and> (\<exists>name c. counterparty_in (rl_when rule) = Some name \<and> ac_counterparty_id a = Some c \<and>
          c \<in> set (policy_list doc name))
     \<and> (\<exists>bound r n. agent_risk_level_lte (rl_when rule) = Some bound \<and> ac_risk_level a = Some r \<and>
          RISK_RANK r = Some n \<and> n \<le> or_else (RISK_RANK bound) 0)
     \<and> ((\<exists>b m. amount_lte (rl_when rule) = Some b \<and> ac_amount a = Some m \<and>
           am_currency m = am_currency b \<and> compareDecimal_vm (am_value m) (am_value b) \<le> 0)
        \<or> (\<exists>t. rl_approval_required_above rule = Some t \<and>
             (\<forall>m. ac_amount a = Some m \<and> am_currency m = am_currency t \<longrightarrow>
                  compareDecimal_vm (am_value m) (am_value t) \<le> 0)))"
  by (rule clean_allow_bounded [OF assms])

theorem clean_lint_bounds_autonomy_witness:
  "\<exists>name c. counterparty_in (rl_when vendor_rule) = Some name \<and>
     ac_counterparty_id (vendor_action ''EUR'' ''1'') = Some c \<and> c \<in> set (policy_list vendor_policy name)"
proof -
  let ?a = "vendor_action ''EUR'' ''1''"
  obtain t where e: "evaluate vendor_policy ?a = Some (rule_decision vendor_rule ?a t)"
    using vendor_evaluates by blast
  have o: "de_outcome (rule_decision vendor_rule ?a t) = Allow"
    unfolding rule_decision_Allow by (simp add: exceeds_threshold_def vendor_defs)
  have "ac_kind ?a = Outbound_payment \<or> ac_kind ?a = Onchain_tx" by (simp add: vendor_action_def sample_action_def)
  from clean_lint_bounds_autonomy [OF vendor_clean e o this] show ?thesis
    by (auto simp: vendor_policy_def)
qed

text \<open>
  \<open>approval_required_above\<close> fails open on the currency, and the linter counts it
  as an amount cap: a document without any lint error at production settings, whose only
  cap is a threshold of 100 US dollars, allows a payment in euros of any amount.
\<close>

theorem foreign_currency_escapes_cap:
  "ag_blocking (runActivationLintGate vendor_policy True True) = [] \<and>
   (\<exists>d. evaluate vendor_policy (vendor_action ''EUR'' v) = Some d \<and> de_outcome d = Allow \<and>
        de_required_approvers d = [])"
proof -
  let ?a = "vendor_action ''EUR'' v"
  obtain t where e: "evaluate vendor_policy ?a = Some (rule_decision vendor_rule ?a t)"
    using vendor_evaluates by blast
  have "de_outcome (rule_decision vendor_rule ?a t) = Allow"
    unfolding rule_decision_Allow by (simp add: exceeds_threshold_def vendor_defs)
  moreover have "de_required_approvers (rule_decision vendor_rule ?a t) = []"
    by (simp add: rule_decision_def Let_def exceeds_threshold_def mapExecute_def vendor_defs)
  ultimately show ?thesis using e vendor_clean by blast
qed

end
