(* ===== verification/Policy_Store.thy ===== *)
theory Policy_Store
  imports Policy_Typed Policy_Lint Gate
begin

text \<open>
  The policies table and its state machine (services/policy/src/repository.ts), the content
  hash (dsl.ts), and the two routes that write it, compose and sign (routes.ts). A handler
  takes the table and returns an error or its result with the new table; a transaction that
  throws leaves the table as it was, so an error carries no table.
\<close>

section \<open>State\<close>

datatype policy_state = Draft | Pending_signatures | Active | Deactivated | Policy_cancelled | Policy_expired

definition isValidTransition :: "policy_state \<Rightarrow> policy_state \<Rightarrow> bool" where
  "isValidTransition from_state to = (case from_state of
     Draft \<Rightarrow> to = Pending_signatures \<or> to = Policy_cancelled
   | Pending_signatures \<Rightarrow> to = Active \<or> to = Policy_expired
   | Active \<Rightarrow> to = Deactivated
   | Deactivated \<Rightarrow> False | Policy_cancelled \<Rightarrow> False | Policy_expired \<Rightarrow> False)"

record policy_row =
  po_id :: string
  po_tenant_id :: string
  po_version :: int
  po_content :: json
  po_content_hash :: string
  po_signers :: "(string \<times> string) list option"
  po_state :: policy_state
  po_quorum_required :: int
  po_activated_at :: "int option"
  po_deactivated_at :: "int option"
  po_created_by :: string
  po_created_at :: int

record policy_event =
  pv_tenant_id :: string
  pv_actor :: string
  pv_action :: string
  pv_policy_id :: string

record policy_db =
  pb_policies :: "policy_row list"
  pb_audit :: "policy_event list"

datatype policy_error =
    Rule_invalid string
  | Signature_invalid string
  | Policy_not_found
  | Quorum_not_met
  | Policy_not_active
  | Invalid_state
  | Constraint_violated
  | Lint_blocked "lint_finding list"
  | Type_error

text \<open>
  What the routes call and the sources do not contain: SHA-256 as a hex string, the printing of
  numbers, viem's verification of an EIP-712 signature over (tenant, version, hash), the
  on-chain allowlist of signers, the tenants table and the two enforcement flags.
\<close>

record policy_env =
  pe_sha256 :: "string \<Rightarrow> string"
  pe_number :: "rat \<Rightarrow> string"
  pe_verify :: "string \<Rightarrow> int \<Rightarrow> string \<Rightarrow> string \<Rightarrow> string \<Rightarrow> bool"
  pe_isAuthorizedSigner :: "string \<Rightarrow> string \<Rightarrow> bool"
  pe_tenantKind :: "string \<Rightarrow> string option"
  pe_confidenceFloorReject :: bool
  pe_lintReject :: bool

section \<open>The content hash\<close>

definition contentHashHex :: "policy_env \<Rightarrow> json \<Rightarrow> string" where
  "contentHashHex env doc = pe_sha256 env (canonicalize (pe_number env) doc)"

section \<open>The repository\<close>

definition owned :: "string \<Rightarrow> string \<Rightarrow> policy_row \<Rightarrow> bool" where
  "owned t i r \<longleftrightarrow> po_tenant_id r = t \<and> po_id r = i"

text \<open>
  \<open>insertPolicy\<close>, under the constraints of migrations/0001_policies.sql: the primary key, one
  row per tenant and version, a version that fits an INTEGER, a positive quorum.
\<close>

definition insertPolicy :: "policy_row \<Rightarrow> policy_db \<Rightarrow> policy_error + policy_db" where
  "insertPolicy r db =
     (if (\<exists>q \<in> set (pb_policies db). po_id q = po_id r \<or>
            (po_tenant_id q = po_tenant_id r \<and> po_version q = po_version r))
         \<or> 2 ^ 31 \<le> po_version r \<or> po_quorum_required r < 1 \<or> 2 ^ 31 \<le> po_quorum_required r
      then Inl Constraint_violated
      else Inr (db\<lparr>pb_policies := pb_policies db @ [r]\<rparr>))"

definition getById :: "string \<Rightarrow> string \<Rightarrow> policy_db \<Rightarrow> policy_row option" where
  "getById t i db = find (owned t i) (pb_policies db)"

definition getByVersion :: "string \<Rightarrow> int \<Rightarrow> policy_db \<Rightarrow> policy_row option" where
  "getByVersion t v db = find (\<lambda>r. po_tenant_id r = t \<and> po_version r = v) (pb_policies db)"

definition is_active :: "string \<Rightarrow> policy_row \<Rightarrow> bool" where
  "is_active t r \<longleftrightarrow> po_tenant_id r = t \<and> po_state r = Active"

text \<open>\<open>getActive\<close>: the active row of the tenant, if its content still has its hash.\<close>

definition getActive :: "policy_env \<Rightarrow> string \<Rightarrow> policy_db \<Rightarrow> policy_error + policy_row option" where
  "getActive env t db = (case find (is_active t) (pb_policies db) of
     None \<Rightarrow> Inr None
   | Some r \<Rightarrow>
       if contentHashHex env (po_content r) \<noteq> po_content_hash r then Inl Policy_not_active
       else Inr (Some r))"

definition update_policies :: "(policy_row \<Rightarrow> bool) \<Rightarrow> (policy_row \<Rightarrow> policy_row) \<Rightarrow> policy_db \<Rightarrow> policy_db" where
  "update_policies p f db = db\<lparr>pb_policies := map (\<lambda>r. if p r then f r else r) (pb_policies db)\<rparr>"

definition setSigners :: "string \<Rightarrow> string \<Rightarrow> (string \<times> string) list \<Rightarrow> policy_db \<Rightarrow> policy_db" where
  "setSigners t i signers = update_policies (owned t i) (\<lambda>r. r\<lparr>po_signers := Some signers\<rparr>)"

definition deactivate_active :: "string \<Rightarrow> int \<Rightarrow> policy_db \<Rightarrow> policy_db" where
  "deactivate_active t now =
     update_policies (is_active t) (\<lambda>r. r\<lparr>po_state := Deactivated, po_deactivated_at := Some now\<rparr>)"

definition move_state :: "string \<Rightarrow> string \<Rightarrow> policy_state \<Rightarrow> policy_state \<Rightarrow> int \<Rightarrow> policy_db \<Rightarrow> policy_db" where
  "move_state t i from_state to now =
     update_policies (\<lambda>r. owned t i r \<and> po_state r = from_state)
       (\<lambda>r. r\<lparr>po_state := to, po_activated_at := (if to = Active then Some now else po_activated_at r)\<rparr>)"

definition transition ::
  "string \<Rightarrow> string \<Rightarrow> policy_state \<Rightarrow> policy_state \<Rightarrow> int \<Rightarrow> policy_db \<Rightarrow> policy_error + policy_db" where
  "transition t i from_state to now db =
     (if \<not> isValidTransition from_state to then Inl Invalid_state
      else
        let db1 = (if to = Active then deactivate_active t now db else db)
        in if \<not> (\<exists>r \<in> set (pb_policies db1). owned t i r \<and> po_state r = from_state) then Inl Invalid_state
           else Inr (move_state t i from_state to now db1))"

definition policy_audit :: "string \<Rightarrow> string \<Rightarrow> string \<Rightarrow> string \<Rightarrow> policy_db \<Rightarrow> policy_db" where
  "policy_audit t actor act i db = db\<lparr>pb_audit := pb_audit db @
     [\<lparr>pv_tenant_id = t, pv_actor = actor, pv_action = act, pv_policy_id = i\<rparr>]\<rparr>"

section \<open>POST /policy/:tenant_id/compose\<close>

text \<open>\<open>version\<close> of an accepted document.\<close>

definition content_version :: "json \<Rightarrow> int" where
  "content_version content = (case content of
     JObj d \<Rightarrow> (case map_of d ''version'' of Some (JNum q) \<Rightarrow> \<lfloor>q\<rfloor> | _ \<Rightarrow> 0) | _ \<Rightarrow> 0)"

definition quorum_of :: "json option \<Rightarrow> int option" where
  "quorum_of raw = (case raw of
     None \<Rightarrow> Some 1
   | Some (JNum q) \<Rightarrow> (if is_integer q \<and> 1 \<le> q then Some \<lfloor>q\<rfloor> else None)
   | _ \<Rightarrow> None)"

definition compose_policy ::
  "policy_env \<Rightarrow> string \<Rightarrow> string \<Rightarrow> string \<Rightarrow> int \<Rightarrow> json option \<Rightarrow> json option \<Rightarrow> policy_db
     \<Rightarrow> policy_error + policy_db" where
  "compose_policy env t actor i now content quorum_required db =
     (case validatePolicyDocument content of
        Inl path \<Rightarrow> Inl (Rule_invalid path)
      | Inr doc \<Rightarrow> (case quorum_of quorum_required of
          None \<Rightarrow> Inl (Rule_invalid ''quorum_required'')
        | Some quorum \<Rightarrow>
            (case insertPolicy \<lparr>po_id = i, po_tenant_id = t, po_version = content_version doc,
                po_content = doc, po_content_hash = contentHashHex env doc, po_signers = None,
                po_state = Draft, po_quorum_required = quorum, po_activated_at = None,
                po_deactivated_at = None, po_created_by = actor, po_created_at = now\<rparr> db of
               Inl e \<Rightarrow> Inl e
             | Inr db1 \<Rightarrow> (case transition t i Draft Pending_signatures now db1 of
                 Inl e \<Rightarrow> Inl e
               | Inr db2 \<Rightarrow> Inr (policy_audit t actor ''policy.compose'' i db2)))))"

section \<open>POST /policy/:tenant_id/sign\<close>

text \<open>The loop over the signatures: verified, distinct in lower case, authorized, in this order.\<close>

fun check_signatures ::
  "policy_env \<Rightarrow> string \<Rightarrow> policy_row \<Rightarrow> string list \<Rightarrow> (string \<times> string) list \<Rightarrow> policy_error option" where
  "check_signatures env t r seen [] = None"
| "check_signatures env t r seen ((address, signature) # sigs) =
     (if \<not> pe_verify env t (po_version r) (po_content_hash r) address signature
      then Some (Signature_invalid address)
      else if to_lower address \<in> set seen then Some (Signature_invalid address)
      else if \<not> pe_isAuthorizedSigner env t address then Some (Signature_invalid address)
      else check_signatures env t r (to_lower address # seen) sigs)"

text \<open>The activation half of the handler: lint, then the move to \<open>active\<close>.\<close>

definition activate ::
  "policy_env \<Rightarrow> string \<Rightarrow> policy_row \<Rightarrow> int \<Rightarrow> policy_db \<Rightarrow> policy_error + policy_db" where
  "activate env t r now db =
     (case read_document False (po_content r) of
        None \<Rightarrow> Inl Type_error
      | Some doc \<Rightarrow>
          let production = (pe_tenantKind env t = Some ''production'');
              gate = runActivationLintGate doc (pe_lintReject env \<or> production)
                       (pe_confidenceFloorReject env \<or> production)
          in if ag_blocking gate \<noteq> [] then Inl (Lint_blocked (ag_blocking gate))
             else transition t (po_id r) Pending_signatures Active now db)"

definition sign_policy ::
  "policy_env \<Rightarrow> string \<Rightarrow> string \<Rightarrow> int \<Rightarrow> string option \<Rightarrow> (string \<times> string) list option \<Rightarrow> policy_db
     \<Rightarrow> policy_error + policy_db" where
  "sign_policy env t actor now policy_id signatures db =
     (case (policy_id, signatures) of
        (Some i, Some sigs) \<Rightarrow>
          (case getById t i db of
             None \<Rightarrow> Inl Policy_not_found
           | Some r \<Rightarrow>
               if po_state r \<noteq> Pending_signatures then Inl Quorum_not_met
               else (case check_signatures env t r [] sigs of
                 Some e \<Rightarrow> Inl e
               | None \<Rightarrow>
                   let db1 = setSigners t i sigs db in
                   (case validatePolicyDocument (Some (po_content r)) of
                      Inl path \<Rightarrow> Inl (Rule_invalid path)
                    | Inr _ \<Rightarrow>
                        if int (length sigs) \<ge> po_quorum_required r
                        then map_sum id (policy_audit t actor ''policy.activate'' i) (activate env t r now db1)
                        else Inr (policy_audit t actor ''policy.sign'' i db1))))
      | _ \<Rightarrow> Inl (Signature_invalid []))"

end
