(* ===== verification/Policy_Reputation.thy ===== *)
theory Policy_Reputation
  imports Policy_Typed Gate
begin

text \<open>
  Reputation as a threshold input of policy (services/policy/src/reputation.ts): the envelope a
  rule may carry, and the adjustment of a decision, which only ever tightens it. The outcomes
  of the VM are ordered by strictness.
\<close>

section \<open>Outcomes by strictness\<close>

definition outcome_name :: "outcome \<Rightarrow> string" where
  "outcome_name oc = (case oc of Allow \<Rightarrow> ''allow'' | Confirm \<Rightarrow> ''confirm'' | Reject \<Rightarrow> ''reject'')"

definition strictness :: "outcome \<Rightarrow> nat" where
  "strictness oc = (case oc of Allow \<Rightarrow> 0 | Confirm \<Rightarrow> 1 | Reject \<Rightarrow> 2)"

lemma strictness_inject [simp]: "strictness a = strictness b \<longleftrightarrow> a = b"
  by (cases a; cases b) (simp_all add: strictness_def)

instantiation outcome :: linorder
begin

definition less_eq_outcome :: "outcome \<Rightarrow> outcome \<Rightarrow> bool" where
  "less_eq_outcome a b \<longleftrightarrow> strictness a \<le> strictness b"

definition less_outcome :: "outcome \<Rightarrow> outcome \<Rightarrow> bool" where
  "less_outcome a b \<longleftrightarrow> strictness a < strictness b"

instance
  by standard (auto simp: less_eq_outcome_def less_outcome_def dest: antisym)

end

lemma outcome_le [simp]: "Allow \<le> oc" "Confirm \<le> oc \<longleftrightarrow> oc \<noteq> Allow" "Reject \<le> oc \<longleftrightarrow> oc = Reject"
  by (cases oc; simp add: less_eq_outcome_def strictness_def)+

lemma outcome_name_inject [simp]: "outcome_name a = outcome_name b \<longleftrightarrow> a = b"
  by (cases a; cases b) (simp_all add: outcome_name_def)

section \<open>The envelope\<close>

record reputation_score =
  rs_score :: rat
  rs_source :: "string option"

record reputation_below =
  rb_add_approvers :: "string list option"
  rb_amount_cap :: "gate_amount option"
  rb_require_verification_above :: "gate_amount option"

record reputation_envelope =
  rp_min_score :: rat
  rp_below :: "reputation_below option"

definition read_bound :: "json option \<Rightarrow> gate_amount option" where
  "read_bound v = (case v of
     Some (JObj o1) \<Rightarrow> (case (map_of o1 ''currency'', map_of o1 ''value'') of
         (Some (JStr c), Some (JStr x)) \<Rightarrow> Some \<lparr>ga_currency = c, ga_value = x\<rparr> | _ \<Rightarrow> None)
   | _ \<Rightarrow> None)"

text \<open>\<open>below\<close> is an object or an array, on which every field is \<open>undefined\<close>.\<close>

definition read_below :: "json option \<Rightarrow> reputation_below option" where
  "read_below v = (case v of
     Some (JObj b) \<Rightarrow> Some \<lparr>
       rb_add_approvers = (case map_of b ''add_approvers'' of
           Some (JArr xs) \<Rightarrow> Some (array_strings (JArr xs)) | _ \<Rightarrow> None),
       rb_amount_cap = read_bound (map_of b ''amount_cap''),
       rb_require_verification_above = read_bound (map_of b ''require_verification_above'')\<rparr>
   | Some (JArr _) \<Rightarrow> Some \<lparr>rb_add_approvers = None, rb_amount_cap = None, rb_require_verification_above = None\<rparr>
   | _ \<Rightarrow> None)"

definition readReputationEnvelope :: "json option \<Rightarrow> reputation_envelope option" where
  "readReputationEnvelope rule = (case rule of
     Some (JObj r) \<Rightarrow> (case map_of r ''reputation'' of
         Some (JObj rep) \<Rightarrow> (case map_of rep ''min_score'' of
             Some (JNum q) \<Rightarrow> Some \<lparr>rp_min_score = q, rp_below = read_below (map_of rep ''below'')\<rparr>
           | _ \<Rightarrow> None)
       | _ \<Rightarrow> None)
   | _ \<Rightarrow> None)"

section \<open>applyReputationAdjustment\<close>

text \<open>A JavaScript set in insertion order: \<open>set.add(x)\<close>.\<close>

definition set_add :: "'a \<Rightarrow> 'a list \<Rightarrow> 'a list" where
  "set_add x s = (if x \<in> set s then s else s @ [x])"

definition new_Set :: "'a list \<Rightarrow> 'a list" where
  "new_Set xs = fold set_add xs []"

lemma set_set_add [simp]: "set (set_add x s) = insert x (set s)"
  by (auto simp: set_add_def)

lemma set_fold_add [simp]: "set (fold set_add xs s) = set s \<union> set xs"
  by (induction xs arbitrary: s) auto

lemma set_new_Set [simp]: "set (new_Set xs) = set xs"
  by (simp add: new_Set_def)

text \<open>The three tightening steps: the new value and what it adds to \<open>applied\<close>.\<close>

definition add_approvers :: "string list option \<Rightarrow> string list \<Rightarrow> string \<Rightarrow> string list \<times> string \<times> string list" where
  "add_approvers extra required oc = (case extra of
     None \<Rightarrow> (required, oc, [])
   | Some [] \<Rightarrow> (required, oc, [])
   | Some roles \<Rightarrow>
       let base = new_Set required; all = fold set_add roles base;
           grown = (length all \<noteq> length base);
           required' = (if grown then all else required);
           escalate = (required' \<noteq> [] \<and> oc = ''allow'')
       in (required', if escalate then ''confirm'' else oc,
           (if grown then [''add_approvers''] else []) @ (if escalate then [''escalate_allow_to_confirm''] else [])))"

definition tighten_bound :: "string \<Rightarrow> string \<Rightarrow> gate_amount option \<Rightarrow> gate_amount option \<Rightarrow> gate_amount option \<times> string list" where
  "tighten_bound imposed lowered cap base = (case cap of
     None \<Rightarrow> (base, [])
   | Some c \<Rightarrow> (case base of
       None \<Rightarrow> (Some c, [imposed])
     | Some b \<Rightarrow>
         if ga_currency b = ga_currency c \<and> compareDecimal_vm (ga_value c) (ga_value b) < 0
         then (Some c, [lowered]) else (Some b, [])))"

definition adjustment_trace :: "reputation_score \<Rightarrow> rat \<Rightarrow> string list \<Rightarrow> json" where
  "adjustment_trace rep min_score applied = JObj [(''reputation_adjustment'', JObj
     ([(''score'', JNum (rs_score rep)), (''min_score'', JNum min_score)] @
      (case rs_source rep of None \<Rightarrow> [] | Some s \<Rightarrow> [(''source'', JStr s)]) @
      [(''applied'', JArr (map JStr applied))]))]"

definition applyReputationAdjustment ::
  "gate_decision \<Rightarrow> reputation_score option \<Rightarrow> reputation_envelope option \<Rightarrow> gate_decision" where
  "applyReputationAdjustment decision reputation envelope = (case (reputation, envelope) of
     (Some rep, Some env) \<Rightarrow>
       if rs_score rep \<ge> rp_min_score env then decision
       else (case rp_below env of None \<Rightarrow> decision | Some below \<Rightarrow>
         let (required, oc, a1) = add_approvers (rb_add_approvers below) (gd_required_approvers decision) (gd_outcome decision);
             (upper, a2) = tighten_bound ''amount_cap_imposed'' ''amount_cap_lowered''
                (rb_amount_cap below) (gd_amount_upper_bound decision);
             (verification, a3) = tighten_bound ''verification_imposed'' ''verification_lowered''
                (rb_require_verification_above below) (gd_counterparty_verification_threshold decision);
             applied = a1 @ a2 @ a3
         in if applied = [] then decision
            else decision\<lparr>gd_outcome := oc, gd_required_approvers := required,
              gd_amount_upper_bound := upper, gd_counterparty_verification_threshold := verification,
              gd_trace := gd_trace decision @ [adjustment_trace rep (rp_min_score env) applied]\<rparr>)
   | _ \<Rightarrow> decision)"

section \<open>Tightening only\<close>

text \<open>A bound that is the base bound, or lower in the same currency, or new.\<close>

definition bound_tightens :: "gate_amount option \<Rightarrow> gate_amount option \<Rightarrow> bool" where
  "bound_tightens base final \<longleftrightarrow> final = base \<or> (base = None \<and> final \<noteq> None) \<or>
     (\<exists>b f. base = Some b \<and> final = Some f \<and> ga_currency f = ga_currency b \<and>
        compareDecimal_vm (ga_value f) (ga_value b) < 0)"

definition decision_tightens :: "gate_decision \<Rightarrow> gate_decision \<Rightarrow> bool" where
  "decision_tightens base final \<longleftrightarrow>
     set (gd_required_approvers base) \<subseteq> set (gd_required_approvers final) \<and>
     (\<forall>oc. gd_outcome base = outcome_name oc \<longrightarrow> (\<exists>oc'. gd_outcome final = outcome_name oc' \<and> oc \<le> oc' \<and>
        (oc' = Allow \<longrightarrow> gd_required_approvers final = gd_required_approvers base))) \<and>
     bound_tightens (gd_amount_upper_bound base) (gd_amount_upper_bound final) \<and>
     bound_tightens (gd_counterparty_verification_threshold base) (gd_counterparty_verification_threshold final) \<and>
     final = base\<lparr>gd_outcome := gd_outcome final, gd_required_approvers := gd_required_approvers final,
       gd_amount_upper_bound := gd_amount_upper_bound final,
       gd_counterparty_verification_threshold := gd_counterparty_verification_threshold final,
       gd_trace := gd_trace final\<rparr>"

lemma tighten_bound_tightens: "tighten_bound i l cap base = (f, a) \<Longrightarrow> bound_tightens base f"
  by (auto simp: tighten_bound_def bound_tightens_def split: option.splits if_splits)

lemma add_approvers_tightens:
  assumes "add_approvers extra required oc = (required', oc', a)"
  shows "set required \<subseteq> set required'" "oc' = oc \<or> (oc = ''allow'' \<and> oc' = ''confirm'')"
    "oc' = ''allow'' \<Longrightarrow> required' = required"
proof -
  have "required' = required \<and> oc' = oc \<and> (extra = None \<or> extra = Some []) \<or>
    (\<exists>all. all \<noteq> [] \<and> set required \<subseteq> set all \<and>
       required' = (if length all \<noteq> length (new_Set required) then all else required) \<and>
       oc' = (if required' \<noteq> [] \<and> oc = ''allow'' then ''confirm'' else oc) \<and>
       (length all = length (new_Set required) \<longrightarrow> required = [] \<longrightarrow> False))"
  proof (cases extra)
    case (Some roles)
    show ?thesis
    proof (cases roles)
      case (Cons role rs)
      define all where "all = fold set_add roles (new_Set required)"
      have "set all = set required \<union> set roles" by (simp add: all_def)
      with Cons have "all \<noteq> []" "set required \<subseteq> set all" "required = [] \<Longrightarrow> length all \<noteq> length (new_Set required)"
        by (auto simp: new_Set_def)
      moreover have "required' = (if length all \<noteq> length (new_Set required) then all else required)"
        "oc' = (if required' \<noteq> [] \<and> oc = ''allow'' then ''confirm'' else oc)"
        using assms by (auto simp: add_approvers_def Some Cons all_def Let_def simp del: fold_simps)
      ultimately show ?thesis by blast
    qed (use assms in \<open>simp add: add_approvers_def Some\<close>)
  qed (use assms in \<open>simp add: add_approvers_def\<close>)
  then show "set required \<subseteq> set required'" "oc' = oc \<or> (oc = ''allow'' \<and> oc' = ''confirm'')"
    "oc' = ''allow'' \<Longrightarrow> required' = required"
    by (auto split: if_splits)
qed

lemma decision_tightens_refl: "decision_tightens d d"
  by (auto simp: decision_tightens_def bound_tightens_def)

lemma tightened:
  assumes "add_approvers extra (gd_required_approvers d) (gd_outcome d) = (required, oc, a)"
    and "bound_tightens (gd_amount_upper_bound d) upper"
    and "bound_tightens (gd_counterparty_verification_threshold d) verification"
  shows "decision_tightens d (d\<lparr>gd_outcome := oc, gd_required_approvers := required,
    gd_amount_upper_bound := upper, gd_counterparty_verification_threshold := verification, gd_trace := t\<rparr>)"
proof -
  note a = add_approvers_tightens [OF assms(1)]
  have "\<exists>oc'. oc = outcome_name oc' \<and> o1 \<le> oc' \<and> (oc' = Allow \<longrightarrow> required = gd_required_approvers d)"
    if "gd_outcome d = outcome_name o1" for o1
  proof (cases "oc = gd_outcome d")
    case True
    with that a(3) show ?thesis by (intro exI [of _ o1]) (auto simp: outcome_name_def)
  next
    case False
    with a(2) that have "o1 = Allow" "oc = outcome_name Confirm"
      by (cases o1; simp add: outcome_name_def)+
    then show ?thesis by (intro exI [of _ Confirm]) simp
  qed
  with a(1) assms(2,3) show ?thesis by (simp add: decision_tightens_def)
qed

lemma adjustment_tightens: "decision_tightens d (applyReputationAdjustment d rep env)"
  unfolding applyReputationAdjustment_def
  by (auto simp: decision_tightens_refl Let_def split: option.split prod.split
      intro!: tightened intro: tighten_bound_tightens)

section \<open>The claim\<close>

text \<open>
  A reputation adjustment only ever tightens a decision: whatever the envelope
  and the score, every required approver of the decision stays required; the outcome never becomes
  less strict in the order allow, confirm, reject, and it stays allow only when the approvers are
  unchanged; each of the two bounds is the bound of the decision, a new one where there was none,
  or a lower one in the same currency; and no other field of the decision changes.
\<close>

theorem reputation_only_tightens: "decision_tightens d (applyReputationAdjustment d rep env)"
  by (rule adjustment_tightens)

end
