(* ===== verification/Policy_Service.thy ===== *)
theory Policy_Service
  imports Policy_Store Policy_Reputation
begin

text \<open>
  The policy service the gate calls (services/policy/src/service.ts) over the spend counters
  (spend-counters.ts): \<open>evaluateForGate\<close> reads the active policy and the windows it names, runs
  the VM, tightens by reputation, and writes the decision row and its audit event;
  \<open>recordAgentSpend\<close> adds a settled payment to the counters of every window the policy names.
\<close>

section \<open>Clock\<close>

text \<open>The UTC getters of \<open>Date\<close> on milliseconds since the epoch (proleptic Gregorian calendar).\<close>

definition utc_of_ms :: "int \<Rightarrow> utc_time" where
  "utc_of_ms ms =
     (let days = ms div 86400000; z = days + 719468; era = z div 146097; doe = z mod 146097;
          yoe = (doe - doe div 1460 + doe div 36524 - doe div 146096) div 365;
          doy = doe - (365 * yoe + yoe div 4 - yoe div 100); mp = (5 * doy + 2) div 153
      in \<lparr>utc_minutes = (ms div 60000) mod 60, utc_hours = (ms div 3600000) mod 24,
          utc_date = doy - (153 * mp + 2) div 5 + 1,
          utc_month = (if mp < 10 then mp + 2 else mp - 10), utc_day = (days + 4) mod 7\<rparr>)"

definition WINDOW_MS :: "string \<Rightarrow> int option" where
  "WINDOW_MS window = map_of [(''1h'', 3600000), (''24h'', 86400000), (''7d'', 7 * 86400000),
     (''30d'', 30 * 86400000)] window"

definition bucketStart :: "string \<Rightarrow> int \<Rightarrow> int" where
  "bucketStart window now = (case WINDOW_MS window of None \<Rightarrow> 0 | Some ms \<Rightarrow> (now div ms) * ms)"

section \<open>Tables\<close>

text \<open>\<open>policy_spend_counters\<close>; \<open>amount\<close> is the text of a \<open>NUMERIC(28, 8)\<close>. Nothing reads the row's id.\<close>

record counter_row =
  sc_tenant_id :: string
  sc_agent_id :: string
  sc_window :: string
  sc_bucket_start :: int
  sc_amount :: string
  sc_tx_count :: int
  sc_currency :: string

record decision_row =
  pd_id :: string
  pd_tenant_id :: string
  pd_policy_id :: string
  pd_policy_version :: int
  pd_subject_type :: string
  pd_subject_id :: string
  pd_outcome :: string
  pd_matched_rule_id :: "string option"
  pd_required_approvers :: "string list"
  pd_ledger_snapshot_hash :: string
  pd_trace :: "json list"

record policy_world =
  pw_db :: policy_db
  pw_counters :: "counter_row list"
  pw_decisions :: "decision_row list"
  pw_audit :: "audit_event list"

datatype service_error =
    Policy_failed policy_error
  | Evaluation_threw
  | Database_refused
  | Reputation_failed string

text \<open>
  What the service calls: the policy store's environment; Postgres' cast of a literal to
  \<open>NUMERIC(28, 8)\<close> and its sum, which can refuse; the reputation source, when it is wired.
\<close>

record service_env =
  se_policy :: policy_env
  se_cast :: "string \<Rightarrow> string option"
  se_plus :: "string \<Rightarrow> string \<Rightarrow> string option"
  se_resolveReputation :: "(string \<Rightarrow> string \<Rightarrow> string + reputation_score option) option"

section \<open>spend-counters.ts\<close>

definition same_counter :: "string \<Rightarrow> string \<Rightarrow> string \<Rightarrow> string \<Rightarrow> int \<Rightarrow> counter_row \<Rightarrow> bool" where
  "same_counter t agent window currency now r \<longleftrightarrow> sc_tenant_id r = t \<and> sc_agent_id r = agent \<and>
     sc_window r = window \<and> sc_currency r = currency \<and> sc_bucket_start r = bucketStart window now"

definition readSpendWindow :: "string \<Rightarrow> string \<Rightarrow> string \<Rightarrow> string \<Rightarrow> int \<Rightarrow> counter_row list \<Rightarrow> string" where
  "readSpendWindow t agent window currency now cs =
     (case find (same_counter t agent window currency now) cs of None \<Rightarrow> ''0'' | Some r \<Rightarrow> sc_amount r)"

definition readTxCountWindow :: "string \<Rightarrow> string \<Rightarrow> string \<Rightarrow> int \<Rightarrow> counter_row list \<Rightarrow> rat" where
  "readTxCountWindow t agent window now cs = of_int (sum_list (map sc_tx_count
     (filter (\<lambda>r. sc_tenant_id r = t \<and> sc_agent_id r = agent \<and> sc_window r = window \<and>
        sc_bucket_start r = bucketStart window now) cs)))"

definition incrementSpendCounter ::
  "service_env \<Rightarrow> string \<Rightarrow> string \<Rightarrow> string \<Rightarrow> string \<Rightarrow> string \<Rightarrow> int \<Rightarrow> counter_row list
     \<Rightarrow> counter_row list option" where
  "incrementSpendCounter env t agent window currency amount now cs =
     (case se_cast env amount of
        None \<Rightarrow> None
      | Some x \<Rightarrow> (case find (same_counter t agent window currency now) cs of
          None \<Rightarrow> Some (cs @ [\<lparr>sc_tenant_id = t, sc_agent_id = agent, sc_window = window,
            sc_bucket_start = bucketStart window now, sc_amount = x, sc_tx_count = 1, sc_currency = currency\<rparr>])
        | Some r \<Rightarrow> (case se_plus env (sc_amount r) x of
            None \<Rightarrow> None
          | Some y \<Rightarrow>
              if 2 ^ 31 \<le> sc_tx_count r + 1 then None
              else Some (map (\<lambda>q. if same_counter t agent window currency now q
                then q\<lparr>sc_amount := y, sc_tx_count := sc_tx_count q + 1\<rparr> else q) cs))))"

section \<open>The windows of a policy\<close>

definition collect_spend ::
  "(string \<times> string) list \<times> string list \<Rightarrow> policy_rule \<Rightarrow> (string \<times> string) list \<times> string list" where
  "collect_spend = (\<lambda>(out, seen) rule. case agent_spend_in_window (rl_when rule) of
     None \<Rightarrow> (out, seen)
   | Some c \<Rightarrow>
       let key = sw_window c @ '':'' @ am_currency (sw_lte c) in
       if key \<in> set seen then (out, seen)
       else (out @ [(sw_window c, am_currency (sw_lte c))], key # seen))"

definition collectSpendWindows :: "policy_document \<Rightarrow> (string \<times> string) list" where
  "collectSpendWindows doc = fst (foldl collect_spend ([], []) (pd_rules doc))"

definition collectTxWindows :: "policy_document \<Rightarrow> string list" where
  "collectTxWindows doc = new_Set (concat (map (\<lambda>rule.
     case agent_tx_count_in_window (rl_when rule) of None \<Rightarrow> [] | Some c \<Rightarrow> [tw_window c]) (pd_rules doc)))"

section \<open>recordAgentSpend\<close>

fun increment_all ::
  "service_env \<Rightarrow> string \<Rightarrow> string \<Rightarrow> string \<Rightarrow> string \<Rightarrow> int \<Rightarrow> string list \<Rightarrow> counter_row list \<Rightarrow> counter_row list option" where
  "increment_all env t agent currency amount now [] cs = Some cs"
| "increment_all env t agent currency amount now (w # ws) cs =
     (case incrementSpendCounter env t agent w currency amount now cs of
        None \<Rightarrow> None
      | Some cs' \<Rightarrow> increment_all env t agent currency amount now ws cs')"

definition recordAgentSpend ::
  "service_env \<Rightarrow> string \<Rightarrow> string \<Rightarrow> string \<Rightarrow> string \<Rightarrow> int \<Rightarrow> policy_world \<Rightarrow> service_error + policy_world" where
  "recordAgentSpend env t agent amount currency now w =
     (case getActive (se_policy env) t (pw_db w) of
        Inl e \<Rightarrow> Inl (Policy_failed e)
      | Inr None \<Rightarrow> Inr w
      | Inr (Some r) \<Rightarrow> (case read_document False (po_content r) of
          None \<Rightarrow> Inl (Policy_failed Type_error)
        | Some doc \<Rightarrow>
            (case increment_all env t agent currency amount now
                (new_Set (map fst (collectSpendWindows doc) @ collectTxWindows doc)) (pw_counters w) of
               None \<Rightarrow> Inl Database_refused
             | Some cs \<Rightarrow> Inr (w\<lparr>pw_counters := cs\<rparr>))))"

section \<open>evaluateForGate\<close>

definition when_key_name :: "when_key \<Rightarrow> string" where
  "when_key_name k = (case k of
     K_counterparty_in \<Rightarrow> ''counterparty.in'' | K_counterparty_not_in \<Rightarrow> ''counterparty.not_in''
   | K_amount_lte \<Rightarrow> ''amount.lte'' | K_amount_gt \<Rightarrow> ''amount.gt'' | K_agent_role \<Rightarrow> ''agent.role''
   | K_time_window \<Rightarrow> ''time_window'' | K_agent_id \<Rightarrow> ''agent.id'' | K_tenant_category \<Rightarrow> ''tenant.category''
   | K_action_in \<Rightarrow> ''action.in'' | K_action_not_in \<Rightarrow> ''action.not_in'' | K_behaviorHash \<Rightarrow> ''agent.behaviorHash''
   | K_spend_in_window \<Rightarrow> ''agent.spend_in_window'' | K_tx_count_in_window \<Rightarrow> ''agent.tx_count_in_window''
   | K_confidence_gte \<Rightarrow> ''agent.confidence.gte'' | K_evidence_score_gte \<Rightarrow> ''agent.evidence_score.gte''
   | K_risk_level_lte \<Rightarrow> ''agent.risk_level.lte'')"

definition check_text :: "(rat \<Rightarrow> string) \<Rightarrow> check_detail \<Rightarrow> string" where
  "check_text sn d = (case d of Text s \<Rightarrow> s | Number n \<Rightarrow> sn n | Window_number w n \<Rightarrow> w @ ''<='' @ sn n)"

definition trace_json :: "(rat \<Rightarrow> string) \<Rightarrow> decision_trace \<Rightarrow> json" where
  "trace_json sn t = JObj [(''rule_id'', JStr (dt_rule_id t)), (''matched'', JBool (dt_matched t)),
     (''checks'', JArr (map (\<lambda>c. JObj [(''key'', JStr (when_key_name (rc_key c))),
        (''passed'', JBool (rc_passed c)), (''detail'', JStr (check_text sn (rc_detail c)))]) (dt_checks t)))]"

definition intentToApplyTo :: "string \<Rightarrow> apply_to" where
  "intentToApplyTo actionType =
     (if actionType = ''ach_inbound'' then Inbound_payment
      else if actionType = ''onchain_transfer'' then Onchain_tx else Outbound_payment)"

definition isRiskLevel :: "string option \<Rightarrow> bool" where
  "isRiskLevel v \<longleftrightarrow> (case v of None \<Rightarrow> False | Some s \<Rightarrow> s \<in> set [''low'', ''medium'', ''high'', ''critical''])"

definition sha256Intent :: "policy_env \<Rightarrow> gate_intent \<Rightarrow> string" where
  "sha256Intent env intent = pe_sha256 env (jprint (pe_number env) (JObj
     ([(''id'', JStr (gi_id intent)), (''amount'', JStr (gi_amount intent)), (''currency'', JStr (gi_currency intent)),
       (''source_account_id'', JStr (gi_source_account_id intent)),
       (''destination_counterparty_id'', JStr (gi_destination_counterparty_id intent)),
       (''evidence_ids'', JArr (map JStr (sort_strings (gi_evidence_ids intent)))),
       (''confidence'', or_else (map_option JNum (gi_confidence intent)) JNull),
       (''evidence_score'', or_else (map_option JNum (gi_evidence_score intent)) JNull),
       (''risk_level'', or_else (map_option JStr (gi_risk_level intent)) JNull)] @
      (case gi_counterparty_trust_status intent of None \<Rightarrow> []
       | Some s \<Rightarrow> [(''counterparty_trust_status'', JStr s)]))))"

definition findRule :: "policy_document \<Rightarrow> string \<Rightarrow> policy_rule option" where
  "findRule policy ruleId = find (\<lambda>r. rl_id r = ruleId) (pd_rules policy)"

text \<open>The same rule as the object it is, for the fields the type does not have.\<close>

definition findRule_json :: "json \<Rightarrow> string \<Rightarrow> json option" where
  "findRule_json content ruleId = (case content of
     JObj d \<Rightarrow> (case map_of d ''rules'' of
         Some (JArr rs) \<Rightarrow> find (\<lambda>v. case v of JObj r \<Rightarrow> map_of r ''id'' = Some (JStr ruleId) | _ \<Rightarrow> False) rs
       | _ \<Rightarrow> None)
   | _ \<Rightarrow> None)"

definition gate_amount_of :: "amount_literal \<Rightarrow> gate_amount" where
  "gate_amount_of m = \<lparr>ga_currency = am_currency m, ga_value = am_value m\<rparr>"

text \<open>
  The aggregates of the windows: \<open>s[w.window] = \<dots>\<close> in the order of the pairs, so a later pair
  with the same window replaces an earlier one.
\<close>

definition load_spend ::
  "string \<Rightarrow> string \<Rightarrow> int \<Rightarrow> counter_row list \<Rightarrow> (string \<times> string) list \<Rightarrow> (string \<rightharpoonup> amount_literal)" where
  "load_spend t agent now cs ws = foldl (\<lambda>s (window, currency). s(window \<mapsto>
     \<lparr>am_currency = currency, am_value = readSpendWindow t agent window currency now cs\<rparr>)) Map.empty ws"

definition load_tx :: "string \<Rightarrow> string \<Rightarrow> int \<Rightarrow> counter_row list \<Rightarrow> string list \<Rightarrow> (string \<rightharpoonup> rat)" where
  "load_tx t agent now cs ws =
     foldl (\<lambda>s w. s(w \<mapsto> readTxCountWindow t agent w now cs)) Map.empty ws"

definition gate_action ::
  "string \<Rightarrow> int \<Rightarrow> policy_document \<Rightarrow> counter_row list \<Rightarrow> gate_intent \<Rightarrow> action" where
  "gate_action t now doc cs intent =
     (let spendWindows = collectSpendWindows doc; txWindows = collectTxWindows doc;
          agent = (if spendWindows \<noteq> [] \<or> txWindows \<noteq> [] then gi_created_by_agent_id intent else None)
      in \<lparr>ac_kind = intentToApplyTo (gi_action_type intent),
          ac_counterparty_id = Some (gi_destination_counterparty_id intent),
          ac_amount = Some \<lparr>am_currency = gi_currency intent, am_value = gi_amount intent\<rparr>,
          ac_agent_role = None, ac_timestamp = utc_of_ms now, ac_agent_id = gi_created_by_agent_id intent,
          ac_tenant_category = Some Business, ac_action_id = Undefined, ac_behavior_hash = None,
          ac_spend_in_window = map_option (\<lambda>a. load_spend t a now cs spendWindows) agent,
          ac_tx_count_in_window = map_option (\<lambda>a. load_tx t a now cs txWindows) agent,
          ac_confidence = gi_confidence intent, ac_evidence_score = gi_evidence_score intent,
          ac_risk_level = (if isRiskLevel (gi_risk_level intent) then gi_risk_level intent else None),
          ac_counterparty_trust_status =
            (if isCounterpartyTrustStatus (gi_counterparty_trust_status intent)
             then gi_counterparty_trust_status intent else None)\<rparr>)"

definition base_decision ::
  "policy_env \<Rightarrow> string \<Rightarrow> policy_row \<Rightarrow> policy_document \<Rightarrow> gate_intent \<Rightarrow> decision \<Rightarrow> gate_decision" where
  "base_decision env i active doc intent d =
     (let rule = Option.bind (de_matched_rule_id d) (findRule doc);
          cap = (\<lambda>f. map_option (\<lambda>m. amount_json (gate_amount_of m)) (Option.bind rule f))
      in \<lparr>gd_id = i, gd_outcome = outcome_name (de_outcome d), gd_matched_rule_id = de_matched_rule_id d,
          gd_required_approvers = de_required_approvers d, gd_ledger_snapshot_hash = sha256Intent env intent,
          gd_trace = map (trace_json (pe_number env)) (de_trace d),
          gd_required_evidence_kinds = Some (or_else (Option.bind rule rl_required_evidence_kinds) []),
          gd_counterparty_verification_threshold = None,
          gd_amount_upper_bound = map_option gate_amount_of (Option.bind rule (\<lambda>r. amount_lte (rl_when r))),
          gd_policy_version = Some (po_version active),
          gd_onchain_settlement_permitted = Option.bind rule rl_onchain_settlement_permitted,
          gd_micropayment_window_cap = None,
          gd_x402_autonomous_max_amount = cap rl_x402_autonomous_max_amount,
          gd_ach_autonomous_max_amount = cap rl_ach_autonomous_max_amount,
          gd_card_autonomous_max_amount = cap rl_card_autonomous_max_amount\<rparr>)"

definition final_decision ::
  "service_env \<Rightarrow> string \<Rightarrow> json \<Rightarrow> gate_intent \<Rightarrow> gate_decision \<Rightarrow> service_error + gate_decision" where
  "final_decision env t content intent base =
     (case (se_resolveReputation env,
            readReputationEnvelope (Option.bind (gd_matched_rule_id base) (findRule_json content))) of
        (Some resolve, Some envelope) \<Rightarrow>
          (case resolve t (gi_destination_counterparty_id intent) of
             Inl e \<Rightarrow> Inl (Reputation_failed e)
           | Inr rep \<Rightarrow> Inr (applyReputationAdjustment base rep (Some envelope)))
      | _ \<Rightarrow> Inr base)"

definition decision_insert :: "string \<Rightarrow> policy_row \<Rightarrow> gate_intent \<Rightarrow> gate_decision \<Rightarrow> decision_row" where
  "decision_insert t active intent d = \<lparr>pd_id = gd_id d, pd_tenant_id = t, pd_policy_id = po_id active,
     pd_policy_version = po_version active, pd_subject_type = ''payment_intent'', pd_subject_id = gi_id intent,
     pd_outcome = gd_outcome d, pd_matched_rule_id = gd_matched_rule_id d,
     pd_required_approvers = gd_required_approvers d, pd_ledger_snapshot_hash = gd_ledger_snapshot_hash d,
     pd_trace = gd_trace d\<rparr>"

definition apply_to_name :: "apply_to \<Rightarrow> string" where
  "apply_to_name k = (case k of Outbound_payment \<Rightarrow> ''outbound_payment'' | Inbound_payment \<Rightarrow> ''inbound_payment''
     | Ledger_write \<Rightarrow> ''ledger_write'' | Onchain_tx \<Rightarrow> ''onchain_tx'' | Agent_action \<Rightarrow> ''agent_action'' | Any \<Rightarrow> ''any'')"

definition evaluate_event ::
  "string \<Rightarrow> string \<Rightarrow> policy_row \<Rightarrow> gate_intent \<Rightarrow> gate_decision \<Rightarrow> gate_decision \<Rightarrow> audit_event" where
  "evaluate_event t actor active intent base d = \<lparr>au_tenantId = t, au_layer = ''policy'', au_actor = actor,
     au_action = ''policy.evaluate'', au_policyDecisionId = Some (gd_id d), au_policyCheckId = gd_matched_rule_id d,
     au_outcome = Some (gd_outcome d),
     au_inputs = [(''subject_type'', JStr ''payment_intent''), (''subject_id'', JStr (gi_id intent)),
       (''action_kind'', JStr (apply_to_name (intentToApplyTo (gi_action_type intent)))),
       (''policy_version'', JNum (of_int (po_version active)))],
     au_outputs = [(''decision_id'', JStr (gd_id d)), (''outcome'', JStr (gd_outcome d)),
       (''matched_rule_id'', or_else (map_option JStr (gd_matched_rule_id d)) JNull),
       (''reputation_adjusted'', JBool (d \<noteq> base))], au_gate_checks = []\<rparr>"

text \<open>
  One reading of the clock \<open>now\<close> stands for the counters' and the action's. A document whose
  unchecked fields have other types than the declared ones is outside the model: \<open>Type_error\<close>.
\<close>

definition evaluateForGate ::
  "service_env \<Rightarrow> string \<Rightarrow> string \<Rightarrow> string \<Rightarrow> int \<Rightarrow> gate_intent \<Rightarrow> policy_world
     \<Rightarrow> service_error + gate_decision \<times> policy_world" where
  "evaluateForGate env t actor i now intent w =
     (case getActive (se_policy env) t (pw_db w) of
        Inl e \<Rightarrow> Inl (Policy_failed e)
      | Inr None \<Rightarrow> Inl (Policy_failed Policy_not_found)
      | Inr (Some active) \<Rightarrow> (case read_document True (po_content active) of
          None \<Rightarrow> Inl (Policy_failed Type_error)
        | Some doc \<Rightarrow> (case evaluate doc (gate_action t now doc (pw_counters w) intent) of
            None \<Rightarrow> Inl Evaluation_threw
          | Some d \<Rightarrow>
              let base = base_decision (se_policy env) i active doc intent d in
              (case final_decision env t (po_content active) intent base of
                 Inl e \<Rightarrow> Inl e
               | Inr final \<Rightarrow> Inr (final, w\<lparr>pw_decisions := pw_decisions w @ [decision_insert t active intent final],
                   pw_audit := pw_audit w @ [evaluate_event t actor active intent base final]\<rparr>)))))"

definition getActiveDocument :: "service_env \<Rightarrow> string \<Rightarrow> policy_world \<Rightarrow> service_error + json option" where
  "getActiveDocument env t w = (case getActive (se_policy env) t (pw_db w) of
     Inl e \<Rightarrow> Inl (Policy_failed e) | Inr r \<Rightarrow> Inr (map_option po_content r))"

end
