(* ===== verification/Policy_Activation.thy ===== *)
theory Policy_Activation
  imports Policy_Store Number_Text
begin

text \<open>
  The policies table over any sequence of compose and sign requests: which rows it can hold,
  and what an active row proves (the document was validated, passed the lint, hashes to
  the stored hash, and was signed by a quorum of distinct authorized signers).
\<close>

section \<open>The invariant\<close>

definition quorum_signed :: "policy_env \<Rightarrow> policy_row \<Rightarrow> bool" where
  "quorum_signed env r \<longleftrightarrow> (\<exists>sigs. po_signers r = Some sigs \<and>
     po_quorum_required r \<le> int (length sigs) \<and> distinct (map (\<lambda>s. to_lower (fst s)) sigs) \<and>
     (\<forall>(address, signature) \<in> set sigs.
        pe_verify env (po_tenant_id r) (po_version r) (po_content_hash r) address signature \<and>
        pe_isAuthorizedSigner env (po_tenant_id r) address))"

definition lint_passed :: "policy_env \<Rightarrow> policy_row \<Rightarrow> bool" where
  "lint_passed env r \<longleftrightarrow> (\<exists>doc. read_document False (po_content r) = Some doc \<and> document_wf doc \<and>
     ag_blocking (runActivationLintGate doc (pe_lintReject env \<or> pe_tenantKind env (po_tenant_id r) = Some ''production'')
       (pe_confidenceFloorReject env \<or> pe_tenantKind env (po_tenant_id r) = Some ''production'')) = [])"

text \<open>What every row satisfies on its own.\<close>

definition policy_ok :: "policy_env \<Rightarrow> policy_row \<Rightarrow> bool" where
  "policy_ok env r \<longleftrightarrow>
     validatePolicyDocument (Some (po_content r)) = Inr (po_content r) \<and>
     po_content_hash r = contentHashHex env (po_content r) \<and> 1 \<le> po_quorum_required r \<and>
     po_state r \<in> {Pending_signatures, Active, Deactivated} \<and>
     (po_state r = Active \<or> po_state r = Deactivated \<longrightarrow> quorum_signed env r \<and> lint_passed env r)"

definition db_ok :: "policy_env \<Rightarrow> policy_db \<Rightarrow> bool" where
  "db_ok env db \<longleftrightarrow>
     (\<forall>r \<in> set (pb_policies db). policy_ok env r) \<and> distinct (map po_id (pb_policies db)) \<and>
     (\<forall>t. length (filter (is_active t) (pb_policies db)) \<le> 1)"

inductive policies_reach :: "policy_env \<Rightarrow> policy_db \<Rightarrow> bool" for env where
  start: "policies_reach env \<lparr>pb_policies = [], pb_audit = a\<rparr>"
| compose: "policies_reach env db \<Longrightarrow> compose_policy env t actor i now content quorum db = Inr db' \<Longrightarrow>
     policies_reach env db'"
| sign: "policies_reach env db \<Longrightarrow> sign_policy env t actor now i sigs db = Inr db' \<Longrightarrow> policies_reach env db'"

section \<open>Updates of the table\<close>

lemma policies_update [simp]:
  "pb_policies (update_policies p f db) = map (\<lambda>r. if p r then f r else r) (pb_policies db)"
  by (simp add: update_policies_def)

lemma policies_audit [simp]: "pb_policies (policy_audit t actor act i db) = pb_policies db"
  by (simp add: policy_audit_def)

lemma update_ids:
  "(\<And>r. po_id (f r) = po_id r) \<Longrightarrow> map po_id (pb_policies (update_policies p f db)) = map po_id (pb_policies db)"
  by (auto simp: comp_def)

lemma validated_returns: "validatePolicyDocument (Some v) = Inr w \<Longrightarrow> w = v"
  by (auto simp: validatePolicyDocument_def split: json.splits option.splits)

lemma check_signatures_None:
  "check_signatures env t r seen sigs = None \<longleftrightarrow>
     distinct (map (\<lambda>s. to_lower (fst s)) sigs) \<and> (\<forall>s \<in> set sigs. to_lower (fst s) \<notin> set seen) \<and>
     (\<forall>(address, signature) \<in> set sigs. pe_verify env t (po_version r) (po_content_hash r) address signature \<and>
        pe_isAuthorizedSigner env t address)"
proof (induction env t r seen sigs rule: check_signatures.induct)
  case (2 env t r seen address signature sigs)
  show ?case
  proof (cases "pe_verify env t (po_version r) (po_content_hash r) address signature \<and>
      to_lower address \<notin> set seen \<and> pe_isAuthorizedSigner env t address")
    case True
    then have "check_signatures env t r seen ((address, signature) # sigs) =
        check_signatures env t r (to_lower address # seen) sigs" by simp
    also have "\<dots> = None \<longleftrightarrow> distinct (map (\<lambda>s. to_lower (fst s)) sigs) \<and>
        (\<forall>s \<in> set sigs. to_lower (fst s) \<notin> insert (to_lower address) (set seen)) \<and>
        (\<forall>(address, signature) \<in> set sigs. pe_verify env t (po_version r) (po_content_hash r) address signature \<and>
           pe_isAuthorizedSigner env t address)" using 2 True by simp
    also have "(\<forall>s \<in> set sigs. to_lower (fst s) \<notin> insert (to_lower address) (set seen)) \<longleftrightarrow>
        to_lower address \<notin> (\<lambda>s. to_lower (fst s)) ` set sigs \<and> (\<forall>s \<in> set sigs. to_lower (fst s) \<notin> set seen)"
      by (auto intro: rev_image_eqI)
    finally show ?thesis using True by (simp only: list.map list.set distinct.simps set_map fst_conv) auto
  qed auto
qed simp

lemma policy_ok_signers:
  "policy_ok env r \<Longrightarrow> po_state r = Pending_signatures \<Longrightarrow> policy_ok env (r\<lparr>po_signers := s\<rparr>)"
  by (simp add: policy_ok_def)

lemma signed_state [simp]:
  "quorum_signed env (r\<lparr>po_state := s, po_deactivated_at := n\<rparr>) = quorum_signed env r"
  "quorum_signed env (r\<lparr>po_state := s, po_activated_at := n\<rparr>) = quorum_signed env r"
  "lint_passed env (r\<lparr>po_state := s, po_deactivated_at := n\<rparr>) = lint_passed env r"
  "lint_passed env (r\<lparr>po_state := s, po_activated_at := n\<rparr>) = lint_passed env r"
  by (simp_all add: quorum_signed_def lint_passed_def)

lemma filter_unique: "distinct xs \<Longrightarrow> length (filter (\<lambda>q. q = x) xs) \<le> 1"
  by (induction xs) (auto simp: filter_empty_conv)

lemma policy_ok_deactivate: "policy_ok env r \<Longrightarrow> po_state r = Active \<Longrightarrow>
    policy_ok env (r\<lparr>po_state := Deactivated, po_deactivated_at := n\<rparr>)"
  by (simp add: policy_ok_def)

lemma owned_unique:
  "distinct (map po_id rows) \<Longrightarrow> r \<in> set rows \<Longrightarrow> owned t i r \<Longrightarrow> q \<in> set rows \<Longrightarrow> owned t i q \<longleftrightarrow> q = r"
  by (auto simp: owned_def distinct_map dest: inj_onD)

text \<open>A move to \<open>active\<close> leaves the one row active.\<close>

lemma transition_active:
  assumes "transition t i Pending_signatures Active now db = Inr db'" "distinct (map po_id (pb_policies db))"
  obtains r where "r \<in> set (pb_policies db)" "owned t i r" "po_state r = Pending_signatures"
    "pb_policies db' = map (\<lambda>q. if q = r then q\<lparr>po_state := Active, po_activated_at := Some now\<rparr>
        else if is_active t q then q\<lparr>po_state := Deactivated, po_deactivated_at := Some now\<rparr> else q) (pb_policies db)"
proof -
  from assms(1) have ex: "\<exists>r \<in> set (pb_policies (deactivate_active t now db)). owned t i r \<and> po_state r = Pending_signatures"
    and db': "db' = move_state t i Pending_signatures Active now (deactivate_active t now db)"
    by (auto simp: transition_def Let_def isValidTransition_def split: if_splits)
  define d where "d q = (if is_active t q then q\<lparr>po_state := Deactivated, po_deactivated_at := Some now\<rparr> else q)" for q
  have rows1: "pb_policies (deactivate_active t now db) = map d (pb_policies db)"
    by (simp add: deactivate_active_def d_def)
  have keeps: "owned t i (d q) \<and> po_state (d q) = Pending_signatures \<longleftrightarrow> owned t i q \<and> po_state q = Pending_signatures" for q
    by (cases "is_active t q") (simp_all add: d_def owned_def is_active_def)
  from ex obtain r where r: "r \<in> set (pb_policies db)" "owned t i r" "po_state r = Pending_signatures"
    unfolding rows1 set_map using keeps by blast
  have eq: "owned t i q \<and> po_state q = Pending_signatures \<longleftrightarrow> q = r" if "q \<in> set (pb_policies db)" for q
    using owned_unique [OF assms(2) r(1,2) that] r(3) by blast
  have dr: "d r = r" using r(3) by (simp add: d_def is_active_def)
  have "pb_policies db' = map (\<lambda>q. if owned t i (d q) \<and> po_state (d q) = Pending_signatures
      then (d q)\<lparr>po_state := Active, po_activated_at := Some now\<rparr> else d q) (pb_policies db)"
    by (simp add: db' move_state_def rows1 comp_def)
  also have "\<dots> = map (\<lambda>q. if q = r then q\<lparr>po_state := Active, po_activated_at := Some now\<rparr> else d q) (pb_policies db)"
    by (rule map_cong [OF refl]) (simp only: keeps eq dr split: if_split, simp add: dr)
  finally show thesis using that [OF r] by (simp add: d_def [abs_def])
qed

section \<open>Every request preserves it\<close>

lemma compose_ok:
  assumes "db_ok env db" "compose_policy env t actor i now content quorum db = Inr db'"
  shows "db_ok env db'"
proof -
  from assms(2) obtain doc q r db1 db2 where v: "validatePolicyDocument content = Inr doc"
    and q: "quorum_of quorum = Some q"
    and r: "r = \<lparr>po_id = i, po_tenant_id = t, po_version = content_version doc, po_content = doc,
      po_content_hash = contentHashHex env doc, po_signers = None, po_state = Draft,
      po_quorum_required = q, po_activated_at = None, po_deactivated_at = None, po_created_by = actor,
      po_created_at = now\<rparr>"
    and ins: "insertPolicy r db = Inr db1" and tr: "transition t i Draft Pending_signatures now db1 = Inr db2"
    and db': "db' = policy_audit t actor ''policy.compose'' i db2"
    by (auto simp: compose_policy_def split: sum.splits option.splits)
  from v obtain raw where "content = Some raw" by (cases content) (simp_all add: validatePolicyDocument_def)
  with v have doc: "validatePolicyDocument (Some doc) = Inr doc" using validated_returns by blast
  from ins have new: "\<forall>p \<in> set (pb_policies db). po_id p \<noteq> i" "1 \<le> q" and db1: "pb_policies db1 = pb_policies db @ [r]"
    by (auto simp: insertPolicy_def r split: if_splits)
  from tr have "db2 = move_state t i Draft Pending_signatures now db1"
    by (simp add: transition_def Let_def split: if_splits)
  then have rows: "pb_policies db' = pb_policies db @ [r\<lparr>po_state := Pending_signatures\<rparr>]"
    using new(1) by (auto simp: db' db1 move_state_def owned_def r intro!: map_idI)
  have "policy_ok env (r\<lparr>po_state := Pending_signatures\<rparr>)" using doc new(2) by (simp add: policy_ok_def r)
  with assms(1) new(1) show ?thesis unfolding db_ok_def rows by (auto simp: r is_active_def)
qed

lemma activate_ok:
  assumes "db_ok env db" "activate env t r now (setSigners t i sigs db) = Inr db'"
    and r: "r \<in> set (pb_policies db)" "owned t i r" "po_state r = Pending_signatures"
    and sigs: "check_signatures env t r [] sigs = None" "po_quorum_required r \<le> int (length sigs)"
  shows "db_ok env db'"
proof -
  let ?db1 = "setSigners t i sigs db" and ?r1 = "r\<lparr>po_signers := Some sigs\<rparr>"
  let ?act = "\<lambda>q. if q = ?r1 then q\<lparr>po_state := Active, po_activated_at := Some now\<rparr>
        else if is_active t q then q\<lparr>po_state := Deactivated, po_deactivated_at := Some now\<rparr> else q"
  note ok = assms(1) [unfolded db_ok_def]
  have dist: "distinct (map po_id (pb_policies db))" using ok by blast
  have rows1: "pb_policies ?db1 = map (\<lambda>q. if q = r then ?r1 else q) (pb_policies db)"
    unfolding setSigners_def policies_update
    by (rule map_cong [OF refl]) (simp add: owned_unique [OF dist r(1,2)])
  have ids: "distinct (map po_id (pb_policies ?db1))"
  proof -
    have "map po_id (pb_policies ?db1) = map po_id (pb_policies db)" by (simp add: rows1)
    with dist show ?thesis by simp
  qed
  from assms(2) obtain doc where doc: "read_document False (po_content r) = Some doc"
    and clean: "ag_blocking (runActivationLintGate doc (pe_lintReject env \<or> pe_tenantKind env t = Some ''production'')
       (pe_confidenceFloorReject env \<or> pe_tenantKind env t = Some ''production'')) = []"
    and tr: "transition t (po_id r) Pending_signatures Active now ?db1 = Inr db'"
    by (auto simp: activate_def Let_def split: option.splits if_splits)
  obtain r' where r': "r' \<in> set (pb_policies ?db1)" "owned t (po_id r) r'" "po_state r' = Pending_signatures" and
    rows: "pb_policies db' = map (\<lambda>q. if q = r' then q\<lparr>po_state := Active, po_activated_at := Some now\<rparr>
        else if is_active t q then q\<lparr>po_state := Deactivated, po_deactivated_at := Some now\<rparr> else q) (pb_policies ?db1)"
    by (rule transition_active [OF tr ids])
  have "owned t (po_id r) q \<longleftrightarrow> q = ?r1" if "q \<in> set (pb_policies ?db1)" for q
    using ids _ _ that by (rule owned_unique) (use r(1,2) in \<open>auto simp: rows1 owned_def\<close>)
  with r' have "r' = ?r1" by blast
  with rows have rows': "pb_policies db' = map ?act (pb_policies ?db1)" by simp
  have "policy_ok env r" using ok r(1) by blast
  then have wf: "document_wf doc" using validated_reads [of "po_content r" _ False] doc by (fastforce simp: policy_ok_def)
  have t: "po_tenant_id r = t" using r(2) by (simp add: owned_def)
  have "quorum_signed env (?r1\<lparr>po_state := Active, po_activated_at := Some now\<rparr>)"
    using sigs unfolding check_signatures_None quorum_signed_def by (auto simp: t)
  moreover have "lint_passed env (?r1\<lparr>po_state := Active, po_activated_at := Some now\<rparr>)"
    using doc wf clean by (simp add: lint_passed_def t)
  ultimately have new: "policy_ok env (?r1\<lparr>po_state := Active, po_activated_at := Some now\<rparr>)"
    using \<open>policy_ok env r\<close> by (simp add: policy_ok_def)
  have old: "policy_ok env q" if "q \<in> set (pb_policies ?db1)" "q \<noteq> ?r1" for q
    using that ok by (auto simp: rows1 split: if_splits)
  have act_ok: "policy_ok env (?act q)" if "q \<in> set (pb_policies ?db1)" for q
    using new old that policy_ok_deactivate by (auto simp: is_active_def)
  have "\<forall>q \<in> set (pb_policies db'). policy_ok env q"
    unfolding rows' set_map using act_ok by blast
  moreover have "distinct (map po_id (pb_policies db'))"
  proof -
    have "map po_id (pb_policies db') = map po_id (pb_policies ?db1)" by (simp add: rows')
    with ids show ?thesis by simp
  qed
  moreover have "length (filter (is_active t') (pb_policies db')) \<le> 1" for t'
  proof (cases "t' = t")
    case True
    have "filter (is_active t) (pb_policies db') = map ?act (filter (\<lambda>q. q = ?r1) (pb_policies ?db1))"
      unfolding rows' by (auto simp: filter_map comp_def is_active_def t intro!: filter_cong arg_cong [of _ _ "map ?act"])
    moreover have "length (filter (\<lambda>q. q = ?r1) (pb_policies ?db1)) \<le> 1"
      using ids by (intro filter_unique) (simp add: distinct_map)
    ultimately show ?thesis using True by simp
  next
    case False
    have act: "is_active t' (?act q) \<longleftrightarrow> is_active t' q" for q
      using False t by (simp add: is_active_def)
    have same: "is_active t' (?act (if q = r then ?r1 else q)) \<longleftrightarrow> is_active t' q" for q
      unfolding act by (simp add: is_active_def)
    have "length (filter (is_active t') (pb_policies db')) = length (filter (is_active t') (pb_policies db))"
      unfolding rows' rows1 map_map filter_map length_map comp_def by (simp only: same)
    then show ?thesis using ok by simp
  qed
  ultimately show ?thesis unfolding db_ok_def by blast
qed

lemma sign_ok:
  assumes "db_ok env db" "sign_policy env t actor now policy_id signatures db = Inr db'"
  shows "db_ok env db'"
proof -
  from assms(2) obtain i sigs r where g: "getById t i db = Some r" "po_state r = Pending_signatures"
    "check_signatures env t r [] sigs = None"
    and c: "(po_quorum_required r \<le> int (length sigs) \<and>
       (\<exists>db1. activate env t r now (setSigners t i sigs db) = Inr db1 \<and>
          db' = policy_audit t actor ''policy.activate'' i db1)) \<or>
      db' = policy_audit t actor ''policy.sign'' i (setSigners t i sigs db)"
    by (auto simp: sign_policy_def Let_def map_sum_def split: option.splits if_splits sum.splits)
  have r: "r \<in> set (pb_policies db)" "owned t i r"
    using g(1) by (auto simp: getById_def find_Some_iff)
  from c show ?thesis
  proof (elim disjE exE conjE)
    fix db1 assume "po_quorum_required r \<le> int (length sigs)"
      "activate env t r now (setSigners t i sigs db) = Inr db1" "db' = policy_audit t actor ''policy.activate'' i db1"
    with activate_ok [OF assms(1) _ r g(2,3), of now db1] show ?thesis by (simp add: db_ok_def)
  next
    assume db': "db' = policy_audit t actor ''policy.sign'' i (setSigners t i sigs db)"
    note ok = assms(1) [unfolded db_ok_def]
    have dist: "distinct (map po_id (pb_policies db))" using ok by blast
    have rows: "pb_policies db' = map (\<lambda>q. if q = r then q\<lparr>po_signers := Some sigs\<rparr> else q) (pb_policies db)"
      unfolding db' setSigners_def policies_update policies_audit
      by (rule map_cong [OF refl]) (simp add: owned_unique [OF dist r])
    have "map po_id (pb_policies db') = map po_id (pb_policies db)" by (simp add: rows)
    moreover have "length (filter (is_active t') (pb_policies db')) = length (filter (is_active t') (pb_policies db))" for t'
      unfolding rows filter_map length_map
      by (rule arg_cong [where f = length], rule filter_cong) (simp_all add: is_active_def)
    moreover have "policy_ok env q" if "q \<in> set (pb_policies db')" for q
      using that ok policy_ok_signers [OF _ g(2), of env "Some sigs"] r(1) by (auto simp: rows)
    ultimately show ?thesis using ok unfolding db_ok_def by simp
  qed
qed

lemma reach_ok: "policies_reach env db \<Longrightarrow> db_ok env db"
proof (induction rule: policies_reach.induct)
  case (start a)
  show ?case by (simp add: db_ok_def)
qed (blast intro: compose_ok sign_ok)+

section \<open>Properties\<close>

text \<open>
  C39 (invariant). In every table that compose and sign requests can produce, a tenant has at
  most one active policy, and reading it never fails: its content passed the validator, hashes to the
  stored hash, passed the activation lint, and carries signatures that verify over its version and
  hash, by distinct (case-insensitively) signers, at least as many as its quorum, all on the
  allowlist, which is a parameter and does not change over the requests. Passing the lint means that no
  finding blocks activation.
\<close>

theorem active_policy_is_signed:
  assumes "policies_reach env db"
  shows "length (filter (is_active t) (pb_policies db)) \<le> 1 \<and>
     (\<exists>found. getActive env t db = Inr found \<and>
        (\<forall>r. found = Some r \<longrightarrow> filter (is_active t) (pb_policies db) = [r] \<and>
             validatePolicyDocument (Some (po_content r)) = Inr (po_content r) \<and>
             po_content_hash r = contentHashHex env (po_content r) \<and>
             quorum_signed env r \<and> lint_passed env r))"
proof -
  note ok = reach_ok [OF assms, unfolded db_ok_def]
  show ?thesis
  proof (cases "find (is_active t) (pb_policies db)")
    case None
    with ok show ?thesis by (simp add: getActive_def)
  next
    case (Some r)
    then have r: "r \<in> set (pb_policies db)" "is_active t r" by (auto simp: find_Some_iff)
    with ok have row: "policy_ok env r" by blast
    from r have "r \<in> set (filter (is_active t) (pb_policies db))" by simp
    moreover have "length (filter (is_active t) (pb_policies db)) \<le> 1" using ok by blast
    ultimately have "filter (is_active t) (pb_policies db) = [r]"
      by (cases "filter (is_active t) (pb_policies db)") auto
    with row r ok show ?thesis by (simp add: getActive_def Some policy_ok_def is_active_def)
  qed
qed

text \<open>A concrete tenant: one signer, whose signature is the string \<open>ok\<close>.\<close>

definition sample_policy_env :: policy_env where
  "sample_policy_env = \<lparr>pe_sha256 = (\<lambda>s. s),
     pe_number = sample_number,
     pe_verify = (\<lambda>t v h a s. s = ''ok''), pe_isAuthorizedSigner = (\<lambda>t a. a = ''0xA1''),
     pe_tenantKind = (\<lambda>t. Some ''demo''), pe_confidenceFloorReject = True, pe_lintReject = False\<rparr>"

definition composed_db :: "policy_error + policy_db" where
  "composed_db = compose_policy sample_policy_env ''tnt_1'' ''user_1'' ''pol_1'' 5 (Some sample_json_policy)
     None \<lparr>pb_policies = [], pb_audit = []\<rparr>"

definition signed_db :: "policy_error + policy_db" where
  "signed_db = (case composed_db of Inl e \<Rightarrow> Inl e
     | Inr db \<Rightarrow> sign_policy sample_policy_env ''tnt_1'' ''user_1'' 6 (Some ''pol_1'') (Some [(''0xA1'', ''ok'')]) db)"

lemma signed_db_active:
  "(case signed_db of Inl e \<Rightarrow> False | Inr db \<Rightarrow> map po_state (pb_policies db) = [Active])"
  by code_simp

lemma signed_db_reach: "\<exists>db. signed_db = Inr db \<and> policies_reach sample_policy_env db"
proof -
  obtain db where db: "signed_db = Inr db" using signed_db_active by (auto split: sum.splits)
  then obtain db0 where db0: "composed_db = Inr db0"
    by (auto simp: signed_db_def split: sum.splits)
  have "policies_reach sample_policy_env db0"
    by (rule policies_reach.compose [OF policies_reach.start db0 [unfolded composed_db_def]])
  from policies_reach.sign [OF this] db show ?thesis by (simp add: signed_db_def db0)
qed

theorem active_policy_is_signed_witness:
  "\<exists>db r. signed_db = Inr db \<and> getActive sample_policy_env ''tnt_1'' db = Inr (Some r) \<and> quorum_signed sample_policy_env r"
proof -
  obtain db where db: "signed_db = Inr db" "policies_reach sample_policy_env db" using signed_db_reach by blast
  obtain found where f: "getActive sample_policy_env ''tnt_1'' db = Inr found"
    "\<forall>r. found = Some r \<longrightarrow> quorum_signed sample_policy_env r"
    using active_policy_is_signed [OF db(2), of "''tnt_1''"] by blast
  have "(case signed_db of Inl e \<Rightarrow> False | Inr db \<Rightarrow>
      (case getActive sample_policy_env ''tnt_1'' db of Inr (Some r) \<Rightarrow> True | _ \<Rightarrow> False))" by code_simp
  then obtain r where "found = Some r" unfolding db(1) sum.case f(1) by (cases found) simp_all
  with f db(1) show ?thesis by blast
qed

text \<open>
  A tampered policy is refused: whatever was written to the active row after signing, a
  read returns it only if its content is still the signed content up to the order of keys, and
  throws otherwise, if SHA-256 does not collide on the two canonical texts.
\<close>

theorem tampered_policy_is_refused:
  assumes "number_text (pe_number env)"
    and "inj_on (pe_sha256 env) {canonicalize (pe_number env) signed, canonicalize (pe_number env) (po_content r)}"
    and "find (is_active t) (pb_policies db) = Some r" "po_content_hash r = contentHashHex env signed"
  shows "getActive env t db =
     (if jsort (po_content r) = jsort signed then Inr (Some r) else Inl Policy_not_active)"
proof -
  have "contentHashHex env (po_content r) = contentHashHex env signed \<longleftrightarrow> jsort (po_content r) = jsort signed"
    unfolding contentHashHex_def canonicalize_inject [OF assms(1), symmetric]
    using assms(2) by (auto dest: inj_onD)
  then show ?thesis using assms(3,4) by (simp add: getActive_def)
qed

definition tampered_db :: "policy_db" where
  "tampered_db = (case signed_db of Inl e \<Rightarrow> \<lparr>pb_policies = [], pb_audit = []\<rparr>
     | Inr db \<Rightarrow> update_policies (\<lambda>r. True) (\<lambda>r. r\<lparr>po_content := JObj [(''rules'', JArr []), (''version'', JNum 2)]\<rparr>) db)"

theorem tampered_policy_is_refused_witness:
  "getActive sample_policy_env ''tnt_1'' tampered_db = Inl Policy_not_active"
proof -
  have "(case find (is_active ''tnt_1'') (pb_policies tampered_db) of None \<Rightarrow> False
      | Some r \<Rightarrow> po_content_hash r = contentHashHex sample_policy_env sample_json_policy \<and>
          jsort (po_content r) \<noteq> jsort sample_json_policy)" by code_simp
  then obtain r where r: "find (is_active ''tnt_1'') (pb_policies tampered_db) = Some r"
    "po_content_hash r = contentHashHex sample_policy_env sample_json_policy"
    "jsort (po_content r) \<noteq> jsort sample_json_policy" by (auto split: option.splits)
  have nt: "number_text (pe_number sample_policy_env)" by (simp add: sample_policy_env_def sample_number_text)
  have inj: "inj_on (pe_sha256 sample_policy_env) A" for A by (simp add: sample_policy_env_def inj_on_def)
  show ?thesis unfolding tampered_policy_is_refused [OF nt inj r(1,2)] using r(3) by (rule if_not_P)
qed

end
