(* ===== verification/Policy_Envelope.thy ===== *)
theory Policy_Envelope
  imports Policy_Service Policy_Activation
begin

text \<open>
  The spend envelope over a run: what the counters hold after any settled payments, what a
  match of the VM means for the total of a window, and when the envelope does not bind. The
  decimals of the counters are exact at eight fraction digits (\<open>NUMERIC(28, 8)\<close>).
\<close>

section \<open>Counters\<close>

definition eight_digits :: "string \<Rightarrow> bool" where
  "eight_digits s \<longleftrightarrow> is_decimal s \<and> length (snd (decimal_parts s)) \<le> 8"

text \<open>
  What the code relies on of Postgres: the cast of a literal with at most eight fraction
  digits keeps its value, and a sum of two such values is exact.
\<close>

definition numeric_exact :: "service_env \<Rightarrow> bool" where
  "numeric_exact env \<longleftrightarrow>
     (\<forall>s x. eight_digits s \<longrightarrow> se_cast env s = Some x \<longrightarrow> eight_digits x \<and> dec_units x = dec_units s) \<and>
     (\<forall>a b c. eight_digits a \<longrightarrow> eight_digits b \<longrightarrow> se_plus env a b = Some c \<longrightarrow>
        eight_digits c \<and> dec_units c = dec_units a + dec_units b)"

definition counter_key :: "counter_row \<Rightarrow> string \<times> string \<times> string \<times> int \<times> string" where
  "counter_key r = (sc_tenant_id r, sc_agent_id r, sc_window r, sc_bucket_start r, sc_currency r)"

definition counters_ok :: "counter_row list \<Rightarrow> bool" where
  "counters_ok cs \<longleftrightarrow> distinct (map counter_key cs) \<and> (\<forall>r \<in> set cs. eight_digits (sc_amount r))"

lemma cast_exact:
  "numeric_exact env \<Longrightarrow> eight_digits s \<Longrightarrow> se_cast env s = Some x \<Longrightarrow> eight_digits x \<and> dec_units x = dec_units s"
  unfolding numeric_exact_def by blast

lemma plus_exact:
  "numeric_exact env \<Longrightarrow> eight_digits a \<Longrightarrow> eight_digits b \<Longrightarrow> se_plus env a b = Some c \<Longrightarrow>
     eight_digits c \<and> dec_units c = dec_units a + dec_units b"
  unfolding numeric_exact_def by blast

lemma eight_zero: "eight_digits ''0''"
  by code_simp

lemma zero_units: "dec_units ''0'' = 0"
  by code_simp

lemma same_counter_key:
  "same_counter t a w c now r \<longleftrightarrow> counter_key r = (t, a, w, bucketStart w now, c)"
  by (auto simp: same_counter_def counter_key_def)

lemma reading_ok: "counters_ok cs \<Longrightarrow> eight_digits (readSpendWindow t a w c now cs)"
  by (auto simp: readSpendWindow_def counters_ok_def find_Some_iff eight_zero split: option.split)

text \<open>The reading of one key after an update of the rows with another, or the same, key.\<close>

lemma find_map_keep:
  "(\<And>q. q \<in> set cs \<Longrightarrow> P (f q) = P q) \<Longrightarrow> find P (map f cs) = map_option f (find P cs)"
  by (induction cs) auto

lemma increment_reads:
  assumes "incrementSpendCounter env t a w c x now cs = Some cs'" "counters_ok cs"
    and "numeric_exact env" "eight_digits x"
  shows "counters_ok cs'"
    and "dec_units (readSpendWindow t' a' w' c' now' cs') = dec_units (readSpendWindow t' a' w' c' now' cs) +
       (if (t', a', w', bucketStart w' now', c') = (t, a, w, bucketStart w now, c) then dec_units x else 0)"
proof -
  let ?P = "same_counter t a w c now" and ?Q = "same_counter t' a' w' c' now'"
  from assms(1) obtain v where v: "se_cast env x = Some v" by (auto simp: incrementSpendCounter_def split: option.splits)
  have v8: "eight_digits v" "dec_units v = dec_units x" using cast_exact [OF assms(3,4) v] by simp_all
  have "counters_ok cs' \<and> dec_units (readSpendWindow t' a' w' c' now' cs') = dec_units (readSpendWindow t' a' w' c' now' cs) +
       (if (t', a', w', bucketStart w' now', c') = (t, a, w, bucketStart w now, c) then dec_units x else 0)"
  proof (cases "find ?P cs")
    case None
    define r where "r = \<lparr>sc_tenant_id = t, sc_agent_id = a, sc_window = w, sc_bucket_start = bucketStart w now,
      sc_amount = v, sc_tx_count = 1, sc_currency = c\<rparr>"
    have cs': "cs' = cs @ [r]" using assms(1) v None by (simp add: incrementSpendCounter_def r_def)
    have key: "counter_key r = (t, a, w, bucketStart w now, c)" by (simp add: r_def counter_key_def)
    have amount: "sc_amount r = v" by (simp add: r_def)
    have fresh: "counter_key r \<notin> set (map counter_key cs)"
      using None by (auto simp: find_None_iff same_counter_key key)
    have found: "find ?Q cs' = (case find ?Q cs of None \<Rightarrow> if ?Q r then Some r else None | Some q \<Rightarrow> Some q)"
      unfolding cs' by (induction cs) auto
    have "counters_ok cs'" using assms(2) fresh v8 by (simp add: counters_ok_def cs' r_def)
    moreover have "find ?Q cs = None" if "?Q r"
      using that fresh by (auto simp: find_None_iff same_counter_key key image_iff)
    ultimately have "counters_ok cs' \<and> dec_units (readSpendWindow t' a' w' c' now' cs') =
        dec_units (readSpendWindow t' a' w' c' now' cs) + (if ?Q r then dec_units x else 0)"
      using v8 amount by (cases "find ?Q cs") (auto simp: readSpendWindow_def found zero_units)
    then show ?thesis unfolding same_counter_key key by (simp only: eq_commute)
  next
    case (Some r)
    then have r: "r \<in> set cs" "?P r" by (auto simp: find_Some_iff)
    from assms(1) v Some obtain y where y: "se_plus env (sc_amount r) v = Some y"
      and cs': "cs' = map (\<lambda>q. if ?P q then q\<lparr>sc_amount := y, sc_tx_count := sc_tx_count q + 1\<rparr> else q) cs"
      by (auto simp: incrementSpendCounter_def split: option.splits if_splits)
    have y8: "eight_digits y" "dec_units y = dec_units (sc_amount r) + dec_units x"
      using plus_exact [OF assms(3) _ v8(1) y] assms(2) r(1) v8(2) by (simp_all add: counters_ok_def)
    have keys: "counter_key (if ?P q then q\<lparr>sc_amount := y, sc_tx_count := sc_tx_count q + 1\<rparr> else q) = counter_key q" for q
      by (simp add: counter_key_def)
    have "map counter_key cs' = map counter_key cs" unfolding cs' by (simp add: keys comp_def)
    moreover have "eight_digits (sc_amount q)" if "q \<in> set cs'" for q
      using that assms(2) y8(1) by (auto simp: counters_ok_def cs')
    ultimately have ok: "counters_ok cs'" using assms(2) by (simp add: counters_ok_def)
    have found: "find ?Q cs' = map_option (\<lambda>q. if ?P q then q\<lparr>sc_amount := y, sc_tx_count := sc_tx_count q + 1\<rparr> else q) (find ?Q cs)"
      unfolding cs' by (rule find_map_keep) (simp only: same_counter_key [of t'] keys)
    show ?thesis
    proof (cases "(t', a', w', bucketStart w' now', c') = (t, a, w, bucketStart w now, c)")
      case True
      then have "?Q = ?P" by (simp only: fun_eq_iff same_counter_key) simp
      with Some found ok y8 r True show ?thesis by (auto simp: readSpendWindow_def)
    next
      case False
      then have no: "\<not> ?P q" if "?Q q" for q using that by (auto simp: same_counter_key)
      have "find ?Q cs' = find ?Q cs"
      proof (cases "find ?Q cs")
        case (Some q)
        then have "?Q q" by (auto simp: find_Some_iff)
        with no found Some show ?thesis by simp
      qed (simp add: found)
      with ok False show ?thesis by (auto simp: readSpendWindow_def)
    qed
  qed
  then show "counters_ok cs'"
    and "dec_units (readSpendWindow t' a' w' c' now' cs') = dec_units (readSpendWindow t' a' w' c' now' cs) +
       (if (t', a', w', bucketStart w' now', c') = (t, a, w, bucketStart w now, c) then dec_units x else 0)" by blast+
qed

lemma increment_all_reads:
  assumes "increment_all env t a c x now ws cs = Some cs'" "counters_ok cs" "numeric_exact env" "eight_digits x"
    and "distinct ws"
  shows "counters_ok cs' \<and>
    dec_units (readSpendWindow t' a' w' c' now' cs') = dec_units (readSpendWindow t' a' w' c' now' cs) +
       (if t' = t \<and> a' = a \<and> c' = c \<and> w' \<in> set ws \<and> bucketStart w' now' = bucketStart w' now then dec_units x else 0)"
  using assms(1,2,5)
proof (induction ws arbitrary: cs)
  case (Cons w ws)
  from Cons.prems(1) obtain cs1 where cs1: "incrementSpendCounter env t a w c x now cs = Some cs1"
    "increment_all env t a c x now ws cs1 = Some cs'" by (auto split: option.splits)
  note step = increment_reads [OF cs1(1) Cons.prems(2) assms(3,4)]
  from Cons.IH [OF cs1(2) step(1)] Cons.prems(3) step(2) [of t' a' w' c' now'] show ?case by auto
qed simp

section \<open>The windows a policy names\<close>

definition sole_currency :: "policy_document \<Rightarrow> spend_window \<Rightarrow> bool" where
  "sole_currency doc c \<longleftrightarrow> (\<forall>rule \<in> set (pd_rules doc). \<forall>c'. agent_spend_in_window (rl_when rule) = Some c' \<longrightarrow>
     sw_window c' = sw_window c \<longrightarrow> am_currency (sw_lte c') = am_currency (sw_lte c))"

lemma known_window_key:
  "w \<in> set KNOWN_WINDOWS \<Longrightarrow> w' \<in> set KNOWN_WINDOWS \<Longrightarrow> w @ '':'' @ c = w' @ '':'' @ c' \<longleftrightarrow> w = w' \<and> c = c'"
  by (auto simp: KNOWN_WINDOWS_def)

definition pair_key :: "string \<times> string \<Rightarrow> string" where
  "pair_key p = fst p @ '':'' @ snd p"

lemma collect_spend_eq:
  "collect_spend s rule = (case agent_spend_in_window (rl_when rule) of
     None \<Rightarrow> s
   | Some c \<Rightarrow> if pair_key (sw_window c, am_currency (sw_lte c)) \<in> set (snd s) then s
       else (fst s @ [(sw_window c, am_currency (sw_lte c))], pair_key (sw_window c, am_currency (sw_lte c)) # snd s))"
  by (cases s) (simp add: collect_spend_def pair_key_def Let_def split: option.split)

lemma collect_spend_step:
  "set (fst s) \<subseteq> set (fst (collect_spend s rule))"
  "set (snd s) = pair_key ` set (fst s) \<Longrightarrow>
     set (snd (collect_spend s rule)) = pair_key ` set (fst (collect_spend s rule))"
  "agent_spend_in_window (rl_when rule) = Some c \<Longrightarrow>
     pair_key (sw_window c, am_currency (sw_lte c)) \<in> set (snd (collect_spend s rule))"
  "p \<in> set (fst (collect_spend s rule)) \<Longrightarrow> p \<in> set (fst s) \<or>
     (\<exists>c. agent_spend_in_window (rl_when rule) = Some c \<and> p = (sw_window c, am_currency (sw_lte c)))"
  by (auto simp: collect_spend_eq split: option.splits if_splits)

lemma collect_spend_mono: "set (fst s) \<subseteq> set (fst (foldl collect_spend s rules))"
  by (induction rules arbitrary: s) (use collect_spend_step(1) in \<open>fastforce+\<close>)

lemma collect_spend_keys:
  "set (snd s) = pair_key ` set (fst s) \<Longrightarrow>
     set (snd (foldl collect_spend s rules)) = pair_key ` set (fst (foldl collect_spend s rules))"
  by (induction rules arbitrary: s) (simp_all add: collect_spend_step(2))

lemma collect_spend_sound:
  "p \<in> set (fst (foldl collect_spend s rules)) \<Longrightarrow> p \<in> set (fst s) \<or>
     (\<exists>rule \<in> set rules. \<exists>c. agent_spend_in_window (rl_when rule) = Some c \<and> p = (sw_window c, am_currency (sw_lte c)))"
proof (induction rules arbitrary: s)
  case (Cons rule rules)
  then have "p \<in> set (fst (foldl collect_spend (collect_spend s rule) rules))" by simp
  from Cons.IH [OF this] show ?case using collect_spend_step(4) [of p s rule] by auto
qed simp

lemma collect_spend_complete:
  assumes "set (snd s) = pair_key ` set (fst s)" "rule \<in> set rules" "agent_spend_in_window (rl_when rule) = Some c"
  shows "\<exists>p \<in> set (fst (foldl collect_spend s rules)). pair_key p = pair_key (sw_window c, am_currency (sw_lte c))"
  using assms
proof (induction rules arbitrary: s)
  case (Cons r rules)
  let ?s = "collect_spend s r"
  note keys = collect_spend_step(2) [OF Cons.prems(1), of r]
  show ?case
  proof (cases "rule = r")
    case True
    with collect_spend_step(3) [OF Cons.prems(3), of s] keys
    obtain p where "p \<in> set (fst ?s)" "pair_key p = pair_key (sw_window c, am_currency (sw_lte c))" by auto
    then show ?thesis using collect_spend_mono [of ?s rules] by auto
  next
    case False
    with Cons.IH [OF keys _ Cons.prems(3)] Cons.prems(2) show ?thesis by simp
  qed
qed simp

lemma collectSpendWindows_sound:
  "p \<in> set (collectSpendWindows doc) \<Longrightarrow> \<exists>rule \<in> set (pd_rules doc). \<exists>c.
     agent_spend_in_window (rl_when rule) = Some c \<and> p = (sw_window c, am_currency (sw_lte c))"
  unfolding collectSpendWindows_def by (drule collect_spend_sound) simp

lemma document_window_known:
  "document_wf doc \<Longrightarrow> rule \<in> set (pd_rules doc) \<Longrightarrow> agent_spend_in_window (rl_when rule) = Some c \<Longrightarrow>
     sw_window c \<in> set KNOWN_WINDOWS"
  by (auto simp: document_wf_def rule_wf_def when_wf_def)

lemma collectSpendWindows_complete:
  assumes "document_wf doc" "rule \<in> set (pd_rules doc)" "agent_spend_in_window (rl_when rule) = Some c"
  shows "(sw_window c, am_currency (sw_lte c)) \<in> set (collectSpendWindows doc)"
proof -
  obtain p where p: "p \<in> set (collectSpendWindows doc)" "pair_key p = pair_key (sw_window c, am_currency (sw_lte c))"
    using collect_spend_complete [of "([], [])", OF _ assms(2,3)] unfolding collectSpendWindows_def by auto
  obtain rule' c' where c': "rule' \<in> set (pd_rules doc)" "agent_spend_in_window (rl_when rule') = Some c'"
    "p = (sw_window c', am_currency (sw_lte c'))" using collectSpendWindows_sound [OF p(1)] by blast
  have "sw_window c' = sw_window c \<and> am_currency (sw_lte c') = am_currency (sw_lte c)"
    using p(2) known_window_key [OF document_window_known [OF assms(1) c'(1,2)] document_window_known [OF assms]]
    by (simp add: pair_key_def c'(3))
  with p(1) c'(3) show ?thesis by simp
qed

lemma load_spend_sole:
  assumes "(w, c) \<in> set ws \<or> s w = Some \<lparr>am_currency = c, am_value = readSpendWindow t a w c now cs\<rparr>"
    and "\<And>c'. (w, c') \<in> set ws \<Longrightarrow> c' = c"
  shows "foldl (\<lambda>s (window, currency). s(window \<mapsto>
     \<lparr>am_currency = currency, am_value = readSpendWindow t a window currency now cs\<rparr>)) s ws w
   = Some \<lparr>am_currency = c, am_value = readSpendWindow t a w c now cs\<rparr>"
  using assms
proof (induction ws arbitrary: s)
  case (Cons p ws)
  obtain w' c' where p: "p = (w', c')" by fastforce
  with Cons.prems(2) [of c'] have "w' = w \<Longrightarrow> c' = c" by simp
  then have "(w, c) \<in> set ws \<or> (s(w' \<mapsto> \<lparr>am_currency = c',
      am_value = readSpendWindow t a w' c' now cs\<rparr>)) w = Some \<lparr>am_currency = c, am_value = readSpendWindow t a w c now cs\<rparr>"
    using Cons.prems(1) by (auto simp: p)
  from Cons.IH [where s = "s(w' \<mapsto> \<lparr>am_currency = c', am_value = readSpendWindow t a w' c' now cs\<rparr>)", OF this]
    Cons.prems(2) show ?case by (simp add: p)
qed simp

text \<open>The aggregate the VM sees for an envelope, when its window has one currency.\<close>

lemma prior_spend_read:
  assumes "document_wf doc" "rule \<in> set (pd_rules doc)" "agent_spend_in_window (rl_when rule) = Some c"
    and "sole_currency doc c" "gi_created_by_agent_id intent = Some a"
  shows "prior_spend c (gate_action t now doc cs intent) =
    readSpendWindow t a (sw_window c) (am_currency (sw_lte c)) now cs"
proof -
  note mem = collectSpendWindows_complete [OF assms(1-3)]
  have "c' = am_currency (sw_lte c)" if "(sw_window c, c') \<in> set (collectSpendWindows doc)" for c'
    using collectSpendWindows_sound [OF that] assms(4) unfolding sole_currency_def prod.inject by metis
  from load_spend_sole [OF disjI1 [OF mem] this] have "load_spend t a now cs (collectSpendWindows doc) (sw_window c) =
      Some \<lparr>am_currency = am_currency (sw_lte c),
        am_value = readSpendWindow t a (sw_window c) (am_currency (sw_lte c)) now cs\<rparr>"
    by (simp add: load_spend_def)
  moreover from mem have "collectSpendWindows doc \<noteq> []" by auto
  ultimately show ?thesis using assms(5) by (simp add: prior_spend_def gate_action_def Let_def)
qed

section \<open>A run of settled payments\<close>

lemma read_all_mono:
  assumes "\<And>v x. f v = Some x \<Longrightarrow> g v = Some x"
  shows "read_all f vs = Some xs \<Longrightarrow> read_all g vs = Some xs"
  by (induction vs arbitrary: xs) (auto simp: assms split: Option.bind_splits)

lemma strict_rule: "read_rule True v = Some r \<Longrightarrow> read_rule False v = Some r"
  by (auto simp: read_rule_def typed_fields_def split: json.splits if_splits)

lemma strict_template: "read_template True v = Some x \<Longrightarrow> read_template False v = Some x"
  by (auto simp: read_template_def typed_fields_def split: json.splits if_splits)

lemma strict_list:
  assumes "\<And>v x. f v = Some x \<Longrightarrow> g v = Some x"
  shows "at_field (read_list f) d k = Some xs \<Longrightarrow> at_field (read_list g) d k = Some xs"
    and "opt_field (read_list f) d k = Some ys \<Longrightarrow> opt_field (read_list g) d k = Some ys"
  using read_all_mono [of f g, OF assms]
  by (auto simp: at_field_def opt_field_def read_list_def split: json.splits option.splits Option.bind_splits)

lemma strict_document:
  assumes "read_document True v = Some doc"
  shows "read_document False v = Some doc"
proof -
  from assms obtain d where v: "v = JObj d" by (cases v) (simp_all add: read_document_def)
  from assms obtain n rs ls ts acts where
    "at_field read_number d ''version'' = Some n" "at_field (read_list (read_rule True)) d ''rules'' = Some rs"
    "opt_field read_table d ''lists'' = Some ls"
    "opt_field (read_list (read_template True)) d ''message_templates'' = Some ts"
    "opt_field read_table d ''agent_actions'' = Some acts"
    "doc = \<lparr>pd_version = \<lfloor>n\<rfloor>, pd_rules = rs, pd_lists = ls, pd_message_templates = ts, pd_agent_actions = acts\<rparr>"
    by (auto simp: read_document_def v split: Option.bind_splits)
  with strict_list(1) [OF strict_rule] strict_list(2) [OF strict_template] show ?thesis
    by (simp add: read_document_def v)
qed

definition policy_windows :: "policy_document \<Rightarrow> string list" where
  "policy_windows doc = new_Set (map fst (collectSpendWindows doc) @ collectTxWindows doc)"

lemma distinct_set_add [simp]: "distinct s \<Longrightarrow> distinct (set_add x s)"
  by (simp add: set_add_def)

lemma distinct_new_Set [simp]: "distinct (new_Set xs)"
proof -
  have "distinct s \<Longrightarrow> distinct (fold set_add xs s)" for s by (induction xs arbitrary: s) simp_all
  then show ?thesis by (simp add: new_Set_def)
qed

lemma record_reads:
  assumes "recordAgentSpend env t a x c now w = Inr w'" "counters_ok (pw_counters w)" "numeric_exact env" "eight_digits x"
    and "getActive (se_policy env) t (pw_db w) = Inr (Some r)" "read_document False (po_content r) = Some doc"
  shows "counters_ok (pw_counters w') \<and> pw_db w' = pw_db w \<and>
    dec_units (readSpendWindow t a' win c' now' (pw_counters w')) = dec_units (readSpendWindow t a' win c' now' (pw_counters w)) +
       (if a' = a \<and> c' = c \<and> win \<in> set (policy_windows doc) \<and> bucketStart win now' = bucketStart win now then dec_units x else 0)"
proof -
  from assms(1) obtain cs where cs: "increment_all env t a c x now (policy_windows doc) (pw_counters w) = Some cs"
    "w' = w\<lparr>pw_counters := cs\<rparr>"
    by (auto simp: recordAgentSpend_def assms(5,6) policy_windows_def split: option.splits)
  have "distinct (policy_windows doc)" by (simp add: policy_windows_def)
  from increment_all_reads [OF cs(1) assms(2-4) this, of t a' win c' now'] show ?thesis by (simp add: cs(2))
qed

text \<open>Settled payments one after another: agent, amount, currency, time.\<close>

fun record_all ::
  "service_env \<Rightarrow> string \<Rightarrow> (string \<times> string \<times> string \<times> int) list \<Rightarrow> policy_world \<Rightarrow> service_error + policy_world" where
  "record_all env t [] w = Inr w"
| "record_all env t ((a, x, c, now) # ps) w =
     (case recordAgentSpend env t a x c now w of Inl e \<Rightarrow> Inl e | Inr w' \<Rightarrow> record_all env t ps w')"

lemma record_all_reads:
  assumes "record_all env t ps w = Inr w'" "counters_ok (pw_counters w)" "numeric_exact env"
    "\<forall>(a, x, c, now) \<in> set ps. eight_digits x"
    and "getActive (se_policy env) t (pw_db w) = Inr (Some r)" "read_document False (po_content r) = Some doc"
    and "win \<in> set (policy_windows doc)"
  shows "counters_ok (pw_counters w') \<and>
    dec_units (readSpendWindow t agent win cur now' (pw_counters w')) = dec_units (readSpendWindow t agent win cur now' (pw_counters w)) +
      sum_list (map (\<lambda>(a, x, c, now). dec_units x)
        (filter (\<lambda>(a, x, c, now). a = agent \<and> c = cur \<and> bucketStart win now = bucketStart win now') ps))"
  using assms(1,2,4,5)
proof (induction ps arbitrary: w)
  case (Cons p ps)
  obtain a x c now where p: "p = (a, x, c, now)" by (cases p) auto
  with Cons.prems(1) obtain w1 where w1: "recordAgentSpend env t a x c now w = Inr w1" "record_all env t ps w1 = Inr w'"
    by (auto split: sum.splits)
  from Cons.prems(3) have x: "eight_digits x" "\<forall>(a, x, c, now) \<in> set ps. eight_digits x" by (auto simp: p)
  note step = record_reads [OF w1(1) Cons.prems(2) assms(3) x(1) Cons.prems(4) assms(6), of agent win cur now']
  have "getActive (se_policy env) t (pw_db w1) = Inr (Some r)" using step Cons.prems(4) by simp
  from Cons.IH [OF w1(2) conjunct1 [OF step] x(2) this] step show ?case
    using assms(7) by (auto simp: p)
qed simp

section \<open>What an evaluation does\<close>

lemma evaluateForGateE:
  assumes "evaluateForGate env t actor i now intent w = Inr (final, w')"
  obtains r doc d where "getActive (se_policy env) t (pw_db w) = Inr (Some r)"
    "read_document True (po_content r) = Some doc"
    "evaluate doc (gate_action t now doc (pw_counters w) intent) = Some d"
    "final_decision env t (po_content r) intent (base_decision (se_policy env) i r doc intent d) = Inr final"
    "pw_db w' = pw_db w" "pw_counters w' = pw_counters w"
  using assms by (auto simp: evaluateForGate_def Let_def split: sum.splits option.splits)

lemma final_decision_tightens:
  "final_decision env t content intent base = Inr final \<Longrightarrow>
     final = base \<or> (\<exists>rep envelope. final = applyReputationAdjustment base rep envelope)"
  by (auto simp: final_decision_def split: option.splits sum.splits)

lemma adjustment_keeps: "gd_matched_rule_id (applyReputationAdjustment d rep e) = gd_matched_rule_id d"
proof -
  have "decision_tightens d (applyReputationAdjustment d rep e)" by (rule adjustment_tightens)
  then show ?thesis unfolding decision_tightens_def
    by (elim conjE) (erule ssubst [where P = "\<lambda>x. gd_matched_rule_id x = gd_matched_rule_id d"], simp)
qed

lemma gate_action_amount:
  "ac_amount (gate_action t now doc cs intent) = Some \<lparr>am_currency = gi_currency intent, am_value = gi_amount intent\<rparr>"
  by (simp add: gate_action_def Let_def)

lemma gate_action_wf:
  assumes "is_proper_decimal (gi_amount intent)" "counters_ok cs"
  shows "action_wf (gate_action t now doc cs intent)"
proof -
  have read: "is_proper_decimal (readSpendWindow t a w c now cs)" for a w c
    using reading_ok [OF assms(2)] by (simp add: eight_digits_def is_decimal_proper)
  have "is_proper_decimal (am_value v)" if "load_spend t a now cs ws k = Some v" for a ws k v
  proof -
    have "foldl (\<lambda>s (window, currency). s(window \<mapsto> \<lparr>am_currency = currency,
        am_value = readSpendWindow t a window currency now cs\<rparr>)) s ws k = Some v \<Longrightarrow>
      (\<forall>k v. s k = Some v \<longrightarrow> is_proper_decimal (am_value v)) \<Longrightarrow> is_proper_decimal (am_value v)" for s
      by (induction ws arbitrary: s) (auto simp: read split: if_splits)
    with that show ?thesis by (simp add: load_spend_def)
  qed
  with assms(1) show ?thesis by (auto simp: action_wf_def gate_action_def Let_def)
qed

lemma active_row:
  assumes "policies_reach env db" "getActive env t db = Inr (Some r)"
  shows "validatePolicyDocument (Some (po_content r)) = Inr (po_content r)"
proof -
  from assms(2) have "r \<in> set (pb_policies db)"
    by (auto simp: getActive_def find_Some_iff split: option.splits if_splits)
  with reach_ok [OF assms(1)] show ?thesis by (simp add: db_ok_def policy_ok_def)
qed

lemma active_reads:
  assumes "policies_reach env db" "getActive env t db = Inr (Some r)" "read_document True (po_content r) = Some doc"
  shows "document_wf doc"
  using validated_reads [OF active_row [OF assms(1,2)], of False] strict_document [OF assms(3)] by simp

section \<open>Properties\<close>

lemma decides:
  assumes "policies_reach (se_policy env) (pw_db w)"
    and "getActive (se_policy env) t (pw_db w) = Inr (Some r)" "unchecked_document (po_content r)"
    and "is_proper_decimal (gi_amount intent)" "counters_ok (pw_counters w)"
    and "\<And>resolve cp. se_resolveReputation env = Some resolve \<Longrightarrow> \<exists>rep. resolve t cp = Inr rep"
  shows "\<exists>doc d final. read_document True (po_content r) = Some doc \<and>
     evaluate doc (gate_action t now doc (pw_counters w) intent) = Some d \<and>
     decision_tightens (base_decision (se_policy env) i r doc intent d) final \<and>
     evaluateForGate env t actor i now intent w =
       Inr (final, w\<lparr>pw_decisions := pw_decisions w @ [decision_insert t r intent final],
         pw_audit := pw_audit w @ [evaluate_event t actor r intent (base_decision (se_policy env) i r doc intent d) final]\<rparr>)"
proof -
  obtain doc where doc: "read_document True (po_content r) = Some doc"
    using validated_reads [OF active_row [OF assms(1,2)], of True] assms(3) by blast
  obtain d where d: "evaluate doc (gate_action t now doc (pw_counters w) intent) = Some d"
    using evaluate_rules_total [OF gate_action_wf [OF assms(4,5)]] unfolding evaluate_def by blast
  let ?base = "base_decision (se_policy env) i r doc intent d"
  obtain final where final: "final_decision env t (po_content r) intent ?base = Inr final"
  proof (cases "se_resolveReputation env")
    case None
    then show thesis by (intro that [of ?base]) (simp add: final_decision_def)
  next
    case (Some resolve)
    then obtain rep where "resolve t (gi_destination_counterparty_id intent) = Inr rep" using assms(6) by blast
    with Some show thesis by (cases "readReputationEnvelope (Option.bind (gd_matched_rule_id ?base) (findRule_json (po_content r)))")
        (intro that, simp add: final_decision_def)+
  qed
  from final_decision_tightens [OF final] have "decision_tightens ?base final"
    using adjustment_tightens decision_tightens_refl by auto
  with doc d final show ?thesis by (simp add: evaluateForGate_def assms(2) Let_def)
qed

text \<open>A match of a rule with an envelope, in exact arithmetic.\<close>

lemma matched_spend:
  assumes "rule_matches doc act rule" "action_wf act" "agent_spend_in_window (rl_when rule) = Some c"
    and "is_proper_decimal (am_value (sw_lte c))"
  shows "\<exists>m. ac_amount act = Some m \<and> am_currency m = am_currency (sw_lte c) \<and>
      dec_units (prior_spend c act) + dec_units (am_value m) \<le> dec_units (am_value (sw_lte c))"
proof -
  from assms(1) obtain cs where "matchRule doc rule act = Some (True, cs)" by (auto simp: rule_matches_def)
  from prim_spend_in_windowD [OF matched_primitives(5) [OF this] assms(3)] obtain m p where
    m: "ac_amount act = Some m" "am_currency m = am_currency (sw_lte c)"
    "addDecimal_vm (prior_spend c act) (am_value m) = Some p" "compareDecimal_vm p (am_value (sw_lte c)) \<le> 0" by blast
  moreover have "is_proper_decimal (am_value m)" using assms(2) m(1) by (simp add: action_wf_def)
  ultimately show ?thesis
    using vm_decimal.cap_check_iff [OF prior_spend_proper [OF assms(2)] _ assms(4) m(3)] by blast
qed

text \<open>A tenant with one or two spend envelopes of 1000 over the same 24 hours.\<close>

definition envelope_rule :: "string \<Rightarrow> json" where
  "envelope_rule currency = JObj
     [ (''id'', JStr (''pay_'' @ currency)), (''applies_to'', JArr [JStr ''outbound_payment'']),
       (''when'', JObj
          [ (''counterparty.in'', JStr ''vendors''),
            (''agent.spend_in_window'', JObj [(''window'', JStr ''24h''),
               (''lte'', JObj [(''currency'', JStr currency), (''value'', JStr ''1000'')])]),
            (''agent.confidence.gte'', JNum (9 / 10)) ]),
       (''execute'', JStr ''auto'') ]"

definition envelope_policy :: "string list \<Rightarrow> json" where
  "envelope_policy currencies = JObj
     [ (''version'', JNum 1), (''lists'', JObj [(''vendors'', JArr [JStr ''cp_1''])]),
       (''rules'', JArr (map envelope_rule currencies)) ]"

definition envelope_env :: service_env where
  "envelope_env = \<lparr>se_policy = sample_policy_env,
     se_cast = (\<lambda>s. if eight_digits s then Some s else None),
     se_plus = (\<lambda>a b. case addDecimal_vm a b of None \<Rightarrow> None | Some c \<Rightarrow> if eight_digits c then Some c else None),
     se_resolveReputation = None\<rparr>"

definition envelope_db :: "string list \<Rightarrow> policy_error + policy_db" where
  "envelope_db currencies =
     (case compose_policy sample_policy_env ''tnt_1'' ''user_1'' ''pol_1'' 5 (Some (envelope_policy currencies)) None
        \<lparr>pb_policies = [], pb_audit = []\<rparr> of
      Inl e \<Rightarrow> Inl e
    | Inr db \<Rightarrow> sign_policy sample_policy_env ''tnt_1'' ''user_1'' 6 (Some ''pol_1'') (Some [(''0xA1'', ''ok'')]) db)"

definition world_of :: "policy_error + policy_db \<Rightarrow> policy_world" where
  "world_of r = \<lparr>pw_db = (case r of Inl e \<Rightarrow> \<lparr>pb_policies = [], pb_audit = []\<rparr> | Inr db \<Rightarrow> db),
     pw_counters = [], pw_decisions = [], pw_audit = []\<rparr>"

definition agent_intent :: "string \<Rightarrow> string \<Rightarrow> gate_intent" where
  "agent_intent amount currency = \<lparr>gi_id = ''pi_1'', gi_owner_id = ''tnt_1'', gi_created_by_agent_id = Some ''agt_1'',
     gi_action_type = ''ach_outbound'', gi_source_account_id = ''acc_1'', gi_destination_counterparty_id = ''cp_1'',
     gi_amount = amount, gi_currency = currency, gi_status = ''approved'', gi_policy_decision_id = None,
     gi_evidence_ids = [''ev_1''], gi_confidence = Some (95 / 100), gi_evidence_score = None, gi_risk_level = None,
     gi_counterparty_trust_status = None, gi_invoice_id = None, gi_obligation_id = None, gi_settlement = None,
     gi_escrow = None\<rparr>"

definition answer :: "service_error + gate_decision \<times> policy_world \<Rightarrow> (string \<times> string option) option" where
  "answer r = (case r of Inl e \<Rightarrow> None | Inr (d, w) \<Rightarrow> Some (gd_outcome d, gd_matched_rule_id d))"

lemma envelope_bound:
  assumes ev: "evaluateForGate env t actor i now intent w = Inr (final, w1)"
    and env: "policies_reach (se_policy env) (pw_db w)" "counters_ok (pw_counters w)" "numeric_exact env"
    and intent: "eight_digits (gi_amount intent)" "gi_created_by_agent_id intent = Some a"
    and rule: "getActive (se_policy env) t (pw_db w) = Inr (Some r)" "read_document True (po_content r) = Some doc"
      "gd_matched_rule_id final = Some rid" "findRule doc rid = Some rule"
      "agent_spend_in_window (rl_when rule) = Some c" "is_proper_decimal (am_value (sw_lte c))" "sole_currency doc c"
    and settle: "recordAgentSpend env t a (gi_amount intent) (gi_currency intent) now' w1 = Inr w2"
      "bucketStart (sw_window c) now' = bucketStart (sw_window c) now"
  shows "gi_currency intent = am_currency (sw_lte c) \<and>
    dec_units (readSpendWindow t a (sw_window c) (gi_currency intent) now' (pw_counters w2)) \<le> dec_units (am_value (sw_lte c))"
proof -
  let ?act = "gate_action t now doc (pw_counters w) intent"
  obtain d where d: "evaluate doc ?act = Some d"
    "final_decision env t (po_content r) intent (base_decision (se_policy env) i r doc intent d) = Inr final"
    "pw_db w1 = pw_db w" "pw_counters w1 = pw_counters w"
    by (rule evaluateForGateE [OF ev]) (use rule(1,2) in auto)
  have wf: "document_wf doc" by (rule active_reads [OF env(1) rule(1,2)])
  have amount: "is_proper_decimal (gi_amount intent)" using intent(1) by (simp add: eight_digits_def is_decimal_proper)
  note act = gate_action_wf [OF amount env(2)]
  have "gd_matched_rule_id final = de_matched_rule_id d"
    using final_decision_tightens [OF d(2)] by (auto simp: adjustment_keeps base_decision_def Let_def)
  with rule(3) have m: "de_matched_rule_id d = Some rid" by simp
  from rule(4) have mem: "rule \<in> set (pd_rules doc)" "rl_id rule = rid" by (auto simp: findRule_def find_Some_iff)
  with matched_rule_unique [OF wf d(1) m] have match: "rule_matches doc ?act rule" by metis
  have "\<exists>m. ac_amount ?act = Some m \<and> am_currency m = am_currency (sw_lte c) \<and>
      dec_units (prior_spend c ?act) + dec_units (am_value m) \<le> dec_units (am_value (sw_lte c))"
    using match act rule(5,6) by (rule matched_spend)
  then have le: "gi_currency intent = am_currency (sw_lte c)"
    "dec_units (prior_spend c ?act) + dec_units (gi_amount intent) \<le> dec_units (am_value (sw_lte c))"
    unfolding gate_action_amount by simp_all
  have prior: "prior_spend c ?act = readSpendWindow t a (sw_window c) (am_currency (sw_lte c)) now (pw_counters w)"
    by (rule prior_spend_read [OF wf mem(1) rule(5,7) intent(2)])
  have same: "readSpendWindow t a (sw_window c) x now' cs = readSpendWindow t a (sw_window c) x now cs" for x cs
    unfolding readSpendWindow_def same_counter_def [abs_def] settle(2) by (rule refl)
  have win: "sw_window c \<in> set (policy_windows doc)"
    using imageI [OF collectSpendWindows_complete [OF wf mem(1) rule(5)], of fst] by (simp add: policy_windows_def)
  have "counters_ok (pw_counters w1)" "getActive (se_policy env) t (pw_db w1) = Inr (Some r)" using d(3,4) env(2) rule(1) by simp_all
  from record_reads [OF settle(1) this(1) env(3) intent(1) this(2) strict_document [OF rule(2)],
      of a "sw_window c" "gi_currency intent" now']
  have "dec_units (readSpendWindow t a (sw_window c) (gi_currency intent) now' (pw_counters w2)) =
      dec_units (readSpendWindow t a (sw_window c) (gi_currency intent) now (pw_counters w)) + dec_units (gi_amount intent)"
    using win settle(2) by (simp add: d(4) same)
  with le prior show ?thesis by simp
qed

text \<open>The sample tenant satisfies what the properties assume.\<close>

lemma envelope_env_exact: "numeric_exact envelope_env"
proof -
  have "eight_digits c \<and> dec_units c = dec_units a + dec_units b"
    if "eight_digits a" "eight_digits b" "se_plus envelope_env a b = Some c" for a b c
  proof -
    from that(3) have "addDecimal_vm a b = Some c" "eight_digits c"
      by (auto simp: envelope_env_def split: option.splits if_splits)
    with vm_decimal.add_units [of a b c] that(1,2) show ?thesis
      by (simp add: eight_digits_def is_decimal_proper)
  qed
  moreover have "eight_digits x \<and> dec_units x = dec_units s" if "eight_digits s" "se_cast envelope_env s = Some x" for s x
    using that by (simp add: envelope_env_def)
  ultimately show ?thesis unfolding numeric_exact_def by blast
qed

lemma envelope_db_reach:
  assumes "envelope_db currencies = Inr db"
  shows "policies_reach sample_policy_env db"
proof -
  from assms obtain db0 where db0: "compose_policy sample_policy_env ''tnt_1'' ''user_1'' ''pol_1'' 5
      (Some (envelope_policy currencies)) None \<lparr>pb_policies = [], pb_audit = []\<rparr> = Inr db0"
    "sign_policy sample_policy_env ''tnt_1'' ''user_1'' 6 (Some ''pol_1'') (Some [(''0xA1'', ''ok'')]) db0 = Inr db"
    by (auto simp: envelope_db_def split: sum.splits)
  from policies_reach.sign [OF policies_reach.compose [OF policies_reach.start db0(1)] db0(2)] show ?thesis .
qed

lemma world_reach: "policies_reach sample_policy_env (pw_db (world_of (envelope_db currencies)))"
  using envelope_db_reach policies_reach.start by (simp add: world_of_def split: sum.split)

text \<open>
  A policy that went through compose and sign always answers the gate: for any intent
  with a decimal amount, \<open>evaluateForGate\<close> returns a decision and never throws, if the two fields
  the validator does not look at have their types and the reputation source answers; the decision
  is that of the VM on the intent and the agent's window totals, tightened at most; exactly one
  decision row and one audit event with its outcome are written, and the policies and counters
  stay as they are.
\<close>

theorem signed_policy_always_decides:
  assumes "policies_reach (se_policy env) (pw_db w)"
    and "getActive (se_policy env) t (pw_db w) = Inr (Some r)" "unchecked_document (po_content r)"
    and "is_proper_decimal (gi_amount intent)" "counters_ok (pw_counters w)"
    and "\<And>resolve cp. se_resolveReputation env = Some resolve \<Longrightarrow> \<exists>rep. resolve t cp = Inr rep"
  shows "\<exists>doc d final. read_document True (po_content r) = Some doc \<and>
     evaluate doc (gate_action t now doc (pw_counters w) intent) = Some d \<and>
     decision_tightens (base_decision (se_policy env) i r doc intent d) final \<and>
     evaluateForGate env t actor i now intent w =
       Inr (final, w\<lparr>pw_decisions := pw_decisions w @ [decision_insert t r intent final],
         pw_audit := pw_audit w @ [evaluate_event t actor r intent (base_decision (se_policy env) i r doc intent d) final]\<rparr>)"
  by (rule decides [OF assms(1-5)]) (rule assms(6))

text \<open>
  The spend envelope binds one payment at a time: if the gate's policy evaluation matches
  a rule with \<open>agent.spend_in_window\<close>, the policy denominates that window in one currency only, and
  the payment then settles in the same bucket with nothing else settled in between, the agent's
  counter for the window, with this payment included, is at most the cap.
\<close>

theorem matched_payment_stays_in_envelope:
  assumes "evaluateForGate env t actor i now intent w = Inr (final, w1)"
    and "policies_reach (se_policy env) (pw_db w)" "counters_ok (pw_counters w)" "numeric_exact env"
    and "eight_digits (gi_amount intent)" "gi_created_by_agent_id intent = Some a"
    and "getActive (se_policy env) t (pw_db w) = Inr (Some r)" "read_document True (po_content r) = Some doc"
      "gd_matched_rule_id final = Some rid" "findRule doc rid = Some rule"
      "agent_spend_in_window (rl_when rule) = Some c" "is_proper_decimal (am_value (sw_lte c))" "sole_currency doc c"
    and "recordAgentSpend env t a (gi_amount intent) (gi_currency intent) now' w1 = Inr w2"
      "bucketStart (sw_window c) now' = bucketStart (sw_window c) now"
  shows "gi_currency intent = am_currency (sw_lte c) \<and>
    dec_units (readSpendWindow t a (sw_window c) (gi_currency intent) now' (pw_counters w2)) \<le> dec_units (am_value (sw_lte c))"
  by (rule envelope_bound [OF assms])

text \<open>
  The counters are the sum of what settled: after any payments under one policy, the
  counter of an agent, a window the policy names, a currency and a bucket is its value
  before plus the amounts, in exact arithmetic, of the payments of that agent in that currency
  whose time lies in that bucket, and the rows keep distinct keys.
\<close>

theorem counters_sum_settled_payments:
  assumes "record_all env t ps w = Inr w'" "counters_ok (pw_counters w)" "numeric_exact env"
    "\<forall>(a, x, c, now) \<in> set ps. eight_digits x"
    and "getActive (se_policy env) t (pw_db w) = Inr (Some r)" "read_document False (po_content r) = Some doc"
    and "win \<in> set (policy_windows doc)"
  shows "counters_ok (pw_counters w') \<and>
    dec_units (readSpendWindow t agent win cur now' (pw_counters w')) = dec_units (readSpendWindow t agent win cur now' (pw_counters w)) +
      sum_list (map (\<lambda>(a, x, c, now). dec_units x)
        (filter (\<lambda>(a, x, c, now). a = agent \<and> c = cur \<and> bucketStart win now = bucketStart win now') ps))"
  by (rule record_all_reads [OF assms])

text \<open>
  A later currency hides the spend of the others: the totals are keyed by window alone, so when the
  last pair the policy lists for a window is in another currency than a rule's envelope, the VM reads
  the prior spend of that envelope as 0, whatever the counters hold.
\<close>

theorem second_currency_hides_spend:
  assumes "collectSpendWindows doc = ws @ [(sw_window c, cur)]" and "cur \<noteq> am_currency (sw_lte c)"
  shows "prior_spend c (gate_action t now doc cs intent) = ''0''"
  using assms by (cases "gi_created_by_agent_id intent")
    (simp_all add: prior_spend_def gate_action_def load_spend_def Let_def split: option.split)

text \<open>
  Evaluation reserves nothing: it leaves the counters as they are, so every payment that is evaluated
  before the first settles is measured against the same total.
\<close>

theorem envelope_reserves_nothing:
  assumes "evaluateForGate env t actor i now intent w = Inr (d, w')"
  shows "pw_counters w' = pw_counters w"
  using assms by (rule evaluateForGateE)

text \<open>A tenant with an active signed policy, for the witness.\<close>

abbreviation envelope_world :: policy_world where
  "envelope_world \<equiv> world_of (envelope_db [''USD''])"

abbreviation sample_evaluate :: "string \<Rightarrow> string \<Rightarrow> policy_world \<Rightarrow> service_error + gate_decision \<times> policy_world" where
  "sample_evaluate i amount w \<equiv>
     evaluateForGate envelope_env ''tnt_1'' ''user_1'' i 1000001 (agent_intent amount ''USD'') w"

definition active_content :: "policy_error + policy_row option \<Rightarrow> json option" where
  "active_content r = (case r of Inr (Some row) \<Rightarrow> Some (po_content row) | _ \<Rightarrow> None)"

lemma envelope_content:
  "active_content (getActive sample_policy_env ''tnt_1'' (pw_db (world_of (envelope_db [''USD''])))) = Some (envelope_policy [''USD''])"
  by code_simp

lemma envelope_unchecked: "unchecked_document (envelope_policy [''USD''])"
  by code_simp

lemma envelope_row:
  obtains r where "getActive (se_policy envelope_env) ''tnt_1'' (pw_db envelope_world) = Inr (Some r)"
    "unchecked_document (po_content r)"
  using envelope_content envelope_unchecked
  by (auto simp: active_content_def envelope_env_def split: sum.splits option.splits)

lemma envelope_world_counters: "pw_counters envelope_world = []" "counters_ok []"
  by (simp_all add: counters_ok_def world_of_def)

lemma sample_amount: "is_proper_decimal ''900''"
  by code_simp

theorem signed_policy_always_decides_witness:
  "\<exists>final w'. sample_evaluate ''pd_1'' ''900'' envelope_world = Inr (final, w') \<and> length (pw_decisions w') = 1"
proof -
  obtain r where r: "getActive (se_policy envelope_env) ''tnt_1'' (pw_db envelope_world) = Inr (Some r)"
    "unchecked_document (po_content r)" by (rule envelope_row)
  have reach: "policies_reach (se_policy envelope_env) (pw_db envelope_world)"
    by (simp add: envelope_env_def world_reach)
  have rep: "se_resolveReputation envelope_env = Some resolve \<Longrightarrow> \<exists>rep. resolve t cp = Inr rep" for resolve t cp
    by (simp add: envelope_env_def)
  have amount: "is_proper_decimal (gi_amount (agent_intent ''900'' ''USD''))"
    by (simp add: agent_intent_def sample_amount)
  show ?thesis
    using signed_policy_always_decides [OF reach r amount, of 1000001 "''pd_1''" "''user_1''"]
      rep envelope_world_counters by (auto simp: world_of_def)
qed

end
