(* ===== verification/Gate_Policy.thy ===== *)
theory Gate_Policy
  imports Gate_Properties Policy_Envelope
begin










section \<open>The claim\<close>











end
