(* ===== verification/Spec2Isabelle.thy ===== *)
theory Spec2Isabelle
  imports Gate_Properties Policy_Facts Gate_Trace Create_Facts Audit_Properties Policy_Messages
    Gate_Policy
begin

text \<open>
  A verification development of Brain's money path.

  \<^bold>\<open>The program.\<close> Brain holds companies' ledgers and lets agents and people propose payments. A
  payment intent is created (services/execution/src/payment-intents/PaymentIntentService.ts), decided
  on by a policy the company has signed (services/policy), signed by members of the company
  (services/execution/src/approvals), and executed: the pre-execution gate (shared/src/gate/gate.ts)
  re-checks it against the live world, a transaction reserves the funds and hands it to a durable
  outbox (services/execution/src/outbox), and a worker calls the rail and settles the intent. Every
  step writes an event to the audit log, a hash chain per tenant (shared/src/audit), and a worker of
  services/audit anchors windows of it as Merkle roots on chain and verifies them later. The
  development models these parts, from the decimal strings up to sequences of requests.

  \<^bold>\<open>The theories, in the order of the program.\<close>
  \<^item> Prelude: the JavaScript the code uses (strings, BigInt, JSON values), null and undefined.
  \<^item> Decimal, Decimal_Order: the decimal strings of the gate and the VM, with their meaning in
    units of 10^-18; comparison and addition are exact on proper decimals.
  \<^item> Policy_DSL, Policy_Cron, Policy_VM, Policy_Facts (services/policy/src/dsl.ts and vm.ts): the
    policy language and its evaluation, cron schedules, first-match semantics and limits.
  \<^item> Gate_Types, Evidence, Approver_Roles, Gate (shared/src/gate): the gate with every check, row,
    early return and audit event; the evidence validator; the role quorum. Gate_Facts and
    Gate_Properties say what a passed gate implies; Gate_Trace that its rows follow the plan of
    checks; Gate_Sample is a concrete world in which it passes.
  \<^item> Lifecycle: the state machines of services/execution, as instances of one locale.
  \<^item> Approval_Authority (members/authorizeApproval.ts): a member's authority and its limits.
  \<^item> Exec_Store (the repositories of services/ledger and services/execution): the tables as lists of
    rows, transactions, the service monad \<open>svc\<close> (errors as values, the world threaded), and the
    relation calculus \<open>evolves\<close> with the locales \<open>store_relation\<close> and \<open>store_invariant\<close>.
  \<^item> Approvals (approvals/ApprovalService.ts), Reservations: signatures and quorum; reserved funds
    never exceed the balance.
  \<^item> Redaction (redaction.ts), Rails (rails/receipts.ts and permanent-failure.ts): what may not be
    persisted; what a rail receipt must hold; which failures are final.
  \<^item> Outbox, Outbox_Worker (outbox/OutboxService.ts and worker.ts): the outbox operations and the
    worker cycle. Outbox_Machine is the abstract state machine of one row and the simulation of the
    worker by it, under the locale \<open>outbox_worker\<close> (the worker's callbacks leave the outbox alone);
    Outbox_Safety holds its claims.
  \<^item> Payment_Intents: every operation of the payment intent service, the actor resolver, the gate's
    loaders bound to the service. Intent_Facts: one locale per table for relations that ignore it,
    each operation proved to respect them once. Intent_Moves: what every operation leaves of the
    stored intents. Money_Path: requests and worker cycles in any order, and the interpretation of
    the worker's contract on the service. Hand_Off: the invariant of one outbox row per hand-off.
    Execute_Facts, Settlement, Money_Properties, Kill_Switch, Create_Facts: the claims on
    \<open>execute\<close>, \<open>completeExecution\<close>, the hand-off, the kill switch over later requests, and
    \<open>create\<close>, idempotent over later requests. Money_Sample is the concrete tenant of the
    witnesses.
  \<^item> Policy_Validate, Policy_Lint, Policy_Typed (validate.ts, linter.ts): the checks a document passes
    before it is stored and the findings before it is activated; an accepted document reads as a
    well-formed one of Policy_DSL. Policy_Messages (message-templates.ts): its templates.
  \<^item> Policy_Store, Policy_Activation (repository.ts, routes.ts, signing.ts): the table of policy versions,
    composing, signing and activation, with the invariant of every reachable table.
  \<^item> Policy_Service, Policy_Reputation, Policy_Envelope (service.ts, spend-counters.ts, reputation.ts):
    the decision the gate asks for, the counters of settled payments, the reputation adjustment.
    Gate_Policy puts this service behind the gate.
  \<^item> Json_Text (shared/src/audit/hash.ts and the gate's snapshot hash): canonical JSON, and that two
    values with one canonical text are the same value up to the order of keys. Number_Text prints
    numbers in the examples.
  \<^item> Audit_Hash, Audit_Chain, Audit_Facts (shared/src/audit): event hashes, the relation \<open>same_value\<close>
    that says independently of the serializer when two contents are the same, the two emitters (Postgres
    and in memory), the consistency check and idempotency keys; the invariant of the stored chain.
  \<^item> Merkle, Anchors, Anchor_Facts (services/audit/src/merkle, anchor and repository): trees and proofs,
    the anchoring worker over windows of events. Audit_Verifier, Verifier_Facts: the paged passes of
    the chain verifier under the locale \<open>paged_verifier\<close>. Audit_Properties holds the claims.

  \<^bold>\<open>Modelling choices.\<close> A database table is a list of rows in insertion order; row-level security is
  the tenant argument; a transaction that throws restores the tables. What Postgres computes on
  \<open>NUMERIC\<close>, the hash functions, the loaders and the rails are parameters; the columns are
  \<open>NUMERIC(28, 8)\<close>, so exactness of stored amounts and sums is assumed only for decimals of at most
  eight fraction digits. A policy document is JSON and read at the types of Policy_DSL; the two
  fields no check looks at are required to have their declared types. The signature check of a
  policy (EIP-712) is a predicate, and a request reads the clock once. A rail call is an effect in
  the log, whatever it returns. Requests are atomic: the interleaving of two requests inside one
  handler is not modelled, except where the code itself re-checks (conditional transitions, unique
  keys). An audit \<open>emit\<close> is one atomic step, as the code takes the tenant's advisory lock around it.
  Keccak, SHA-256, the printing of numbers and \<open>toISOString\<close> are parameters of the audit theories;
  freedom from collisions is assumed only as injectivity on the finite set of texts a claim names.
  All definitions are executable; none needs fuel, and every loop of the modelled code is
  structural or bounded by its input.

  \<^bold>\<open>Not modelled.\<close> HTTP routes and wiring (services/api), authentication, the agents and their
  language models, ingestion and projection (services/raw, services/canonical, services/wiki), the
  reconciliation matchers of services/ledger, the legacy evaluation, simulator and diffs of the policy
  service and its read routes, the on-chain readers of signers and reputation, the real rails, the
  generated clients and the Solidity contracts; metrics and spans everywhere. Of the audit service, the
  read routes, webhooks, event search and health gauges.
\<close>

end
